(* ===== verification/Prelude.thy ===== *)
theory Prelude
  imports GoText "HOL-Library.Word" "HOL-Library.State_Monad" "HOL-Library.Finite_Map"
    "HOL-Library.List_Lexorder" "HOL-Library.Char_ord" "HOL-Library.Sublist"
    "HOL-Library.Signed_Division" "HOL-Library.Multiset"
begin

text \<open>
  The prelude of the development: what the operator uses of the Go language and of its standard
  library (strings, decimal and hexadecimal rendering, sorting with a comparison function,
  int32 arithmetic), error values, and the interaction monad in which every controller is
  written, with the small program logic the component proofs share.

  \<^bold>\<open>Interaction monad.\<close> A controller talks to two services that are not part of the repository:
  the Kubernetes API server and etcd. A run of a controller is a value together with the list of
  the calls it made, each with the reply it got. What the services reply is a parameter: a
  function of the whole history of calls and of the request. Quantifying over all such functions
  covers every behaviour of the services, concurrent changes by other clients included.
\<close>

named_theorems io_rules \<open>introduction rules of the interaction monad's program logic\<close>
named_theorems emits_rules \<open>compositional rules for the predicate emits\<close>
named_theorems go_string \<open>equations for the Go string functions\<close>

section \<open>Basic types\<close>

text \<open>
  Instants are nanoseconds since the Unix epoch and durations are nanoseconds, as in Go's
  \<^verbatim>\<open>time\<close> package. A Go \<^verbatim>\<open>map[string]string\<close> is a finite map.
\<close>

type_synonym gotime = int
type_synonym duration = int
type_synonym smap = "(string, string) fmap"
type_synonym u64 = "64 word"

record nsname =
  nn_namespace :: string
  nn_name :: string

abbreviation seconds :: "int \<Rightarrow> duration" where
  "seconds n \<equiv> n * 1000000000"

abbreviation minutes :: "int \<Rightarrow> duration" where
  "minutes n \<equiv> seconds (60 * n)"

text \<open>The zero value of \<^verbatim>\<open>time.Time\<close> (1 January of year 1, UTC).\<close>

definition zeroTime :: gotime where
  "zeroTime = seconds (- 62135596800)"

text \<open>\<^verbatim>\<open>IsZero\<close> on a \<^verbatim>\<open>*metav1.Time\<close>: true for a nil pointer and for the zero instant.\<close>

definition isZero :: "gotime option \<Rightarrow> bool" where
  "isZero t = (case t of None \<Rightarrow> True | Some x \<Rightarrow> x = zeroTime)"

lemma isZero_None [simp]: "isZero None"
  by (simp add: isZero_def)

text \<open>Conversion to \<^verbatim>\<open>int32\<close>: the low 32 bits, read in two's complement.\<close>

definition toInt32 :: "int \<Rightarrow> int" where
  "toInt32 x = (x + 2 ^ 31) mod 2 ^ 32 - 2 ^ 31"

lemma toInt32_id: "- (2 ^ 31) \<le> x \<Longrightarrow> x < 2 ^ 31 \<Longrightarrow> toInt32 x = x"
  by (simp add: toInt32_def)

lemma toInt32_range: "- (2 ^ 31) \<le> toInt32 x \<and> toInt32 x < 2 ^ 31"
proof -
  have "0 \<le> (x + 2 ^ 31) mod 2 ^ 32" and "(x + 2 ^ 31) mod 2 ^ 32 < 2 ^ 32"
    by simp_all
  then show ?thesis by (simp add: toInt32_def)
qed

text \<open>A 64-bit result that wraps.\<close>

definition wrap64 :: "int \<Rightarrow> int" where
  "wrap64 x = (x + 2 ^ 63) mod 2 ^ 64 - 2 ^ 63"

section \<open>Errors\<close>

text \<open>
  A Go error: what the API-machinery predicates (\<^verbatim>\<open>errors.IsNotFound\<close> and the like) can tell of
  it, and its message. Wrapping with \<^verbatim>\<open>%w\<close> keeps the kind, because those predicates unwrap.
\<close>

datatype errkind =
  NotFound | AlreadyExists | Conflict | Invalid | BadRequest | Panicked | OtherErr

datatype goerror = GoError (err_kind: errkind) (err_msg: string)

definition IsNotFound :: "goerror \<Rightarrow> bool" where
  "IsNotFound e = (err_kind e = NotFound)"

definition IsConflict :: "goerror \<Rightarrow> bool" where
  "IsConflict e = (err_kind e = Conflict)"

definition IsAlreadyExists :: "goerror \<Rightarrow> bool" where
  "IsAlreadyExists e = (err_kind e = AlreadyExists)"

definition IsInvalid :: "goerror \<Rightarrow> bool" where
  "IsInvalid e = (err_kind e = Invalid)"

definition IsBadRequest :: "goerror \<Rightarrow> bool" where
  "IsBadRequest e = (err_kind e = BadRequest)"

text \<open>\<^verbatim>\<open>fmt.Errorf("...")\<close> and \<^verbatim>\<open>fmt.Errorf("...: %w", err)\<close>.\<close>

definition errorf :: "string \<Rightarrow> goerror" where
  "errorf msg = GoError OtherErr msg"

definition wrapf :: "string \<Rightarrow> goerror \<Rightarrow> goerror" where
  "wrapf pre e = GoError (err_kind e) (pre @ '': '' @ err_msg e)"

text \<open>Run-time panics: the controller runtime recovers them into an error of the reconcile.\<close>

definition nilDeref :: goerror where
  "nilDeref = GoError Panicked ''invalid memory address or nil pointer dereference''"

definition indexOutOfRange :: goerror where
  "indexOutOfRange = GoError Panicked ''index out of range''"

lemma wrapf_kind [simp]: "err_kind (wrapf pre e) = err_kind e"
  by (simp add: wrapf_def)

section \<open>Strings\<close>

text \<open>\<^verbatim>\<open>strings.HasPrefix\<close>, \<^verbatim>\<open>Contains\<close>, \<^verbatim>\<open>TrimPrefix\<close>, \<^verbatim>\<open>Index\<close>, \<^verbatim>\<open>LastIndex\<close> and \<^verbatim>\<open>Join\<close>; the
  index functions return \<^const>\<open>None\<close> for Go's -1.\<close>

definition HasPrefix :: "string \<Rightarrow> string \<Rightarrow> bool" where
  "HasPrefix s p = prefix p s"

fun strIndex :: "string \<Rightarrow> string \<Rightarrow> nat option" where
  "strIndex [] p = (if p = [] then Some 0 else None)"
| "strIndex (c # cs) p = (if prefix p (c # cs) then Some 0 else map_option Suc (strIndex cs p))"

fun strLastIndex :: "string \<Rightarrow> string \<Rightarrow> nat option" where
  "strLastIndex [] p = (if p = [] then Some 0 else None)"
| "strLastIndex (c # cs) p =
     (case strLastIndex cs p of
        Some i \<Rightarrow> Some (Suc i)
      | None \<Rightarrow> if prefix p (c # cs) then Some 0 else None)"

definition Contains :: "string \<Rightarrow> string \<Rightarrow> bool" where
  "Contains s p = (strIndex s p \<noteq> None)"

definition TrimPrefix :: "string \<Rightarrow> string \<Rightarrow> string" where
  "TrimPrefix s p = (if prefix p s then drop (length p) s else s)"

definition TrimSuffix :: "string \<Rightarrow> string \<Rightarrow> string" where
  "TrimSuffix s p = (if suffix p s then take (length s - length p) s else s)"

fun Join :: "string list \<Rightarrow> string \<Rightarrow> string" where
  "Join [] sep = ''''"
| "Join [x] sep = x"
| "Join (x # y # xs) sep = x @ sep @ Join (y # xs) sep"

text \<open>An index returned by \<^verbatim>\<open>Index\<close> is the first occurrence, one by \<^verbatim>\<open>LastIndex\<close> the last.\<close>

lemma strIndex_None_iff: "strIndex s p = None \<longleftrightarrow> \<not> sublist p s"
proof (induction s)
  case Nil
  then show ?case by simp
next
  case (Cons c cs)
  then show ?case by (auto simp: sublist_Cons_right)
qed

lemma Contains_iff_sublist: "Contains s p = sublist p s"
  by (simp add: Contains_def strIndex_None_iff)

lemma Contains_char: "Contains s [c] \<longleftrightarrow> c \<in> set s"
  by (induction s) (auto simp: Contains_def)

lemma strIndex_char_append:
  "c \<notin> set xs \<Longrightarrow> strIndex (xs @ c # ys) [c] = Some (length xs)"
  by (induction xs) auto

lemma strIndex_char_None: "c \<notin> set xs \<Longrightarrow> strIndex xs [c] = None"
  by (induction xs) auto

lemma strLastIndex_char_None: "c \<notin> set xs \<Longrightarrow> strLastIndex xs [c] = None"
  by (induction xs) auto

lemma strLastIndex_char_append:
  "c \<notin> set ys \<Longrightarrow> strLastIndex (xs @ c # ys) [c] = Some (length xs)"
  by (induction xs) (auto simp: strLastIndex_char_None)

lemma TrimPrefix_append [simp]: "TrimPrefix (p @ s) p = s"
  by (simp add: TrimPrefix_def)

lemma TrimPrefix_no_prefix: "\<not> prefix p s \<Longrightarrow> TrimPrefix s p = s"
  by (simp add: TrimPrefix_def)

section \<open>Numbers as text\<close>

fun showNat :: "nat \<Rightarrow> string" where
  "showNat n = (if n < 10 then [digitChar n] else showNat (n div 10) @ [digitChar (n mod 10)])"

declare showNat.simps [simp del]

text \<open>Reading decimal digits after the value of those before them.\<close>

fun decValue :: "int \<Rightarrow> string \<Rightarrow> int option" where
  "decValue acc [] = Some acc"
| "decValue acc (c # cs) =
     (let d = of_char c :: int in if 48 \<le> d \<and> d \<le> 57 then decValue (10 * acc + (d - 48)) cs else None)"

lemma decValue_append: "decValue acc (xs @ ys) = Option.bind (decValue acc xs) (\<lambda>v. decValue v ys)"
  by (induction acc xs rule: decValue.induct) (auto simp: Let_def)

lemma decValue_digit:
  assumes "d < 10"
  shows "decValue acc [digitChar d] = Some (10 * acc + int d)"
proof -
  have "(of_char (char_of (48 + d)) :: int) = of_nat (of_char (char_of (48 + d) :: char))"
    by (rule of_nat_of_char [symmetric])
  also have "\<dots> = 48 + int d" using assms by (simp only: of_char_of) simp
  finally show ?thesis using assms by (simp add: digitChar_def Let_def)
qed

lemma decValue_showNat: "decValue 0 (showNat n) = Some (int n)"
proof (induction n rule: showNat.induct)
  case (1 n)
  have "10 * int (n div 10) + int (n mod 10) = int n" by presburger
  with 1 show ?case
    by (cases "n < 10") (simp_all add: showNat.simps [of n] decValue_append decValue_digit del: decValue.simps)
qed

text \<open>The verb \<^verbatim>\<open>%d\<close>.\<close>

definition showInt :: "int \<Rightarrow> string" where
  "showInt n = (if n < 0 then CHR ''-'' # showNat (nat (- n)) else showNat (nat n))"

text \<open>The verb \<^verbatim>\<open>%t\<close>.\<close>

definition showBool :: "bool \<Rightarrow> string" where
  "showBool b = (if b then ''true'' else ''false'')"

text \<open>The verb \<^verbatim>\<open>%016x\<close> on a \<^verbatim>\<open>uint64\<close>: sixteen lower-case hexadecimal digits.\<close>

definition hex016 :: "u64 \<Rightarrow> string" where
  "hex016 w = hexDigits 16 (unat w)"

definition hexVal :: "char \<Rightarrow> nat option" where
  "hexVal c =
     (let n = of_char c :: nat
      in if 48 \<le> n \<and> n \<le> 57 then Some (n - 48)
         else if 97 \<le> n \<and> n \<le> 102 then Some (n - 87)
         else if 65 \<le> n \<and> n \<le> 70 then Some (n - 55)
         else None)"

fun hexValue :: "nat \<Rightarrow> string \<Rightarrow> nat option" where
  "hexValue acc [] = Some acc"
| "hexValue acc (c # cs) =
     (case hexVal c of None \<Rightarrow> None | Some d \<Rightarrow> hexValue (16 * acc + d) cs)"

text \<open>\<^verbatim>\<open>strconv.ParseUint(s, 16, 64)\<close>: a syntax error on an empty string or a character that is no
  hexadecimal digit, a range error past 64 bits.\<close>

definition parseUint16_64 :: "string \<Rightarrow> goerror + u64" where
  "parseUint16_64 s =
     (if s = [] then Inl (errorf ''strconv.ParseUint: invalid syntax'')
      else case hexValue 0 s of
             None \<Rightarrow> Inl (errorf ''strconv.ParseUint: invalid syntax'')
           | Some n \<Rightarrow> if n < 2 ^ 64 then Inr (of_nat n)
                       else Inl (errorf ''strconv.ParseUint: value out of range''))"

lemma hexVal_digitChar: "d < 16 \<Longrightarrow> hexVal (digitChar d) = Some d"
  by (auto simp: hexVal_def digitChar_def Let_def)

lemma hexValue_append:
  "hexValue acc (xs @ ys) =
     (case hexValue acc xs of None \<Rightarrow> None | Some v \<Rightarrow> hexValue v ys)"
  by (induction acc xs rule: hexValue.induct) (auto split: option.splits)

lemma hexValue_hexDigits:
  "n < 16 ^ k \<Longrightarrow> hexValue acc (hexDigits k n) = Some (16 ^ k * acc + n)"
proof (induction k arbitrary: n acc)
  case 0
  then show ?case by simp
next
  case (Suc k)
  from Suc.prems have "n div 16 < 16 ^ k"
    by (simp add: div_less_iff_less_mult mult.commute)
  from Suc.IH [OF this, of acc]
  have "hexValue acc (hexDigits (Suc k) n) = Some (16 * (16 ^ k * acc + n div 16) + n mod 16)"
    by (simp add: hexValue_append hexVal_digitChar)
  moreover have "16 * (n div 16) + n mod 16 = n" by simp
  ultimately show ?case by (simp add: algebra_simps)
qed

lemma length_hexDigits [simp]: "length (hexDigits k n) = k"
  by (induction k arbitrary: n) auto

lemma length_hex016: "length (hex016 w) = 16"
  by (simp add: hex016_def)

lemma hex016_nonempty [simp]: "hex016 w \<noteq> []"
  using length_hex016 [of w] by auto

text \<open>What \<^verbatim>\<open>%016x\<close> prints, \<^verbatim>\<open>ParseUint\<close> reads back.\<close>

lemma parseUint16_64_hex016: "parseUint16_64 (hex016 w) = Inr w"
proof -
  have bound: "unat w < 2 ^ 64"
    using unsigned_less [of w] by simp
  then have "unat w < 16 ^ 16" by simp
  from hexValue_hexDigits [OF this, of 0]
  have "hexValue 0 (hex016 w) = Some (unat w)"
    by (simp add: hex016_def)
  with bound show ?thesis
    by (simp add: parseUint16_64_def)
qed

section \<open>Sorting with a comparison function\<close>

text \<open>
  \<^verbatim>\<open>sort.Slice(xs, lt)\<close>, as insertion with the comparison \<open>lt\<close>. Go's algorithm is not stable;
  where two elements are neither lt than the other the order is unspecified there, so the
  theorems use only what holds of every sorting: a permutation whose head is minimal.
\<close>

fun insertBy :: "('a \<Rightarrow> 'a \<Rightarrow> bool) \<Rightarrow> 'a \<Rightarrow> 'a list \<Rightarrow> 'a list" where
  "insertBy lt x [] = [x]"
| "insertBy lt x (y # ys) = (if lt y x then y # insertBy lt x ys else x # y # ys)"

fun sortSlice :: "('a \<Rightarrow> 'a \<Rightarrow> bool) \<Rightarrow> 'a list \<Rightarrow> 'a list" where
  "sortSlice lt [] = []"
| "sortSlice lt (x # xs) = insertBy lt x (sortSlice lt xs)"

lemma mset_insertBy [simp]: "mset (insertBy lt x xs) = add_mset x (mset xs)"
  by (induction xs) auto

lemma mset_sortSlice [simp]: "mset (sortSlice lt xs) = mset xs"
  by (induction xs) auto

lemma set_sortSlice [simp]: "set (sortSlice lt xs) = set xs"
  using mset_eq_setD [OF mset_sortSlice] .

lemma length_sortSlice [simp]: "length (sortSlice lt xs) = length xs"
  using mset_eq_length [OF mset_sortSlice] .

lemma set_insertBy [simp]: "set (insertBy lt x xs) = insert x (set xs)"
  by (induction xs) auto

lemma sortSlice_Nil_iff [simp]: "sortSlice lt xs = [] \<longleftrightarrow> xs = []"
  using length_sortSlice [of lt xs] by (metis length_0_conv)

text \<open>With an asymmetric comparison whose complement is transitive, nothing in a sorted slice is
  less than its head.\<close>

definition headMinimal :: "('a \<Rightarrow> 'a \<Rightarrow> bool) \<Rightarrow> 'a list \<Rightarrow> bool" where
  "headMinimal lt l = (case l of [] \<Rightarrow> True | h # t \<Rightarrow> list_all (\<lambda>u. \<not> lt u h) t)"

lemma headMinimal_insertBy:
  assumes asym: "\<And>x y. lt x y \<Longrightarrow> \<not> lt y x"
    and ctrans: "\<And>x y z. \<not> lt y x \<Longrightarrow> \<not> lt z y \<Longrightarrow> \<not> lt z x"
    and l: "headMinimal lt l"
  shows "headMinimal lt (insertBy lt x l)"
proof (cases l)
  case Nil
  then show ?thesis by (simp add: headMinimal_def)
next
  case (Cons h t)
  with l have h: "\<not> lt u h" if "u \<in> set t" for u
    using that by (simp add: headMinimal_def list_all_iff)
  show ?thesis
  proof (cases "lt h x")
    case True
    with Cons h asym [OF True] show ?thesis by (simp add: headMinimal_def list_all_iff)
  next
    case False
    have "\<not> lt u x" if "u \<in> set t" for u
      using ctrans [OF False h [OF that]] .
    with Cons False show ?thesis by (simp add: headMinimal_def list_all_iff)
  qed
qed

lemma sortSlice_hd_minimal:
  assumes asym: "\<And>x y. lt x y \<Longrightarrow> \<not> lt y x"
    and ctrans: "\<And>x y z. \<not> lt y x \<Longrightarrow> \<not> lt z y \<Longrightarrow> \<not> lt z x"
    and y: "y \<in> set xs"
  shows "\<not> lt y (hd (sortSlice lt xs))"
proof -
  have sorted: "headMinimal lt (sortSlice lt xs)"
    by (induction xs)
      (simp_all add: headMinimal_insertBy [OF asym ctrans], simp add: headMinimal_def)
  from y obtain h t where ht: "sortSlice lt xs = h # t"
    by (cases "sortSlice lt xs") auto
  then have "set xs = insert h (set t)" by (metis list.simps(15) set_sortSlice)
  with y sorted ht asym show ?thesis
    by (auto simp: headMinimal_def list_all_iff)
qed

section \<open>The interaction monad\<close>

text \<open>
  \<open>('e, 'a) io\<close> is a computation that extends the history of calls (events of type \<open>'e\<close>) and
  returns an \<open>'a\<close>. \<open>call f mk q\<close> sends the request \<open>q\<close>, gets the reply \<open>f h q\<close> (the environment's
  answer in history \<open>h\<close>) and records the event \<open>mk q r\<close>.
\<close>

type_synonym ('e, 'a) io = "('e list, 'a) state"

abbreviation return :: "'a \<Rightarrow> ('e, 'a) io" where
  "return \<equiv> State_Monad.return"

definition call :: "('e list \<Rightarrow> 'q \<Rightarrow> 'r) \<Rightarrow> ('q \<Rightarrow> 'r \<Rightarrow> 'e) \<Rightarrow> 'q \<Rightarrow> ('e, 'r) io" where
  "call f mk q = State (\<lambda>h. let r = f h q in (r, h @ [mk q r]))"

lemma run_call [simp]: "run_state (call f mk q) h = (f h q, h @ [mk q (f h q)])"
  by (simp add: call_def Let_def)

text \<open>The clock and other observations that are not recorded as calls.\<close>

definition observe :: "('e list \<Rightarrow> 'r) \<Rightarrow> ('e, 'r) io" where
  "observe f = State (\<lambda>h. (f h, h))"

lemma run_observe [simp]: "run_state (observe f) h = (f h, h)"
  by (simp add: observe_def)

text \<open>Go's \<^verbatim>\<open>if err != nil { return ..., err }\<close>: the first error ends the computation.\<close>

definition bindE :: "('e, goerror + 'a) io \<Rightarrow> ('a \<Rightarrow> ('e, goerror + 'b) io) \<Rightarrow> ('e, goerror + 'b) io" where
  "bindE m f = State_Monad.bind m (\<lambda>r. case r of Inl e \<Rightarrow> return (Inl e) | Inr a \<Rightarrow> f a)"

definition liftE :: "goerror + 'a \<Rightarrow> ('e, goerror + 'a) io" where
  "liftE r = return r"

definition value_of :: "('e, 'a) io \<Rightarrow> 'a" where
  "value_of m = fst (run_state m [])"

definition trace_of :: "('e, 'a) io \<Rightarrow> 'e list" where
  "trace_of m = snd (run_state m [])"

subsection \<open>Monitors\<close>

text \<open>
  A property of the sequence of calls is a monitor: an automaton that reads the events one by
  one, with \<open>None\<close> for a violation. \<open>safe step s m Q\<close> says that from every history \<open>m\<close> only
  appends events, the monitor started in \<open>s\<close> accepts them, and the result of \<open>m\<close> and the
  monitor's final state satisfy \<open>Q\<close>. As the replies are those of an arbitrary environment, the
  rule for a call quantifies over the reply.
\<close>

fun runMonitor :: "('s \<Rightarrow> 'e \<Rightarrow> 's option) \<Rightarrow> 's \<Rightarrow> 'e list \<Rightarrow> 's option" where
  "runMonitor step s [] = Some s"
| "runMonitor step s (e # es) =
     (case step s e of None \<Rightarrow> None | Some s' \<Rightarrow> runMonitor step s' es)"

definition accepted :: "('s \<Rightarrow> 'e \<Rightarrow> 's option) \<Rightarrow> 's \<Rightarrow> 'e list \<Rightarrow> bool" where
  "accepted step s es = (runMonitor step s es \<noteq> None)"

definition safe ::
  "('s \<Rightarrow> 'e \<Rightarrow> 's option) \<Rightarrow> 's \<Rightarrow> ('e, 'a) io \<Rightarrow> ('a \<Rightarrow> 's \<Rightarrow> bool) \<Rightarrow> bool" where
  "safe step s m Q \<longleftrightarrow>
     (\<forall>h. \<exists>a es s'. run_state m h = (a, h @ es) \<and> runMonitor step s es = Some s' \<and> Q a s')"

definition andThen :: "'s option \<Rightarrow> ('s \<Rightarrow> bool) \<Rightarrow> bool" where
  "andThen st K = (case st of None \<Rightarrow> False | Some s \<Rightarrow> K s)"

lemma andThen_simps [simp]: "andThen None K = False" "andThen (Some s) K = K s"
  by (simp_all add: andThen_def)

lemma andThen_if [simp]: "andThen (if b then x else y) K = (if b then andThen x K else andThen y K)"
  by simp

lemma andThenD: "andThen st K \<Longrightarrow> \<exists>s. st = Some s \<and> K s"
  by (cases st) auto

lemma andThen_mono: "andThen st K \<Longrightarrow> (\<And>s. K s \<Longrightarrow> L s) \<Longrightarrow> andThen st L"
  by (cases st) auto

lemma runMonitor_append:
  "runMonitor step s (xs @ ys) =
     (case runMonitor step s xs of None \<Rightarrow> None | Some s' \<Rightarrow> runMonitor step s' ys)"
  by (induction xs arbitrary: s) (auto split: option.splits)

lemma safeD: "safe step s m Q \<Longrightarrow>
  \<exists>s'. runMonitor step s (trace_of m) = Some s' \<and> Q (value_of m) s'"
  unfolding safe_def trace_of_def value_of_def
  by (metis append_Nil fst_conv snd_conv)

lemma safe_accepted: "safe step s m Q \<Longrightarrow> accepted step s (trace_of m)"
  using safeD unfolding accepted_def by fastforce

lemma safe_weaken: "safe step s m R \<Longrightarrow> (\<And>a s'. R a s' \<Longrightarrow> Q a s') \<Longrightarrow> safe step s m Q"
  unfolding safe_def by meson

lemma safe_conj: "safe step s m R \<Longrightarrow> safe step s m Q \<Longrightarrow> safe step s m (\<lambda>a s'. R a s' \<and> Q a s')"
  unfolding safe_def by (metis Pair_inject option.inject same_append_eq)

lemma safe_return [io_rules]: "Q a s \<Longrightarrow> safe step s (return a) Q"
  by (simp add: safe_def)

lemma safe_liftE [io_rules]: "Q r s \<Longrightarrow> safe step s (liftE r) Q"
  by (simp add: safe_def liftE_def)

lemma safe_observe [io_rules]: "(\<And>h. Q (f h) s) \<Longrightarrow> safe step s (observe f) Q"
  by (simp add: safe_def)

lemma safe_call: "(\<And>r. andThen (step s (mk q r)) (Q r)) \<Longrightarrow> safe step s (call f mk q) Q"
  unfolding safe_def
proof
  fix h
  assume "\<And>r. andThen (step s (mk q r)) (Q r)"
  from andThenD [OF this [of "f h q"]] obtain s' where
    "step s (mk q (f h q)) = Some s'" and "Q (f h q) s'" by blast
  then show "\<exists>a es s'. run_state (call f mk q) h = (a, h @ es) \<and> runMonitor step s es = Some s' \<and> Q a s'"
    by (intro exI [of _ "f h q"] exI [of _ "[mk q (f h q)]"] exI [of _ s']) simp
qed

lemma safe_bind:
  assumes "safe step s m R"
    and "\<And>a s'. R a s' \<Longrightarrow> safe step s' (f a) Q"
  shows "safe step s (State_Monad.bind m f) Q"
  unfolding safe_def
proof
  fix h
  from assms(1) obtain a es s' where
    1: "run_state m h = (a, h @ es)" "runMonitor step s es = Some s'" and "R a s'"
    unfolding safe_def by blast
  with assms(2) obtain b es' s'' where
    2: "run_state (f a) (h @ es) = (b, (h @ es) @ es')" "runMonitor step s' es' = Some s''" "Q b s''"
    unfolding safe_def by blast
  with 1 show "\<exists>b es s''. run_state (State_Monad.bind m f) h = (b, h @ es) \<and>
      runMonitor step s es = Some s'' \<and> Q b s''"
    by (intro exI [of _ b] exI [of _ "es @ es'"] exI [of _ s'']) (simp add: runMonitor_append)
qed

lemma safe_bindE:
  assumes "safe step s m R"
    and "\<And>e s'. R (Inl e) s' \<Longrightarrow> Q (Inl e) s'"
    and "\<And>a s'. R (Inr a) s' \<Longrightarrow> safe step s' (f a) Q"
  shows "safe step s (bindE m f) Q"
  unfolding bindE_def
proof (rule safe_bind [OF assms(1)])
  fix r s'
  assume "R r s'"
  then show "safe step s' (case r of Inl e \<Rightarrow> return (Inl e) | Inr a \<Rightarrow> f a) Q"
    using assms(2,3) by (cases r) (auto intro!: safe_return)
qed

lemma safe_bind_observe [io_rules]:
  "(\<And>h. safe step s (k (f h)) Q) \<Longrightarrow> safe step s (State_Monad.bind (observe f) k) Q"
  by (rule safe_bind [where R = "\<lambda>a s'. (\<exists>h. a = f h) \<and> s' = s"]) (auto intro: safe_observe)

lemma safe_if [io_rules]:
  "(b \<Longrightarrow> safe step s m Q) \<Longrightarrow> (\<not> b \<Longrightarrow> safe step s n Q) \<Longrightarrow> safe step s (if b then m else n) Q"
  by simp

lemma safe_case_sum [io_rules]:
  "(\<And>x. r = Inl x \<Longrightarrow> safe step s (f x) Q) \<Longrightarrow> (\<And>y. r = Inr y \<Longrightarrow> safe step s (g y) Q) \<Longrightarrow>
   safe step s (case r of Inl x \<Rightarrow> f x | Inr y \<Rightarrow> g y) Q"
  by (cases r) auto

lemma safe_case_option [io_rules]:
  "(r = None \<Longrightarrow> safe step s m Q) \<Longrightarrow> (\<And>y. r = Some y \<Longrightarrow> safe step s (g y) Q) \<Longrightarrow>
   safe step s (case r of None \<Rightarrow> m | Some y \<Rightarrow> g y) Q"
  by (cases r) auto

lemma safe_case_prod [io_rules]:
  "(\<And>x y. p = (x, y) \<Longrightarrow> safe step s (f x y) Q) \<Longrightarrow> safe step s (case p of (x, y) \<Rightarrow> f x y) Q"
  by (cases p) auto

lemma safe_case_list [io_rules]:
  "(l = [] \<Longrightarrow> safe step s m Q) \<Longrightarrow> (\<And>x xs. l = x # xs \<Longrightarrow> safe step s (g x xs) Q) \<Longrightarrow>
   safe step s (case l of [] \<Rightarrow> m | x # xs \<Rightarrow> g x xs) Q"
  by (cases l) auto

lemma safe_let [io_rules]: "safe step s (f a) Q \<Longrightarrow> safe step s (let x = a in f x) Q"
  by simp

text \<open>A computation that is exactly one call.\<close>

definition single :: "('e, 'r) io \<Rightarrow> ('r \<Rightarrow> 'e) \<Rightarrow> bool" where
  "single m ev \<longleftrightarrow> (\<forall>h. \<exists>r. run_state m h = (r, h @ [ev r]))"

lemma single_call: "single (call f mk q) (mk q)"
  by (simp add: single_def)

lemma safe_single: "single m ev \<Longrightarrow> (\<And>r. andThen (step s (ev r)) (Q r)) \<Longrightarrow> safe step s m Q"
  unfolding safe_def single_def
proof
  fix h
  assume "\<forall>h. \<exists>r. run_state m h = (r, h @ [ev r])" and *: "\<And>r. andThen (step s (ev r)) (Q r)"
  then obtain r where r: "run_state m h = (r, h @ [ev r])" by blast
  from andThenD [OF * [of r]] obtain s' where "step s (ev r) = Some s'" and "Q r s'" by blast
  with r show "\<exists>a es s'. run_state m h = (a, h @ es) \<and> runMonitor step s es = Some s' \<and> Q a s'"
    by (intro exI [of _ r] exI [of _ "[ev r]"] exI [of _ s']) simp
qed

lemma safe_bind_single:
  assumes "single m ev" and "\<And>r. andThen (step s (ev r)) (\<lambda>s'. safe step s' (k r) Q)"
  shows "safe step s (State_Monad.bind m k) Q"
proof (rule safe_bind)
  show "safe step s m (\<lambda>r s'. safe step s' (k r) Q)"
    by (rule safe_single [OF assms(1)]) (rule assms(2))
qed

text \<open>With a fact on every reply of the environment.\<close>

lemma safe_bind_reply:
  assumes reply: "\<And>h. \<exists>r. run_state m h = (r, h @ [ev r]) \<and> R r"
    and next': "\<And>r. R r \<Longrightarrow> andThen (step s (ev r)) (\<lambda>s'. safe step s' (k r) Q)"
  shows "safe step s (State_Monad.bind m k) Q"
proof (rule safe_bind)
  show "safe step s m (\<lambda>r s'. R r \<and> step s (ev r) = Some s')"
    unfolding safe_def
  proof
    fix h
    from reply [of h] obtain r where r: "run_state m h = (r, h @ [ev r])" "R r" by blast
    from andThenD [OF next' [OF r(2)]] obtain s' where "step s (ev r) = Some s'" by blast
    with r show "\<exists>a es s'. run_state m h = (a, h @ es) \<and> runMonitor step s es = Some s' \<and> R a \<and> step s (ev a) = Some s'"
      by (intro exI [of _ r] exI [of _ "[ev r]"] exI [of _ s']) simp
  qed
  show "safe step s' (k r) Q" if "R r \<and> step s (ev r) = Some s'" for r s'
    using andThenD [OF next'] that by fastforce
qed

lemma safe_bindE_single:
  assumes "single m ev"
    and "\<And>e. andThen (step s (ev (Inl e))) (Q (Inl e))"
    and "\<And>a. andThen (step s (ev (Inr a))) (\<lambda>s'. safe step s' (k a) Q)"
  shows "safe step s (bindE m k) Q"
  unfolding bindE_def
proof (rule safe_bind_single [OF assms(1)])
  fix r
  show "andThen (step s (ev r))
      (\<lambda>s'. safe step s' (case r of Inl e \<Rightarrow> return (Inl e) | Inr a \<Rightarrow> k a) Q)"
    using andThen_mono [OF assms(2)] andThen_mono [OF assms(3)]
    by (cases r) (simp_all add: safe_return)
qed

subsection \<open>Every event satisfies a predicate\<close>

definition emits :: "('e \<Rightarrow> bool) \<Rightarrow> ('e, 'a) io \<Rightarrow> bool" where
  "emits P m \<longleftrightarrow> (\<forall>h. \<exists>a es. run_state m h = (a, h @ es) \<and> list_all P es)"

lemma emits_trace: "emits P m \<Longrightarrow> list_all P (trace_of m)"
  unfolding emits_def trace_of_def by (metis append_Nil snd_conv)

lemma emits_mono: "emits P m \<Longrightarrow> (\<And>e. P e \<Longrightarrow> Q e) \<Longrightarrow> emits Q m"
  unfolding emits_def by (metis list.pred_mono_strong)

lemma emits_return [emits_rules]: "emits P (return a)"
  by (simp add: emits_def)

lemma emits_liftE [emits_rules]: "emits P (liftE r)"
  by (simp add: emits_def liftE_def)

lemma emits_observe [emits_rules]: "emits P (observe f)"
  by (simp add: emits_def)

lemma emits_call [emits_rules]: "(\<And>r. P (mk q r)) \<Longrightarrow> emits P (call f mk q)"
  by (simp add: emits_def)

lemma emits_single: "single m ev \<Longrightarrow> (\<And>r. P (ev r)) \<Longrightarrow> emits P m"
  unfolding emits_def single_def by (metis list.pred_inject(1) list.pred_inject(2))

lemma emits_bind [emits_rules]:
  assumes "emits P m" and "\<And>a. emits P (f a)"
  shows "emits P (State_Monad.bind m f)"
  unfolding emits_def
proof
  fix h
  from assms(1) obtain a es where 1: "run_state m h = (a, h @ es)" "list_all P es"
    unfolding emits_def by blast
  from assms(2) obtain b es' where "run_state (f a) (h @ es) = (b, (h @ es) @ es')" "list_all P es'"
    unfolding emits_def by blast
  with 1 show "\<exists>b es. run_state (State_Monad.bind m f) h = (b, h @ es) \<and> list_all P es"
    by (intro exI [of _ b] exI [of _ "es @ es'"]) simp
qed

lemma emits_bindE [emits_rules]:
  assumes "emits P m" and "\<And>a. emits P (f a)"
  shows "emits P (bindE m f)"
  unfolding bindE_def
  by (rule emits_bind [OF assms(1)]) (auto intro: emits_return assms(2) split: sum.split)

lemma emits_if [emits_rules]:
  "(b \<Longrightarrow> emits P m) \<Longrightarrow> (\<not> b \<Longrightarrow> emits P n) \<Longrightarrow> emits P (if b then m else n)"
  by simp

lemma emits_case_sum [emits_rules]:
  "(\<And>x. r = Inl x \<Longrightarrow> emits P (f x)) \<Longrightarrow> (\<And>y. r = Inr y \<Longrightarrow> emits P (g y)) \<Longrightarrow>
   emits P (case r of Inl x \<Rightarrow> f x | Inr y \<Rightarrow> g y)"
  by (cases r) auto

lemma emits_case_option [emits_rules]:
  "(r = None \<Longrightarrow> emits P m) \<Longrightarrow> (\<And>y. r = Some y \<Longrightarrow> emits P (g y)) \<Longrightarrow>
   emits P (case r of None \<Rightarrow> m | Some y \<Rightarrow> g y)"
  by (cases r) auto

lemma emits_case_prod [emits_rules]:
  "(\<And>x y. p = (x, y) \<Longrightarrow> emits P (f x y)) \<Longrightarrow> emits P (case p of (x, y) \<Rightarrow> f x y)"
  by (cases p) auto

lemma emits_case_list [emits_rules]:
  "(l = [] \<Longrightarrow> emits P m) \<Longrightarrow> (\<And>x xs. l = x # xs \<Longrightarrow> emits P (g x xs)) \<Longrightarrow>
   emits P (case l of [] \<Rightarrow> m | x # xs \<Rightarrow> g x xs)"
  by (cases l) auto

lemma emits_let [emits_rules]: "emits P (f a) \<Longrightarrow> emits P (let x = a in f x)"
  by simp

text \<open>An invariant of the monitor's states that every event of the computation keeps.\<close>

lemma emits_invariant:
  assumes "emits P m" "I s" and keeps: "\<And>t e. P e \<Longrightarrow> I t \<Longrightarrow> \<exists>t'. step t e = Some t' \<and> I t'"
  shows "safe step s m (\<lambda>_. I)"
  unfolding safe_def
proof
  fix h
  from assms(1) obtain a es where 1: "run_state m h = (a, h @ es)" "list_all P es"
    unfolding emits_def by blast
  from 1(2) \<open>I s\<close> have "\<exists>s'. runMonitor step s es = Some s' \<and> I s'"
  proof (induction es arbitrary: s)
    case (Cons e es)
    then show ?case using keeps [of e s] by fastforce
  qed simp
  with 1 show "\<exists>a es s'. run_state m h = (a, h @ es) \<and> runMonitor step s es = Some s' \<and> I s'"
    by blast
qed

text \<open>Events the monitor ignores leave its state alone.\<close>

lemma emits_safe: "emits P m \<Longrightarrow> (\<And>e. P e \<Longrightarrow> step s e = Some s) \<Longrightarrow> safe step s m (\<lambda>_ s'. s' = s)"
  by (rule emits_invariant [where P = P]) auto

subsection \<open>Monitors that ignore some events\<close>

text \<open>
  The interface between a monitor and the functions it does not care about: events that satisfy
  \<open>quiet\<close> leave every state of the monitor alone.
\<close>

locale monitor =
  fixes step :: "'s \<Rightarrow> 'e \<Rightarrow> 's option"
    and quiet :: "'e \<Rightarrow> bool"
  assumes quiet_ignored: "quiet e \<Longrightarrow> step s e = Some s"
begin

lemma quiet_safe: "emits quiet m \<Longrightarrow> safe step s m (\<lambda>_ s'. s' = s)"
  by (erule emits_safe) (rule quiet_ignored)

lemma quiet_safe_any:
  assumes "emits quiet m" and "\<And>a. Q a s"
  shows "safe step s m Q"
proof (rule safe_weaken)
  show "safe step s m (\<lambda>_ s'. s' = s)" by (rule quiet_safe [OF assms(1)])
qed (simp add: assms(2))

lemma safe_bind_quiet:
  assumes "emits quiet m" and "\<And>a. safe step s (f a) Q"
  shows "safe step s (State_Monad.bind m f) Q"
  by (rule safe_bind [OF quiet_safe [OF assms(1)]]) (simp add: assms(2))

lemma safe_bindE_quiet:
  assumes "emits quiet m" and "\<And>e. Q (Inl e) s" and "\<And>a. safe step s (f a) Q"
  shows "safe step s (bindE m f) Q"
  unfolding bindE_def
  by (rule safe_bind_quiet [OF assms(1)]) (intro safe_case_sum safe_return assms)

lemma quiet_step_call: "single m ev \<Longrightarrow> (\<And>r. quiet (ev r)) \<Longrightarrow> emits quiet m"
  by (rule emits_single)

end

subsection \<open>Checking every event\<close>

text \<open>A predicate on events as a monitor, for proofs that need what earlier calls returned.\<close>

definition checkMon :: "('e \<Rightarrow> bool) \<Rightarrow> unit \<Rightarrow> 'e \<Rightarrow> unit option" where
  "checkMon P s e = (if P e then Some () else None)"

lemma checkMon_ok [simp]: "P e \<Longrightarrow> checkMon P s e = Some ()"
  by (simp add: checkMon_def)

lemma runMonitor_check: "runMonitor (checkMon P) s es = Some s' \<Longrightarrow> list_all P es"
  by (induction es arbitrary: s) (auto simp: checkMon_def split: if_splits)

lemma check_trace: "safe (checkMon P) () m Q \<Longrightarrow> list_all P (trace_of m)"
  using safeD runMonitor_check by metis

interpretation checkM: monitor "checkMon P" P for P
  by unfold_locales simp

end
