(* ===== verification/ApiTypes.thy ===== *)
theory ApiTypes
  imports Prelude
begin

text \<open>
  The data the operator works on: the custom resources of \<^verbatim>\<open>src/api/v1alpha2\<close> (one record per Go
  struct, one field per Go field, prefixed by the struct's initials) and, of the Kubernetes and
  etcd types it uses, the fields the operator reads or writes. A Go pointer is an option, a slice
  a list, an int32 or int64 field an int.

  Values of Kubernetes types are represented up to \<^verbatim>\<open>equality.Semantic.DeepEqual\<close>: nil and empty
  slices and maps are the same value, a quantity is its numerical value (in units of
  \<open>10\<^sup>-\<^sup>9\<close>, the smallest scale a quantity has), and types that the operator only passes through
  (affinity, topology spread constraints) are \<open>opaque\<close>, a canonical encoding of the value. On
  this representation \<^verbatim>\<open>Semantic.DeepEqual\<close> is equality.
\<close>

section \<open>Kubernetes object metadata and conditions\<close>

type_synonym quantity = int

datatype opaque = Opaque string

record OwnerReference =
  or_APIVersion :: string
  or_Kind :: string
  or_Name :: string
  or_UID :: string
  or_Controller :: "bool option"
  or_BlockOwnerDeletion :: "bool option"

record ObjectMeta =
  om_Name :: string
  om_GenerateName :: string
  om_Namespace :: string
  om_UID :: string
  om_Generation :: int
  om_CreationTimestamp :: gotime
  om_DeletionTimestamp :: "gotime option"
  om_Labels :: smap
  om_Annotations :: smap
  om_OwnerReferences :: "OwnerReference list"
  om_Finalizers :: "string list"

definition emptyMeta :: ObjectMeta where
  "emptyMeta = \<lparr>om_Name = '''', om_GenerateName = '''', om_Namespace = '''', om_UID = '''',
     om_Generation = 0, om_CreationTimestamp = zeroTime, om_DeletionTimestamp = None,
     om_Labels = fmempty, om_Annotations = fmempty, om_OwnerReferences = [], om_Finalizers = []\<rparr>"

datatype ConditionStatus = ConditionTrue | ConditionFalse | ConditionUnknown

record Condition =
  co_Type :: string
  co_Status :: ConditionStatus
  co_Reason :: string
  co_Message :: string
  co_ObservedGeneration :: int
  co_LastTransitionTime :: gotime

record ResourceRequirements =
  rr_Requests :: "(string, quantity) fmap"
  rr_Limits :: "(string, quantity) fmap"
  rr_Claims :: "string list"

definition emptyResources :: ResourceRequirements where
  "emptyResources = \<lparr>rr_Requests = fmempty, rr_Limits = fmempty, rr_Claims = []\<rparr>"

section \<open>Snapshot locations\<close>

record S3SnapshotLocation =
  s3_Endpoint :: string
  s3_Bucket :: string
  s3_Key :: string
  s3_CredentialsSecretRef :: string
  s3_Region :: string
  s3_ForcePathStyle :: bool

record PVCSnapshotLocation =
  pl_ClaimName :: string
  pl_SubPath :: string

record SnapshotLocation =
  sl_S3 :: "S3SnapshotLocation option"
  sl_PVC :: "PVCSnapshotLocation option"

section \<open>EtcdCluster\<close>

record IssuerReference =
  ir_Name :: string
  ir_Kind :: string

record ClientCertManagerTLS =
  ccm_ServerIssuerRef :: IssuerReference
  ccm_OperatorClientIssuerRef :: "IssuerReference option"

record ClientTLS =
  ct_ServerSecretRef :: "string option"
  ct_OperatorClientSecretRef :: "string option"
  ct_CertManager :: "ClientCertManagerTLS option"

record PeerCertManagerTLS =
  pcm_IssuerRef :: IssuerReference

record PeerTLS =
  pt_SecretRef :: "string option"
  pt_CertManager :: "PeerCertManagerTLS option"

record EtcdClusterTLS =
  tls_Client :: "ClientTLS option"
  tls_Peer :: "PeerTLS option"

record AuthSpec =
  auth_Enabled :: bool
  auth_RootCredentialsSecretRef :: "string option"

record EtcdOptions =
  eo_QuotaBackendBytes :: "int option"
  eo_AutoCompactionMode :: string
  eo_AutoCompactionRetention :: string
  eo_SnapshotCount :: "int option"

record RestoreSpec =
  rs_Source :: SnapshotLocation

record BootstrapSpec =
  bs_Restore :: "RestoreSpec option"

datatype StorageMedium = StorageMediumDefault | StorageMediumMemory

record StorageSpec =
  st_Size :: quantity
  st_Medium :: StorageMedium
  st_StorageClassName :: "string option"

record AdditionalMetadata =
  am_Labels :: smap
  am_Annotations :: smap

record EtcdClusterSpec =
  cs_Replicas :: "int option"
  cs_Version :: string
  cs_Storage :: StorageSpec
  cs_ProgressDeadlineSeconds :: "int option"
  cs_TLS :: "EtcdClusterTLS option"
  cs_Auth :: "AuthSpec option"
  cs_Bootstrap :: "BootstrapSpec option"
  cs_Resources :: ResourceRequirements
  cs_AdditionalMetadata :: "AdditionalMetadata option"
  cs_Affinity :: "opaque option"
  cs_TopologySpreadConstraints :: "opaque list"
  cs_Options :: "EtcdOptions option"
  cs_ImagePullSecrets :: "string list"

record ObservedClusterSpec =
  ob_Replicas :: int
  ob_Version :: string
  ob_Storage :: StorageSpec
  ob_Resources :: ResourceRequirements
  ob_Affinity :: "opaque option"
  ob_TopologySpreadConstraints :: "opaque list"
  ob_AdditionalMetadata :: "AdditionalMetadata option"
  ob_Options :: "EtcdOptions option"
  ob_ImagePullSecrets :: "string list"

record EtcdClusterStatus =
  est_ReadyMembers :: int
  est_Selector :: string
  est_BrokenMembers :: int
  est_ClusterID :: string
  est_ClusterToken :: string
  est_AuthEnabled :: bool
  est_Observed :: "ObservedClusterSpec option"
  est_ProgressDeadline :: "gotime option"
  est_Conditions :: "Condition list"

record EtcdCluster =
  ec_Meta :: ObjectMeta
  ec_Spec :: EtcdClusterSpec
  ec_Status :: EtcdClusterStatus

abbreviation ecName :: "EtcdCluster \<Rightarrow> string" where
  "ecName c \<equiv> om_Name (ec_Meta c)"

abbreviation ecNamespace :: "EtcdCluster \<Rightarrow> string" where
  "ecNamespace c \<equiv> om_Namespace (ec_Meta c)"

abbreviation ecClusterID :: "EtcdCluster \<Rightarrow> string" where
  "ecClusterID c \<equiv> est_ClusterID (ec_Status c)"

abbreviation ecObserved :: "EtcdCluster \<Rightarrow> ObservedClusterSpec option" where
  "ecObserved c \<equiv> est_Observed (ec_Status c)"

text \<open>Condition types of an EtcdCluster.\<close>

abbreviation (input) ClusterAvailable :: string where "ClusterAvailable \<equiv> ''Available''"
abbreviation (input) ClusterProgressing :: string where "ClusterProgressing \<equiv> ''Progressing''"
abbreviation (input) ClusterDegraded :: string where "ClusterDegraded \<equiv> ''Degraded''"

section \<open>EtcdMember\<close>

record EtcdMemberTLS =
  mt_ClientServerSecretRef :: "string option"
  mt_ClientMTLS :: bool
  mt_PeerSecretRef :: "string option"
  mt_PeerAutoTLS :: bool

record EtcdMemberSpec =
  ms_ClusterName :: string
  ms_Version :: string
  ms_Storage :: StorageSpec
  ms_Resources :: ResourceRequirements
  ms_AdditionalMetadata :: "AdditionalMetadata option"
  ms_Affinity :: "opaque option"
  ms_TopologySpreadConstraints :: "opaque list"
  ms_Options :: "EtcdOptions option"
  ms_ImagePullSecrets :: "string list"
  ms_Bootstrap :: bool
  ms_InitialCluster :: string
  ms_ClusterToken :: string
  ms_Replicas :: int
  ms_Dormant :: bool
  ms_TLS :: "EtcdMemberTLS option"
  ms_Restore :: "RestoreSpec option"

record EtcdMemberStatus =
  mst_MemberID :: string
  mst_PodName :: string
  mst_PodUID :: string
  mst_IsVoter :: bool
  mst_Replicas :: int
  mst_Selector :: string
  mst_PVCName :: string
  mst_Version :: string
  mst_Conditions :: "Condition list"

record EtcdMember =
  em_Meta :: ObjectMeta
  em_Spec :: EtcdMemberSpec
  em_Status :: EtcdMemberStatus

definition emptyMemberStatus :: EtcdMemberStatus where
  "emptyMemberStatus = \<lparr>mst_MemberID = '''', mst_PodName = '''', mst_PodUID = '''',
     mst_IsVoter = False, mst_Replicas = 0, mst_Selector = '''', mst_PVCName = '''',
     mst_Version = '''', mst_Conditions = []\<rparr>"

abbreviation emName :: "EtcdMember \<Rightarrow> string" where
  "emName m \<equiv> om_Name (em_Meta m)"

abbreviation emNamespace :: "EtcdMember \<Rightarrow> string" where
  "emNamespace m \<equiv> om_Namespace (em_Meta m)"

abbreviation emDeleting :: "EtcdMember \<Rightarrow> bool" where
  "emDeleting m \<equiv> \<not> isZero (om_DeletionTimestamp (em_Meta m))"

abbreviation (input) MemberReady :: string where "MemberReady \<equiv> ''Ready''"
abbreviation (input) MemberVersionDrifted :: string where "MemberVersionDrifted \<equiv> ''VersionDrifted''"

section \<open>EtcdSnapshot, EtcdDefrag, EtcdDefragPolicy\<close>

datatype SnapshotPhase =
    SnapshotPhaseNone | SnapshotPhasePending | SnapshotPhaseStarted
  | SnapshotPhaseComplete | SnapshotPhaseFailed

record SnapshotArtifact =
  sa_URI :: string
  sa_SizeBytes :: int
  sa_Checksum :: string

record EtcdSnapshotSpec =
  ss_ClusterRef :: string
  ss_Destination :: SnapshotLocation

record EtcdSnapshotStatus =
  sst_Phase :: SnapshotPhase
  sst_Artifact :: "SnapshotArtifact option"
  sst_Conditions :: "Condition list"

record EtcdSnapshot =
  es_Meta :: ObjectMeta
  es_Spec :: EtcdSnapshotSpec
  es_Status :: EtcdSnapshotStatus

record DefragRule =
  dr_All :: bool
  dr_FreeSpaceAbove :: "quantity option"
  dr_QuotaUsageAbove :: string
  dr_MinReclaim :: "quantity option"

record EtcdDefragSpec =
  ds_ClusterRef :: string
  ds_Rule :: "DefragRule option"
  ds_TTLSecondsAfterFinished :: "int option"

datatype DefragPhase =
    DefragPhaseNone | DefragPhasePending | DefragPhaseRunning
  | DefragPhaseComplete | DefragPhaseFailed

datatype DefragOutcome =
    DefragOutcomePending | DefragOutcomeSkipped | DefragOutcomeDefragmented | DefragOutcomeFailed

datatype MemberRole = MemberRoleLeader | MemberRoleFollower

record MemberDefragStatus =
  md_Name :: string
  md_Role :: MemberRole
  md_Outcome :: DefragOutcome
  md_Reason :: string
  md_DBSizeBefore :: int
  md_DBSizeAfter :: int
  md_ReclaimedBytes :: int
  md_FinishedAt :: "gotime option"

record EtcdDefragStatus =
  dst_Phase :: DefragPhase
  dst_StartedAt :: "gotime option"
  dst_CompletedAt :: "gotime option"
  dst_Defragmented :: int
  dst_Members :: "MemberDefragStatus list"
  dst_Conditions :: "Condition list"

record EtcdDefrag =
  ed_Meta :: ObjectMeta
  ed_Spec :: EtcdDefragSpec
  ed_Status :: EtcdDefragStatus

datatype ConcurrencyPolicy = ConcurrencyUnset | AllowConcurrent | ForbidConcurrent

record DefragSchedule =
  sch_Cron :: string
  sch_Timezone :: string

record EtcdDefragPolicySpec =
  ps_ClusterRef :: string
  ps_Schedule :: DefragSchedule
  ps_Suspend :: "bool option"
  ps_ConcurrencyPolicy :: ConcurrencyPolicy
  ps_StartingDeadlineSeconds :: "int option"
  ps_HistoryLimit :: "int option"
  ps_Rule :: "DefragRule option"
  ps_TTLSecondsAfterFinished :: "int option"

record EtcdDefragPolicyStatus =
  pst_LastScheduleTime :: "gotime option"
  pst_LastSuccessfulTime :: "gotime option"
  pst_Active :: "string list"
  pst_Conditions :: "Condition list"

record EtcdDefragPolicy =
  ep_Meta :: ObjectMeta
  ep_Spec :: EtcdDefragPolicySpec
  ep_Status :: EtcdDefragPolicyStatus

section \<open>Kubernetes objects the operator creates or reads\<close>

record Volume =
  vo_Name :: string
  vo_EmptyDir :: "(bool \<times> quantity option) option" \<comment> \<open>medium is Memory, size limit\<close>
  vo_PVC :: "(string \<times> bool) option" \<comment> \<open>claim name, read only\<close>
  vo_Secret :: "string option"

record VolumeMount =
  vm_Name :: string
  vm_MountPath :: string
  vm_ReadOnly :: bool

datatype EnvValue = EnvLiteral string | EnvSecretKey string string

record EnvVar =
  ev_Name :: string
  ev_Value :: EnvValue

datatype Probe =
    TCPProbe int int int int \<comment> \<open>port, initial delay, period, failure threshold\<close>
  | HTTPProbe string int int int int \<comment> \<open>path, port, initial delay, period, failure threshold\<close>

record Container =
  ctr_Name :: string
  ctr_Image :: string
  ctr_Command :: "string list"
  ctr_Args :: "string list"
  ctr_Env :: "EnvVar list"
  ctr_Ports :: "(string \<times> int) list"
  ctr_VolumeMounts :: "VolumeMount list"
  ctr_Resources :: ResourceRequirements
  ctr_AllowPrivilegeEscalation :: "bool option"
  ctr_DropCapabilities :: "string list"
  ctr_Liveness :: "Probe option"
  ctr_Readiness :: "Probe option"

record PodSecurity =
  sec_RunAsNonRoot :: bool
  sec_RunAsUser :: int
  sec_RunAsGroup :: int
  sec_FSGroup :: int
  sec_SeccompRuntimeDefault :: bool

record PodSpec =
  pos_Hostname :: string
  pos_Subdomain :: string
  pos_Affinity :: "opaque option"
  pos_TopologySpreadConstraints :: "opaque list"
  pos_ImagePullSecrets :: "string list"
  pos_RestartPolicyNever :: bool
  pos_AutomountServiceAccountToken :: "bool option"
  pos_Security :: "PodSecurity option"
  pos_InitContainers :: "Container list"
  pos_Containers :: "Container list"
  pos_Volumes :: "Volume list"

datatype PodPhase = PodPending | PodRunning | PodSucceeded | PodFailed | PodUnknown | PodNoPhase

record ContainerStatus =
  cst_Name :: string
  cst_Ready :: bool
  cst_RestartCount :: int
  cst_TerminatedReason :: "string option" \<comment> \<open>State.Terminated, its Reason\<close>
  cst_LastTerminatedReason :: "string option" \<comment> \<open>LastTerminationState.Terminated, its Reason\<close>

record PodStatus =
  pods_Phase :: PodPhase
  pods_Reason :: string
  pods_Conditions :: "(string \<times> ConditionStatus) list"
  pods_ContainerStatuses :: "ContainerStatus list"

record Pod =
  pod_Meta :: ObjectMeta
  pod_Spec :: PodSpec
  pod_Status :: PodStatus

definition emptyPodStatus :: PodStatus where
  "emptyPodStatus = \<lparr>pods_Phase = PodNoPhase, pods_Reason = '''', pods_Conditions = [],
     pods_ContainerStatuses = []\<rparr>"

record PVC =
  pvc_Meta :: ObjectMeta
  pvc_AccessModes :: "string list"
  pvc_StorageClassName :: "string option"
  pvc_RequestsStorage :: quantity

datatype IntOrString = IntVal int | StrVal string

record ServicePort =
  sp_Name :: string
  sp_Port :: int
  sp_Protocol :: string
  sp_TargetPort :: IntOrString

record ServiceSpec =
  svs_ClusterIP :: string
  svs_PublishNotReadyAddresses :: bool
  svs_Selector :: smap
  svs_Ports :: "ServicePort list"
  svs_TrafficDistribution :: "string option"

record Service =
  svc_Meta :: ObjectMeta
  svc_Spec :: ServiceSpec
  svc_ApplyManagers :: "string list" \<comment> \<open>managers with an Apply entry in managedFields\<close>

record PDB =
  pdb_Meta :: ObjectMeta
  pdb_MinAvailable :: "IntOrString option"
  pdb_MaxUnavailable :: "IntOrString option"
  pdb_Selector :: smap

record Certificate =
  cert_Meta :: ObjectMeta
  cert_SecretName :: string
  cert_CommonName :: string
  cert_IssuerName :: string
  cert_IssuerKind :: string
  cert_IssuerGroup :: string
  cert_KeyAlgorithm :: string
  cert_KeySize :: int
  cert_Usages :: "string list"
  cert_DNSNames :: "string list"
  cert_IPAddresses :: "string list"

record Secret =
  secr_Meta :: ObjectMeta
  secr_Data :: smap

record JobCondition =
  jc_Type :: string
  jc_Status :: ConditionStatus
  jc_Reason :: string
  jc_Message :: string

record Job =
  job_Meta :: ObjectMeta
  job_BackoffLimit :: int
  job_TTLSecondsAfterFinished :: int
  job_ActiveDeadlineSeconds :: int
  job_TemplateLabels :: smap
  job_PodSpec :: PodSpec
  job_Succeeded :: int
  job_Conditions :: "JobCondition list"

section \<open>etcd's client API\<close>

text \<open>The responses of \<^verbatim>\<open>clientv3\<close> the operator reads.\<close>

record EtcdPbMember =
  pb_ID :: u64
  pb_Name :: string
  pb_PeerURLs :: "string list"
  pb_IsLearner :: bool

record MemberListResponse =
  ml_ClusterId :: u64
  ml_Members :: "EtcdPbMember list"

record StatusResponse =
  sr_Version :: string
  sr_MemberId :: "u64 option" \<comment> \<open>the header's member id, None for a nil header\<close>
  sr_Leader :: u64
  sr_IsLearner :: bool
  sr_DbSize :: int
  sr_DbSizeInUse :: int
  sr_Errors :: "string list"

datatype AlarmType = ALARM_NONE | ALARM_NOSPACE | ALARM_CORRUPT

record AlarmMember =
  al_MemberID :: u64
  al_Alarm :: AlarmType

text \<open>
  The operator's TLS dial configuration and an etcd client, which is what it was dialled with:
  endpoints, TLS configuration and credentials (an empty user name means an anonymous dial).
\<close>

record TLSConfigData =
  tc_RootCAs :: string
  tc_MinVersionTLS12 :: bool
  tc_ClientCert :: "(string \<times> string) option"

record EtcdClient =
  cl_Endpoints :: "string list"
  cl_TLS :: "TLSConfigData option"
  cl_Username :: string
  cl_Password :: string

section \<open>Reconcile results\<close>

record Result =
  Requeue :: bool
  RequeueAfter :: duration

text \<open>A handler returns a result or an error; the code pairs every error with the zero result.\<close>

type_synonym outcome = "goerror + Result"

abbreviation noRequeue :: outcome where
  "noRequeue \<equiv> Inr \<lparr>Requeue = False, RequeueAfter = 0\<rparr>"

abbreviation requeue :: outcome where
  "requeue \<equiv> Inr \<lparr>Requeue = True, RequeueAfter = 0\<rparr>"

abbreviation requeueAfter :: "duration \<Rightarrow> outcome" where
  "requeueAfter d \<equiv> Inr \<lparr>Requeue = False, RequeueAfter = d\<rparr>"

end
