(* ===== verification/Conditions.thy ===== *)
theory Conditions
  imports ApiTypes
begin

text \<open>
  Status conditions: \<^verbatim>\<open>setCondition\<close> of \<^verbatim>\<open>src/controllers/helpers.go\<close> and the per-kind setters built
  on it (cluster, member, defrag run, defrag policy). The clock reading is an argument. The
  contract of a change-detecting setter is the locale \<open>condition_setter\<close>, interpreted on the
  cluster, member and defrag setters.
\<close>

section \<open>The upsert\<close>

fun setCondition :: "gotime \<Rightarrow> Condition list \<Rightarrow> Condition \<Rightarrow> Condition list" where
  "setCondition now [] c = [c\<lparr>co_LastTransitionTime := now\<rparr>]"
| "setCondition now (x # xs) c =
     (if co_Type x = co_Type c
      then c\<lparr>co_LastTransitionTime :=
               (if co_Status x = co_Status c then co_LastTransitionTime x else now)\<rparr> # xs
      else x # setCondition now xs c)"

text \<open>The first condition of a type, as every loop over \<^verbatim>\<open>Status.Conditions\<close> finds it.\<close>

definition findCondition :: "string \<Rightarrow> Condition list \<Rightarrow> Condition option" where
  "findCondition ty cs = List.find (\<lambda>x. co_Type x = ty) cs"

definition wantCondition ::
  "string \<Rightarrow> ConditionStatus \<Rightarrow> string \<Rightarrow> string \<Rightarrow> int \<Rightarrow> Condition" where
  "wantCondition ty s reason msg gen = \<lparr>co_Type = ty, co_Status = s, co_Reason = reason,
     co_Message = msg, co_ObservedGeneration = gen, co_LastTransitionTime = zeroTime\<rparr>"

text \<open>Agreement in everything but the transition time.\<close>

definition sameCondition :: "Condition \<Rightarrow> Condition \<Rightarrow> bool" where
  "sameCondition x c \<longleftrightarrow> co_Type x = co_Type c \<and> co_Status x = co_Status c \<and>
     co_Reason x = co_Reason c \<and> co_Message x = co_Message c \<and>
     co_ObservedGeneration x = co_ObservedGeneration c"

text \<open>The loop at the head of the change-detecting setters: the first condition of the wanted
  type decides.\<close>

fun conditionUpToDate :: "Condition list \<Rightarrow> Condition \<Rightarrow> bool" where
  "conditionUpToDate [] want = False"
| "conditionUpToDate (x # xs) want =
     (if co_Type x = co_Type want
      then co_Status x = co_Status want \<and> co_Reason x = co_Reason want \<and>
           co_Message x = co_Message want \<and> co_ObservedGeneration x = co_ObservedGeneration want
      else conditionUpToDate xs want)"

section \<open>The setters\<close>

definition setClusterCondition ::
  "EtcdCluster \<Rightarrow> gotime \<Rightarrow> string \<Rightarrow> ConditionStatus \<Rightarrow> string \<Rightarrow> string \<Rightarrow> bool \<times> EtcdCluster" where
  "setClusterCondition cluster now ty s reason msg =
     (let want = wantCondition ty s reason msg (om_Generation (ec_Meta cluster));
          conds = est_Conditions (ec_Status cluster)
      in if conditionUpToDate conds want then (False, cluster)
         else (True, cluster\<lparr>ec_Status :=
                 (ec_Status cluster)\<lparr>est_Conditions := setCondition now conds want\<rparr>\<rparr>))"

definition setMemberCondition ::
  "EtcdMember \<Rightarrow> gotime \<Rightarrow> string \<Rightarrow> ConditionStatus \<Rightarrow> string \<Rightarrow> string \<Rightarrow> bool \<times> EtcdMember" where
  "setMemberCondition member now ty s reason msg =
     (let want = wantCondition ty s reason msg (om_Generation (em_Meta member));
          conds = mst_Conditions (em_Status member)
      in if conditionUpToDate conds want then (False, member)
         else (True, member\<lparr>em_Status :=
                 (em_Status member)\<lparr>mst_Conditions := setCondition now conds want\<rparr>\<rparr>))"

text \<open>The defrag setter always writes the type \<^verbatim>\<open>DefragChecked\<close>.\<close>

definition setDefragCondition ::
  "EtcdDefrag \<Rightarrow> gotime \<Rightarrow> ConditionStatus \<Rightarrow> string \<Rightarrow> string \<Rightarrow> bool \<times> EtcdDefrag" where
  "setDefragCondition df now s reason msg =
     (let want = wantCondition ''DefragChecked'' s reason msg (om_Generation (ed_Meta df));
          conds = dst_Conditions (ed_Status df)
      in if conditionUpToDate conds want then (False, df)
         else (True, df\<lparr>ed_Status :=
                 (ed_Status df)\<lparr>dst_Conditions := setCondition now conds want\<rparr>\<rparr>))"

text \<open>The policy setter does not compare first.\<close>

definition setDefragPolicyCondition ::
  "EtcdDefragPolicy \<Rightarrow> gotime \<Rightarrow> ConditionStatus \<Rightarrow> string \<Rightarrow> string \<Rightarrow> EtcdDefragPolicy" where
  "setDefragPolicyCondition pol now s reason msg =
     pol\<lparr>ep_Status := (ep_Status pol)\<lparr>pst_Conditions :=
       setCondition now (pst_Conditions (ep_Status pol))
         (wantCondition ''Active'' s reason msg (om_Generation (ep_Meta pol)))\<rparr>\<rparr>"

section \<open>Lemmas on the upsert\<close>

lemma sameCondition_refl [simp]: "sameCondition c c"
  by (simp add: sameCondition_def)

lemma wantCondition_sel [simp]:
  "co_Type (wantCondition ty s reason msg gen) = ty"
  "co_Status (wantCondition ty s reason msg gen) = s"
  "co_Reason (wantCondition ty s reason msg gen) = reason"
  "co_Message (wantCondition ty s reason msg gen) = msg"
  "co_ObservedGeneration (wantCondition ty s reason msg gen) = gen"
  by (simp_all add: wantCondition_def)

lemma findCondition_simps [simp]:
  "findCondition ty [] = None"
  "findCondition ty (x # xs) = (if co_Type x = ty then Some x else findCondition ty xs)"
  by (simp_all add: findCondition_def)

lemma conditionUpToDate_iff:
  "conditionUpToDate cs want \<longleftrightarrow>
     (\<exists>x. findCondition (co_Type want) cs = Some x \<and> sameCondition x want)"
  by (induction cs want rule: conditionUpToDate.induct) (auto simp: sameCondition_def)

lemma findCondition_setCondition:
  "findCondition (co_Type c) (setCondition now cs c) =
     Some (c\<lparr>co_LastTransitionTime :=
       (case findCondition (co_Type c) cs of
          None \<Rightarrow> now
        | Some x \<Rightarrow> if co_Status x = co_Status c then co_LastTransitionTime x else now)\<rparr>)"
  by (induction now cs c rule: setCondition.induct) auto

lemma findCondition_setCondition_other:
  "ty \<noteq> co_Type c \<Longrightarrow> findCondition ty (setCondition now cs c) = findCondition ty cs"
  by (induction now cs c rule: setCondition.induct) auto

lemma set_types_setCondition:
  "set (map co_Type (setCondition now cs c)) = insert (co_Type c) (set (map co_Type cs))"
  by (induction now cs c rule: setCondition.induct) auto

lemma distinct_types_setCondition:
  "distinct (map co_Type cs) \<Longrightarrow> distinct (map co_Type (setCondition now cs c))"
proof (induction now cs c rule: setCondition.induct)
  case (2 now x xs c)
  then show ?case
    using set_types_setCondition [of now xs c] by (auto simp: image_iff)
qed simp

text \<open>Writing the same condition twice changes nothing the second time.\<close>

lemma setCondition_idem:
  "setCondition now' (setCondition now cs c) c = setCondition now cs c"
  by (induction now cs c rule: setCondition.induct) auto

section \<open>The contract of a setter\<close>

text \<open>\<open>ty\<close> is the condition type the setter writes, \<open>frame\<close> what it must leave alone.\<close>

locale condition_setter =
  fixes conds :: "'o \<Rightarrow> Condition list"
    and gen :: "'o \<Rightarrow> int"
    and frame :: "'o \<Rightarrow> 'r"
    and ty :: string
    and setter :: "'o \<Rightarrow> gotime \<Rightarrow> ConditionStatus \<Rightarrow> string \<Rightarrow> string \<Rightarrow> bool \<times> 'o"
  assumes setter_upToDate:
      "conditionUpToDate (conds x) (wantCondition ty s reason msg (gen x)) \<Longrightarrow>
       setter x now s reason msg = (False, x)"
    and setter_changed:
      "\<not> conditionUpToDate (conds x) (wantCondition ty s reason msg (gen x)) \<Longrightarrow>
       fst (setter x now s reason msg) \<and>
       conds (snd (setter x now s reason msg)) =
         setCondition now (conds x) (wantCondition ty s reason msg (gen x))"
    and setter_frame: "frame (snd (setter x now s reason msg)) = frame x"
    and setter_gen: "gen (snd (setter x now s reason msg)) = gen x"
begin

lemma unchanged_iff:
  "\<not> fst (setter x now s reason msg) \<longleftrightarrow>
   conditionUpToDate (conds x) (wantCondition ty s reason msg (gen x))"
  using setter_upToDate setter_changed by (metis fst_conv)

lemma unchanged_same: "\<not> fst (setter x now s reason msg) \<Longrightarrow> snd (setter x now s reason msg) = x"
  using setter_upToDate by (simp add: unchanged_iff)

lemma written:
  "\<exists>c. findCondition ty (conds (snd (setter x now s reason msg))) = Some c \<and>
       sameCondition c (wantCondition ty s reason msg (gen x))"
proof (cases "conditionUpToDate (conds x) (wantCondition ty s reason msg (gen x))")
  case True
  then show ?thesis
    by (simp add: setter_upToDate conditionUpToDate_iff)
next
  case False
  with findCondition_setCondition [of "wantCondition ty s reason msg (gen x)" now "conds x"]
  show ?thesis by (simp add: setter_changed sameCondition_def)
qed

lemma others_kept:
  "ty' \<noteq> ty \<Longrightarrow>
   findCondition ty' (conds (snd (setter x now s reason msg))) = findCondition ty' (conds x)"
  by (cases "conditionUpToDate (conds x) (wantCondition ty s reason msg (gen x))")
    (simp_all add: setter_upToDate setter_changed findCondition_setCondition_other)

lemma types_distinct:
  "distinct (map co_Type (conds x)) \<Longrightarrow>
   distinct (map co_Type (conds (snd (setter x now s reason msg))))"
  by (cases "conditionUpToDate (conds x) (wantCondition ty s reason msg (gen x))")
    (simp_all add: setter_upToDate setter_changed distinct_types_setCondition)

lemma second_write_unchanged:
  "setter (snd (setter x now s reason msg)) now' s reason msg =
     (False, snd (setter x now s reason msg))"
proof -
  obtain c where "findCondition ty (conds (snd (setter x now s reason msg))) = Some c"
    "sameCondition c (wantCondition ty s reason msg (gen x))"
    using written by blast
  then show ?thesis
    by (intro setter_upToDate) (simp add: conditionUpToDate_iff setter_gen)
qed

text \<open>The transition time moves only when the status does.\<close>

lemma transition_time:
  assumes "findCondition ty (conds x) = Some c" "co_Status c = s"
    and "findCondition ty (conds (snd (setter x now s reason msg))) = Some c'"
  shows "co_LastTransitionTime c' = co_LastTransitionTime c"
proof (cases "conditionUpToDate (conds x) (wantCondition ty s reason msg (gen x))")
  case True
  with assms show ?thesis by (simp add: setter_upToDate)
next
  case False
  with assms findCondition_setCondition [of "wantCondition ty s reason msg (gen x)" now "conds x"]
  show ?thesis by (auto simp: setter_changed)
qed

end

interpretation clusterCond: condition_setter
  "\<lambda>c. est_Conditions (ec_Status c)" "\<lambda>c. om_Generation (ec_Meta c)"
  "\<lambda>c. (ec_Meta c, ec_Spec c, (ec_Status c)\<lparr>est_Conditions := []\<rparr>)"
  ty "\<lambda>c now. setClusterCondition c now ty" for ty
  by unfold_locales (simp_all add: setClusterCondition_def Let_def)

interpretation memberCond: condition_setter
  "\<lambda>m. mst_Conditions (em_Status m)" "\<lambda>m. om_Generation (em_Meta m)"
  "\<lambda>m. (em_Meta m, em_Spec m, (em_Status m)\<lparr>mst_Conditions := []\<rparr>)"
  ty "\<lambda>m now. setMemberCondition m now ty" for ty
  by unfold_locales (simp_all add: setMemberCondition_def Let_def)

interpretation defragCond: condition_setter
  "\<lambda>d. dst_Conditions (ed_Status d)" "\<lambda>d. om_Generation (ed_Meta d)"
  "\<lambda>d. (ed_Meta d, ed_Spec d, (ed_Status d)\<lparr>dst_Conditions := []\<rparr>)"
  "''DefragChecked''" setDefragCondition
  by unfold_locales (simp_all add: setDefragCondition_def Let_def)

lemma setClusterCondition_frame [simp]:
  "ec_Meta (snd (setClusterCondition c now ty s reason msg)) = ec_Meta c"
  "ec_Spec (snd (setClusterCondition c now ty s reason msg)) = ec_Spec c"
  "est_ReadyMembers (ec_Status (snd (setClusterCondition c now ty s reason msg))) = est_ReadyMembers (ec_Status c)"
  "est_Selector (ec_Status (snd (setClusterCondition c now ty s reason msg))) = est_Selector (ec_Status c)"
  "est_BrokenMembers (ec_Status (snd (setClusterCondition c now ty s reason msg))) = est_BrokenMembers (ec_Status c)"
  "est_ClusterID (ec_Status (snd (setClusterCondition c now ty s reason msg))) = est_ClusterID (ec_Status c)"
  "est_ClusterToken (ec_Status (snd (setClusterCondition c now ty s reason msg))) = est_ClusterToken (ec_Status c)"
  "est_AuthEnabled (ec_Status (snd (setClusterCondition c now ty s reason msg))) = est_AuthEnabled (ec_Status c)"
  "est_Observed (ec_Status (snd (setClusterCondition c now ty s reason msg))) = est_Observed (ec_Status c)"
  "est_ProgressDeadline (ec_Status (snd (setClusterCondition c now ty s reason msg))) = est_ProgressDeadline (ec_Status c)"
  by (simp_all add: setClusterCondition_def Let_def)

lemma setMemberCondition_frame [simp]:
  "em_Meta (snd (setMemberCondition m now ty s reason msg)) = em_Meta m"
  "em_Spec (snd (setMemberCondition m now ty s reason msg)) = em_Spec m"
  "mst_MemberID (em_Status (snd (setMemberCondition m now ty s reason msg))) = mst_MemberID (em_Status m)"
  "mst_PodName (em_Status (snd (setMemberCondition m now ty s reason msg))) = mst_PodName (em_Status m)"
  "mst_PodUID (em_Status (snd (setMemberCondition m now ty s reason msg))) = mst_PodUID (em_Status m)"
  "mst_IsVoter (em_Status (snd (setMemberCondition m now ty s reason msg))) = mst_IsVoter (em_Status m)"
  "mst_PVCName (em_Status (snd (setMemberCondition m now ty s reason msg))) = mst_PVCName (em_Status m)"
  "mst_Version (em_Status (snd (setMemberCondition m now ty s reason msg))) = mst_Version (em_Status m)"
  by (simp_all add: setMemberCondition_def Let_def)

end
