(* ===== verification/Env.thy ===== *)
theory Env
  imports Conditions
begin

text \<open>
  The services the controllers call and the record of the calls. The Kubernetes API server, etcd
  and the third-party libraries are the parameter \<open>env\<close>: functions from the history of calls and
  the request to the reply. An \<open>event\<close> is a call with its reply; every read and every write of a
  controller is one event of its trace.
\<close>

section \<open>Events\<close>

text \<open>
  Writes through the Kubernetes client. A merge patch carries the object it is computed against
  (\<^verbatim>\<open>client.MergeFrom(orig)\<close>) and the modified object. The reply of a successful write is the object
  as the server stored it, which the client library decodes into the caller's object.
\<close>

datatype 'o kwrite =
    Create 'o
  | Update 'o
  | StatusUpdate 'o
  | Patch 'o 'o
  | StatusPatch 'o 'o
  | Delete 'o

text \<open>Reads go through the manager's cache or, with the API reader, straight to the server.\<close>

datatype reader = Cached | Live

datatype 'o kev =
    KGet reader nsname "goerror + 'o"
  | KList reader string smap "goerror + 'o list" \<comment> \<open>namespace, label selector\<close>
  | KWrite "'o kwrite" "goerror + 'o"

datatype etcd_call =
    MemberList "goerror + MemberListResponse"
  | MemberAddAsLearner "string list" "goerror + EtcdPbMember list"
  | MemberPromote u64 "goerror option"
  | MemberRemove u64 "goerror option"
  | EtcdStatus string "goerror + StatusResponse"
  | Defragment string "goerror option"
  | AlarmList "goerror + AlarmMember list"
  | AlarmDisarm AlarmMember "goerror option"
  | MoveLeader u64 "goerror option"
  | AuthStatus "goerror + bool"
  | AuthEnable "goerror option"
  | UserAdd string string "goerror option"
  | UserGrantRole string string "goerror option"

datatype event =
    ECluster "EtcdCluster kev"
  | EMember "EtcdMember kev"
  | EPod "Pod kev"
  | EPVC "PVC kev"
  | EService "Service kev"
  | EPDB "PDB kev"
  | ECertificate "Certificate kev"
  | ESecret "Secret kev"
  | EDefrag "EtcdDefrag kev"
  | EPolicy "EtcdDefragPolicy kev"
  | ESnapshot "EtcdSnapshot kev"
  | EJob "Job kev"
  | ETrafficApply nsname string "goerror + string"
  | EDial EtcdClient "goerror option"
  | EEtcd EtcdClient etcd_call
  | EPodLog string string string "goerror + string" \<comment> \<open>namespace, Pod, container\<close>
  | ERecord string string string \<comment> \<open>a Kubernetes event: type, reason, message\<close>

type_synonym 'a proc = "(event, 'a) io"

section \<open>The environment\<close>

record 'o kclient =
  kc_get :: "event list \<Rightarrow> reader \<Rightarrow> nsname \<Rightarrow> goerror + 'o"
  kc_list :: "event list \<Rightarrow> reader \<Rightarrow> string \<Rightarrow> smap \<Rightarrow> goerror + 'o list"
  kc_write :: "event list \<Rightarrow> 'o kwrite \<Rightarrow> goerror + 'o"

record kube =
  k_clusters :: "EtcdCluster kclient"
  k_members :: "EtcdMember kclient"
  k_pods :: "Pod kclient"
  k_pvcs :: "PVC kclient"
  k_services :: "Service kclient"
  k_pdbs :: "PDB kclient"
  k_certificates :: "Certificate kclient"
  k_secrets :: "Secret kclient"
  k_defrags :: "EtcdDefrag kclient"
  k_policies :: "EtcdDefragPolicy kclient"
  k_snapshots :: "EtcdSnapshot kclient"
  k_jobs :: "Job kclient"
  k_trafficApply :: "event list \<Rightarrow> nsname \<Rightarrow> string \<Rightarrow> goerror + string"
  k_podLog :: "event list \<Rightarrow> string \<Rightarrow> string \<Rightarrow> string \<Rightarrow> goerror + string"

record etcd =
  t_dial :: "event list \<Rightarrow> EtcdClient \<Rightarrow> goerror option"
  t_memberList :: "event list \<Rightarrow> EtcdClient \<Rightarrow> goerror + MemberListResponse"
  t_memberAddAsLearner :: "event list \<Rightarrow> EtcdClient \<Rightarrow> string list \<Rightarrow> goerror + EtcdPbMember list"
  t_memberPromote :: "event list \<Rightarrow> EtcdClient \<Rightarrow> u64 \<Rightarrow> goerror option"
  t_memberRemove :: "event list \<Rightarrow> EtcdClient \<Rightarrow> u64 \<Rightarrow> goerror option"
  t_status :: "event list \<Rightarrow> EtcdClient \<Rightarrow> string \<Rightarrow> goerror + StatusResponse"
  t_defragment :: "event list \<Rightarrow> EtcdClient \<Rightarrow> string \<Rightarrow> goerror option"
  t_alarmList :: "event list \<Rightarrow> EtcdClient \<Rightarrow> goerror + AlarmMember list"
  t_alarmDisarm :: "event list \<Rightarrow> EtcdClient \<Rightarrow> AlarmMember \<Rightarrow> goerror option"
  t_moveLeader :: "event list \<Rightarrow> EtcdClient \<Rightarrow> u64 \<Rightarrow> goerror option"
  t_authStatus :: "event list \<Rightarrow> EtcdClient \<Rightarrow> goerror + bool"
  t_authEnable :: "event list \<Rightarrow> EtcdClient \<Rightarrow> goerror option"
  t_userAdd :: "event list \<Rightarrow> EtcdClient \<Rightarrow> string \<Rightarrow> string \<Rightarrow> goerror option"
  t_userGrantRole :: "event list \<Rightarrow> EtcdClient \<Rightarrow> string \<Rightarrow> string \<Rightarrow> goerror option"

text \<open>
  Functions of third-party packages: owner references and finalizers (\<^verbatim>\<open>controllerutil\<close>,
  \<^verbatim>\<open>metav1\<close>), \<^verbatim>\<open>intstr.IntValue\<close>, PEM and key-pair parsing, and whether an applied configuration
  owns \<^verbatim>\<open>spec.trafficDistribution\<close> (\<^verbatim>\<open>corev1ac.ExtractService\<close>). \<open>l_showObserved\<close> is the text \<^verbatim>\<open>%+v\<close>
  gives for a pointer to an \<^verbatim>\<open>ObservedClusterSpec\<close>: nested pointers print as addresses, so it
  depends on the moment of the call and not only on the value. \<open>l_quantityValue\<close> is \<^verbatim>\<open>Quantity.Value\<close>,
  \<open>l_retrySteps\<close> the number of attempts \<^verbatim>\<open>retry.RetryOnConflict\<close> makes with its default back-off,
  \<open>l_loadLocation\<close> the time zone database and \<open>l_cronParse\<close> the cron package: a parsed schedule is the
  function from an instant to the next tick after it, the zero time when there is none.
\<close>

record lib =
  l_setControllerReference :: "string \<Rightarrow> ObjectMeta \<Rightarrow> ObjectMeta \<Rightarrow> goerror + ObjectMeta"
  l_isControlledBy :: "ObjectMeta \<Rightarrow> ObjectMeta \<Rightarrow> bool"
  l_containsFinalizer :: "ObjectMeta \<Rightarrow> string \<Rightarrow> bool"
  l_addFinalizer :: "ObjectMeta \<Rightarrow> string \<Rightarrow> ObjectMeta"
  l_removeFinalizer :: "ObjectMeta \<Rightarrow> string \<Rightarrow> ObjectMeta"
  l_intValue :: "IntOrString \<Rightarrow> int"
  l_validPEM :: "string \<Rightarrow> bool"
  l_x509KeyPair :: "string \<Rightarrow> string \<Rightarrow> goerror + unit"
  l_extractOwnsTraffic :: "Service \<Rightarrow> goerror + bool"
  l_showObserved :: "event list \<Rightarrow> ObservedClusterSpec \<Rightarrow> string"
  l_quantityString :: "quantity \<Rightarrow> string"
  l_quantityValue :: "quantity \<Rightarrow> int"
  l_retrySteps :: nat
  l_loadLocation :: "string \<Rightarrow> goerror option"
  l_cronParse :: "string \<Rightarrow> goerror + (gotime \<Rightarrow> gotime)"

record env =
  e_kube :: kube
  e_etcd :: etcd
  e_lib :: lib
  e_now :: "event list \<Rightarrow> gotime"

section \<open>Calls\<close>

definition kget :: "'o kclient \<Rightarrow> ('o kev \<Rightarrow> event) \<Rightarrow> reader \<Rightarrow> nsname \<Rightarrow> (goerror + 'o) proc" where
  "kget c mk rd key = call (\<lambda>h. kc_get c h rd) (\<lambda>q r. mk (KGet rd q r)) key"

definition klist :: "'o kclient \<Rightarrow> ('o kev \<Rightarrow> event) \<Rightarrow> reader \<Rightarrow> string \<Rightarrow> smap \<Rightarrow> (goerror + 'o list) proc" where
  "klist c mk rd ns sel = call (\<lambda>h (n, l). kc_list c h rd n l) (\<lambda>(n, l) r. mk (KList rd n l r)) (ns, sel)"

definition kwrite :: "'o kclient \<Rightarrow> ('o kev \<Rightarrow> event) \<Rightarrow> 'o kwrite \<Rightarrow> (goerror + 'o) proc" where
  "kwrite c mk w = call (kc_write c) (\<lambda>q r. mk (KWrite q r)) w"

definition getCluster :: "env \<Rightarrow> nsname \<Rightarrow> (goerror + EtcdCluster) proc" where
  "getCluster E = kget (k_clusters (e_kube E)) ECluster Cached"
definition writeCluster :: "env \<Rightarrow> EtcdCluster kwrite \<Rightarrow> (goerror + EtcdCluster) proc" where
  "writeCluster E = kwrite (k_clusters (e_kube E)) ECluster"
definition getMember :: "env \<Rightarrow> nsname \<Rightarrow> (goerror + EtcdMember) proc" where
  "getMember E = kget (k_members (e_kube E)) EMember Cached"
definition listMembers :: "env \<Rightarrow> string \<Rightarrow> smap \<Rightarrow> (goerror + EtcdMember list) proc" where
  "listMembers E = klist (k_members (e_kube E)) EMember Cached"
definition writeMember :: "env \<Rightarrow> EtcdMember kwrite \<Rightarrow> (goerror + EtcdMember) proc" where
  "writeMember E = kwrite (k_members (e_kube E)) EMember"
definition getPod :: "env \<Rightarrow> nsname \<Rightarrow> (goerror + Pod) proc" where
  "getPod E = kget (k_pods (e_kube E)) EPod Cached"
definition listPodsLive :: "env \<Rightarrow> string \<Rightarrow> smap \<Rightarrow> (goerror + Pod list) proc" where
  "listPodsLive E = klist (k_pods (e_kube E)) EPod Live"
definition writePod :: "env \<Rightarrow> Pod kwrite \<Rightarrow> (goerror + Pod) proc" where
  "writePod E = kwrite (k_pods (e_kube E)) EPod"
definition getPVC :: "env \<Rightarrow> nsname \<Rightarrow> (goerror + PVC) proc" where
  "getPVC E = kget (k_pvcs (e_kube E)) EPVC Cached"
definition writePVC :: "env \<Rightarrow> PVC kwrite \<Rightarrow> (goerror + PVC) proc" where
  "writePVC E = kwrite (k_pvcs (e_kube E)) EPVC"
definition getService :: "env \<Rightarrow> nsname \<Rightarrow> (goerror + Service) proc" where
  "getService E = kget (k_services (e_kube E)) EService Cached"
definition writeService :: "env \<Rightarrow> Service kwrite \<Rightarrow> (goerror + Service) proc" where
  "writeService E = kwrite (k_services (e_kube E)) EService"
definition getPDB :: "env \<Rightarrow> nsname \<Rightarrow> (goerror + PDB) proc" where
  "getPDB E = kget (k_pdbs (e_kube E)) EPDB Cached"
definition writePDB :: "env \<Rightarrow> PDB kwrite \<Rightarrow> (goerror + PDB) proc" where
  "writePDB E = kwrite (k_pdbs (e_kube E)) EPDB"
definition getCertificate :: "env \<Rightarrow> nsname \<Rightarrow> (goerror + Certificate) proc" where
  "getCertificate E = kget (k_certificates (e_kube E)) ECertificate Cached"
definition writeCertificate :: "env \<Rightarrow> Certificate kwrite \<Rightarrow> (goerror + Certificate) proc" where
  "writeCertificate E = kwrite (k_certificates (e_kube E)) ECertificate"
definition getSecret :: "env \<Rightarrow> nsname \<Rightarrow> (goerror + Secret) proc" where
  "getSecret E = kget (k_secrets (e_kube E)) ESecret Cached"
definition getDefrag :: "env \<Rightarrow> nsname \<Rightarrow> (goerror + EtcdDefrag) proc" where
  "getDefrag E = kget (k_defrags (e_kube E)) EDefrag Cached"
definition listDefrags :: "env \<Rightarrow> string \<Rightarrow> smap \<Rightarrow> (goerror + EtcdDefrag list) proc" where
  "listDefrags E = klist (k_defrags (e_kube E)) EDefrag Cached"
definition writeDefrag :: "env \<Rightarrow> EtcdDefrag kwrite \<Rightarrow> (goerror + EtcdDefrag) proc" where
  "writeDefrag E = kwrite (k_defrags (e_kube E)) EDefrag"
definition getPolicy :: "env \<Rightarrow> nsname \<Rightarrow> (goerror + EtcdDefragPolicy) proc" where
  "getPolicy E = kget (k_policies (e_kube E)) EPolicy Cached"
definition writePolicy :: "env \<Rightarrow> EtcdDefragPolicy kwrite \<Rightarrow> (goerror + EtcdDefragPolicy) proc" where
  "writePolicy E = kwrite (k_policies (e_kube E)) EPolicy"
definition getSnapshot :: "env \<Rightarrow> nsname \<Rightarrow> (goerror + EtcdSnapshot) proc" where
  "getSnapshot E = kget (k_snapshots (e_kube E)) ESnapshot Cached"
definition writeSnapshot :: "env \<Rightarrow> EtcdSnapshot kwrite \<Rightarrow> (goerror + EtcdSnapshot) proc" where
  "writeSnapshot E = kwrite (k_snapshots (e_kube E)) ESnapshot"
definition getJob :: "env \<Rightarrow> reader \<Rightarrow> nsname \<Rightarrow> (goerror + Job) proc" where
  "getJob E = kget (k_jobs (e_kube E)) EJob"
definition writeJob :: "env \<Rightarrow> Job kwrite \<Rightarrow> (goerror + Job) proc" where
  "writeJob E = kwrite (k_jobs (e_kube E)) EJob"

definition trafficApply :: "env \<Rightarrow> nsname \<Rightarrow> string \<Rightarrow> (goerror + string) proc" where
  "trafficApply E key v =
     call (\<lambda>h (k, x). k_trafficApply (e_kube E) h k x) (\<lambda>(k, x) r. ETrafficApply k x r) (key, v)"

definition podLog :: "env \<Rightarrow> string \<Rightarrow> string \<Rightarrow> string \<Rightarrow> (goerror + string) proc" where
  "podLog E ns pod ctr =
     call (\<lambda>h (n, p, c). k_podLog (e_kube E) h n p c) (\<lambda>(n, p, c) r. EPodLog n p c r) (ns, pod, ctr)"

text \<open>The etcd client factory: dialling gives a client, the value it was dialled with.\<close>

definition etcdClientFactory ::
  "env \<Rightarrow> string list \<Rightarrow> TLSConfigData option \<Rightarrow> string \<Rightarrow> string \<Rightarrow> (goerror + EtcdClient) proc" where
  "etcdClientFactory E eps tls user pass =
     (let c = \<lparr>cl_Endpoints = eps, cl_TLS = tls, cl_Username = user, cl_Password = pass\<rparr>
      in State_Monad.bind (call (t_dial (e_etcd E)) EDial c)
           (\<lambda>r. case r of Some err \<Rightarrow> return (Inl err) | None \<Rightarrow> return (Inr c)))"

definition memberList :: "env \<Rightarrow> EtcdClient \<Rightarrow> (goerror + MemberListResponse) proc" where
  "memberList E c = call (t_memberList (e_etcd E)) (\<lambda>q r. EEtcd q (MemberList r)) c"
definition memberAddAsLearner :: "env \<Rightarrow> EtcdClient \<Rightarrow> string list \<Rightarrow> (goerror + EtcdPbMember list) proc" where
  "memberAddAsLearner E c urls =
     call (\<lambda>h. t_memberAddAsLearner (e_etcd E) h c) (\<lambda>q r. EEtcd c (MemberAddAsLearner q r)) urls"
definition memberPromote :: "env \<Rightarrow> EtcdClient \<Rightarrow> u64 \<Rightarrow> (goerror option) proc" where
  "memberPromote E c i = call (\<lambda>h. t_memberPromote (e_etcd E) h c) (\<lambda>q r. EEtcd c (MemberPromote q r)) i"
definition memberRemove :: "env \<Rightarrow> EtcdClient \<Rightarrow> u64 \<Rightarrow> (goerror option) proc" where
  "memberRemove E c i = call (\<lambda>h. t_memberRemove (e_etcd E) h c) (\<lambda>q r. EEtcd c (MemberRemove q r)) i"
definition etcdStatus :: "env \<Rightarrow> EtcdClient \<Rightarrow> string \<Rightarrow> (goerror + StatusResponse) proc" where
  "etcdStatus E c ep = call (\<lambda>h. t_status (e_etcd E) h c) (\<lambda>q r. EEtcd c (EtcdStatus q r)) ep"
definition etcdDefragment :: "env \<Rightarrow> EtcdClient \<Rightarrow> string \<Rightarrow> (goerror option) proc" where
  "etcdDefragment E c ep = call (\<lambda>h. t_defragment (e_etcd E) h c) (\<lambda>q r. EEtcd c (Defragment q r)) ep"
definition alarmList :: "env \<Rightarrow> EtcdClient \<Rightarrow> (goerror + AlarmMember list) proc" where
  "alarmList E c = call (t_alarmList (e_etcd E)) (\<lambda>q r. EEtcd q (AlarmList r)) c"
definition alarmDisarm :: "env \<Rightarrow> EtcdClient \<Rightarrow> AlarmMember \<Rightarrow> (goerror option) proc" where
  "alarmDisarm E c a = call (\<lambda>h. t_alarmDisarm (e_etcd E) h c) (\<lambda>q r. EEtcd c (AlarmDisarm q r)) a"
definition moveLeader :: "env \<Rightarrow> EtcdClient \<Rightarrow> u64 \<Rightarrow> (goerror option) proc" where
  "moveLeader E c i = call (\<lambda>h. t_moveLeader (e_etcd E) h c) (\<lambda>q r. EEtcd c (MoveLeader q r)) i"
definition authStatus :: "env \<Rightarrow> EtcdClient \<Rightarrow> (goerror + bool) proc" where
  "authStatus E c = call (t_authStatus (e_etcd E)) (\<lambda>q r. EEtcd q (AuthStatus r)) c"
definition authEnable :: "env \<Rightarrow> EtcdClient \<Rightarrow> (goerror option) proc" where
  "authEnable E c = call (t_authEnable (e_etcd E)) (\<lambda>q r. EEtcd q (AuthEnable r)) c"
definition userAdd :: "env \<Rightarrow> EtcdClient \<Rightarrow> string \<Rightarrow> string \<Rightarrow> (goerror option) proc" where
  "userAdd E c u p =
     call (\<lambda>h (u, p). t_userAdd (e_etcd E) h c u p) (\<lambda>(u, p) r. EEtcd c (UserAdd u p r)) (u, p)"
definition userGrantRole :: "env \<Rightarrow> EtcdClient \<Rightarrow> string \<Rightarrow> string \<Rightarrow> (goerror option) proc" where
  "userGrantRole E c u ro =
     call (\<lambda>h (u, ro). t_userGrantRole (e_etcd E) h c u ro) (\<lambda>(u, ro) r. EEtcd c (UserGrantRole u ro r)) (u, ro)"

definition recordEvent :: "string \<Rightarrow> string \<Rightarrow> string \<Rightarrow> unit proc" where
  "recordEvent ty reason msg =
     call (\<lambda>h q. ()) (\<lambda>(t, rs, m) r. ERecord t rs m) (ty, reason, msg)"

definition timeNow :: "env \<Rightarrow> gotime proc" where
  "timeNow E = observe (e_now E)"

definition setControllerReference :: "env \<Rightarrow> string \<Rightarrow> ObjectMeta \<Rightarrow> ObjectMeta \<Rightarrow> goerror + ObjectMeta" where
  "setControllerReference E kind owner obj = l_setControllerReference (e_lib E) kind owner obj"

definition isControlledBy :: "env \<Rightarrow> ObjectMeta \<Rightarrow> ObjectMeta \<Rightarrow> bool" where
  "isControlledBy E obj owner = l_isControlledBy (e_lib E) obj owner"

lemmas proc_defs =
  getCluster_def writeCluster_def getMember_def listMembers_def writeMember_def getPod_def
  listPodsLive_def writePod_def getPVC_def writePVC_def getService_def writeService_def getPDB_def
  writePDB_def getCertificate_def writeCertificate_def getSecret_def getDefrag_def listDefrags_def
  writeDefrag_def getPolicy_def writePolicy_def getSnapshot_def writeSnapshot_def getJob_def
  writeJob_def kget_def klist_def kwrite_def trafficApply_def podLog_def memberList_def
  memberAddAsLearner_def memberPromote_def memberRemove_def etcdStatus_def etcdDefragment_def
  alarmList_def alarmDisarm_def moveLeader_def authStatus_def authEnable_def userAdd_def
  userGrantRole_def recordEvent_def timeNow_def

section \<open>Rules for the calls\<close>

text \<open>Every call is a single event, whatever the environment replies.\<close>

lemma single_calls:
  "single (getCluster E q) (\<lambda>r. ECluster (KGet Cached q r))"
  "single (writeCluster E w1) (\<lambda>r. ECluster (KWrite w1 r))"
  "single (getMember E q) (\<lambda>r. EMember (KGet Cached q r))"
  "single (listMembers E ns sel) (\<lambda>r. EMember (KList Cached ns sel r))"
  "single (writeMember E w2) (\<lambda>r. EMember (KWrite w2 r))"
  "single (getPod E q) (\<lambda>r. EPod (KGet Cached q r))"
  "single (listPodsLive E ns sel) (\<lambda>r. EPod (KList Live ns sel r))"
  "single (writePod E w3) (\<lambda>r. EPod (KWrite w3 r))"
  "single (getPVC E q) (\<lambda>r. EPVC (KGet Cached q r))"
  "single (writePVC E w4) (\<lambda>r. EPVC (KWrite w4 r))"
  "single (getService E q) (\<lambda>r. EService (KGet Cached q r))"
  "single (writeService E w5) (\<lambda>r. EService (KWrite w5 r))"
  "single (getPDB E q) (\<lambda>r. EPDB (KGet Cached q r))"
  "single (writePDB E w6) (\<lambda>r. EPDB (KWrite w6 r))"
  "single (getCertificate E q) (\<lambda>r. ECertificate (KGet Cached q r))"
  "single (writeCertificate E w7) (\<lambda>r. ECertificate (KWrite w7 r))"
  "single (getSecret E q) (\<lambda>r. ESecret (KGet Cached q r))"
  "single (getDefrag E q) (\<lambda>r. EDefrag (KGet Cached q r))"
  "single (listDefrags E ns sel) (\<lambda>r. EDefrag (KList Cached ns sel r))"
  "single (writeDefrag E w8) (\<lambda>r. EDefrag (KWrite w8 r))"
  "single (getPolicy E q) (\<lambda>r. EPolicy (KGet Cached q r))"
  "single (writePolicy E w9) (\<lambda>r. EPolicy (KWrite w9 r))"
  "single (getSnapshot E q) (\<lambda>r. ESnapshot (KGet Cached q r))"
  "single (writeSnapshot E w10) (\<lambda>r. ESnapshot (KWrite w10 r))"
  "single (getJob E rd q) (\<lambda>r. EJob (KGet rd q r))"
  "single (writeJob E w11) (\<lambda>r. EJob (KWrite w11 r))"
  "single (trafficApply E key v) (\<lambda>r. ETrafficApply key v r)"
  "single (memberList E c) (\<lambda>r. EEtcd c (MemberList r))"
  "single (memberAddAsLearner E c urls) (\<lambda>r. EEtcd c (MemberAddAsLearner urls r))"
  "single (memberPromote E c i) (\<lambda>r. EEtcd c (MemberPromote i r))"
  "single (memberRemove E c i) (\<lambda>r. EEtcd c (MemberRemove i r))"
  "single (etcdStatus E c ep) (\<lambda>r. EEtcd c (EtcdStatus ep r))"
  "single (etcdDefragment E c ep) (\<lambda>r. EEtcd c (Defragment ep r))"
  "single (alarmList E c) (\<lambda>r. EEtcd c (AlarmList r))"
  "single (alarmDisarm E c a) (\<lambda>r. EEtcd c (AlarmDisarm a r))"
  "single (moveLeader E c i) (\<lambda>r. EEtcd c (MoveLeader i r))"
  "single (authStatus E c) (\<lambda>r. EEtcd c (AuthStatus r))"
  "single (authEnable E c) (\<lambda>r. EEtcd c (AuthEnable r))"
  "single (userAdd E c u p) (\<lambda>r. EEtcd c (UserAdd u p r))"
  "single (userGrantRole E c u ro) (\<lambda>r. EEtcd c (UserGrantRole u ro r))"
  "single (recordEvent ty reason msg) (\<lambda>r. ERecord ty reason msg)"
  "single (podLog E ns pn ctr) (\<lambda>r. EPodLog ns pn ctr r)"
  by (simp_all add: proc_defs single_def)

lemmas safe_calls [io_rules] = single_calls [THEN safe_single]
lemmas safe_bind_calls [io_rules] = single_calls [THEN safe_bind_single]
lemmas emits_calls [emits_rules] = single_calls [THEN emits_single]
lemmas safe_bindE_calls [io_rules] = single_calls(1-28,29,32,34,37,42) [THEN safe_bindE_single]

lemma safe_etcdClientFactory:
  assumes "\<And>err. andThen (step s (EDial \<lparr>cl_Endpoints = eps, cl_TLS = tls, cl_Username = u, cl_Password = p\<rparr> (Some err)))
             (Q (Inl err))"
    and "andThen (step s (EDial \<lparr>cl_Endpoints = eps, cl_TLS = tls, cl_Username = u, cl_Password = p\<rparr> None))
           (Q (Inr \<lparr>cl_Endpoints = eps, cl_TLS = tls, cl_Username = u, cl_Password = p\<rparr>))"
  shows "safe step s (etcdClientFactory E eps tls u p) Q"
  unfolding etcdClientFactory_def Let_def
proof (rule safe_bind_single [OF single_call])
  fix r
  show "andThen (step s (EDial \<lparr>cl_Endpoints = eps, cl_TLS = tls, cl_Username = u, cl_Password = p\<rparr> r))
     (\<lambda>s'. safe step s'
        (case r of None \<Rightarrow> return (Inr \<lparr>cl_Endpoints = eps, cl_TLS = tls, cl_Username = u, cl_Password = p\<rparr>)
         | Some err \<Rightarrow> return (Inl err)) Q)"
    using andThen_mono [OF assms(1)] andThen_mono [OF assms(2)] by (cases r) (simp_all add: safe_return)
qed

lemma safe_bind_etcdClientFactory [io_rules]:
  assumes "\<And>err. andThen (step s (EDial \<lparr>cl_Endpoints = eps, cl_TLS = tls, cl_Username = u, cl_Password = p\<rparr> (Some err)))
             (\<lambda>s'. safe step s' (k (Inl err)) Q)"
    and "andThen (step s (EDial \<lparr>cl_Endpoints = eps, cl_TLS = tls, cl_Username = u, cl_Password = p\<rparr> None))
           (\<lambda>s'. safe step s' (k (Inr \<lparr>cl_Endpoints = eps, cl_TLS = tls, cl_Username = u, cl_Password = p\<rparr>)) Q)"
  shows "safe step s (State_Monad.bind (etcdClientFactory E eps tls u p) k) Q"
proof (rule safe_bind)
  show "safe step s (etcdClientFactory E eps tls u p) (\<lambda>r s'. safe step s' (k r) Q)"
    by (rule safe_etcdClientFactory; rule assms)
qed

lemma emits_etcdClientFactory [emits_rules]:
  "(\<And>c r. P (EDial c r)) \<Longrightarrow> emits P (etcdClientFactory E eps tls u p)"
  unfolding etcdClientFactory_def Let_def by (intro emits_rules) auto

lemma safe_bind_timeNow [io_rules]:
  "(\<And>h. safe step s (k (e_now E h)) Q) \<Longrightarrow> safe step s (State_Monad.bind (timeNow E) k) Q"
  unfolding timeNow_def by (rule safe_bind_observe)

lemma emits_timeNow [emits_rules]: "emits P (timeNow E)"
  unfolding timeNow_def by (rule emits_observe)

section \<open>A concrete environment\<close>

text \<open>
  An environment to evaluate the controllers on concrete inputs: an API server that holds no
  objects and stores what is written unchanged, an etcd that does not answer, and a clock that
  stands still. Owner references and finalizers do what their packages document.
\<close>

definition notFound :: goerror where
  "notFound = GoError NotFound ''not found''"

definition written :: "'o kwrite \<Rightarrow> 'o" where
  "written w = (case w of Create x \<Rightarrow> x | Update x \<Rightarrow> x | StatusUpdate x \<Rightarrow> x | Patch _ x \<Rightarrow> x
     | StatusPatch _ x \<Rightarrow> x | Delete x \<Rightarrow> x)"

definition emptyClient :: "'o kclient" where
  "emptyClient = \<lparr>kc_get = (\<lambda>_ _ _. Inl notFound), kc_list = (\<lambda>_ _ _ _. Inr []),
     kc_write = (\<lambda>_ w. Inr (written w))\<rparr>"

definition emptyKube :: kube where
  "emptyKube = \<lparr>k_clusters = emptyClient, k_members = emptyClient, k_pods = emptyClient,
     k_pvcs = emptyClient, k_services = emptyClient, k_pdbs = emptyClient,
     k_certificates = emptyClient, k_secrets = emptyClient, k_defrags = emptyClient,
     k_policies = emptyClient, k_snapshots = emptyClient, k_jobs = emptyClient,
     k_trafficApply = (\<lambda>_ _ v. Inr v), k_podLog = (\<lambda>_ _ _ _. Inl notFound)\<rparr>"

definition unreachable :: goerror where
  "unreachable = GoError OtherErr ''context deadline exceeded''"

definition silentEtcd :: etcd where
  "silentEtcd = \<lparr>t_dial = (\<lambda>_ _. None), t_memberList = (\<lambda>_ _. Inl unreachable),
     t_memberAddAsLearner = (\<lambda>_ _ _. Inl unreachable), t_memberPromote = (\<lambda>_ _ _. Some unreachable),
     t_memberRemove = (\<lambda>_ _ _. Some unreachable), t_status = (\<lambda>_ _ _. Inl unreachable),
     t_defragment = (\<lambda>_ _ _. Some unreachable), t_alarmList = (\<lambda>_ _. Inl unreachable),
     t_alarmDisarm = (\<lambda>_ _ _. Some unreachable), t_moveLeader = (\<lambda>_ _ _. Some unreachable),
     t_authStatus = (\<lambda>_ _. Inl unreachable), t_authEnable = (\<lambda>_ _. Some unreachable),
     t_userAdd = (\<lambda>_ _ _ _. Some unreachable), t_userGrantRole = (\<lambda>_ _ _ _. Some unreachable)\<rparr>"

definition sampleLib :: lib where
  "sampleLib = \<lparr>
     l_setControllerReference = (\<lambda>kind owner obj. Inr (obj\<lparr>om_OwnerReferences :=
       \<lparr>or_APIVersion = ''etcd-operator.cozystack.io/v1alpha2'', or_Kind = kind, or_Name = om_Name owner,
         or_UID = om_UID owner, or_Controller = Some True, or_BlockOwnerDeletion = Some True\<rparr>
         # om_OwnerReferences obj\<rparr>)),
     l_isControlledBy = (\<lambda>obj owner. list_ex (\<lambda>o'. or_UID o' = om_UID owner \<and> or_Controller o' = Some True)
       (om_OwnerReferences obj)),
     l_containsFinalizer = (\<lambda>m f. f \<in> set (om_Finalizers m)),
     l_addFinalizer = (\<lambda>m f. if f \<in> set (om_Finalizers m) then m else m\<lparr>om_Finalizers := om_Finalizers m @ [f]\<rparr>),
     l_removeFinalizer = (\<lambda>m f. m\<lparr>om_Finalizers := filter (\<lambda>x. x \<noteq> f) (om_Finalizers m)\<rparr>),
     l_intValue = (\<lambda>v. case v of IntVal n \<Rightarrow> n | StrVal _ \<Rightarrow> 0),
     l_validPEM = (\<lambda>_. True),
     l_x509KeyPair = (\<lambda>_ _. Inr ()),
     l_extractOwnsTraffic = (\<lambda>_. Inr True),
     l_showObserved = (\<lambda>_ ob. ''&{Replicas:'' @ showInt (ob_Replicas ob) @ ''}''),
     l_quantityString = showInt,
     l_quantityValue = (\<lambda>q. if q \<ge> 0 then (q + (10 ^ 9 - 1)) div 10 ^ 9 else - ((- q + (10 ^ 9 - 1)) div 10 ^ 9)),
     l_retrySteps = 5,
     l_loadLocation = (\<lambda>_. None),
     l_cronParse = (\<lambda>_. Inr (\<lambda>t. (t div minutes 60 + 1) * minutes 60))\<rparr>"

definition sampleEnv :: env where
  "sampleEnv = \<lparr>e_kube = emptyKube, e_etcd = silentEtcd, e_lib = sampleLib, e_now = (\<lambda>_. 0)\<rparr>"

lemmas sampleEnv_defs = sampleEnv_def emptyKube_def silentEtcd_def sampleLib_def emptyClient_def

end
