(* ===== verification/Helpers.thy ===== *)
theory Helpers
  imports Env
begin

text \<open>
  \<^verbatim>\<open>src/controllers/helpers.go\<close>: names, labels and URLs, the data directory, the TLS view a member
  gets of its cluster, additional metadata, and the filters over member lists.
\<close>

section \<open>Constants\<close>

abbreviation (input) LabelCluster :: string where "LabelCluster \<equiv> ''etcd-operator.cozystack.io/cluster''"
abbreviation (input) LabelDefragPolicy :: string where "LabelDefragPolicy \<equiv> ''etcd-operator.cozystack.io/defrag-policy''"
abbreviation (input) LabelRole :: string where "LabelRole \<equiv> ''etcd-operator.cozystack.io/role''"
abbreviation (input) RoleVoter :: string where "RoleVoter \<equiv> ''voter''"
abbreviation (input) EtcdImage :: string where "EtcdImage \<equiv> ''quay.io/coreos/etcd''"
abbreviation (input) MemberFinalizer :: string where "MemberFinalizer \<equiv> ''etcd-operator.cozystack.io/member-cleanup''"
abbreviation (input) ReservedAnnotationPrefix :: string where "ReservedAnnotationPrefix \<equiv> ''etcd-operator.cozystack.io/''"
abbreviation (input) AnnHeadlessServiceName :: string where
  "AnnHeadlessServiceName \<equiv> ''etcd-operator.cozystack.io/headless-service-name''"
abbreviation (input) AnnDataDirSubPath :: string where
  "AnnDataDirSubPath \<equiv> ''etcd-operator.cozystack.io/data-dir-subpath''"
abbreviation (input) AnnPeerAutoTLS :: string where
  "AnnPeerAutoTLS \<equiv> ''etcd-operator.cozystack.io/peer-auto-tls''"
abbreviation (input) AnnClientServiceTrafficDistribution :: string where
  "AnnClientServiceTrafficDistribution \<equiv> ''etcd-operator.cozystack.io/client-service-traffic-distribution''"
abbreviation (input) etcdDataDirRoot :: string where "etcdDataDirRoot \<equiv> ''/var/lib/etcd''"

text \<open>Indexing a Go \<^verbatim>\<open>map[string]string\<close>: the zero value when the key is missing.\<close>

definition mapGet :: "smap \<Rightarrow> string \<Rightarrow> string" where
  "mapGet m k = (case fmlookup m k of None \<Rightarrow> '''' | Some v \<Rightarrow> v)"

section \<open>The data directory\<close>

definition isAlnum :: "char \<Rightarrow> bool" where
  "isAlnum c = (let n = of_char c :: nat in
     (48 \<le> n \<and> n \<le> 57) \<or> (65 \<le> n \<and> n \<le> 90) \<or> (97 \<le> n \<and> n \<le> 122))"

text \<open>The pattern \<^verbatim>\<open>^[a-zA-Z0-9][a-zA-Z0-9._-]*$\<close>.\<close>

definition dataDirSubPathRe :: "string \<Rightarrow> bool" where
  "dataDirSubPathRe s = (case s of [] \<Rightarrow> False | c # cs \<Rightarrow>
     isAlnum c \<and> list_all (\<lambda>d. isAlnum d \<or> d = CHR ''.'' \<or> d = CHR ''_'' \<or> d = CHR ''-'') cs)"

definition validDataDirSubPath :: "string \<Rightarrow> bool" where
  "validDataDirSubPath s =
     (if CHR ''/'' \<in> set s \<or> Contains s ''..'' then False else dataDirSubPathRe s)"

text \<open>\<^verbatim>\<open>strings.TrimSpace\<close> on ASCII blanks.\<close>

definition isBlank :: "char \<Rightarrow> bool" where
  "isBlank c = (c \<in> {CHR '' '', CHR 0x09, CHR 0x0A, CHR 0x0B, CHR 0x0C, CHR 0x0D})"

definition trimSpace :: "string \<Rightarrow> string" where
  "trimSpace s = rev (dropWhile isBlank (rev (dropWhile isBlank s)))"

text \<open>\<^verbatim>\<open>path.Join\<close> and \<^verbatim>\<open>path.Clean\<close> of Go's \<^verbatim>\<open>path\<close> package.\<close>

fun splitOn :: "char \<Rightarrow> string \<Rightarrow> string list" where
  "splitOn sep [] = [[]]"
| "splitOn sep (c # cs) =
     (if c = sep then [] # splitOn sep cs
      else case splitOn sep cs of [] \<Rightarrow> [[c]] | x # xs \<Rightarrow> (c # x) # xs)"

fun cleanComponents :: "bool \<Rightarrow> string list \<Rightarrow> string list \<Rightarrow> string list" where
  "cleanComponents rooted acc [] = rev acc"
| "cleanComponents rooted acc (c # cs) =
     (if c = [] \<or> c = ''.'' then cleanComponents rooted acc cs
      else if c = ''..'' then
        (case acc of
           [] \<Rightarrow> cleanComponents rooted (if rooted then [] else [c]) cs
         | a # as \<Rightarrow> cleanComponents rooted (if a = ''..'' then c # acc else as) cs)
      else cleanComponents rooted (c # acc) cs)"

definition pathClean :: "string \<Rightarrow> string" where
  "pathClean p =
     (let rooted = prefix ''/'' p; comps = cleanComponents rooted [] (splitOn (CHR ''/'') p)
      in if rooted then ''/'' @ Join comps ''/''
         else if comps = [] then ''.'' else Join comps ''/'')"

definition pathJoin :: "string list \<Rightarrow> string" where
  "pathJoin elems =
     (let parts = filter (\<lambda>e. e \<noteq> []) elems
      in if parts = [] then '''' else pathClean (Join parts ''/''))"

definition memberDataDir :: "EtcdMember \<Rightarrow> string" where
  "memberDataDir member =
     (let sub = mapGet (om_Annotations (em_Meta member)) AnnDataDirSubPath
      in if sub = '''' \<or> \<not> validDataDirSubPath sub then etcdDataDirRoot
         else pathJoin [etcdDataDirRoot, sub])"

definition resolveEtcdImage :: "EtcdMember \<Rightarrow> string \<Rightarrow> string" where
  "resolveEtcdImage member defaultRepo =
     (let repo = (if defaultRepo = '''' then EtcdImage else defaultRepo)
      in repo @ '':v'' @ ms_Version (em_Spec member))"

section \<open>URLs\<close>

definition peerURL :: "string \<Rightarrow> string \<Rightarrow> string \<Rightarrow> string \<Rightarrow> string" where
  "peerURL scheme member service namespace =
     scheme @ ''://'' @ member @ ''.'' @ service @ ''.'' @ namespace @ ''.svc:2380''"

definition clientURL :: "string \<Rightarrow> string \<Rightarrow> string \<Rightarrow> string \<Rightarrow> string" where
  "clientURL scheme member service namespace =
     scheme @ ''://'' @ member @ ''.'' @ service @ ''.'' @ namespace @ ''.svc:2379''"

definition memberServiceName :: "EtcdMember \<Rightarrow> string" where
  "memberServiceName member =
     (let v = mapGet (om_Annotations (em_Meta member)) AnnHeadlessServiceName
      in if v \<noteq> '''' then v else ms_ClusterName (em_Spec member))"

text \<open>The scheme helpers take a possibly nil cluster or member; the operator's callers that can
  hold a nil cluster are the member controller's dial paths.\<close>

definition clusterPeerAutoTLS :: "EtcdCluster option \<Rightarrow> bool" where
  "clusterPeerAutoTLS cluster =
     (case cluster of None \<Rightarrow> False | Some c \<Rightarrow>
        (case cs_TLS (ec_Spec c) of
           Some t \<Rightarrow> if tls_Peer t \<noteq> None then False
                     else mapGet (om_Annotations (ec_Meta c)) AnnPeerAutoTLS = ''true''
         | None \<Rightarrow> mapGet (om_Annotations (ec_Meta c)) AnnPeerAutoTLS = ''true''))"

definition hasClientTLS :: "EtcdCluster option \<Rightarrow> bool" where
  "hasClientTLS cluster =
     (case cluster of None \<Rightarrow> False | Some c \<Rightarrow>
        (case cs_TLS (ec_Spec c) of None \<Rightarrow> False | Some t \<Rightarrow> tls_Client t \<noteq> None))"

definition hasPeerTLS :: "EtcdCluster option \<Rightarrow> bool" where
  "hasPeerTLS cluster =
     (case cluster of None \<Rightarrow> False | Some c \<Rightarrow>
        (case cs_TLS (ec_Spec c) of None \<Rightarrow> False | Some t \<Rightarrow> tls_Peer t \<noteq> None))"

definition clusterClientScheme :: "EtcdCluster option \<Rightarrow> string" where
  "clusterClientScheme cluster = (if hasClientTLS cluster then ''https'' else ''http'')"

definition clusterPeerScheme :: "EtcdCluster option \<Rightarrow> string" where
  "clusterPeerScheme cluster =
     (if hasPeerTLS cluster then ''https''
      else if clusterPeerAutoTLS cluster then ''https'' else ''http'')"

definition memberClientScheme :: "EtcdMember option \<Rightarrow> string" where
  "memberClientScheme member =
     (case member of None \<Rightarrow> ''http'' | Some m \<Rightarrow>
        (case ms_TLS (em_Spec m) of None \<Rightarrow> ''http'' | Some t \<Rightarrow>
           if mt_ClientServerSecretRef t \<noteq> None then ''https'' else ''http''))"

definition memberPeerScheme :: "EtcdMember option \<Rightarrow> string" where
  "memberPeerScheme member =
     (case member of None \<Rightarrow> ''http'' | Some m \<Rightarrow>
        (case ms_TLS (em_Spec m) of None \<Rightarrow> ''http'' | Some t \<Rightarrow>
           if mt_PeerSecretRef t \<noteq> None \<or> mt_PeerAutoTLS t then ''https'' else ''http''))"

definition buildInitialCluster :: "string \<Rightarrow> string list \<Rightarrow> string \<Rightarrow> string \<Rightarrow> string" where
  "buildInitialCluster peerScheme names service namespace =
     Join (map (\<lambda>name. name @ ''='' @ peerURL peerScheme name service namespace) names) '',''"

definition memberNameFromPeerURL :: "string \<Rightarrow> string" where
  "memberNameFromPeerURL u =
     (let s = TrimPrefix u ''http://'';
          s = TrimPrefix s ''https://'';
          s = (case strLastIndex s '':'' of Some i \<Rightarrow> if 0 < i then take i s else s | None \<Rightarrow> s)
      in case strIndex s ''.'' of Some i \<Rightarrow> if 0 < i then take i s else '''' | None \<Rightarrow> '''')"

section \<open>TLS material\<close>

definition serverSecretName :: "EtcdCluster option \<Rightarrow> string" where
  "serverSecretName cluster =
     (case cluster of None \<Rightarrow> '''' | Some cl \<Rightarrow>
        (case cs_TLS (ec_Spec cl) of None \<Rightarrow> '''' | Some t \<Rightarrow>
           (case tls_Client t of None \<Rightarrow> '''' | Some c \<Rightarrow>
              (case ct_ServerSecretRef c of
                 Some n \<Rightarrow> n
               | None \<Rightarrow> if ct_CertManager c \<noteq> None then ecName cl @ ''-server-tls'' else ''''))))"

definition operatorClientSecretName :: "EtcdCluster option \<Rightarrow> string" where
  "operatorClientSecretName cluster =
     (case cluster of None \<Rightarrow> '''' | Some cl \<Rightarrow>
        (case cs_TLS (ec_Spec cl) of None \<Rightarrow> '''' | Some t \<Rightarrow>
           (case tls_Client t of None \<Rightarrow> '''' | Some c \<Rightarrow>
              (case ct_OperatorClientSecretRef c of
                 Some n \<Rightarrow> n
               | None \<Rightarrow>
                   (case ct_CertManager c of
                      Some cm \<Rightarrow> if ccm_OperatorClientIssuerRef cm \<noteq> None
                                 then ecName cl @ ''-operator-client-tls'' else ''''
                    | None \<Rightarrow> '''')))))"

definition peerSecretName :: "EtcdCluster option \<Rightarrow> string" where
  "peerSecretName cluster =
     (case cluster of None \<Rightarrow> '''' | Some cl \<Rightarrow>
        (case cs_TLS (ec_Spec cl) of None \<Rightarrow> '''' | Some t \<Rightarrow>
           (case tls_Peer t of None \<Rightarrow> '''' | Some p \<Rightarrow>
              (case pt_SecretRef p of
                 Some n \<Rightarrow> n
               | None \<Rightarrow> if pt_CertManager p \<noteq> None then ecName cl @ ''-peer-tls'' else ''''))))"

definition deriveMemberTLS :: "EtcdCluster option \<Rightarrow> EtcdMemberTLS option" where
  "deriveMemberTLS cluster =
     (case cluster of None \<Rightarrow> None | Some cl \<Rightarrow>
        (let tlsSet = (cs_TLS (ec_Spec cl) \<noteq> None);
             srv = (if tlsSet \<and> serverSecretName cluster \<noteq> ''''
                    then Some (serverSecretName cluster) else None);
             mtls = (srv \<noteq> None \<and> operatorClientSecretName cluster \<noteq> '''');
             peer = (if tlsSet \<and> peerSecretName cluster \<noteq> ''''
                     then Some (peerSecretName cluster) else None);
             auto = (peer = None \<and> clusterPeerAutoTLS cluster)
         in if srv = None \<and> peer = None \<and> \<not> auto then None
            else Some \<lparr>mt_ClientServerSecretRef = srv, mt_ClientMTLS = mtls,
                       mt_PeerSecretRef = peer, mt_PeerAutoTLS = auto\<rparr>))"

definition restoreForSeed :: "EtcdCluster option \<Rightarrow> RestoreSpec option" where
  "restoreForSeed cluster =
     (case cluster of None \<Rightarrow> None | Some c \<Rightarrow>
        (case cs_Bootstrap (ec_Spec c) of None \<Rightarrow> None | Some b \<Rightarrow> bs_Restore b))"

section \<open>Endpoints and labels\<close>

definition memberEndpoints :: "string \<Rightarrow> EtcdMember list \<Rightarrow> string \<Rightarrow> string list" where
  "memberEndpoints scheme members namespace =
     (let voters = map (\<lambda>m. clientURL scheme (emName m) (memberServiceName m) namespace)
                     (filter (\<lambda>m. mst_IsVoter (em_Status m)) members)
      in if length voters > 0 then voters
         else map (\<lambda>m. clientURL scheme (emName m) (memberServiceName m) namespace) members)"

definition clusterLabels :: "string \<Rightarrow> smap" where
  "clusterLabels cluster = fmap_of_list
     [(''app.kubernetes.io/name'', ''etcd''),
      (''app.kubernetes.io/instance'', cluster),
      (''app.kubernetes.io/managed-by'', ''etcd-operator''),
      (LabelCluster, cluster)]"

definition memberLabels :: "string \<Rightarrow> string \<Rightarrow> smap" where
  "memberLabels cluster member =
     fmupd ''app.kubernetes.io/component'' member (clusterLabels cluster)"

text \<open>The loop over one metadata map: reserved keys are skipped, keys already present win.\<close>

definition mergeMetadata :: "smap \<Rightarrow> smap \<Rightarrow> smap" where
  "mergeMetadata obj extra = fmfilter (\<lambda>k. \<not> HasPrefix k ReservedAnnotationPrefix) extra ++\<^sub>f obj"

definition applyAdditionalMetadata ::
  "smap \<Rightarrow> smap \<Rightarrow> AdditionalMetadata option \<Rightarrow> smap \<times> smap" where
  "applyAdditionalMetadata objLabels objAnnotations md =
     (case md of
        None \<Rightarrow> (objLabels, objAnnotations)
      | Some d \<Rightarrow> (mergeMetadata objLabels (am_Labels d), mergeMetadata objAnnotations (am_Annotations d)))"

section \<open>Member lists\<close>

definition filterActiveMembers :: "EtcdMember list \<Rightarrow> EtcdMember list" where
  "filterActiveMembers members = filter (\<lambda>m. \<not> emDeleting m) members"

definition filterRunningMembers :: "EtcdMember list \<Rightarrow> EtcdMember list" where
  "filterRunningMembers members = filter (\<lambda>m. \<not> emDeleting m \<and> \<not> ms_Dormant (em_Spec m)) members"

definition findDormantMember :: "EtcdMember list \<Rightarrow> EtcdMember option" where
  "findDormantMember members = List.find (\<lambda>m. \<not> emDeleting m \<and> ms_Dormant (em_Spec m)) members"

definition deriveClusterToken :: "EtcdCluster \<Rightarrow> string" where
  "deriveClusterToken cluster =
     ecNamespace cluster @ ''-'' @ ecName cluster @ ''-'' @ om_UID (ec_Meta cluster)"

definition isBroken :: "EtcdMember \<Rightarrow> bool" where
  "isBroken m =
     (if st_Medium (ms_Storage (em_Spec m)) = StorageMediumMemory
      then mst_PodUID (em_Status m) \<noteq> '''' \<and> mst_PodName (em_Status m) = ''''
      else False)"

text \<open>The readiness loop several functions repeat: some Ready condition is True.\<close>

definition memberIsReady :: "EtcdMember \<Rightarrow> bool" where
  "memberIsReady m =
     list_ex (\<lambda>c. co_Type c = MemberReady \<and> co_Status c = ConditionTrue) (mst_Conditions (em_Status m))"

section \<open>Lemmas\<close>

lemma mapGet_fmempty [simp]: "mapGet fmempty k = ''''"
  by (simp add: mapGet_def)

lemma length_filterRunning_le: "length (filterRunningMembers ms) \<le> length (filterActiveMembers ms)"
  unfolding filterRunningMembers_def filterActiveMembers_def
  by (induction ms) auto

lemma set_filterRunning:
  "m \<in> set (filterRunningMembers ms) \<longleftrightarrow> m \<in> set ms \<and> \<not> emDeleting m \<and> \<not> ms_Dormant (em_Spec m)"
  by (auto simp: filterRunningMembers_def)

lemma filterRunning_filterActive [simp]:
  "filterRunningMembers (filterActiveMembers ms) = filterRunningMembers ms"
  unfolding filterRunningMembers_def filterActiveMembers_def by (induction ms) auto

lemma findDormant_filterActive [simp]:
  "findDormantMember (filterActiveMembers ms) = findDormantMember ms"
  unfolding findDormantMember_def filterActiveMembers_def by (induction ms) auto

lemma findDormant_Some:
  "findDormantMember ms = Some d \<Longrightarrow> d \<in> set ms \<and> \<not> emDeleting d \<and> ms_Dormant (em_Spec d)"
  unfolding findDormantMember_def by (auto simp: find_Some_iff)

text \<open>Splitting and cleaning a joined path.\<close>

lemma splitOn_no_sep: "sep \<notin> set s \<Longrightarrow> splitOn sep s = [s]"
  by (induction s) auto

lemma splitOn_append_sep: "sep \<notin> set a \<Longrightarrow> splitOn sep (a @ sep # b) = a # splitOn sep b"
  by (induction a) auto

lemma pathJoin_root_sub:
  assumes "sub \<noteq> []" "CHR ''/'' \<notin> set sub" "sub \<noteq> ''.''" "sub \<noteq> ''..''"
  shows "pathJoin [etcdDataDirRoot, sub] = etcdDataDirRoot @ ''/'' @ sub"
proof -
  have "splitOn (CHR ''/'') (etcdDataDirRoot @ ''/'' @ sub) = [[], ''var'', ''lib'', ''etcd'', sub]"
    using splitOn_no_sep [OF assms(2)] by simp
  with assms show ?thesis
    by (simp add: pathJoin_def pathClean_def Let_def)
qed

lemma validDataDirSubPath_component:
  assumes "validDataDirSubPath s"
  shows "s \<noteq> []" "CHR ''/'' \<notin> set s" "s \<noteq> ''.''" "\<not> sublist ''..'' s"
  using assms
  by (auto simp: validDataDirSubPath_def dataDirSubPathRe_def Contains_iff_sublist isAlnum_def Let_def
      split: if_splits list.splits)

text \<open>Metadata merging.\<close>

lemma fmlookup_mergeMetadata:
  "fmlookup (mergeMetadata obj extra) k =
     (case fmlookup obj k of
        Some v \<Rightarrow> Some v
      | None \<Rightarrow> if HasPrefix k ReservedAnnotationPrefix then None else fmlookup extra k)"
  by (auto simp: mergeMetadata_def intro: fmdomI split: option.split)

text \<open>Taking a peer URL apart.\<close>

lemma memberNameFromPeerURL_host:
  assumes "CHR ''.'' \<notin> set m" "m \<noteq> []" "CHR '':'' \<notin> set m" "CHR '':'' \<notin> set rest"
    and s: "TrimPrefix (TrimPrefix u ''http://'') ''https://'' = m @ ''.'' @ rest @ '':2380''"
  shows "memberNameFromPeerURL u = m"
proof -
  have "strLastIndex (m @ ''.'' @ rest @ '':2380'') '':'' = Some (length m + 1 + length rest)"
    using strLastIndex_char_append [of "CHR '':''" "''2380''" "m @ ''.'' @ rest"] by simp
  moreover have "take (length m + 1 + length rest) (m @ ''.'' @ rest @ '':2380'') = m @ ''.'' @ rest"
    by simp
  moreover have "strIndex (m @ ''.'' @ rest) ''.'' = Some (length m)"
    using strIndex_char_append [OF assms(1), of rest] by simp
  ultimately show ?thesis
    using assms(2) by (simp add: memberNameFromPeerURL_def s Let_def)
qed

lemma not_prefix_https_host:
  assumes "CHR '':'' \<notin> set m" "CHR '':'' \<notin> set rest"
  shows "TrimPrefix (m @ ''.'' @ rest @ '':2380'') ''https://'' = m @ ''.'' @ rest @ '':2380''"
proof (rule TrimPrefix_no_prefix)
  show "\<not> prefix ''https://'' (m @ ''.'' @ rest @ '':2380'')"
  proof
    assume "prefix ''https://'' (m @ ''.'' @ rest @ '':2380'')"
    then obtain z where z: "m @ ''.'' @ rest @ '':2380'' = ''https'' @ CHR '':'' # ''//'' @ z"
      by (auto simp: prefix_def)
    have "strIndex (m @ ''.'' @ rest @ '':2380'') '':'' = Some (length (m @ ''.'' @ rest))"
      using strIndex_char_append [of "CHR '':''" "m @ ''.'' @ rest" "''2380''"] assms by simp
    moreover have "strIndex (m @ ''.'' @ rest @ '':2380'') '':'' = Some 5"
      unfolding z using strIndex_char_append [of "CHR '':''" "''https''" "''//'' @ z"] by simp
    ultimately have len: "length (m @ ''.'' @ rest) = 5" by simp
    have "drop (length xs) (xs @ ys) = ys" for xs ys :: string by simp
    from this [of "m @ ''.'' @ rest" "'':2380''"]
    have "drop 5 (m @ ''.'' @ rest @ '':2380'') = '':2380''"
      by (simp only: len append_assoc)
    with arg_cong [OF z, of "drop 5"] show False by simp
  qed
qed

lemma TrimPrefix_http_https: "TrimPrefix (''https://'' @ s) ''http://'' = ''https://'' @ s"
  by (simp add: TrimPrefix_def)

lemma memberName_of_peerURL:
  assumes "m \<noteq> []" "CHR ''.'' \<notin> set m" "CHR '':'' \<notin> set m"
    and "CHR '':'' \<notin> set svc" "CHR '':'' \<notin> set ns"
    and "scheme = ''http'' \<or> scheme = ''https''"
  shows "memberNameFromPeerURL (peerURL scheme m svc ns) = m"
proof -
  let ?rest = "svc @ ''.'' @ ns @ ''.svc''"
  have rest: "CHR '':'' \<notin> set ?rest" using assms(4,5) by simp
  have "TrimPrefix (TrimPrefix (peerURL scheme m svc ns) ''http://'') ''https://'' =
      m @ ''.'' @ ?rest @ '':2380''"
  proof (cases "scheme = ''http''")
    case True
    then have "peerURL scheme m svc ns = ''http://'' @ m @ ''.'' @ ?rest @ '':2380''"
      by (simp add: peerURL_def)
    then show ?thesis using not_prefix_https_host [OF assms(3) rest] by (simp only: TrimPrefix_append)
  next
    case False
    with assms(6) have "peerURL scheme m svc ns = ''https://'' @ m @ ''.'' @ ?rest @ '':2380''"
      by (auto simp: peerURL_def)
    then show ?thesis by (simp only: TrimPrefix_http_https TrimPrefix_append)
  qed
  then show ?thesis by (rule memberNameFromPeerURL_host [OF assms(2,1,3) rest])
qed

text \<open>What the CEL rules and schema of \<^verbatim>\<open>spec.tls\<close> promise, with the names of referenced Secrets
  given: exactly one source per plane.\<close>

definition tlsAdmitted :: "EtcdCluster \<Rightarrow> bool" where
  "tlsAdmitted c =
     (case cs_TLS (ec_Spec c) of None \<Rightarrow> True | Some t \<Rightarrow>
        (case tls_Client t of None \<Rightarrow> True | Some cl \<Rightarrow>
           (ct_ServerSecretRef cl \<noteq> None) \<noteq> (ct_CertManager cl \<noteq> None) \<and>
           (ct_CertManager cl = None \<or> ct_OperatorClientSecretRef cl = None) \<and>
           ct_ServerSecretRef cl \<noteq> Some '''') \<and>
        (case tls_Peer t of None \<Rightarrow> True | Some p \<Rightarrow>
           (pt_SecretRef p \<noteq> None) \<noteq> (pt_CertManager p \<noteq> None) \<and> pt_SecretRef p \<noteq> Some ''''))"

lemma deriveMemberTLS_schemes:
  assumes "ms_TLS (em_Spec m) = deriveMemberTLS (Some c)"
  shows "memberClientScheme (Some m) =
           (if cs_TLS (ec_Spec c) \<noteq> None \<and> serverSecretName (Some c) \<noteq> '''' then ''https'' else ''http'')"
    and "memberPeerScheme (Some m) =
           (if cs_TLS (ec_Spec c) \<noteq> None \<and> peerSecretName (Some c) \<noteq> '''' \<or> clusterPeerAutoTLS (Some c)
            then ''https'' else ''http'')"
  using assms by (simp_all add: memberClientScheme_def memberPeerScheme_def deriveMemberTLS_def Let_def)

lemma secretNames_admitted:
  assumes "tlsAdmitted c"
  shows "(cs_TLS (ec_Spec c) \<noteq> None \<and> serverSecretName (Some c) \<noteq> '''') = hasClientTLS (Some c)"
    and "(cs_TLS (ec_Spec c) \<noteq> None \<and> peerSecretName (Some c) \<noteq> '''') = hasPeerTLS (Some c)"
  using assms
  by (auto simp: tlsAdmitted_def serverSecretName_def peerSecretName_def hasClientTLS_def hasPeerTLS_def
      split: option.split)

text \<open>Sample objects for evaluations on concrete inputs.\<close>

definition sampleSpec :: EtcdClusterSpec where
  "sampleSpec = \<lparr>cs_Replicas = Some 3, cs_Version = ''3.5.21'',
     cs_Storage = \<lparr>st_Size = 1, st_Medium = StorageMediumDefault, st_StorageClassName = None\<rparr>,
     cs_ProgressDeadlineSeconds = Some 600, cs_TLS = None, cs_Auth = None, cs_Bootstrap = None,
     cs_Resources = emptyResources, cs_AdditionalMetadata = None, cs_Affinity = None,
     cs_TopologySpreadConstraints = [], cs_Options = None, cs_ImagePullSecrets = []\<rparr>"

definition sampleStatus :: EtcdClusterStatus where
  "sampleStatus = \<lparr>est_ReadyMembers = 0, est_Selector = '''', est_BrokenMembers = 0,
     est_ClusterID = '''', est_ClusterToken = '''', est_AuthEnabled = False, est_Observed = None,
     est_ProgressDeadline = None, est_Conditions = []\<rparr>"

definition sampleCluster :: EtcdCluster where
  "sampleCluster = \<lparr>ec_Meta = emptyMeta\<lparr>om_Name := ''etcd'', om_Namespace := ''prod'', om_UID := ''u1''\<rparr>,
     ec_Spec = sampleSpec, ec_Status = sampleStatus\<rparr>"

definition sampleMember :: EtcdMember where
  "sampleMember = \<lparr>em_Meta = emptyMeta\<lparr>om_Name := ''etcd-0'', om_Namespace := ''prod'', om_UID := ''m0''\<rparr>,
     em_Spec = \<lparr>ms_ClusterName = ''etcd'', ms_Version = ''3.5.21'', ms_Storage = cs_Storage sampleSpec,
       ms_Resources = emptyResources, ms_AdditionalMetadata = None, ms_Affinity = None,
       ms_TopologySpreadConstraints = [], ms_Options = None, ms_ImagePullSecrets = [],
       ms_Bootstrap = True, ms_InitialCluster = '''', ms_ClusterToken = '''', ms_Replicas = 0,
       ms_Dormant = False, ms_TLS = None, ms_Restore = None\<rparr>,
     em_Status = emptyMemberStatus\<rparr>"

definition exampleTLSCluster :: EtcdCluster where
  "exampleTLSCluster = sampleCluster\<lparr>ec_Spec := sampleSpec\<lparr>cs_TLS := Some \<lparr>
     tls_Client = Some \<lparr>ct_ServerSecretRef = Some ''srv'', ct_OperatorClientSecretRef = None,
       ct_CertManager = None\<rparr>,
     tls_Peer = None\<rparr>\<rparr>\<rparr>"

definition exampleTLSMember :: EtcdMember where
  "exampleTLSMember = sampleMember\<lparr>em_Spec := (em_Spec sampleMember)\<lparr>
     ms_TLS := deriveMemberTLS (Some exampleTLSCluster)\<rparr>\<rparr>"

section \<open>Properties\<close>

text \<open>
  The data directory of a member is the volume root or one directory directly below it: the
  annotation's value is used only when it is a single path component without a slash and without
  two consecutive dots, so no annotation can move \<^verbatim>\<open>--data-dir\<close> out of the data volume.
\<close>

theorem memberDataDir_inside_volume:
  "memberDataDir m = etcdDataDirRoot \<or>
   (\<exists>sub. memberDataDir m = etcdDataDirRoot @ ''/'' @ sub \<and>
      fmlookup (om_Annotations (em_Meta m)) AnnDataDirSubPath = Some sub \<and>
      sub \<noteq> [] \<and> CHR ''/'' \<notin> set sub \<and> sub \<noteq> ''.'' \<and> \<not> sublist ''..'' sub)"
proof -
  let ?sub = "mapGet (om_Annotations (em_Meta m)) AnnDataDirSubPath"
  show ?thesis
  proof (cases "?sub = '''' \<or> \<not> validDataDirSubPath ?sub")
    case True
    then show ?thesis by (simp add: memberDataDir_def)
  next
    case False
    then have v: "validDataDirSubPath ?sub" by simp
    note c = validDataDirSubPath_component [OF v]
    have "?sub \<noteq> ''..''" using c(4) by auto
    from pathJoin_root_sub [OF c(1,2,3) this] False
    have "memberDataDir m = etcdDataDirRoot @ ''/'' @ ?sub"
      by (simp add: memberDataDir_def)
    moreover have "fmlookup (om_Annotations (em_Meta m)) AnnDataDirSubPath = Some ?sub"
      using c(1) by (auto simp: mapGet_def split: option.splits)
    ultimately show ?thesis using c by blast
  qed
qed

text \<open>
  Additional metadata never shadows a key the operator owns and never introduces a key under
  the reserved prefix; every other user key is carried over. The same holds for labels and for
  annotations.
\<close>

theorem applyAdditionalMetadata_operator_wins:
  "fmlookup (fst (applyAdditionalMetadata labels annotations (Some md))) k =
     (case fmlookup labels k of Some v \<Rightarrow> Some v
      | None \<Rightarrow> if HasPrefix k ReservedAnnotationPrefix then None else fmlookup (am_Labels md) k) \<and>
   fmlookup (snd (applyAdditionalMetadata labels annotations (Some md))) k =
     (case fmlookup annotations k of Some v \<Rightarrow> Some v
      | None \<Rightarrow> if HasPrefix k ReservedAnnotationPrefix then None else fmlookup (am_Annotations md) k)"
  by (simp add: applyAdditionalMetadata_def fmlookup_mergeMetadata)

text \<open>
  The member name is recovered from every peer URL the operator builds, for both schemes,
  when the names are DNS labels (no dot in the member name, no colon anywhere).
\<close>

theorem memberNameFromPeerURL_peerURL:
  assumes "m \<noteq> []" "CHR ''.'' \<notin> set m" "CHR '':'' \<notin> set m"
    and "CHR '':'' \<notin> set svc" "CHR '':'' \<notin> set ns"
    and "scheme = ''http'' \<or> scheme = ''https''"
  shows "memberNameFromPeerURL (peerURL scheme m svc ns) = m"
  using assms by (rule memberName_of_peerURL)

theorem memberNameFromPeerURL_peerURL_witness:
  "memberNameFromPeerURL ''https://etcd-x7f2k.etcd.prod.svc:2380'' = ''etcd-x7f2k''"
  using memberNameFromPeerURL_peerURL [of "''etcd-x7f2k''" "''etcd''" "''prod''" "''https''"]
  by (simp add: peerURL_def)

text \<open>
  Cluster and members agree on the URL schemes: for a cluster whose TLS section the API
  server admits, a member that carries the TLS view derived from the cluster serves client and
  peer traffic with exactly the scheme the cluster controller dials and advertises.
\<close>

theorem scheme_agreement:
  assumes "tlsAdmitted c" and "ms_TLS (em_Spec m) = deriveMemberTLS (Some c)"
  shows "memberClientScheme (Some m) = clusterClientScheme (Some c) \<and>
         memberPeerScheme (Some m) = clusterPeerScheme (Some c)"
  unfolding deriveMemberTLS_schemes [OF assms(2)] secretNames_admitted [OF assms(1)]
  by (simp add: clusterClientScheme_def clusterPeerScheme_def)

theorem scheme_agreement_witness:
  "memberClientScheme (Some exampleTLSMember) = clusterClientScheme (Some exampleTLSCluster) \<and>
   memberPeerScheme (Some exampleTLSMember) = clusterPeerScheme (Some exampleTLSCluster) \<and>
   clusterClientScheme (Some exampleTLSCluster) = ''https''"
  using scheme_agreement [of exampleTLSCluster exampleTLSMember]
  by (simp add: exampleTLSCluster_def exampleTLSMember_def tlsAdmitted_def clusterClientScheme_def
      hasClientTLS_def)

text \<open>
  The operator dials cluster-management calls only to voters as soon as one member is known to
  be a voter, and falls back to every member otherwise; each endpoint is built from the member's
  own service name.
\<close>

theorem memberEndpoints_voters:
  "memberEndpoints scheme ms ns =
     map (\<lambda>m. clientURL scheme (emName m) (memberServiceName m) ns)
       (if list_ex (\<lambda>m. mst_IsVoter (em_Status m)) ms
        then filter (\<lambda>m. mst_IsVoter (em_Status m)) ms else ms)"
  by (auto simp: memberEndpoints_def Let_def list_ex_iff filter_empty_conv)

end
