(* ===== verification/EtcdDial.thy ===== *)
theory EtcdDial
  imports Helpers
begin

text \<open>
  How the operator reaches etcd: \<^verbatim>\<open>src/controllers/etcd_client.go\<close> (credentials and TLS configuration
  read from Secrets) and \<^verbatim>\<open>src/internal/etcdclient/etcdclient.go\<close> (TLS assembly, basic-auth data).
\<close>

section \<open>internal/etcdclient\<close>

text \<open>\<open>l_validPEM\<close> is \<^verbatim>\<open>AppendCertsFromPEM\<close>, \<open>l_x509KeyPair\<close> is \<^verbatim>\<open>tls.X509KeyPair\<close>.\<close>

definition TLSConfig :: "env \<Rightarrow> string \<Rightarrow> string \<Rightarrow> string \<Rightarrow> goerror + TLSConfigData" where
  "TLSConfig E caPEM certPEM keyPEM =
     (if length caPEM = 0 then Inl (errorf ''CA bundle is empty'')
      else if \<not> l_validPEM (e_lib E) caPEM then Inl (errorf ''CA bundle is not valid PEM'')
      else if length certPEM > 0 \<or> length keyPEM > 0 then
        (case l_x509KeyPair (e_lib E) certPEM keyPEM of
           Inl err \<Rightarrow> Inl (wrapf ''load client keypair'' err)
         | Inr _ \<Rightarrow> Inr \<lparr>tc_RootCAs = caPEM, tc_MinVersionTLS12 = True,
                         tc_ClientCert = Some (certPEM, keyPEM)\<rparr>)
      else Inr \<lparr>tc_RootCAs = caPEM, tc_MinVersionTLS12 = True, tc_ClientCert = None\<rparr>)"

definition BasicAuthCredentials :: "smap \<Rightarrow> goerror + string \<times> string" where
  "BasicAuthCredentials data =
     (let pw = mapGet data ''password''
      in if length pw = 0 then Inl (errorf (''missing a non-empty '' @ goQuote ''password'' @ '' key''))
         else let user = mapGet data ''username'';
                  user = (if user = '''' then ''root'' else user)
              in Inr (user, pw))"

section \<open>controllers/etcd_client.go\<close>

definition readRootPassword :: "env \<Rightarrow> EtcdCluster \<Rightarrow> (goerror + string) proc" where
  "readRootPassword E cluster =
     (case (case cs_Auth (ec_Spec cluster) of None \<Rightarrow> None | Some a \<Rightarrow> auth_RootCredentialsSecretRef a) of
        None \<Rightarrow> return (Inl (errorf ''spec.auth.rootCredentialsSecretRef is required when auth is enabled''))
      | Some name \<Rightarrow>
          if name = '''' then
            return (Inl (errorf ''spec.auth.rootCredentialsSecretRef is required when auth is enabled''))
          else
            (let ns = ecNamespace cluster in
             do {
               r \<leftarrow> getSecret E \<lparr>nn_namespace = ns, nn_name = name\<rparr>;
               return (case r of
                 Inl err \<Rightarrow> Inl (wrapf (''read root credentials secret '' @ ns @ ''/'' @ name) err)
               | Inr sec \<Rightarrow>
                   (case BasicAuthCredentials (secr_Data sec) of
                      Inl err \<Rightarrow> Inl (wrapf (''root credentials secret '' @ ns @ ''/'' @ name) err)
                    | Inr (_, pw) \<Rightarrow> Inr pw))
             }))"

definition authInEffect :: "EtcdCluster option \<Rightarrow> bool" where
  "authInEffect cluster =
     (case cluster of None \<Rightarrow> False | Some c \<Rightarrow>
        (case cs_Auth (ec_Spec c) of None \<Rightarrow> False | Some a \<Rightarrow>
           auth_Enabled a \<and> est_AuthEnabled (ec_Status c)))"

definition resolveEtcdCredentials ::
  "env \<Rightarrow> EtcdCluster option \<Rightarrow> (goerror + string \<times> string \<times> bool) proc" where
  "resolveEtcdCredentials E cluster =
     (case cluster of
        None \<Rightarrow> return (Inr ('''', '''', False))
      | Some c \<Rightarrow>
          if \<not> authInEffect (Some c) then return (Inr ('''', '''', False))
          else bindE (readRootPassword E c) (\<lambda>pw. return (Inr (''root'', pw, True))))"

definition buildOperatorTLSConfig ::
  "env \<Rightarrow> EtcdCluster option \<Rightarrow> (goerror + TLSConfigData option) proc" where
  "buildOperatorTLSConfig E cluster =
     (case cluster of
        None \<Rightarrow> return (Inr None)
      | Some c \<Rightarrow>
          if \<not> hasClientTLS (Some c) then return (Inr None)
          else
            (let ns = ecNamespace c; serverName = serverSecretName (Some c) in
             if serverName = '''' then return (Inr None)
             else do {
               sr \<leftarrow> getSecret E \<lparr>nn_namespace = ns, nn_name = serverName\<rparr>;
               (case sr of
                  Inl err \<Rightarrow> return (Inl (wrapf (''read server TLS secret '' @ ns @ ''/'' @ serverName) err))
                | Inr serverSec \<Rightarrow>
                    (let caPEM = mapGet (secr_Data serverSec) ''ca.crt'' in
                     if length caPEM = 0 then
                       return (Inl (errorf (''server TLS secret '' @ ns @ ''/'' @ serverName @ '' missing ca.crt'')))
                     else
                       (let opName = operatorClientSecretName (Some c) in
                        if opName \<noteq> '''' then do {
                          opr \<leftarrow> getSecret E \<lparr>nn_namespace = ns, nn_name = opName\<rparr>;
                          return (case opr of
                            Inl err \<Rightarrow> Inl (wrapf (''read operator client TLS secret '' @ ns @ ''/'' @ opName) err)
                          | Inr opSec \<Rightarrow>
                              (case TLSConfig E caPEM (mapGet (secr_Data opSec) ''tls.crt'')
                                      (mapGet (secr_Data opSec) ''tls.key'') of
                                 Inl err \<Rightarrow> Inl (wrapf (''build TLS config from secrets '' @ ns @ ''/{'' @
                                              serverName @ '','' @ opName @ ''}'') err)
                               | Inr cfg \<Rightarrow> Inr (Some cfg)))
                        }
                        else
                          return (case TLSConfig E caPEM [] [] of
                            Inl err \<Rightarrow> Inl (wrapf (''server TLS secret '' @ ns @ ''/'' @ serverName) err)
                          | Inr cfg \<Rightarrow> Inr (Some cfg)))))
             }))"

section \<open>What these functions call\<close>

definition isSecretGet :: "event \<Rightarrow> bool" where
  "isSecretGet e = (case e of ESecret (KGet rd q r) \<Rightarrow> True | _ \<Rightarrow> False)"

lemma isSecretGet_simps [simp]: "isSecretGet (ESecret (KGet rd q r))"
  by (simp add: isSecretGet_def)

lemma readRootPassword_emits: "emits isSecretGet (readRootPassword E c)"
  unfolding readRootPassword_def by (intro emits_rules) simp_all

lemma resolveEtcdCredentials_emits: "emits isSecretGet (resolveEtcdCredentials E c)"
  unfolding resolveEtcdCredentials_def by (intro emits_rules readRootPassword_emits)

lemma buildOperatorTLSConfig_emits: "emits isSecretGet (buildOperatorTLSConfig E c)"
  unfolding buildOperatorTLSConfig_def by (intro emits_rules) simp_all

text \<open>A predicate that admits reading Secrets admits these functions.\<close>

lemma etcdDial_emits [emits_rules]:
  assumes "\<And>rd q r. P (ESecret (KGet rd q r))"
  shows "emits P (readRootPassword E cl)" "emits P (resolveEtcdCredentials E c)"
    "emits P (buildOperatorTLSConfig E c)"
  using assms
  by (auto intro!: readRootPassword_emits [THEN emits_mono] resolveEtcdCredentials_emits [THEN emits_mono]
      buildOperatorTLSConfig_emits [THEN emits_mono] simp: isSecretGet_def split: event.splits kev.splits)

text \<open>A monitor that ignores reads of Secrets keeps its state across them.\<close>

lemma etcdDial_safe:
  assumes "\<And>rd q r. step s (ESecret (KGet rd q r)) = Some s"
  shows "safe step s (readRootPassword E cl) (\<lambda>_ s'. s' = s)"
    "safe step s (resolveEtcdCredentials E c) (\<lambda>_ s'. s' = s)"
    "safe step s (buildOperatorTLSConfig E c) (\<lambda>_ s'. s' = s)"
  using assms
  by (auto intro!: emits_safe [OF readRootPassword_emits] emits_safe [OF resolveEtcdCredentials_emits]
      emits_safe [OF buildOperatorTLSConfig_emits] simp: isSecretGet_def split: event.splits kev.splits)

lemma safe_bind_dial [io_rules]:
  assumes "\<And>rd q r. step s (ESecret (KGet rd q r)) = Some s"
  shows "(\<And>r. safe step s (k1 r) Q) \<Longrightarrow> safe step s (State_Monad.bind (readRootPassword E cl) k1) Q"
    "(\<And>r. safe step s (k2 r) Q) \<Longrightarrow> safe step s (State_Monad.bind (resolveEtcdCredentials E c) k2) Q"
    "(\<And>r. safe step s (k3 r) Q) \<Longrightarrow> safe step s (State_Monad.bind (buildOperatorTLSConfig E c) k3) Q"
  using assms by (auto intro!: safe_bind [OF etcdDial_safe(1)] safe_bind [OF etcdDial_safe(2)]
      safe_bind [OF etcdDial_safe(3)])

section \<open>Properties\<close>

text \<open>Credentials: what a resolution with auth in effect returned came from the Secret.\<close>

lemma resolveEtcdCredentials_anonymous:
  "\<not> authInEffect c \<Longrightarrow> resolveEtcdCredentials E c = return (Inr ('''', '''', False))"
  by (cases c) (simp_all add: resolveEtcdCredentials_def)

lemma BasicAuthCredentials_nonempty: "BasicAuthCredentials d = Inr (u, pw) \<Longrightarrow> u \<noteq> '''' \<and> pw \<noteq> ''''"
  by (auto simp: BasicAuthCredentials_def Let_def split: if_splits)

lemma safe_readRootPassword:
  assumes "\<And>rd q r. step s (ESecret (KGet rd q r)) = Some s"
  shows "safe step s (readRootPassword E c) (\<lambda>r s'. s' = s \<and> (\<forall>pw. r = Inr pw \<longrightarrow> pw \<noteq> ''''))"
  unfolding readRootPassword_def Let_def
  by (intro io_rules)
    (auto simp: assms dest: BasicAuthCredentials_nonempty intro!: safe_return split: sum.splits prod.splits)

lemma readRootPassword_nonempty:
  "value_of (readRootPassword E c) = Inr pw \<Longrightarrow> pw \<noteq> ''''"
  using safeD [OF safe_readRootPassword [of "\<lambda>s e. Some s" "()" E c]] by auto

text \<open>
  Dial credentials: while auth is not in effect (not enabled in the spec, or not yet latched in
  the status) the operator reads no Secret and dials anonymously; once it is, a successful
  resolution is the user root with a non-empty password, never an empty one.
\<close>

theorem resolveEtcdCredentials_sound:
  "if authInEffect c
   then (case value_of (resolveEtcdCredentials E c) of
           Inl err \<Rightarrow> True
         | Inr (u, p, b) \<Rightarrow> u = ''root'' \<and> p \<noteq> '''' \<and> b)
   else value_of (resolveEtcdCredentials E c) = Inr ('''', '''', False) \<and>
        trace_of (resolveEtcdCredentials E c) = []"
proof (cases "authInEffect c")
  case False
  then show ?thesis
    by (simp add: resolveEtcdCredentials_anonymous value_of_def trace_of_def)
next
  case True
  then obtain cl where c: "c = Some cl" by (cases c) (auto simp: authInEffect_def)
  have "value_of (resolveEtcdCredentials E c) =
      (case value_of (readRootPassword E cl) of Inl e \<Rightarrow> Inl e | Inr pw \<Rightarrow> Inr (''root'', pw, True))"
    using True
    by (auto simp: c resolveEtcdCredentials_def value_of_def bindE_def split: sum.split prod.split)
  with True readRootPassword_nonempty [of E cl] show ?thesis
    by (auto split: sum.splits)
qed

end
