(* ===== verification/ClusterStatus.thy ===== *)
theory ClusterStatus
  imports EtcdDial
begin

text \<open>
  The target-locking part of \<^verbatim>\<open>src/controllers/etcdcluster_controller.go\<close>: the snapshot of the spec in
  \<^verbatim>\<open>status.observed\<close>, its comparison with the spec, completeness of the current target, and the
  progress deadline. Pure functions on the cluster object.
\<close>

abbreviation (input) DefaultProgressDeadlineSeconds :: int where "DefaultProgressDeadlineSeconds \<equiv> 600"

text \<open>\<^verbatim>\<open>spec.replicas\<close> with the default the code applies to a nil pointer.\<close>

definition specReplicas :: "EtcdCluster \<Rightarrow> int" where
  "specReplicas cluster = (case cs_Replicas (ec_Spec cluster) of None \<Rightarrow> 3 | Some n \<Rightarrow> n)"

definition observedOf :: "EtcdCluster \<Rightarrow> ObservedClusterSpec" where
  "observedOf cluster =
     (let sp = ec_Spec cluster in
      \<lparr>ob_Replicas = specReplicas cluster, ob_Version = cs_Version sp, ob_Storage = cs_Storage sp,
       ob_Resources = cs_Resources sp, ob_Affinity = cs_Affinity sp,
       ob_TopologySpreadConstraints = cs_TopologySpreadConstraints sp,
       ob_AdditionalMetadata = cs_AdditionalMetadata sp, ob_Options = cs_Options sp,
       ob_ImagePullSecrets = cs_ImagePullSecrets sp\<rparr>)"

definition snapshotSpecIntoObserved :: "EtcdCluster \<Rightarrow> EtcdCluster" where
  "snapshotSpecIntoObserved cluster =
     cluster\<lparr>ec_Status := (ec_Status cluster)\<lparr>est_Observed := Some (observedOf cluster)\<rparr>\<rparr>"

definition specEqualsObserved :: "EtcdCluster \<Rightarrow> bool" where
  "specEqualsObserved cluster =
     (case ecObserved cluster of
        None \<Rightarrow> False
      | Some ob \<Rightarrow>
          (let sp = ec_Spec cluster in
           ob_Replicas ob = specReplicas cluster \<and>
           ob_Version ob = cs_Version sp \<and>
           st_Size (ob_Storage ob) = st_Size (cs_Storage sp) \<and>
           st_Medium (ob_Storage ob) = st_Medium (cs_Storage sp) \<and>
           ob_Resources ob = cs_Resources sp \<and>
           ob_Affinity ob = cs_Affinity sp \<and>
           ob_TopologySpreadConstraints ob = cs_TopologySpreadConstraints sp \<and>
           ob_AdditionalMetadata ob = cs_AdditionalMetadata sp \<and>
           ob_Options ob = cs_Options sp \<and>
           ob_ImagePullSecrets ob = cs_ImagePullSecrets sp))"

definition observedAdditionalMetadata :: "EtcdCluster \<Rightarrow> AdditionalMetadata option" where
  "observedAdditionalMetadata cluster =
     (case ecObserved cluster of
        Some ob \<Rightarrow> ob_AdditionalMetadata ob
      | None \<Rightarrow> cs_AdditionalMetadata (ec_Spec cluster))"

definition allMembersReady :: "EtcdMember list \<Rightarrow> bool" where
  "allMembersReady members = list_all memberIsReady members"

definition reconciliationComplete :: "EtcdCluster \<Rightarrow> EtcdMember list \<Rightarrow> bool" where
  "reconciliationComplete cluster members =
     (case ecObserved cluster of
        None \<Rightarrow> False
      | Some ob \<Rightarrow>
          if int (length members) \<noteq> ob_Replicas ob then False
          else if ob_Replicas ob > 0 \<and> ecClusterID cluster = '''' then False
          else list_all memberIsReady members)"

definition clusterProgressing :: "EtcdCluster \<Rightarrow> bool" where
  "clusterProgressing cluster =
     (case findCondition ClusterProgressing (est_Conditions (ec_Status cluster)) of
        None \<Rightarrow> False
      | Some c \<Rightarrow> co_Status c = ConditionTrue)"

definition setProgressDeadline :: "EtcdCluster \<Rightarrow> gotime \<Rightarrow> EtcdCluster" where
  "setProgressDeadline cluster now =
     (let secs = (case cs_ProgressDeadlineSeconds (ec_Spec cluster) of
                    None \<Rightarrow> DefaultProgressDeadlineSeconds | Some n \<Rightarrow> n)
      in cluster\<lparr>ec_Status := (ec_Status cluster)\<lparr>est_ProgressDeadline := Some (now + seconds secs)\<rparr>\<rparr>)"

definition deadlineExpired :: "EtcdCluster \<Rightarrow> gotime \<Rightarrow> bool" where
  "deadlineExpired cluster now =
     (case est_ProgressDeadline (ec_Status cluster) of
        None \<Rightarrow> False
      | Some d \<Rightarrow> \<not> (now < d))"

section \<open>Lemmas\<close>

lemma snapshot_frame [simp]:
  "ec_Meta (snapshotSpecIntoObserved c) = ec_Meta c"
  "ec_Spec (snapshotSpecIntoObserved c) = ec_Spec c"
  "ecClusterID (snapshotSpecIntoObserved c) = ecClusterID c"
  "est_ClusterToken (ec_Status (snapshotSpecIntoObserved c)) = est_ClusterToken (ec_Status c)"
  "est_AuthEnabled (ec_Status (snapshotSpecIntoObserved c)) = est_AuthEnabled (ec_Status c)"
  "ecObserved (snapshotSpecIntoObserved c) = Some (observedOf c)"
  by (simp_all add: snapshotSpecIntoObserved_def)

lemma setProgressDeadline_frame [simp]:
  "ec_Meta (setProgressDeadline c now) = ec_Meta c"
  "ec_Spec (setProgressDeadline c now) = ec_Spec c"
  "ecClusterID (setProgressDeadline c now) = ecClusterID c"
  "est_ClusterToken (ec_Status (setProgressDeadline c now)) = est_ClusterToken (ec_Status c)"
  "est_AuthEnabled (ec_Status (setProgressDeadline c now)) = est_AuthEnabled (ec_Status c)"
  "ecObserved (setProgressDeadline c now) = ecObserved c"
  by (simp_all add: setProgressDeadline_def Let_def)

lemma specReplicas_cong: "ec_Spec c = ec_Spec d \<Longrightarrow> specReplicas c = specReplicas d"
  by (simp add: specReplicas_def)

lemma observedOf_cong: "ec_Spec c = ec_Spec d \<Longrightarrow> observedOf c = observedOf d"
  by (simp add: observedOf_def specReplicas_def)

lemma reconciliationComplete_iff:
  "reconciliationComplete c ms \<longleftrightarrow>
     (\<exists>ob. ecObserved c = Some ob \<and> int (length ms) = ob_Replicas ob \<and>
        (0 < ob_Replicas ob \<longrightarrow> ecClusterID c \<noteq> '''') \<and> allMembersReady ms)"
  by (auto simp: reconciliationComplete_def allMembersReady_def split: option.splits)

lemma observedOf_eq_iff:
  "observedOf c = ob\<lparr>ob_Storage := (ob_Storage ob)\<lparr>
       st_StorageClassName := st_StorageClassName (cs_Storage (ec_Spec c))\<rparr>\<rparr> \<longleftrightarrow>
     ob_Replicas ob = specReplicas c \<and> ob_Version ob = cs_Version (ec_Spec c) \<and>
     st_Size (ob_Storage ob) = st_Size (cs_Storage (ec_Spec c)) \<and>
     st_Medium (ob_Storage ob) = st_Medium (cs_Storage (ec_Spec c)) \<and>
     ob_Resources ob = cs_Resources (ec_Spec c) \<and> ob_Affinity ob = cs_Affinity (ec_Spec c) \<and>
     ob_TopologySpreadConstraints ob = cs_TopologySpreadConstraints (ec_Spec c) \<and>
     ob_AdditionalMetadata ob = cs_AdditionalMetadata (ec_Spec c) \<and>
     ob_Options ob = cs_Options (ec_Spec c) \<and> ob_ImagePullSecrets ob = cs_ImagePullSecrets (ec_Spec c)"
  by (cases ob; cases "ob_Storage ob"; cases "cs_Storage (ec_Spec c)")
    (auto simp: observedOf_def Let_def)

section \<open>Properties\<close>

text \<open>
  Locking a target: after the spec is snapshotted the spec equals the observed target, and a
  spec equals an observed target exactly when snapshotting it again would change nothing but the
  immutable storage class name.
\<close>

theorem specEqualsObserved_snapshot:
  "specEqualsObserved (snapshotSpecIntoObserved c) \<and>
   specEqualsObserved c =
     (\<exists>ob. ecObserved c = Some ob \<and>
        observedOf c = ob\<lparr>ob_Storage := (ob_Storage ob)\<lparr>
          st_StorageClassName := st_StorageClassName (cs_Storage (ec_Spec c))\<rparr>\<rparr>)"
proof
  show "specEqualsObserved (snapshotSpecIntoObserved c)"
    by (simp add: specEqualsObserved_def observedOf_def specReplicas_def Let_def)
  show "specEqualsObserved c =
     (\<exists>ob. ecObserved c = Some ob \<and>
        observedOf c = ob\<lparr>ob_Storage := (ob_Storage ob)\<lparr>
          st_StorageClassName := st_StorageClassName (cs_Storage (ec_Spec c))\<rparr>\<rparr>)"
    by (cases "ecObserved c") (auto simp: specEqualsObserved_def observedOf_eq_iff Let_def)
qed

text \<open>
  The progress deadline: for a 32-bit number of seconds the duration computed fits Go's 64-bit
  nanosecond durations, a deadline just set with a positive number of seconds has not expired,
  and it has expired once that many seconds have passed.
\<close>

theorem setProgressDeadline_expiry:
  assumes "cs_ProgressDeadlineSeconds (ec_Spec c) = Some n" and "1 \<le> n" and "n < 2 ^ 31"
  shows "seconds n < 2 ^ 63 \<and>
         \<not> deadlineExpired (setProgressDeadline c now) now \<and>
         (deadlineExpired (setProgressDeadline c now) later = (now + seconds n \<le> later))"
  using assms by (auto simp: setProgressDeadline_def deadlineExpired_def)

theorem setProgressDeadline_expiry_witness:
  "seconds 600 < 2 ^ 63 \<and> \<not> deadlineExpired (setProgressDeadline sampleCluster 5) 5"
  using setProgressDeadline_expiry [of sampleCluster 600 5 5]
  by (simp add: sampleCluster_def sampleSpec_def)

end
