(* ===== verification/ClusterChildren.thy ===== *)
theory ClusterChildren
  imports ClusterStatus
begin

text \<open>
  The objects the cluster controller keeps beside the members: the two Services and the traffic
  distribution of the client Service (\<^verbatim>\<open>ensureServices\<close> and \<^verbatim>\<open>src/controllers/client_service.go\<close>), the
  PodDisruptionBudget and the cert-manager Certificates
  (\<^verbatim>\<open>src/controllers/etcdcluster_controller.go\<close>).
\<close>

record EtcdClusterReconciler =
  CertManagerAvailable :: bool
  ClusterDomain :: string
  HasRecorder :: bool

definition clusterEvent :: "EtcdClusterReconciler \<Rightarrow> string \<Rightarrow> string \<Rightarrow> string \<Rightarrow> unit proc" where
  "clusterEvent r ty reason msg = (if HasRecorder r then recordEvent ty reason msg else return ())"

text \<open>Discarding the object a write returns, for functions that return only an error.\<close>

definition errOnly :: "(goerror + 'a) proc \<Rightarrow> (goerror + unit) proc" where
  "errOnly m = bindE m (\<lambda>_. return (Inr ()))"

section \<open>Services\<close>

definition clientServiceName :: "EtcdCluster \<Rightarrow> string" where
  "clientServiceName cluster = ecName cluster @ ''-client''"

definition equalSelectors :: "smap \<Rightarrow> smap \<Rightarrow> bool" where
  "equalSelectors a b =
     (if fcard (fmdom a) \<noteq> fcard (fmdom b) then False else fmpred (\<lambda>k v. mapGet b k = v) a)"

fun upsertPortByName :: "ServicePort list \<Rightarrow> ServicePort \<Rightarrow> bool \<times> ServicePort list" where
  "upsertPortByName [] want = (True, [want])"
| "upsertPortByName (p # ps) want =
     (if sp_Name p \<noteq> sp_Name want then
        (let (ch, ps') = upsertPortByName ps want in (ch, p # ps'))
      else if sp_Port p = sp_Port want \<and> sp_Protocol p = sp_Protocol want \<and>
              sp_TargetPort p = sp_TargetPort want then (False, p # ps)
      else (True, want # ps))"

fun upsertPorts :: "bool \<Rightarrow> ServicePort list \<Rightarrow> ServicePort list \<Rightarrow> bool \<times> ServicePort list" where
  "upsertPorts changed ports [] = (changed, ports)"
| "upsertPorts changed ports (want # ws) =
     (let (ch, ports') = upsertPortByName ports want in upsertPorts (ch \<or> changed) ports' ws)"

text \<open>The drift correction on the owned fields: selector, publishNotReadyAddresses, named ports.\<close>

definition reconcileServiceSpec :: "ServiceSpec \<Rightarrow> ServiceSpec \<Rightarrow> bool \<times> ServiceSpec" where
  "reconcileServiceSpec live desired =
     (let c1 = (\<not> equalSelectors (svs_Selector live) (svs_Selector desired));
          s1 = (if c1 then live\<lparr>svs_Selector := svs_Selector desired\<rparr> else live);
          c2 = (svs_PublishNotReadyAddresses s1 \<noteq> svs_PublishNotReadyAddresses desired);
          s2 = (if c2 then s1\<lparr>svs_PublishNotReadyAddresses := svs_PublishNotReadyAddresses desired\<rparr> else s1);
          (c3, ports) = upsertPorts (c1 \<or> c2) (svs_Ports s2) (svs_Ports desired)
      in (c3, s2\<lparr>svs_Ports := ports\<rparr>))"

definition ensureService ::
  "env \<Rightarrow> EtcdCluster \<Rightarrow> string \<Rightarrow> ServiceSpec \<Rightarrow> (goerror + unit) proc" where
  "ensureService E cluster name desired = do {
     r \<leftarrow> getService E \<lparr>nn_namespace = ecNamespace cluster, nn_name = name\<rparr>;
     (case r of
        Inl err \<Rightarrow>
          if IsNotFound err then
            (let (labels, annotations) =
                   applyAdditionalMetadata (clusterLabels (ecName cluster)) fmempty (observedAdditionalMetadata cluster);
                 meta = emptyMeta\<lparr>om_Name := name, om_Namespace := ecNamespace cluster,
                                  om_Labels := labels, om_Annotations := annotations\<rparr>
             in case setControllerReference E ''EtcdCluster'' (ec_Meta cluster) meta of
                  Inl e \<Rightarrow> return (Inl e)
                | Inr meta' \<Rightarrow>
                    errOnly (writeService E (Create \<lparr>svc_Meta = meta', svc_Spec = desired, svc_ApplyManagers = []\<rparr>)))
          else return (Inl err)
      | Inr svc \<Rightarrow>
          (let (changed, spec') = reconcileServiceSpec (svc_Spec svc) desired
           in if \<not> changed then return (Inr ())
              else errOnly (writeService E (Patch svc (svc\<lparr>svc_Spec := spec'\<rparr>)))))
   }"

definition knownTrafficDistributions :: "string list" where
  "knownTrafficDistributions = [''PreferClose'', ''PreferSameZone'', ''PreferSameNode'']"

definition desiredTrafficDistribution :: "EtcdCluster \<Rightarrow> string \<times> bool" where
  "desiredTrafficDistribution cluster =
     (case fmlookup (om_Annotations (ec_Meta cluster)) AnnClientServiceTrafficDistribution of
        None \<Rightarrow> ('''', True)
      | Some v \<Rightarrow> if v \<in> set knownTrafficDistributions then (v, True) else ('''', False))"

abbreviation (input) trafficDistributionFieldManager :: string where
  "trafficDistributionFieldManager \<equiv> ''etcd-operator-traffic-distribution''"

definition ownsTrafficDistribution :: "env \<Rightarrow> Service \<Rightarrow> goerror + bool" where
  "ownsTrafficDistribution E svc =
     (if trafficDistributionFieldManager \<notin> set (svc_ApplyManagers svc) then Inr False
      else l_extractOwnsTraffic (e_lib E) svc)"

definition applyTrafficDistribution :: "env \<Rightarrow> Service \<Rightarrow> string \<Rightarrow> (goerror + string) proc" where
  "applyTrafficDistribution E svc v =
     trafficApply E \<lparr>nn_namespace = om_Namespace (svc_Meta svc), nn_name = om_Name (svc_Meta svc)\<rparr> v"

text \<open>Releasing the field: only when the operator's field manager holds it.\<close>

definition releaseTrafficDistribution :: "env \<Rightarrow> Service \<Rightarrow> (goerror + unit) proc" where
  "releaseTrafficDistribution E svc =
     (case ownsTrafficDistribution E svc of
        Inl err \<Rightarrow> return (Inl err)
      | Inr owned \<Rightarrow> if \<not> owned then return (Inr ()) else errOnly (applyTrafficDistribution E svc ''''))"

definition reconcileClientTrafficDistribution ::
  "env \<Rightarrow> EtcdClusterReconciler \<Rightarrow> EtcdCluster \<Rightarrow> (goerror + unit) proc" where
  "reconcileClientTrafficDistribution E r cluster = do {
     g \<leftarrow> getService E \<lparr>nn_namespace = ecNamespace cluster, nn_name = clientServiceName cluster\<rparr>;
     (case g of
        Inl err \<Rightarrow> return (if IsNotFound err then Inr () else Inl err)
      | Inr svc \<Rightarrow>
          (let (want, valid) = desiredTrafficDistribution cluster;
               svcName = om_Name (svc_Meta svc)
           in do {
             (if \<not> valid then
                clusterEvent r ''Warning'' ''InvalidTrafficDistribution''
                  (''annotation '' @ AnnClientServiceTrafficDistribution @ ''='' @
                   goQuote (mapGet (om_Annotations (ec_Meta cluster)) AnnClientServiceTrafficDistribution) @
                   '' is not one of ['' @ Join knownTrafficDistributions '' '' @
                   '']; leaving trafficDistribution unset on Service '' @ svcName)
              else return ());
             (if want = '''' then releaseTrafficDistribution E svc
              else if svs_TrafficDistribution (svc_Spec svc) = Some want then return (Inr ())
              else do {
                a \<leftarrow> applyTrafficDistribution E svc want;
                (case a of
                   Inl err \<Rightarrow>
                     if IsInvalid err \<or> IsBadRequest err then do {
                       clusterEvent r ''Warning'' ''TrafficDistributionRejected''
                         (''apiserver rejected trafficDistribution='' @ goQuote want @ '' on Service '' @
                          svcName @ ''; leaving it unset: '' @ err_msg err);
                       releaseTrafficDistribution E svc
                     }
                     else return (Inl err)
                 | Inr got \<Rightarrow>
                     if got \<noteq> want then do {
                       clusterEvent r ''Warning'' ''TrafficDistributionNotPersisted''
                         (''apiserver dropped trafficDistribution='' @ goQuote want @ '' on Service '' @
                          svcName @ ''; it does not serve the field (Kubernetes 1.31+ required)'');
                       return (Inr ())
                     }
                     else return (Inr ()))
              })
           }))
   }"

definition plainPort :: "string \<Rightarrow> int \<Rightarrow> ServicePort" where
  "plainPort name port = \<lparr>sp_Name = name, sp_Port = port, sp_Protocol = '''', sp_TargetPort = IntVal 0\<rparr>"

definition headlessServiceSpec :: "EtcdCluster \<Rightarrow> ServiceSpec" where
  "headlessServiceSpec cluster =
     \<lparr>svs_ClusterIP = ''None'', svs_PublishNotReadyAddresses = True,
      svs_Selector = fmupd LabelCluster (ecName cluster) fmempty,
      svs_Ports = [plainPort ''client'' 2379, plainPort ''peer'' 2380],
      svs_TrafficDistribution = None\<rparr>"

definition clientServiceSpec :: "EtcdCluster \<Rightarrow> ServiceSpec" where
  "clientServiceSpec cluster =
     \<lparr>svs_ClusterIP = '''', svs_PublishNotReadyAddresses = False,
      svs_Selector = fmupd LabelCluster (ecName cluster) fmempty,
      svs_Ports = [plainPort ''client'' 2379],
      svs_TrafficDistribution = None\<rparr>"

definition ensureServices :: "env \<Rightarrow> EtcdClusterReconciler \<Rightarrow> EtcdCluster \<Rightarrow> (goerror + unit) proc" where
  "ensureServices E r cluster =
     bindE (ensureService E cluster (ecName cluster) (headlessServiceSpec cluster)) (\<lambda>_.
     bindE (ensureService E cluster (clientServiceName cluster) (clientServiceSpec cluster)) (\<lambda>_.
     reconcileClientTrafficDistribution E r cluster))"

section \<open>PodDisruptionBudget\<close>

definition pdbMinAvailable :: "int \<Rightarrow> int \<Rightarrow> int" where
  "pdbMinAvailable voterCount targetReplicas =
     (let anchor = max voterCount targetReplicas
      in if anchor < 1 then 0 else toInt32 (anchor sdiv 2 + 1))"

definition reconcilePDB :: "env \<Rightarrow> EtcdCluster \<Rightarrow> int \<Rightarrow> (goerror + unit) proc" where
  "reconcilePDB E cluster voterCount = do {
     g \<leftarrow> getPDB E \<lparr>nn_namespace = ecNamespace cluster, nn_name = ecName cluster\<rparr>;
     (if voterCount = 0 then
        (case g of
           Inl err \<Rightarrow> return (if IsNotFound err then Inr () else Inl err)
         | Inr pdb \<Rightarrow> errOnly (writePDB E (Delete pdb)))
      else
        (let targetReplicas = (case ecObserved cluster of None \<Rightarrow> 0 | Some ob \<Rightarrow> ob_Replicas ob);
             minAvail = pdbMinAvailable voterCount targetReplicas;
             wantSelector = fmap_of_list [(LabelCluster, ecName cluster), (LabelRole, RoleVoter)]
         in case g of
              Inl err \<Rightarrow>
                if IsNotFound err then
                  (let (labels, annotations) =
                         applyAdditionalMetadata (clusterLabels (ecName cluster)) fmempty (observedAdditionalMetadata cluster);
                       meta = emptyMeta\<lparr>om_Name := ecName cluster, om_Namespace := ecNamespace cluster,
                                        om_Labels := labels, om_Annotations := annotations\<rparr>
                   in case setControllerReference E ''EtcdCluster'' (ec_Meta cluster) meta of
                        Inl e \<Rightarrow> return (Inl e)
                      | Inr meta' \<Rightarrow>
                          errOnly (writePDB E (Create \<lparr>pdb_Meta = meta', pdb_MinAvailable = Some (IntVal minAvail),
                                                      pdb_MaxUnavailable = None, pdb_Selector = wantSelector\<rparr>)))
                else return (Inl err)
            | Inr pdb \<Rightarrow>
                (let currentMin =
                       (case (pdb_MaxUnavailable pdb, pdb_MinAvailable pdb) of
                          (None, Some v) \<Rightarrow> toInt32 (l_intValue (e_lib E) v)
                        | _ \<Rightarrow> -1)
                 in if currentMin = minAvail then return (Inr ())
                    else errOnly (writePDB E (Patch pdb
                           (pdb\<lparr>pdb_MaxUnavailable := None, pdb_MinAvailable := Some (IntVal minAvail)\<rparr>))))))
   }"

section \<open>Certificates\<close>

definition hasCertManagerTLS :: "EtcdCluster \<Rightarrow> bool" where
  "hasCertManagerTLS cluster =
     (case cs_TLS (ec_Spec cluster) of None \<Rightarrow> False | Some t \<Rightarrow>
        (case tls_Client t of Some c \<Rightarrow> ct_CertManager c \<noteq> None | None \<Rightarrow> False) \<or>
        (case tls_Peer t of Some p \<Rightarrow> pt_CertManager p \<noteq> None | None \<Rightarrow> False))"

record certificateSpec =
  csp_name :: string
  csp_secretName :: string
  csp_commonName :: string
  csp_dnsNames :: "string list"
  csp_ipAddresses :: "string list"
  csp_usages :: "string list"
  csp_issuerRef :: IssuerReference

definition serverCertDNSNames :: "EtcdCluster \<Rightarrow> string \<Rightarrow> string list" where
  "serverCertDNSNames cluster clusterDomain =
     (let wild = ''*.'' @ ecName cluster @ ''.'' @ ecNamespace cluster @ ''.svc'';
          svc = ecName cluster @ ''.'' @ ecNamespace cluster @ ''.svc'';
          clientSvc = ecName cluster @ ''-client.'' @ ecNamespace cluster @ ''.svc''
      in [wild, wild @ ''.'' @ clusterDomain, svc, svc @ ''.'' @ clusterDomain,
          clientSvc, clientSvc @ ''.'' @ clusterDomain, ''localhost''])"

definition peerCertDNSNames :: "EtcdCluster \<Rightarrow> string \<Rightarrow> string list" where
  "peerCertDNSNames cluster clusterDomain =
     (let wild = ''*.'' @ ecName cluster @ ''.'' @ ecNamespace cluster @ ''.svc''
      in [wild, wild @ ''.'' @ clusterDomain])"

definition ensureCertificate :: "env \<Rightarrow> EtcdCluster \<Rightarrow> certificateSpec \<Rightarrow> (goerror + unit) proc" where
  "ensureCertificate E cluster spec = do {
     g \<leftarrow> getCertificate E \<lparr>nn_namespace = ecNamespace cluster, nn_name = csp_name spec\<rparr>;
     (case g of
        Inr existing \<Rightarrow> return (Inr ())
      | Inl err \<Rightarrow>
          if \<not> IsNotFound err then return (Inl err)
          else
            (let meta = emptyMeta\<lparr>om_Name := csp_name spec, om_Namespace := ecNamespace cluster\<rparr>
             in case setControllerReference E ''EtcdCluster'' (ec_Meta cluster) meta of
                  Inl e \<Rightarrow> return (Inl e)
                | Inr meta' \<Rightarrow>
                    errOnly (writeCertificate E (Create
                      \<lparr>cert_Meta = meta', cert_SecretName = csp_secretName spec,
                       cert_CommonName = csp_commonName spec,
                       cert_IssuerName = ir_Name (csp_issuerRef spec),
                       cert_IssuerKind = (if ir_Kind (csp_issuerRef spec) \<noteq> '''' then ir_Kind (csp_issuerRef spec)
                                          else ''Issuer''),
                       cert_IssuerGroup = ''cert-manager.io'',
                       cert_KeyAlgorithm = ''RSA'', cert_KeySize = 2048,
                       cert_Usages = csp_usages spec, cert_DNSNames = csp_dnsNames spec,
                       cert_IPAddresses = csp_ipAddresses spec\<rparr>))))
   }"

abbreviation (input) serverUsages :: "string list" where
  "serverUsages \<equiv> [''server auth'', ''client auth'', ''digital signature'', ''key encipherment'']"

definition reconcileTLSCertificates ::
  "env \<Rightarrow> EtcdClusterReconciler \<Rightarrow> EtcdCluster \<Rightarrow> (goerror + unit) proc" where
  "reconcileTLSCertificates E r cluster =
     (case cs_TLS (ec_Spec cluster) of
        None \<Rightarrow> return (Inr ())
      | Some t \<Rightarrow>
          (let domain = (if ClusterDomain r = '''' then ''cluster.local'' else ClusterDomain r);
               n = ecName cluster in
           bindE
             (case tls_Client t of
                None \<Rightarrow> return (Inr ())
              | Some c \<Rightarrow>
                  (case ct_CertManager c of
                     None \<Rightarrow> return (Inr ())
                   | Some cm \<Rightarrow>
                       bindE (ensureCertificate E cluster
                         \<lparr>csp_name = n @ ''-server'', csp_secretName = n @ ''-server-tls'',
                          csp_commonName = n @ ''-server'', csp_dnsNames = serverCertDNSNames cluster domain,
                          csp_ipAddresses = [''127.0.0.1''], csp_usages = serverUsages,
                          csp_issuerRef = ccm_ServerIssuerRef cm\<rparr>) (\<lambda>_.
                       (case ccm_OperatorClientIssuerRef cm of
                          None \<Rightarrow> return (Inr ())
                        | Some iref \<Rightarrow>
                            ensureCertificate E cluster
                              \<lparr>csp_name = n @ ''-operator-client'', csp_secretName = n @ ''-operator-client-tls'',
                               csp_commonName = n @ ''-operator-client'', csp_dnsNames = [], csp_ipAddresses = [],
                               csp_usages = [''client auth'', ''digital signature'', ''key encipherment''],
                               csp_issuerRef = iref\<rparr>))))
             (\<lambda>_.
             (case tls_Peer t of
                None \<Rightarrow> return (Inr ())
              | Some p \<Rightarrow>
                  (case pt_CertManager p of
                     None \<Rightarrow> return (Inr ())
                   | Some cm \<Rightarrow>
                       ensureCertificate E cluster
                         \<lparr>csp_name = n @ ''-peer'', csp_secretName = n @ ''-peer-tls'',
                          csp_commonName = n @ ''-peer'', csp_dnsNames = peerCertDNSNames cluster domain,
                          csp_ipAddresses = [], csp_usages = serverUsages,
                          csp_issuerRef = pcm_IssuerRef cm\<rparr>)))))"

section \<open>Keyed upserts\<close>

text \<open>
  The contract shared by the port upsert and the condition upsert: a list keyed by a field, an
  insertion that replaces the entry of the same key or appends, and leaves every other key alone.
\<close>

locale keyed_upsert =
  fixes key :: "'a \<Rightarrow> 'k"
    and agree :: "'a \<Rightarrow> 'a \<Rightarrow> bool"
    and upsert :: "'a list \<Rightarrow> 'a \<Rightarrow> 'a list"
  assumes upsert_same: "\<exists>y. List.find (\<lambda>z. key z = key x) (upsert xs x) = Some y \<and> agree y x"
    and upsert_other: "k \<noteq> key x \<Longrightarrow> List.find (\<lambda>z. key z = k) (upsert xs x) = List.find (\<lambda>z. key z = k) xs"
    and upsert_keys: "set (map key (upsert xs x)) = insert (key x) (set (map key xs))"
    and upsert_distinct: "distinct (map key xs) \<Longrightarrow> distinct (map key (upsert xs x))"
begin

definition upsertAll :: "'a list \<Rightarrow> 'a list \<Rightarrow> 'a list" where
  "upsertAll xs ws = foldl upsert xs ws"

lemma upsertAll_other:
  "k \<notin> key ` set ws \<Longrightarrow> List.find (\<lambda>z. key z = k) (upsertAll xs ws) = List.find (\<lambda>z. key z = k) xs"
proof (induction ws arbitrary: xs)
  case (Cons w ws)
  then have "List.find (\<lambda>z. key z = k) (upsertAll (upsert xs w) ws) =
      List.find (\<lambda>z. key z = k) (upsert xs w)" by simp
  moreover have "k \<noteq> key w" using Cons.prems by auto
  ultimately show ?case by (simp add: upsertAll_def upsert_other)
qed (simp add: upsertAll_def)

lemma upsertAll_present:
  "distinct (map key ws) \<Longrightarrow> w \<in> set ws \<Longrightarrow>
   \<exists>y. List.find (\<lambda>z. key z = key w) (upsertAll xs ws) = Some y \<and> agree y w"
proof (induction ws arbitrary: xs)
  case (Cons v ws)
  show ?case
  proof (cases "w = v")
    case True
    with Cons.prems have "key w \<notin> key ` set ws" by auto
    from upsertAll_other [OF this, of "upsert xs v"] True upsert_same [of v xs]
    show ?thesis by (auto simp: upsertAll_def)
  next
    case False
    with Cons.prems Cons.IH [of "upsert xs v"] show ?thesis by (auto simp: upsertAll_def)
  qed
qed simp

lemma upsertAll_distinct: "distinct (map key xs) \<Longrightarrow> distinct (map key (upsertAll xs ws))"
  unfolding upsertAll_def by (induction ws arbitrary: xs) (simp_all add: upsert_distinct)

end

definition samePort :: "ServicePort \<Rightarrow> ServicePort \<Rightarrow> bool" where
  "samePort p want \<longleftrightarrow> sp_Name p = sp_Name want \<and> sp_Port p = sp_Port want \<and>
     sp_Protocol p = sp_Protocol want \<and> sp_TargetPort p = sp_TargetPort want"

lemma upsertPort_find_same:
  "\<exists>y. List.find (\<lambda>z. sp_Name z = sp_Name w) (snd (upsertPortByName ps w)) = Some y \<and> samePort y w"
  by (induction ps w rule: upsertPortByName.induct) (auto simp: samePort_def split: prod.splits)

lemma upsertPort_find_other:
  "k \<noteq> sp_Name w \<Longrightarrow> List.find (\<lambda>z. sp_Name z = k) (snd (upsertPortByName ps w)) =
     List.find (\<lambda>z. sp_Name z = k) ps"
  by (induction ps w rule: upsertPortByName.induct) (auto split: prod.splits)

lemma upsertPort_names:
  "set (map sp_Name (snd (upsertPortByName ps w))) = insert (sp_Name w) (set (map sp_Name ps))"
  by (induction ps w rule: upsertPortByName.induct)
    (simp_all add: case_prod_beta Let_def insert_commute)

lemma upsertPort_distinct:
  "distinct (map sp_Name ps) \<Longrightarrow> distinct (map sp_Name (snd (upsertPortByName ps w)))"
proof (induction ps w rule: upsertPortByName.induct)
  case (2 p ps w)
  then show ?case
    using upsertPort_names [of ps w] by (auto split: prod.splits)
qed simp

interpretation portUpsert: keyed_upsert sp_Name samePort "\<lambda>ps w. snd (upsertPortByName ps w)"
  by unfold_locales
    (use upsertPort_find_same upsertPort_find_other upsertPort_names upsertPort_distinct in auto)

interpretation conditionUpsert: keyed_upsert co_Type sameCondition "setCondition now" for now
proof unfold_locales
  fix xs :: "Condition list" and x k
  show "\<exists>y. List.find (\<lambda>z. co_Type z = co_Type x) (setCondition now xs x) = Some y \<and> sameCondition y x"
    using findCondition_setCondition [of x now xs] by (simp add: findCondition_def sameCondition_def)
  show "k \<noteq> co_Type x \<Longrightarrow> List.find (\<lambda>z. co_Type z = k) (setCondition now xs x) =
      List.find (\<lambda>z. co_Type z = k) xs"
    using findCondition_setCondition_other [of k x now xs] by (simp add: findCondition_def)
qed (use set_types_setCondition distinct_types_setCondition in auto)

lemma upsertPorts_snd: "snd (upsertPorts ch ps ws) = portUpsert.upsertAll ps ws"
  unfolding portUpsert.upsertAll_def
  by (induction ch ps ws rule: upsertPorts.induct) (auto split: prod.splits)

lemma upsertPortByName_unchanged:
  "\<not> fst (upsertPortByName ps w) \<Longrightarrow> snd (upsertPortByName ps w) = ps"
  by (induction ps w rule: upsertPortByName.induct) (auto split: prod.splits if_splits)

lemma upsertPorts_sticky: "ch \<Longrightarrow> fst (upsertPorts ch ps ws)"
  by (induction ch ps ws rule: upsertPorts.induct) (auto split: prod.splits)

lemma upsertPorts_unchanged:
  "\<not> fst (upsertPorts ch ps ws) \<Longrightarrow> \<not> ch \<and> snd (upsertPorts ch ps ws) = ps"
proof (induction ch ps ws rule: upsertPorts.induct)
  case (2 ch ps w ws)
  obtain c ps' where u: "upsertPortByName ps w = (c, ps')" by fastforce
  from 2 have "\<not> c" "\<not> ch" "snd (upsertPorts (c \<or> ch) ps' ws) = ps'"
    using "2.IH" [OF u [symmetric] refl] "2.prems" by (auto simp: u)
  moreover from \<open>\<not> c\<close> upsertPortByName_unchanged [of ps w] have "ps' = ps" by (simp add: u)
  ultimately show ?case by (simp add: u)
qed simp

section \<open>What the children's code calls\<close>

definition isChildEvent :: "event \<Rightarrow> bool" where
  "isChildEvent e = (case e of EService _ \<Rightarrow> True | EPDB _ \<Rightarrow> True | ECertificate _ \<Rightarrow> True
     | ETrafficApply _ _ _ \<Rightarrow> True | ERecord _ _ _ \<Rightarrow> True | _ \<Rightarrow> False)"

lemma isChildEvent_simps [simp]:
  "isChildEvent (EService k1)" "isChildEvent (EPDB k2)" "isChildEvent (ECertificate k3)"
  "isChildEvent (ETrafficApply q v r)" "isChildEvent (ERecord a b c)"
  by (simp_all add: isChildEvent_def)

lemma errOnly_emits [emits_rules]: "emits P m \<Longrightarrow> emits P (errOnly m)"
  unfolding errOnly_def by (intro emits_rules)

lemma clusterEvent_emits [emits_rules]: "P (ERecord ty reason msg) \<Longrightarrow> emits P (clusterEvent r ty reason msg)"
  unfolding clusterEvent_def by (intro emits_rules)

text \<open>The calls of the code that keeps the Services, the disruption budget and the certificates.\<close>

locale children_footprint =
  fixes P :: "event \<Rightarrow> bool"
  assumes service: "P (EService (KGet Cached q sg))" "P (EService (KWrite (Create s) sr))"
      "P (EService (KWrite (Patch s s') sr))"
    and traffic: "P (ETrafficApply q v tr)"
    and budget: "P (EPDB (KGet Cached q bg))" "P (EPDB (KWrite (Create b) br))" "P (EPDB (KWrite (Patch b b') br))"
      "P (EPDB (KWrite (Delete b) br))"
    and certificate: "P (ECertificate (KGet Cached q cg))" "P (ECertificate (KWrite (Create c) cr))"
    and recorded: "P (ERecord ty reason msg)"
begin

lemma services: "emits P (ensureServices E r cluster)"
  unfolding ensureServices_def ensureService_def reconcileClientTrafficDistribution_def
    releaseTrafficDistribution_def applyTrafficDistribution_def
  by (intro emits_rules service traffic recorded)

lemma disruption: "emits P (reconcilePDB E cluster voters)"
  unfolding reconcilePDB_def Let_def by (intro emits_rules budget)

lemma certificates: "emits P (reconcileTLSCertificates E r cluster)"
  unfolding reconcileTLSCertificates_def ensureCertificate_def Let_def by (intro emits_rules certificate)

end

interpretation childF: children_footprint isChildEvent
  by unfold_locales simp_all

section \<open>Properties\<close>

text \<open>
  C40. The disruption budget keeps quorum: for 32-bit member counts the minimum available is a
  strict majority both of the current voters and of the target, fits an int32, never exceeds the
  larger of the two counts, and so permits at most the number of voluntary disruptions an etcd
  cluster of that many voters tolerates.
\<close>

theorem pdbMinAvailable_quorum:
  assumes "0 \<le> v" "v < 2 ^ 31" "0 \<le> t" "t < 2 ^ 31" "0 < max v t"
  shows "2 * pdbMinAvailable v t > v \<and> 2 * pdbMinAvailable v t > t \<and>
         pdbMinAvailable v t \<le> max v t \<and> pdbMinAvailable v t < 2 ^ 31 \<and>
         v - pdbMinAvailable v t \<le> (v - 1) div 2"
proof -
  let ?a = "max v t"
  have "?a sdiv 2 = ?a div 2"
    using assms by (simp add: signed_divide_int_def)
  moreover have "toInt32 (?a div 2 + 1) = ?a div 2 + 1"
    using assms by (intro toInt32_id) auto
  ultimately have "pdbMinAvailable v t = ?a div 2 + 1"
    using assms unfolding pdbMinAvailable_def Let_def by (auto split: if_splits)
  then show ?thesis using assms by auto
qed

theorem pdbMinAvailable_quorum_witness:
  "pdbMinAvailable 5 3 = 3 \<and> 2 * pdbMinAvailable 5 3 > 5 \<and> 5 - pdbMinAvailable 5 3 \<le> 2"
  using pdbMinAvailable_quorum [of 5 3]
  by (simp add: pdbMinAvailable_def toInt32_def signed_divide_int_def)

definition pdbCallOK :: "EtcdCluster \<Rightarrow> int \<Rightarrow> event \<Rightarrow> bool" where
  "pdbCallOK c v e =
     (let want = pdbMinAvailable v (case ecObserved c of None \<Rightarrow> 0 | Some ob \<Rightarrow> ob_Replicas ob) in
      case e of
        EPDB (KGet rd q r) \<Rightarrow> q = \<lparr>nn_namespace = ecNamespace c, nn_name = ecName c\<rparr>
      | EPDB (KWrite (Create p) r) \<Rightarrow>
          v \<noteq> 0 \<and> pdb_MinAvailable p = Some (IntVal want) \<and> pdb_MaxUnavailable p = None \<and>
          fmlookup (pdb_Selector p) LabelCluster = Some (ecName c) \<and>
          fmlookup (pdb_Selector p) LabelRole = Some RoleVoter
      | EPDB (KWrite (Patch old new) r) \<Rightarrow>
          v \<noteq> 0 \<and> new = old\<lparr>pdb_MaxUnavailable := None, pdb_MinAvailable := Some (IntVal want)\<rparr>
      | EPDB (KWrite (Delete p) r) \<Rightarrow> v = 0
      | _ \<Rightarrow> False)"

text \<open>
  Every call of the budget's reconciliation, on every branch: it looks up the cluster's own
  budget; without voters it only deletes one that exists; with voters it creates a budget with
  the majority and a selector for this cluster's voters, or patches an existing one to the
  majority, changing nothing else of it. It never touches another object.
\<close>

theorem reconcilePDB_calls: "list_all (pdbCallOK c v) (trace_of (reconcilePDB E c v))"
proof (rule emits_trace)
  show "emits (pdbCallOK c v) (reconcilePDB E c v)"
    unfolding reconcilePDB_def Let_def
    by (intro emits_rules) (simp_all add: pdbCallOK_def Let_def)
qed

text \<open>Comparing selectors with Go's map indexing is equality when no live value is empty.\<close>

lemma equalSelectors_eq:
  assumes "fmpred (\<lambda>_ v. v \<noteq> '''') a"
  shows "equalSelectors a b \<longleftrightarrow> a = b"
proof
  assume eq: "equalSelectors a b"
  then have card: "fcard (fmdom a) = fcard (fmdom b)" and get: "fmpred (\<lambda>k v. mapGet b k = v) a"
    by (auto simp: equalSelectors_def split: if_splits)
  have look: "fmlookup b k = Some v" if "fmlookup a k = Some v" for k v
    using fmpredD [OF get that] fmpredD [OF assms that] by (auto simp: mapGet_def split: option.splits)
  then have sub: "fmdom a |\<subseteq>| fmdom b"
    by (metis fmdomE fmdomI fsubsetI)
  with card have dom: "fmdom a = fmdom b"
    using fcard_seteq [of "fmdom a" "fmdom b"] by simp
  show "a = b"
  proof (rule fmap_ext)
    fix k
    show "fmlookup a k = fmlookup b k"
    proof (cases "fmlookup a k")
      case None
      then show ?thesis using dom by (metis fmdom_notD fmdom_notI)
    next
      case (Some v)
      then show ?thesis using look by simp
    qed
  qed
next
  assume "a = b"
  moreover have "fmpred (\<lambda>k v. mapGet b k = v) b"
    by (auto intro!: fmpredI simp: mapGet_def)
  ultimately show "equalSelectors a b" by (simp add: equalSelectors_def)
qed

lemma reconcileServiceSpec_result:
  "snd (reconcileServiceSpec live desired) =
     live\<lparr>svs_Selector := (if equalSelectors (svs_Selector live) (svs_Selector desired)
                            then svs_Selector live else svs_Selector desired),
          svs_PublishNotReadyAddresses := svs_PublishNotReadyAddresses desired,
          svs_Ports := portUpsert.upsertAll (svs_Ports live) (svs_Ports desired)\<rparr>"
  by (cases live) (simp add: reconcileServiceSpec_def Let_def case_prod_beta upsertPorts_snd)

lemma reconcileServiceSpec_unchanged:
  "\<not> fst (reconcileServiceSpec live desired) \<Longrightarrow> snd (reconcileServiceSpec live desired) = live"
  using upsertPorts_unchanged [of "\<not> equalSelectors (svs_Selector live) (svs_Selector desired) \<or>
      svs_PublishNotReadyAddresses live \<noteq> svs_PublishNotReadyAddresses desired" "svs_Ports live" "svs_Ports desired"]
  by (auto simp: reconcileServiceSpec_def Let_def case_prod_beta split: if_splits)

text \<open>
  Drift correction of a Service: after it the selector, the readiness publishing and every
  required port are as desired; ports under other names, and every field the operator does not
  own, are as they were; port names stay distinct; and it reports no change only when it leaves
  the live specification as it is. (The selector comparison takes a missing key for an empty
  value, hence the hypothesis on the live selector.)
\<close>

theorem reconcileServiceSpec_owned_fields:
  assumes "reconcileServiceSpec live desired = (changed, result)"
    and "fmpred (\<lambda>_ v. v \<noteq> '''') (svs_Selector live)"
    and "distinct (map sp_Name (svs_Ports desired))" "w \<in> set (svs_Ports desired)"
    and "k \<notin> sp_Name ` set (svs_Ports desired)"
  shows "svs_Selector result = svs_Selector desired \<and>
         svs_PublishNotReadyAddresses result = svs_PublishNotReadyAddresses desired \<and>
         (\<exists>p. List.find (\<lambda>z. sp_Name z = sp_Name w) (svs_Ports result) = Some p \<and> samePort p w) \<and>
         List.find (\<lambda>z. sp_Name z = k) (svs_Ports result) = List.find (\<lambda>z. sp_Name z = k) (svs_Ports live) \<and>
         svs_ClusterIP result = svs_ClusterIP live \<and>
         svs_TrafficDistribution result = svs_TrafficDistribution live \<and>
         (changed \<or> result = live)"
proof -
  have result: "result = live\<lparr>svs_Selector := svs_Selector desired,
      svs_PublishNotReadyAddresses := svs_PublishNotReadyAddresses desired,
      svs_Ports := portUpsert.upsertAll (svs_Ports live) (svs_Ports desired)\<rparr>"
    using reconcileServiceSpec_result [of live desired] assms(1) equalSelectors_eq [OF assms(2)] by simp
  moreover have "changed \<or> result = live"
    using reconcileServiceSpec_unchanged [of live desired] assms(1) by auto
  ultimately show ?thesis
    using portUpsert.upsertAll_present [OF assms(3,4), of "svs_Ports live"]
      portUpsert.upsertAll_other [OF assms(5), of "svs_Ports live"]
    by simp
qed

definition driftedSpec :: ServiceSpec where
  "driftedSpec = (clientServiceSpec sampleCluster)\<lparr>svs_Ports := [plainPort ''metrics'' 9100, plainPort ''client'' 1]\<rparr>"

theorem reconcileServiceSpec_owned_fields_witness:
  "List.find (\<lambda>z. sp_Name z = ''metrics'')
     (svs_Ports (snd (reconcileServiceSpec driftedSpec (clientServiceSpec sampleCluster)))) =
   Some (plainPort ''metrics'' 9100)"
proof -
  have "fmpred (\<lambda>_ v. v \<noteq> '''') (svs_Selector driftedSpec)"
    by (auto intro!: fmpredI simp: driftedSpec_def clientServiceSpec_def sampleCluster_def split: if_splits)
  moreover have "plainPort ''client'' 2379 \<in> set (svs_Ports (clientServiceSpec sampleCluster))"
    "distinct (map sp_Name (svs_Ports (clientServiceSpec sampleCluster)))"
    "''metrics'' \<notin> sp_Name ` set (svs_Ports (clientServiceSpec sampleCluster))"
    by (simp_all add: clientServiceSpec_def plainPort_def)
  ultimately have "List.find (\<lambda>z. sp_Name z = ''metrics'')
      (svs_Ports (snd (reconcileServiceSpec driftedSpec (clientServiceSpec sampleCluster)))) =
    List.find (\<lambda>z. sp_Name z = ''metrics'') (svs_Ports driftedSpec)"
    using reconcileServiceSpec_owned_fields [OF prod.collapse [symmetric]] by blast
  then show ?thesis by (simp add: driftedSpec_def plainPort_def)
qed

definition storedPort :: "string \<Rightarrow> int \<Rightarrow> ServicePort" where
  "storedPort name port = \<lparr>sp_Name = name, sp_Port = port, sp_Protocol = ''TCP'', sp_TargetPort = IntVal port\<rparr>"

text \<open>
  A Service as the API server stores it always counts as drifted. The ports the operator asks
  for leave protocol and target port to the server's defaults, but the comparison is with the
  stored, defaulted values: with a protocol set on the stored client port, every pass over the
  Service writes a patch.
\<close>

theorem ensureService_always_patches:
  assumes "kc_get (k_services (e_kube E)) [] Cached
             \<lparr>nn_namespace = ecNamespace c, nn_name = clientServiceName c\<rparr> = Inr svc"
    and "svc_Spec svc = (clientServiceSpec c)\<lparr>svs_Ports := [storedPort ''client'' 2379]\<rparr>"
  shows "\<exists>r. EService (KWrite (Patch svc (svc\<lparr>svc_Spec := clientServiceSpec c\<rparr>)) r) \<in>
           set (trace_of (ensureService E c (clientServiceName c) (clientServiceSpec c)))"
proof -
  have "equalSelectors (svs_Selector (clientServiceSpec c)) (svs_Selector (clientServiceSpec c))"
    by (auto simp: equalSelectors_def mapGet_def clientServiceSpec_def intro!: fmpredI)
  then have "reconcileServiceSpec (svc_Spec svc) (clientServiceSpec c) = (True, clientServiceSpec c)"
    unfolding assms(2)
    by (simp add: reconcileServiceSpec_def clientServiceSpec_def storedPort_def plainPort_def Let_def)
  then show ?thesis
    using assms(1)
    by (simp add: ensureService_def trace_of_def proc_defs errOnly_def bindE_def split: sum.split)
qed

definition storedService :: Service where
  "storedService = \<lparr>svc_Meta = emptyMeta,
     svc_Spec = (clientServiceSpec sampleCluster)\<lparr>svs_Ports := [storedPort ''client'' 2379]\<rparr>,
     svc_ApplyManagers = []\<rparr>"

definition storedServiceEnv :: env where
  "storedServiceEnv = sampleEnv\<lparr>e_kube := emptyKube\<lparr>k_services :=
     emptyClient\<lparr>kc_get := (\<lambda>_ _ _. Inr storedService)\<rparr>\<rparr>\<rparr>"

theorem ensureService_always_patches_witness:
  "\<exists>r. EService (KWrite (Patch storedService (storedService\<lparr>svc_Spec := clientServiceSpec sampleCluster\<rparr>)) r) \<in>
     set (trace_of (ensureService storedServiceEnv sampleCluster (clientServiceName sampleCluster)
            (clientServiceSpec sampleCluster)))"
  by (rule ensureService_always_patches) (simp_all add: storedServiceEnv_def storedService_def)

definition certCallOK :: "EtcdCluster \<Rightarrow> event \<Rightarrow> bool" where
  "certCallOK c e =
     (case e of
        ECertificate (KGet rd q r) \<Rightarrow> nn_namespace q = ecNamespace c
      | ECertificate (KWrite (Create x) r) \<Rightarrow>
          cert_SecretName x \<noteq> '''' \<and>
          (cert_SecretName x = serverSecretName (Some c) \<or>
           cert_SecretName x = operatorClientSecretName (Some c) \<or>
           cert_SecretName x = peerSecretName (Some c))
      | _ \<Rightarrow> False)"

lemma ensureCertificate_certCallOK:
  assumes "csp_secretName s \<noteq> ''''"
    and "csp_secretName s = serverSecretName (Some c) \<or> csp_secretName s = operatorClientSecretName (Some c) \<or>
         csp_secretName s = peerSecretName (Some c)"
  shows "emits (certCallOK c) (ensureCertificate E c s)"
  unfolding ensureCertificate_def
  by (intro emits_rules) (use assms in \<open>simp_all add: certCallOK_def\<close>)

text \<open>
  The Secrets that cert-manager is asked to fill are the Secrets the rest of the operator
  reads: for an admitted TLS section every Certificate created names the server, operator-client
  or peer Secret that the Pods mount and the operator dials with. Nothing but Certificates is
  read or written, and an existing Certificate is never modified.
\<close>

theorem reconcileTLSCertificates_secrets:
  assumes "tlsAdmitted c"
  shows "list_all (certCallOK c) (trace_of (reconcileTLSCertificates E r c))"
proof (rule emits_trace)
  show "emits (certCallOK c) (reconcileTLSCertificates E r c)"
    unfolding reconcileTLSCertificates_def Let_def
    by (intro emits_rules ensureCertificate_certCallOK)
      (use assms in \<open>auto simp: tlsAdmitted_def serverSecretName_def operatorClientSecretName_def peerSecretName_def\<close>)
qed

definition certManagerCluster :: EtcdCluster where
  "certManagerCluster = sampleCluster\<lparr>ec_Spec := sampleSpec\<lparr>cs_TLS := Some \<lparr>
     tls_Client = Some \<lparr>ct_ServerSecretRef = None, ct_OperatorClientSecretRef = None,
       ct_CertManager = Some \<lparr>ccm_ServerIssuerRef = \<lparr>ir_Name = ''ca'', ir_Kind = ''''\<rparr>,
         ccm_OperatorClientIssuerRef = None\<rparr>\<rparr>,
     tls_Peer = None\<rparr>\<rparr>\<rparr>"

theorem reconcileTLSCertificates_secrets_witness:
  "list_all (certCallOK certManagerCluster)
     (trace_of (reconcileTLSCertificates sampleEnv
        \<lparr>CertManagerAvailable = True, ClusterDomain = '''', HasRecorder = False\<rparr> certManagerCluster))"
  by (rule reconcileTLSCertificates_secrets) (simp add: certManagerCluster_def tlsAdmitted_def)

end
