(* ===== verification/ClusterScale.thy ===== *)
theory ClusterScale
  imports ClusterChildren
begin

text \<open>
  Membership changes of the cluster controller (\<^verbatim>\<open>src/controllers/etcdcluster_controller.go\<close>):
  bootstrap of the seed, discovery of the formed cluster, scale-up with learners, promotion, voter
  bookkeeping, the enabling of authentication, and scale-down.
\<close>

section \<open>Small helpers\<close>

text \<open>\<^verbatim>\<open>setClusterCondition\<close> reads the clock itself.\<close>

definition clusterCondition ::
  "env \<Rightarrow> EtcdCluster \<Rightarrow> string \<Rightarrow> ConditionStatus \<Rightarrow> string \<Rightarrow> string \<Rightarrow> (bool \<times> EtcdCluster) proc" where
  "clusterCondition E cluster ty s reason msg = do {
     now \<leftarrow> timeNow E;
     return (setClusterCondition cluster now ty s reason msg)
   }"

text \<open>The repeated \<^verbatim>\<open>if changed { Status().Update }\<close> that takes a conflict for an immediate requeue.\<close>

definition updateTolerant :: "env \<Rightarrow> EtcdCluster \<Rightarrow> bool \<Rightarrow> outcome \<Rightarrow> outcome proc" where
  "updateTolerant E cluster changed res =
     (if changed then do {
        r \<leftarrow> writeCluster E (StatusUpdate cluster);
        return (case r of Inl err \<Rightarrow> if IsConflict err then requeue else Inl err | Inr _ \<Rightarrow> res)
      }
      else return res)"

text \<open>An unconditional \<^verbatim>\<open>Status().Update\<close> whose error ends the pass.\<close>

definition updateStrict :: "env \<Rightarrow> EtcdCluster \<Rightarrow> outcome \<Rightarrow> outcome proc" where
  "updateStrict E cluster res = do {
     r \<leftarrow> writeCluster E (StatusUpdate cluster);
     return (case r of Inl err \<Rightarrow> Inl err | Inr _ \<Rightarrow> res)
   }"

definition authConfigured :: "EtcdCluster \<Rightarrow> bool" where
  "authConfigured cluster = (case cs_Auth (ec_Spec cluster) of None \<Rightarrow> False | Some a \<Rightarrow> auth_Enabled a)"

definition stableErrorMessage :: "goerror \<Rightarrow> string" where
  "stableErrorMessage err =
     (let s = err_msg err in
      case (strIndex s '' on '', strIndex s '': '') of
        (Some i, Some j) \<Rightarrow> if 0 < i \<and> i < j then take i s @ drop j s else s
      | _ \<Rightarrow> s)"

definition isAuthAlreadyExists :: "goerror \<Rightarrow> bool" where
  "isAuthAlreadyExists err = Contains (err_msg err) ''user name already exists''"

definition isAuthRequiredErr :: "goerror \<Rightarrow> bool" where
  "isAuthRequiredErr err =
     (let msg = err_msg err in
      Contains msg ''user name is empty'' \<or> Contains msg ''permission denied'' \<or>
      Contains msg ''insufficient credentials'')"

definition isAuthFailedErr :: "goerror \<Rightarrow> bool" where
  "isAuthFailedErr err =
     (let msg = err_msg err in
      Contains msg ''authentication failed'' \<or> Contains msg ''invalid auth token'')"

section \<open>Bootstrap\<close>

text \<open>The member object \<^verbatim>\<open>bootstrap\<close> and \<^verbatim>\<open>scaleUp\<close> build from the locked target.\<close>

definition memberFromObserved ::
  "EtcdCluster \<Rightarrow> ObservedClusterSpec \<Rightarrow> bool \<Rightarrow> RestoreSpec option \<Rightarrow> EtcdMember" where
  "memberFromObserved cluster ob isSeed restore =
     (let (labels, annotations) =
            applyAdditionalMetadata (clusterLabels (ecName cluster)) fmempty (observedAdditionalMetadata cluster)
      in \<lparr>em_Meta = emptyMeta\<lparr>om_GenerateName := ecName cluster @ ''-'', om_Namespace := ecNamespace cluster,
                              om_Labels := labels, om_Annotations := annotations\<rparr>,
          em_Spec = \<lparr>ms_ClusterName = ecName cluster, ms_Version = ob_Version ob, ms_Storage = ob_Storage ob,
             ms_Resources = ob_Resources ob, ms_AdditionalMetadata = ob_AdditionalMetadata ob,
             ms_Affinity = ob_Affinity ob, ms_TopologySpreadConstraints = ob_TopologySpreadConstraints ob,
             ms_Options = ob_Options ob, ms_ImagePullSecrets = ob_ImagePullSecrets ob,
             ms_Bootstrap = isSeed, ms_InitialCluster = '''',
             ms_ClusterToken = est_ClusterToken (ec_Status cluster), ms_Replicas = 0, ms_Dormant = False,
             ms_TLS = deriveMemberTLS (Some cluster), ms_Restore = restore\<rparr>,
          em_Status = emptyMemberStatus\<rparr>)"

definition findSeed :: "EtcdMember list \<Rightarrow> EtcdMember option" where
  "findSeed members = List.find (\<lambda>m. ms_Bootstrap (em_Spec m)) members"

text \<open>Filling \<^verbatim>\<open>spec.initialCluster\<close> and the member labels of a created member.\<close>

definition withInitialCluster :: "EtcdCluster \<Rightarrow> string \<Rightarrow> EtcdMember \<Rightarrow> EtcdMember" where
  "withInitialCluster cluster ic m =
     m\<lparr>em_Spec := (em_Spec m)\<lparr>ms_InitialCluster := ic\<rparr>,
       em_Meta := (em_Meta m)\<lparr>om_Labels := om_Labels (em_Meta m) ++\<^sub>f memberLabels (ecName cluster) (emName m)\<rparr>\<rparr>"

definition fillSeed :: "env \<Rightarrow> EtcdCluster \<Rightarrow> EtcdMember \<Rightarrow> outcome proc" where
  "fillSeed E cluster seed =
     (if ms_InitialCluster (em_Spec seed) = '''' then do {
        r \<leftarrow> writeMember E (Patch seed (withInitialCluster cluster
               (buildInitialCluster (clusterPeerScheme (Some cluster)) [emName seed] (memberServiceName seed)
                  (ecNamespace cluster)) seed));
        return (case r of Inl err \<Rightarrow> Inl err | Inr _ \<Rightarrow> requeueAfter (seconds 5))
      }
      else return (requeueAfter (seconds 5)))"

definition bootstrap :: "env \<Rightarrow> EtcdCluster \<Rightarrow> EtcdMember list \<Rightarrow> outcome proc" where
  "bootstrap E cluster members =
     (case findSeed members of
        None \<Rightarrow>
          (case ecObserved cluster of
             None \<Rightarrow> return (Inl nilDeref)
           | Some ob \<Rightarrow>
               (let seed = memberFromObserved cluster ob True (restoreForSeed (Some cluster)) in
                case setControllerReference E ''EtcdCluster'' (ec_Meta cluster) (em_Meta seed) of
                  Inl err \<Rightarrow> return (Inl err)
                | Inr meta \<Rightarrow>
                    bindE (writeMember E (Create (seed\<lparr>em_Meta := meta\<rparr>))) (\<lambda>created.
                    bindE (writeMember E (StatusPatch created
                             (created\<lparr>em_Status := (em_Status created)\<lparr>mst_IsVoter := True\<rparr>\<rparr>))) (\<lambda>stamped.
                    fillSeed E cluster stamped))))
      | Some seed \<Rightarrow>
          if \<not> isControlledBy E (em_Meta seed) (ec_Meta cluster) then
            return (Inl (errorf (''bootstrap-flagged EtcdMember '' @ goQuote (emName seed) @ '' in namespace '' @
              goQuote (emNamespace seed) @ '' is not controlled by this EtcdCluster (uid='' @
              om_UID (ec_Meta cluster) @ ''); refusing to adopt'')))
          else fillSeed E cluster seed)"

section \<open>Discovery\<close>

abbreviation (input) authRequiredMsg :: string where
  "authRequiredMsg \<equiv>
     ''etcd requires authentication but spec.auth is not configured, so the operator cannot manage this cluster. '' @
     ''This usually means a snapshot from an auth-enabled cluster was restored without spec.auth. '' @
     ''Auth is immutable post-create: delete and recreate the cluster with spec.auth.enabled and a rootCredentialsSecretRef '' @
     ''holding the snapshot's original root password (see the restore runbook).''"

text \<open>The rejected-credentials message; its dash is the three bytes of U+2014 in the source.\<close>

definition authRejectedMsg :: string where
  "authRejectedMsg =
     ''etcd rejected the operator's credentials (authentication failed). '' @
     ''spec.auth.rootCredentialsSecretRef must hold the root password etcd actually has '' @
     [CHR 0xE2, CHR 0x80, CHR 0x94] @
     '' for a cluster restored from an auth-enabled snapshot that is the snapshot's original password '' @
     ''(etcd stores its bcrypt hash, so a fresh password will not authenticate). Correct the Secret's password (see the restore runbook).''"

definition surfaceDiscoveryError :: "env \<Rightarrow> EtcdCluster \<Rightarrow> string \<Rightarrow> goerror \<Rightarrow> outcome proc" where
  "surfaceDiscoveryError E cluster what err =
     (if isAuthRequiredErr err \<and> \<not> authConfigured cluster \<and> \<not> est_AuthEnabled (ec_Status cluster) then do {
        (ch1, c1) \<leftarrow> clusterCondition E cluster ClusterAvailable ConditionFalse ''AuthRequiredNotConfigured'' authRequiredMsg;
        (ch2, c2) \<leftarrow> clusterCondition E c1 ClusterDegraded ConditionTrue ''AuthRequiredNotConfigured'' authRequiredMsg;
        updateTolerant E c2 (ch1 \<or> ch2) noRequeue
      }
      else if isAuthFailedErr err then do {
        (ch1, c1) \<leftarrow> clusterCondition E cluster ClusterAvailable ConditionFalse ''AuthCredentialsRejected'' authRejectedMsg;
        (ch2, c2) \<leftarrow> clusterCondition E c1 ClusterDegraded ConditionTrue ''AuthCredentialsRejected'' authRejectedMsg;
        updateTolerant E c2 (ch1 \<or> ch2) (requeueAfter (seconds 30))
      }
      else do {
        (ch, c1) \<leftarrow> clusterCondition E cluster ClusterAvailable ConditionFalse ''ClusterUnreachable''
                      (what @ '': '' @ stableErrorMessage err);
        updateTolerant E c1 ch (requeueAfter (seconds 10))
      })"

definition tryDiscoverCluster :: "env \<Rightarrow> EtcdCluster \<Rightarrow> EtcdMember list \<Rightarrow> outcome proc" where
  "tryDiscoverCluster E cluster members =
     (case findSeed members of
        None \<Rightarrow> return (requeueAfter (seconds 5))
      | Some seed \<Rightarrow>
          if mst_PodName (em_Status seed) = '''' then do {
            (ch, c1) \<leftarrow> clusterCondition E cluster ClusterProgressing ConditionTrue ''WaitingForSeed''
                          (''seed member '' @ goQuote (emName seed) @ '' has no Pod yet'');
            updateTolerant E c1 ch (requeueAfter (seconds 5))
          }
          else
            (let endpoints = [clientURL (clusterClientScheme (Some cluster)) (emName seed)
                                (memberServiceName seed) (ecNamespace cluster)]
             in do {
               t \<leftarrow> buildOperatorTLSConfig E (Some cluster);
               (case t of
                  Inl err \<Rightarrow> surfaceDiscoveryError E cluster ''operator TLS config'' err
                | Inr tlsCfg \<Rightarrow> do {
                    d \<leftarrow> etcdClientFactory E endpoints tlsCfg '''' '''';
                    (case d of
                       Inl err \<Rightarrow> surfaceDiscoveryError E cluster ''etcd client construction failed'' err
                     | Inr etcdClient \<Rightarrow> do {
                         l \<leftarrow> memberList E etcdClient;
                         (case l of
                            Inl err \<Rightarrow> surfaceDiscoveryError E cluster ''MemberList failed'' err
                          | Inr resp \<Rightarrow>
                              (case ml_Members resp of
                                 [m] \<Rightarrow>
                                   (let expectedPeer = peerURL (clusterPeerScheme (Some cluster)) (emName seed)
                                          (memberServiceName seed) (ecNamespace cluster);
                                        matched = (pb_Name m = emName seed \<or> expectedPeer \<in> set (pb_PeerURLs m))
                                    in if \<not> matched then return (requeueAfter (seconds 5))
                                       else
                                         (let c1 = cluster\<lparr>ec_Status := (ec_Status cluster)\<lparr>
                                                     est_ClusterID := hex016 (ml_ClusterId resp)\<rparr>\<rparr>
                                          in do {
                                            (_, c2) \<leftarrow> clusterCondition E c1 ClusterAvailable ConditionTrue
                                                ''ClusterDiscovered''
                                                (''etcd cluster '' @ ecClusterID c1 @ '' discovered'');
                                            updateStrict E c2 noRequeue
                                          }))
                               | _ \<Rightarrow> return (requeueAfter (seconds 5))))
                       })
                  })
             }))"

section \<open>Scale up\<close>

definition registeredURL :: "EtcdPbMember list \<Rightarrow> string \<Rightarrow> bool" where
  "registeredURL ms url = list_ex (\<lambda>m. url \<in> set (pb_PeerURLs m)) ms"

text \<open>The entries of \<^verbatim>\<open>--initial-cluster\<close> for the members etcd reports.\<close>

definition initialClusterPart :: "EtcdPbMember \<Rightarrow> string list" where
  "initialClusterPart m =
     (case pb_PeerURLs m of
        [] \<Rightarrow> []
      | u # _ \<Rightarrow>
          (let name = (if pb_Name m = '''' then memberNameFromPeerURL u else pb_Name m)
           in if name = '''' then [] else [name @ ''='' @ u]))"

definition initialClusterParts :: "EtcdPbMember list \<Rightarrow> string list" where
  "initialClusterParts ms = concat (map initialClusterPart ms)"

definition completePendingMember ::
  "env \<Rightarrow> EtcdCluster \<Rightarrow> EtcdClient \<Rightarrow> MemberListResponse \<Rightarrow> EtcdMember \<Rightarrow> outcome proc" where
  "completePendingMember E cluster etcdClient listResp pending =
     (let pendingPeerURL = peerURL (clusterPeerScheme (Some cluster)) (emName pending)
            (memberServiceName pending) (ecNamespace cluster);
          patchPending = (\<lambda>etcdMembers.
            do {
              r \<leftarrow> writeMember E (Patch pending
                     (withInitialCluster cluster (Join (sort (initialClusterParts etcdMembers)) '','') pending));
              return (case r of Inl err \<Rightarrow> Inl err | Inr _ \<Rightarrow> requeueAfter (seconds 5))
            })
      in if registeredURL (ml_Members listResp) pendingPeerURL then patchPending (ml_Members listResp)
         else do {
           a \<leftarrow> memberAddAsLearner E etcdClient [pendingPeerURL];
           (case a of
              Inl err \<Rightarrow> return (requeueAfter (seconds 10))
            | Inr addMembers \<Rightarrow> patchPending addMembers)
         })"

text \<open>Only the first learner is promoted in a pass; the error of the call is not returned.\<close>

definition tryPromoteLearner :: "env \<Rightarrow> EtcdClient \<Rightarrow> MemberListResponse \<Rightarrow> (Result option) proc" where
  "tryPromoteLearner E etcdClient listResp =
     (case List.find pb_IsLearner (ml_Members listResp) of
        None \<Rightarrow> return None
      | Some m \<Rightarrow> do {
          p \<leftarrow> memberPromote E etcdClient (pb_ID m);
          return (case p of
            Some err \<Rightarrow> Some \<lparr>Requeue = False, RequeueAfter = seconds 5\<rparr>
          | None \<Rightarrow> Some \<lparr>Requeue = True, RequeueAfter = 0\<rparr>)
        })"

definition findPendingMember :: "EtcdMember list \<Rightarrow> EtcdMember option" where
  "findPendingMember members =
     List.find (\<lambda>m. \<not> ms_Bootstrap (em_Spec m) \<and> ms_InitialCluster (em_Spec m) = '''') members"

definition hasPendingMember :: "EtcdMember list \<Rightarrow> bool" where
  "hasPendingMember members = (findPendingMember members \<noteq> None)"

definition wakeDormant :: "EtcdMember \<Rightarrow> EtcdMember" where
  "wakeDormant m = m\<lparr>em_Spec := (em_Spec m)\<lparr>ms_Dormant := False\<rparr>\<rparr>"

definition scaleUp :: "env \<Rightarrow> EtcdCluster \<Rightarrow> EtcdMember list \<Rightarrow> outcome proc" where
  "scaleUp E cluster members =
     (case findDormantMember members of
        Some dormant \<Rightarrow> do {
          r \<leftarrow> writeMember E (Patch dormant (wakeDormant dormant));
          return (case r of Inl err \<Rightarrow> Inl err | Inr _ \<Rightarrow> requeueAfter (seconds 5))
        }
      | None \<Rightarrow>
          (let running = filterRunningMembers members;
               endpoints = memberEndpoints (clusterClientScheme (Some cluster)) running (ecNamespace cluster)
           in do {
             t \<leftarrow> buildOperatorTLSConfig E (Some cluster);
             (case t of
                Inl err \<Rightarrow> return (requeueAfter (seconds 10))
              | Inr tlsCfg \<Rightarrow> do {
                  cr \<leftarrow> resolveEtcdCredentials E (Some cluster);
                  (case cr of
                     Inl err \<Rightarrow> return (requeueAfter (seconds 10))
                   | Inr (user, pass, _) \<Rightarrow> do {
                       d \<leftarrow> etcdClientFactory E endpoints tlsCfg user pass;
                       (case d of
                          Inl err \<Rightarrow> return (requeueAfter (seconds 10))
                        | Inr etcdClient \<Rightarrow> do {
                            l \<leftarrow> memberList E etcdClient;
                            (case l of
                               Inl err \<Rightarrow> return (requeueAfter (seconds 10))
                             | Inr listResp \<Rightarrow>
                                 (case findPendingMember running of
                                    Some pending \<Rightarrow>
                                      if \<not> isControlledBy E (em_Meta pending) (ec_Meta cluster) then
                                        return (Inl (errorf (''pending EtcdMember '' @ goQuote (emName pending) @
                                          '' in namespace '' @ goQuote (emNamespace pending) @
                                          '' is not controlled by this EtcdCluster (uid='' @ om_UID (ec_Meta cluster) @
                                          ''); refusing to adopt'')))
                                      else completePendingMember E cluster etcdClient listResp pending
                                  | None \<Rightarrow> do {
                                      pr \<leftarrow> tryPromoteLearner E etcdClient listResp;
                                      (case pr of
                                         Some res \<Rightarrow> return (Inr res)
                                       | None \<Rightarrow>
                                           (case ecObserved cluster of
                                              None \<Rightarrow> return (Inl nilDeref)
                                            | Some ob \<Rightarrow>
                                                (let newMember = memberFromObserved cluster ob False None in
                                                 case setControllerReference E ''EtcdCluster'' (ec_Meta cluster)
                                                        (em_Meta newMember) of
                                                   Inl err \<Rightarrow> return (Inl err)
                                                 | Inr meta \<Rightarrow>
                                                     bindE (writeMember E (Create (newMember\<lparr>em_Meta := meta\<rparr>)))
                                                       (\<lambda>created. completePendingMember E cluster etcdClient listResp created))))
                                    }))
                          })
                     })
                })
           }))"

section \<open>Promotion and voter bookkeeping\<close>

text \<open>The \<^verbatim>\<open>IsVoter\<close> value the etcd member list implies for a URL; \<open>None\<close> when it does not list it.\<close>

definition wantVoter :: "MemberListResponse \<Rightarrow> string \<Rightarrow> bool option" where
  "wantVoter listResp url =
     (if list_ex (\<lambda>em. \<not> pb_IsLearner em \<and> url \<in> set (pb_PeerURLs em)) (ml_Members listResp) then Some True
      else if list_ex (\<lambda>em. pb_IsLearner em \<and> url \<in> set (pb_PeerURLs em)) (ml_Members listResp) then Some False
      else None)"

definition stampVoter :: "bool \<Rightarrow> EtcdMember \<Rightarrow> EtcdMember" where
  "stampVoter v m = m\<lparr>em_Status := (em_Status m)\<lparr>mst_IsVoter := v\<rparr>\<rparr>"

text \<open>The loop patches the members in place and stops at the first error; the members after it
  are left as they were.\<close>

fun syncIsVoter ::
  "env \<Rightarrow> EtcdCluster \<Rightarrow> EtcdMember list \<Rightarrow> MemberListResponse \<Rightarrow> (goerror option \<times> EtcdMember list) proc" where
  "syncIsVoter E cluster [] listResp = return (None, [])"
| "syncIsVoter E cluster (m # ms) listResp =
     (let url = peerURL (clusterPeerScheme (Some cluster)) (emName m) (memberServiceName m) (ecNamespace cluster);
          skip = do {
            (e, ms') \<leftarrow> syncIsVoter E cluster ms listResp;
            return (e, m # ms')
          }
      in if emDeleting m then skip
         else case wantVoter listResp url of
                None \<Rightarrow> skip
              | Some v \<Rightarrow>
                  if mst_IsVoter (em_Status m) = v then skip
                  else do {
                    r \<leftarrow> writeMember E (StatusPatch m (stampVoter v m));
                    (case r of
                       Inl err \<Rightarrow> return (Some err, stampVoter v m # ms)
                     | Inr m' \<Rightarrow> do {
                         (e, ms') \<leftarrow> syncIsVoter E cluster ms listResp;
                         return (e, m' # ms')
                       })
                  })"

definition promotePendingLearner ::
  "env \<Rightarrow> EtcdCluster \<Rightarrow> EtcdMember list \<Rightarrow> EtcdClient \<Rightarrow> (Result option \<times> EtcdMember list) proc" where
  "promotePendingLearner E cluster members etcdClient = do {
     l \<leftarrow> memberList E etcdClient;
     (case l of
        Inl err \<Rightarrow> return (Some \<lparr>Requeue = False, RequeueAfter = seconds 10\<rparr>, members)
      | Inr listResp \<Rightarrow> do {
          (_, members') \<leftarrow> syncIsVoter E cluster members listResp;
          res \<leftarrow> tryPromoteLearner E etcdClient listResp;
          return (res, members')
        })
   }"

section \<open>Authentication\<close>

text \<open>Returns the cluster object as the code leaves it in memory and the pass's result.\<close>

definition latchAuthEnabled :: "env \<Rightarrow> EtcdCluster \<Rightarrow> (EtcdCluster \<times> (goerror + Result option)) proc" where
  "latchAuthEnabled E cluster =
     (if est_AuthEnabled (ec_Status cluster) then return (cluster, Inr (Some \<lparr>Requeue = True, RequeueAfter = 0\<rparr>))
      else
        (let c1 = cluster\<lparr>ec_Status := (ec_Status cluster)\<lparr>est_AuthEnabled := True\<rparr>\<rparr> in do {
           r \<leftarrow> writeCluster E (StatusPatch cluster c1);
           return (case r of
             Inl err \<Rightarrow> if IsConflict err then (c1, Inr (Some \<lparr>Requeue = True, RequeueAfter = 0\<rparr>))
                        else (c1, Inl err)
           | Inr c2 \<Rightarrow> (c2, Inr (Some \<lparr>Requeue = True, RequeueAfter = 0\<rparr>)))
         }))"

text \<open>Provisioning the root user and enabling authentication; \<open>False\<close> means retry later.\<close>

definition provisionRoot :: "env \<Rightarrow> EtcdCluster \<Rightarrow> EtcdClient \<Rightarrow> bool proc" where
  "provisionRoot E cluster c = do {
     pw \<leftarrow> readRootPassword E cluster;
     (case pw of
        Inl err \<Rightarrow> return False
      | Inr rootPassword \<Rightarrow> do {
          ua \<leftarrow> userAdd E c ''root'' rootPassword;
          (if (case ua of Some err \<Rightarrow> \<not> isAuthAlreadyExists err | None \<Rightarrow> False) then return False
           else do {
             ug \<leftarrow> userGrantRole E c ''root'' ''root'';
             (case ug of
                Some err \<Rightarrow> return False
              | None \<Rightarrow> do {
                  ae \<leftarrow> authEnable E c;
                  return (ae = None)
                })
           })
        })
   }"

definition reconcileAuth ::
  "env \<Rightarrow> EtcdCluster \<Rightarrow> EtcdMember list \<Rightarrow> (EtcdCluster \<times> (goerror + Result option)) proc" where
  "reconcileAuth E cluster running =
     (let retry = return (cluster, Inr (Some \<lparr>Requeue = False, RequeueAfter = seconds 10\<rparr>)) in
      if \<not> authConfigured cluster then return (cluster, Inr None)
      else if est_AuthEnabled (ec_Status cluster) then return (cluster, Inr None)
      else case ecObserved cluster of
        None \<Rightarrow> return (cluster, Inr None)
      | Some ob \<Rightarrow>
          if ecClusterID cluster = '''' then return (cluster, Inr None)
          else if ob_Replicas ob = 0 \<or> int (length running) \<noteq> ob_Replicas ob \<or> \<not> allMembersReady running
          then return (cluster, Inr None)
          else
            (let endpoints = memberEndpoints (clusterClientScheme (Some cluster)) running (ecNamespace cluster) in do {
               t \<leftarrow> buildOperatorTLSConfig E (Some cluster);
               (case t of
                  Inl err \<Rightarrow> retry
                | Inr tlsCfg \<Rightarrow> do {
                    cr \<leftarrow> resolveEtcdCredentials E (Some cluster);
                    (case cr of
                       Inl err \<Rightarrow> retry
                     | Inr (user, pass, _) \<Rightarrow> do {
                         d \<leftarrow> etcdClientFactory E endpoints tlsCfg user pass;
                         (case d of
                            Inl err \<Rightarrow> retry
                          | Inr c \<Rightarrow> do {
                              s \<leftarrow> authStatus E c;
                              (case s of
                                 Inl err \<Rightarrow> if isAuthRequiredErr err then latchAuthEnabled E cluster else retry
                               | Inr enabled \<Rightarrow>
                                   if \<not> enabled then do {
                                     ok \<leftarrow> provisionRoot E cluster c;
                                     (if ok then latchAuthEnabled E cluster else retry)
                                   }
                                   else latchAuthEnabled E cluster)
                            })
                       })
                  })
             }))"

section \<open>Scale down\<close>

text \<open>Newest first; among members of the same second, the greater name first.\<close>

definition victimBefore :: "EtcdMember \<Rightarrow> EtcdMember \<Rightarrow> bool" where
  "victimBefore a b =
     (let ai = om_CreationTimestamp (em_Meta a); aj = om_CreationTimestamp (em_Meta b)
      in if ai \<noteq> aj then ai > aj else emName a > emName b)"

definition makeDormant :: "EtcdMember \<Rightarrow> EtcdMember" where
  "makeDormant m = m\<lparr>em_Spec := (em_Spec m)\<lparr>ms_Dormant := True\<rparr>\<rparr>"

definition scaleDown :: "env \<Rightarrow> EtcdCluster \<Rightarrow> EtcdMember list \<Rightarrow> outcome proc" where
  "scaleDown E cluster members =
     (case sortSlice victimBefore members of
        [] \<Rightarrow> return (Inl indexOutOfRange)
      | victim # _ \<Rightarrow>
          if (case ecObserved cluster of None \<Rightarrow> False | Some ob \<Rightarrow> ob_Replicas ob = 0) \<and> length members = 1 then
            (if \<not> ms_Dormant (em_Spec victim) then do {
               r \<leftarrow> writeMember E (Patch victim (makeDormant victim));
               return (case r of Inl err \<Rightarrow> Inl err | Inr _ \<Rightarrow> requeueAfter (seconds 10))
             }
             else return (requeueAfter (seconds 10)))
          else do {
            r \<leftarrow> writeMember E (Delete victim);
            return (case r of
              Inl err \<Rightarrow> if \<not> IsNotFound err then Inl err else requeueAfter (seconds 10)
            | Inr _ \<Rightarrow> requeueAfter (seconds 10))
          })"

definition hasPendingBootstrap :: "EtcdMember list \<Rightarrow> bool" where
  "hasPendingBootstrap members =
     list_ex (\<lambda>m. ms_Bootstrap (em_Spec m) \<and> ms_InitialCluster (em_Spec m) = '''') members"

end
