(* ===== verification/ClusterReconcile.thy ===== *)
theory ClusterReconcile
  imports ClusterScale
begin

text \<open>
  The cluster controller's pass (\<^verbatim>\<open>src/controllers/etcdcluster_controller.go\<close>): status computation,
  the deadline path and \<^verbatim>\<open>Reconcile\<close> itself, in three parts in the order of the code.
\<close>

section \<open>Requeue arithmetic\<close>

definition requeueDelay :: "Result \<Rightarrow> duration" where
  "requeueDelay r = (if RequeueAfter r > 0 then RequeueAfter r else if Requeue r then 0 else 2 ^ 63 - 1)"

definition soonerRequeue :: "Result \<Rightarrow> Result option \<Rightarrow> Result" where
  "soonerRequeue base pending =
     (case pending of
        None \<Rightarrow> base
      | Some p \<Rightarrow> if requeueDelay p < requeueDelay base then p else base)"

section \<open>Status\<close>

definition condStep ::
  "env \<Rightarrow> bool \<times> EtcdCluster \<Rightarrow> string \<Rightarrow> ConditionStatus \<Rightarrow> string \<Rightarrow> string \<Rightarrow> (bool \<times> EtcdCluster) proc" where
  "condStep E st ty s reason msg = do {
     (ch, c) \<leftarrow> clusterCondition E (snd st) ty s reason msg;
     return (ch \<or> fst st, c)
   }"

definition countReady :: "EtcdMember list \<Rightarrow> int" where
  "countReady ms = int (length (filter memberIsReady ms))"

definition countVoters :: "EtcdMember list \<Rightarrow> int" where
  "countVoters ms = int (length (filter (\<lambda>m. mst_IsVoter (em_Status m)) ms))"

definition countReadyVoters :: "EtcdMember list \<Rightarrow> int" where
  "countReadyVoters ms = int (length (filter (\<lambda>m. mst_IsVoter (em_Status m) \<and> memberIsReady m) ms))"

definition pausedMessage :: "EtcdMember option \<Rightarrow> string" where
  "pausedMessage dormant =
     (case dormant of
        Some d \<Rightarrow>
          if st_Medium (ms_Storage (em_Spec d)) = StorageMediumMemory
          then ''cluster is paused (spec.replicas=0); data was on tmpfs and has been lost '' @
               [CHR 0xE2, CHR 0x80, CHR 0x94] @ '' recreate the cluster to resume''
          else ''cluster is paused (spec.replicas=0); data is preserved on PVC data-'' @ emName d
      | None \<Rightarrow> ''cluster is paused (spec.replicas=0); no data has been written (cluster never bootstrapped)'')"

text \<open>The switch over the health of the cluster.\<close>

definition healthConditions ::
  "env \<Rightarrow> int \<Rightarrow> EtcdMember list \<Rightarrow> EtcdMember option \<Rightarrow> bool \<times> EtcdCluster \<Rightarrow> (bool \<times> EtcdCluster) proc" where
  "healthConditions E desired running dormant st =
     (let cluster = snd st;
          ready = countReady running;
          voters = countVoters running;
          readyVoters = countReadyVoters running;
          paused = (desired = 0);
          votersHealthy = (voters > 0 \<and> readyVoters = voters);
          progressing = (\<not> paused \<and> votersHealthy \<and> clusterProgressing cluster \<and>
                         \<not> reconciliationComplete cluster running)
      in if paused then do {
           st \<leftarrow> condStep E st ClusterAvailable ConditionFalse ''Paused'' (pausedMessage dormant);
           st \<leftarrow> condStep E st ClusterDegraded ConditionFalse ''Paused'' '''';
           condStep E st ClusterProgressing ConditionFalse ''Paused'' ''''
         }
         else if progressing then return st
         else if ready = desired then do {
           st \<leftarrow> condStep E st ClusterAvailable ConditionTrue ''QuorumHealthy'' ''All members are ready'';
           condStep E st ClusterDegraded ConditionFalse ''QuorumHealthy'' ''''
         }
         else if ready > desired sdiv 2 then
           (let msg = showInt ready @ ''/'' @ showInt desired @ '' members ready'' in do {
             st \<leftarrow> condStep E st ClusterAvailable ConditionTrue ''QuorumAvailable'' msg;
             condStep E st ClusterDegraded ConditionTrue ''MembersUnhealthy'' msg
           })
         else do {
           st \<leftarrow> condStep E st ClusterAvailable ConditionFalse ''QuorumLost''
                   (showInt ready @ ''/'' @ showInt desired @ '' members ready, quorum lost'');
           condStep E st ClusterDegraded ConditionTrue ''QuorumLost'' ''''
         })"

definition clearDeadline :: "bool \<times> EtcdCluster \<Rightarrow> bool \<times> EtcdCluster" where
  "clearDeadline st =
     (if est_ProgressDeadline (ec_Status (snd st)) \<noteq> None
      then (True, (snd st)\<lparr>ec_Status := (ec_Status (snd st))\<lparr>est_ProgressDeadline := None\<rparr>\<rparr>)
      else st)"

definition progressConditions ::
  "env \<Rightarrow> int \<Rightarrow> EtcdMember list \<Rightarrow> Result option \<Rightarrow> bool \<times> EtcdCluster \<Rightarrow> (bool \<times> EtcdCluster) proc" where
  "progressConditions E desired running pending st =
     (if desired = 0 then return (clearDeadline st)
      else if pending = None \<and> reconciliationComplete (snd st) running then do {
        st \<leftarrow> condStep E st ClusterProgressing ConditionFalse ''Reconciled'' ''actual state matches status.observed'';
        return (clearDeadline st)
      }
      else return st)"

definition updateStatus ::
  "env \<Rightarrow> EtcdCluster \<Rightarrow> EtcdMember list \<Rightarrow> Result option \<Rightarrow> outcome proc" where
  "updateStatus E cluster members pending =
     (case ecObserved cluster of
        None \<Rightarrow> return (Inl nilDeref)
      | Some ob \<Rightarrow>
          (let desired = ob_Replicas ob;
               running = filterRunningMembers members;
               dormant = findDormantMember members;
               ready = countReady running;
               wantSelector = LabelCluster @ ''='' @ ecName cluster;
               ch0 = (est_ReadyMembers (ec_Status cluster) \<noteq> ready \<or>
                      est_Selector (ec_Status cluster) \<noteq> wantSelector);
               c0 = cluster\<lparr>ec_Status := (ec_Status cluster)\<lparr>
                      est_ReadyMembers := ready, est_Selector := wantSelector\<rparr>\<rparr>
           in do {
             st \<leftarrow> healthConditions E desired running dormant (ch0, c0);
             (ch1, c1) \<leftarrow> progressConditions E desired running pending st;
             (let broken = int (length (filter isBroken running));
                  ch2 = (ch1 \<or> est_BrokenMembers (ec_Status c1) \<noteq> broken);
                  c2 = c1\<lparr>ec_Status := (ec_Status c1)\<lparr>est_BrokenMembers := broken\<rparr>\<rparr>
              in do {
                _ \<leftarrow> reconcilePDB E c2 (countVoters running);
                (if ch2 then
                   updateStrict E c2 (Inr (soonerRequeue \<lparr>Requeue = False, RequeueAfter = seconds 30\<rparr> pending))
                 else return (Inr (soonerRequeue \<lparr>Requeue = False, RequeueAfter = seconds 30\<rparr> pending)))
              })
           }))"

section \<open>The deadline\<close>

definition handleDeadlineExceeded :: "env \<Rightarrow> EtcdCluster \<Rightarrow> gotime \<Rightarrow> outcome proc" where
  "handleDeadlineExceeded E cluster now =
     (case ecObserved cluster of
        None \<Rightarrow> return (Inl nilDeref)
      | Some ob \<Rightarrow>
          if ecClusterID cluster = '''' then do {
            st \<leftarrow> condStep E (False, cluster) ClusterProgressing ConditionFalse ''BootstrapFailed''
                    ''bootstrap deadline exceeded; delete the cluster and recreate to recover'';
            (changed, c) \<leftarrow> condStep E st ClusterAvailable ConditionFalse ''BootstrapFailed''
                    (''could not bootstrap '' @ showInt (ob_Replicas ob) @ ''-member cluster within deadline'');
            updateTolerant E c changed noRequeue
          }
          else if specEqualsObserved cluster then do {
            st \<leftarrow> condStep E (False, cluster) ClusterProgressing ConditionFalse ''DeadlineExceeded''
                    ''deadline exceeded; edit spec to retry, or delete the cluster'';
            shown \<leftarrow> observe (\<lambda>h. l_showObserved (e_lib E) h ob);
            (changed, c) \<leftarrow> condStep E st ClusterAvailable ConditionFalse ''DeadlineExceeded''
                    (''could not reach target '' @ shown @ '' within deadline'');
            updateTolerant E c changed noRequeue
          }
          else do {
            (_, c) \<leftarrow> clusterCondition E (setProgressDeadline (snapshotSpecIntoObserved cluster) now)
                    ClusterProgressing ConditionTrue ''RetryAfterDeadline''
                    ''adopting updated spec after previous deadline'';
            updateStrict E c requeue
          })"

section \<open>Reconcile\<close>

text \<open>The last part: scaling, promotion, authentication, status.\<close>

definition promoteAfterConverged ::
  "env \<Rightarrow> EtcdCluster \<Rightarrow> EtcdMember list \<Rightarrow> (Result option \<times> EtcdMember list) proc" where
  "promoteAfterConverged E cluster running =
     (if ecClusterID cluster \<noteq> '''' \<and> length running > 0 then
        (let endpoints = memberEndpoints (clusterClientScheme (Some cluster)) running (ecNamespace cluster) in do {
           t \<leftarrow> buildOperatorTLSConfig E (Some cluster);
           (case t of
              Inl err \<Rightarrow> return (None, running)
            | Inr tlsCfg \<Rightarrow> do {
                cr \<leftarrow> resolveEtcdCredentials E (Some cluster);
                (case cr of
                   Inl err \<Rightarrow> return (None, running)
                 | Inr (user, pass, _) \<Rightarrow> do {
                     d \<leftarrow> etcdClientFactory E endpoints tlsCfg user pass;
                     (case d of
                        Inl err \<Rightarrow> return (None, running)
                      | Inr etcdClient \<Rightarrow> promotePendingLearner E cluster running etcdClient)
                   })
              })
         })
      else return (None, running))"

definition reconcileScale :: "env \<Rightarrow> EtcdCluster \<Rightarrow> EtcdMember list \<Rightarrow> int \<Rightarrow> outcome proc" where
  "reconcileScale E cluster items desired =
     (let active = filterActiveMembers items;
          running = filterRunningMembers items;
          current = int (length running)
      in if list_ex emDeleting items then return (requeueAfter (seconds 5))
         else if hasPendingMember running then scaleUp E cluster active
         else if current < desired then
           (if findDormantMember active \<noteq> None then scaleUp E cluster active
            else if \<not> allMembersReady running then return (requeueAfter (seconds 5))
            else scaleUp E cluster active)
         else if current > desired then scaleDown E cluster running
         else do {
           (pending, running') \<leftarrow> promoteAfterConverged E cluster running;
           (case pending of
              Some p \<Rightarrow> updateStatus E cluster active (Some p)
            | None \<Rightarrow> do {
                (cluster', res) \<leftarrow> reconcileAuth E cluster running';
                (case res of
                   Inl err \<Rightarrow> return (Inl err)
                 | Inr pending' \<Rightarrow> updateStatus E cluster' active pending')
              })
         })"

text \<open>Bootstrap and discovery while the cluster has not formed, scaling afterwards.\<close>

definition reconcileMembership :: "env \<Rightarrow> EtcdCluster \<Rightarrow> EtcdMember list \<Rightarrow> outcome proc" where
  "reconcileMembership E cluster items =
     (let active = filterActiveMembers items;
          running = filterRunningMembers items;
          current = int (length running)
      in case ecObserved cluster of
           None \<Rightarrow> return (Inl nilDeref)
         | Some ob \<Rightarrow>
             (let desired = ob_Replicas ob in
              if ecClusterID cluster = '''' then
                (if desired = 0 then updateStatus E cluster active None
                 else if current = 0 \<or> hasPendingBootstrap running then bootstrap E cluster running
                 else tryDiscoverCluster E cluster running)
              else reconcileScale E cluster items desired))"

text \<open>The middle part: first-pass initialisation, completion, deadline, adoption of a new spec.\<close>

definition reconcileTarget :: "env \<Rightarrow> EtcdCluster \<Rightarrow> EtcdMember list \<Rightarrow> outcome proc" where
  "reconcileTarget E cluster items =
     (let running = filterRunningMembers items
      in do {
        now \<leftarrow> timeNow E;
        (if est_ClusterToken (ec_Status cluster) = '''' \<or> ecObserved cluster = None then
           (let c1 = (if est_ClusterToken (ec_Status cluster) = ''''
                      then cluster\<lparr>ec_Status := (ec_Status cluster)\<lparr>est_ClusterToken := deriveClusterToken cluster\<rparr>\<rparr>
                      else cluster)
            in if ecObserved c1 = None then do {
                 (_, c2) \<leftarrow> clusterCondition E (setProgressDeadline (snapshotSpecIntoObserved c1) now)
                              ClusterProgressing ConditionTrue ''InitialSnapshot''
                              ''snapshotted initial spec into status.observed'';
                 updateStrict E c2 requeue
               }
               else updateStrict E c1 requeue)
         else
           (let complete = reconciliationComplete cluster running in
            if \<not> complete \<and> deadlineExpired cluster now then handleDeadlineExceeded E cluster now
            else if complete \<and> \<not> specEqualsObserved cluster then do {
              (_, c2) \<leftarrow> clusterCondition E (setProgressDeadline (snapshotSpecIntoObserved cluster) now)
                           ClusterProgressing ConditionTrue ''SpecChanged''
                           ''adopting new spec after previous target reached'';
              updateStrict E c2 requeue
            }
            else reconcileMembership E cluster items))
      })"

definition Reconcile :: "env \<Rightarrow> EtcdClusterReconciler \<Rightarrow> nsname \<Rightarrow> outcome proc" where
  "Reconcile E r req = do {
     g \<leftarrow> getCluster E req;
     (case g of
        Inl err \<Rightarrow> return (if IsNotFound err then noRequeue else Inl err)
      | Inr cluster \<Rightarrow>
          if \<not> isZero (om_DeletionTimestamp (ec_Meta cluster)) then return noRequeue
          else if \<not> CertManagerAvailable r \<and> hasCertManagerTLS cluster then do {
            (changed, c1) \<leftarrow> clusterCondition E cluster ClusterAvailable ConditionFalse ''CertManagerNotInstalled''
              ''spec.tls.{client,peer}.certManager is set but cert-manager.io/v1 is not registered on this cluster; install cert-manager and restart the operator, or switch to BYO Secrets'';
            updateTolerant E c1 changed noRequeue
          }
          else
            bindE (ensureServices E r cluster) (\<lambda>_.
            bindE (reconcileTLSCertificates E r cluster) (\<lambda>_.
            bindE (listMembers E (ecNamespace cluster) (fmupd LabelCluster (ecName cluster) fmempty)) (\<lambda>items.
            reconcileTarget E cluster items))))
   }"

end
