(* ===== verification/ClusterContract.thy ===== *)
theory ClusterContract
  imports ClusterReconcile
begin

text \<open>
  What a pass of the cluster controller may write to the cluster object. The contract is a
  relation between the last version of the object the controller got and the version it writes;
  the locale \<open>status_contract\<close> collects what a relation must allow, and its lemmas carry every
  function of the controller. It is interpreted on the latch relation and on the relation that
  keeps the locked target.
\<close>

section \<open>The monitor of cluster writes\<close>

text \<open>
  The monitor follows the version of the cluster the controller last got from the API server, by
  a read or as the reply to a write. A write must go through the status subresource and be related
  to that version.
\<close>

definition clusterMon ::
  "(EtcdCluster \<Rightarrow> EtcdCluster \<Rightarrow> bool) \<Rightarrow> EtcdCluster option \<Rightarrow> event \<Rightarrow> EtcdCluster option option" where
  "clusterMon R s e =
     (case e of
        ECluster k \<Rightarrow>
          (case k of
             KGet rd q r \<Rightarrow> Some (case r of Inr c \<Rightarrow> Some c | Inl _ \<Rightarrow> s)
           | KList rd ns sel r \<Rightarrow> Some s
           | KWrite w r \<Rightarrow>
               (case w of
                  StatusUpdate n \<Rightarrow>
                    (case s of None \<Rightarrow> None | Some c \<Rightarrow>
                       if R c n then Some (case r of Inr c' \<Rightarrow> Some c' | Inl _ \<Rightarrow> s) else None)
                | StatusPatch b n \<Rightarrow>
                    (case s of None \<Rightarrow> None | Some c \<Rightarrow>
                       if R c n then Some (case r of Inr c' \<Rightarrow> Some c' | Inl _ \<Rightarrow> s) else None)
                | _ \<Rightarrow> None))
      | _ \<Rightarrow> Some s)"

definition isClusterEvent :: "event \<Rightarrow> bool" where
  "isClusterEvent e = (case e of ECluster _ \<Rightarrow> True | _ \<Rightarrow> False)"

lemma isClusterEvent_simps [simp]:
  "isClusterEvent (ECluster k)" "\<not> isClusterEvent (EMember k1)" "\<not> isClusterEvent (EService k2)"
  "\<not> isClusterEvent (EPDB k3)" "\<not> isClusterEvent (ECertificate k4)" "\<not> isClusterEvent (ESecret k5)"
  "\<not> isClusterEvent (ETrafficApply q v r)" "\<not> isClusterEvent (EDial c d)" "\<not> isClusterEvent (EEtcd c t)"
  "\<not> isClusterEvent (ERecord a b m)"
  by (simp_all add: isClusterEvent_def)

lemma clusterMon_other: "\<not> isClusterEvent e \<Longrightarrow> clusterMon R s e = Some s"
  by (cases e) (simp_all add: clusterMon_def isClusterEvent_def)

lemma clusterMon_simps [simp]:
  "clusterMon R s (ECluster (KGet rd q r)) = Some (case r of Inr c \<Rightarrow> Some c | Inl _ \<Rightarrow> s)"
  "clusterMon R (Some c) (ECluster (KWrite (StatusUpdate n) r)) =
     (if R c n then Some (case r of Inr c' \<Rightarrow> Some c' | Inl _ \<Rightarrow> Some c) else None)"
  "clusterMon R (Some c) (ECluster (KWrite (StatusPatch b n) r)) =
     (if R c n then Some (case r of Inr c' \<Rightarrow> Some c' | Inl _ \<Rightarrow> Some c) else None)"
  "clusterMon R s (EMember k1) = Some s" "clusterMon R s (ESecret k5) = Some s"
  "clusterMon R s (EDial cl d) = Some s" "clusterMon R s (EEtcd cl t) = Some s"
  "clusterMon R s (EPDB k6) = Some s"
  by (simp_all add: clusterMon_def)

text \<open>Functions that never touch the cluster object.\<close>

lemma isChildEvent_not_cluster: "isChildEvent e \<Longrightarrow> \<not> isClusterEvent e"
  by (cases e) (simp_all add: isChildEvent_def)

abbreviation (input) notCluster :: "event \<Rightarrow> bool" where
  "notCluster e \<equiv> \<not> isClusterEvent e"

lemma fillSeed_notCluster [emits_rules]: "emits notCluster (fillSeed E c m)"
  unfolding fillSeed_def by (intro emits_rules) simp_all

lemma bootstrap_notCluster: "emits notCluster (bootstrap E c ms)"
  unfolding bootstrap_def by (intro emits_rules) simp_all

lemma completePendingMember_notCluster [emits_rules]:
  "emits notCluster (completePendingMember E c cl l m)"
  unfolding completePendingMember_def Let_def by (intro emits_rules) simp_all

lemma tryPromoteLearner_notCluster [emits_rules]: "emits notCluster (tryPromoteLearner E cl l)"
  unfolding tryPromoteLearner_def by (intro emits_rules) simp_all

lemma scaleUp_notCluster: "emits notCluster (scaleUp E c ms)"
  unfolding scaleUp_def Let_def by (intro emits_rules) simp_all

lemma scaleDown_notCluster: "emits notCluster (scaleDown E c ms)"
  unfolding scaleDown_def by (intro emits_rules) simp_all

lemma syncIsVoter_notCluster [emits_rules]: "emits notCluster (syncIsVoter E c ms l)"
proof (induction ms)
  case (Cons m ms)
  then show ?case
    unfolding syncIsVoter.simps Let_def by (intro emits_rules) simp_all
qed (simp add: emits_return)

lemma promotePendingLearner_notCluster [emits_rules]:
  "emits notCluster (promotePendingLearner E c ms cl)"
  unfolding promotePendingLearner_def by (intro emits_rules) simp_all

lemma promoteAfterConverged_notCluster: "emits notCluster (promoteAfterConverged E c ms)"
  unfolding promoteAfterConverged_def Let_def by (intro emits_rules) simp_all

lemma provisionRoot_notCluster: "emits notCluster (provisionRoot E c cl)"
  unfolding provisionRoot_def by (intro emits_rules) simp_all

interpretation clusterM: monitor "clusterMon R" notCluster for R
  by unfold_locales (rule clusterMon_other)

lemma notCluster_calls:
  "emits notCluster (memberList E cl)" "emits notCluster (authStatus E cl)"
  "emits notCluster (etcdClientFactory E eps tls u p)"
  "emits notCluster (buildOperatorTLSConfig E oc)" "emits notCluster (resolveEtcdCredentials E oc)"
  "emits notCluster (listMembers E ns sel)"
  by (intro emits_rules; simp)+

text \<open>Symbolic execution under the monitor of cluster writes.\<close>

lemmas mon_rules = safe_return safe_bind_timeNow safe_bind_observe safe_if safe_case_sum safe_case_option
  safe_case_prod safe_case_list safe_let notCluster_calls [THEN clusterM.safe_bind_quiet]
  provisionRoot_notCluster [THEN clusterM.safe_bind_quiet] promoteAfterConverged_notCluster [THEN clusterM.safe_bind_quiet]

section \<open>Contracts\<close>

locale status_contract =
  fixes R :: "EtcdCluster \<Rightarrow> EtcdCluster \<Rightarrow> bool"
  assumes R_refl: "R c c"
    and R_trans: "R a b \<Longrightarrow> R b c \<Longrightarrow> R a c"
    and R_conditions: "R c (c\<lparr>ec_Status := (ec_Status c)\<lparr>est_Conditions := cs\<rparr>\<rparr>)"
    and R_counts: "R c (c\<lparr>ec_Status := (ec_Status c)\<lparr>est_ReadyMembers := n, est_Selector := sel\<rparr>\<rparr>)"
    and R_broken: "R c (c\<lparr>ec_Status := (ec_Status c)\<lparr>est_BrokenMembers := n\<rparr>\<rparr>)"
    and R_noDeadline: "R c (c\<lparr>ec_Status := (ec_Status c)\<lparr>est_ProgressDeadline := None\<rparr>\<rparr>)"
    and R_auth: "R c (c\<lparr>ec_Status := (ec_Status c)\<lparr>est_AuthEnabled := True\<rparr>\<rparr>)"
    and R_clusterID: "ecClusterID c = '''' \<Longrightarrow> i \<noteq> '''' \<Longrightarrow>
      R c (c\<lparr>ec_Status := (ec_Status c)\<lparr>est_ClusterID := i\<rparr>\<rparr>)"
begin

lemma R_setClusterCondition: "R c (snd (setClusterCondition c now ty s reason msg))"
  using R_refl R_conditions by (simp add: setClusterCondition_def Let_def)

lemma safe_clusterCondition [io_rules]:
  "(\<And>ch c'. R c c' \<Longrightarrow> safe (clusterMon R) st (k (ch, c')) Q) \<Longrightarrow>
   safe (clusterMon R) st (State_Monad.bind (clusterCondition E c ty s reason msg) k) Q"
proof (rule safe_bind)
  show "safe (clusterMon R) st (clusterCondition E c ty s reason msg) (\<lambda>p s'. R c (snd p) \<and> s' = st)"
    unfolding clusterCondition_def by (intro io_rules) (simp add: R_setClusterCondition)
next
  fix p :: "bool \<times> EtcdCluster" and s'
  assume "\<And>ch c'. R c c' \<Longrightarrow> safe (clusterMon R) st (k (ch, c')) Q" and "R c (snd p) \<and> s' = st"
  then show "safe (clusterMon R) s' (k p) Q" by (cases p) simp
qed

lemma safe_updateTolerant:
  "R cur c \<Longrightarrow> safe (clusterMon R) (Some cur) (updateTolerant E c ch res) (\<lambda>_ _. True)"
  unfolding updateTolerant_def by (intro io_rules) (simp_all add: safe_return)

lemma safe_updateStrict:
  "R cur c \<Longrightarrow> safe (clusterMon R) (Some cur) (updateStrict E c res) (\<lambda>_ _. True)"
  unfolding updateStrict_def by (intro io_rules) (simp add: safe_return)

lemma safe_condStep [io_rules]:
  assumes "\<And>ch c'. R (snd st) c' \<Longrightarrow> safe (clusterMon R) s (k (ch, c')) Q"
  shows "safe (clusterMon R) s (State_Monad.bind (condStep E st ty sv reason msg) k) Q"
proof (rule safe_bind)
  show "safe (clusterMon R) s (condStep E st ty sv reason msg) (\<lambda>p s'. R (snd st) (snd p) \<and> s' = s)"
    unfolding condStep_def by (intro io_rules) auto
next
  fix p :: "bool \<times> EtcdCluster" and s'
  assume "R (snd st) (snd p) \<and> s' = s"
  then show "safe (clusterMon R) s' (k p) Q" using assms by (cases p) simp
qed

lemma safe_condStep_last:
  "safe (clusterMon R) s (condStep E st ty sv reason msg) (\<lambda>p s'. R (snd st) (snd p) \<and> s' = s)"
  unfolding condStep_def by (intro io_rules) auto

lemma safe_healthConditions:
  "safe (clusterMon R) s (healthConditions E desired running dormant st)
     (\<lambda>p s'. R (snd st) (snd p) \<and> s' = s)"
  unfolding healthConditions_def Let_def
  by (intro io_rules conjI R_refl refl; (rule safe_weaken [OF safe_condStep_last], metis R_trans snd_conv))

lemma R_clearDeadline: "R (snd st) (snd (clearDeadline st))"
  by (simp add: clearDeadline_def R_refl R_noDeadline)

lemma safe_progressConditions:
  "safe (clusterMon R) s (progressConditions E desired running pending st)
     (\<lambda>p s'. R (snd st) (snd p) \<and> s' = s)"
  unfolding progressConditions_def
  by (intro io_rules) (auto intro: R_clearDeadline R_refl R_trans [OF _ R_clearDeadline, of _ "(_, _)", simplified])

lemma safe_updateStatus:
  assumes "R cur c"
  shows "safe (clusterMon R) (Some cur) (updateStatus E c members pending) (\<lambda>_ _. True)"
proof -
  have pdb: "safe (clusterMon R) s (reconcilePDB E c' v) (\<lambda>_ s'. s' = s)" for s c' v
    by (rule clusterM.quiet_safe) (rule emits_mono [OF childF.disruption isChildEvent_not_cluster])
  show ?thesis
    unfolding updateStatus_def Let_def
    apply (rule safe_case_option)
     apply (rule safe_return, simp)
    apply (rule safe_bind [OF safe_healthConditions])
    apply (erule conjE, simp only: snd_conv)
    apply (rule safe_bind [OF safe_progressConditions])
    apply (rule safe_case_prod)
    apply (erule conjE, simp only: snd_conv)
    apply (rule safe_bind [OF pdb])
    apply (simp only: snd_conv)
    apply (rule safe_if)
     apply (rule safe_updateStrict)
     apply (rule R_trans [OF assms], rule R_trans [OF R_counts])
     apply (erule R_trans, erule R_trans, rule R_broken)
    apply (rule safe_return, simp)
    done
qed

lemma safe_surfaceDiscoveryError:
  assumes "R cur c"
  shows "safe (clusterMon R) (Some cur) (surfaceDiscoveryError E c what err) (\<lambda>_ _. True)"
  unfolding surfaceDiscoveryError_def
  by (intro io_rules safe_updateTolerant; simp only: prod.inject; blast intro: R_trans assms)

lemma safe_tryDiscoverCluster:
  assumes "R cur c" and "ecClusterID c = ''''"
  shows "safe (clusterMon R) (Some cur) (tryDiscoverCluster E c ms) (\<lambda>_ _. True)"
proof -
  have latch: "R cur (c\<lparr>ec_Status := (ec_Status c)\<lparr>est_ClusterID := hex016 i\<rparr>\<rparr>)" for i
    by (rule R_trans [OF assms(1) R_clusterID]) (simp_all add: assms(2))
  show ?thesis
    unfolding tryDiscoverCluster_def Let_def
    by (intro mon_rules safe_clusterCondition safe_updateTolerant safe_updateStrict
        safe_surfaceDiscoveryError assms(1) TrueI; simp only: prod.inject; blast intro: R_trans assms(1) latch)
qed

text \<open>Latching authentication: the version in memory stays related to the monitor's.\<close>

lemma safe_latchAuthEnabled:
  assumes "R cur c"
  shows "safe (clusterMon R) (Some cur) (latchAuthEnabled E c)
           (\<lambda>p s. \<exists>cur'. s = Some cur' \<and> R cur' (fst p))"
proof -
  have "R cur (c\<lparr>ec_Status := (ec_Status c)\<lparr>est_AuthEnabled := True\<rparr>\<rparr>)"
    by (rule R_trans [OF assms R_auth])
  with assms show ?thesis
    unfolding latchAuthEnabled_def Let_def
    by (intro io_rules) (auto intro!: safe_return simp: R_refl split: sum.splits)
qed

lemma safe_reconcileAuth:
  assumes "R cur c"
  shows "safe (clusterMon R) (Some cur) (reconcileAuth E c running)
           (\<lambda>p s. \<exists>cur'. s = Some cur' \<and> R cur' (fst p))"
  unfolding reconcileAuth_def Let_def
  by (intro mon_rules safe_latchAuthEnabled assms) (simp_all add: assms)

lemma safe_reconcileScale:
  assumes "R cur c"
  shows "safe (clusterMon R) (Some cur) (reconcileScale E c items desired) (\<lambda>_ _. True)"
proof -
  have auth: "safe (clusterMon R) (Some cur) (State_Monad.bind (reconcileAuth E c ms) k) (\<lambda>_ _. True)"
    if "\<And>cur' c' res. R cur' c' \<Longrightarrow> safe (clusterMon R) (Some cur') (k (c', res)) (\<lambda>_ _. True)"
    for ms and k :: "EtcdCluster \<times> (goerror + Result option) \<Rightarrow> outcome proc"
    by (rule safe_bind [OF safe_reconcileAuth [OF assms]]) (auto intro: that)
  show ?thesis
    unfolding reconcileScale_def Let_def
    by (intro mon_rules clusterM.quiet_safe_any [OF scaleUp_notCluster] clusterM.quiet_safe_any [OF scaleDown_notCluster]
        safe_updateStatus assms auth TrueI; (simp only: prod.inject)?)
qed

text \<open>The terminal branches of the deadline path write conditions only.\<close>

lemma safe_deadline_terminal:
  assumes "R cur c" and "ecClusterID c = '''' \<or> specEqualsObserved c"
  shows "safe (clusterMon R) (Some cur) (handleDeadlineExceeded E c now) (\<lambda>_ _. True)"
  unfolding handleDeadlineExceeded_def
  using assms(2)
  by (intro mon_rules safe_condStep safe_updateTolerant TrueI)
    ((simp only: prod.inject snd_conv, blast intro: R_trans assms(1)) | simp)+

text \<open>With a locked target that is neither complete nor past its deadline with an edited spec, the
  middle part of a pass is covered by the contract.\<close>

lemma safe_reconcileMembership:
  assumes "R cur c"
  shows "safe (clusterMon R) (Some cur) (reconcileMembership E c items) (\<lambda>_ _. True)"
proof -
  show ?thesis
    unfolding reconcileMembership_def Let_def
    by (intro mon_rules safe_updateStatus clusterM.quiet_safe_any [OF bootstrap_notCluster]
        safe_tryDiscoverCluster safe_reconcileScale assms TrueI)
qed

lemma safe_reconcileTarget_locked:
  assumes "R cur c" and "est_ClusterToken (ec_Status c) \<noteq> ''''" "ecObserved c \<noteq> None"
    and "\<not> reconciliationComplete c (filterRunningMembers items) \<or> specEqualsObserved c"
    and "ecClusterID c = '''' \<or> specEqualsObserved c \<or> (\<forall>h. \<not> deadlineExpired c (e_now E h))"
  shows "safe (clusterMon R) (Some cur) (reconcileTarget E c items) (\<lambda>_ _. True)"
  unfolding reconcileTarget_def Let_def
  by (rule safe_bind_timeNow)
    (use assms in \<open>auto intro!: safe_reconcileMembership safe_deadline_terminal\<close>)

end


text \<open>A contract that also allows adopting the spec and deriving the token covers a whole pass.\<close>

locale adopting_contract = status_contract +
  assumes R_snapshot: "R c (setProgressDeadline (snapshotSpecIntoObserved c) now)"
    and R_token: "est_ClusterToken (ec_Status c) = '''' \<Longrightarrow>
      R c (c\<lparr>ec_Status := (ec_Status c)\<lparr>est_ClusterToken := deriveClusterToken c\<rparr>\<rparr>)"
begin

lemma safe_handleDeadlineExceeded:
  assumes "R cur c"
  shows "safe (clusterMon R) (Some cur) (handleDeadlineExceeded E c now) (\<lambda>_ _. True)"
proof (cases "ecClusterID c = '''' \<or> specEqualsObserved c")
  case True
  with assms show ?thesis by (rule safe_deadline_terminal)
next
  case False
  then show ?thesis
    unfolding handleDeadlineExceeded_def
    by (intro mon_rules safe_clusterCondition safe_updateStrict)
      (auto intro: R_trans [OF R_trans [OF assms R_snapshot]])
qed

lemma safe_reconcileTarget:
  assumes "R cur c"
  shows "safe (clusterMon R) (Some cur) (reconcileTarget E c items) (\<lambda>_ _. True)"
proof -
  have token: "R cur (c\<lparr>ec_Status := (ec_Status c)\<lparr>est_ClusterToken := deriveClusterToken c\<rparr>\<rparr>)"
    if "est_ClusterToken (ec_Status c) = ''''"
    using that by (rule R_trans [OF assms R_token])
  have snap: "R cur (setProgressDeadline (snapshotSpecIntoObserved c') now)" if "R cur c'" for c' now
    using that by (rule R_trans [OF _ R_snapshot])
  show ?thesis
    unfolding reconcileTarget_def Let_def
    by (intro mon_rules safe_clusterCondition safe_updateStrict safe_handleDeadlineExceeded
        safe_reconcileMembership assms;
      auto intro: R_trans [OF snap] token assms split: if_splits)
qed

lemma safe_Reconcile: "safe (clusterMon R) None (Reconcile E r req) (\<lambda>_ _. True)"
proof -
  have svc: "emits notCluster (ensureServices E r c)" for c
    by (rule emits_mono [OF childF.services isChildEvent_not_cluster])
  have cert: "emits notCluster (reconcileTLSCertificates E r c)" for c
    by (rule emits_mono [OF childF.certificates isChildEvent_not_cluster])
  have body: "safe (clusterMon R) (Some c)
      (bindE (ensureServices E r c) (\<lambda>_. bindE (reconcileTLSCertificates E r c) (\<lambda>_.
         bindE (listMembers E ns sel) (reconcileTarget E c)))) (\<lambda>_ _. True)" for c ns sel
    by (intro clusterM.safe_bindE_quiet svc cert notCluster_calls safe_reconcileTarget R_refl TrueI)
  show ?thesis
    unfolding Reconcile_def
    by (rule safe_bind_calls)
      (auto intro!: safe_case_sum safe_if safe_return safe_clusterCondition safe_updateTolerant body
        simp: R_refl split: sum.splits)
qed

end

section \<open>The latch relation\<close>

text \<open>
  Metadata and spec are never written; the cluster ID, once set, stays; the token is derived once
  and stays; authentication, once recorded, stays; the observed target stays or becomes the
  snapshot of the current spec.
\<close>

definition statusLatch :: "EtcdCluster \<Rightarrow> EtcdCluster \<Rightarrow> bool" where
  "statusLatch c n \<longleftrightarrow>
     ec_Meta n = ec_Meta c \<and> ec_Spec n = ec_Spec c \<and>
     (ecClusterID c = '''' \<or> ecClusterID n = ecClusterID c) \<and>
     (est_ClusterToken (ec_Status n) = est_ClusterToken (ec_Status c) \<or>
      est_ClusterToken (ec_Status c) = '''' \<and> est_ClusterToken (ec_Status n) = deriveClusterToken c) \<and>
     (est_AuthEnabled (ec_Status c) \<longrightarrow> est_AuthEnabled (ec_Status n)) \<and>
     (ecObserved n = ecObserved c \<or> ecObserved n = Some (observedOf c))"

lemma deriveClusterToken_nonempty [simp]: "deriveClusterToken c \<noteq> []"
  by (simp add: deriveClusterToken_def)

lemma deriveClusterToken_cong: "ec_Meta n = ec_Meta c \<Longrightarrow> deriveClusterToken n = deriveClusterToken c"
  by (simp add: deriveClusterToken_def)

lemma statusLatch_trans:
  assumes "statusLatch a b" "statusLatch b c"
  shows "statusLatch a c"
proof -
  from assms have "observedOf b = observedOf a" and "deriveClusterToken b = deriveClusterToken a"
    unfolding statusLatch_def by (blast intro: observedOf_cong deriveClusterToken_cong)+
  with assms show ?thesis
    unfolding statusLatch_def by (elim conjE, intro conjI) (simp_all, argo+)
qed

lemma observedOf_status [simp]: "observedOf (c\<lparr>ec_Status := st\<rparr>) = observedOf c"
  by (rule observedOf_cong) simp

interpretation latch: adopting_contract statusLatch
  by unfold_locales (simp_all add: statusLatch_trans, simp_all add: statusLatch_def)

text \<open>The relation that keeps the locked target.\<close>

definition targetKept :: "EtcdCluster \<Rightarrow> EtcdCluster \<Rightarrow> bool" where
  "targetKept c n \<longleftrightarrow> ec_Meta n = ec_Meta c \<and> ec_Spec n = ec_Spec c \<and> ecObserved n = ecObserved c"

interpretation kept: status_contract targetKept
  by unfold_locales (auto simp: targetKept_def)

section \<open>Sequences of passes\<close>

text \<open>
  The API server's view of the cluster object: a status write that succeeds stores the status and
  keeps metadata and spec. A trace is honest for a stored version when reads return the stored
  version (or fail) and the reply to a successful write is what was stored; writes based on an
  older version fail with a conflict, which is one of the failures.
\<close>

definition storeStatus :: "EtcdCluster \<Rightarrow> EtcdCluster kwrite \<Rightarrow> EtcdCluster" where
  "storeStatus c w =
     (case w of
        StatusUpdate n \<Rightarrow> c\<lparr>ec_Status := ec_Status n\<rparr>
      | StatusPatch b n \<Rightarrow> c\<lparr>ec_Status := ec_Status n\<rparr>
      | _ \<Rightarrow> written w)"

definition nextStored :: "EtcdCluster \<Rightarrow> event \<Rightarrow> EtcdCluster" where
  "nextStored c e =
     (case e of
        ECluster (KWrite w r) \<Rightarrow> (case r of Inr _ \<Rightarrow> storeStatus c w | Inl _ \<Rightarrow> c)
      | _ \<Rightarrow> c)"

definition honestReply :: "EtcdCluster \<Rightarrow> event \<Rightarrow> bool" where
  "honestReply c e =
     (case e of
        ECluster (KGet rd q r) \<Rightarrow> (case r of Inr c' \<Rightarrow> c' = c | Inl _ \<Rightarrow> True)
      | ECluster (KWrite w r) \<Rightarrow> (case r of Inr c' \<Rightarrow> c' = storeStatus c w | Inl _ \<Rightarrow> True)
      | _ \<Rightarrow> True)"

fun honest :: "EtcdCluster \<Rightarrow> event list \<Rightarrow> bool" where
  "honest c [] = True"
| "honest c (e # es) = (honestReply c e \<and> honest (nextStored c e) es)"

definition stored :: "EtcdCluster \<Rightarrow> event list \<Rightarrow> EtcdCluster" where
  "stored c es = foldl nextStored c es"

text \<open>One event: the monitor's version is the stored one, and the stored one moves along the latch.\<close>

lemma honest_step:
  assumes "clusterMon statusLatch s e = Some s'" "honestReply c e" "s = None \<or> s = Some c"
  shows "(s' = None \<or> s' = Some (nextStored c e)) \<and> statusLatch c (nextStored c e)"
proof (cases "isClusterEvent e")
  case False
  with assms clusterMon_other [OF False, of statusLatch s] show ?thesis
    by (cases e) (auto simp: nextStored_def latch.R_refl)
next
  case True
  then obtain k where e: "e = ECluster k" by (cases e) (auto simp: isClusterEvent_def)
  have stat: "statusLatch c (c\<lparr>ec_Status := ec_Status n\<rparr>)" if "statusLatch c n" for n
    using that by (simp add: statusLatch_def)
  from assms stat show ?thesis
    unfolding e
    by (cases k)
      (auto simp: clusterMon_def nextStored_def honestReply_def storeStatus_def latch.R_refl
        split: sum.splits option.splits kwrite.splits if_splits)
qed

lemma honest_run:
  "runMonitor (clusterMon statusLatch) s es = Some s' \<Longrightarrow> honest c es \<Longrightarrow> s = None \<or> s = Some c \<Longrightarrow>
   statusLatch c (stored c es)"
proof (induction es arbitrary: s c)
  case Nil
  then show ?case by (simp add: stored_def latch.R_refl)
next
  case (Cons e es)
  then obtain t where t: "clusterMon statusLatch s e = Some t"
    and rest: "runMonitor (clusterMon statusLatch) t es = Some s'"
    by (auto split: option.splits)
  note step = honest_step [OF t _ Cons.prems(3)]
  from Cons.prems(2) have h: "honestReply c e" "honest (nextStored c e) es" by simp_all
  from Cons.IH [OF rest h(2)] step [OF h(1)]
  have "statusLatch (nextStored c e) (stored (nextStored c e) es)" by blast
  with step [OF h(1)] show ?case
    by (auto simp: stored_def intro: latch.R_trans)
qed

text \<open>A cluster's life: users edit metadata and spec, the operator runs passes.\<close>

inductive lives :: "EtcdCluster \<Rightarrow> EtcdCluster \<Rightarrow> bool" for c0 where
  start: "lives c0 c0"
| edit: "lives c0 c \<Longrightarrow> ec_Status c' = ec_Status c \<Longrightarrow> lives c0 c'"
| pass: "lives c0 c \<Longrightarrow> es = trace_of (Reconcile E r req) \<Longrightarrow> honest c es \<Longrightarrow> lives c0 (stored c es)"

section \<open>Properties\<close>

text \<open>
  C2. Writes of a pass. Whatever the API server and etcd reply, everything a pass of the cluster
  controller writes to the cluster object goes through the status subresource, leaves metadata and
  spec alone, never changes a cluster ID or a cluster token that is set, never withdraws the record
  that authentication is enabled, and replaces the observed target only by the snapshot of the
  current spec.
\<close>

theorem Reconcile_status_latches: "accepted (clusterMon statusLatch) None (trace_of (Reconcile E r req))"
  by (rule safe_accepted [OF latch.safe_Reconcile])

text \<open>
  C3. The locking pattern. While the observed target is set and the current one is not yet reached,
  an edited spec is not picked up: no write of the pass changes the observed target, unless the
  deadline of a cluster that had formed has expired.
\<close>

theorem target_locked:
  assumes "est_ClusterToken (ec_Status c) \<noteq> ''''" and "ecObserved c \<noteq> None"
    and "\<not> reconciliationComplete c (filterRunningMembers items)"
    and "ecClusterID c = '''' \<or> (\<forall>h. \<not> deadlineExpired c (e_now E h))"
  shows "accepted (clusterMon targetKept) (Some c) (trace_of (reconcileTarget E c items))"
  by (rule safe_accepted [OF kept.safe_reconcileTarget_locked]) (use assms in \<open>auto intro: kept.R_refl\<close>)

definition lockedCluster :: EtcdCluster where
  "lockedCluster = sampleCluster\<lparr>ec_Spec := sampleSpec\<lparr>cs_Version := ''3.6.0''\<rparr>,
     ec_Status := sampleStatus\<lparr>est_ClusterToken := ''t'', est_Observed := Some (observedOf sampleCluster)\<rparr>\<rparr>"

theorem target_locked_witness:
  "accepted (clusterMon targetKept) (Some lockedCluster) (trace_of (reconcileTarget sampleEnv lockedCluster []))"
  by (rule target_locked)
    (simp_all add: lockedCluster_def sampleStatus_def reconciliationComplete_def filterRunningMembers_def
      observedOf_def specReplicas_def sampleCluster_def sampleSpec_def)

text \<open>
  C4. The life of a cluster. Over any sequence of user edits and passes of the controller, with an
  API server that serves the current object and rejects stale writes: a cluster ID, a token and the
  record of enabled authentication never change once they are set, and an observed target is never
  removed.
\<close>

theorem lives_latched:
  assumes "lives c0 c"
  shows "(ecClusterID c0 \<noteq> '''' \<longrightarrow> ecClusterID c = ecClusterID c0) \<and>
         (est_ClusterToken (ec_Status c0) \<noteq> '''' \<longrightarrow>
            est_ClusterToken (ec_Status c) = est_ClusterToken (ec_Status c0)) \<and>
         (est_AuthEnabled (ec_Status c0) \<longrightarrow> est_AuthEnabled (ec_Status c)) \<and>
         (ecObserved c0 \<noteq> None \<longrightarrow> ecObserved c \<noteq> None)"
  using assms
proof (induction rule: lives.induct)
  case (pass c es E r req)
  have "accepted (clusterMon statusLatch) None es"
    unfolding pass.hyps(2) by (rule safe_accepted [OF latch.safe_Reconcile])
  then obtain s where "runMonitor (clusterMon statusLatch) None es = Some s"
    by (auto simp: accepted_def)
  from honest_run [OF this pass.hyps(3)] have "statusLatch c (stored c es)" by simp
  with pass.IH show ?case by (auto simp: statusLatch_def)
qed auto

text \<open>
  A life with three passes: an API server that answers from what it has stored, the pass that records token and target,
  the pass that discovers the cluster once the seed is ready and etcd answers, an edit of the version, and
  the pass that adopts it.
\<close>

definition serving :: "EtcdCluster \<Rightarrow> env \<Rightarrow> env" where
  "serving c E = E\<lparr>e_kube := (e_kube E)\<lparr>k_clusters := \<lparr>kc_get = (\<lambda>h _ _. Inr (stored c h)), kc_list = (\<lambda>_ _ _ _. Inr []),
     kc_write = (\<lambda>h w. Inr (storeStatus (stored c h) w))\<rparr>\<rparr>\<rparr>"

definition passTrace :: "EtcdCluster \<Rightarrow> env \<Rightarrow> event list" where
  "passTrace c E = trace_of (Reconcile (serving c E) \<lparr>CertManagerAvailable = True, ClusterDomain = ''cluster.local'', HasRecorder = False\<rparr>
     \<lparr>nn_namespace = ''prod'', nn_name = ''etcd''\<rparr>)"

definition readySeed :: EtcdMember where
  "readySeed = sampleMember\<lparr>em_Spec := (em_Spec sampleMember)\<lparr>ms_InitialCluster := ''etcd-0=http://etcd-0.etcd.prod.svc:2380''\<rparr>,
     em_Status := emptyMemberStatus\<lparr>mst_PodName := ''etcd-0'', mst_Conditions := [wantCondition MemberReady ConditionTrue ''PodReady'' '''' 0]\<rparr>\<rparr>"

definition seededEnv :: env where
  "seededEnv = sampleEnv\<lparr>e_kube := emptyKube\<lparr>k_members := emptyClient\<lparr>kc_list := (\<lambda>_ _ _ _. Inr [readySeed])\<rparr>\<rparr>,
     e_etcd := silentEtcd\<lparr>t_memberList := (\<lambda>_ _. Inr \<lparr>ml_ClusterId = 1, ml_Members =
       [\<lparr>pb_ID = 2, pb_Name = ''etcd-0'', pb_PeerURLs = [], pb_IsLearner = False\<rparr>]\<rparr>)\<rparr>\<rparr>"

definition newCluster :: EtcdCluster where
  "newCluster = sampleCluster\<lparr>ec_Spec := sampleSpec\<lparr>cs_Replicas := Some 1\<rparr>\<rparr>"

definition startedCluster :: EtcdCluster where
  "startedCluster = stored newCluster (passTrace newCluster sampleEnv)"

definition formedCluster :: EtcdCluster where
  "formedCluster = stored startedCluster (passTrace startedCluster seededEnv)"

definition editedCluster :: EtcdCluster where
  "editedCluster = formedCluster\<lparr>ec_Spec := sampleSpec\<lparr>cs_Replicas := Some 1, cs_Version := ''3.6.0''\<rparr>\<rparr>"

definition upgradedCluster :: EtcdCluster where
  "upgradedCluster = stored editedCluster (passTrace editedCluster seededEnv)"

lemma honest_passes:
  "honest newCluster (passTrace newCluster sampleEnv)" "honest startedCluster (passTrace startedCluster seededEnv)"
  "honest editedCluster (passTrace editedCluster seededEnv)"
  by code_simp+

lemma passes_progress:
  "est_ClusterToken (ec_Status startedCluster) \<noteq> ''''" "ecClusterID startedCluster = ''''" "ecClusterID formedCluster = ''0000000000000001''"
  "map_option ob_Version (ecObserved upgradedCluster) = Some ''3.6.0''"
  by code_simp+

theorem lives_latched_witness:
  "lives newCluster upgradedCluster \<and> ecClusterID upgradedCluster = ''0000000000000001'' \<and>
   est_ClusterToken (ec_Status startedCluster) \<noteq> '''' \<and>
   est_ClusterToken (ec_Status upgradedCluster) = est_ClusterToken (ec_Status startedCluster) \<and>
   map_option ob_Version (ecObserved upgradedCluster) = Some ''3.6.0''"
proof -
  have started: "lives c startedCluster" if "lives c newCluster" for c
    unfolding startedCluster_def by (rule lives.pass [OF that passTrace_def honest_passes(1)])
  have formed: "lives c formedCluster" if "lives c startedCluster" for c
    unfolding formedCluster_def by (rule lives.pass [OF that passTrace_def honest_passes(2)])
  have upgraded: "lives c upgradedCluster" if "lives c formedCluster" for c
  proof -
    have "lives c editedCluster" by (rule lives.edit [OF that]) (simp add: editedCluster_def)
    then show ?thesis unfolding upgradedCluster_def by (rule lives.pass [OF _ passTrace_def honest_passes(3)])
  qed
  from lives_latched [OF upgraded [OF lives.start]] passes_progress(3) have "ecClusterID upgradedCluster = ''0000000000000001''" by simp
  moreover from lives_latched [OF upgraded [OF formed [OF lives.start]]] passes_progress(1)
  have "est_ClusterToken (ec_Status upgradedCluster) = est_ClusterToken (ec_Status startedCluster)" by simp
  ultimately show ?thesis using upgraded [OF formed [OF started [OF lives.start]]] passes_progress(1,4) by simp
qed

end
