(* ===== verification/ClusterFootprint.thy ===== *)
theory ClusterFootprint
  imports ClusterReconcile
begin

text \<open>
  Which calls the functions of the cluster controller can make at all. A predicate on events that admits the calls of
  a function holds of every event the function emits; the locales collect these calls, from the functions that
  only read and report (\<open>report_footprint\<close>) over those that stamp voters on members (\<open>cluster_footprint\<close>), promote learners
  (\<open>promotion_footprint\<close>) and change members (\<open>membership_footprint\<close>) to the whole pass (\<open>pass_footprint\<close>). Each property of the controller that is about the kind of the calls interprets one of them.
\<close>

section \<open>Conditions and status writes\<close>

lemma clusterCondition_emits [emits_rules]: "emits P (clusterCondition E c ty s reason msg)"
  unfolding clusterCondition_def by (intro emits_rules)

lemma condStep_emits [emits_rules]: "emits P (condStep E st ty s reason msg)"
  unfolding condStep_def by (intro emits_rules)

lemma update_emits [emits_rules]:
  assumes "\<And>n r. P (ECluster (KWrite (StatusUpdate n) r))"
  shows "emits P (updateTolerant E c ch res)" "emits P (updateStrict E c res)"
  unfolding updateTolerant_def updateStrict_def by (intro emits_rules assms)+

lemma surfaceDiscoveryError_emits [emits_rules]:
  "(\<And>n r. P (ECluster (KWrite (StatusUpdate n) r))) \<Longrightarrow> emits P (surfaceDiscoveryError E c what err)"
  unfolding surfaceDiscoveryError_def by (intro emits_rules)

lemma healthConditions_emits [emits_rules]: "emits P (healthConditions E d run dor st)"
  unfolding healthConditions_def Let_def by (intro emits_rules)

lemma progressConditions_emits [emits_rules]: "emits P (progressConditions E d run pend st)"
  unfolding progressConditions_def by (intro emits_rules)

section \<open>Reading and reporting\<close>

locale report_footprint = children_footprint +
  assumes cluster: "P (ECluster (KGet Cached q clg))" "P (ECluster (KWrite (StatusUpdate cluster) clr))"
      "P (ECluster (KWrite (StatusPatch cluster cluster') clr))"
    and secret: "P (ESecret (KGet rd q sec))"
    and dial: "P (EDial cl d)"
    and etcdList: "P (EEtcd cl (MemberList l))"
    and auth: "P (EEtcd cl (AuthStatus a))" "P (EEtcd cl (UserAdd u pw oe))" "P (EEtcd cl (UserGrantRole u pw oe))"
      "P (EEtcd cl (AuthEnable oe))"
begin

lemma dialling:
  "emits P (memberList E cl)" "emits P (etcdClientFactory E eps tls u p)"
  "emits P (buildOperatorTLSConfig E oc)" "emits P (resolveEtcdCredentials E oc)"
  by (intro emits_rules secret dial etcdList)+

lemma reading: "emits P (getCluster E q)"
  by (intro emits_rules cluster)

lemma updates: "emits P (updateTolerant E c ch res)" "emits P (updateStrict E c res)"
  by (intro emits_rules cluster)+

lemma discovery: "emits P (tryDiscoverCluster E c ms)"
  unfolding tryDiscoverCluster_def Let_def by (intro emits_rules cluster secret dial etcdList)

lemma status: "emits P (updateStatus E c ms pend)"
  unfolding updateStatus_def Let_def by (intro emits_rules cluster disruption)

lemma deadline: "emits P (handleDeadlineExceeded E c now)"
  unfolding handleDeadlineExceeded_def by (intro emits_rules cluster)

lemma authentication: "emits P (reconcileAuth E c ms)"
  unfolding reconcileAuth_def latchAuthEnabled_def provisionRoot_def Let_def
  by (intro emits_rules cluster secret dial auth)

end

section \<open>Stamping voters\<close>

locale cluster_footprint = report_footprint +
  assumes stamp: "P (EMember (KWrite (StatusPatch m m') mr))"
begin

lemma voters: "emits P (syncIsVoter E c ms l)"
proof (induction ms)
  case (Cons m ms)
  then show ?case unfolding syncIsVoter.simps Let_def by (intro emits_rules stamp)
qed (simp add: emits_return)

end

section \<open>Promoting a learner\<close>

locale promotion_footprint = cluster_footprint +
  assumes promote: "P (EEtcd cl (MemberPromote i oe))"
begin

lemma promotion: "emits P (tryPromoteLearner E cl l)"
  unfolding tryPromoteLearner_def by (intro emits_rules promote)

lemma converged: "emits P (promoteAfterConverged E c ms)"
  unfolding promoteAfterConverged_def promotePendingLearner_def Let_def
  by (intro emits_rules secret dial etcdList voters promotion)

end

section \<open>Changing members\<close>

locale membership_footprint = promotion_footprint +
  assumes wake: "P (EMember (KWrite (Patch m (wakeDormant m)) r))"
    and pause: "P (EMember (KWrite (Patch m (makeDormant m)) r))"
    and delete: "P (EMember (KWrite (Delete m) r))"
begin

lemma shrinking: "emits P (scaleDown E c ms)"
  unfolding scaleDown_def by (intro emits_rules pause delete)

end

section \<open>The whole pass\<close>

locale pass_footprint = membership_footprint +
  assumes listing: "P (EMember (KList Cached ns sel l))"
    and add: "P (EEtcd c (MemberAddAsLearner us x))"
    and create: "P (EMember (KWrite (Create m) r))"
    and patch: "P (EMember (KWrite (Patch m m') r))"
begin

lemma seeding: "emits P (bootstrap E c ms)"
  unfolding bootstrap_def fillSeed_def Let_def by (intro emits_rules create patch stamp)

lemma growing: "emits P (scaleUp E c ms)"
  unfolding scaleUp_def completePendingMember_def Let_def
  by (intro emits_rules patch create add secret dial etcdList promotion)

lemma whole: "emits P (Reconcile E r req)"
  unfolding Reconcile_def reconcileTarget_def reconcileMembership_def reconcileScale_def Let_def
  by (intro emits_rules cluster listing services certificates seeding growing shrinking converged authentication status discovery deadline)

end

end
