(* ===== verification/ClusterMembership.thy ===== *)
theory ClusterMembership
  imports ClusterFootprint
begin

text \<open>
  Safety of membership changes: at most one change of the etcd membership per pass and none while
  a member is being removed, the guards under which members are created, the initial-cluster value of
  a joining member, and the choice of the member to remove.
\<close>

section \<open>One membership change per pass\<close>

text \<open>
  A change of the membership: a call that adds, promotes or removes an etcd member, deleting an
  EtcdMember (its finalizer removes it from etcd), or pausing or waking one.
\<close>

definition isMembershipChange :: "event \<Rightarrow> bool" where
  "isMembershipChange e =
     (case e of
        EEtcd c (MemberAddAsLearner urls r) \<Rightarrow> True
      | EEtcd c (MemberPromote i r) \<Rightarrow> True
      | EEtcd c (MemberRemove i r) \<Rightarrow> True
      | EMember (KWrite (Delete m) r) \<Rightarrow> True
      | EMember (KWrite (Patch m m') r) \<Rightarrow> ms_Dormant (em_Spec m') \<noteq> ms_Dormant (em_Spec m)
      | _ \<Rightarrow> False)"

text \<open>The monitor remembers whether the last member listing was free of terminating members and
  whether a change has been made.\<close>

definition mutationMon :: "bool \<times> bool \<Rightarrow> event \<Rightarrow> (bool \<times> bool) option" where
  "mutationMon s e =
     (case e of
        EMember (KList rd ns sel (Inr items)) \<Rightarrow> Some (\<not> list_ex emDeleting items, snd s)
      | EEtcd c (MemberRemove i r) \<Rightarrow> None
      | _ \<Rightarrow>
          if isMembershipChange e then (if fst s \<and> \<not> snd s then Some (fst s, True) else None)
          else Some s)"

definition membershipQuiet :: "event \<Rightarrow> bool" where
  "membershipQuiet e \<longleftrightarrow> \<not> isMembershipChange e \<and>
     (case e of EMember (KList rd ns sel r) \<Rightarrow> False | _ \<Rightarrow> True)"

lemma membershipQuiet_simps [simp]:
  "membershipQuiet (ECluster k0)" "membershipQuiet (ESecret k1)" "membershipQuiet (EDial c d)"
  "membershipQuiet (EMember (KWrite (Create m) r1))" "membershipQuiet (EMember (KWrite (StatusPatch m m') r1))"
  "membershipQuiet (EMember (KWrite (Patch m (withInitialCluster cl ic m)) r1))"
  "membershipQuiet (EEtcd c (MemberList r2))" "membershipQuiet (EEtcd c (AuthStatus r3))"
  "membershipQuiet (EEtcd c (UserAdd u p r4))" "membershipQuiet (EEtcd c (UserGrantRole u p r4))"
  "membershipQuiet (EEtcd c (AuthEnable r4))"
  by (simp_all add: membershipQuiet_def isMembershipChange_def withInitialCluster_def)

lemma child_membershipQuiet: "isChildEvent e \<Longrightarrow> membershipQuiet e"
  by (cases e) (simp_all add: isChildEvent_def membershipQuiet_def isMembershipChange_def)

interpretation mutationM: monitor mutationMon membershipQuiet
  by unfold_locales
    (auto simp: mutationMon_def membershipQuiet_def isMembershipChange_def
      split: event.splits kev.splits sum.splits etcd_call.splits)

lemma mutationMon_simps [simp]:
  "mutationMon (True, False) (EEtcd c (MemberAddAsLearner urls r1)) = Some (True, True)"
  "mutationMon (True, False) (EEtcd c (MemberPromote i r2)) = Some (True, True)"
  "mutationMon (True, False) (EMember (KWrite (Delete m) r3)) = Some (True, True)"
  "mutationMon (True, False) (EMember (KWrite (Patch m (wakeDormant m')) r3)) =
     Some (True, ms_Dormant (em_Spec m))"
  "mutationMon (True, False) (EMember (KWrite (Patch m (makeDormant m')) r3)) =
     Some (True, \<not> ms_Dormant (em_Spec m))"
  "mutationMon s (EMember (KWrite (Patch m (withInitialCluster cl ic m)) r3)) = Some s"
  "mutationMon s (EMember (KWrite (Create m) r3)) = Some s"
  by (auto simp: mutationMon_def isMembershipChange_def wakeDormant_def makeDormant_def withInitialCluster_def)

lemma fillSeed_quiet [emits_rules]: "emits membershipQuiet (fillSeed E c m)"
  unfolding fillSeed_def by (intro emits_rules) simp_all

lemma bootstrap_quiet: "emits membershipQuiet (bootstrap E c ms)"
  unfolding bootstrap_def by (intro emits_rules) simp_all

interpretation mutationF: cluster_footprint membershipQuiet
  by unfold_locales (simp_all add: child_membershipQuiet)

lemmas mutation_rules = safe_return safe_bind_timeNow safe_if safe_case_sum safe_case_option safe_case_prod
  safe_case_list safe_let mutationF.dialling [THEN mutationM.safe_bind_quiet] TrueI

lemma completePendingMember_mutation:
  "safe mutationMon (True, False) (completePendingMember E c cl l m) (\<lambda>_ _. True)"
  unfolding completePendingMember_def Let_def
  by (intro io_rules) (simp_all add: safe_return, intro io_rules, simp_all add: safe_return)

lemma tryPromoteLearner_mutation:
  "safe mutationMon (True, False) (tryPromoteLearner E cl l)
     (\<lambda>r s. fst s \<and> (r = None \<longrightarrow> s = (True, False)))"
  unfolding tryPromoteLearner_def by (intro io_rules) (simp_all add: safe_return split: option.splits)

lemma createMember_quiet: "emits membershipQuiet (writeMember E (Create m))"
  by (intro emits_rules) simp

lemma patchMember_mutation:
  assumes "ms_Dormant (em_Spec m) \<noteq> ms_Dormant (em_Spec m')" and "\<And>r. Q r"
  shows "safe mutationMon (True, False) (State_Monad.bind (writeMember E (Patch m m')) (\<lambda>r. return (f r)))
           (\<lambda>a _. Q a)"
  using assms by (intro io_rules) (simp add: mutationMon_def isMembershipChange_def safe_return)

lemma scaleUp_mutation: "safe mutationMon (True, False) (scaleUp E c ms) (\<lambda>_ _. True)"
proof -
  have promote: "safe mutationMon (True, False) (State_Monad.bind (tryPromoteLearner E cl l) k) (\<lambda>_ _. True)"
    if "safe mutationMon (True, False) (k None) (\<lambda>_ _. True)" "\<And>r s. safe mutationMon s (k (Some r)) (\<lambda>_ _. True)"
    for cl l and k :: "Result option \<Rightarrow> outcome proc"
    by (rule safe_bind [OF tryPromoteLearner_mutation]) (metis option.exhaust that)
  show ?thesis
  proof (cases "findDormantMember ms")
    case (Some d)
    then have "ms_Dormant (em_Spec d)" by (simp add: findDormant_Some)
    then show ?thesis
      unfolding scaleUp_def by (simp add: Some patchMember_mutation wakeDormant_def)
  next
    case None
    then show ?thesis
      unfolding scaleUp_def Let_def None option.case
      by (intro mutation_rules promote completePendingMember_mutation
          mutationM.safe_bindE_quiet [OF createMember_quiet])
        (simp_all add: safe_return)
  qed
qed

lemma scaleDown_mutation:
  assumes "list_all (\<lambda>m. \<not> ms_Dormant (em_Spec m)) ms"
  shows "safe mutationMon (True, False) (scaleDown E c ms) (\<lambda>_ _. True)"
  unfolding scaleDown_def
  by (intro mutation_rules patchMember_mutation) (simp_all add: makeDormant_def safe_bind_calls safe_return)

lemma promoteAfterConverged_mutation:
  "safe mutationMon (True, False) (promoteAfterConverged E c ms) (\<lambda>_ _. True)"
  unfolding promoteAfterConverged_def promotePendingLearner_def Let_def
  by (intro mutation_rules mutationM.safe_bind_quiet [OF mutationF.voters]
      safe_bind [OF tryPromoteLearner_mutation])

lemma filterRunning_not_dormant: "list_all (\<lambda>m. \<not> ms_Dormant (em_Spec m)) (filterRunningMembers ms)"
  by (simp add: list_all_iff set_filterRunning)

lemma reconcileScale_mutation:
  "safe mutationMon (\<not> list_ex emDeleting items, False) (reconcileScale E c items desired) (\<lambda>_ _. True)"
proof (cases "list_ex emDeleting items")
  case True
  then show ?thesis by (simp add: reconcileScale_def safe_return)
next
  case False
  have tail: "safe mutationMon s (updateStatus E c' a p) (\<lambda>_ _. True)" for s c' a p
    by (rule mutationM.quiet_safe_any [OF mutationF.status]) simp
  from False show ?thesis
    unfolding reconcileScale_def Let_def
    by (simp only: if_False simp_thms)
      (intro mutation_rules scaleUp_mutation scaleDown_mutation filterRunning_not_dormant
        safe_bind [OF promoteAfterConverged_mutation] mutationM.safe_bind_quiet [OF mutationF.authentication] tail)
qed

lemma reconcileTarget_mutation:
  "safe mutationMon (\<not> list_ex emDeleting items, False) (reconcileTarget E c items) (\<lambda>_ _. True)"
  unfolding reconcileTarget_def reconcileMembership_def Let_def
  by (intro mutation_rules reconcileScale_mutation
      mutationM.quiet_safe_any [OF bootstrap_quiet] mutationM.quiet_safe_any [OF mutationF.discovery]
      mutationM.quiet_safe_any [OF mutationF.status] mutationM.quiet_safe_any [OF mutationF.deadline]
      mutationM.safe_bind_quiet [OF clusterCondition_emits] mutationM.quiet_safe_any [OF mutationF.updates(2)])

lemma Reconcile_mutation: "safe mutationMon (False, False) (Reconcile E r req) (\<lambda>_ _. True)"
proof -
  have list: "safe mutationMon (False, False) (bindE (listMembers E ns sel) (reconcileTarget E c)) (\<lambda>_ _. True)" for ns sel c
    by (rule safe_bindE_calls)
      (simp_all add: mutationMon_def isMembershipChange_def reconcileTarget_mutation)
  show ?thesis
    unfolding Reconcile_def
    by (intro mutation_rules mutationM.safe_bind_quiet [OF mutationF.reading] list
        mutationM.safe_bind_quiet [OF clusterCondition_emits] mutationM.quiet_safe_any [OF mutationF.updates(1)]
        mutationM.safe_bindE_quiet [OF mutationF.services]
        mutationM.safe_bindE_quiet [OF mutationF.certificates])
qed

text \<open>
  C1. One membership change at a time. Whatever the API server and etcd reply, a pass of the cluster
  controller makes at most one change of the membership (adding or promoting a learner, deleting,
  pausing or waking a member), and none at all when the members it listed include one that is being
  deleted. It never removes a member from etcd itself.
\<close>

theorem Reconcile_one_membership_change:
  "accepted mutationMon (False, False) (trace_of (Reconcile E r req))"
  by (rule safe_accepted [OF Reconcile_mutation])

section \<open>When members are created\<close>


definition isCreate :: "event \<Rightarrow> bool" where
  "isCreate e = (case e of EMember (KWrite (Create m) r) \<Rightarrow> True | _ \<Rightarrow> False)"

lemma isCreate_simps [simp]:
  "isCreate (EMember (KWrite (Create m) r1))" "\<not> isCreate (EMember (KWrite (Patch m m') r1))"
  "\<not> isCreate (EMember (KWrite (StatusPatch m m') r1))" "\<not> isCreate (EMember (KWrite (Delete m) r1))"
  "\<not> isCreate (ECluster k)" "\<not> isCreate (ESecret k2)" "\<not> isCreate (EDial cl d)" "\<not> isCreate (EEtcd cl t)"
  by (simp_all add: isCreate_def)



lemma memberFromObserved_Bootstrap [simp]:
  "ms_Bootstrap (em_Spec (memberFromObserved c ob b rs)) = b"
  by (simp add: memberFromObserved_def case_prod_beta Let_def)









section \<open>The initial-cluster value of a joining member\<close>

text \<open>What etcd answers when it accepts a learner: a member list with an entry for the URL, whose
  name is empty until the new process reports it.\<close>

definition listsPending :: "string \<Rightarrow> string \<Rightarrow> EtcdPbMember list \<Rightarrow> bool" where
  "listsPending name url ms = list_ex (\<lambda>m. (pb_Name m = '''' \<or> pb_Name m = name) \<and> pb_PeerURLs m = [url]) ms"

lemma listsPending_part:
  assumes "listsPending name url ms" "memberNameFromPeerURL url = name" "name \<noteq> ''''"
  shows "name @ ''='' @ url \<in> set (initialClusterParts ms)"
proof -
  from assms(1) obtain m where m: "m \<in> set ms" "pb_PeerURLs m = [url]" "pb_Name m = '''' \<or> pb_Name m = name"
    by (auto simp: listsPending_def list_ex_iff)
  then have "initialClusterPart m = [name @ ''='' @ url]"
    using assms(2,3) by (auto simp: initialClusterPart_def Let_def)
  with m(1) show ?thesis by (force simp: initialClusterParts_def)
qed

text \<open>A patch that fills the initial-cluster value lists the member itself, sorted.\<close>

definition joinsItself :: "EtcdCluster \<Rightarrow> event \<Rightarrow> bool" where
  "joinsItself c e =
     (case e of
        EMember (KWrite (Patch m m') r) \<Rightarrow>
          (\<exists>parts. ms_InitialCluster (em_Spec m') = Join parts '','' \<and> sorted parts \<and>
             emName m @ ''='' @ peerURL (clusterPeerScheme (Some c)) (emName m) (memberServiceName m) (ecNamespace c)
               \<in> set parts)
      | _ \<Rightarrow> True)"

text \<open>
  C9. The initial-cluster value of a joining member. If etcd's replies list the member's peer URL
  once it is registered, as its API documents, and the names are DNS labels, then the value the
  member gets is the comma-separated sorted list of the members etcd reports, and it contains the
  member itself under its own name and URL, although etcd reports it without a name at that point.
\<close>

theorem completePendingMember_joins_itself:
  assumes url: "url = peerURL (clusterPeerScheme (Some c)) (emName m) (memberServiceName m) (ecNamespace c)"
    and "emName m \<noteq> []" "CHR ''.'' \<notin> set (emName m)" "CHR '':'' \<notin> set (emName m)"
    and "CHR '':'' \<notin> set (memberServiceName m)" "CHR '':'' \<notin> set (ecNamespace c)"
    and list: "registeredURL (ml_Members l) url \<Longrightarrow> listsPending (emName m) url (ml_Members l)"
    and add: "\<And>h ms. t_memberAddAsLearner (e_etcd E) h cl [url] = Inr ms \<Longrightarrow> listsPending (emName m) url ms"
  shows "list_all (joinsItself c) (trace_of (completePendingMember E c cl l m))"
proof -
  have "clusterPeerScheme (Some c) = ''http'' \<or> clusterPeerScheme (Some c) = ''https''"
    by (auto simp: clusterPeerScheme_def)
  then have name: "memberNameFromPeerURL url = emName m"
    unfolding url by (rule memberName_of_peerURL [OF assms(2-6)])
  have ok: "joinsItself c (EMember (KWrite (Patch m (withInitialCluster c (Join (sort (initialClusterParts ms)) '','') m)) r))"
    if "listsPending (emName m) url ms" for ms r
    using listsPending_part [OF that name assms(2)]
    by (auto simp: joinsItself_def withInitialCluster_def url intro!: exI [of _ "sort (initialClusterParts ms)"])
  show ?thesis
    using list add ok
    by (auto simp: completePendingMember_def trace_of_def proc_defs url [symmetric] joinsItself_def Let_def
        split: sum.splits)
qed

definition addEnv :: env where
  "addEnv = sampleEnv\<lparr>e_etcd := silentEtcd\<lparr>t_memberAddAsLearner := (\<lambda>_ _ urls.
     Inr [\<lparr>pb_ID = 1, pb_Name = '''', pb_PeerURLs = urls, pb_IsLearner = True\<rparr>])\<rparr>\<rparr>"

theorem completePendingMember_joins_itself_witness:
  "list_all (joinsItself sampleCluster)
     (trace_of (completePendingMember addEnv sampleCluster
        \<lparr>cl_Endpoints = [], cl_TLS = None, cl_Username = '''', cl_Password = ''''\<rparr>
        \<lparr>ml_ClusterId = 1, ml_Members = []\<rparr> sampleMember))"
  by (rule completePendingMember_joins_itself [OF refl])
    (auto simp: sampleMember_def sampleCluster_def emptyMeta_def memberServiceName_def registeredURL_def
      addEnv_def listsPending_def)

section \<open>Scale down\<close>






end
