(* ===== verification/ClusterHealth.thy ===== *)
theory ClusterHealth
  imports ClusterMembership
begin

text \<open>
  What the cluster controller reports and when it comes back: the conditions and counters a status
  write carries, the terminal states of the deadline path, the order of the calls that turn
  authentication on, and the requeue delay.
\<close>

section \<open>Status writes are truthful\<close>


























section \<open>Turning authentication on\<close>

text \<open>
  How far the provisioning of authentication has come in a pass: whether etcd said that authentication
  is off, whether the root user is known to
  exist, whether it was granted the root role, and whether etcd was seen to require authentication.
\<close>

record authProgress =
  ap_off :: bool
  ap_root :: bool
  ap_granted :: bool
  ap_enabled :: bool

definition noAuthProgress :: authProgress where
  "noAuthProgress = \<lparr>ap_off = False, ap_root = False, ap_granted = False, ap_enabled = False\<rparr>"

definition authMon :: "authProgress \<Rightarrow> event \<Rightarrow> authProgress option" where
  "authMon s e =
     (case e of
        EEtcd c (AuthStatus r) \<Rightarrow>
          Some (s\<lparr>ap_off := (r = Inr False),
                  ap_enabled := (case r of Inl err \<Rightarrow> isAuthRequiredErr err | Inr b \<Rightarrow> b)\<rparr>)
      | EEtcd c (UserAdd u pw r) \<Rightarrow>
          if u = ''root'' \<and> pw \<noteq> '''' \<and> ap_off s
          then Some (s\<lparr>ap_root := (case r of None \<Rightarrow> True | Some err \<Rightarrow> isAuthAlreadyExists err)\<rparr>) else None
      | EEtcd c (UserGrantRole u ro r) \<Rightarrow>
          if ap_root s \<and> u = ''root'' \<and> ro = ''root'' then Some (s\<lparr>ap_granted := (r = None)\<rparr>) else None
      | EEtcd c (AuthEnable r) \<Rightarrow>
          if ap_granted s then Some (s\<lparr>ap_enabled := (r = None)\<rparr>) else None
      | ECluster (KWrite (StatusPatch old new) r) \<Rightarrow>
          if ap_enabled s \<and> new = old\<lparr>ec_Status := (ec_Status old)\<lparr>est_AuthEnabled := True\<rparr>\<rparr>
          then Some s else None
      | _ \<Rightarrow> Some s)"

definition authQuiet :: "event \<Rightarrow> bool" where
  "authQuiet e =
     (case e of
        EEtcd c k \<Rightarrow> (case k of AuthStatus _ \<Rightarrow> False | UserAdd _ _ _ \<Rightarrow> False | UserGrantRole _ _ _ \<Rightarrow> False
                              | AuthEnable _ \<Rightarrow> False | _ \<Rightarrow> True)
      | ECluster (KWrite w r) \<Rightarrow> (case w of StatusPatch _ _ \<Rightarrow> False | _ \<Rightarrow> True)
      | _ \<Rightarrow> True)"

interpretation authM: monitor authMon authQuiet
  by unfold_locales (auto simp: authMon_def authQuiet_def split: event.splits kev.splits kwrite.splits etcd_call.splits)

lemma authQuiet_simps [simp]:
  "authQuiet (EMember k1)" "authQuiet (ESecret k2)" "authQuiet (EDial c d)" "authQuiet (ECluster (KGet rd q r))"
  "authQuiet (ECluster (KWrite (StatusUpdate n) r))" "authQuiet (EEtcd c (MemberList r2))"
  "authQuiet (EEtcd c (MemberAddAsLearner us r3))" "authQuiet (EEtcd c (MemberPromote i r4))"
  by (simp_all add: authQuiet_def)

lemma child_authQuiet: "isChildEvent e \<Longrightarrow> authQuiet e"
  by (cases e) (simp_all add: isChildEvent_def authQuiet_def)

lemma update_authQuiet [emits_rules]:
  "emits authQuiet (updateTolerant E c ch res)" "emits authQuiet (updateStrict E c res)"
  unfolding updateTolerant_def updateStrict_def by (intro emits_rules; simp)+

lemma surfaceDiscoveryError_authQuiet [emits_rules]: "emits authQuiet (surfaceDiscoveryError E c what err)"
  unfolding surfaceDiscoveryError_def by (intro emits_rules)

lemma bootstrap_authQuiet [emits_rules]: "emits authQuiet (bootstrap E c ms)"
  unfolding bootstrap_def fillSeed_def Let_def by (intro emits_rules) simp_all

lemma tryDiscoverCluster_authQuiet [emits_rules]: "emits authQuiet (tryDiscoverCluster E c ms)"
  unfolding tryDiscoverCluster_def Let_def by (intro emits_rules) simp_all

lemma updateStatus_authQuiet [emits_rules]: "emits authQuiet (updateStatus E c ms p)"
  unfolding updateStatus_def Let_def
  by (intro emits_rules emits_mono [OF childF.disruption child_authQuiet])

lemma handleDeadlineExceeded_authQuiet [emits_rules]: "emits authQuiet (handleDeadlineExceeded E c now)"
  unfolding handleDeadlineExceeded_def by (intro emits_rules)

lemma syncIsVoter_authQuiet [emits_rules]: "emits authQuiet (syncIsVoter E c ms l)"
proof (induction ms)
  case (Cons m ms)
  then show ?case unfolding syncIsVoter.simps Let_def by (intro emits_rules) simp_all
qed (simp add: emits_return)

lemma scaleUp_authQuiet [emits_rules]: "emits authQuiet (scaleUp E c ms)"
  unfolding scaleUp_def completePendingMember_def tryPromoteLearner_def Let_def
  by (intro emits_rules) simp_all

lemma scaleDown_authQuiet [emits_rules]: "emits authQuiet (scaleDown E c ms)"
  unfolding scaleDown_def by (intro emits_rules) simp_all

lemma promoteAfterConverged_authQuiet [emits_rules]: "emits authQuiet (promoteAfterConverged E c ms)"
  unfolding promoteAfterConverged_def promotePendingLearner_def tryPromoteLearner_def Let_def
  by (intro emits_rules) simp_all

lemma latchAuthEnabled_auth: "ap_enabled s \<Longrightarrow> safe authMon s (latchAuthEnabled E c) (\<lambda>_ _. True)"
  unfolding latchAuthEnabled_def Let_def by (intro io_rules) (simp_all add: authMon_def safe_return)

lemma provisionRoot_auth:
  assumes "ap_off s"
  shows "safe authMon s (provisionRoot E c cl) (\<lambda>ok s'. ok \<longrightarrow> ap_enabled s')"
proof -
  have pw: "safe authMon s (readRootPassword E c) (\<lambda>r s'. s' = s \<and> (\<forall>pw. r = Inr pw \<longrightarrow> pw \<noteq> ''''))"
    by (rule safe_readRootPassword) (simp add: authMon_def)
  have enable: "safe authMon t (State_Monad.bind (authEnable E cl) (\<lambda>ae. return (ae = None))) (\<lambda>ok s'. ok \<longrightarrow> ap_enabled s')"
    if "ap_granted t" for t
    using that by (intro io_rules) (simp add: authMon_def safe_return)
  have grant: "safe authMon t
      (State_Monad.bind (userGrantRole E cl ''root'' ''root'')
        (\<lambda>ug. case ug of None \<Rightarrow> State_Monad.bind (authEnable E cl) (\<lambda>ae. return (ae = None)) | Some err \<Rightarrow> return False))
      (\<lambda>ok s'. ok \<longrightarrow> ap_enabled s')" if "ap_root t" for t
    using that by (intro io_rules) (auto simp: authMon_def safe_return intro!: enable split: option.split)
  show ?thesis
    unfolding provisionRoot_def
    by (rule safe_bind [OF pw], elim conjE, hypsubst, intro io_rules)
      (use assms in \<open>auto simp: authMon_def intro!: safe_return grant split: option.split\<close>)
qed

lemma dial_authQuiet:
  "emits authQuiet (etcdClientFactory E eps tls u p)"
  "emits authQuiet (buildOperatorTLSConfig E oc)" "emits authQuiet (resolveEtcdCredentials E oc)"
  by (intro emits_rules; simp)+

lemma reconcileAuth_auth:
  "safe authMon noAuthProgress (reconcileAuth E c ms) (\<lambda>_ _. True)"
proof -
  have status: "safe authMon noAuthProgress (State_Monad.bind (authStatus E cl) k) (\<lambda>_ _. True)"
    if "\<And>r. safe authMon (noAuthProgress\<lparr>ap_off := (r = Inr False), ap_enabled := (case r of Inl err \<Rightarrow> isAuthRequiredErr err | Inr b \<Rightarrow> b)\<rparr>) (k r) (\<lambda>_ _. True)"
    for cl and k :: "goerror + bool \<Rightarrow> (EtcdCluster \<times> (goerror + Result option)) proc"
    using that by (intro io_rules) (simp add: authMon_def)
  show ?thesis
    unfolding reconcileAuth_def Let_def
    by (intro safe_return TrueI safe_if safe_case_sum safe_case_option safe_case_prod status
        dial_authQuiet [THEN authM.safe_bind_quiet] latchAuthEnabled_auth safe_bind [OF provisionRoot_auth])
      simp_all
qed

lemma reconcileTarget_auth: "safe authMon noAuthProgress (reconcileTarget E c items) (\<lambda>_ _. True)"
  unfolding reconcileTarget_def reconcileMembership_def reconcileScale_def Let_def
  by (intro safe_bind_timeNow safe_if safe_return TrueI safe_case_option safe_case_prod safe_case_sum
      authM.safe_bind_quiet [OF clusterCondition_emits] authM.safe_bind_quiet [OF promoteAfterConverged_authQuiet]
      authM.quiet_safe_any [OF update_authQuiet(2)] authM.quiet_safe_any [OF handleDeadlineExceeded_authQuiet]
      authM.quiet_safe_any [OF updateStatus_authQuiet] authM.quiet_safe_any [OF bootstrap_authQuiet]
      authM.quiet_safe_any [OF tryDiscoverCluster_authQuiet] authM.quiet_safe_any [OF scaleUp_authQuiet]
      authM.quiet_safe_any [OF scaleDown_authQuiet] safe_bind [OF reconcileAuth_auth])

text \<open>
  C12. Authentication is turned on in order and reported only when etcd requires it. Whatever the API
  server and etcd reply, a pass adds the root user only with a non-empty password and only after etcd
  said that authentication is off, grants it the root role only when the user is known to exist,
  enables authentication only after that grant succeeded, and patches \<^verbatim>\<open>status.authEnabled\<close> (nothing else of the
  status) only when in this pass etcd reported authentication on, refused an anonymous status request
  for want of credentials, or confirmed the enabling.
\<close>

theorem Reconcile_auth_order: "accepted authMon noAuthProgress (trace_of (Reconcile E r req))"
proof (rule safe_accepted)
  have get: "emits authQuiet (getCluster E req)" by (intro emits_rules) simp
  have list: "emits authQuiet (listMembers E ns sel)" for ns sel by (intro emits_rules) simp
  show "safe authMon noAuthProgress (Reconcile E r req) (\<lambda>_ _. True)"
    unfolding Reconcile_def
    by (intro safe_return TrueI safe_if safe_case_sum safe_case_prod authM.safe_bind_quiet [OF get]
        authM.safe_bind_quiet [OF clusterCondition_emits] authM.quiet_safe_any [OF update_authQuiet(1)]
        authM.safe_bindE_quiet [OF emits_mono [OF childF.services child_authQuiet]]
        authM.safe_bindE_quiet [OF emits_mono [OF childF.certificates child_authQuiet]]
        authM.safe_bindE_quiet [OF list] reconcileTarget_auth)
qed

section \<open>Terminal states\<close>

text \<open>The message the deadline path reports for the cluster, rendered in history \<open>h\<close>.\<close>

definition deadlineMessage :: "env \<Rightarrow> event list \<Rightarrow> EtcdCluster \<Rightarrow> ObservedClusterSpec \<Rightarrow> string" where
  "deadlineMessage E h c ob =
     (if ecClusterID c = '''' then ''could not bootstrap '' @ showInt (ob_Replicas ob) @ ''-member cluster within deadline''
      else ''could not reach target '' @ l_showObserved (e_lib E) h ob @ '' within deadline'')"

definition deadlineReason :: "EtcdCluster \<Rightarrow> string" where
  "deadlineReason c = (if ecClusterID c = '''' then ''BootstrapFailed'' else ''DeadlineExceeded'')"

text \<open>The cluster is parked: both conditions of the deadline path are already in its status.\<close>

definition parked :: "env \<Rightarrow> event list \<Rightarrow> EtcdCluster \<Rightarrow> ObservedClusterSpec \<Rightarrow> bool" where
  "parked E h c ob \<longleftrightarrow>
     conditionUpToDate (est_Conditions (ec_Status c))
       (wantCondition ClusterProgressing ConditionFalse (deadlineReason c)
         (if ecClusterID c = '''' then ''bootstrap deadline exceeded; delete the cluster and recreate to recover''
          else ''deadline exceeded; edit spec to retry, or delete the cluster'') (om_Generation (ec_Meta c))) \<and>
     conditionUpToDate (est_Conditions (ec_Status c))
       (wantCondition ClusterAvailable ConditionFalse (deadlineReason c) (deadlineMessage E h c ob) (om_Generation (ec_Meta c)))"

lemma setClusterCondition_upToDate:
  "\<not> fst (setClusterCondition c now ty s reason msg) \<longleftrightarrow>
   conditionUpToDate (est_Conditions (ec_Status c)) (wantCondition ty s reason msg (om_Generation (ec_Meta c)))"
  by (rule clusterCond.unchanged_iff)

lemma conditionUpToDate_other:
  "ty' \<noteq> ty \<Longrightarrow>
   conditionUpToDate (est_Conditions (ec_Status (snd (setClusterCondition c now ty s reason msg)))) (wantCondition ty' s' r' m' g)
     = conditionUpToDate (est_Conditions (ec_Status c)) (wantCondition ty' s' r' m' g)"
  using clusterCond.others_kept [of ty' ty c now s reason msg]
  by (simp add: conditionUpToDate_iff wantCondition_def)

lemma conditionUpToDate_set:
  "conditionUpToDate (est_Conditions (ec_Status (snd (setClusterCondition c now ty s reason msg))))
     (wantCondition ty s' r' m' (om_Generation (ec_Meta c))) \<longleftrightarrow> s' = s \<and> r' = reason \<and> m' = msg"
  using clusterCond.written [of ty c now s reason msg]
  by (auto simp: conditionUpToDate_iff sameCondition_def wantCondition_def)

lemma run_condStep [simp]:
  "run_state (condStep E st ty s reason msg) h =
     ((fst (setClusterCondition (snd st) (e_now E h) ty s reason msg) \<or> fst st,
       snd (setClusterCondition (snd st) (e_now E h) ty s reason msg)), h)"
  by (simp add: condStep_def clusterCondition_def timeNow_def case_prod_beta)

text \<open>The object the deadline path leaves for a terminal cluster: both conditions set.\<close>

definition parkedObject :: "env \<Rightarrow> EtcdCluster \<Rightarrow> ObservedClusterSpec \<Rightarrow> EtcdCluster" where
  "parkedObject E c ob =
     snd (setClusterCondition
       (snd (setClusterCondition c (e_now E []) ClusterProgressing ConditionFalse (deadlineReason c)
         (if ecClusterID c = '''' then ''bootstrap deadline exceeded; delete the cluster and recreate to recover''
          else ''deadline exceeded; edit spec to retry, or delete the cluster'')))
       (e_now E []) ClusterAvailable ConditionFalse (deadlineReason c) (deadlineMessage E [] c ob))"

lemma parkedObject_frame [simp]:
  "ec_Meta (parkedObject E c ob) = ec_Meta c" "ec_Spec (parkedObject E c ob) = ec_Spec c"
  "ecObserved (parkedObject E c ob) = ecObserved c" "ecClusterID (parkedObject E c ob) = ecClusterID c"
  by (simp_all add: parkedObject_def)

lemma parked_parkedObject:
  "parked E' h (parkedObject E c ob) ob \<longleftrightarrow> deadlineMessage E' h c ob = deadlineMessage E [] c ob"
proof -
  have "deadlineReason (parkedObject E c ob) = deadlineReason c"
    "deadlineMessage E' h (parkedObject E c ob) ob = deadlineMessage E' h c ob"
    by (simp_all add: deadlineReason_def deadlineMessage_def)
  then show ?thesis
    unfolding parked_def
    by (simp add: parkedObject_def conditionUpToDate_other conditionUpToDate_set
        conditionUpToDate_set [where c = "snd (setClusterCondition c now ty s reason msg)" for now ty s reason msg, simplified])
qed

lemma handleDeadlineExceeded_run:
  assumes "ecObserved c = Some ob" and "ecClusterID c = '''' \<or> specEqualsObserved c"
  shows "if parked E [] c ob
         then value_of (handleDeadlineExceeded E c now) = noRequeue \<and> trace_of (handleDeadlineExceeded E c now) = []
         else \<exists>r. trace_of (handleDeadlineExceeded E c now) = [ECluster (KWrite (StatusUpdate (parkedObject E c ob)) r)]"
proof -
  let ?pm = "if ecClusterID c = '''' then ''bootstrap deadline exceeded; delete the cluster and recreate to recover''
             else ''deadline exceeded; edit spec to retry, or delete the cluster''"
  let ?c1 = "setClusterCondition c (e_now E []) ClusterProgressing ConditionFalse (deadlineReason c) ?pm"
  let ?c2 = "setClusterCondition (snd ?c1) (e_now E []) ClusterAvailable ConditionFalse (deadlineReason c) (deadlineMessage E [] c ob)"
  have parked: "parked E [] c ob \<longleftrightarrow> \<not> (fst ?c2 \<or> fst ?c1)"
    using setClusterCondition_upToDate [of c "e_now E []"] setClusterCondition_upToDate [of "snd ?c1" "e_now E []"]
    by (auto simp: parked_def conditionUpToDate_other)
  have run: "run_state (handleDeadlineExceeded E c now) [] =
      run_state (updateTolerant E (parkedObject E c ob) (fst ?c2 \<or> fst ?c1) noRequeue) []"
    using assms by (auto simp: handleDeadlineExceeded_def parkedObject_def deadlineReason_def deadlineMessage_def)
  show ?thesis
    unfolding value_of_def trace_of_def run parked
    by (auto simp: updateTolerant_def proc_defs)
qed

lemma specEqualsObserved_parked [simp]: "specEqualsObserved (parkedObject E c ob) = specEqualsObserved c"
  by (simp add: specEqualsObserved_def specReplicas_def Let_def split: option.split)

text \<open>
  Terminal states of an expired deadline. Before the cluster has formed, or while the spec still
  equals the failed target, the deadline path makes at most one call, a status update; on the object
  it wrote, a later pass makes no call and does not requeue, so the state is at rest, with one
  exception: on a formed cluster the message contains the target as \<^verbatim>\<open>%+v\<close> prints it, and when the
  later pass renders the same target differently (nested pointers print as addresses), it writes again.
\<close>

lemma handleDeadlineExceeded_terminal:
  assumes "ecObserved c = Some ob" and "ecClusterID c = '''' \<or> specEqualsObserved c"
  shows "list_all (\<lambda>e. case e of
      ECluster (KWrite (StatusUpdate n) r) \<Rightarrow>
        if ecClusterID c = '''' \<or> l_showObserved (e_lib E') [] ob = l_showObserved (e_lib E) [] ob
        then trace_of (handleDeadlineExceeded E' n now') = [] \<and>
             value_of (handleDeadlineExceeded E' n now') = noRequeue
        else trace_of (handleDeadlineExceeded E' n now') \<noteq> []
    | _ \<Rightarrow> False) (trace_of (handleDeadlineExceeded E c now))"
proof -
  let ?n = "parkedObject E c ob"
  have again: "parked E' [] ?n ob \<longleftrightarrow>
      ecClusterID c = '''' \<or> l_showObserved (e_lib E') [] ob = l_showObserved (e_lib E) [] ob"
    unfolding parked_parkedObject by (simp add: deadlineMessage_def)
  have "if parked E' [] ?n ob
        then value_of (handleDeadlineExceeded E' ?n now') = noRequeue \<and> trace_of (handleDeadlineExceeded E' ?n now') = []
        else \<exists>r. trace_of (handleDeadlineExceeded E' ?n now') = [ECluster (KWrite (StatusUpdate (parkedObject E' ?n ob)) r)]"
    using assms by (intro handleDeadlineExceeded_run) simp_all
  with handleDeadlineExceeded_run [OF assms, of E now] again show ?thesis
    by (auto split: if_splits)
qed

lemma handleDeadlineExceeded_terminal_witness:
  "trace_of (handleDeadlineExceeded sampleEnv
      (sampleCluster\<lparr>ec_Status := (ec_Status sampleCluster)\<lparr>est_ClusterID := '''', est_Observed := Some (observedOf sampleCluster)\<rparr>\<rparr>) 0) \<noteq> [] \<and>
   list_all (\<lambda>e. case e of
      ECluster (KWrite (StatusUpdate n) r) \<Rightarrow> trace_of (handleDeadlineExceeded sampleEnv n 5) = []
    | _ \<Rightarrow> False) (trace_of (handleDeadlineExceeded sampleEnv
      (sampleCluster\<lparr>ec_Status := (ec_Status sampleCluster)\<lparr>est_ClusterID := '''', est_Observed := Some (observedOf sampleCluster)\<rparr>\<rparr>) 0))"
  (is "trace_of (handleDeadlineExceeded _ ?c _) \<noteq> [] \<and> _")
proof
  show "trace_of (handleDeadlineExceeded sampleEnv ?c 0) \<noteq> []"
    by code_simp
  have "list_all (\<lambda>e. case e of
      ECluster (KWrite (StatusUpdate n) r) \<Rightarrow>
        if ecClusterID ?c = '''' \<or> l_showObserved (e_lib sampleEnv) [] (observedOf sampleCluster) = l_showObserved (e_lib sampleEnv) [] (observedOf sampleCluster)
        then trace_of (handleDeadlineExceeded sampleEnv n 5) = [] \<and>
             value_of (handleDeadlineExceeded sampleEnv n 5) = noRequeue
        else trace_of (handleDeadlineExceeded sampleEnv n 5) \<noteq> []
    | _ \<Rightarrow> False) (trace_of (handleDeadlineExceeded sampleEnv ?c 0))"
    by (rule handleDeadlineExceeded_terminal) simp_all
  then show "list_all (\<lambda>e. case e of
      ECluster (KWrite (StatusUpdate n) r) \<Rightarrow> trace_of (handleDeadlineExceeded sampleEnv n 5) = []
    | _ \<Rightarrow> False) (trace_of (handleDeadlineExceeded sampleEnv ?c 0))"
    by (rule list.pred_mono_strong) (auto split: event.splits kev.splits kwrite.splits)
qed

section \<open>Coming back\<close>


end
