(* ===== verification/MemberPod.thy ===== *)
theory MemberPod
  imports EtcdDial
begin

text \<open>
  The Pod of a member (\<^verbatim>\<open>src/controllers/etcdmember_controller.go\<close>, the pure part): resources,
  command line, volumes, TLS and the init containers of a restore; and what the member controller
  reads off a Pod: ownership, terminal phase, and whether its etcd container is stuck.
\<close>

section \<open>Reading a Pod\<close>

definition ownedByMember :: "OwnerReference list \<Rightarrow> EtcdMember \<Rightarrow> bool" where
  "ownedByMember refs member =
     list_ex (\<lambda>o'. or_Kind o' = ''EtcdMember'' \<and> or_UID o' = om_UID (em_Meta member)) refs"

definition pvcOwnedBy :: "PVC \<Rightarrow> EtcdMember \<Rightarrow> bool" where
  "pvcOwnedBy pvc member = ownedByMember (om_OwnerReferences (pvc_Meta pvc)) member"

definition podOwnedBy :: "Pod \<Rightarrow> EtcdMember \<Rightarrow> bool" where
  "podOwnedBy pod member = ownedByMember (om_OwnerReferences (pod_Meta pod)) member"

definition podInTerminalPhase :: "Pod \<Rightarrow> bool" where
  "podInTerminalPhase pod =
     (pods_Phase (pod_Status pod) = PodSucceeded \<or> pods_Phase (pod_Status pod) = PodFailed)"

text \<open>The text of a phase, as \<^verbatim>\<open>%s\<close> prints the string type.\<close>

fun showPhase :: "PodPhase \<Rightarrow> string" where
  "showPhase PodPending = ''Pending''"
| "showPhase PodRunning = ''Running''"
| "showPhase PodSucceeded = ''Succeeded''"
| "showPhase PodFailed = ''Failed''"
| "showPhase PodUnknown = ''Unknown''"
| "showPhase PodNoPhase = ''''"

definition terminalPodMessage :: "Pod \<Rightarrow> string" where
  "terminalPodMessage pod =
     ''pod reached terminal phase '' @ showPhase (pods_Phase (pod_Status pod)) @
     (if pods_Reason (pod_Status pod) \<noteq> '''' then '' ('' @ pods_Reason (pod_Status pod) @ '')'' else '''') @
     ''; deleted for recreation''"

definition dataLossRestartThreshold :: int where
  "dataLossRestartThreshold = 5"

text \<open>The loop decides on the first container status named etcd.\<close>

definition etcdContainerStuck :: "Pod \<Rightarrow> bool" where
  "etcdContainerStuck pod =
     (if om_DeletionTimestamp (pod_Meta pod) \<noteq> None then False
      else case List.find (\<lambda>cs. cst_Name cs = ''etcd'') (pods_ContainerStatuses (pod_Status pod)) of
             None \<Rightarrow> False
           | Some cs \<Rightarrow>
               if cst_Ready cs \<or> cst_RestartCount cs < dataLossRestartThreshold then False
               else if cst_TerminatedReason cs = Some ''OOMKilled'' then False
               else if cst_LastTerminatedReason cs = Some ''OOMKilled'' then False
               else True)"

definition podReady :: "Pod \<Rightarrow> bool" where
  "podReady pod = list_ex (\<lambda>(ty, s). ty = ''Ready'' \<and> s = ConditionTrue) (pods_Conditions (pod_Status pod))"

section \<open>Building the Pod\<close>

text \<open>\<^verbatim>\<open>resource.MustParse\<close> on the constants the code uses, in the unit of a quantity.\<close>

abbreviation milliCPU :: "int \<Rightarrow> quantity" where
  "milliCPU n \<equiv> n * 10 ^ 6"

abbreviation mebibytes :: "int \<Rightarrow> quantity" where
  "mebibytes n \<equiv> n * 2 ^ 20 * 10 ^ 9"

definition requests :: "quantity \<Rightarrow> quantity \<Rightarrow> ResourceRequirements" where
  "requests cpu mem = emptyResources\<lparr>rr_Requests := fmupd ''memory'' mem (fmupd ''cpu'' cpu fmempty)\<rparr>"

definition containerResources :: "EtcdMember \<Rightarrow> ResourceRequirements" where
  "containerResources member =
     (if ms_Resources (em_Spec member) \<noteq> emptyResources then ms_Resources (em_Spec member)
      else requests (milliCPU 100) (mebibytes 128))"

definition restoreAgentResources :: ResourceRequirements where
  "restoreAgentResources = requests (milliCPU 50) (mebibytes 64)"

definition optionFlags :: "EtcdOptions option \<Rightarrow> string list" where
  "optionFlags opts =
     (case opts of
        None \<Rightarrow> []
      | Some o' \<Rightarrow>
          (case eo_QuotaBackendBytes o' of None \<Rightarrow> [] | Some n \<Rightarrow> [''--quota-backend-bytes='' @ showInt n]) @
          (if eo_AutoCompactionMode o' \<noteq> '''' then [''--auto-compaction-mode='' @ eo_AutoCompactionMode o'] else []) @
          (if eo_AutoCompactionRetention o' \<noteq> ''''
           then [''--auto-compaction-retention='' @ eo_AutoCompactionRetention o'] else []) @
          (case eo_SnapshotCount o' of None \<Rightarrow> [] | Some n \<Rightarrow> [''--snapshot-count='' @ showInt n]))"

definition emptyContainer :: Container where
  "emptyContainer = \<lparr>ctr_Name = '''', ctr_Image = '''', ctr_Command = [], ctr_Args = [], ctr_Env = [], ctr_Ports = [],
     ctr_VolumeMounts = [], ctr_Resources = emptyResources, ctr_AllowPrivilegeEscalation = Some False,
     ctr_DropCapabilities = [''ALL''], ctr_Liveness = None, ctr_Readiness = None\<rparr>"

definition emptyVolume :: "string \<Rightarrow> Volume" where
  "emptyVolume n = \<lparr>vo_Name = n, vo_EmptyDir = None, vo_PVC = None, vo_Secret = None\<rparr>"

definition mountAt :: "string \<Rightarrow> string \<Rightarrow> bool \<Rightarrow> VolumeMount" where
  "mountAt n path ro = \<lparr>vm_Name = n, vm_MountPath = path, vm_ReadOnly = ro\<rparr>"

definition envVar :: "string \<Rightarrow> string \<Rightarrow> EnvVar" where
  "envVar n v = \<lparr>ev_Name = n, ev_Value = EnvLiteral v\<rparr>"

definition secretEnv :: "string \<Rightarrow> string \<Rightarrow> string \<Rightarrow> EnvVar" where
  "secretEnv n secret key = \<lparr>ev_Name = n, ev_Value = EnvSecretKey secret key\<rparr>"

text \<open>The environment of an S3 location, the same for the backup and the restore agent.\<close>

definition s3Env :: "S3SnapshotLocation \<Rightarrow> EnvVar list" where
  "s3Env s3 =
     [envVar ''SNAPSHOT_DEST_KIND'' ''s3'', envVar ''S3_ENDPOINT'' (s3_Endpoint s3),
      envVar ''S3_BUCKET'' (s3_Bucket s3), envVar ''S3_KEY'' (s3_Key s3), envVar ''S3_REGION'' (s3_Region s3),
      envVar ''S3_FORCE_PATH_STYLE'' (showBool (s3_ForcePathStyle s3)),
      secretEnv ''AWS_ACCESS_KEY_ID'' (s3_CredentialsSecretRef s3) ''AWS_ACCESS_KEY_ID'',
      secretEnv ''AWS_SECRET_ACCESS_KEY'' (s3_CredentialsSecretRef s3) ''AWS_SECRET_ACCESS_KEY'']"

abbreviation (input) restoreSrcMountPath :: string where "restoreSrcMountPath \<equiv> ''/restore/src''"
abbreviation (input) restoreToolsVolumeName :: string where "restoreToolsVolumeName \<equiv> ''restore-tools''"
abbreviation (input) restoreToolsMountPath :: string where "restoreToolsMountPath \<equiv> ''/tools''"

definition restoreInitContainers ::
  "EtcdMember \<Rightarrow> RestoreSpec \<Rightarrow> string \<Rightarrow> string \<Rightarrow> string \<Rightarrow> Container list \<times> Volume list" where
  "restoreInitContainers member restore peerAddr operatorImage etcdImage =
     (let src = rs_Source restore;
          env = [envVar ''ETCD_DATA_DIR'' ''/var/lib/etcd'', envVar ''ETCD_MEMBER_NAME'' (emName member),
                 envVar ''ETCD_INITIAL_CLUSTER'' (ms_InitialCluster (em_Spec member)),
                 envVar ''ETCD_INITIAL_CLUSTER_TOKEN'' (ms_ClusterToken (em_Spec member)),
                 envVar ''ETCD_PEER_URLS'' peerAddr];
          mounts = [mountAt ''data'' ''/var/lib/etcd'' False,
                    mountAt restoreToolsVolumeName restoreToolsMountPath True];
          vols = [(emptyVolume restoreToolsVolumeName)\<lparr>vo_EmptyDir := Some (False, None)\<rparr>];
          (env', mounts', vols') =
            (case sl_S3 src of
               Some s3 \<Rightarrow> (env @ s3Env s3, mounts, vols)
             | None \<Rightarrow>
                 (case sl_PVC src of
                    Some pvc \<Rightarrow>
                      (env @ [envVar ''SNAPSHOT_DEST_KIND'' ''pvc'', envVar ''PVC_MOUNT_PATH'' restoreSrcMountPath,
                              envVar ''PVC_SUBPATH'' (pl_SubPath pvc)],
                       mounts @ [mountAt ''restore-src'' restoreSrcMountPath True],
                       vols @ [(emptyVolume ''restore-src'')\<lparr>vo_PVC := Some (pl_ClaimName pvc, True)\<rparr>])
                  | None \<Rightarrow> (env, mounts, vols)));
          installTools = emptyContainer\<lparr>ctr_Name := ''install-tools'', ctr_Image := operatorImage,
            ctr_Command := [''/manager'', ''install-tools''],
            ctr_Env := [envVar ''TOOLS_DEST_DIR'' restoreToolsMountPath],
            ctr_VolumeMounts := [mountAt restoreToolsVolumeName restoreToolsMountPath False],
            ctr_Resources := restoreAgentResources\<rparr>;
          restoreC = emptyContainer\<lparr>ctr_Name := ''restore'', ctr_Image := etcdImage,
            ctr_Command := [restoreToolsMountPath @ ''/manager'', ''restore-agent''],
            ctr_Env := env', ctr_VolumeMounts := mounts', ctr_Resources := restoreAgentResources\<rparr>
      in ([installTools, restoreC], vols'))"

record EtcdMemberReconciler =
  mr_OperatorImage :: string
  mr_EtcdImageRepository :: string

definition initialClusterState :: "EtcdMember \<Rightarrow> bool \<Rightarrow> string" where
  "initialClusterState member clusterFormed =
     (if ms_Bootstrap (em_Spec member) \<and> mst_MemberID (em_Status member) = '''' \<and> \<not> clusterFormed
      then ''new'' else ''existing'')"

text \<open>Flags, volumes and mounts of the client plane. The nil pointers Go would dereference here are
  excluded by the schemes: \<^verbatim>\<open>https\<close> means that the reference is set (lemma \<open>clientTLS_ref\<close>).\<close>

definition clientTLSParts :: "EtcdMember \<Rightarrow> string list \<times> Volume list \<times> VolumeMount list" where
  "clientTLSParts member =
     (case ms_TLS (em_Spec member) of
        None \<Rightarrow> ([], [], [])
      | Some t \<Rightarrow>
          (case mt_ClientServerSecretRef t of
             None \<Rightarrow> ([], [], [])
           | Some secret \<Rightarrow>
               ([''--cert-file=/etc/etcd/tls/client/tls.crt'', ''--key-file=/etc/etcd/tls/client/tls.key''] @
                (if mt_ClientMTLS t
                 then [''--client-cert-auth=true'', ''--trusted-ca-file=/etc/etcd/tls/client/ca.crt''] else []),
                [(emptyVolume ''tls-client'')\<lparr>vo_Secret := Some secret\<rparr>],
                [mountAt ''tls-client'' ''/etc/etcd/tls/client'' True])))"

definition peerTLSParts :: "EtcdMember \<Rightarrow> string list \<times> Volume list \<times> VolumeMount list" where
  "peerTLSParts member =
     (case ms_TLS (em_Spec member) of
        None \<Rightarrow> ([], [], [])
      | Some t \<Rightarrow>
          if mt_PeerAutoTLS t then ([''--peer-auto-tls''], [], [])
          else case mt_PeerSecretRef t of
                 None \<Rightarrow> ([], [], [])
               | Some secret \<Rightarrow>
                   ([''--peer-cert-file=/etc/etcd/tls/peer/tls.crt'', ''--peer-key-file=/etc/etcd/tls/peer/tls.key'',
                     ''--peer-trusted-ca-file=/etc/etcd/tls/peer/ca.crt'', ''--peer-client-cert-auth=true''],
                    [(emptyVolume ''tls-peer'')\<lparr>vo_Secret := Some secret\<rparr>],
                    [mountAt ''tls-peer'' ''/etc/etcd/tls/peer'' True]))"

definition dataVolume :: "EtcdMember \<Rightarrow> Volume" where
  "dataVolume member =
     (if st_Medium (ms_Storage (em_Spec member)) = StorageMediumMemory
      then (emptyVolume ''data'')\<lparr>vo_EmptyDir := Some (True, Some (st_Size (ms_Storage (em_Spec member))))\<rparr>
      else (emptyVolume ''data'')\<lparr>vo_PVC := Some (''data-'' @ emName member, False)\<rparr>)"

definition etcdCommand :: "EtcdMember \<Rightarrow> bool \<Rightarrow> string list" where
  "etcdCommand member clusterFormed =
     (let clientScheme = memberClientScheme (Some member);
          peerScheme = memberPeerScheme (Some member);
          svc = memberServiceName member
      in [''etcd'', ''--name='' @ emName member, ''--data-dir='' @ memberDataDir member,
          ''--listen-peer-urls='' @ peerScheme @ ''://0.0.0.0:2380'',
          ''--listen-client-urls='' @ clientScheme @ ''://0.0.0.0:2379'',
          ''--advertise-client-urls='' @ clientURL clientScheme (emName member) svc (emNamespace member),
          ''--initial-advertise-peer-urls='' @ peerURL peerScheme (emName member) svc (emNamespace member),
          ''--initial-cluster='' @ ms_InitialCluster (em_Spec member),
          ''--initial-cluster-token='' @ ms_ClusterToken (em_Spec member),
          ''--initial-cluster-state='' @ initialClusterState member clusterFormed,
          ''--listen-metrics-urls=http://0.0.0.0:2381''] @
         optionFlags (ms_Options (em_Spec member)) @ fst (clientTLSParts member) @ fst (peerTLSParts member))"

definition podSecurity :: PodSecurity where
  "podSecurity = \<lparr>sec_RunAsNonRoot = True, sec_RunAsUser = 65532, sec_RunAsGroup = 65532, sec_FSGroup = 65532,
     sec_SeccompRuntimeDefault = True\<rparr>"

text \<open>The restore's init containers and volumes, none without a restore spec.\<close>

definition restoreParts :: "EtcdMemberReconciler \<Rightarrow> EtcdMember \<Rightarrow> Container list \<times> Volume list" where
  "restoreParts r member =
     (case ms_Restore (em_Spec member) of
        None \<Rightarrow> ([], [])
      | Some rs \<Rightarrow> restoreInitContainers member rs
          (peerURL (memberPeerScheme (Some member)) (emName member) (memberServiceName member) (emNamespace member))
          (mr_OperatorImage r) (resolveEtcdImage member (mr_EtcdImageRepository r)))"

definition buildPod :: "EtcdMemberReconciler \<Rightarrow> EtcdMember \<Rightarrow> bool \<Rightarrow> Pod" where
  "buildPod r member clusterFormed =
     (let roleLabels = (if mst_IsVoter (em_Status member)
                        then fmupd LabelRole RoleVoter (memberLabels (ms_ClusterName (em_Spec member)) (emName member))
                        else memberLabels (ms_ClusterName (em_Spec member)) (emName member));
          (labels, annotations) = applyAdditionalMetadata roleLabels fmempty (ms_AdditionalMetadata (em_Spec member));
          etcdImage = resolveEtcdImage member (mr_EtcdImageRepository r);
          volumes = [dataVolume member] @ fst (snd (clientTLSParts member)) @ fst (snd (peerTLSParts member)) @
                    snd (restoreParts r member);
          mounts = [mountAt ''data'' ''/var/lib/etcd'' False] @ snd (snd (clientTLSParts member)) @
                   snd (snd (peerTLSParts member))
      in \<lparr>pod_Meta = emptyMeta\<lparr>om_Name := emName member, om_Namespace := emNamespace member,
                               om_Labels := labels, om_Annotations := annotations\<rparr>,
          pod_Spec = \<lparr>pos_Hostname = emName member, pos_Subdomain = memberServiceName member,
            pos_Affinity = ms_Affinity (em_Spec member),
            pos_TopologySpreadConstraints = ms_TopologySpreadConstraints (em_Spec member),
            pos_ImagePullSecrets = ms_ImagePullSecrets (em_Spec member),
            pos_RestartPolicyNever = False, pos_AutomountServiceAccountToken = Some False,
            pos_Security = Some podSecurity, pos_InitContainers = fst (restoreParts r member),
            pos_Containers = [emptyContainer\<lparr>ctr_Name := ''etcd'', ctr_Image := etcdImage,
              ctr_Command := etcdCommand member clusterFormed,
              ctr_Ports := [(''client'', 2379), (''peer'', 2380), (''metrics'', 2381)],
              ctr_VolumeMounts := mounts, ctr_Resources := containerResources member,
              ctr_Liveness := Some (TCPProbe 2380 15 10 3),
              ctr_Readiness := Some (HTTPProbe ''/health'' 2381 5 5 3)\<rparr>],
            pos_Volumes = volumes\<rparr>,
          pod_Status = emptyPodStatus\<rparr>)"

text \<open>The client scheme is \<^verbatim>\<open>https\<close> exactly when there is a Secret to mount, the peer scheme when there
  is one or etcd makes its own certificates.\<close>

lemma clientTLS_ref:
  "memberClientScheme (Some m) = ''https'' \<longleftrightarrow> fst (clientTLSParts m) \<noteq> []"
  by (auto simp: memberClientScheme_def clientTLSParts_def split: option.split)

lemma peerTLS_ref:
  "memberPeerScheme (Some m) = ''https'' \<longleftrightarrow> fst (peerTLSParts m) \<noteq> []"
  by (auto simp: memberPeerScheme_def peerTLSParts_def split: option.split)

end
