(* ===== verification/MemberController.thy ===== *)
theory MemberController
  imports MemberPod
begin

text \<open>
  The member controller (\<^verbatim>\<open>src/controllers/etcdmember_controller.go\<close>): deletion and the removal of the
  member from etcd, the PVC, the Pod, pausing, self-healing and the status. Every function that
  talks to the API server or to etcd is a computation of the interaction monad; a function that
  changes the member object in memory returns the changed object.
\<close>

abbreviation memberKey :: "EtcdMember \<Rightarrow> nsname" where
  "memberKey m \<equiv> \<lparr>nn_namespace = emNamespace m, nn_name = emName m\<rparr>"

abbreviation ownerKey :: "EtcdMember \<Rightarrow> nsname" where
  "ownerKey m \<equiv> \<lparr>nn_namespace = emNamespace m, nn_name = ms_ClusterName (em_Spec m)\<rparr>"

abbreviation clusterSelector :: "EtcdMember \<Rightarrow> smap" where
  "clusterSelector m \<equiv> fmupd LabelCluster (ms_ClusterName (em_Spec m)) fmempty"

section \<open>Deletion\<close>

text \<open>The entry of etcd's member list for this member: by name, or by peer URL while etcd does not
  know the name yet.\<close>

definition isThisMember :: "EtcdMember \<Rightarrow> EtcdPbMember \<Rightarrow> bool" where
  "isThisMember member m =
     (pb_Name m = emName member \<or>
      peerURL (memberPeerScheme (Some member)) (emName member) (memberServiceName member) (emNamespace member)
        \<in> set (pb_PeerURLs m))"

definition resolveMemberID :: "env \<Rightarrow> EtcdMember \<Rightarrow> EtcdClient \<Rightarrow> (goerror + u64) proc" where
  "resolveMemberID E member c =
     (if mst_MemberID (em_Status member) \<noteq> '''' then
        return (case parseUint16_64 (mst_MemberID (em_Status member)) of
          Inl err \<Rightarrow> Inl (wrapf (''parse memberID '' @ goQuote (mst_MemberID (em_Status member))) err)
        | Inr i \<Rightarrow> Inr i)
      else
        bindE (memberList E c) (\<lambda>resp.
          return (Inr (case List.find (isThisMember member) (ml_Members resp) of None \<Rightarrow> 0 | Some m \<Rightarrow> pb_ID m))))"

definition removeMemberFromEtcd :: "env \<Rightarrow> EtcdCluster \<Rightarrow> EtcdMember \<Rightarrow> (goerror + unit) proc" where
  "removeMemberFromEtcd E cluster member =
     bindE (listMembers E (emNamespace member) (clusterSelector member)) (\<lambda>items.
       (let scheme = clusterClientScheme (Some cluster);
            others = filter (\<lambda>m. emName m \<noteq> emName member) (filterActiveMembers items);
            endpoints = map (\<lambda>m. clientURL scheme (emName m) (memberServiceName m) (emNamespace member))
                          (filter (\<lambda>m. mst_PodName (em_Status m) \<noteq> '''') others)
        in if endpoints = [] then
             (if others \<noteq> [] then
                return (Inl (errorf (''no reachable peers ('' @ showNat (length others) @
                  '' other member(s) have empty PodName); will retry'')))
              else return (Inr ()))
           else do {
             t \<leftarrow> buildOperatorTLSConfig E (Some cluster);
             (case t of
                Inl err \<Rightarrow> return (Inl (wrapf ''build operator TLS config'' err))
              | Inr tlsCfg \<Rightarrow> do {
                  cr \<leftarrow> resolveEtcdCredentials E (Some cluster);
                  (case cr of
                     Inl err \<Rightarrow> return (Inl (wrapf ''resolve etcd credentials'' err))
                   | Inr (user, pass, _) \<Rightarrow>
                       bindE (etcdClientFactory E endpoints tlsCfg user pass) (\<lambda>etcdClient.
                       bindE (resolveMemberID E member etcdClient) (\<lambda>i.
                         if i = 0 then return (Inr ())
                         else do {
                           e \<leftarrow> memberRemove E etcdClient i;
                           return (case e of None \<Rightarrow> Inr () | Some err \<Rightarrow> Inl err)
                         })))
                })
           }))"

definition dropFinalizer :: "env \<Rightarrow> EtcdMember \<Rightarrow> outcome proc" where
  "dropFinalizer E member = do {
     u \<leftarrow> writeMember E (Update (member\<lparr>em_Meta := l_removeFinalizer (e_lib E) (em_Meta member) MemberFinalizer\<rparr>));
     return (case u of Inl err \<Rightarrow> Inl err | Inr _ \<Rightarrow> noRequeue)
   }"

definition handleDeletion :: "env \<Rightarrow> EtcdMember \<Rightarrow> outcome proc" where
  "handleDeletion E member =
     (if \<not> l_containsFinalizer (e_lib E) (em_Meta member) MemberFinalizer then return noRequeue
      else do {
        g \<leftarrow> getCluster E (ownerKey member);
        (case g of
           Inl err \<Rightarrow> if IsNotFound err then dropFinalizer E member
                      else return (Inl (wrapf ''get owner EtcdCluster'' err))
         | Inr cluster \<Rightarrow>
             if \<not> isZero (om_DeletionTimestamp (ec_Meta cluster)) then dropFinalizer E member
             else do {
               r \<leftarrow> removeMemberFromEtcd E cluster member;
               (case r of
                  Inl err \<Rightarrow> return (requeueAfter (seconds 5))
                | Inr _ \<Rightarrow> dropFinalizer E member)
             })
      })"

section \<open>The volume claim\<close>

definition withPVCName :: "string \<Rightarrow> EtcdMember \<Rightarrow> EtcdMember" where
  "withPVCName n m = m\<lparr>em_Status := (em_Status m)\<lparr>mst_PVCName := n\<rparr>\<rparr>"

definition buildPVC :: "EtcdMember \<Rightarrow> PVC" where
  "buildPVC member =
     (let (labels, annotations) =
            applyAdditionalMetadata (memberLabels (ms_ClusterName (em_Spec member)) (emName member)) fmempty
              (ms_AdditionalMetadata (em_Spec member))
      in \<lparr>pvc_Meta = emptyMeta\<lparr>om_Name := ''data-'' @ emName member, om_Namespace := emNamespace member,
                               om_Labels := labels, om_Annotations := annotations\<rparr>,
          pvc_AccessModes = [''ReadWriteOnce''],
          pvc_StorageClassName = st_StorageClassName (ms_Storage (em_Spec member)),
          pvc_RequestsStorage = st_Size (ms_Storage (em_Spec member))\<rparr>)"

definition ensurePVC :: "env \<Rightarrow> EtcdMember \<Rightarrow> (goerror + EtcdMember) proc" where
  "ensurePVC E member =
     (if st_Medium (ms_Storage (em_Spec member)) = StorageMediumMemory then return (Inr (withPVCName '''' member))
      else
        (let pvcName = ''data-'' @ emName member in do {
           g \<leftarrow> getPVC E \<lparr>nn_namespace = emNamespace member, nn_name = pvcName\<rparr>;
           (case g of
              Inr pvc \<Rightarrow>
                if \<not> pvcOwnedBy pvc member then
                  return (Inl (errorf (''PVC '' @ goQuote pvcName @
                    '' is owned by a different EtcdMember; awaiting GC before reuse'')))
                else return (Inr (withPVCName pvcName member))
            | Inl err \<Rightarrow>
                if \<not> IsNotFound err then return (Inl err)
                else
                  (let pvc = buildPVC member in
                   case setControllerReference E ''EtcdMember'' (em_Meta member) (pvc_Meta pvc) of
                     Inl err \<Rightarrow> return (Inl err)
                   | Inr meta \<Rightarrow>
                       bindE (writePVC E (Create (pvc\<lparr>pvc_Meta := meta\<rparr>)))
                         (\<lambda>_. return (Inr (withPVCName pvcName member)))))
         }))"

section \<open>The Pod\<close>

definition withPod :: "string \<Rightarrow> string \<Rightarrow> EtcdMember \<Rightarrow> EtcdMember" where
  "withPod n u m = m\<lparr>em_Status := (em_Status m)\<lparr>mst_PodName := n, mst_PodUID := u\<rparr>\<rparr>"

definition clusterFor :: "env \<Rightarrow> EtcdMember \<Rightarrow> (goerror + EtcdCluster) proc" where
  "clusterFor E member = do {
     g \<leftarrow> getCluster E (ownerKey member);
     return (case g of
       Inl err \<Rightarrow> Inl (wrapf (''fetch parent cluster '' @ emNamespace member @ ''/'' @ ms_ClusterName (em_Spec member)) err)
     | Inr cluster \<Rightarrow> Inr cluster)
   }"

definition checkSecret :: "env \<Rightarrow> EtcdMember \<Rightarrow> string option \<Rightarrow> (goerror + unit) proc" where
  "checkSecret E member ref =
     (case ref of
        None \<Rightarrow> return (Inr ())
      | Some name \<Rightarrow> do {
          s \<leftarrow> getSecret E \<lparr>nn_namespace = emNamespace member, nn_name = name\<rparr>;
          return (case s of
            Inl err \<Rightarrow> Inl (wrapf (''TLS secret '' @ emNamespace member @ ''/'' @ name) err)
          | Inr _ \<Rightarrow> Inr ())
        })"

definition checkTLSSecretsAvailable :: "env \<Rightarrow> EtcdMember \<Rightarrow> (goerror + unit) proc" where
  "checkTLSSecretsAvailable E member =
     (case ms_TLS (em_Spec member) of
        None \<Rightarrow> return (Inr ())
      | Some t \<Rightarrow>
          bindE (checkSecret E member (mt_ClientServerSecretRef t)) (\<lambda>_.
          checkSecret E member (mt_PeerSecretRef t)))"

definition setRole :: "bool \<Rightarrow> Pod \<Rightarrow> Pod" where
  "setRole voter pod =
     pod\<lparr>pod_Meta := (pod_Meta pod)\<lparr>om_Labels :=
       (if voter then fmupd LabelRole RoleVoter (om_Labels (pod_Meta pod))
        else fmdrop LabelRole (om_Labels (pod_Meta pod)))\<rparr>\<rparr>"

definition reconcileRoleLabel :: "env \<Rightarrow> Pod \<Rightarrow> EtcdMember \<Rightarrow> (goerror + unit) proc" where
  "reconcileRoleLabel E pod member =
     (let hasLabel = (mapGet (om_Labels (pod_Meta pod)) LabelRole = RoleVoter);
          want = mst_IsVoter (em_Status member)
      in if hasLabel = want then return (Inr ())
         else do {
           p \<leftarrow> writePod E (Patch pod (setRole want pod));
           return (case p of Inl err \<Rightarrow> Inl err | Inr _ \<Rightarrow> Inr ())
         })"

definition createPod :: "env \<Rightarrow> EtcdMemberReconciler \<Rightarrow> EtcdMember \<Rightarrow> (goerror + EtcdMember) proc" where
  "createPod E r member =
     bindE (checkTLSSecretsAvailable E member) (\<lambda>_.
       if ms_Restore (em_Spec member) \<noteq> None \<and> mr_OperatorImage r = '''' then
         return (Inl (errorf (''member '' @ goQuote (emName member) @
           '' requests a restore but the operator image is not configured '' @
           ''(set --operator-image / OPERATOR_IMAGE); refusing to create a seed Pod with an empty restore image'')))
       else do {
         c \<leftarrow> clusterFor E member;
         (let clusterFormed = (case c of Inl _ \<Rightarrow> False | Inr cluster \<Rightarrow> ecClusterID cluster \<noteq> '''');
              pod = buildPod r member clusterFormed
          in case setControllerReference E ''EtcdMember'' (em_Meta member) (pod_Meta pod) of
               Inl err \<Rightarrow> return (Inl err)
             | Inr meta \<Rightarrow>
                 bindE (writePod E (Create (pod\<lparr>pod_Meta := meta\<rparr>))) (\<lambda>created.
                   return (Inr (withPod (om_Name (pod_Meta created)) (om_UID (pod_Meta created)) member))))
       })"

definition ensurePod :: "env \<Rightarrow> EtcdMemberReconciler \<Rightarrow> EtcdMember \<Rightarrow> (goerror + EtcdMember) proc" where
  "ensurePod E r member = do {
     g \<leftarrow> getPod E (memberKey member);
     (case g of
        Inr pod \<Rightarrow>
          if \<not> podOwnedBy pod member then
            return (Inl (errorf (''Pod '' @ goQuote (emName member) @
              '' is owned by a different EtcdMember; awaiting GC before reuse'')))
          else
            (let m1 = withPod (om_Name (pod_Meta pod)) (om_UID (pod_Meta pod)) member in
             bindE (reconcileRoleLabel E pod m1) (\<lambda>_. return (Inr m1)))
      | Inl err \<Rightarrow> if \<not> IsNotFound err then return (Inl err) else createPod E r member)
   }"

definition ensurePodAbsent :: "env \<Rightarrow> EtcdMember \<Rightarrow> (goerror + EtcdMember) proc" where
  "ensurePodAbsent E member = do {
     g \<leftarrow> getPod E (memberKey member);
     (case g of
        Inl err \<Rightarrow> return (if IsNotFound err then Inr (withPod '''' '''' member) else Inl err)
      | Inr pod \<Rightarrow>
          if isZero (om_DeletionTimestamp (pod_Meta pod)) then do {
            d \<leftarrow> writePod E (Delete pod);
            return (case d of
              Inl err \<Rightarrow> if \<not> IsNotFound err then Inl err else Inr (withPod '''' '''' member)
            | Inr _ \<Rightarrow> Inr (withPod '''' '''' member))
          }
          else return (Inr (withPod '''' '''' member)))
   }"

definition memoryMemberPodLost :: "env \<Rightarrow> EtcdMember \<Rightarrow> (goerror + bool) proc" where
  "memoryMemberPodLost E member = do {
     g \<leftarrow> getPod E (memberKey member);
     return (case g of
       Inl err \<Rightarrow> if IsNotFound err then Inr True else Inl err
     | Inr pod \<Rightarrow> Inr (om_UID (pod_Meta pod) \<noteq> mst_PodUID (em_Status member)))
   }"

definition terminalPod :: "env \<Rightarrow> EtcdMember \<Rightarrow> (goerror + Pod option) proc" where
  "terminalPod E member = do {
     g \<leftarrow> getPod E (memberKey member);
     return (case g of
       Inl err \<Rightarrow> if IsNotFound err then Inr None else Inl err
     | Inr pod \<Rightarrow>
         if \<not> podOwnedBy pod member \<or> om_DeletionTimestamp (pod_Meta pod) \<noteq> None \<or> \<not> podInTerminalPhase pod
         then Inr None else Inr (Some pod))
   }"

section \<open>Asking etcd\<close>

definition etcdDialConfig ::
  "env \<Rightarrow> EtcdMember \<Rightarrow> (goerror + TLSConfigData option \<times> string \<times> string) proc" where
  "etcdDialConfig E member =
     (if (case ms_TLS (em_Spec member) of None \<Rightarrow> True | Some t \<Rightarrow> mt_ClientServerSecretRef t = None)
      then return (Inr (None, '''', ''''))
      else
        bindE (clusterFor E member) (\<lambda>cluster.
        bindE (buildOperatorTLSConfig E (Some cluster)) (\<lambda>tlsCfg.
        bindE (resolveEtcdCredentials E (Some cluster)) (\<lambda>(user, pass, _).
          return (Inr (tlsCfg, user, pass))))))"

definition discoverEndpoints :: "EtcdMember \<Rightarrow> EtcdMember list \<Rightarrow> string list" where
  "discoverEndpoints member items =
     (let scheme = memberClientScheme (Some member);
          peers = map (\<lambda>m. clientURL scheme (emName m) (memberServiceName m) (emNamespace member))
                    (filter (\<lambda>m. emName m \<noteq> emName member \<and> mst_PodName (em_Status m) \<noteq> '''' \<and> mst_IsVoter (em_Status m))
                      (filterActiveMembers items))
      in if peers = [] then [clientURL scheme (emName member) (memberServiceName member) (emNamespace member)]
         else peers)"

definition discoverMemberID :: "env \<Rightarrow> EtcdMember \<Rightarrow> (goerror + u64) proc" where
  "discoverMemberID E member =
     bindE (listMembers E (emNamespace member) (clusterSelector member)) (\<lambda>items.
     bindE (etcdDialConfig E member) (\<lambda>(tlsCfg, user, pass).
     bindE (etcdClientFactory E (discoverEndpoints member items) tlsCfg user pass) (\<lambda>c.
     bindE (memberList E c) (\<lambda>resp.
       return (case List.find (isThisMember member) (ml_Members resp) of
         Some m \<Rightarrow> Inr (pb_ID m)
       | None \<Rightarrow> Inl (errorf (''member '' @ goQuote (emName member) @ '' not found in etcd member list'')))))))"

text \<open>Best effort: every failure gives the version recorded before.\<close>

definition observeVersion :: "env \<Rightarrow> EtcdMember \<Rightarrow> string proc" where
  "observeVersion E member =
     (let prev = mst_Version (em_Status member);
          self = clientURL (memberClientScheme (Some member)) (emName member) (memberServiceName member) (emNamespace member)
      in do {
        dc \<leftarrow> etcdDialConfig E member;
        (case dc of
           Inl err \<Rightarrow> return prev
         | Inr (tlsCfg, user, pass) \<Rightarrow> do {
             d \<leftarrow> etcdClientFactory E [self] tlsCfg user pass;
             (case d of
                Inl err \<Rightarrow> return prev
              | Inr c \<Rightarrow> do {
                  s \<leftarrow> etcdStatus E c self;
                  return (case s of Inl err \<Rightarrow> prev | Inr resp \<Rightarrow> sr_Version resp)
                })
           })
      })"

text \<open>\<^verbatim>\<open>desired/2+1\<close> and the counts are Go's int, 64 bits wide; the fields they come from are int32.\<close>

definition quorumWithout :: "EtcdCluster \<Rightarrow> EtcdMember \<Rightarrow> bool" where
  "quorumWithout cluster member =
     (let observed = (case ecObserved cluster of None \<Rightarrow> 0 | Some ob \<Rightarrow> ob_Replicas ob);
          desired = (if observed = 0
                     then (case cs_Replicas (ec_Spec cluster) of None \<Rightarrow> 0 | Some n \<Rightarrow> n) else observed);
          readyOthers = est_ReadyMembers (ec_Status cluster) - (if memberIsReady member then 1 else 0)
      in if desired = 0 then False else readyOthers \<ge> desired sdiv 2 + 1)"

definition clusterHasQuorumWithout :: "env \<Rightarrow> EtcdMember \<Rightarrow> bool proc" where
  "clusterHasQuorumWithout E member = do {
     c \<leftarrow> clusterFor E member;
     return (case c of Inl err \<Rightarrow> False | Inr cluster \<Rightarrow> quorumWithout cluster member)
   }"

section \<open>Status\<close>

definition memberCondition ::
  "env \<Rightarrow> bool \<times> EtcdMember \<Rightarrow> string \<Rightarrow> ConditionStatus \<Rightarrow> string \<Rightarrow> string \<Rightarrow> (bool \<times> EtcdMember) proc" where
  "memberCondition E st ty s reason msg = do {
     now \<leftarrow> timeNow E;
     (let (ch, m) = setMemberCondition (snd st) now ty s reason msg in return (ch \<or> fst st, m))
   }"

text \<open>The fields read off the Pod, with the flag that one of them differed.\<close>

definition podFields :: "Pod \<Rightarrow> EtcdMember \<Rightarrow> bool \<times> EtcdMember" where
  "podFields pod member =
     (let st = em_Status member;
          wantPVC = (if st_Medium (ms_Storage (em_Spec member)) \<noteq> StorageMediumMemory then ''data-'' @ emName member
                     else mst_PVCName st);
          wantSelector = LabelCluster @ ''='' @ ms_ClusterName (em_Spec member) @
                         '',app.kubernetes.io/component='' @ emName member;
          st' = st\<lparr>mst_PodName := om_Name (pod_Meta pod), mst_PodUID := om_UID (pod_Meta pod),
                   mst_PVCName := wantPVC, mst_Replicas := 1, mst_Selector := wantSelector\<rparr>
      in (st' \<noteq> st, member\<lparr>em_Status := st'\<rparr>))"

definition versionStep :: "env \<Rightarrow> bool \<times> EtcdMember \<Rightarrow> (bool \<times> EtcdMember) proc" where
  "versionStep E st = do {
     v \<leftarrow> observeVersion E (snd st);
     (let m = (snd st)\<lparr>em_Status := (em_Status (snd st))\<lparr>mst_Version := v\<rparr>\<rparr>;
          st1 = (fst st \<or> v \<noteq> mst_Version (em_Status (snd st)), m);
          intended = ms_Version (em_Spec m)
      in if v \<noteq> '''' \<and> intended \<noteq> '''' then
           (if v \<noteq> intended then
              memberCondition E st1 MemberVersionDrifted ConditionTrue ''VersionMismatch''
                (''running etcd version '' @ goQuote v @ '' does not match intended spec.version '' @ goQuote intended)
            else
              memberCondition E st1 MemberVersionDrifted ConditionFalse ''VersionMatched''
                (''running etcd version '' @ goQuote v @ '' matches intended spec.version''))
         else return st1)
   }"

definition finishStatus :: "env \<Rightarrow> bool \<times> EtcdMember \<Rightarrow> outcome proc" where
  "finishStatus E st =
     (if fst st then do {
        u \<leftarrow> writeMember E (StatusUpdate (snd st));
        return (case u of Inl err \<Rightarrow> Inl err | Inr _ \<Rightarrow> requeueAfter (seconds 30))
      }
      else return (requeueAfter (seconds 30)))"

definition memberReadyStep :: "env \<Rightarrow> bool \<times> EtcdMember \<Rightarrow> outcome proc" where
  "memberReadyStep E st = do {
     st1 \<leftarrow> memberCondition E st MemberReady ConditionTrue ''PodReady'' ''etcd member is ready'';
     st2 \<leftarrow> versionStep E st1;
     finishStatus E st2
   }"

definition memberUpdateStatus :: "env \<Rightarrow> EtcdMember \<Rightarrow> outcome proc" where
  "memberUpdateStatus E member = do {
     g \<leftarrow> getPod E (memberKey member);
     (case g of
        Inl err \<Rightarrow> return (if IsNotFound err then requeueAfter (seconds 5) else Inl err)
      | Inr pod \<Rightarrow>
          (let st = podFields pod member in
           if \<not> podReady pod then do {
             heal \<leftarrow> (if etcdContainerStuck pod then clusterHasQuorumWithout E (snd st) else return False);
             (if heal then do {
                d \<leftarrow> writeMember E (Delete (snd st));
                return (case d of Inl err \<Rightarrow> Inl err | Inr _ \<Rightarrow> noRequeue)
              }
              else do {
                st1 \<leftarrow> memberCondition E st MemberReady ConditionFalse ''PodNotReady''
                         (''pod phase: '' @ showPhase (pods_Phase (pod_Status pod)));
                finishStatus E st1
              })
           }
           else if mst_MemberID (em_Status (snd st)) = '''' then do {
             d \<leftarrow> discoverMemberID E (snd st);
             (case d of
                Inr i \<Rightarrow>
                  memberReadyStep E (True, (snd st)\<lparr>em_Status := (em_Status (snd st))\<lparr>mst_MemberID := hex016 i\<rparr>\<rparr>)
              | Inl err \<Rightarrow> do {
                  st1 \<leftarrow> memberCondition E st MemberReady ConditionFalse ''DiscoveringMemberID''
                           (''waiting for memberID: '' @ err_msg err);
                  finishStatus E st1
                })
           }
           else memberReadyStep E st))
   }"

section \<open>The pass\<close>

text \<open>The dormant gate: the Pod goes, the claim stays.\<close>

definition pauseMember :: "env \<Rightarrow> EtcdMember \<Rightarrow> outcome proc" where
  "pauseMember E member =
     bindE (ensurePodAbsent E member) (\<lambda>m1. do {
       (changed, m2) \<leftarrow> memberCondition E (mst_PodName (em_Status member) \<noteq> '''', m1) MemberReady ConditionFalse ''Paused''
                          ''member is paused (spec.dormant=true); pod deleted, PVC preserved'';
       (if changed then do {
          u \<leftarrow> writeMember E (StatusUpdate m2);
          return (case u of Inl err \<Rightarrow> Inl err | Inr _ \<Rightarrow> requeueAfter (seconds 30))
        }
        else return (requeueAfter (seconds 30)))
     })"

definition replaceTerminalPod :: "env \<Rightarrow> EtcdMember \<Rightarrow> Pod \<Rightarrow> outcome proc" where
  "replaceTerminalPod E member pod = do {
     (changed, m1) \<leftarrow> memberCondition E (False, member) MemberReady ConditionFalse ''PodReplacing'' (terminalPodMessage pod);
     (let remove = do {
            d \<leftarrow> writePod E (Delete pod);
            return (case d of
              Inl err \<Rightarrow> if \<not> IsNotFound err then Inl err else requeueAfter (seconds 2)
            | Inr _ \<Rightarrow> requeueAfter (seconds 2))
          }
      in if changed then bindE (writeMember E (StatusUpdate m1)) (\<lambda>_. remove) else remove)
   }"

definition runMember :: "env \<Rightarrow> EtcdMemberReconciler \<Rightarrow> EtcdMember \<Rightarrow> outcome proc" where
  "runMember E r member =
     bindE (terminalPod E member) (\<lambda>tp.
       case tp of
         Some pod \<Rightarrow> replaceTerminalPod E member pod
       | None \<Rightarrow>
           bindE (ensurePVC E member) (\<lambda>m1.
           bindE (ensurePod E r m1) (\<lambda>m2.
           memberUpdateStatus E m2)))"

definition reconcileLiveMember :: "env \<Rightarrow> EtcdMemberReconciler \<Rightarrow> EtcdMember \<Rightarrow> outcome proc" where
  "reconcileLiveMember E r member =
     (if ms_InitialCluster (em_Spec member) = '''' then return (requeueAfter (seconds 2))
      else if ms_Dormant (em_Spec member) then pauseMember E member
      else if st_Medium (ms_Storage (em_Spec member)) = StorageMediumMemory \<and> mst_PodUID (em_Status member) \<noteq> '''' then
        bindE (memoryMemberPodLost E member) (\<lambda>lost.
          if lost then do {
            d \<leftarrow> writeMember E (Delete member);
            return (case d of Inl err \<Rightarrow> Inl err | Inr _ \<Rightarrow> noRequeue)
          }
          else runMember E r member)
      else runMember E r member)"

definition memberReconcile :: "env \<Rightarrow> EtcdMemberReconciler \<Rightarrow> nsname \<Rightarrow> outcome proc" where
  "memberReconcile E r req = do {
     g \<leftarrow> getMember E req;
     (case g of
        Inl err \<Rightarrow> return (if IsNotFound err then noRequeue else Inl err)
      | Inr member \<Rightarrow>
          if \<not> isZero (om_DeletionTimestamp (em_Meta member)) then handleDeletion E member
          else if \<not> l_containsFinalizer (e_lib E) (em_Meta member) MemberFinalizer then
            bindE (writeMember E (Update (member\<lparr>em_Meta := l_addFinalizer (e_lib E) (em_Meta member) MemberFinalizer\<rparr>)))
              (reconcileLiveMember E r)
          else reconcileLiveMember E r member)
   }"

end
