(* ===== verification/MemberContract.thy ===== *)
theory MemberContract
  imports MemberController
begin

text \<open>
  What the member controller may do, stated over what it has read in the same pass: when it starts
  a Pod, what it deletes, when it gives up the finalizer, what it reports as ready; and the shape of
  the Pod it builds.
\<close>

section \<open>What a pass has read\<close>

text \<open>
  The view: the member object, the last Pod and cluster replies, whether the claim is known to belong
  to the member, whether the finalizer is known to be in place, the members listed, etcd's member
  list, and the last ID that etcd confirmed to have removed.
\<close>

record view =
  v_member :: "EtcdMember option"
  v_pod :: "(goerror + Pod) option"
  v_cluster :: "(goerror + EtcdCluster) option"
  v_claim :: bool
  v_finalizer :: bool
  v_items :: "EtcdMember list option"
  v_listed :: "MemberListResponse option"
  v_removed :: "u64 option"

definition noView :: view where
  "noView = \<lparr>v_member = None, v_pod = None, v_cluster = None, v_claim = False, v_finalizer = False,
     v_items = None, v_listed = None, v_removed = None\<rparr>"

definition viewStep :: "env \<Rightarrow> view \<Rightarrow> event \<Rightarrow> view" where
  "viewStep E v e =
     (case e of
        EMember (KGet rd q (Inr m)) \<Rightarrow>
          v\<lparr>v_member := Some m, v_finalizer := l_containsFinalizer (e_lib E) (em_Meta m) MemberFinalizer\<rparr>
      | EMember (KWrite (Update x) (Inr m)) \<Rightarrow> v\<lparr>v_member := Some m, v_finalizer := True\<rparr>
      | EMember (KList rd ns sel (Inr items)) \<Rightarrow> v\<lparr>v_items := Some items\<rparr>
      | EPod (KGet rd q r) \<Rightarrow> v\<lparr>v_pod := Some r\<rparr>
      | ECluster (KGet rd q r) \<Rightarrow> v\<lparr>v_cluster := Some r\<rparr>
      | EPVC (KGet rd q (Inr pvc)) \<Rightarrow>
          v\<lparr>v_claim := (case v_member v of None \<Rightarrow> False | Some m \<Rightarrow> pvcOwnedBy pvc m)\<rparr>
      | EPVC (KWrite (Create pvc) (Inr _)) \<Rightarrow> v\<lparr>v_claim := True\<rparr>
      | EEtcd c (MemberList (Inr resp)) \<Rightarrow> v\<lparr>v_listed := Some resp\<rparr>
      | EEtcd c (MemberRemove i None) \<Rightarrow> v\<lparr>v_removed := Some i\<rparr>
      | _ \<Rightarrow> v)"

definition viewMon :: "env \<Rightarrow> (view \<Rightarrow> event \<Rightarrow> bool) \<Rightarrow> view \<Rightarrow> event \<Rightarrow> view option" where
  "viewMon E P v e = (if P v e then Some (viewStep E v e) else None)"

definition formedIn :: "view \<Rightarrow> bool" where
  "formedIn v = (case v_cluster v of Some (Inr c) \<Rightarrow> ecClusterID c \<noteq> '''' | _ \<Rightarrow> False)"

text \<open>The ID the view gives the member: the recorded one, else the one of its entry in etcd's list,
  0 when it has no entry.\<close>

definition memberIdIn :: "view \<Rightarrow> EtcdMember \<Rightarrow> u64 option" where
  "memberIdIn v m =
     (if mst_MemberID (em_Status m) \<noteq> ''''
      then (case parseUint16_64 (mst_MemberID (em_Status m)) of Inl _ \<Rightarrow> None | Inr i \<Rightarrow> Some i)
      else map_option (\<lambda>resp. case List.find (isThisMember m) (ml_Members resp) of None \<Rightarrow> 0 | Some x \<Rightarrow> pb_ID x) (v_listed v))"

definition notFoundIn :: "(goerror + 'a) option \<Rightarrow> bool" where
  "notFoundIn r = (case r of Some (Inl err) \<Rightarrow> IsNotFound err | _ \<Rightarrow> False)"

section \<open>The contract\<close>

definition podStartOK :: "EtcdMemberReconciler \<Rightarrow> view \<Rightarrow> event \<Rightarrow> bool" where
  "podStartOK r v e =
     (case e of
        EPod (KWrite (Create p) rep) \<Rightarrow>
          (case v_member v of
             None \<Rightarrow> False
           | Some m \<Rightarrow>
               ms_InitialCluster (em_Spec m) \<noteq> '''' \<and> \<not> ms_Dormant (em_Spec m) \<and> v_finalizer v \<and>
               notFoundIn (v_pod v) \<and>
               (st_Medium (ms_Storage (em_Spec m)) = StorageMediumMemory \<or> v_claim v) \<and>
               pod_Spec p = pod_Spec (buildPod r m (formedIn v)))
      | _ \<Rightarrow> True)"

definition podLost :: "view \<Rightarrow> EtcdMember \<Rightarrow> bool" where
  "podLost v m =
     (st_Medium (ms_Storage (em_Spec m)) = StorageMediumMemory \<and> mst_PodUID (em_Status m) \<noteq> '''' \<and>
      (case v_pod v of
         Some (Inl err) \<Rightarrow> IsNotFound err
       | Some (Inr pod) \<Rightarrow> om_UID (pod_Meta pod) \<noteq> mst_PodUID (em_Status m)
       | None \<Rightarrow> False))"

definition stuckWithQuorum :: "view \<Rightarrow> EtcdMember \<Rightarrow> bool" where
  "stuckWithQuorum v m =
     (case (v_pod v, v_cluster v) of
        (Some (Inr pod), Some (Inr c)) \<Rightarrow> \<not> podReady pod \<and> etcdContainerStuck pod \<and> quorumWithout c m
      | _ \<Rightarrow> False)"

definition deletionOK :: "view \<Rightarrow> event \<Rightarrow> bool" where
  "deletionOK v e =
     (case e of
        EPod (KWrite (Delete p) rep) \<Rightarrow>
          (case v_member v of
             None \<Rightarrow> False
           | Some m \<Rightarrow> v_pod v = Some (Inr p) \<and>
               (ms_Dormant (em_Spec m) \<or> podOwnedBy p m \<and> podInTerminalPhase p \<and> om_DeletionTimestamp (pod_Meta p) = None))
      | EMember (KWrite (Delete x) rep) \<Rightarrow>
          (case v_member v of
             None \<Rightarrow> False
           | Some m \<Rightarrow> em_Meta x = em_Meta m \<and> \<not> ms_Dormant (em_Spec m) \<and> (podLost v m \<or> stuckWithQuorum v m))
      | EPVC (KWrite w rep) \<Rightarrow> (case w of Create _ \<Rightarrow> True | _ \<Rightarrow> False)
      | ECluster (KWrite w rep) \<Rightarrow> False
      | _ \<Rightarrow> True)"

text \<open>Etcd does not list the member, or has confirmed its removal.\<close>

definition leftEtcd :: "view \<Rightarrow> EtcdMember \<Rightarrow> bool" where
  "leftEtcd v m = (case memberIdIn v m of None \<Rightarrow> False | Some i \<Rightarrow> i = 0 \<or> v_removed v = Some i)"

text \<open>Every other member object that was listed is terminating, so that there is no one left to ask. Those members may
  still be in etcd, and so may this one.\<close>

definition noActivePeer :: "view \<Rightarrow> EtcdMember \<Rightarrow> bool" where
  "noActivePeer v m =
     (case v_items v of None \<Rightarrow> False | Some items \<Rightarrow> list_all (\<lambda>x. emName x = emName m \<or> emDeleting x) items)"

definition finalizerOK :: "env \<Rightarrow> view \<Rightarrow> event \<Rightarrow> bool" where
  "finalizerOK E v e =
     (case e of
        EMember (KWrite (Update x) rep) \<Rightarrow>
          (case v_member v of
             None \<Rightarrow> False
           | Some m \<Rightarrow>
               if isZero (om_DeletionTimestamp (em_Meta m))
               then x = m\<lparr>em_Meta := l_addFinalizer (e_lib E) (em_Meta m) MemberFinalizer\<rparr>
               else x = m\<lparr>em_Meta := l_removeFinalizer (e_lib E) (em_Meta m) MemberFinalizer\<rparr> \<and>
                    (case v_cluster v of
                       None \<Rightarrow> False
                     | Some (Inl err) \<Rightarrow> IsNotFound err
                     | Some (Inr c) \<Rightarrow> \<not> isZero (om_DeletionTimestamp (ec_Meta c)) \<or> leftEtcd v m \<or> noActivePeer v m))
      | EEtcd c (MemberRemove i rep) \<Rightarrow>
          (case v_member v of
             None \<Rightarrow> False
           | Some m \<Rightarrow> \<not> isZero (om_DeletionTimestamp (em_Meta m)) \<and> memberIdIn v m = Some i \<and> i \<noteq> 0 \<and>
                (case v_cluster v of Some (Inr cl) \<Rightarrow> isZero (om_DeletionTimestamp (ec_Meta cl)) | _ \<Rightarrow> False))
      | _ \<Rightarrow> True)"

definition readyOK :: "view \<Rightarrow> event \<Rightarrow> bool" where
  "readyOK v e =
     (case e of
        EMember (KWrite (StatusUpdate x) rep) \<Rightarrow>
          map_option co_Status (findCondition MemberReady (mst_Conditions (em_Status x))) = Some ConditionTrue \<longrightarrow>
            mst_MemberID (em_Status x) \<noteq> '''' \<and>
            (case v_pod v of Some (Inr pod) \<Rightarrow> podReady pod \<and> mst_PodUID (em_Status x) = om_UID (pod_Meta pod) | _ \<Rightarrow> False)
      | _ \<Rightarrow> True)"

definition memberOK :: "env \<Rightarrow> EtcdMemberReconciler \<Rightarrow> view \<Rightarrow> event \<Rightarrow> bool" where
  "memberOK E r v e \<longleftrightarrow> podStartOK r v e \<and> deletionOK v e \<and> finalizerOK E v e \<and> readyOK v e"

lemmas memberOK_defs = memberOK_def podStartOK_def deletionOK_def finalizerOK_def readyOK_def

abbreviation memberMon :: "env \<Rightarrow> EtcdMemberReconciler \<Rightarrow> view \<Rightarrow> event \<Rightarrow> view option" where
  "memberMon E r \<equiv> viewMon E (memberOK E r)"

definition viewQuiet :: "event \<Rightarrow> bool" where
  "viewQuiet e =
     (case e of ESecret _ \<Rightarrow> True | EDial _ _ \<Rightarrow> True | EEtcd c (EtcdStatus _ _) \<Rightarrow> True | _ \<Rightarrow> False)"

interpretation viewM: monitor "memberMon E r" viewQuiet for E r
  by unfold_locales
    (auto simp: viewQuiet_def viewMon_def viewStep_def memberOK_defs split: event.splits etcd_call.splits)

lemma viewQuiet_simps [simp]: "viewQuiet (ESecret k)" "viewQuiet (EDial c d)" "viewQuiet (EEtcd c (EtcdStatus ep s))"
  by (simp_all add: viewQuiet_def)

text \<open>Reads are always allowed; they update the view.\<close>

lemma memberMon_reads [simp]:
  "memberMon E r v (EPod (KGet rd q rp)) = Some (v\<lparr>v_pod := Some rp\<rparr>)"
  "memberMon E r v (ECluster (KGet rd q rc)) = Some (v\<lparr>v_cluster := Some rc\<rparr>)"
  "memberMon E r v (EMember (KGet rd q (Inr m))) =
     Some (v\<lparr>v_member := Some m, v_finalizer := l_containsFinalizer (e_lib E) (em_Meta m) MemberFinalizer\<rparr>)"
  "memberMon E r v (EMember (KGet rd q (Inl err))) = Some v"
  "memberMon E r v (EMember (KList rd ns sel (Inr items))) = Some (v\<lparr>v_items := Some items\<rparr>)"
  "memberMon E r v (EMember (KList rd ns sel (Inl err))) = Some v"
  "memberMon E r v (EPVC (KGet rd q (Inl err))) = Some v"
  "memberMon E r v (EPVC (KGet rd q (Inr pvc))) =
     Some (v\<lparr>v_claim := (case v_member v of None \<Rightarrow> False | Some m \<Rightarrow> pvcOwnedBy pvc m)\<rparr>)"
  "memberMon E r v (EEtcd c (MemberList (Inr resp))) = Some (v\<lparr>v_listed := Some resp\<rparr>)"
  "memberMon E r v (EEtcd c (MemberList (Inl err))) = Some v"
  by (simp_all add: viewMon_def viewStep_def memberOK_defs)

section \<open>The functions keep the contract\<close>

text \<open>Two values of the member object that agree on everything but the recorded Pod and claim names.\<close>

definition sameMember :: "EtcdMember \<Rightarrow> EtcdMember \<Rightarrow> bool" where
  "sameMember m m' \<longleftrightarrow>
     em_Meta m' = em_Meta m \<and> em_Spec m' = em_Spec m \<and> mst_MemberID (em_Status m') = mst_MemberID (em_Status m) \<and>
     mst_IsVoter (em_Status m') = mst_IsVoter (em_Status m) \<and> mst_Conditions (em_Status m') = mst_Conditions (em_Status m)"

lemma sameMember_simps [simp]:
  "sameMember m m"
  "sameMember m (withPod n u m') = sameMember m m'"
  "sameMember m (withPVCName n m') = sameMember m m'"
  "sameMember m (snd (podFields pod m')) = sameMember m m'"
  by (simp_all add: sameMember_def withPod_def withPVCName_def podFields_def Let_def)

lemma sameMember_buildPod: "sameMember m m' \<Longrightarrow> pod_Spec (buildPod r m' f) = pod_Spec (buildPod r m f)"
proof -
  assume "sameMember m m'"
  then obtain st where st: "m' = m\<lparr>em_Status := st\<rparr>" "mst_MemberID st = mst_MemberID (em_Status m)"
    "mst_IsVoter st = mst_IsVoter (em_Status m)"
    unfolding sameMember_def by (cases m, cases m') auto
  have "memberServiceName m' = memberServiceName m" "memberDataDir m' = memberDataDir m"
    "memberPeerScheme (Some m') = memberPeerScheme (Some m)" "memberClientScheme (Some m') = memberClientScheme (Some m)"
    "clientTLSParts m' = clientTLSParts m" "peerTLSParts m' = peerTLSParts m" "dataVolume m' = dataVolume m"
    "resolveEtcdImage m' = resolveEtcdImage m" "containerResources m' = containerResources m"
    "initialClusterState m' = initialClusterState m"
    using st by (simp_all add: memberServiceName_def memberDataDir_def memberPeerScheme_def memberClientScheme_def
        clientTLSParts_def peerTLSParts_def dataVolume_def resolveEtcdImage_def containerResources_def
        initialClusterState_def fun_eq_iff Let_def)
  with st show ?thesis
    by (simp add: buildPod_def etcdCommand_def restoreParts_def restoreInitContainers_def Let_def split_def
        split: option.split)
qed

lemma sameMember_quorum: "sameMember m m' \<Longrightarrow> quorumWithout c m' = quorumWithout c m"
  by (simp add: sameMember_def quorumWithout_def memberIsReady_def)

definition liveView :: "view \<Rightarrow> EtcdMember \<Rightarrow> EtcdMember \<Rightarrow> bool" where
  "liveView v m m' \<longleftrightarrow> v_member v = Some m \<and> sameMember m m' \<and> ms_InitialCluster (em_Spec m) \<noteq> '''' \<and>
     \<not> ms_Dormant (em_Spec m) \<and> v_finalizer v"

definition keepsLive :: "EtcdMember \<Rightarrow> (view \<Rightarrow> bool) \<Rightarrow> (goerror + EtcdMember) \<Rightarrow> view \<Rightarrow> bool" where
  "keepsLive m K res v = (case res of Inl _ \<Rightarrow> True | Inr m' \<Rightarrow> liveView v m m' \<and> K v)"

definition claimKnown :: "EtcdMember \<Rightarrow> view \<Rightarrow> bool" where
  "claimKnown m v = (st_Medium (ms_Storage (em_Spec m)) = StorageMediumMemory \<or> v_claim v)"

lemma liveView_D:
  assumes "liveView v m m'"
  shows "em_Spec m' = em_Spec m" "em_Meta m' = em_Meta m" "v_member v = Some m" "v_finalizer v"
    "pvcOwnedBy pvc m' = pvcOwnedBy pvc m" "podOwnedBy pod m' = podOwnedBy pod m"
    "ms_InitialCluster (em_Spec m) \<noteq> ''''" "\<not> ms_Dormant (em_Spec m)"
    "mst_MemberID (em_Status m') = mst_MemberID (em_Status m)"
    "pod_Spec (buildPod r m' f) = pod_Spec (buildPod r m f)" "quorumWithout c m' = quorumWithout c m"
  using assms sameMember_buildPod [of m m' r f] sameMember_quorum [of m m' c]
  by (simp_all add: liveView_def sameMember_def pvcOwnedBy_def podOwnedBy_def ownedByMember_def)

lemma ensurePVC_view:
  assumes "liveView v m m'"
  shows "safe (memberMon E r) v (ensurePVC E m') (keepsLive m (claimKnown m))"
proof -
  note m = liveView_D [OF assms]
  have live: "liveView (v\<lparr>v_claim := b\<rparr>) m (withPVCName n m')" for n b
    using assms by (simp add: liveView_def)
  have create: "safe (memberMon E r) v (bindE (writePVC E (Create pvc)) (\<lambda>_. return (Inr (withPVCName n m'))))
      (keepsLive m (claimKnown m))" for pvc n
    by (intro io_rules) (simp_all add: viewMon_def memberOK_defs viewStep_def keepsLive_def safe_return live claimKnown_def)
  have get: "safe (memberMon E r) v (State_Monad.bind (getPVC E q) k) Q"
    if "\<And>err. safe (memberMon E r) v (k (Inl err)) Q"
      "\<And>pvc. safe (memberMon E r) (v\<lparr>v_claim := pvcOwnedBy pvc m\<rparr>) (k (Inr pvc)) Q"
    for q and k :: "goerror + PVC \<Rightarrow> (goerror + EtcdMember) proc" and Q
  proof (rule safe_bind_single [OF single_calls(9)])
    show "andThen (memberMon E r v (EPVC (KGet Cached q x))) (\<lambda>s'. safe (memberMon E r) s' (k x) Q)" for x
      by (cases x) (simp_all add: that m)
  qed
  show ?thesis
    unfolding ensurePVC_def Let_def
    by (intro safe_if safe_return get)
      (simp_all add: m keepsLive_def live [of "v_claim v", simplified] live claimKnown_def safe_return create split: sum.split)
qed

lemma safe_bind_getPod:
  "(\<And>x. safe (memberMon E r) (v\<lparr>v_pod := Some x\<rparr>) (k x) Q) \<Longrightarrow>
   safe (memberMon E r) v (State_Monad.bind (getPod E q) k) Q"
  by (rule safe_bind_single [OF single_calls(6)]) simp

lemma safe_bind_getCluster:
  "(\<And>x. safe (memberMon E r) (v\<lparr>v_cluster := Some x\<rparr>) (k x) Q) \<Longrightarrow>
   safe (memberMon E r) v (State_Monad.bind (getCluster E q) k) Q"
  by (rule safe_bind_single [OF single_calls(1)]) simp

lemma safe_bindE_listMembers:
  "(\<And>err. Q (Inl err) v) \<Longrightarrow> (\<And>x. safe (memberMon E r) (v\<lparr>v_items := Some x\<rparr>) (k x) Q) \<Longrightarrow>
   safe (memberMon E r) v (bindE (listMembers E ns sel) k) Q"
  by (rule safe_bindE_single [OF single_calls(4)]) simp_all

lemma safe_bindE_memberList:
  "(\<And>err. Q (Inl err) v) \<Longrightarrow> (\<And>x. safe (memberMon E r) (v\<lparr>v_listed := Some x\<rparr>) (k x) Q) \<Longrightarrow>
   safe (memberMon E r) v (bindE (memberList E c) k) Q"
  by (rule safe_bindE_single [OF single_calls(28)]) simp_all

lemmas view_reads = safe_bind_getPod safe_bind_getCluster safe_bindE_listMembers safe_bindE_memberList
  safe_if safe_case_sum safe_case_option safe_case_prod safe_let safe_return


lemma secrets_viewQuiet: "emits viewQuiet (checkTLSSecretsAvailable E m)"
  unfolding checkTLSSecretsAvailable_def checkSecret_def by (intro emits_rules) simp_all

lemma dial_viewQuiet:
  "emits viewQuiet (buildOperatorTLSConfig E oc)" "emits viewQuiet (resolveEtcdCredentials E oc)"
  "emits viewQuiet (etcdClientFactory E eps tls u p)" "emits viewQuiet (etcdStatus E c ep)"
  by (intro emits_rules; simp)+

lemmas quiet_view = secrets_viewQuiet [THEN viewM.safe_bindE_quiet] dial_viewQuiet [THEN viewM.safe_bind_quiet]
  dial_viewQuiet(1-3) [THEN viewM.safe_bindE_quiet]

lemma createPod_view:
  assumes "liveView v m m'" "claimKnown m v" "notFoundIn (v_pod v)"
  shows "safe (memberMon E r) v (createPod E r m') (keepsLive m (\<lambda>_. True))"
proof -
  note m = liveView_D [OF assms(1)]
  have create: "safe (memberMon E r) w (bindE (writePod E (Create ((buildPod r m' f)\<lparr>pod_Meta := meta\<rparr>))) (\<lambda>c.
       return (Inr (withPod (om_Name (pod_Meta c)) (om_UID (pod_Meta c)) m')))) (keepsLive m (\<lambda>_. True))"
    if "w = v\<lparr>v_cluster := x\<rparr>" "f = formedIn w" for w x f meta
    using assms that unfolding claimKnown_def
    by (intro io_rules)
      (simp_all add: m viewMon_def memberOK_defs viewStep_def keepsLive_def safe_return liveView_def)
  show ?thesis
    unfolding createPod_def clusterFor_def Let_def
    by (intro view_reads quiet_view safe_bind [where R = "\<lambda>c w. \<exists>x. w = v\<lparr>v_cluster := x\<rparr> \<and>
          formedIn w = (case c of Inl _ \<Rightarrow> False | Inr cl \<Rightarrow> ecClusterID cl \<noteq> '''')"])
      (auto simp: keepsLive_def formedIn_def intro!: create safe_return split: sum.split)
qed

lemma roleLabel_view:
  "(\<And>err. Q (Inl err) v) \<Longrightarrow> Q (Inr ()) v \<Longrightarrow> safe (memberMon E r) v (reconcileRoleLabel E pod m) Q"
  unfolding reconcileRoleLabel_def Let_def
  by (intro io_rules) (auto simp: viewMon_def memberOK_defs viewStep_def intro!: safe_return split: sum.split)

lemma ensurePod_view:
  assumes "liveView v m m'" "claimKnown m v"
  shows "safe (memberMon E r) v (ensurePod E r m') (keepsLive m (\<lambda>_. True))"
proof -
  have live: "liveView (v\<lparr>v_pod := x\<rparr>) m m'" "claimKnown m (v\<lparr>v_pod := x\<rparr>)" for x
    using assms by (simp_all add: liveView_def claimKnown_def)
  have ok: "keepsLive m (\<lambda>_. True) (Inr (withPod n u m')) (v\<lparr>v_pod := x\<rparr>)" "keepsLive m K (Inl err) w" for n u x K err w
    using assms by (simp_all add: keepsLive_def liveView_def)
  show ?thesis
    unfolding ensurePod_def Let_def
    by (intro view_reads createPod_view live safe_bindE [where R = "\<lambda>_ w. \<exists>x. w = v\<lparr>v_pod := x\<rparr>"] roleLabel_view)
      (auto simp: ok notFoundIn_def intro: safe_return)
qed

text \<open>A condition step sets the status of its condition, keeps the others and the identifiers.\<close>

definition memberStepped :: "EtcdMember \<Rightarrow> string \<Rightarrow> ConditionStatus \<Rightarrow> EtcdMember \<Rightarrow> bool" where
  "memberStepped m ty sv m' \<longleftrightarrow>
     map_option co_Status (findCondition ty (mst_Conditions (em_Status m'))) = Some sv \<and>
     (\<forall>ty'. ty' \<noteq> ty \<longrightarrow> findCondition ty' (mst_Conditions (em_Status m')) = findCondition ty' (mst_Conditions (em_Status m))) \<and>
     mst_MemberID (em_Status m') = mst_MemberID (em_Status m) \<and> mst_PodUID (em_Status m') = mst_PodUID (em_Status m)"

lemma setMemberCondition_stepped: "memberStepped m ty sv (snd (setMemberCondition m now ty sv reason msg))"
proof -
  obtain x where "findCondition ty (mst_Conditions (em_Status (snd (setMemberCondition m now ty sv reason msg)))) = Some x"
    "sameCondition x (wantCondition ty sv reason msg (om_Generation (em_Meta m)))"
    using memberCond.written by blast
  then show ?thesis
    using memberCond.others_kept [of _ ty m now sv reason msg] by (auto simp: memberStepped_def sameCondition_def)
qed

lemma safe_memberCondition:
  assumes "\<And>b m'. memberStepped (snd st) ty sv m' \<Longrightarrow> Q (b, m') s"
  shows "safe step s (memberCondition E st ty sv reason msg) Q"
proof -
  have "Q (ch \<or> fst st, m') s" if "setMemberCondition (snd st) now ty sv reason msg = (ch, m')" for ch m' now
    using setMemberCondition_stepped [of "snd st" ty sv now reason msg] that assms by simp
  then show ?thesis
    unfolding memberCondition_def by (intro safe_bind_timeNow safe_let safe_case_prod safe_return) blast
qed

lemma safe_bind_memberCondition:
  assumes "\<And>b m'. memberStepped (snd st) ty sv m' \<Longrightarrow> safe step s (k (b, m')) Q"
  shows "safe step s (State_Monad.bind (memberCondition E st ty sv reason msg) k) Q"
proof (rule safe_bind)
  show "safe step s (memberCondition E st ty sv reason msg) (\<lambda>p s'. safe step s' (k p) Q)"
    by (rule safe_memberCondition) (rule assms)
qed

lemma finishStatus_view:
  assumes "readyOK v (EMember (KWrite (StatusUpdate (snd st)) (Inl nilDeref)))"
  shows "safe (memberMon E r) v (finishStatus E st) (\<lambda>_ _. True)"
proof -
  have "readyOK v (EMember (KWrite (StatusUpdate (snd st)) rep))" for rep
    using assms by (simp add: readyOK_def)
  then show ?thesis
    unfolding finishStatus_def
    by (intro io_rules TrueI) (simp_all add: viewMon_def memberOK_def podStartOK_def deletionOK_def finalizerOK_def safe_return)
qed

lemma notReady_OK:
  "map_option co_Status (findCondition MemberReady (mst_Conditions (em_Status x))) = Some ConditionFalse \<Longrightarrow>
   readyOK v (EMember (KWrite (StatusUpdate x) rep))"
  by (auto simp: readyOK_def)

lemma etcdDialConfig_view:
  assumes "\<And>x c. Q x (v\<lparr>v_cluster := c\<rparr>)" "\<And>x. Q x v"
  shows "safe (memberMon E r) v (etcdDialConfig E m) Q"
  unfolding etcdDialConfig_def clusterFor_def
  by (intro view_reads quiet_view assms safe_bindE [where R = "\<lambda>_ w. \<exists>c. w = v\<lparr>v_cluster := c\<rparr>"])
    (auto intro!: view_reads quiet_view assms)

lemma observeVersion_view:
  assumes "\<And>x c. Q x (v\<lparr>v_cluster := c\<rparr>)" "\<And>x. Q x v"
  shows "safe (memberMon E r) v (observeVersion E m) Q"
proof -
  have *: "Q x w" if "w = v \<or> (\<exists>c. w = v\<lparr>v_cluster := c\<rparr>)" for x w using that assms by blast
  show ?thesis
    unfolding observeVersion_def Let_def
    by (rule safe_bind [OF etcdDialConfig_view [where Q = "\<lambda>_ w. w = v \<or> (\<exists>c. w = v\<lparr>v_cluster := c\<rparr>)"]])
      (auto intro!: view_reads quiet_view *)
qed

lemma discoverMemberID_view:
  assumes "\<And>x w. v_pod w = v_pod v \<Longrightarrow> Q x w"
  shows "safe (memberMon E r) v (discoverMemberID E m) Q"
  unfolding discoverMemberID_def
  by (intro view_reads quiet_view safe_bindE [OF etcdDialConfig_view [where Q = "\<lambda>_ w. v_pod w = v_pod v"]])
    (auto intro!: assms view_reads quiet_view)

text \<open>What the object says of readiness when it is about to be written as ready.\<close>

definition isReadyFor :: "view \<Rightarrow> EtcdMember \<Rightarrow> bool" where
  "isReadyFor v m \<longleftrightarrow> mst_MemberID (em_Status m) \<noteq> '''' \<and>
     (\<exists>pod. v_pod v = Some (Inr pod) \<and> podReady pod \<and> mst_PodUID (em_Status m) = om_UID (pod_Meta pod))"

lemma isReadyFor_OK: "isReadyFor v x \<Longrightarrow> readyOK v (EMember (KWrite (StatusUpdate x) rep))"
  by (auto simp: isReadyFor_def readyOK_def)

lemma isReadyFor_stepped: "isReadyFor v m \<Longrightarrow> memberStepped m ty sv m' \<Longrightarrow> isReadyFor v m'"
  by (simp add: isReadyFor_def memberStepped_def)

lemma versionStep_view:
  assumes "isReadyFor v (snd st)"
  shows "safe (memberMon E r) v (versionStep E st) (\<lambda>p w. isReadyFor w (snd p))"
proof -
  have ready: "isReadyFor w ((snd st)\<lparr>em_Status := (em_Status (snd st))\<lparr>mst_Version := x\<rparr>\<rparr>)" if "v_pod w = v_pod v" for x w
    using assms that by (simp add: isReadyFor_def)
  show ?thesis
    unfolding versionStep_def Let_def
    by (rule safe_bind [OF observeVersion_view [where Q = "\<lambda>_ w. v_pod w = v_pod v"]])
      (simp, simp, intro safe_if safe_return safe_memberCondition, auto intro: ready isReadyFor_stepped [OF ready])
qed

lemma memberReadyStep_view:
  assumes "isReadyFor v (snd st)"
  shows "safe (memberMon E r) v (memberReadyStep E st) (\<lambda>_ _. True)"
  unfolding memberReadyStep_def
  by (intro safe_bind_memberCondition safe_bind [OF versionStep_view] finishStatus_view isReadyFor_OK)
    (auto intro: isReadyFor_stepped [OF assms])

lemma podFields_UID [simp]:
  "mst_PodUID (em_Status (snd (podFields pod m))) = om_UID (pod_Meta pod)"
  "mst_MemberID (em_Status (snd (podFields pod m))) = mst_MemberID (em_Status m)"
  "em_Meta (snd (podFields pod m)) = em_Meta m"
  by (simp_all add: podFields_def Let_def)

lemma selfHeal_view:
  assumes "liveView v m m'" "v_pod v = Some (Inr pod)" "\<not> podReady pod" "etcdContainerStuck pod"
    "\<And>w. v_pod w = v_pod v \<Longrightarrow> safe (memberMon E r) w (k False) (\<lambda>_ _. True)"
    "k True = State_Monad.bind (writeMember E (Delete m')) (\<lambda>d. return (f d))"
  shows "safe (memberMon E r) v (State_Monad.bind (clusterHasQuorumWithout E m') k) (\<lambda>_ _. True)"
proof -
  note m = liveView_D [OF assms(1)]
  have delete: "safe (memberMon E r) (v\<lparr>v_cluster := Some (Inr c)\<rparr>) (k True) (\<lambda>_ _. True)"
    if "quorumWithout c m" for c
    unfolding assms(6)
    by (intro io_rules)
      (use assms(2-4) that in \<open>simp_all add: m viewMon_def memberOK_defs stuckWithQuorum_def safe_return\<close>)
  have "safe (memberMon E r) v (clusterHasQuorumWithout E m')
     (\<lambda>b w. v_pod w = v_pod v \<and> (b \<longrightarrow> (\<exists>c. w = v\<lparr>v_cluster := Some (Inr c)\<rparr> \<and> quorumWithout c m)))"
    unfolding clusterHasQuorumWithout_def clusterFor_def
    by (rule safe_bind [where R = "\<lambda>c w. v_pod w = v_pod v \<and> (\<forall>cl. c = Inr cl \<longrightarrow> w = v\<lparr>v_cluster := Some (Inr cl)\<rparr>)"])
      (auto simp: m intro!: safe_bind_getCluster safe_return split: sum.splits)
  then show ?thesis
  proof (rule safe_bind)
    fix b w assume "v_pod w = v_pod v \<and> (b \<longrightarrow> (\<exists>c. w = v\<lparr>v_cluster := Some (Inr c)\<rparr> \<and> quorumWithout c m))"
    then show "safe (memberMon E r) w (k b) (\<lambda>_ _. True)"
      using delete assms(5) by (cases b) auto
  qed
qed

lemma memberUpdateStatus_view:
  assumes "liveView v m m'"
  shows "safe (memberMon E r) v (memberUpdateStatus E m') (\<lambda>_ _. True)"
proof -
  have live: "liveView (v\<lparr>v_pod := x\<rparr>) m (snd (podFields pod m'))" for x pod
    using assms by (simp add: liveView_def)
  have notReady: "safe (memberMon E r) w (State_Monad.bind (memberCondition E st MemberReady ConditionFalse rs msg) (finishStatus E))
      (\<lambda>_ _. True)" for w st rs msg
    by (intro safe_bind_memberCondition finishStatus_view notReady_OK) (simp add: memberStepped_def)
  have heal: "safe (memberMon E r) (v\<lparr>v_pod := Some (Inr pod)\<rparr>)
     (State_Monad.bind (if etcdContainerStuck pod then clusterHasQuorumWithout E (snd (podFields pod m')) else return False)
       (\<lambda>heal. if heal then State_Monad.bind (writeMember E (Delete (snd (podFields pod m')))) (\<lambda>d. return (f d))
               else State_Monad.bind (memberCondition E st MemberReady ConditionFalse rs msg) (finishStatus E)))
     (\<lambda>_ _. True)" if "\<not> podReady pod" for pod st rs msg and f :: "goerror + EtcdMember \<Rightarrow> outcome"
  proof (cases "etcdContainerStuck pod")
    case True
    have "safe (memberMon E r) (v\<lparr>v_pod := Some (Inr pod)\<rparr>)
     (State_Monad.bind (clusterHasQuorumWithout E (snd (podFields pod m')))
       (\<lambda>heal. if heal then State_Monad.bind (writeMember E (Delete (snd (podFields pod m')))) (\<lambda>d. return (f d))
               else State_Monad.bind (memberCondition E st MemberReady ConditionFalse rs msg) (finishStatus E)))
     (\<lambda>_ _. True)"
      by (rule selfHeal_view [OF live]) (use True that notReady in simp_all)
    with True show ?thesis by simp
  next
    case False
    then show ?thesis using notReady by simp
  qed
  have ready: "isReadyFor (v\<lparr>v_pod := Some (Inr pod)\<rparr>) (snd (podFields pod m'))"
    if "podReady pod" "mst_MemberID (em_Status m') \<noteq> ''''" for pod
    using that by (simp add: isReadyFor_def)
  show ?thesis
    unfolding memberUpdateStatus_def Let_def
    apply (rule safe_bind_getPod)
    subgoal for x
    proof (cases x)
      case (Inr pod)
      then show ?thesis
        by (simp only: sum.case)
          (intro safe_if heal memberReadyStep_view ready safe_case_sum notReady
            safe_bind [OF discoverMemberID_view [where Q = "\<lambda>_ w. v_pod w = Some (Inr pod)"]],
            auto simp: isReadyFor_def)
    qed (simp add: safe_return)
    done
qed

lemma pauseMember_view:
  assumes "v_member v = Some m" "ms_Dormant (em_Spec m)"
  shows "safe (memberMon E r) v (pauseMember E m) (\<lambda>_ _. True)"
proof -
  have delete: "safe (memberMon E r) (v\<lparr>v_pod := Some (Inr pod)\<rparr>)
      (State_Monad.bind (writePod E (Delete pod)) (\<lambda>d. return (f d))) (\<lambda>_ _. True)"
    for pod and f :: "goerror + Pod \<Rightarrow> goerror + EtcdMember"
    using assms by (intro io_rules) (simp add: viewMon_def memberOK_defs safe_return)
  have absent: "safe (memberMon E r) v (ensurePodAbsent E m) (\<lambda>_ _. True)"
    unfolding ensurePodAbsent_def
    apply (rule safe_bind_getPod)
    subgoal for x by (cases x) (simp_all add: safe_return delete)
    done
  have update: "safe (memberMon E r) w (State_Monad.bind (writeMember E (StatusUpdate m')) (\<lambda>u. return (f u))) (\<lambda>_ _. True)"
    if "memberStepped m0 MemberReady ConditionFalse m'" for w m0 m' and f :: "goerror + EtcdMember \<Rightarrow> outcome"
  proof -
    have "readyOK w (EMember (KWrite (StatusUpdate m') rep))" for rep
      using that by (intro notReady_OK) (simp add: memberStepped_def)
    then show ?thesis
      by (intro io_rules) (simp add: viewMon_def memberOK_def podStartOK_def deletionOK_def finalizerOK_def safe_return)
  qed
  show ?thesis
    unfolding pauseMember_def
    by (rule safe_bindE [OF absent], simp)
      (intro safe_bind_memberCondition, simp only: prod.case, intro safe_if safe_return TrueI update)
qed

lemma replaceTerminalPod_view:
  assumes "v_member v = Some m" "v_pod v = Some (Inr pod)" "podOwnedBy pod m" "podInTerminalPhase pod"
    "om_DeletionTimestamp (pod_Meta pod) = None"
  shows "safe (memberMon E r) v (replaceTerminalPod E m pod) (\<lambda>_ _. True)"
proof -
  have delete: "safe (memberMon E r) v (State_Monad.bind (writePod E (Delete pod)) (\<lambda>d. return (f d))) (\<lambda>_ _. True)"
    for f :: "goerror + Pod \<Rightarrow> outcome"
    using assms by (intro io_rules) (simp add: viewMon_def memberOK_defs viewStep_def safe_return)
  have update: "safe (memberMon E r) v (bindE (writeMember E (StatusUpdate m')) k) (\<lambda>_ _. True)"
    if "memberStepped m MemberReady ConditionFalse m'" "\<And>x. safe (memberMon E r) v (k x) (\<lambda>_ _. True)"
    for m' and k :: "EtcdMember \<Rightarrow> outcome proc"
  proof -
    have "readyOK v (EMember (KWrite (StatusUpdate m') rep))" for rep
      using that(1) by (intro notReady_OK) (simp add: memberStepped_def)
    with that(2) show ?thesis
      by (intro io_rules) (simp_all add: viewMon_def memberOK_def podStartOK_def deletionOK_def finalizerOK_def viewStep_def)
  qed
  show ?thesis
    unfolding replaceTerminalPod_def Let_def
    by (intro safe_bind_memberCondition, simp only: prod.case, intro safe_if delete update) simp_all
qed

lemma runMember_view:
  assumes "liveView v m m"
  shows "safe (memberMon E r) v (runMember E r m) (\<lambda>_ _. True)"
proof -
  have terminal: "safe (memberMon E r) v (terminalPod E m) (\<lambda>x w. liveView w m m \<and>
     (\<forall>pod. x = Inr (Some pod) \<longrightarrow> v_pod w = Some (Inr pod) \<and> podOwnedBy pod m \<and> podInTerminalPhase pod \<and>
        om_DeletionTimestamp (pod_Meta pod) = None))"
    unfolding terminalPod_def
    by (rule safe_bind_getPod, rule safe_return)
      (use assms in \<open>auto simp: liveView_def split: sum.splits if_splits\<close>)
  have ensure: "safe (memberMon E r) w (bindE (ensurePVC E m) (\<lambda>m1. bindE (ensurePod E r m1) (memberUpdateStatus E)))
      (\<lambda>_ _. True)" if "liveView w m m" for w
    by (rule safe_bindE [OF ensurePVC_view [OF that]], simp, rule safe_bindE [OF ensurePod_view])
      (auto simp: keepsLive_def intro: memberUpdateStatus_view)
  show ?thesis
    unfolding runMember_def
    by (rule safe_bindE [OF terminal], simp)
      (intro safe_case_option ensure replaceTerminalPod_view, auto simp: liveView_def)
qed

lemma reconcileLiveMember_view:
  assumes "v_member v = Some m" "v_finalizer v"
  shows "safe (memberMon E r) v (reconcileLiveMember E r m) (\<lambda>_ _. True)"
proof (cases "ms_InitialCluster (em_Spec m) = '''' \<or> ms_Dormant (em_Spec m)")
  case True
  then show ?thesis using pauseMember_view [OF assms(1)] by (auto simp: reconcileLiveMember_def safe_return)
next
  case False
  then have live: "liveView (v\<lparr>v_pod := x\<rparr>) m m" for x using assms by (simp add: liveView_def)
  have "safe (memberMon E r) v (memoryMemberPodLost E m) (\<lambda>x w. \<exists>y. w = v\<lparr>v_pod := Some y\<rparr> \<and>
     (x = Inr True \<longrightarrow> (case y of Inl err \<Rightarrow> IsNotFound err | Inr pod \<Rightarrow> om_UID (pod_Meta pod) \<noteq> mst_PodUID (em_Status m))))"
    unfolding memoryMemberPodLost_def
    by (rule safe_bind_getPod, rule safe_return) (auto split: sum.splits)
  moreover have "safe (memberMon E r) (v\<lparr>v_pod := Some y\<rparr>)
      (State_Monad.bind (writeMember E (Delete m)) (\<lambda>d. return (f d))) (\<lambda>_ _. True)"
    if "case y of Inl err \<Rightarrow> IsNotFound err | Inr pod \<Rightarrow> om_UID (pod_Meta pod) \<noteq> mst_PodUID (em_Status m)"
      "st_Medium (ms_Storage (em_Spec m)) = StorageMediumMemory" "mst_PodUID (em_Status m) \<noteq> ''''"
    for y and f :: "goerror + EtcdMember \<Rightarrow> outcome"
    using that assms False by (intro io_rules)
      (auto simp: viewMon_def memberOK_defs podLost_def safe_return split: sum.splits)
  ultimately show ?thesis
    using False runMember_view [OF live] runMember_view [OF live [of "v_pod v", simplified]]
    unfolding reconcileLiveMember_def
    by (auto intro!: safe_bindE safe_if safe_return)
qed

lemma dropFinalizer_view:
  assumes "v_member v = Some m" "\<not> isZero (om_DeletionTimestamp (em_Meta m))"
    and "case v_cluster v of None \<Rightarrow> False | Some (Inl err) \<Rightarrow> IsNotFound err
         | Some (Inr c) \<Rightarrow> \<not> isZero (om_DeletionTimestamp (ec_Meta c)) \<or> leftEtcd v m \<or> noActivePeer v m"
  shows "safe (memberMon E r) v (dropFinalizer E m) (\<lambda>_ _. True)"
  unfolding dropFinalizer_def
  by (intro io_rules)
    (use assms in \<open>simp_all add: viewMon_def memberOK_def podStartOK_def deletionOK_def finalizerOK_def readyOK_def safe_return\<close>)

lemma memberIdIn_removed [simp]: "memberIdIn (w\<lparr>v_removed := x\<rparr>) m = memberIdIn w m"
  by (simp add: memberIdIn_def)

lemma resolveMemberID_view:
  "safe (memberMon E r) v (resolveMemberID E m c) (\<lambda>x w. \<exists>l. w = v\<lparr>v_listed := l\<rparr> \<and>
     (case x of Inl _ \<Rightarrow> True | Inr i \<Rightarrow> memberIdIn w m = Some i))"
  unfolding resolveMemberID_def
  by (intro view_reads)
    (auto simp: memberIdIn_def split: sum.split intro: exI [of _ "v_listed v"])

lemma removeMemberFromEtcd_view:
  assumes "v_member v = Some m" "\<not> isZero (om_DeletionTimestamp (em_Meta m))"
    "v_cluster v = Some (Inr c)" "isZero (om_DeletionTimestamp (ec_Meta c))"
  shows "safe (memberMon E r) v (removeMemberFromEtcd E c m) (\<lambda>x w. v_member w = Some m \<and> v_cluster w = v_cluster v \<and>
     (x = Inr () \<longrightarrow> leftEtcd w m \<or> noActivePeer w m))"
proof -
  have alone: "noActivePeer (v\<lparr>v_items := Some items\<rparr>) m"
    if "filter (\<lambda>x. emName x \<noteq> emName m) (filterActiveMembers items) = []" for items
    using that by (auto simp: noActivePeer_def list_all_iff filter_empty_conv filterActiveMembers_def)
  have remove: "safe (memberMon E r) w (State_Monad.bind (memberRemove E cl i) (\<lambda>e. return (case e of None \<Rightarrow> Inr () | Some err \<Rightarrow> Inl err)))
     (\<lambda>x w'. v_member w' = Some m \<and> v_cluster w' = v_cluster v \<and> (x = Inr () \<longrightarrow> leftEtcd w' m \<or> noActivePeer w' m))"
    if "w = v\<lparr>v_items := it, v_listed := l\<rparr>" "memberIdIn w m = Some i" "i \<noteq> 0" for w it l cl i
  proof (rule safe_bind_single [OF single_calls(31)])
    fix rep
    from assms that show "andThen (memberMon E r w (EEtcd cl (MemberRemove i rep)))
       (\<lambda>w'. safe (memberMon E r) w' (return (case rep of None \<Rightarrow> Inr () | Some err \<Rightarrow> Inl err))
         (\<lambda>x w''. v_member w'' = Some m \<and> v_cluster w'' = v_cluster v \<and> (x = Inr () \<longrightarrow> leftEtcd w'' m \<or> noActivePeer w'' m)))"
      by (cases rep) (auto simp: viewMon_def memberOK_defs viewStep_def leftEtcd_def safe_return)
  qed
  have zero: "leftEtcd w m" if "memberIdIn w m = Some 0" for w
    using that by (simp add: leftEtcd_def)
  show ?thesis
    unfolding removeMemberFromEtcd_def Let_def
    by (intro view_reads quiet_view safe_bindE [OF resolveMemberID_view])
      (use assms in \<open>auto simp: alone zero intro!: view_reads remove [unfolded assms(3)]\<close>)
qed

lemma handleDeletion_view:
  assumes "v_member v = Some m" "\<not> isZero (om_DeletionTimestamp (em_Meta m))"
  shows "safe (memberMon E r) v (handleDeletion E m) (\<lambda>_ _. True)"
  unfolding handleDeletion_def
  apply (rule safe_if)
   apply (simp add: safe_return)
  apply (rule safe_bind_getCluster)
  subgoal for x
  proof (cases x)
    case (Inl err)
    with assms show ?thesis by (auto intro!: dropFinalizer_view safe_return)
  next
    case (Inr c)
    have finish: "safe (memberMon E r) w (case y of Inl err \<Rightarrow> return res | Inr _ \<Rightarrow> dropFinalizer E m) (\<lambda>_ _. True)"
      if "v_member w = Some m \<and> v_cluster w = Some (Inr c) \<and> (y = Inr () \<longrightarrow> leftEtcd w m \<or> noActivePeer w m)"
      for w res and y :: "goerror + unit"
      using that assms(2) by (cases y) (auto intro!: dropFinalizer_view safe_return)
    from Inr assms show ?thesis
      by (auto intro!: dropFinalizer_view safe_bind [OF removeMemberFromEtcd_view] finish)
  qed
  done

lemma memberReconcile_view: "safe (memberMon E r) noView (memberReconcile E r req) (\<lambda>_ _. True)"
proof -
  have add: "safe (memberMon E r) v (bindE (writeMember E (Update
       (m\<lparr>em_Meta := l_addFinalizer (e_lib E) (em_Meta m) MemberFinalizer\<rparr>))) (reconcileLiveMember E r)) (\<lambda>_ _. True)"
    if "v_member v = Some m" "isZero (om_DeletionTimestamp (em_Meta m))" for v m
    by (rule safe_bindE_single [OF single_calls(5)])
      (use that in \<open>simp_all add: viewMon_def memberOK_defs viewStep_def reconcileLiveMember_view\<close>)
  show ?thesis
    unfolding memberReconcile_def
  proof (rule safe_bind_single [OF single_calls(3)])
    fix x
    show "andThen (memberMon E r noView (EMember (KGet Cached req x)))
       (\<lambda>s'. safe (memberMon E r) s' (case x of
          Inl err \<Rightarrow> return (if IsNotFound err then noRequeue else Inl err)
        | Inr m \<Rightarrow> if \<not> isZero (om_DeletionTimestamp (em_Meta m)) then handleDeletion E m
            else if \<not> l_containsFinalizer (e_lib E) (em_Meta m) MemberFinalizer
            then bindE (writeMember E (Update (m\<lparr>em_Meta := l_addFinalizer (e_lib E) (em_Meta m) MemberFinalizer\<rparr>)))
                   (reconcileLiveMember E r)
            else reconcileLiveMember E r m) (\<lambda>_ _. True))"
      by (cases x) (auto simp: safe_return intro!: handleDeletion_view reconcileLiveMember_view add)
  qed
qed

text \<open>A monitor with a weaker predicate accepts what the stronger one accepts.\<close>

lemma viewMon_accepted:
  assumes "\<And>v e. P v e \<Longrightarrow> R v e" "accepted (viewMon E P) v es"
  shows "accepted (viewMon E R) v es"
  using assms(2)
proof (induction es arbitrary: v)
  case (Cons e es)
  then show ?case using assms(1) by (auto simp: accepted_def viewMon_def split: if_splits)
qed (simp add: accepted_def)

lemma memberReconcile_accepted:
  assumes "\<And>v e. memberOK E r v e \<Longrightarrow> R v e"
  shows "accepted (viewMon E R) noView (trace_of (memberReconcile E r req))"
  by (rule viewMon_accepted [OF assms safe_accepted [OF memberReconcile_view]])

section \<open>Properties of a pass\<close>

text \<open>
  C14. When a Pod is started. Whatever the API server and etcd reply, a pass of the member controller
  creates a Pod only for a member with an initial-cluster value that is not paused and whose finalizer
  is in place, after the API server said that there is no Pod of that name, and, unless the storage is
  memory, once the claim was seen to be owned by this very member or was just created. The Pod is the
  one built from the member as read, with the cluster counted as formed exactly when the parent was
  read in this pass and has an ID.
\<close>

theorem memberReconcile_pod_start:
  "accepted (viewMon E (podStartOK r)) noView (trace_of (memberReconcile E r req))"
  by (rule memberReconcile_accepted) (simp add: memberOK_def)

text \<open>
  C15. What a pass deletes. It deletes the Pod it read, and only when the member is paused or the Pod
  is the member's own, in a terminal phase and not already terminating. It deletes the member itself,
  never a paused one, and only when the memory-backed Pod it had recorded is gone or replaced, or when
  the etcd container is stuck in a Pod that is not ready while the parent cluster reports a quorum
  without this member. Claims are created and never updated or deleted; the cluster object is never
  written.
\<close>

theorem memberReconcile_deletions:
  "accepted (viewMon E deletionOK) noView (trace_of (memberReconcile E r req))"
  by (rule memberReconcile_accepted) (simp add: memberOK_def)

text \<open>
  C16. When the finalizer goes. A pass adds it to a live member, and takes it off a terminating one only when the parent
  cluster is gone or terminating, when the member has left etcd (etcd confirmed the removal of its ID, or does not list
  it), or when every other member object it listed is terminating too. In that last case etcd is not asked, and the
  member may still be in it (see \<open>handleDeletion_skips_removal\<close>). A removal is requested only for the ID of this
  member, while it is terminating and its cluster is not.
\<close>

theorem memberReconcile_finalizer:
  "accepted (viewMon E (finalizerOK E)) noView (trace_of (memberReconcile E r req))"
  by (rule memberReconcile_accepted) (simp add: memberOK_def)

text \<open>
  C17. A member is reported ready only with a ready Pod, whose UID the same write records, and with its
  etcd member ID known, which the removal of the member will need.
\<close>

theorem memberReconcile_ready:
  "accepted (viewMon E readyOK) noView (trace_of (memberReconcile E r req))"
  by (rule memberReconcile_accepted) (simp add: memberOK_def)

section \<open>Properties of the Pod\<close>

lemma optionFlags_state: "''--initial-cluster-state=new'' \<notin> set (optionFlags o')"
  by (auto simp: optionFlags_def split: option.splits)

lemma tlsParts_state:
  "''--initial-cluster-state=new'' \<notin> set (fst (clientTLSParts m))"
  "''--initial-cluster-state=new'' \<notin> set (fst (peerTLSParts m))"
  by (auto simp: clientTLSParts_def peerTLSParts_def split: option.splits)

lemma buildPod_container [simp]:
  "map ctr_Command (pos_Containers (pod_Spec (buildPod r m f))) = [etcdCommand m f]"
  by (simp add: buildPod_def Let_def split_def)

text \<open>
  C18. Only an unformed cluster is bootstrapped. The etcd container is told to bootstrap a new cluster
  exactly when the member is the seed, has never been seen in etcd's member list and the cluster has no
  ID; no option, name or token can put that flag on the command line.
\<close>

theorem buildPod_bootstraps_once:
  "list_all (\<lambda>cmd. ''--initial-cluster-state=new'' \<in> set cmd \<longleftrightarrow>
      ms_Bootstrap (em_Spec m) \<and> mst_MemberID (em_Status m) = '''' \<and> \<not> formed)
    (map ctr_Command (pos_Containers (pod_Spec (buildPod r m formed))))"
  by (simp add: etcdCommand_def initialClusterState_def Let_def optionFlags_state tlsParts_state)

definition secretsOf :: "EtcdMember \<Rightarrow> string set" where
  "secretsOf m =
     (case ms_TLS (em_Spec m) of
        None \<Rightarrow> {}
      | Some t \<Rightarrow> set_option (mt_ClientServerSecretRef t) \<union> set_option (mt_PeerSecretRef t))"

text \<open>The parts of the Pod, by the names of their volumes and mounts.\<close>

lemma clientTLSParts_names:
  "map vo_Name (fst (snd (clientTLSParts m))) \<in> {[], [''tls-client'']} \<and>
   map vm_Name (snd (snd (clientTLSParts m))) = map vo_Name (fst (snd (clientTLSParts m))) \<and>
   list_all (\<lambda>vol. set_option (vo_Secret vol) \<subseteq> secretsOf m) (fst (snd (clientTLSParts m)))"
  by (simp add: clientTLSParts_def secretsOf_def emptyVolume_def mountAt_def split: option.split)

lemma peerTLSParts_names:
  "map vo_Name (fst (snd (peerTLSParts m))) \<in> {[], [''tls-peer'']} \<and>
   map vm_Name (snd (snd (peerTLSParts m))) = map vo_Name (fst (snd (peerTLSParts m))) \<and>
   list_all (\<lambda>vol. set_option (vo_Secret vol) \<subseteq> secretsOf m) (fst (snd (peerTLSParts m)))"
  by (simp add: peerTLSParts_def secretsOf_def emptyVolume_def mountAt_def split: option.split)

lemma restoreParts_names:
  "map vo_Name (snd (restoreParts r m)) \<in> {[], [''restore-tools''], [''restore-tools'', ''restore-src'']} \<and>
   list_all (\<lambda>vol. vo_Secret vol = None) (snd (restoreParts r m)) \<and>
   list_all (\<lambda>mts. set (map vm_Name mts) \<subseteq> insert ''data'' (set (map vo_Name (snd (restoreParts r m)))))
     (map ctr_VolumeMounts (fst (restoreParts r m)))"
  by (simp add: restoreParts_def restoreInitContainers_def emptyVolume_def mountAt_def Let_def split: option.split)

lemma buildPod_shape:
  "pos_Volumes (pod_Spec (buildPod r m f)) =
     dataVolume m # fst (snd (clientTLSParts m)) @ fst (snd (peerTLSParts m)) @ snd (restoreParts r m)"
  "map ctr_VolumeMounts (pos_InitContainers (pod_Spec (buildPod r m f)) @ pos_Containers (pod_Spec (buildPod r m f))) =
     map ctr_VolumeMounts (fst (restoreParts r m)) @
     [mountAt ''data'' ''/var/lib/etcd'' False # snd (snd (clientTLSParts m)) @ snd (snd (peerTLSParts m))]"
  by (simp_all add: buildPod_def Let_def split_def)

text \<open>
  C19. The Pod is well formed: its volumes have distinct names, every mount of every container, the
  restore containers included, names a volume of the Pod, the Secrets it mounts are Secrets the
  controller has checked to exist before creating it, and its data volume is the member's own claim or,
  for memory storage, a tmpfs limited to the requested size.
\<close>

theorem buildPod_wellformed:
  "let sp = pod_Spec (buildPod r m formed) in
   distinct (map vo_Name (pos_Volumes sp)) \<and>
   list_all (\<lambda>mts. set (map vm_Name mts) \<subseteq> set (map vo_Name (pos_Volumes sp)))
     (map ctr_VolumeMounts (pos_InitContainers sp @ pos_Containers sp)) \<and>
   list_all (\<lambda>vol. set_option (vo_Secret vol) \<subseteq> secretsOf m) (pos_Volumes sp) \<and>
   List.find (\<lambda>vol. vo_Name vol = ''data'') (pos_Volumes sp) = Some (dataVolume m)"
proof -
  have data: "vo_Name (dataVolume m) = ''data''" "vo_Secret (dataVolume m) = None"
    by (simp_all add: dataVolume_def emptyVolume_def)
  note parts = clientTLSParts_names [of m] peerTLSParts_names [of m] restoreParts_names [of r m]
  have names: "distinct (map vo_Name (dataVolume m # fst (snd (clientTLSParts m)) @ fst (snd (peerTLSParts m)) @ snd (restoreParts r m)))"
    using parts data by (auto simp del: distinct_append set_map simp: distinct_append [of "_ # _"] set_map [symmetric])
  have mounts: "list_all (\<lambda>mts. set (map vm_Name mts) \<subseteq>
       set (map vo_Name (dataVolume m # fst (snd (clientTLSParts m)) @ fst (snd (peerTLSParts m)) @ snd (restoreParts r m))))
     (map ctr_VolumeMounts (fst (restoreParts r m)) @
      [mountAt ''data'' ''/var/lib/etcd'' False # snd (snd (clientTLSParts m)) @ snd (snd (peerTLSParts m))])"
  proof -
    have eq: "vm_Name ` set (snd (snd (clientTLSParts m))) = vo_Name ` set (fst (snd (clientTLSParts m)))"
      "vm_Name ` set (snd (snd (peerTLSParts m))) = vo_Name ` set (fst (snd (peerTLSParts m)))"
      using parts by (metis set_map)+
    have "list_all (\<lambda>mts. set (map vm_Name mts) \<subseteq>
       set (map vo_Name (dataVolume m # fst (snd (clientTLSParts m)) @ fst (snd (peerTLSParts m)) @ snd (restoreParts r m))))
      (map ctr_VolumeMounts (fst (restoreParts r m)))"
      by (rule list.pred_mono_strong [OF parts(3) [THEN conjunct2, THEN conjunct2]]) (auto simp: data)
    then show ?thesis by (simp add: data eq mountAt_def image_Un) blast
  qed
  have secrets: "list_all (\<lambda>vol. set_option (vo_Secret vol) \<subseteq> secretsOf m)
     (dataVolume m # fst (snd (clientTLSParts m)) @ fst (snd (peerTLSParts m)) @ snd (restoreParts r m))"
    using parts data by (auto simp: list_all_iff)
  show ?thesis
    unfolding Let_def buildPod_shape using names mounts secrets data by simp
qed

section \<open>A removal that is not idempotent\<close>

definition isMemberWrite :: "event \<Rightarrow> bool" where
  "isMemberWrite e = (case e of EMember (KWrite w r) \<Rightarrow> True | _ \<Rightarrow> False)"

lemma isMemberWrite_simps [simp]:
  "\<not> isMemberWrite (ECluster k0)" "\<not> isMemberWrite (ESecret k1)" "\<not> isMemberWrite (EDial c d)"
  "\<not> isMemberWrite (EEtcd c k2)" "\<not> isMemberWrite (EMember (KList rd ns sel r))"
  by (simp_all add: isMemberWrite_def)

lemma removeMemberFromEtcd_stuck:
  assumes list: "\<And>h ns sel. kc_list (k_members (e_kube E)) h Cached ns sel = Inr items"
    and other: "list_ex (\<lambda>x. emName x \<noteq> emName m) (filterActiveMembers items)"
    and id: "mst_MemberID (em_Status m) = hex016 i" "i \<noteq> 0"
    and remove: "\<And>h cl. t_memberRemove (e_etcd E) h cl i \<noteq> None"
  shows "safe (checkMon (\<lambda>e. \<not> isMemberWrite e)) () (removeMemberFromEtcd E c m) (\<lambda>x _. \<exists>err. x = Inl err)"
    (is "safe ?mon () _ ?Q")
proof -
  have others: "filter (\<lambda>x. emName x \<noteq> emName m) (filterActiveMembers items) \<noteq> []"
    using other by (auto simp: list_ex_iff filter_empty_conv)
  have listed: "safe ?mon () (bindE (listMembers E ns sel) k) ?Q" if "safe ?mon () (k items) ?Q"
    for ns sel and k :: "EtcdMember list \<Rightarrow> (goerror + unit) proc"
    unfolding bindE_def
    by (rule safe_bind_reply [where R = "\<lambda>r. r = Inr items"])
      (use that list in \<open>auto simp: proc_defs\<close>)
  have fails: "safe ?mon () (State_Monad.bind (memberRemove E cl i) (\<lambda>e. return (case e of None \<Rightarrow> Inr () | Some err \<Rightarrow> Inl err))) ?Q"
    for cl
    by (rule safe_bind_reply [where R = "\<lambda>r. r \<noteq> None"]) (use remove in \<open>auto simp: proc_defs safe_return\<close>)
  have quiet: "emits (\<lambda>e. \<not> isMemberWrite e) (buildOperatorTLSConfig E oc)" "emits (\<lambda>e. \<not> isMemberWrite e) (resolveEtcdCredentials E oc)"
    "emits (\<lambda>e. \<not> isMemberWrite e) (etcdClientFactory E eps tls u p)" for oc eps tls u p
    by (intro emits_rules; simp)+
  have resolve: "resolveMemberID E m cl = return (Inr i)" for cl
    using id by (simp add: resolveMemberID_def parseUint16_64_hex016)
  show ?thesis
    unfolding removeMemberFromEtcd_def Let_def resolve
    by (intro listed safe_if safe_return safe_case_sum safe_case_prod quiet(1,2) [THEN checkM.safe_bind_quiet]
        quiet(3) [THEN checkM.safe_bindE_quiet])
      (auto simp: bindE_def others id(2) fails)
qed

text \<open>
  The case in which etcd is not asked: as soon as every other member object is terminating, whatever etcd still
  holds, a terminating member of a live cluster gives up its finalizer in a pass that calls the API server only. Of two
  members deleted together neither is removed from etcd.
\<close>

lemma handleDeletion_skips_removal:
  assumes "\<And>h q. kc_get (k_clusters (e_kube E)) h Cached q = Inr c" and "isZero (om_DeletionTimestamp (ec_Meta c))"
    and "\<And>h ns sel. kc_list (k_members (e_kube E)) h Cached ns sel = Inr items"
    and "list_all (\<lambda>x. emName x = emName m \<or> emDeleting x) items"
    and "l_containsFinalizer (e_lib E) (em_Meta m) MemberFinalizer"
  shows "\<exists>r. trace_of (handleDeletion E m) =
     [ECluster (KGet Cached (ownerKey m) (Inr c)), EMember (KList Cached (emNamespace m) (clusterSelector m) (Inr items)),
      EMember (KWrite (Update (m\<lparr>em_Meta := l_removeFinalizer (e_lib E) (em_Meta m) MemberFinalizer\<rparr>)) r)]"
proof -
  have "filter (\<lambda>x. emName x \<noteq> emName m) (filterActiveMembers items) = []"
    using assms(4) by (auto simp: list_all_iff filter_empty_conv filterActiveMembers_def)
  then show ?thesis
    by (simp add: handleDeletion_def removeMemberFromEtcd_def dropFinalizer_def assms bindE_def proc_defs trace_of_def Let_def del: filter_filter)
qed

text \<open>
  C20. A removal that already happened is not recognised. When the member's recorded ID is no longer in
  etcd, so that etcd answers every removal of it with an error (as it does when an earlier pass removed
  the member and its update of the finalizer failed), and another member exists and the cluster is not
  being deleted, then no pass writes the member: the finalizer stays and each pass asks for another try
  in five seconds, for as long as etcd answers so.
\<close>

theorem handleDeletion_not_idempotent:
  assumes "\<And>h q. kc_get (k_clusters (e_kube E)) h Cached q = Inr c" and "isZero (om_DeletionTimestamp (ec_Meta c))"
    and "\<And>h ns sel. kc_list (k_members (e_kube E)) h Cached ns sel = Inr items"
    and "list_ex (\<lambda>x. emName x \<noteq> emName m) (filterActiveMembers items)"
    and "mst_MemberID (em_Status m) = hex016 i" "i \<noteq> 0"
    and "\<And>h cl. t_memberRemove (e_etcd E) h cl i \<noteq> None"
    and "l_containsFinalizer (e_lib E) (em_Meta m) MemberFinalizer"
  shows "list_all (\<lambda>e. \<not> isMemberWrite e) (trace_of (handleDeletion E m)) \<and>
         value_of (handleDeletion E m) = requeueAfter (seconds 5)"
proof -
  have get: "safe (checkMon (\<lambda>e. \<not> isMemberWrite e)) () (State_Monad.bind (getCluster E q) k) Q"
    if "safe (checkMon (\<lambda>e. \<not> isMemberWrite e)) () (k (Inr c)) Q" for q Q and k :: "goerror + EtcdCluster \<Rightarrow> outcome proc"
    by (rule safe_bind_reply [where R = "\<lambda>r. r = Inr c"]) (use that assms(1) in \<open>auto simp: proc_defs\<close>)
  have "safe (checkMon (\<lambda>e. \<not> isMemberWrite e)) () (handleDeletion E m) (\<lambda>x _. x = requeueAfter (seconds 5))"
    unfolding handleDeletion_def
    by (simp only: assms(8) simp_thms if_False)
      (intro get, simp only: sum.case assms(2) simp_thms if_False,
       rule safe_bind [OF removeMemberFromEtcd_stuck [OF assms(3-7)]], auto intro: safe_return)
  with check_trace [OF this] safeD [OF this] show ?thesis by blast
qed

text \<open>An API server with the cluster and two members, and an etcd that has removed the first already.\<close>

definition removedMember :: EtcdMember where
  "removedMember = sampleMember\<lparr>em_Meta := (em_Meta sampleMember)\<lparr>om_Finalizers := [MemberFinalizer], om_DeletionTimestamp := Some 0\<rparr>,
     em_Status := (em_Status sampleMember)\<lparr>mst_MemberID := hex016 7\<rparr>\<rparr>"

definition otherMember :: EtcdMember where
  "otherMember = sampleMember\<lparr>em_Meta := (em_Meta sampleMember)\<lparr>om_Name := ''other''\<rparr>,
     em_Status := (em_Status sampleMember)\<lparr>mst_PodName := ''other''\<rparr>\<rparr>"

definition removedEnv :: env where
  "removedEnv = sampleEnv\<lparr>e_kube := emptyKube\<lparr>
     k_clusters := emptyClient\<lparr>kc_get := (\<lambda>_ _ _. Inr sampleCluster)\<rparr>,
     k_members := emptyClient\<lparr>kc_list := (\<lambda>_ _ _ _. Inr [removedMember, otherMember])\<rparr>\<rparr>\<rparr>"

theorem handleDeletion_not_idempotent_witness:
  "value_of (handleDeletion removedEnv removedMember) = requeueAfter (seconds 5)"
proof -
  have "list_all (\<lambda>e. \<not> isMemberWrite e) (trace_of (handleDeletion removedEnv removedMember)) \<and>
        value_of (handleDeletion removedEnv removedMember) = requeueAfter (seconds 5)"
    by (rule handleDeletion_not_idempotent [where c = sampleCluster and items = "[removedMember, otherMember]" and i = 7])
      (simp_all add: removedEnv_def sampleEnv_defs removedMember_def otherMember_def sampleMember_def sampleCluster_def
        filterActiveMembers_def emptyMeta_def isZero_def)
  then show ?thesis by blast
qed

end
