(* ===== verification/DefragRules.thy ===== *)
theory DefragRules
  imports EtcdDial
begin

text \<open>
  The decisions of the defragmentation controller (\<^verbatim>\<open>src/controllers/etcddefrag_controller.go\<close>, the
  pure part): whether a cluster is healthy enough, in which order members are taken, and whether a
  member's backend meets the rule, with the 64-bit floating point comparison of the source.
\<close>

section \<open>Binary64 arithmetic\<close>

text \<open>
  A positive \<^verbatim>\<open>float64\<close> in the normal range is a dyadic number \<open>m / 2 ^ s\<close>, here the pair \<open>(m, s)\<close>; a
  negative \<open>s\<close> scales up. \<open>roundDiv p q\<close> is the value nearest to \<open>p / q\<close> with 53 significant bits, ties
  to even, which is what division, multiplication and the conversion from int64 return. The
  operands that occur (percentages, sizes below \<open>2 ^ 63\<close>) stay far from overflow and underflow.
\<close>

type_synonym float64 = "int \<times> int"

fun bitLen :: "int \<Rightarrow> int" where
  "bitLen n = (if n \<le> 0 then 0 else 1 + bitLen (n div 2))"

declare bitLen.simps [simp del]

definition scaledFrac :: "int \<Rightarrow> int \<Rightarrow> int \<Rightarrow> int \<times> int" where
  "scaledFrac p q s = (if s \<ge> 0 then (p * 2 ^ nat s, q) else (p, q * 2 ^ nat (- s)))"

definition roundHalfEven :: "int \<Rightarrow> int \<Rightarrow> int" where
  "roundHalfEven p q =
     (let d = p div q; r = p mod q
      in if 2 * r < q then d else if 2 * r > q then d + 1 else if even d then d else d + 1)"

definition roundDiv :: "int \<Rightarrow> int \<Rightarrow> float64" where
  "roundDiv p q =
     (let s0 = 53 - (bitLen p - bitLen q);
          (a, b) = scaledFrac p q s0;
          s = (if 2 ^ 53 * b \<le> a then s0 - 1 else s0);
          (a', b') = scaledFrac p q s
      in (roundHalfEven a' b', s))"

definition floatOfInt :: "int \<Rightarrow> float64" where
  "floatOfInt n = (if n = 0 then (0, 0) else roundDiv n 1)"

definition floatMul :: "float64 \<Rightarrow> float64 \<Rightarrow> float64" where
  "floatMul x y =
     (if fst x * fst y = 0 then (0, 0)
      else let (m, s) = roundDiv (fst x * fst y) 1 in (m, s + snd x + snd y))"

definition floatLess :: "float64 \<Rightarrow> float64 \<Rightarrow> bool" where
  "floatLess x y =
     (if snd x \<le> snd y then fst x * 2 ^ nat (snd y - snd x) < fst y
      else fst x < fst y * 2 ^ nat (snd x - snd y))"

section \<open>The rule\<close>

text \<open>\<^verbatim>\<open>strconv.Atoi\<close>: an optional sign and decimal digits, within int64.\<close>

definition goAtoi :: "string \<Rightarrow> int option" where
  "goAtoi s =
     (let (neg, ds) = (case s of [] \<Rightarrow> (False, [])
            | c # cs \<Rightarrow> if c = CHR ''-'' then (True, cs) else if c = CHR ''+'' then (False, cs) else (False, s))
      in if ds = [] then None
         else case decValue 0 ds of
                None \<Rightarrow> None
              | Some n \<Rightarrow>
                  (let v = (if neg then - n else n)
                   in if - (2 ^ 63) \<le> v \<and> v < 2 ^ 63 then Some v else None))"

text \<open>The fraction \<^verbatim>\<open>float64(n) / 100\<close> with the integer it comes from.\<close>

definition parsePercent :: "string \<Rightarrow> float64 option" where
  "parsePercent s =
     (case goAtoi (TrimSuffix s ''%'') of
        None \<Rightarrow> None
      | Some n \<Rightarrow> if n \<le> 0 \<or> n \<ge> 100 then None else Some (roundDiv n 100))"

abbreviation defaultDefragFreeSpace :: int where "defaultDefragFreeSpace \<equiv> 200 * 2 ^ 20"
abbreviation defaultDefragMinReclaim :: int where "defaultDefragMinReclaim \<equiv> 32 * 2 ^ 20"
abbreviation defaultEtcdQuotaBytes :: int where "defaultEtcdQuotaBytes \<equiv> 2 * 2 ^ 30"

definition effectiveQuotaBytes :: "EtcdCluster \<Rightarrow> int" where
  "effectiveQuotaBytes cluster =
     (case ecObserved cluster of
        None \<Rightarrow> defaultEtcdQuotaBytes
      | Some ob \<Rightarrow>
          (case ob_Options ob of
             None \<Rightarrow> defaultEtcdQuotaBytes
           | Some o' \<Rightarrow>
               (case eo_QuotaBackendBytes o' of
                  None \<Rightarrow> defaultEtcdQuotaBytes
                | Some n \<Rightarrow> if n > 0 then n else defaultEtcdQuotaBytes)))"

text \<open>\<^verbatim>\<open>float64(dbSize) > quotaUsage*float64(quota)\<close>; the right side is positive, so a negative size
  never exceeds it.\<close>

definition quotaExceeded :: "float64 \<Rightarrow> int \<Rightarrow> int \<Rightarrow> bool" where
  "quotaExceeded usage dbSize quota =
     (dbSize > 0 \<and> floatLess (floatMul usage (floatOfInt quota)) (floatOfInt dbSize))"

definition defragRuleTriggered :: "env \<Rightarrow> DefragRule option \<Rightarrow> int \<Rightarrow> int \<Rightarrow> int \<Rightarrow> bool \<times> string" where
  "defragRuleTriggered E rule dbSize dbSizeInUse quota =
     (if (case rule of None \<Rightarrow> False | Some ru \<Rightarrow> dr_All ru) then (True, '''')
      else
        (let free = (case rule of None \<Rightarrow> defaultDefragFreeSpace
               | Some ru \<Rightarrow> (case dr_FreeSpaceAbove ru of None \<Rightarrow> defaultDefragFreeSpace | Some q \<Rightarrow> l_quantityValue (e_lib E) q));
             minReclaim = (case rule of None \<Rightarrow> defaultDefragMinReclaim
               | Some ru \<Rightarrow> (case dr_MinReclaim ru of None \<Rightarrow> defaultDefragMinReclaim | Some q \<Rightarrow> l_quantityValue (e_lib E) q));
             quotaUsage = (case rule of None \<Rightarrow> None | Some ru \<Rightarrow> parsePercent (dr_QuotaUsageAbove ru));
             reclaimable = wrap64 (dbSize - dbSizeInUse)
         in if reclaimable > free then (True, '''')
            else case quotaUsage of
                   None \<Rightarrow> (False, ''BelowThreshold'')
                 | Some usage \<Rightarrow>
                     if quota > 0 \<and> quotaExceeded usage dbSize quota \<and> reclaimable \<ge> minReclaim then (True, '''')
                     else (False, ''BelowThreshold'')))"

section \<open>Backends\<close>

record memberBackend =
  mb_member :: EtcdMember
  mb_endpoint :: string
  mb_status :: "StatusResponse option"
  mb_after :: "int option" \<comment> \<open>\<^verbatim>\<open>after\<close>, when \<^verbatim>\<open>afterKnown\<close>\<close>

definition isLeaderStatus :: "StatusResponse option \<Rightarrow> bool" where
  "isLeaderStatus s = (case s of None \<Rightarrow> False
     | Some st \<Rightarrow> (case sr_MemberId st of None \<Rightarrow> False | Some i \<Rightarrow> sr_Leader st \<noteq> 0 \<and> sr_Leader st = i))"

text \<open>The first error that blocks: any that is not a NOSPACE alarm.\<close>

definition blockingStatusError :: "string list \<Rightarrow> string option" where
  "blockingStatusError errs = List.find (\<lambda>e. \<not> Contains e ''alarm:NOSPACE'') errs"

text \<open>The loop over the backends; \<open>leader\<close> is 0 until a first one is known.\<close>

fun healthLoop :: "u64 \<Rightarrow> memberBackend list \<Rightarrow> string option" where
  "healthLoop leader [] = None"
| "healthLoop leader (b # bs) =
     (case mb_status b of
        None \<Rightarrow> Some (''member '' @ emName (mb_member b) @ '' is unreachable'')
      | Some st \<Rightarrow>
          (case blockingStatusError (sr_Errors st) of
             Some e \<Rightarrow> Some (''member '' @ emName (mb_member b) @ '' reports: '' @ e)
           | None \<Rightarrow>
               if sr_Leader st = 0 then Some (''member '' @ emName (mb_member b) @ '' reports no leader'')
               else if leader = 0 then healthLoop (sr_Leader st) bs
               else if sr_Leader st \<noteq> leader then Some ''members disagree on the leader''
               else healthLoop leader bs))"

text \<open>The reason not to defragment, \<open>None\<close> when the cluster is healthy.\<close>

definition clusterDefragHealthy :: "EtcdCluster \<Rightarrow> EtcdMember list \<Rightarrow> memberBackend list \<Rightarrow> string option" where
  "clusterDefragHealthy cluster running backends =
     (let desired = (case ecObserved cluster of None \<Rightarrow> 0 | Some ob \<Rightarrow> ob_Replicas ob) in
      if desired = 0 \<or> int (length running) \<noteq> desired
      then Some (''have '' @ showNat (length running) @ '' running members, want '' @ showInt desired)
      else healthLoop 0 backends)"

definition plannedRow :: "memberBackend \<Rightarrow> MemberDefragStatus" where
  "plannedRow b = \<lparr>md_Name = emName (mb_member b),
     md_Role = (if isLeaderStatus (mb_status b) then MemberRoleLeader else MemberRoleFollower),
     md_Outcome = DefragOutcomePending, md_Reason = '''', md_DBSizeBefore = 0, md_DBSizeAfter = 0,
     md_ReclaimedBytes = 0, md_FinishedAt = None\<rparr>"

definition plannedMembers :: "memberBackend list \<Rightarrow> MemberDefragStatus list" where
  "plannedMembers backends =
     map plannedRow (filter (\<lambda>b. \<not> isLeaderStatus (mb_status b)) backends) @
     map plannedRow (filter (\<lambda>b. isLeaderStatus (mb_status b)) backends)"

definition firstPendingMember :: "EtcdDefrag \<Rightarrow> MemberDefragStatus option" where
  "firstPendingMember df = List.find (\<lambda>m. md_Outcome m = DefragOutcomePending) (dst_Members (ed_Status df))"

definition backendByName :: "memberBackend list \<Rightarrow> string \<Rightarrow> memberBackend option" where
  "backendByName backends name = List.find (\<lambda>b. emName (mb_member b) = name) backends"

text \<open>
  The member to hand leadership to. The source also skips the leader's own entry by pointer; that
  entry has the leader's member ID and is skipped by the comparison of IDs.
\<close>

definition pickTransferee :: "memberBackend \<Rightarrow> memberBackend list \<Rightarrow> u64 \<times> string" where
  "pickTransferee leader backends =
     (case List.find (\<lambda>b. case mb_status b of None \<Rightarrow> False
          | Some st \<Rightarrow> (case sr_MemberId st of None \<Rightarrow> False
              | Some i \<Rightarrow> \<not> sr_IsLearner st \<and> Some i \<noteq> Option.bind (mb_status leader) sr_MemberId)) backends of
        None \<Rightarrow> (0, '''')
      | Some b \<Rightarrow> (case Option.bind (mb_status b) sr_MemberId of None \<Rightarrow> (0, '''') | Some i \<Rightarrow> (i, emName (mb_member b))))"

section \<open>Recording outcomes\<close>

definition markedRow ::
  "gotime \<Rightarrow> DefragOutcome \<Rightarrow> string \<Rightarrow> memberBackend option \<Rightarrow> MemberDefragStatus \<Rightarrow> MemberDefragStatus" where
  "markedRow now outcome reason ob m =
     (let m1 = m\<lparr>md_Outcome := outcome, md_Reason := reason, md_FinishedAt := Some now\<rparr> in
      case ob of
        None \<Rightarrow> m1
      | Some b \<Rightarrow>
          (case mb_status b of
             None \<Rightarrow> m1
           | Some st \<Rightarrow>
               (let m2 = m1\<lparr>md_DBSizeBefore := sr_DbSize st\<rparr> in
                case mb_after b of
                  None \<Rightarrow> m2
                | Some after \<Rightarrow>
                    (let m3 = m2\<lparr>md_DBSizeAfter := after\<rparr>
                     in if outcome = DefragOutcomeDefragmented \<and> sr_DbSize st \<ge> after
                        then m3\<lparr>md_ReclaimedBytes := sr_DbSize st - after\<rparr> else m3))))"

text \<open>Only the first row of the name is marked.\<close>

fun markRows ::
  "gotime \<Rightarrow> string \<Rightarrow> DefragOutcome \<Rightarrow> string \<Rightarrow> memberBackend option \<Rightarrow> MemberDefragStatus list \<Rightarrow> MemberDefragStatus list" where
  "markRows now name outcome reason b [] = []"
| "markRows now name outcome reason b (m # ms) =
     (if md_Name m \<noteq> name then m # markRows now name outcome reason b ms
      else markedRow now outcome reason b m # ms)"

definition markMember ::
  "EtcdDefrag \<Rightarrow> gotime \<Rightarrow> string \<Rightarrow> DefragOutcome \<Rightarrow> string \<Rightarrow> memberBackend option \<Rightarrow> EtcdDefrag" where
  "markMember df now name outcome reason b =
     df\<lparr>ed_Status := (ed_Status df)\<lparr>dst_Members := markRows now name outcome reason b (dst_Members (ed_Status df))\<rparr>\<rparr>"

end
