(* ===== verification/DefragController.thy ===== *)
theory DefragController
  imports DefragRules
begin

text \<open>
  The defragmentation controller (\<^verbatim>\<open>src/controllers/etcddefrag_controller.go\<close>): a run takes the members
  of a healthy cluster one per pass, followers before the leader, and records each outcome.
\<close>

record EtcdDefragReconciler =
  dfr_Recorder :: bool \<comment> \<open>an event recorder is set\<close>

definition defragEvent :: "EtcdDefragReconciler \<Rightarrow> string \<Rightarrow> string \<Rightarrow> string \<Rightarrow> unit proc" where
  "defragEvent r ty reason msg = (if dfr_Recorder r then recordEvent ty reason msg else return ())"

abbreviation defragRequeueAfter :: duration where "defragRequeueAfter \<equiv> seconds 10"

text \<open>\<^verbatim>\<open>7*(5m + 10s + 7*5s) + 5m\<close>, which prints as \<^verbatim>\<open>45m15s\<close>.\<close>

definition defragActiveDeadline :: duration where
  "defragActiveDeadline = 7 * (minutes 5 + seconds 10 + 7 * seconds 5) + minutes 5"

definition defragCondition ::
  "env \<Rightarrow> EtcdDefrag \<Rightarrow> ConditionStatus \<Rightarrow> string \<Rightarrow> string \<Rightarrow> (bool \<times> EtcdDefrag) proc" where
  "defragCondition E df s reason msg = do {
     now \<leftarrow> timeNow E;
     return (setDefragCondition df now s reason msg)
   }"

definition exceededDeadline :: "EtcdDefrag \<Rightarrow> gotime \<Rightarrow> bool" where
  "exceededDeadline df now =
     (case dst_StartedAt (ed_Status df) of
        Some s \<Rightarrow> now - s > defragActiveDeadline
      | None \<Rightarrow> om_CreationTimestamp (ed_Meta df) \<noteq> zeroTime \<and>
                now - om_CreationTimestamp (ed_Meta df) > defragActiveDeadline)"

definition deadlineMsg :: "EtcdDefrag \<Rightarrow> string" where
  "deadlineMsg df =
     (if dst_StartedAt (ed_Status df) \<noteq> None then ''defragmentation did not complete within 45m15s''
      else ''defragmentation could not start within 45m15s (cluster never became healthy)'')"

section \<open>Ending a run\<close>

definition handleTTL :: "env \<Rightarrow> EtcdDefrag \<Rightarrow> outcome proc" where
  "handleTTL E df =
     (case (ds_TTLSecondsAfterFinished (ed_Spec df), dst_CompletedAt (ed_Status df)) of
        (Some ttl, Some completed) \<Rightarrow>
          (let expiry = completed + seconds ttl in do {
             now \<leftarrow> timeNow E;
             (if now < expiry then return (requeueAfter (expiry - now))
              else do {
                d \<leftarrow> writeDefrag E (Delete df);
                return (case d of Inl err \<Rightarrow> if IsNotFound err then noRequeue else Inl err | Inr _ \<Rightarrow> noRequeue)
              })
           })
      | _ \<Rightarrow> return noRequeue)"

definition completed :: "DefragPhase \<Rightarrow> gotime \<Rightarrow> EtcdDefrag \<Rightarrow> EtcdDefrag" where
  "completed phase now df =
     df\<lparr>ed_Status := (ed_Status df)\<lparr>dst_Phase := phase, dst_CompletedAt := Some now\<rparr>\<rparr>"

definition failDefrag :: "env \<Rightarrow> EtcdDefragReconciler \<Rightarrow> EtcdDefrag \<Rightarrow> string \<Rightarrow> string \<Rightarrow> outcome proc" where
  "failDefrag E r df reason msg = do {
     now \<leftarrow> timeNow E;
     (ch, df1) \<leftarrow> defragCondition E (completed DefragPhaseFailed now df) ConditionFalse reason msg;
     _ \<leftarrow> (if ch then defragEvent r ''Warning'' reason msg else return ());
     bindE (writeDefrag E (StatusUpdate df1)) (handleTTL E)
   }"

definition joinErrors :: "goerror option \<Rightarrow> goerror \<Rightarrow> goerror" where
  "joinErrors acc e = (case acc of None \<Rightarrow> e | Some a \<Rightarrow> errorf (err_msg a @ [CHR 0x0A] @ err_msg e))"

fun disarmLoop :: "env \<Rightarrow> EtcdClient \<Rightarrow> AlarmMember list \<Rightarrow> goerror option \<Rightarrow> (goerror option) proc" where
  "disarmLoop E c [] acc = return acc"
| "disarmLoop E c (a # as) acc = do {
     d \<leftarrow> alarmDisarm E c a;
     disarmLoop E c as (case d of
       None \<Rightarrow> acc
     | Some err \<Rightarrow> Some (joinErrors acc (wrapf (''member '' @ showNat (unat (al_MemberID a))) err)))
   }"

definition disarmNoSpaceAlarms :: "env \<Rightarrow> EtcdClient \<Rightarrow> (goerror option) proc" where
  "disarmNoSpaceAlarms E c = do {
     l \<leftarrow> alarmList E c;
     (case l of
        Inl err \<Rightarrow> return (Some err)
      | Inr alarms \<Rightarrow> disarmLoop E c (filter (\<lambda>a. al_Alarm a = ALARM_NOSPACE) alarms) None)
   }"

definition maybeDisarm :: "env \<Rightarrow> EtcdDefragReconciler \<Rightarrow> EtcdDefrag \<Rightarrow> EtcdClient \<Rightarrow> unit proc" where
  "maybeDisarm E r df c =
     (if dst_Defragmented (ed_Status df) = 0 then return ()
      else do {
        e \<leftarrow> disarmNoSpaceAlarms E c;
        (case e of
           None \<Rightarrow> return ()
         | Some err \<Rightarrow> defragEvent r ''Warning'' ''AlarmDisarmFailed''
             (''reclaimed backend space but could not disarm NOSPACE alarm; cluster may stay read-only: '' @ err_msg err))
      })"

definition finalizeDefrag :: "env \<Rightarrow> EtcdDefragReconciler \<Rightarrow> EtcdDefrag \<Rightarrow> EtcdClient \<Rightarrow> outcome proc" where
  "finalizeDefrag E r df c =
     (let failed = list_ex (\<lambda>m. md_Outcome m = DefragOutcomeFailed) (dst_Members (ed_Status df));
          phase = (if failed then DefragPhaseFailed else DefragPhaseComplete);
          reason = (if failed then ''MemberFailed'' else ''Complete'');
          s = (if failed then ConditionFalse else ConditionTrue)
      in do {
        _ \<leftarrow> maybeDisarm E r df c;
        now \<leftarrow> timeNow E;
        (_, df1) \<leftarrow> defragCondition E (completed phase now df) s reason
           (showInt (dst_Defragmented (ed_Status df)) @ ''/'' @ showNat (length (dst_Members (ed_Status df))) @
            '' members defragmented'');
        bindE (writeDefrag E (StatusUpdate df1)) (handleTTL E)
      })"

definition failRun :: "env \<Rightarrow> EtcdDefragReconciler \<Rightarrow> EtcdDefrag \<Rightarrow> EtcdClient \<Rightarrow> string \<Rightarrow> string \<Rightarrow> outcome proc" where
  "failRun E r df c reason msg = do {
     _ \<leftarrow> maybeDisarm E r df c;
     failDefrag E r df reason msg
   }"

section \<open>Persisting\<close>

text \<open>\<^verbatim>\<open>RetryOnConflict\<close>: another attempt after a conflict, at most \<open>n\<close> in all; the last error is returned.\<close>

fun persistLoop :: "env \<Rightarrow> nsname \<Rightarrow> EtcdDefragStatus \<Rightarrow> nat \<Rightarrow> goerror + unit \<Rightarrow> (goerror + unit) proc" where
  "persistLoop E key desired 0 last' = return last'"
| "persistLoop E key desired (Suc n) last' = do {
     g \<leftarrow> getDefrag E key;
     (case g of
        Inl err \<Rightarrow> if IsConflict err then persistLoop E key desired n (Inl err) else return (Inl err)
      | Inr latest \<Rightarrow> do {
          u \<leftarrow> writeDefrag E (StatusUpdate (latest\<lparr>ed_Status := desired\<rparr>));
          (case u of
             Inl err \<Rightarrow> if IsConflict err then persistLoop E key desired n (Inl err) else return (Inl err)
           | Inr _ \<Rightarrow> return (Inr ()))
        })
   }"

abbreviation defragKey :: "EtcdDefrag \<Rightarrow> nsname" where
  "defragKey df \<equiv> \<lparr>nn_namespace = om_Namespace (ed_Meta df), nn_name = om_Name (ed_Meta df)\<rparr>"

definition persistAndRequeue :: "env \<Rightarrow> EtcdDefrag \<Rightarrow> outcome proc" where
  "persistAndRequeue E df = do {
     p \<leftarrow> persistLoop E (defragKey df) (ed_Status df) (l_retrySteps (e_lib E)) (Inr ());
     return (case p of Inl err \<Rightarrow> Inl err | Inr _ \<Rightarrow> requeueAfter defragRequeueAfter)
   }"

section \<open>Probing and leadership\<close>

fun probeAll :: "env \<Rightarrow> EtcdClient \<Rightarrow> (EtcdMember \<times> string) list \<Rightarrow> (memberBackend list) proc" where
  "probeAll E c [] = return []"
| "probeAll E c ((m, ep) # rest) = do {
     s \<leftarrow> etcdStatus E c ep;
     bs \<leftarrow> probeAll E c rest;
     return (\<lparr>mb_member = m, mb_endpoint = ep, mb_status = (case s of Inl _ \<Rightarrow> None | Inr st \<Rightarrow> Some st),
              mb_after = None\<rparr> # bs)
   }"

definition dialEndpoints :: "env \<Rightarrow> EtcdCluster \<Rightarrow> string list \<Rightarrow> (goerror + EtcdClient) proc" where
  "dialEndpoints E cluster endpoints =
     bindE (buildOperatorTLSConfig E (Some cluster)) (\<lambda>tlsCfg.
     bindE (resolveEtcdCredentials E (Some cluster)) (\<lambda>(user, pass, _).
     etcdClientFactory E endpoints tlsCfg user pass))"

definition dialAndProbe ::
  "env \<Rightarrow> EtcdCluster \<Rightarrow> EtcdMember list \<Rightarrow> (goerror + EtcdClient \<times> memberBackend list) proc" where
  "dialAndProbe E cluster running =
     (let endpoint = (\<lambda>m. clientURL (clusterClientScheme (Some cluster)) (emName m) (memberServiceName m) (ecNamespace cluster)) in
      bindE (dialEndpoints E cluster (map endpoint running)) (\<lambda>c. do {
        bs \<leftarrow> probeAll E c (map (\<lambda>m. (m, endpoint m)) running);
        return (Inr (c, bs))
      }))"

definition moveLeadershipAway ::
  "env \<Rightarrow> EtcdCluster \<Rightarrow> memberBackend \<Rightarrow> memberBackend list \<Rightarrow> (goerror option) proc" where
  "moveLeadershipAway E cluster leader backends =
     (let (transfereeID, transfereeName) = pickTransferee leader backends in
      if transfereeID = 0 then return (Some (errorf ''no eligible voting member to transfer leadership to''))
      else do {
        d \<leftarrow> dialEndpoints E cluster [mb_endpoint leader];
        (case d of
           Inl err \<Rightarrow> return (Some (wrapf (''dial leader '' @ emName (mb_member leader)) err))
         | Inr lc \<Rightarrow> do {
             e \<leftarrow> moveLeader E lc transfereeID;
             return (case e of None \<Rightarrow> None
               | Some err \<Rightarrow> Some (wrapf (''move leadership from '' @ emName (mb_member leader) @ '' to '' @ transfereeName) err))
           })
      })"

text \<open>The oldest run of the cluster that is not finished; the name breaks ties.\<close>

definition isTerminalPhase :: "DefragPhase \<Rightarrow> bool" where
  "isTerminalPhase p = (p = DefragPhaseComplete \<or> p = DefragPhaseFailed)"

definition defragBefore :: "EtcdDefrag \<Rightarrow> EtcdDefrag \<Rightarrow> bool" where
  "defragBefore a b =
     (let ta = om_CreationTimestamp (ed_Meta a); tb = om_CreationTimestamp (ed_Meta b)
      in if ta \<noteq> tb then ta < tb else om_Name (ed_Meta a) < om_Name (ed_Meta b))"

definition activeRuns :: "string \<Rightarrow> EtcdDefrag list \<Rightarrow> EtcdDefrag list" where
  "activeRuns clusterName items =
     filter (\<lambda>d. ds_ClusterRef (ed_Spec d) = clusterName \<and> \<not> isTerminalPhase (dst_Phase (ed_Status d))) items"

definition oldestActive :: "env \<Rightarrow> string \<Rightarrow> string \<Rightarrow> (goerror + string) proc" where
  "oldestActive E namespace clusterName =
     bindE (listDefrags E namespace fmempty) (\<lambda>items.
       return (Inr (case sortSlice defragBefore (activeRuns clusterName items) of
         [] \<Rightarrow> '''' | d # _ \<Rightarrow> om_Name (ed_Meta d))))"

section \<open>One member\<close>

definition afterDefragment ::
  "env \<Rightarrow> EtcdDefragReconciler \<Rightarrow> EtcdDefrag \<Rightarrow> EtcdClient \<Rightarrow> memberBackend \<Rightarrow> outcome proc" where
  "afterDefragment E r df c b = do {
     s \<leftarrow> etcdStatus E c (mb_endpoint b);
     now \<leftarrow> timeNow E;
     (let (b', reason) = (case s of Inr st \<Rightarrow> (b\<lparr>mb_after := Some (sr_DbSize st)\<rparr>, '''')
                          | Inl _ \<Rightarrow> (b, ''AfterSizeUnavailable''));
          df1 = markMember df now (emName (mb_member b)) DefragOutcomeDefragmented reason (Some b');
          df2 = df1\<lparr>ed_Status := (ed_Status df1)\<lparr>dst_Defragmented := dst_Defragmented (ed_Status df1) + 1\<rparr>\<rparr>
      in persistAndRequeue E df2)
   }"

definition defragmentMember ::
  "env \<Rightarrow> EtcdDefragReconciler \<Rightarrow> EtcdDefrag \<Rightarrow> EtcdCluster \<Rightarrow> EtcdClient \<Rightarrow> memberBackend list \<Rightarrow> memberBackend \<Rightarrow> outcome proc" where
  "defragmentMember E r df cluster c backends b = do {
     _ \<leftarrow> (if length backends > 1 \<and> isLeaderStatus (mb_status b) then do {
             e \<leftarrow> moveLeadershipAway E cluster b backends;
             (case e of
                None \<Rightarrow> return ()
              | Some err \<Rightarrow> defragEvent r ''Warning'' ''LeadershipTransferFailed''
                  (''could not move leadership off '' @ emName (mb_member b) @
                   '' before defragmenting it; proceeding in place, which may cost a brief election: '' @ err_msg err))
           }
           else return ());
     d \<leftarrow> etcdDefragment E c (mb_endpoint b);
     (case d of
        Some err \<Rightarrow> do {
          now \<leftarrow> timeNow E;
          (let df1 = markMember df now (emName (mb_member b)) DefragOutcomeFailed ''RPCError'' (Some b) in do {
            _ \<leftarrow> defragEvent r ''Warning'' ''DefragFailed''
                   (''defragmentation of member '' @ emName (mb_member b) @ '' failed: '' @ err_msg err);
            persistAndRequeue E df1
          })
        }
      | None \<Rightarrow> afterDefragment E r df c b)
   }"

text \<open>The first pending member of the work list, on a healthy cluster.\<close>

definition defragNext ::
  "env \<Rightarrow> EtcdDefragReconciler \<Rightarrow> EtcdDefrag \<Rightarrow> EtcdCluster \<Rightarrow> EtcdClient \<Rightarrow> memberBackend list \<Rightarrow> MemberDefragStatus \<Rightarrow> outcome proc" where
  "defragNext E r df cluster c backends nxt =
     (case backendByName backends (md_Name nxt) of
        None \<Rightarrow> do {
          now \<leftarrow> timeNow E;
          persistAndRequeue E (markMember df now (md_Name nxt) DefragOutcomeFailed ''MemberGone'' None)
        }
      | Some b \<Rightarrow>
          (case mb_status b of
             None \<Rightarrow> return (Inl nilDeref)
           | Some st \<Rightarrow>
               (let (trig, reason) = defragRuleTriggered E (ds_Rule (ed_Spec df)) (sr_DbSize st) (sr_DbSizeInUse st)
                      (effectiveQuotaBytes cluster)
                in if \<not> trig then do {
                     now \<leftarrow> timeNow E;
                     persistAndRequeue E (markMember df now (emName (mb_member b)) DefragOutcomeSkipped reason (Some b))
                   }
                   else defragmentMember E r df cluster c backends b)))"

definition startRunning :: "env \<Rightarrow> EtcdDefrag \<Rightarrow> EtcdDefrag proc" where
  "startRunning E df = do {
     now \<leftarrow> timeNow E;
     (let df1 = df\<lparr>ed_Status := (ed_Status df)\<lparr>dst_Phase := DefragPhaseRunning,
            dst_StartedAt := (case dst_StartedAt (ed_Status df) of None \<Rightarrow> Some now | Some s \<Rightarrow> Some s)\<rparr>\<rparr>
      in do {
        (_, df2) \<leftarrow> defragCondition E df1 ConditionTrue ''Running'' ''defragmenting members'';
        return df2
      })
   }"

section \<open>The pass\<close>

definition deferUnhealthy :: "env \<Rightarrow> EtcdDefragReconciler \<Rightarrow> EtcdDefrag \<Rightarrow> string \<Rightarrow> outcome proc" where
  "deferUnhealthy E r df reason =
     (let msg = ''a defragmentation is due but the cluster is not fully healthy; deferring to protect quorum: '' @ reason in do {
        (ch, df1) \<leftarrow> defragCondition E df ConditionFalse ''ClusterNotHealthy'' msg;
        _ \<leftarrow> (if ch then defragEvent r ''Warning'' ''DefragDeferred'' msg else return ());
        u \<leftarrow> writeDefrag E (StatusUpdate (if dst_StartedAt (ed_Status df1) = None
               then df1\<lparr>ed_Status := (ed_Status df1)\<lparr>dst_Phase := DefragPhasePending\<rparr>\<rparr> else df1));
        return (case u of Inl err \<Rightarrow> Inl err | Inr _ \<Rightarrow> requeueAfter defragRequeueAfter)
      })"

definition defragSweep ::
  "env \<Rightarrow> EtcdDefragReconciler \<Rightarrow> EtcdDefrag \<Rightarrow> EtcdCluster \<Rightarrow> EtcdMember list \<Rightarrow> EtcdClient \<Rightarrow> memberBackend list \<Rightarrow> outcome proc" where
  "defragSweep E r df cluster running c backends =
     (case clusterDefragHealthy cluster running backends of
        Some reason \<Rightarrow> deferUnhealthy E r df reason
      | None \<Rightarrow>
          (let df1 = (if dst_Members (ed_Status df) = []
                      then df\<lparr>ed_Status := (ed_Status df)\<lparr>dst_Members := plannedMembers backends\<rparr>\<rparr> else df)
           in case firstPendingMember df1 of
                None \<Rightarrow> finalizeDefrag E r df1 c
              | Some nxt \<Rightarrow> do {
                  df2 \<leftarrow> startRunning E df1;
                  defragNext E r df2 cluster c backends nxt
                }))"

definition defragCluster :: "env \<Rightarrow> EtcdDefragReconciler \<Rightarrow> EtcdDefrag \<Rightarrow> EtcdCluster \<Rightarrow> outcome proc" where
  "defragCluster E r df cluster =
     bindE (listMembers E (om_Namespace (ed_Meta df)) (fmupd LabelCluster (ecName cluster) fmempty)) (\<lambda>items.
       (let running = filterRunningMembers items in do {
          p \<leftarrow> dialAndProbe E cluster running;
          now \<leftarrow> timeNow E;
          (case p of
             Inl err \<Rightarrow>
               if exceededDeadline df now then failDefrag E r df ''DeadlineExceeded'' (deadlineMsg df)
               else return (requeueAfter defragRequeueAfter)
           | Inr (c, backends) \<Rightarrow>
               if exceededDeadline df now then failRun E r df c ''DeadlineExceeded'' (deadlineMsg df)
               else defragSweep E r df cluster running c backends)
        }))"

definition queueDefrag :: "env \<Rightarrow> EtcdDefrag \<Rightarrow> string \<Rightarrow> outcome proc" where
  "queueDefrag E df active = do {
     (ch, df1) \<leftarrow> defragCondition E df ConditionFalse ''Queued'' (''waiting for EtcdDefrag '' @ goQuote active @ '' to finish'');
     (if ch \<or> dst_Phase (ed_Status df1) \<noteq> DefragPhasePending then do {
        u \<leftarrow> writeDefrag E (StatusUpdate (df1\<lparr>ed_Status := (ed_Status df1)\<lparr>dst_Phase := DefragPhasePending\<rparr>\<rparr>));
        return (case u of Inl err \<Rightarrow> Inl err | Inr _ \<Rightarrow> requeueAfter defragRequeueAfter)
      }
      else return (requeueAfter defragRequeueAfter))
   }"

definition defragReconcile :: "env \<Rightarrow> EtcdDefragReconciler \<Rightarrow> nsname \<Rightarrow> outcome proc" where
  "defragReconcile E r req = do {
     g \<leftarrow> getDefrag E req;
     (case g of
        Inl err \<Rightarrow> return (if IsNotFound err then noRequeue else Inl err)
      | Inr df \<Rightarrow>
          if isTerminalPhase (dst_Phase (ed_Status df)) then handleTTL E df
          else do {
            cl \<leftarrow> getCluster E \<lparr>nn_namespace = om_Namespace (ed_Meta df), nn_name = ds_ClusterRef (ed_Spec df)\<rparr>;
            (case cl of
               Inl err \<Rightarrow>
                 if IsNotFound err then
                   failDefrag E r df ''ClusterNotFound'' (''EtcdCluster '' @ goQuote (ds_ClusterRef (ed_Spec df)) @
                     '' not found in namespace '' @ goQuote (om_Namespace (ed_Meta df)))
                 else return (Inl err)
             | Inr cluster \<Rightarrow>
                 bindE (oldestActive E (om_Namespace (ed_Meta df)) (ecName cluster)) (\<lambda>active.
                   if active \<noteq> '''' \<and> active \<noteq> om_Name (ed_Meta df) then queueDefrag E df active
                   else defragCluster E r df cluster))
          })
   }"

end
