(* ===== verification/DefragContract.thy ===== *)
theory DefragContract
  imports DefragController
begin

text \<open>
  Correctness of defragmentation runs: the health gate, the order of the work list, the guards of a
  Defragment call and of an alarm disarm, and the progress every pass on a healthy cluster makes.
\<close>

section \<open>The health gate\<close>

text \<open>A reply of a member that does not stand in the way, with the given leader.\<close>

definition healthyStatus :: "u64 \<Rightarrow> StatusResponse option \<Rightarrow> bool" where
  "healthyStatus l s =
     (case s of None \<Rightarrow> False
      | Some st \<Rightarrow> sr_Leader st = l \<and> list_all (\<lambda>e. Contains e ''alarm:NOSPACE'') (sr_Errors st))"

lemma blockingStatusError_None:
  "blockingStatusError errs = None \<longleftrightarrow> list_all (\<lambda>e. Contains e ''alarm:NOSPACE'') errs"
  by (auto simp: blockingStatusError_def find_None_iff list_all_iff)

lemma healthyStatus_simps [simp]:
  "\<not> healthyStatus l None"
  "healthyStatus l (Some st) \<longleftrightarrow> sr_Leader st = l \<and> blockingStatusError (sr_Errors st) = None"
  by (simp_all add: healthyStatus_def blockingStatusError_None)

lemma healthLoop_known:
  "l \<noteq> 0 \<Longrightarrow> healthLoop l bs = None \<longleftrightarrow> list_all (\<lambda>b. healthyStatus l (mb_status b)) bs"
proof (induction bs)
  case (Cons b bs)
  then show ?case
    by (cases "mb_status b"; cases "blockingStatusError (sr_Errors (the (mb_status b)))") auto
qed simp

lemma healthLoop_iff:
  "healthLoop 0 bs = None \<longleftrightarrow> bs = [] \<or> (\<exists>l. l \<noteq> 0 \<and> list_all (\<lambda>b. healthyStatus l (mb_status b)) bs)"
proof (cases bs)
  case (Cons b bs')
  then show ?thesis
    by (cases "mb_status b"; cases "blockingStatusError (sr_Errors (the (mb_status b)))")
      (auto simp: healthLoop_known)
qed simp

lemma clusterDefragHealthy_gate:
  "map mb_member bs = running \<Longrightarrow>
   clusterDefragHealthy c running bs = None \<longleftrightarrow>
     (\<exists>ob. ecObserved c = Some ob \<and> ob_Replicas ob \<noteq> 0 \<and> int (length running) = ob_Replicas ob) \<and>
     (\<exists>l. l \<noteq> 0 \<and> list_all (\<lambda>b. healthyStatus l (mb_status b)) bs)"
  by (auto simp: clusterDefragHealthy_def Let_def healthLoop_iff split: option.split)

text \<open>
  The health gate opens exactly when the cluster has a positive target, exactly that many members
  run, every one of them answered, none reports anything but a NOSPACE alarm, and all name the same,
  existing leader.
\<close>

theorem clusterDefragHealthy_iff:
  "map mb_member bs = running \<Longrightarrow>
   clusterDefragHealthy c running bs = None \<longleftrightarrow>
     (\<exists>ob. ecObserved c = Some ob \<and> ob_Replicas ob \<noteq> 0 \<and> int (length running) = ob_Replicas ob) \<and>
     (\<exists>l. l \<noteq> 0 \<and> list_all (\<lambda>b. healthyStatus l (mb_status b)) bs)"
  by (rule clusterDefragHealthy_gate)

definition leaderStatus :: StatusResponse where
  "leaderStatus = \<lparr>sr_Version = ''3.6.0'', sr_MemberId = Some 7, sr_Leader = 7, sr_IsLearner = False,
     sr_DbSize = 1000, sr_DbSizeInUse = 10, sr_Errors = [''memberID:7 alarm:NOSPACE'']\<rparr>"

definition sampleBackend :: memberBackend where
  "sampleBackend = \<lparr>mb_member = sampleMember, mb_endpoint = ''http://m'', mb_status = Some leaderStatus, mb_after = None\<rparr>"

definition oneMemberCluster :: EtcdCluster where
  "oneMemberCluster = sampleCluster\<lparr>ec_Status := (ec_Status sampleCluster)\<lparr>est_Observed :=
     Some \<lparr>ob_Replicas = 1, ob_Version = ''3.6.0'', ob_Storage = cs_Storage (ec_Spec sampleCluster), ob_Resources = emptyResources,
       ob_Affinity = None, ob_TopologySpreadConstraints = [], ob_AdditionalMetadata = None, ob_Options = None,
       ob_ImagePullSecrets = []\<rparr>\<rparr>\<rparr>"

theorem clusterDefragHealthy_iff_witness:
  "clusterDefragHealthy oneMemberCluster [sampleMember] [sampleBackend] = None"
proof -
  have "Contains ''memberID:7 alarm:NOSPACE'' ''alarm:NOSPACE''" by code_simp
  then show ?thesis
    using clusterDefragHealthy_iff [of "[sampleBackend]" "[sampleMember]" oneMemberCluster]
    by (simp add: sampleBackend_def oneMemberCluster_def blockingStatusError_None leaderStatus_def)
qed

section \<open>The work list\<close>

text \<open>
  The work list is a permutation of the members, all pending, in which every follower comes before
  every leader, so that the leader is defragmented last.
\<close>

theorem plannedMembers_order:
  "mset (map md_Name (plannedMembers bs)) = mset (map (\<lambda>b. emName (mb_member b)) bs) \<and>
   list_all (\<lambda>m. md_Outcome m = DefragOutcomePending) (plannedMembers bs) \<and>
   sorted_wrt (\<lambda>a b. md_Role a = MemberRoleFollower \<or> md_Role b = MemberRoleLeader) (plannedMembers bs)"
proof (intro conjI)
  have "mset bs = filter_mset (\<lambda>b. isLeaderStatus (mb_status b)) (mset bs) +
      filter_mset (\<lambda>b. \<not> isLeaderStatus (mb_status b)) (mset bs)"
    by (rule multiset_partition)
  then have "image_mset (\<lambda>b. emName (mb_member b)) (mset bs) =
      image_mset (\<lambda>b. emName (mb_member b)) (filter_mset (\<lambda>b. \<not> isLeaderStatus (mb_status b)) (mset bs)) +
      image_mset (\<lambda>b. emName (mb_member b)) (filter_mset (\<lambda>b. isLeaderStatus (mb_status b)) (mset bs))"
    by (metis image_mset_union union_commute)
  then show "mset (map md_Name (plannedMembers bs)) = mset (map (\<lambda>b. emName (mb_member b)) bs)"
    by (simp add: plannedMembers_def plannedRow_def o_def)
  show "list_all (\<lambda>m. md_Outcome m = DefragOutcomePending) (plannedMembers bs)"
    by (auto simp: plannedMembers_def plannedRow_def list_all_iff)
  show "sorted_wrt (\<lambda>a b. md_Role a = MemberRoleFollower \<or> md_Role b = MemberRoleLeader) (plannedMembers bs)"
  proof -
    have all: "sorted_wrt P xs" if "\<forall>x \<in> set xs. \<forall>y \<in> set xs. P x y" for P and xs :: "MemberDefragStatus list"
      using that by (induction xs) auto
    show ?thesis
      unfolding plannedMembers_def sorted_wrt_append by (auto simp: plannedRow_def intro!: all)
  qed
qed

section \<open>The guards of a pass\<close>

text \<open>What a pass has read: the run, the cluster, its members, the runs of the namespace, the status
  replies in the order of the requests; and whether it has defragmented a member.\<close>

record sweepView =
  sv_df :: "EtcdDefrag option"
  sv_cluster :: "EtcdCluster option"
  sv_items :: "EtcdMember list option"
  sv_runs :: "EtcdDefrag list option"
  sv_probes :: "(string \<times> (goerror + StatusResponse)) list"
  sv_defragged :: bool

definition noSweep :: sweepView where
  "noSweep = \<lparr>sv_df = None, sv_cluster = None, sv_items = None, sv_runs = None, sv_probes = [], sv_defragged = False\<rparr>"

definition replyStatus :: "goerror + StatusResponse \<Rightarrow> StatusResponse option" where
  "replyStatus r = (case r of Inl _ \<Rightarrow> None | Inr st \<Rightarrow> Some st)"

definition memberEndpoint :: "EtcdCluster \<Rightarrow> EtcdMember \<Rightarrow> string" where
  "memberEndpoint c m = clientURL (clusterClientScheme (Some c)) (emName m) (memberServiceName m) (ecNamespace c)"

text \<open>No unfinished run of the cluster is older than this one; a run without a name queues nobody.\<close>

definition isOldest :: "EtcdDefrag \<Rightarrow> EtcdCluster \<Rightarrow> EtcdDefrag list \<Rightarrow> bool" where
  "isOldest df c runs \<longleftrightarrow> activeRuns (ecName c) runs = [] \<or>
     (\<exists>h \<in> set (activeRuns (ecName c) runs). om_Name (ed_Meta h) \<in> {'''', om_Name (ed_Meta df)} \<and>
        (\<forall>d \<in> set (activeRuns (ecName c) runs). \<not> defragBefore d h))"

definition gateOpen :: "EtcdCluster \<Rightarrow> EtcdMember list \<Rightarrow> (string \<times> (goerror + StatusResponse)) list \<Rightarrow> bool" where
  "gateOpen c items probes \<longleftrightarrow>
     (\<exists>ob. ecObserved c = Some ob \<and> ob_Replicas ob \<noteq> 0 \<and> int (length (filterRunningMembers items)) = ob_Replicas ob) \<and>
     map fst probes = map (memberEndpoint c) (filterRunningMembers items) \<and>
     (\<exists>l. l \<noteq> 0 \<and> list_all (\<lambda>p. healthyStatus l (replyStatus (snd p))) probes)"

definition defragmentOK :: "env \<Rightarrow> sweepView \<Rightarrow> string \<Rightarrow> bool" where
  "defragmentOK E v ep \<longleftrightarrow> \<not> sv_defragged v \<and>
     (\<exists>df c items runs st. sv_df v = Some df \<and> sv_cluster v = Some c \<and> sv_items v = Some items \<and> sv_runs v = Some runs \<and>
        \<not> isTerminalPhase (dst_Phase (ed_Status df)) \<and> isOldest df c runs \<and> gateOpen c items (sv_probes v) \<and>
        (ep, Inr st) \<in> set (sv_probes v) \<and>
        fst (defragRuleTriggered E (ds_Rule (ed_Spec df)) (sr_DbSize st) (sr_DbSizeInUse st) (effectiveQuotaBytes c)))"

definition transfereeOK :: "sweepView \<Rightarrow> u64 \<Rightarrow> bool" where
  "transfereeOK v i \<longleftrightarrow> i \<noteq> 0 \<and> \<not> sv_defragged v \<and>
     (\<exists>ep st. (ep, Inr st) \<in> set (sv_probes v) \<and> sr_MemberId st = Some i \<and> \<not> sr_IsLearner st)"

definition sweepMon :: "env \<Rightarrow> sweepView \<Rightarrow> event \<Rightarrow> sweepView option" where
  "sweepMon E v e =
     (case e of
        EDefrag (KGet rd q (Inr df)) \<Rightarrow> Some (if sv_df v = None then v\<lparr>sv_df := Some df\<rparr> else v)
      | EDefrag (KList rd ns sel (Inr runs)) \<Rightarrow> Some (v\<lparr>sv_runs := Some runs\<rparr>)
      | ECluster (KGet rd q (Inr c)) \<Rightarrow> Some (v\<lparr>sv_cluster := Some c\<rparr>)
      | EMember (KList rd ns sel (Inr items)) \<Rightarrow> Some (v\<lparr>sv_items := Some items\<rparr>)
      | EEtcd c k \<Rightarrow>
          (case k of
             EtcdStatus ep r \<Rightarrow> Some (v\<lparr>sv_probes := sv_probes v @ [(ep, r)]\<rparr>)
           | Defragment ep r \<Rightarrow> if defragmentOK E v ep then Some (v\<lparr>sv_defragged := True\<rparr>) else None
           | AlarmList r \<Rightarrow> Some v
           | AlarmDisarm a r \<Rightarrow>
               if al_Alarm a = ALARM_NOSPACE \<and> (case sv_df v of None \<Rightarrow> False | Some df \<Rightarrow> dst_Defragmented (ed_Status df) \<noteq> 0)
               then Some v else None
           | MoveLeader i r \<Rightarrow> if transfereeOK v i then Some v else None
           | _ \<Rightarrow> None)
      | _ \<Rightarrow> Some v)"

definition sweepQuiet :: "event \<Rightarrow> bool" where
  "sweepQuiet e = (case e of ESecret _ \<Rightarrow> True | EDial _ _ \<Rightarrow> True | ERecord _ _ _ \<Rightarrow> True
     | EEtcd c (AlarmList _) \<Rightarrow> True | EDefrag (KWrite _ _) \<Rightarrow> True | _ \<Rightarrow> False)"

interpretation sweepM: monitor "sweepMon E" sweepQuiet for E
  by unfold_locales (auto simp: sweepMon_def sweepQuiet_def split: event.splits kev.splits etcd_call.splits)

lemma sweepQuiet_simps [simp]:
  "sweepQuiet (ESecret k1)" "sweepQuiet (EDial c d)" "sweepQuiet (ERecord a b m)" "sweepQuiet (EEtcd c (AlarmList r))"
  "sweepQuiet (EDefrag (KWrite w r2))"
  by (simp_all add: sweepQuiet_def)

lemma defragEvent_emits [emits_rules]: "(\<And>a b c. P (ERecord a b c)) \<Longrightarrow> emits P (defragEvent r ty reason msg)"
  unfolding defragEvent_def by (intro emits_rules)

lemma defragCondition_emits [emits_rules]: "emits P (defragCondition E df s reason msg)"
  unfolding defragCondition_def by (intro emits_rules)

lemma handleTTL_emits [emits_rules]: "(\<And>d r. P (EDefrag (KWrite (Delete d) r))) \<Longrightarrow> emits P (handleTTL E df)"
  unfolding handleTTL_def Let_def by (intro emits_rules)

lemma failDefrag_emits [emits_rules]:
  "(\<And>d r. P (EDefrag (KWrite (StatusUpdate d) r))) \<Longrightarrow> (\<And>d r. P (EDefrag (KWrite (Delete d) r))) \<Longrightarrow>
   (\<And>a b c. P (ERecord a b c)) \<Longrightarrow> emits P (failDefrag E r df reason msg)"
  unfolding failDefrag_def by (intro emits_rules)

lemma dialEndpoints_quiet [emits_rules]: "emits sweepQuiet (dialEndpoints E c eps)"
  unfolding dialEndpoints_def by (intro emits_rules) simp_all

lemma persist_sweep:
  assumes "sv_df v \<noteq> None" "\<And>x. Q x v"
  shows "safe (sweepMon E) v (persistAndRequeue E df) Q"
proof -
  have "safe (sweepMon E) v (persistLoop E key d n l) (\<lambda>_ w. w = v)" for key d n l
  proof (induction n arbitrary: l)
    case (Suc n)
    have get: "sweepMon E v (EDefrag (KGet Cached key g)) = Some v" for g
      using assms(1) by (cases g) (auto simp: sweepMon_def)
    have upd: "sweepMon E v (EDefrag (KWrite w g)) = Some v" for w g
      by (simp add: sweepMon_def)
    show ?case
      unfolding persistLoop.simps
      by (intro io_rules) (auto simp: get upd intro!: io_rules Suc split: sum.split)
  qed (simp add: safe_return)
  then show ?thesis
    unfolding persistAndRequeue_def by (rule safe_bind) (simp add: safe_return assms(2))
qed

text \<open>Probing appends one status reply per member, in order.\<close>

lemma probeAll_sweep:
  "safe (sweepMon E) v (probeAll E c xs) (\<lambda>bs w. \<exists>ps. w = v\<lparr>sv_probes := sv_probes v @ ps\<rparr> \<and>
     map mb_member bs = map fst xs \<and> map fst ps = map snd xs \<and>
     map (\<lambda>p. (fst p, replyStatus (snd p))) ps = map (\<lambda>b. (mb_endpoint b, mb_status b)) bs)"
proof (induction xs arbitrary: v)
  case (Cons x xs)
  obtain m ep where x: "x = (m, ep)" by (cases x)
  show ?case
    unfolding x probeAll.simps
  proof (rule safe_bind_single [OF single_calls(32)])
    fix s
    let ?v = "v\<lparr>sv_probes := sv_probes v @ [(ep, s)]\<rparr>"
    have "safe (sweepMon E) ?v (State_Monad.bind (probeAll E c xs) (\<lambda>bs. return
        (\<lparr>mb_member = m, mb_endpoint = ep, mb_status = (case s of Inl _ \<Rightarrow> None | Inr st \<Rightarrow> Some st), mb_after = None\<rparr> # bs)))
      (\<lambda>bs w. \<exists>ps. w = v\<lparr>sv_probes := sv_probes v @ ps\<rparr> \<and> map mb_member bs = map fst ((m, ep) # xs) \<and>
        map fst ps = map snd ((m, ep) # xs) \<and>
        map (\<lambda>p. (fst p, replyStatus (snd p))) ps = map (\<lambda>b. (mb_endpoint b, mb_status b)) bs)"
      by (rule safe_bind [OF Cons.IH [of ?v]], rule safe_return, elim exE conjE)
        (rule_tac x = "(ep, s) # ps" in exI, simp add: replyStatus_def)
    then show "andThen (sweepMon E v (EEtcd c (EtcdStatus ep s))) (\<lambda>w. safe (sweepMon E) w
        (State_Monad.bind (probeAll E c xs) (\<lambda>bs. return
          (\<lparr>mb_member = m, mb_endpoint = ep, mb_status = (case s of Inl _ \<Rightarrow> None | Inr st \<Rightarrow> Some st), mb_after = None\<rparr> # bs)))
        (\<lambda>bs w. \<exists>ps. w = v\<lparr>sv_probes := sv_probes v @ ps\<rparr> \<and> map mb_member bs = map fst ((m, ep) # xs) \<and>
          map fst ps = map snd ((m, ep) # xs) \<and>
          map (\<lambda>p. (fst p, replyStatus (snd p))) ps = map (\<lambda>b. (mb_endpoint b, mb_status b)) bs))"
      by (simp add: sweepMon_def)
  qed
qed (auto intro!: safe_return exI [of _ "[]"])

definition probed :: "sweepView \<Rightarrow> EtcdCluster \<Rightarrow> EtcdMember list \<Rightarrow> memberBackend list \<Rightarrow> bool" where
  "probed v c running bs \<longleftrightarrow> map mb_member bs = running \<and> map fst (sv_probes v) = map (memberEndpoint c) running \<and>
     map (\<lambda>p. (fst p, replyStatus (snd p))) (sv_probes v) = map (\<lambda>b. (mb_endpoint b, mb_status b)) bs"

lemma dialAndProbe_sweep:
  assumes "sv_probes v = []"
  shows "safe (sweepMon E) v (dialAndProbe E c running) (\<lambda>x w. \<exists>ps. w = v\<lparr>sv_probes := ps\<rparr> \<and>
     (\<forall>cl bs. x = Inr (cl, bs) \<longrightarrow> probed w c running bs))"
proof -
  have id: "v = v\<lparr>sv_probes := []\<rparr>" using assms by simp
  have "safe (sweepMon E) v (State_Monad.bind (probeAll E cl (map (\<lambda>m. (m, memberEndpoint c m)) running)) (\<lambda>bs. return (Inr (cl, bs))))
     (\<lambda>x w. \<exists>ps. w = v\<lparr>sv_probes := ps\<rparr> \<and> (\<forall>cl bs. x = Inr (cl, bs) \<longrightarrow> probed w c running bs))" for cl
    by (rule safe_bind [OF probeAll_sweep])
      (use assms in \<open>auto intro!: safe_return simp: probed_def o_def\<close>)
  then show ?thesis
    unfolding dialAndProbe_def memberEndpoint_def [symmetric] Let_def
    by (intro sweepM.safe_bindE_quiet [OF dialEndpoints_quiet]) (use id in auto)
qed

lemma probed_gate:
  assumes "probed v c (filterRunningMembers items) bs" "clusterDefragHealthy c (filterRunningMembers items) bs = None"
  shows "gateOpen c items (sv_probes v)"
proof -
  from assms(1) have bs: "map mb_member bs = filterRunningMembers items" by (simp add: probed_def)
  from assms(1) have "map snd (map (\<lambda>p. (fst p, replyStatus (snd p))) (sv_probes v)) = map snd (map (\<lambda>b. (mb_endpoint b, mb_status b)) bs)"
    by (simp only: probed_def)
  then have "map (\<lambda>p. replyStatus (snd p)) (sv_probes v) = map mb_status bs" by (simp add: o_def)
  then have "list_all (\<lambda>p. healthyStatus l (replyStatus (snd p))) (sv_probes v) = list_all (\<lambda>b. healthyStatus l (mb_status b)) bs" for l
    using list.pred_map [of "healthyStatus l" "\<lambda>p. replyStatus (snd p)" "sv_probes v"] list.pred_map [of "healthyStatus l" mb_status bs]
    by (simp add: o_def)
  then show ?thesis
    using assms clusterDefragHealthy_gate [OF bs] by (simp add: gateOpen_def probed_def)
qed

text \<open>Disarming, once a member of the run has been defragmented.\<close>

lemma maybeDisarm_sweep:
  assumes "sv_df v = Some df0" "dst_Defragmented (ed_Status df0) = dst_Defragmented (ed_Status df)"
  shows "safe (sweepMon E) v (maybeDisarm E r df c) (\<lambda>_ w. w = v)"
proof (cases "dst_Defragmented (ed_Status df) = 0")
  case False
  have loop: "safe (sweepMon E) v (disarmLoop E c as acc) (\<lambda>_ w. w = v)"
    if "list_all (\<lambda>a. al_Alarm a = ALARM_NOSPACE) as" for as acc
    using that
  proof (induction as arbitrary: acc)
    case (Cons a as)
    then show ?case
      unfolding disarmLoop.simps
      by (intro safe_bind_single [OF single_calls(35)]) (use assms False in \<open>simp add: sweepMon_def\<close>)
  qed (simp add: safe_return)
  have "safe (sweepMon E) v (disarmNoSpaceAlarms E c) (\<lambda>_ w. w = v)"
    unfolding disarmNoSpaceAlarms_def
    by (rule safe_bind_single [OF single_calls(34)]) (auto simp: sweepMon_def list_all_iff intro!: io_rules loop)
  then show ?thesis
    unfolding maybeDisarm_def if_not_P [OF False]
    by (rule safe_bind; hypsubst) (intro sweepM.quiet_safe emits_rules sweepQuiet_simps)
qed (simp add: maybeDisarm_def safe_return)

lemma probed_reply:
  assumes "probed v c running bs" "b \<in> set bs" "mb_status b = Some st"
  shows "(mb_endpoint b, Inr st) \<in> set (sv_probes v)"
proof -
  from assms(1) have "set (map (\<lambda>p. (fst p, replyStatus (snd p))) (sv_probes v)) = set (map (\<lambda>b. (mb_endpoint b, mb_status b)) bs)"
    by (simp only: probed_def)
  moreover have "(mb_endpoint b, Some st) \<in> set (map (\<lambda>b. (mb_endpoint b, mb_status b)) bs)"
    using assms(2) by (simp add: assms(3) [symmetric])
  ultimately have "(mb_endpoint b, Some st) \<in> set (map (\<lambda>p. (fst p, replyStatus (snd p))) (sv_probes v))"
    by (simp only:)
  then show ?thesis by (auto simp: replyStatus_def split: sum.splits)
qed

lemma pickTransferee_voter:
  assumes "pickTransferee l bs = (i, n)" "i \<noteq> 0"
  shows "\<exists>b \<in> set bs. \<exists>st. mb_status b = Some st \<and> sr_MemberId st = Some i \<and> \<not> sr_IsLearner st"
proof -
  let ?ok = "\<lambda>b. case mb_status b of None \<Rightarrow> False | Some st \<Rightarrow> (case sr_MemberId st of None \<Rightarrow> False
      | Some i \<Rightarrow> \<not> sr_IsLearner st \<and> Some i \<noteq> Option.bind (mb_status l) sr_MemberId)"
  from assms obtain b where b: "List.find ?ok bs = Some b"
    by (cases "List.find ?ok bs") (auto simp: pickTransferee_def)
  then have "b \<in> set bs" "?ok b" by (auto simp: find_Some_iff)
  moreover from b assms have "Option.bind (mb_status b) sr_MemberId = Some i"
    by (cases "Option.bind (mb_status b) sr_MemberId") (auto simp: pickTransferee_def)
  ultimately show ?thesis by (cases "mb_status b") auto
qed

lemma moveLeadershipAway_sweep:
  assumes "probed v c running bs" "\<not> sv_defragged v"
  shows "safe (sweepMon E) v (moveLeadershipAway E c b bs) (\<lambda>_ w. w = v)"
proof -
  obtain i n where p: "pickTransferee b bs = (i, n)" by (cases "pickTransferee b bs")
  have ok: "transfereeOK v i" if "i \<noteq> 0"
    using pickTransferee_voter [OF p that] probed_reply [OF assms(1)] assms(2) that by (auto simp: transfereeOK_def)
  show ?thesis
    unfolding moveLeadershipAway_def p Let_def prod.case
    apply (intro safe_if safe_return sweepM.safe_bind_quiet [OF dialEndpoints_quiet] safe_case_sum)
      apply simp_all
    by (rule safe_bind_single [OF single_calls(36)]) (simp add: sweepMon_def ok safe_return)
qed

lemma defragmentMember_sweep:
  assumes ok: "defragmentOK E v (mb_endpoint b)" and pr: "probed v c running bs" and df: "sv_df v \<noteq> None"
  shows "safe (sweepMon E) v (defragmentMember E r df c cl bs b) (\<lambda>_ _. True)"
proof -
  from ok have nd: "\<not> sv_defragged v" by (simp add: defragmentOK_def)
  have move: "safe (sweepMon E) v (State_Monad.bind (moveLeadershipAway E c b bs) (\<lambda>e. case e of None \<Rightarrow> return ()
      | Some err \<Rightarrow> defragEvent r t s (f err))) (\<lambda>_ w. w = v)" for t s f
    by (rule safe_bind [OF moveLeadershipAway_sweep [OF pr nd]]; hypsubst)
      (intro sweepM.quiet_safe emits_rules sweepQuiet_simps)
  have fail: "safe (sweepMon E) w (State_Monad.bind (defragEvent r t s m) (\<lambda>_. persistAndRequeue E d)) (\<lambda>_ _. True)"
    if "sv_df w \<noteq> None" for w t s m d
    by (rule sweepM.safe_bind_quiet [OF defragEvent_emits]) (simp_all add: persist_sweep that)
  have after: "safe (sweepMon E) w (afterDefragment E r df cl b) (\<lambda>_ _. True)" if "sv_df w \<noteq> None" for w
    unfolding afterDefragment_def Let_def
    by (intro io_rules; simp add: sweepMon_def; intro io_rules persist_sweep) (simp_all add: that)
  show ?thesis
    unfolding defragmentMember_def Let_def
    apply (rule safe_bind [where R = "\<lambda>_ w. w = v"])
     apply (intro safe_if move safe_return refl)
    apply (rule safe_bind_single [OF single_calls(33)])
    using ok df by (auto simp: sweepMon_def intro!: io_rules fail after split: option.split)
qed

text \<open>What a pass knows once it stands at the health gate.\<close>

definition sweepReady :: "sweepView \<Rightarrow> EtcdDefrag \<Rightarrow> EtcdCluster \<Rightarrow> EtcdMember list \<Rightarrow> bool" where
  "sweepReady v df c items \<longleftrightarrow> sv_df v = Some df \<and> sv_cluster v = Some c \<and> sv_items v = Some items \<and> \<not> sv_defragged v \<and>
     \<not> isTerminalPhase (dst_Phase (ed_Status df)) \<and> (\<exists>runs. sv_runs v = Some runs \<and> isOldest df c runs)"

lemma defragNext_sweep:
  assumes v: "sweepReady v df0 c items" and gate: "gateOpen c items (sv_probes v)"
    and pr: "probed v c running bs" and spec: "ed_Spec df = ed_Spec df0"
  shows "safe (sweepMon E) v (defragNext E r df c cl bs nxt) (\<lambda>_ _. True)"
proof -
  from v have some: "sv_df v \<noteq> None" by (simp add: sweepReady_def)
  have ok: "defragmentOK E v (mb_endpoint b)"
    if "backendByName bs n = Some b" "mb_status b = Some st"
      "defragRuleTriggered E (ds_Rule (ed_Spec df)) (sr_DbSize st) (sr_DbSizeInUse st) (effectiveQuotaBytes c) = (t, s)" "t" for n b st t s
  proof -
    from that(1) have "b \<in> set bs" by (auto simp: backendByName_def find_Some_iff)
    from probed_reply [OF pr this that(2)] show ?thesis
      using v gate that(3,4) spec by (auto simp: defragmentOK_def sweepReady_def intro!: exI [of _ st])
  qed
  show ?thesis
    unfolding defragNext_def Let_def
    by (intro io_rules persist_sweep some TrueI defragmentMember_sweep [OF _ pr some]) (auto intro: ok)
qed

lemma startRunning_quiet [emits_rules]: "emits P (startRunning E df)"
  unfolding startRunning_def Let_def by (intro emits_rules)

lemma defragCondition_frame:
  "safe step v (defragCondition E df s reason msg) (\<lambda>(ch, x) w. w = v \<and> ed_Meta x = ed_Meta df \<and> ed_Spec x = ed_Spec df \<and>
     (\<exists>cs. ed_Status x = (ed_Status df)\<lparr>dst_Conditions := cs\<rparr>))"
  unfolding defragCondition_def
  by (intro safe_bind_timeNow safe_return) (auto simp: setDefragCondition_def Let_def intro: exI [of _ "dst_Conditions (ed_Status df)"])

lemma startRunning_spec: "safe step v (startRunning E df) (\<lambda>x w. w = v \<and> ed_Spec x = ed_Spec df)"
  unfolding startRunning_def Let_def
  by (intro safe_bind_timeNow safe_bind [OF defragCondition_frame]) (auto intro: safe_return)

lemma finalizeDefrag_sweep:
  assumes "sv_df v = Some df0" "dst_Defragmented (ed_Status df0) = dst_Defragmented (ed_Status df)"
  shows "safe (sweepMon E) v (finalizeDefrag E r df c) (\<lambda>_ _. True)"
  unfolding finalizeDefrag_def Let_def
  by (rule safe_bind [OF maybeDisarm_sweep [OF assms]], hypsubst)
    (intro sweepM.quiet_safe_any emits_rules sweepQuiet_simps TrueI)

lemma defragSweep_sweep:
  assumes v: "sweepReady v df c items" and pr: "probed v c (filterRunningMembers items) bs"
  shows "safe (sweepMon E) v (defragSweep E r df c (filterRunningMembers items) cl bs) (\<lambda>_ _. True)"
proof (cases "clusterDefragHealthy c (filterRunningMembers items) bs")
  case None
  note next' = defragNext_sweep [OF v probed_gate [OF pr None] pr]
  from v have df: "sv_df v = Some df" by (simp add: sweepReady_def)
  show ?thesis
    unfolding defragSweep_def None option.case Let_def
    by (intro safe_case_option finalizeDefrag_sweep [OF df] safe_bind [OF startRunning_spec]; (elim conjE; hypsubst; intro next')?)
      simp_all
next
  case (Some reason)
  then show ?thesis
    unfolding defragSweep_def Some option.case deferUnhealthy_def Let_def
    by (intro sweepM.quiet_safe_any emits_rules sweepQuiet_simps TrueI)
qed

lemma defragBefore_asym: "defragBefore a b \<Longrightarrow> \<not> defragBefore b a"
  by (auto simp: defragBefore_def Let_def split: if_splits)

lemma defragBefore_ctrans: "\<not> defragBefore b a \<Longrightarrow> \<not> defragBefore c b \<Longrightarrow> \<not> defragBefore c a"
  by (auto simp: defragBefore_def Let_def not_less split: if_splits)

lemma oldestActive_sweep:
  "safe (sweepMon E) v (oldestActive E ns n) (\<lambda>x w. \<forall>a. x = Inr a \<longrightarrow> (\<exists>runs. w = v\<lparr>sv_runs := Some runs\<rparr> \<and>
     (\<forall>df c. ecName c = n \<and> a \<in> {'''', om_Name (ed_Meta df)} \<longrightarrow> isOldest df c runs)))"
proof -
  have oldest: "isOldest df c runs"
    if "(case sortSlice defragBefore (activeRuns (ecName c) runs) of [] \<Rightarrow> '''' | d # _ \<Rightarrow> om_Name (ed_Meta d)) \<in> {'''', om_Name (ed_Meta df)}"
    for df c runs
  proof (cases "sortSlice defragBefore (activeRuns (ecName c) runs)")
    case (Cons h t)
    have "set (sortSlice defragBefore (activeRuns (ecName c) runs)) = set (activeRuns (ecName c) runs)"
      by (rule set_sortSlice)
    then have mem: "h \<in> set (activeRuns (ecName c) runs)" by (auto simp: Cons)
    have min: "\<not> defragBefore d h" if "d \<in> set (activeRuns (ecName c) runs)" for d
      using sortSlice_hd_minimal [of defragBefore d, OF defragBefore_asym defragBefore_ctrans that] by (simp add: Cons)
    show ?thesis
      unfolding isOldest_def using mem min that by (auto simp: Cons intro!: bexI [OF _ mem])
  qed (simp add: isOldest_def)
  show ?thesis
    unfolding oldestActive_def
    by (rule safe_bindE_single [OF single_calls(19)])
      (auto simp: sweepMon_def intro!: safe_return exI [of _ "_ :: EtcdDefrag list"] oldest)
qed

lemma defragCluster_sweep:
  assumes v: "sv_df v = Some df" "sv_cluster v = Some c" "\<not> sv_defragged v" "sv_probes v = []"
    "\<not> isTerminalPhase (dst_Phase (ed_Status df))" "sv_runs v = Some runs" "isOldest df c runs"
  shows "safe (sweepMon E) v (defragCluster E r df c) (\<lambda>_ _. True)"
proof -
  let ?v = "\<lambda>items. v\<lparr>sv_items := Some items\<rparr>"
  have ready: "sweepReady (?v items\<lparr>sv_probes := ps\<rparr>) df c items" for items ps
    using v by (simp add: sweepReady_def)
  have body: "safe (sweepMon E) (?v items\<lparr>sv_probes := ps\<rparr>)
      (case p of Inl err \<Rightarrow> if exceededDeadline df now then failDefrag E r df ''DeadlineExceeded'' (deadlineMsg df)
          else return (requeueAfter defragRequeueAfter)
       | Inr (cl, bs) \<Rightarrow> if exceededDeadline df now then failRun E r df cl ''DeadlineExceeded'' (deadlineMsg df)
          else defragSweep E r df c (filterRunningMembers items) cl bs) (\<lambda>_ _. True)"
    if "\<forall>cl bs. p = Inr (cl, bs) \<longrightarrow> probed (?v items\<lparr>sv_probes := ps\<rparr>) c (filterRunningMembers items) bs" for p items ps now
  proof -
    have fail: "safe (sweepMon E) (?v items\<lparr>sv_probes := ps\<rparr>) (failRun E r df cl a b) (\<lambda>_ _. True)" for cl a b
      unfolding failRun_def
      by (rule safe_bind [OF maybeDisarm_sweep [OF _ refl]], simp add: v, hypsubst)
        (intro sweepM.quiet_safe_any emits_rules sweepQuiet_simps TrueI)
    show ?thesis
      by (intro safe_case_sum safe_if safe_case_prod fail safe_return TrueI defragSweep_sweep [OF ready]
          sweepM.quiet_safe_any failDefrag_emits sweepQuiet_simps) (use that in simp_all)
  qed
  have probe: "safe (sweepMon E) (?v items) (State_Monad.bind (dialAndProbe E c (filterRunningMembers items)) (\<lambda>p.
      State_Monad.bind (timeNow E) (\<lambda>now. case p of Inl err \<Rightarrow> if exceededDeadline df now
          then failDefrag E r df ''DeadlineExceeded'' (deadlineMsg df) else return (requeueAfter defragRequeueAfter)
       | Inr (cl, bs) \<Rightarrow> if exceededDeadline df now then failRun E r df cl ''DeadlineExceeded'' (deadlineMsg df)
          else defragSweep E r df c (filterRunningMembers items) cl bs))) (\<lambda>_ _. True)" for items
    by (rule safe_bind [OF dialAndProbe_sweep], simp add: v, elim exE conjE, hypsubst)
      (intro safe_bind_timeNow body)
  show ?thesis
    unfolding defragCluster_def Let_def
    by (rule safe_bindE_single [OF single_calls(4)]) (simp_all add: sweepMon_def probe)
qed

lemma defragOnCluster_sweep:
  assumes "\<not> isTerminalPhase (dst_Phase (ed_Status df))"
  shows "safe (sweepMon E) (noSweep\<lparr>sv_df := Some df\<rparr>)
      (State_Monad.bind (getCluster E q) (\<lambda>cl. case cl of
         Inl err \<Rightarrow> if IsNotFound err then failDefrag E r df t m else return (Inl err)
       | Inr c \<Rightarrow> bindE (oldestActive E ns (ecName c)) (\<lambda>a. if a \<noteq> '''' \<and> a \<noteq> om_Name (ed_Meta df) then queueDefrag E df a
         else defragCluster E r df c))) (\<lambda>_ _. True)"
proof -
  have queue: "safe (sweepMon E) v (queueDefrag E df a) (\<lambda>_ _. True)" for v a
    unfolding queueDefrag_def by (intro sweepM.quiet_safe_any emits_rules sweepQuiet_simps TrueI)
  have clus: "safe (sweepMon E) (noSweep\<lparr>sv_df := Some df, sv_cluster := Some c\<rparr>)
      (bindE (oldestActive E ns (ecName c)) (\<lambda>a. if a \<noteq> '''' \<and> a \<noteq> om_Name (ed_Meta df) then queueDefrag E df a
         else defragCluster E r df c)) (\<lambda>_ _. True)" for c
    by (rule safe_bindE [OF oldestActive_sweep])
      (auto intro!: safe_if queue defragCluster_sweep assms simp: noSweep_def)
  show ?thesis
    apply (rule safe_bind_single [OF single_calls(1)])
    subgoal for g
      using clus by (cases g) (auto simp: sweepMon_def intro!: safe_return sweepM.quiet_safe_any failDefrag_emits)
    done
qed

text \<open>
  C31. In a reconcile a member is defragmented only when the run is unfinished and the oldest unfinished
  run of its cluster, every running member answered its status request and the cluster is healthy, and
  the run's rule triggers on that member's own sizes; at most one member is defragmented per pass. A
  leader hands over to a known voting member only. Only NOSPACE alarms are disarmed, and only by a run
  that has defragmented a member.
\<close>

theorem defragReconcile_guarded:
  "accepted (sweepMon E) noSweep (trace_of (defragReconcile E r req))"
proof (rule safe_accepted)
  have ttl: "safe (sweepMon E) v (handleTTL E df) (\<lambda>_ _. True)" for v df
    by (intro sweepM.quiet_safe_any handleTTL_emits sweepQuiet_simps TrueI)
  have get: "sweepMon E noSweep (EDefrag (KGet Cached req (Inr df))) = Some (noSweep\<lparr>sv_df := Some df\<rparr>)" for df
    by (simp add: sweepMon_def noSweep_def)
  show "safe (sweepMon E) noSweep (defragReconcile E r req) (\<lambda>_ _. True)"
    unfolding defragReconcile_def
    apply (rule safe_bind_single [OF single_calls(18)])
    subgoal for g
    proof (cases g)
      case (Inr df)
      show ?thesis
        unfolding Inr get by (simp only: andThen_simps sum.case) (intro safe_if ttl defragOnCluster_sweep)
    qed (simp add: sweepMon_def safe_return)
    done
qed

section \<open>Termination of a run\<close>

definition pendingRows :: "MemberDefragStatus list \<Rightarrow> nat" where
  "pendingRows rows = length (filter (\<lambda>m. md_Outcome m = DefragOutcomePending) rows)"

text \<open>The work list of a pass: the stored one, or the plan of a run that has none yet.\<close>

definition workRows :: "memberBackend list \<Rightarrow> EtcdDefrag \<Rightarrow> MemberDefragStatus list" where
  "workRows bs df = (if dst_Members (ed_Status df) = [] then plannedMembers bs else dst_Members (ed_Status df))"

text \<open>What a pass over a work list stores: one row settled, or the end of the run when none is left.\<close>

definition sweepStored :: "MemberDefragStatus list \<Rightarrow> EtcdDefragStatus \<Rightarrow> bool" where
  "sweepStored rows st \<longleftrightarrow> map md_Name (dst_Members st) = map md_Name rows \<and>
     (if pendingRows rows = 0 then isTerminalPhase (dst_Phase st)
      else dst_Phase st = DefragPhaseRunning \<and> Suc (pendingRows (dst_Members st)) = pendingRows rows)"

definition sweepWrite :: "MemberDefragStatus list \<Rightarrow> event \<Rightarrow> bool" where
  "sweepWrite rows e =
     (case e of
        EDefrag (KWrite w r) \<Rightarrow>
          (case w of StatusUpdate d \<Rightarrow> sweepStored rows (ed_Status d) | Delete d \<Rightarrow> pendingRows rows = 0 | _ \<Rightarrow> False)
      | _ \<Rightarrow> True)"

lemma sweepWrite_simps [simp]:
  "sweepWrite rows (EDefrag (KWrite (StatusUpdate d) r)) = sweepStored rows (ed_Status d)"
  "sweepWrite rows (EDefrag (KWrite (Delete d) r)) = (pendingRows rows = 0)"
  "sweepWrite rows (EDefrag (KGet rd q g))" "sweepWrite rows (EEtcd c k)" "sweepWrite rows (ERecord a b m)"
  "sweepWrite rows (ESecret s)" "sweepWrite rows (EDial cl d2)"
  by (simp_all add: sweepWrite_def)

lemma markRows_names [simp]: "map md_Name (markRows now n o' reason b rows) = map md_Name rows"
  by (induction rows) (auto simp: markedRow_def Let_def split: option.split)

lemma markRows_other: "n \<notin> set (map md_Name rows) \<Longrightarrow> markRows now n o' reason b rows = rows"
  by (induction rows) auto

lemma md_Outcome_marked [simp]: "md_Outcome (markedRow now o' reason b m) = o'"
  by (auto simp: markedRow_def Let_def split: option.split)

lemma markRows_settles:
  assumes "List.find (\<lambda>m. md_Outcome m = DefragOutcomePending) rows = Some m" "distinct (map md_Name rows)"
    "o' \<noteq> DefragOutcomePending"
  shows "Suc (pendingRows (markRows now (md_Name m) o' reason b rows)) = pendingRows rows"
  using assms
proof (induction rows)
  case (Cons x xs)
  show ?case
  proof (cases "md_Outcome x = DefragOutcomePending")
    case False
    with Cons.prems(1) have f: "List.find (\<lambda>m. md_Outcome m = DefragOutcomePending) xs = Some m" by simp
    then have "m \<in> set xs" by (auto simp: find_Some_iff)
    then have "md_Name x \<noteq> md_Name m" using Cons.prems(2) by auto
    then show ?thesis using Cons.IH [OF f] Cons.prems(2,3) False by (simp add: pendingRows_def)
  qed (use Cons.prems in \<open>simp add: pendingRows_def\<close>)
qed simp

lemma firstPending_pos: "List.find (\<lambda>m. md_Outcome m = DefragOutcomePending) rows = Some m \<Longrightarrow> pendingRows rows \<noteq> 0"
  by (auto simp: pendingRows_def find_Some_iff filter_empty_conv)

lemma persist_stored:
  assumes "sweepStored rows (ed_Status df)"
  shows "emits (sweepWrite rows) (persistAndRequeue E df)"
proof -
  have "emits (sweepWrite rows) (persistLoop E key (ed_Status df) n l)" for key n l
    by (induction n arbitrary: l) (auto intro!: emits_rules simp: assms)
  then show ?thesis
    unfolding persistAndRequeue_def by (intro emits_rules)
qed

text \<open>Every outcome a pass can record settles the first pending row.\<close>

lemma defragNext_stored:
  assumes "dst_Members (ed_Status df) = rows" "dst_Phase (ed_Status df) = DefragPhaseRunning" "distinct (map md_Name rows)"
    and first: "List.find (\<lambda>m. md_Outcome m = DefragOutcomePending) rows = Some nxt"
  shows "emits (sweepWrite rows) (defragNext E r df c cl bs nxt)"
proof -
  have mark: "sweepStored rows (ed_Status (markMember df now (md_Name nxt) o' reason b))"
    if "o' \<noteq> DefragOutcomePending" for now o' reason b
    using markRows_settles [OF first assms(3) that] firstPending_pos [OF first] assms(1,2)
    by (simp add: sweepStored_def markMember_def)
  have count: "sweepStored rows (st\<lparr>dst_Defragmented := k\<rparr>) = sweepStored rows st" for st k
    by (simp add: sweepStored_def)
  have name: "emName (mb_member b) = md_Name nxt" if "backendByName bs (md_Name nxt) = Some b" for b
    using that by (auto simp: backendByName_def find_Some_iff)
  have dial: "emits (sweepWrite rows) (dialEndpoints E c eps)" for eps
    unfolding dialEndpoints_def by (intro emits_rules) simp_all
  have move: "emits (sweepWrite rows) (moveLeadershipAway E c b bs)" for b
    unfolding moveLeadershipAway_def Let_def by (intro emits_rules dial) simp_all
  have member: "emits (sweepWrite rows) (defragmentMember E r df c cl bs b)"
    if "backendByName bs (md_Name nxt) = Some b" for b
    unfolding defragmentMember_def afterDefragment_def Let_def name [OF that]
    by (intro emits_rules move persist_stored) (simp_all add: mark count)
  show ?thesis
    unfolding defragNext_def Let_def
    by (intro emits_rules persist_stored member) (simp_all add: mark name)
qed

lemma startRunning_status:
  "safe step v (startRunning E df) (\<lambda>x w. w = v \<and> dst_Phase (ed_Status x) = DefragPhaseRunning \<and>
     dst_Members (ed_Status x) = dst_Members (ed_Status df))"
  unfolding startRunning_def Let_def
  by (intro safe_bind_timeNow safe_bind [OF defragCondition_frame]) (auto intro: safe_return)

lemma finalizeDefrag_stored:
  assumes "pendingRows (dst_Members (ed_Status df)) = 0"
  shows "safe (checkMon (sweepWrite (dst_Members (ed_Status df)))) () (finalizeDefrag E r df c) (\<lambda>_ _. True)"
proof -
  let ?P = "sweepWrite (dst_Members (ed_Status df))"
  have loop: "emits ?P (disarmLoop E c as acc)" for as acc
    by (induction as arbitrary: acc) (auto intro!: emits_rules)
  have disarm: "emits ?P (maybeDisarm E r df c)"
    unfolding maybeDisarm_def disarmNoSpaceAlarms_def by (intro emits_rules loop) simp_all
  have ttl: "emits ?P (handleTTL E x)" for x
    unfolding handleTTL_def Let_def by (intro emits_rules) (simp add: assms)
  have stored: "safe (checkMon ?P) () (bindE (writeDefrag E (StatusUpdate x)) (handleTTL E)) (\<lambda>_ _. True)"
    if "isTerminalPhase (dst_Phase (ed_Status x))" "dst_Members (ed_Status x) = dst_Members (ed_Status df)" for x
    by (rule checkM.quiet_safe_any, intro emits_rules ttl) (simp_all add: sweepStored_def assms that)
  show ?thesis
    unfolding finalizeDefrag_def Let_def
    apply (intro checkM.safe_bind_quiet [OF disarm] safe_bind_timeNow safe_bind [OF defragCondition_frame])
    by (auto intro!: stored simp: completed_def isTerminalPhase_def)
qed

text \<open>A pass of a healthy cluster settles exactly one row of the work list, or ends the run.\<close>

lemma defragSweep_progress:
  assumes "clusterDefragHealthy c running bs = None" "distinct (map md_Name (workRows bs df))"
  shows "list_all (sweepWrite (workRows bs df)) (trace_of (defragSweep E r df c running cl bs))"
proof (rule check_trace)
  define df1 where "df1 = (if dst_Members (ed_Status df) = []
    then df\<lparr>ed_Status := (ed_Status df)\<lparr>dst_Members := plannedMembers bs\<rparr>\<rparr> else df)"
  then have rows: "dst_Members (ed_Status df1) = workRows bs df" by (simp add: workRows_def)
  have none: "pendingRows (dst_Members (ed_Status df1)) = 0" if "firstPendingMember df1 = None"
    using that by (simp add: firstPendingMember_def find_None_iff pendingRows_def filter_empty_conv)
  show "safe (checkMon (sweepWrite (workRows bs df))) () (defragSweep E r df c running cl bs) (\<lambda>_ _. True)"
    unfolding defragSweep_def assms(1) option.case Let_def df1_def [symmetric]
  proof (rule safe_case_option)
    show "safe (checkMon (sweepWrite (workRows bs df))) () (finalizeDefrag E r df1 cl) (\<lambda>_ _. True)"
      if "firstPendingMember df1 = None"
      using finalizeDefrag_stored [OF none [OF that]] by (simp add: rows)
    fix nxt
    assume "firstPendingMember df1 = Some nxt"
    then have "List.find (\<lambda>m. md_Outcome m = DefragOutcomePending) (workRows bs df) = Some nxt"
      by (simp add: firstPendingMember_def rows)
    then show "safe (checkMon (sweepWrite (workRows bs df))) ()
        (State_Monad.bind (startRunning E df1) (\<lambda>df2. defragNext E r df2 c cl bs nxt)) (\<lambda>_ _. True)"
      by (intro safe_bind [OF startRunning_status] checkM.quiet_safe_any defragNext_stored)
        (auto simp: rows assms(2))
  qed
qed

text \<open>
  A pass of an unfinished run on a healthy cluster whose members have different names, one of whose
  status writes succeeds: the stored run afterwards has the status that was written.
\<close>

definition healthyPass :: "EtcdDefrag \<Rightarrow> EtcdDefrag \<Rightarrow> bool" where
  "healthyPass df df' \<longleftrightarrow> \<not> isTerminalPhase (dst_Phase (ed_Status df)) \<and>
     (\<exists>E r c running cl bs d reply. clusterDefragHealthy c running bs = None \<and> map mb_member bs = running \<and>
        distinct (map emName running) \<and>
        EDefrag (KWrite (StatusUpdate d) (Inr reply)) \<in> set (trace_of (defragSweep E r df c running cl bs)) \<and>
        ed_Status df' = ed_Status d)"

lemma plannedMembers_distinct:
  "distinct (map (\<lambda>b. emName (mb_member b)) bs) \<Longrightarrow> distinct (map md_Name (plannedMembers bs))"
  by (induction bs) (auto simp: plannedMembers_def plannedRow_def)

lemma healthyPass_step:
  assumes "healthyPass df df'" "distinct (map md_Name (dst_Members (ed_Status df)))"
  shows "\<exists>rows. sweepStored rows (ed_Status df') \<and> distinct (map md_Name rows) \<and>
    (dst_Members (ed_Status df) \<noteq> [] \<longrightarrow> rows = dst_Members (ed_Status df))"
proof -
  from assms(1) obtain E r c running cl bs d reply where
    h: "clusterDefragHealthy c running bs = None" "map mb_member bs = running" "distinct (map emName running)"
      "EDefrag (KWrite (StatusUpdate d) (Inr reply)) \<in> set (trace_of (defragSweep E r df c running cl bs))"
    and d: "ed_Status df' = ed_Status d"
    unfolding healthyPass_def by blast
  from h(2,3) have "distinct (map (\<lambda>b. emName (mb_member b)) bs)" by (auto simp: comp_def)
  then have dist: "distinct (map md_Name (workRows bs df))"
    using assms(2) by (simp add: workRows_def plannedMembers_distinct)
  with defragSweep_progress [OF h(1) dist, of E r cl] h(4) have "sweepStored (workRows bs df) (ed_Status d)"
    by (fastforce simp: list_all_iff)
  then show ?thesis using d dist by (auto simp: workRows_def)
qed

lemma healthyPass_bound:
  assumes "(healthyPass ^^ n) df df'" "distinct (map md_Name (dst_Members (ed_Status df)))" "dst_Members (ed_Status df) \<noteq> []"
  shows "n \<le> Suc (pendingRows (dst_Members (ed_Status df))) \<and>
    length (dst_Members (ed_Status df')) = length (dst_Members (ed_Status df)) \<and>
    (isTerminalPhase (dst_Phase (ed_Status df)) \<longrightarrow> n = 0)"
  using assms
proof (induction n arbitrary: df)
  case (Suc n)
  then obtain mid where mid: "healthyPass df mid" "(healthyPass ^^ n) mid df'" by (blast dest: relpowp_Suc_D2)
  from healthyPass_step [OF mid(1) Suc.prems(2)] Suc.prems(3)
  have st: "sweepStored (dst_Members (ed_Status df)) (ed_Status mid)" by auto
  then have names: "map md_Name (dst_Members (ed_Status mid)) = map md_Name (dst_Members (ed_Status df))"
    by (simp add: sweepStored_def)
  then have len: "length (dst_Members (ed_Status mid)) = length (dst_Members (ed_Status df))" by (metis length_map)
  from names Suc.prems(2,3) have "distinct (map md_Name (dst_Members (ed_Status mid)))" "dst_Members (ed_Status mid) \<noteq> []"
    by auto
  note IH = Suc.IH [OF mid(2) this]
  from mid(1) have "\<not> isTerminalPhase (dst_Phase (ed_Status df))" by (simp add: healthyPass_def)
  with IH st len show ?case by (auto simp: sweepStored_def split: if_splits)
qed simp

text \<open>
  C32. A defragmentation run ends: a run whose rows have different names takes at most one pass more
  than it has members, as every pass on a healthy cluster whose status write succeeds settles one
  member, whether it is defragmented, skipped, failed or gone, and the pass that finds none pending
  ends the run.
\<close>

theorem defragRun_terminates:
  assumes "(healthyPass ^^ n) df df'" "distinct (map md_Name (dst_Members (ed_Status df)))"
  shows "n \<le> Suc (length (dst_Members (ed_Status df')))"
proof (cases n)
  case (Suc k)
  have pending: "pendingRows rows \<le> length rows" for rows by (simp add: pendingRows_def)
  show ?thesis
  proof (cases "dst_Members (ed_Status df) = []")
    case True
    from assms(1) Suc obtain mid where mid: "healthyPass df mid" "(healthyPass ^^ k) mid df'"
      by (blast dest: relpowp_Suc_D2)
    from healthyPass_step [OF mid(1) assms(2)] obtain rows
      where st: "sweepStored rows (ed_Status mid)" "distinct (map md_Name rows)" by blast
    then have names: "map md_Name (dst_Members (ed_Status mid)) = map md_Name rows" by (simp add: sweepStored_def)
    show ?thesis
    proof (cases "isTerminalPhase (dst_Phase (ed_Status mid))")
      case True
      then have "\<not> healthyPass mid x" for x by (simp add: healthyPass_def)
      then have "k = 0" using mid(2) by (cases k; blast dest: relpowp_Suc_D2)
      then show ?thesis by (simp add: Suc)
    next
      case False
      then have lt: "pendingRows (dst_Members (ed_Status mid)) < pendingRows rows" and ne: "rows \<noteq> []"
        using st(1) by (auto simp: sweepStored_def pendingRows_def split: if_splits)
      from names st(2) ne have "distinct (map md_Name (dst_Members (ed_Status mid)))" "dst_Members (ed_Status mid) \<noteq> []"
        by auto
      from healthyPass_bound [OF mid(2) this] lt pending [of rows] names show ?thesis
        by (simp add: Suc) (metis length_map le_trans less_eq_Suc_le)
    qed
  next
    case False
    from healthyPass_bound [OF assms False] pending [of "dst_Members (ed_Status df)"] show ?thesis by simp
  qed
qed simp

definition sampleDefrag :: EtcdDefrag where
  "sampleDefrag = \<lparr>ed_Meta = emptyMeta\<lparr>om_Name := ''run'', om_Namespace := ''prod''\<rparr>,
     ed_Spec = \<lparr>ds_ClusterRef = ''etcd'', ds_Rule = None, ds_TTLSecondsAfterFinished = None\<rparr>,
     ed_Status = \<lparr>dst_Phase = DefragPhaseNone, dst_StartedAt = None, dst_CompletedAt = None, dst_Defragmented = 0,
       dst_Members = [], dst_Conditions = []\<rparr>\<rparr>"

text \<open>An API server that holds the run.\<close>

definition defragEnv :: env where
  "defragEnv = sampleEnv\<lparr>e_kube := emptyKube\<lparr>k_defrags := emptyClient\<lparr>kc_get := (\<lambda>_ _ _. Inr sampleDefrag)\<rparr>\<rparr>\<rparr>"

definition skippedStatus :: EtcdDefragStatus where
  "skippedStatus = \<lparr>dst_Phase = DefragPhaseRunning, dst_StartedAt = Some 0, dst_CompletedAt = None, dst_Defragmented = 0,
     dst_Members = [\<lparr>md_Name = ''etcd-0'', md_Role = MemberRoleLeader, md_Outcome = DefragOutcomeSkipped, md_Reason = ''BelowThreshold'',
       md_DBSizeBefore = 1000, md_DBSizeAfter = 0, md_ReclaimedBytes = 0, md_FinishedAt = Some 0\<rparr>],
     dst_Conditions = [\<lparr>co_Type = ''DefragChecked'', co_Status = ConditionTrue, co_Reason = ''Running'',
       co_Message = ''defragmenting members'', co_ObservedGeneration = 0, co_LastTransitionTime = 0\<rparr>]\<rparr>"

lemma oneMember_healthy: "clusterDefragHealthy oneMemberCluster [sampleMember] [sampleBackend] = None"
proof -
  have "Contains ''memberID:7 alarm:NOSPACE'' ''alarm:NOSPACE''" by code_simp
  then show ?thesis
    using clusterDefragHealthy_gate [of "[sampleBackend]" "[sampleMember]" oneMemberCluster]
    by (simp add: sampleBackend_def oneMemberCluster_def blockingStatusError_None leaderStatus_def)
qed

lemma sampleDefrag_pass: "healthyPass sampleDefrag (sampleDefrag\<lparr>ed_Status := skippedStatus\<rparr>)"
proof -
  let ?df = "sampleDefrag\<lparr>ed_Status := skippedStatus\<rparr>"
  have plan: "plannedMembers [sampleBackend] = [\<lparr>md_Name = ''etcd-0'', md_Role = MemberRoleLeader, md_Outcome = DefragOutcomePending,
      md_Reason = '''', md_DBSizeBefore = 0, md_DBSizeAfter = 0, md_ReclaimedBytes = 0, md_FinishedAt = None\<rparr>]"
    by (simp add: plannedMembers_def plannedRow_def sampleBackend_def sampleMember_def leaderStatus_def isLeaderStatus_def)
  have backend: "mb_status sampleBackend = Some leaderStatus" "emName (mb_member sampleBackend) = ''etcd-0''" "mb_after sampleBackend = None"
    by (simp_all add: sampleBackend_def sampleMember_def)
  have rule: "defragRuleTriggered E None 1000 10 q = (False, ''BelowThreshold'')" for E q
    by (simp add: wrap64_def Let_def defragRuleTriggered_def)
  have "EDefrag (KWrite (StatusUpdate ?df) (Inr ?df))
    \<in> set (trace_of (defragSweep defragEnv \<lparr>dfr_Recorder = False\<rparr> sampleDefrag oneMemberCluster [sampleMember] cl [sampleBackend]))" for cl
    unfolding trace_of_def defragSweep_def oneMember_healthy option.case
    by (simp add: sampleDefrag_def plan firstPendingMember_def startRunning_def defragCondition_def timeNow_def defragNext_def backendByName_def
      backend rule persistAndRequeue_def defragEnv_def sampleEnv_defs markMember_def markedRow_def written_def
      skippedStatus_def leaderStatus_def setDefragCondition_def proc_defs numeral_eq_Suc wantCondition_def
      emptyMeta_def)
  moreover have "map mb_member [sampleBackend] = [sampleMember]" "distinct (map emName [sampleMember])"
    "\<not> isTerminalPhase (dst_Phase (ed_Status sampleDefrag))"
    by (simp_all add: sampleBackend_def sampleDefrag_def isTerminalPhase_def)
  ultimately show ?thesis
    unfolding healthyPass_def using oneMember_healthy by (intro conjI exI) (assumption | rule refl)+
qed

theorem defragRun_terminates_witness:
  "1 \<le> Suc (length (dst_Members (ed_Status (sampleDefrag\<lparr>ed_Status := skippedStatus\<rparr>))))"
proof (rule defragRun_terminates)
  show "(healthyPass ^^ 1) sampleDefrag (sampleDefrag\<lparr>ed_Status := skippedStatus\<rparr>)"
    unfolding relpowp_1 by (rule sampleDefrag_pass)
qed (simp add: sampleDefrag_def)

end
