(* ===== verification/PolicyController.thy ===== *)
theory PolicyController
  imports DefragController
begin

text \<open>
  The defragmentation policy controller (\<^verbatim>\<open>src/controllers/etcddefragpolicy_controller.go\<close>): it stamps out
  one run per tick of a cron schedule, skips ticks while a run is active or past their deadline, and
  trims the history. The cron and time zone packages are parameters of the environment; instants,
  durations and the way they are printed are modelled here.
\<close>

section \<open>Time arithmetic and text\<close>

text \<open>\<^verbatim>\<open>time.Time.Sub\<close> saturates.\<close>

definition timeSub :: "gotime \<Rightarrow> gotime \<Rightarrow> duration" where
  "timeSub a b = max (- (2 ^ 63)) (min (2 ^ 63 - 1) (a - b))"

text \<open>Integer division of Go, which truncates towards zero.\<close>

definition goQuot :: "int \<Rightarrow> int \<Rightarrow> int" where
  "goQuot a b = (if a \<ge> 0 then a div b else - ((- a) div b))"

definition unixSeconds :: "gotime \<Rightarrow> int" where
  "unixSeconds t = t div seconds 1"

definition padLeft :: "nat \<Rightarrow> string \<Rightarrow> string" where
  "padLeft w s = replicate (w - length s) (CHR ''0'') @ s"

text \<open>The date of a day number counted from 1970-01-01 in the proleptic Gregorian calendar: years start
  in March, so that the leap day is the last of the year, and 400 years have 146097 days.\<close>

definition civilFromDays :: "int \<Rightarrow> int \<times> int \<times> int" where
  "civilFromDays z =
     (let z' = z + 719468;
          era = z' div 146097;
          doe = z' - era * 146097;
          yoe = (doe - doe div 1460 + doe div 36524 - doe div 146096) div 365;
          doy = doe - (365 * yoe + yoe div 4 - yoe div 100);
          mp = (5 * doy + 2) div 153;
          d = doy - (153 * mp + 2) div 5 + 1;
          m = (if mp < 10 then mp + 3 else mp - 9)
      in (yoe + era * 400 + (if m \<le> 2 then 1 else 0), m, d))"

definition showPadded :: "nat \<Rightarrow> int \<Rightarrow> string" where
  "showPadded w n = (if n < 0 then CHR ''-'' # padLeft w (showNat (nat (- n))) else padLeft w (showNat (nat n)))"

text \<open>\<^verbatim>\<open>t.UTC().Format(time.RFC3339)\<close>.\<close>

definition tickString :: "gotime \<Rightarrow> string" where
  "tickString t =
     (let s = unixSeconds t; (y, mo, d) = civilFromDays (s div 86400); sod = s mod 86400
      in showPadded 4 y @ ''-'' @ showPadded 2 mo @ ''-'' @ showPadded 2 d @ ''T'' @
         showPadded 2 (sod div 3600) @ '':'' @ showPadded 2 (sod mod 3600 div 60) @ '':'' @ showPadded 2 (sod mod 60) @ ''Z'')"

text \<open>\<^verbatim>\<open>Duration.String\<close> of a duration of whole seconds: hours and minutes only when they are needed.\<close>

definition durationString :: "duration \<Rightarrow> string" where
  "durationString d =
     (let u = goQuot \<bar>d\<bar> (seconds 1) in
      (if d < 0 then ''-'' else '''') @
      (if u \<ge> 3600 then showInt (u div 3600) @ ''h'' else '''') @
      (if u \<ge> 60 then showInt (u div 60 mod 60) @ ''m'' else '''') @
      showInt (u mod 60) @ ''s'')"

definition truncSecond :: "duration \<Rightarrow> duration" where
  "truncSecond d = goQuot d (seconds 1) * seconds 1"

section \<open>Pure helpers\<close>

type_synonym schedule = "gotime \<Rightarrow> gotime"

abbreviation LabelDefragPolicy :: string where
  "LabelDefragPolicy \<equiv> ''etcd-operator.cozystack.io/defrag-policy''"

definition parseSchedule :: "env \<Rightarrow> DefragSchedule \<Rightarrow> goerror + schedule" where
  "parseSchedule E s =
     (let tz = (if sch_Timezone s = '''' then ''UTC'' else sch_Timezone s) in
      case l_loadLocation (e_lib E) tz of
        Some err \<Rightarrow> Inl (wrapf (''unknown timezone '' @ goQuote tz) err)
      | None \<Rightarrow> l_cronParse (e_lib E) (''CRON_TZ='' @ tz @ '' '' @ sch_Cron s))"

abbreviation defragPolicyMaxCatchup :: nat where "defragPolicyMaxCatchup \<equiv> 100"

definition errTooManyMissed :: goerror where
  "errTooManyMissed = errorf ''too many missed ticks; check the clock or set spec.startingDeadlineSeconds''"

text \<open>The walk after the first tick; \<open>n\<close> counts what is left of \<^verbatim>\<open>maxCatchup\<close>.\<close>

fun nextLoop :: "schedule \<Rightarrow> gotime \<Rightarrow> nat \<Rightarrow> gotime \<Rightarrow> goerror + gotime option \<times> gotime" where
  "nextLoop sched now n last' =
     (let t = sched last' in
      if t > now then Inr (Some last', t)
      else case n of 0 \<Rightarrow> Inl errTooManyMissed | Suc k \<Rightarrow> nextLoop sched now k t)"

declare nextLoop.simps [simp del]

definition nextSchedule :: "schedule \<Rightarrow> gotime \<Rightarrow> gotime \<Rightarrow> nat \<Rightarrow> goerror + gotime option \<times> gotime" where
  "nextSchedule sched earliest now maxCatchup =
     (let t = sched earliest in
      if t > now then Inr (None, t) else nextLoop sched now maxCatchup t)"

fun widestGap :: "schedule \<Rightarrow> nat \<Rightarrow> gotime \<Rightarrow> duration \<Rightarrow> duration" where
  "widestGap sched 0 t widest = widest"
| "widestGap sched (Suc k) t widest =
     (let n = sched t; d = timeSub n t in widestGap sched k n (if d > widest then d else widest))"

definition lookbackFloor :: "schedule \<Rightarrow> gotime \<Rightarrow> duration" where
  "lookbackFloor sched now = wrap64 (2 * widestGap sched 4 (sched now) 0)"

definition requeueFor :: "gotime \<Rightarrow> gotime \<Rightarrow> duration" where
  "requeueFor nxt now = (let d = timeSub nxt now in if d > 0 then d else seconds 1)"

definition concurrencyPolicy :: "EtcdDefragPolicy \<Rightarrow> ConcurrencyPolicy" where
  "concurrencyPolicy pol =
     (if ps_ConcurrencyPolicy (ep_Spec pol) = ConcurrencyUnset then ForbidConcurrent else ps_ConcurrencyPolicy (ep_Spec pol))"

definition ownedRuns :: "env \<Rightarrow> EtcdDefrag list \<Rightarrow> EtcdDefragPolicy \<Rightarrow> EtcdDefrag list" where
  "ownedRuns E items pol = filter (\<lambda>d. isControlledBy E (ed_Meta d) (ep_Meta pol)) items"

definition partitionDefragRuns :: "EtcdDefrag list \<Rightarrow> EtcdDefrag list \<times> EtcdDefrag list" where
  "partitionDefragRuns items =
     (filter (\<lambda>d. \<not> isTerminalPhase (dst_Phase (ed_Status d))) items,
      filter (\<lambda>d. isTerminalPhase (dst_Phase (ed_Status d))) items)"

definition defragRunRefs :: "EtcdDefrag list \<Rightarrow> string list" where
  "defragRunRefs items = sortSlice (<) (map (\<lambda>d. om_Name (ed_Meta d)) items)"

fun latestLoop :: "gotime option \<Rightarrow> EtcdDefrag list \<Rightarrow> gotime option" where
  "latestLoop best [] = best"
| "latestLoop best (d # ds) =
     latestLoop
       (if dst_Phase (ed_Status d) \<noteq> DefragPhaseComplete then best
        else case dst_CompletedAt (ed_Status d) of
          None \<Rightarrow> best
        | Some t \<Rightarrow> (case best of None \<Rightarrow> Some t | Some b \<Rightarrow> if t > b then Some t else best)) ds"

definition latestSuccessfulTime :: "EtcdDefrag list \<Rightarrow> gotime option" where
  "latestSuccessfulTime items = latestLoop None items"

definition defragFinishTime :: "EtcdDefrag \<Rightarrow> gotime" where
  "defragFinishTime d = (case dst_CompletedAt (ed_Status d) of Some t \<Rightarrow> t | None \<Rightarrow> om_CreationTimestamp (ed_Meta d))"

section \<open>Operations\<close>

record EtcdDefragPolicyReconciler =
  pr_Recorder :: bool \<comment> \<open>an event recorder is set\<close>

definition policyEvent :: "EtcdDefragPolicyReconciler \<Rightarrow> string \<Rightarrow> string \<Rightarrow> string \<Rightarrow> unit proc" where
  "policyEvent r ty reason msg = (if pr_Recorder r then recordEvent ty reason msg else return ())"

definition policyCondition :: "env \<Rightarrow> EtcdDefragPolicy \<Rightarrow> ConditionStatus \<Rightarrow> string \<Rightarrow> string \<Rightarrow> EtcdDefragPolicy proc" where
  "policyCondition E pol s reason msg = do {
     now \<leftarrow> timeNow E;
     return (setDefragPolicyCondition pol now s reason msg)
   }"

definition buildDefrag :: "EtcdDefragPolicy \<Rightarrow> gotime \<Rightarrow> EtcdDefrag" where
  "buildDefrag pol tick =
     \<lparr>ed_Meta = emptyMeta\<lparr>om_Name := om_Name (ep_Meta pol) @ ''-'' @ showInt (goQuot (unixSeconds tick) 60),
        om_Namespace := om_Namespace (ep_Meta pol),
        om_Labels := fmupd LabelCluster (ps_ClusterRef (ep_Spec pol)) (fmupd LabelDefragPolicy (om_Name (ep_Meta pol)) fmempty)\<rparr>,
      ed_Spec = \<lparr>ds_ClusterRef = ps_ClusterRef (ep_Spec pol), ds_Rule = ps_Rule (ep_Spec pol),
        ds_TTLSecondsAfterFinished = ps_TTLSecondsAfterFinished (ep_Spec pol)\<rparr>,
      ed_Status = \<lparr>dst_Phase = DefragPhaseNone, dst_StartedAt = None, dst_CompletedAt = None, dst_Defragmented = 0,
        dst_Members = [], dst_Conditions = []\<rparr>\<rparr>"

fun gcLoop :: "env \<Rightarrow> EtcdDefrag list \<Rightarrow> (goerror + unit) proc" where
  "gcLoop E [] = return (Inr ())"
| "gcLoop E (d # ds) = do {
     w \<leftarrow> writeDefrag E (Delete d);
     (case w of
        Inl err \<Rightarrow> if IsNotFound err then gcLoop E ds else return (Inl err)
      | Inr _ \<Rightarrow> gcLoop E ds)
   }"

text \<open>A negative limit, which the API rejects, would run past the end of the list.\<close>

definition gcHistory :: "env \<Rightarrow> EtcdDefrag list \<Rightarrow> int \<Rightarrow> (goerror + unit) proc" where
  "gcHistory E finished limit =
     (if int (length finished) \<le> limit then return (Inr ())
      else bindE (gcLoop E (take (nat (int (length finished) - limit)) (sortSlice (\<lambda>a b. defragFinishTime a < defragFinishTime b) finished)))
        (\<lambda>_. return (if limit < 0 then Inl indexOutOfRange else Inr ())))"

definition updatePolicyStatus :: "env \<Rightarrow> EtcdDefragPolicy \<Rightarrow> outcome \<Rightarrow> outcome proc" where
  "updatePolicyStatus E pol res = do {
     u \<leftarrow> writePolicy E (StatusUpdate pol);
     return (case u of Inl err \<Rightarrow> Inl err | Inr _ \<Rightarrow> res)
   }"

text \<open>The window of ticks to consider: how far back the walk starts.\<close>

definition walkStart :: "EtcdDefragPolicy \<Rightarrow> schedule \<Rightarrow> gotime \<Rightarrow> gotime \<times> gotime" where
  "walkStart pol sched now =
     (let anchor = (case pst_LastScheduleTime (ep_Status pol) of Some t \<Rightarrow> t | None \<Rightarrow> om_CreationTimestamp (ep_Meta pol));
          cutoff = (case ps_StartingDeadlineSeconds (ep_Spec pol) of
              Some d \<Rightarrow> now + wrap64 (wrap64 (- d) * seconds 1)
            | None \<Rightarrow> now + wrap64 (- lookbackFloor sched now))
      in (anchor, if cutoff > anchor then cutoff else anchor))"

definition reportDropped ::
  "EtcdDefragPolicyReconciler \<Rightarrow> EtcdDefragPolicy \<Rightarrow> schedule \<Rightarrow> gotime \<Rightarrow> gotime \<Rightarrow> gotime \<Rightarrow> unit proc" where
  "reportDropped r pol sched anchor earliest now =
     (let dropped = sched anchor in
      if earliest > anchor \<and> dropped < earliest then
        policyEvent r ''Warning'' ''MissedSchedule''
          (''skipped scheduled time '' @ tickString dropped @ '': '' @ durationString (truncSecond (timeSub now dropped)) @ '' late, '' @
           (case ps_StartingDeadlineSeconds (ep_Spec pol) of
              None \<Rightarrow> ''further behind than one schedule period''
            | Some d \<Rightarrow> ''past the '' @ showInt d @ ''s starting deadline''))
      else return ())"

definition withLastSchedule :: "gotime \<Rightarrow> EtcdDefragPolicy \<Rightarrow> EtcdDefragPolicy" where
  "withLastSchedule tick pol = pol\<lparr>ep_Status := (ep_Status pol)\<lparr>pst_LastScheduleTime := Some tick\<rparr>\<rparr>"

text \<open>From \<^verbatim>\<open>buildDefrag\<close> to the end of \<^verbatim>\<open>Reconcile\<close>.\<close>

definition stampRun ::
  "env \<Rightarrow> EtcdDefragPolicyReconciler \<Rightarrow> EtcdDefragPolicy \<Rightarrow> gotime \<Rightarrow> gotime \<Rightarrow> gotime \<Rightarrow> outcome proc" where
  "stampRun E r pol tick nxt now =
     (let run = buildDefrag pol tick in
      bindE (liftE (setControllerReference E ''EtcdDefragPolicy'' (ep_Meta pol) (ed_Meta run))) (\<lambda>meta. do {
        c \<leftarrow> writeDefrag E (Create (run\<lparr>ed_Meta := meta\<rparr>));
        (case c of
           Inl err \<Rightarrow>
             if \<not> IsAlreadyExists err then do {
               pol1 \<leftarrow> policyCondition E pol ConditionFalse ''StampFailed''
                        (''cannot stamp EtcdDefrag for '' @ tickString tick @ '': '' @ err_msg err);
               updatePolicyStatus E pol1 (Inl err)
             }
             else updatePolicyStatus E (withLastSchedule tick pol) (requeueAfter (requeueFor nxt now))
         | Inr created \<Rightarrow> do {
             _ \<leftarrow> policyEvent r ''Normal'' ''StampedRun''
                    (''stamped EtcdDefrag '' @ goQuote (om_Name (ed_Meta created)) @ '' for scheduled time '' @ tickString tick);
             updatePolicyStatus E (withLastSchedule tick (pol\<lparr>ep_Status := (ep_Status pol)\<lparr>pst_Active :=
                pst_Active (ep_Status pol) @ [om_Name (ed_Meta created)]\<rparr>\<rparr>)) (requeueAfter (requeueFor nxt now))
           })
      }))"

text \<open>From the tick computation to the decision.\<close>

definition scheduleRun ::
  "env \<Rightarrow> EtcdDefragPolicyReconciler \<Rightarrow> EtcdDefragPolicy \<Rightarrow> EtcdDefrag list \<Rightarrow> schedule \<Rightarrow> outcome proc" where
  "scheduleRun E r pol active sched = do {
     now \<leftarrow> timeNow E;
     (let (anchor, earliest) = walkStart pol sched now in do {
        _ \<leftarrow> reportDropped r pol sched anchor earliest now;
        (case nextSchedule sched earliest now defragPolicyMaxCatchup of
           Inl err \<Rightarrow> do {
             pol1 \<leftarrow> policyCondition E pol ConditionFalse ''TooManyMissedTicks'' (err_msg err);
             updatePolicyStatus E pol1 noRequeue
           }
         | Inr (None, nxt) \<Rightarrow> updatePolicyStatus E pol (requeueAfter (requeueFor nxt now))
         | Inr (Some tick, nxt) \<Rightarrow>
             if concurrencyPolicy pol = ForbidConcurrent \<and> active \<noteq> [] then do {
               _ \<leftarrow> policyEvent r ''Normal'' ''ConcurrencyForbidden''
                      (''skipped scheduled time '' @ tickString tick @ '': '' @ showNat (length active) @ '' run(s) still active'');
               updatePolicyStatus E (withLastSchedule tick pol) (requeueAfter (requeueFor nxt now))
             }
             else stampRun E r pol tick nxt now)
      })
   }"

definition observeRuns :: "EtcdDefrag list \<Rightarrow> EtcdDefrag list \<Rightarrow> EtcdDefragPolicy \<Rightarrow> EtcdDefragPolicy" where
  "observeRuns active finished pol =
     (let st = (ep_Status pol)\<lparr>pst_Active := defragRunRefs active\<rparr>
      in pol\<lparr>ep_Status := (case latestSuccessfulTime finished of None \<Rightarrow> st | Some t \<Rightarrow> st\<lparr>pst_LastSuccessfulTime := Some t\<rparr>)\<rparr>)"

definition policyReconcile :: "env \<Rightarrow> EtcdDefragPolicyReconciler \<Rightarrow> nsname \<Rightarrow> outcome proc" where
  "policyReconcile E r req = do {
     g \<leftarrow> getPolicy E req;
     (case g of
        Inl err \<Rightarrow> return (if IsNotFound err then noRequeue else Inl err)
      | Inr pol0 \<Rightarrow>
          bindE (listDefrags E (om_Namespace (ep_Meta pol0)) (fmupd LabelDefragPolicy (om_Name (ep_Meta pol0)) fmempty)) (\<lambda>items.
            (let (active, finished) = partitionDefragRuns (ownedRuns E items pol0);
                 pol = observeRuns active finished pol0
             in bindE (case ps_HistoryLimit (ep_Spec pol) of None \<Rightarrow> return (Inr ()) | Some l \<Rightarrow> gcHistory E finished l) (\<lambda>_.
                if ps_Suspend (ep_Spec pol) = Some True then do {
                  pol1 \<leftarrow> policyCondition E pol ConditionFalse ''Suspended'' ''scheduling is suspended'';
                  updatePolicyStatus E pol1 noRequeue
                }
                else case parseSchedule E (ps_Schedule (ep_Spec pol)) of
                  Inl err \<Rightarrow> do {
                    pol1 \<leftarrow> policyCondition E pol ConditionFalse ''InvalidSchedule''
                             (''cannot parse schedule '' @ goQuote (sch_Cron (ps_Schedule (ep_Spec pol))) @ '': '' @ err_msg err);
                    updatePolicyStatus E pol1 noRequeue
                  }
                | Inr sched \<Rightarrow> do {
                    pol1 \<leftarrow> policyCondition E pol ConditionTrue ''Scheduled'' ''policy is scheduling runs'';
                    scheduleRun E r pol1 active sched
                  }))))
   }"

end
