(* ===== verification/PolicyContract.thy ===== *)
theory PolicyContract
  imports PolicyController
begin

text \<open>
  Correctness of defragmentation policies: the walk over missed ticks against its specification by
  sets of ticks, and what a pass may stamp, delete and record.
\<close>

section \<open>Schedules\<close>

text \<open>
  What the cron package documents of \<^verbatim>\<open>Schedule.Next\<close>: the next tick is later than the given instant, and
  it stays the next one until it is reached. Schedules that never fire again, for which \<^verbatim>\<open>Next\<close> returns
  the zero time, are not lawful.
\<close>

definition cronLaw :: "schedule \<Rightarrow> bool" where
  "cronLaw sched \<longleftrightarrow> (\<forall>t. t < sched t) \<and> (\<forall>t u. t \<le> u \<and> u < sched t \<longrightarrow> sched u = sched t)"

definition isTick :: "schedule \<Rightarrow> gotime \<Rightarrow> bool" where
  "isTick sched x \<longleftrightarrow> sched (x - 1) = x"

definition ticksIn :: "schedule \<Rightarrow> gotime \<Rightarrow> gotime \<Rightarrow> gotime set" where
  "ticksIn sched a b = {x. isTick sched x \<and> a < x \<and> x \<le> b}"

text \<open>The specification: the latest tick of the window, unless the window holds too many.\<close>

definition latestTick :: "schedule \<Rightarrow> gotime \<Rightarrow> gotime \<Rightarrow> nat \<Rightarrow> goerror + gotime option \<times> gotime" where
  "latestTick sched earliest now maxCatchup =
     (let T = ticksIn sched earliest now in
      if card T > Suc maxCatchup then Inl errTooManyMissed
      else Inr (if T = {} then None else Some (Max T), sched (max earliest now)))"

lemma finite_ticksIn [simp]: "finite (ticksIn sched a b)"
  by (rule finite_subset [of _ "{a<..b}"]) (auto simp: ticksIn_def)

lemma isTick_next: "cronLaw sched \<Longrightarrow> isTick sched (sched t)"
  by (auto simp: cronLaw_def isTick_def)

lemma ticksIn_none:
  assumes "cronLaw sched" "b < sched a"
  shows "ticksIn sched a b = {}"
proof -
  have "sched (x - 1) = sched a" if "a < x" "x \<le> b" for x
    using assms that by (auto simp: cronLaw_def)
  then show ?thesis using assms(2) by (fastforce simp: ticksIn_def isTick_def)
qed

lemma ticksIn_next:
  assumes "cronLaw sched" "sched a \<le> b"
  shows "ticksIn sched a b = insert (sched a) (ticksIn sched (sched a) b)"
proof -
  have gap: "\<not> isTick sched x" if "a < x" "x < sched a" for x
  proof -
    have "a \<le> x - 1" "x - 1 < sched a" using that by auto
    then have "sched (x - 1) = sched a" using assms(1) unfolding cronLaw_def by blast
    then show ?thesis using that by (simp add: isTick_def)
  qed
  have "a < sched a" using assms(1) by (simp add: cronLaw_def)
  with gap assms isTick_next [OF assms(1)] show ?thesis
    by (auto simp: ticksIn_def) (metis linorder_neqE_linordered_idom)
qed

lemma nextLoop_latest:
  assumes "cronLaw sched" "t \<le> now"
  shows "nextLoop sched now n t =
     (if card (ticksIn sched t now) > n then Inl errTooManyMissed
      else Inr (Some (Max (insert t (ticksIn sched t now))), sched now))"
  using assms(2)
proof (induction n arbitrary: t)
  case 0
  show ?case
  proof (cases "sched t > now")
    case True
    then have "sched now = sched t" using assms(1) 0 by (auto simp: cronLaw_def)
    then show ?thesis using True ticksIn_none [OF assms(1) True] by (simp add: nextLoop.simps [of _ _ 0] Let_def)
  next
    case False
    then show ?thesis using ticksIn_next [OF assms(1), of t now] by (simp add: nextLoop.simps [of _ _ 0] Let_def card_gt_0_iff)
  qed
next
  case (Suc k)
  show ?case
  proof (cases "sched t > now")
    case True
    then have "sched now = sched t" using assms(1) Suc.prems by (auto simp: cronLaw_def)
    then show ?thesis using True ticksIn_none [OF assms(1) True] by (simp add: nextLoop.simps [of _ _ "Suc k"] Let_def)
  next
    case False
    then have ins: "ticksIn sched t now = insert (sched t) (ticksIn sched (sched t) now)"
      by (intro ticksIn_next [OF assms(1)]) simp
    have card: "card (ticksIn sched t now) = Suc (card (ticksIn sched (sched t) now))"
      unfolding ins by (rule card_insert_disjoint) (auto simp: ticksIn_def)
    have "t < sched t" using assms(1) by (simp add: cronLaw_def)
    moreover have "sched t \<le> Max (ticksIn sched t now)"
      by (rule Max_ge) (simp_all add: ins)
    moreover have "ticksIn sched t now \<noteq> {}" by (simp add: ins)
    ultimately have "Max (insert t (ticksIn sched t now)) = Max (ticksIn sched t now)"
      by (simp add: max_absorb2)
    then show ?thesis
      using Suc.IH [of "sched t"] False card by (simp add: nextLoop.simps [of _ _ "Suc k"] Let_def ins)
  qed
qed

lemma nextSchedule_latest:
  assumes "cronLaw sched"
  shows "nextSchedule sched earliest now maxCatchup = latestTick sched earliest now maxCatchup"
proof (cases "sched earliest > now")
  case True
  then have "sched (max earliest now) = sched earliest" using assms by (auto simp: cronLaw_def max_def)
  then show ?thesis using True ticksIn_none [OF assms True] by (simp add: nextSchedule_def latestTick_def)
next
  case False
  have lt: "earliest < sched earliest" using assms by (simp add: cronLaw_def)
  from False have ins: "ticksIn sched earliest now = insert (sched earliest) (ticksIn sched (sched earliest) now)"
    by (intro ticksIn_next [OF assms]) simp
  have "card (ticksIn sched earliest now) = Suc (card (ticksIn sched (sched earliest) now))"
    unfolding ins by (rule card_insert_disjoint) (auto simp: ticksIn_def)
  moreover have "max earliest now = now" using lt False by simp
  ultimately show ?thesis
    using False by (simp add: nextSchedule_def latestTick_def nextLoop_latest [OF assms] ins Let_def)
qed

text \<open>
  C33. Refinement: for every lawful schedule the walk over the missed ticks computes what its
  specification says: nothing when no tick of the window has passed, the latest one otherwise, an error
  exactly when the window holds more than 101 of them (the bound of the walk plus one), and always
  the first tick after the window.
\<close>

theorem nextSchedule_refines:
  assumes "cronLaw sched"
  shows "nextSchedule sched earliest now maxCatchup = latestTick sched earliest now maxCatchup"
  by (rule nextSchedule_latest [OF assms])

definition hourly :: schedule where
  "hourly t = (t div minutes 60 + 1) * minutes 60"

lemma hourly_lawful: "cronLaw hourly"
proof -
  have q: "t < (t div k + 1) * k" if "k > 0" for t k :: int
    using pos_mod_bound [OF that, of t] by (simp add: algebra_simps minus_mod_eq_mult_div [symmetric])
  have "u div k = t div k" if "k > 0" "t \<le> u" "u < (t div k + 1) * k" for t u k :: int
  proof (rule antisym)
    show "t div k \<le> u div k" using that(1,2) by (rule zdiv_mono1 [rotated])
    have "u div k * k \<le> u" using pos_mod_sign [OF that(1), of u] by (simp add: minus_mod_eq_div_mult [symmetric])
    then have "u div k * k < (t div k + 1) * k" using that(3) by simp
    then show "u div k \<le> t div k" using that(1) by (simp add: mult_less_cancel_right)
  qed
  with q show ?thesis
    unfolding cronLaw_def hourly_def by auto
qed

theorem nextSchedule_refines_witness:
  "cronLaw hourly \<and> nextSchedule hourly 0 (minutes 150) 100 = latestTick hourly 0 (minutes 150) 100 \<and>
   nextSchedule hourly 0 (minutes 150) 100 = Inr (Some (minutes 120), minutes 180)"
  using nextSchedule_refines [OF hourly_lawful, of 0 "minutes 150" 100] hourly_lawful
  by (simp add: nextSchedule_def nextLoop.simps hourly_def)

section \<open>Any schedule the parser returns\<close>

text \<open>
  What the cron package documents of \<^verbatim>\<open>Next\<close> for every schedule of five fields: the instant returned is later than
  the given one, or it is the zero time when the schedule does not fire within the five years that are
  searched (\<^verbatim>\<open>0 0 30 2 *\<close> never does). Nothing is said of what \<^verbatim>\<open>Next\<close> returns at other instants.
\<close>

definition sixYears :: duration where
  "sixYears = seconds (6 * 366 * 86400)"

definition nextLaw :: "schedule \<Rightarrow> bool" where
  "nextLaw sched \<longleftrightarrow> (\<forall>t. sched t = zeroTime \<or> t < sched t \<and> sched t \<le> t + sixYears)"

text \<open>A walk that has come to the zero time stays centuries behind the clock and ends in an error.\<close>

lemma nextLoop_behind:
  assumes "nextLaw sched"
  shows "last' \<le> zeroTime + int m * sixYears \<Longrightarrow> zeroTime + int (m + n + 1) * sixYears \<le> now \<Longrightarrow>
    nextLoop sched now n last' = Inl errTooManyMissed"
proof (induction n arbitrary: last' m)
  have step: "sched x \<le> zeroTime + int (Suc k) * sixYears" if "x \<le> zeroTime + int k * sixYears" for x k
  proof -
    have "sched x = zeroTime \<or> sched x \<le> x + sixYears" using assms by (auto simp: nextLaw_def)
    with that show ?thesis by (auto simp: sixYears_def algebra_simps)
  qed
  {
    case 0
    then show ?case using step [OF 0(1)] by (simp add: nextLoop.simps)
  next
    case (Suc n)
    have "zeroTime + int (Suc m) * sixYears \<le> now" using Suc.prems(2) by (simp add: sixYears_def algebra_simps)
    with step [OF Suc.prems(1)] have "\<not> now < sched last'" by linarith
    moreover have "nextLoop sched now n (sched last') = Inl errTooManyMissed"
      using Suc.prems(2) by (intro Suc.IH [OF step [OF Suc.prems(1)]]) simp
    ultimately show ?case by (simp add: nextLoop.simps [of _ _ "Suc n"] Let_def)
  }
qed

lemma nextLoop_zero:
  assumes "nextLaw sched" "n \<le> 100" "0 \<le> now"
  shows "nextLoop sched now n zeroTime = Inl errTooManyMissed"
proof (rule nextLoop_behind [OF assms(1), where m = 0])
  have "zeroTime + int (0 + n + 1) * sixYears \<le> zeroTime + 101 * sixYears" using assms(2) by (simp add: sixYears_def)
  also have "\<dots> \<le> 0" by (simp add: zeroTime_def sixYears_def)
  finally show "zeroTime + int (0 + n + 1) * sixYears \<le> now" using assms(3) by simp
qed simp

text \<open>A schedule that does not fire again is reported as too many missed ticks, whatever the clock says.\<close>

lemma nextSchedule_never:
  assumes "nextLaw sched" "sched earliest = zeroTime" "0 \<le> now"
  shows "nextSchedule sched earliest now 100 = Inl errTooManyMissed"
  using nextLoop_zero [OF assms(1) _ assms(3), of 100] assms(2,3) by (simp add: nextSchedule_def zeroTime_def)

lemma nextLoop_due:
  assumes "nextLaw sched" "0 \<le> now"
  shows "n \<le> 100 \<Longrightarrow> t < last' \<Longrightarrow> sched t = last' \<Longrightarrow> last' \<le> now \<Longrightarrow> nextLoop sched now n last' = Inr (Some tick, nxt) \<Longrightarrow>
    \<exists>t'. t \<le> t' \<and> t' < tick \<and> sched t' = tick \<and> tick \<le> now \<and> now < sched tick"
proof (induction n arbitrary: t last')
  case 0
  then show ?case by (auto simp: nextLoop.simps [of _ _ 0] Let_def split: if_splits)
next
  case (Suc n)
  show ?case
  proof (cases "now < sched last'")
    case True
    with Suc.prems show ?thesis by (auto simp: nextLoop.simps [of _ _ "Suc n"] Let_def)
  next
    case False
    with Suc.prems(5) have loop: "nextLoop sched now n (sched last') = Inr (Some tick, nxt)"
      by (simp add: nextLoop.simps [of _ _ "Suc n"] Let_def)
    have "sched last' \<noteq> zeroTime" using loop nextLoop_zero [OF assms(1) _ assms(2), of n] Suc.prems(1) by auto
    then have "last' < sched last'" using assms(1) by (auto simp: nextLaw_def)
    moreover have "n \<le> 100" "sched last' \<le> now" using Suc.prems(1) False by auto
    ultimately obtain t' where "last' \<le> t'" "t' < tick \<and> sched t' = tick \<and> tick \<le> now \<and> now < sched tick"
      using Suc.IH [OF _ _ refl _ loop] by blast
    moreover from this(1) have "t \<le> t'" using Suc.prems(2) by simp
    ultimately show ?thesis by blast
  qed
qed

lemma nextSchedule_due:
  assumes "nextLaw sched" "0 \<le> now" "nextSchedule sched earliest now 100 = Inr (Some tick, nxt)"
  shows "\<exists>t. earliest \<le> t \<and> t < tick \<and> sched t = tick \<and> tick \<le> now \<and> now < sched tick"
proof -
  from assms(3) have le: "sched earliest \<le> now" and loop: "nextLoop sched now 100 (sched earliest) = Inr (Some tick, nxt)"
    by (auto simp: nextSchedule_def Let_def split: if_splits)
  have "sched earliest \<noteq> zeroTime" using loop nextLoop_zero [OF assms(1) _ assms(2), of 100] by auto
  then have "earliest < sched earliest" using assms(1) by (auto simp: nextLaw_def)
  from nextLoop_due [OF assms(1,2) _ this refl le loop] show ?thesis by simp
qed

section \<open>The guards of a pass\<close>

record policyView =
  pv_pol :: "EtcdDefragPolicy option"
  pv_runs :: "EtcdDefrag list option"
  pv_created :: bool \<comment> \<open>a run was submitted\<close>
  pv_made :: "EtcdDefrag option" \<comment> \<open>it exists now\<close>

definition noPolicy :: policyView where
  "noPolicy = \<lparr>pv_pol = None, pv_runs = None, pv_created = False, pv_made = None\<rparr>"

text \<open>The last handled tick, the creation of the policy before there is one.\<close>

definition scheduleAnchor :: "EtcdDefragPolicy \<Rightarrow> gotime" where
  "scheduleAnchor pol =
     (case pst_LastScheduleTime (ep_Status pol) of Some t \<Rightarrow> t | None \<Rightarrow> om_CreationTimestamp (ep_Meta pol))"

text \<open>The tick is one of the policy's schedule (what \<^verbatim>\<open>Next\<close> returns at an instant not before the last handled tick), has
  passed, is the latest that has (the one after it is still to come), and is within the starting deadline.\<close>

definition dueTick :: "env \<Rightarrow> EtcdDefragPolicy \<Rightarrow> gotime \<Rightarrow> bool" where
  "dueTick E pol tick \<longleftrightarrow>
     (\<exists>sched h t. parseSchedule E (ps_Schedule (ep_Spec pol)) = Inr sched \<and> sched t = tick \<and>
        scheduleAnchor pol \<le> t \<and> t < tick \<and> tick \<le> e_now E h \<and> e_now E h < sched tick \<and>
        (case ps_StartingDeadlineSeconds (ep_Spec pol) of None \<Rightarrow> True
         | Some d \<Rightarrow> e_now E h + wrap64 (wrap64 (- d) * seconds 1) < tick))"

definition finishedRun :: "EtcdDefrag \<Rightarrow> bool" where
  "finishedRun d = isTerminalPhase (dst_Phase (ed_Status d))"

definition stampOK :: "env \<Rightarrow> policyView \<Rightarrow> EtcdDefrag \<Rightarrow> bool" where
  "stampOK E v d \<longleftrightarrow> \<not> pv_created v \<and>
     (\<exists>pol runs tick. pv_pol v = Some pol \<and> pv_runs v = Some runs \<and> ps_Suspend (ep_Spec pol) \<noteq> Some True \<and> dueTick E pol tick \<and>
        (concurrencyPolicy pol = ForbidConcurrent \<longrightarrow> list_all finishedRun (ownedRuns E runs pol)) \<and>
        setControllerReference E ''EtcdDefragPolicy'' (ep_Meta pol) (ed_Meta (buildDefrag pol tick)) = Inr (ed_Meta d) \<and>
        d = (buildDefrag pol tick)\<lparr>ed_Meta := ed_Meta d\<rparr>)"

text \<open>History is trimmed to the limit from the oldest: a run goes only when more finished runs than the
  limit are at least as recent, itself included.\<close>

definition trimOK :: "env \<Rightarrow> policyView \<Rightarrow> EtcdDefrag \<Rightarrow> bool" where
  "trimOK E v d \<longleftrightarrow>
     (\<exists>pol runs l. pv_pol v = Some pol \<and> pv_runs v = Some runs \<and> ps_HistoryLimit (ep_Spec pol) = Some l \<and>
        d \<in> set (ownedRuns E runs pol) \<and> finishedRun d \<and>
        l < int (length (filter (\<lambda>x. finishedRun x \<and> defragFinishTime d \<le> defragFinishTime x) (ownedRuns E runs pol))))"

definition policyStatusOK :: "env \<Rightarrow> policyView \<Rightarrow> EtcdDefragPolicy \<Rightarrow> bool" where
  "policyStatusOK E v p \<longleftrightarrow>
     (\<exists>pol. pv_pol v = Some pol \<and> ep_Meta p = ep_Meta pol \<and> ep_Spec p = ep_Spec pol \<and>
       (case pv_made v of
          Some d \<Rightarrow> (\<exists>tick. dueTick E pol tick \<and> pst_LastScheduleTime (ep_Status p) = Some tick \<and>
            setControllerReference E ''EtcdDefragPolicy'' (ep_Meta pol) (ed_Meta (buildDefrag pol tick)) = Inr (ed_Meta d))
        | None \<Rightarrow> pst_LastScheduleTime (ep_Status p) = pst_LastScheduleTime (ep_Status pol) \<or>
            concurrencyPolicy pol = ForbidConcurrent \<and>
            (\<exists>runs tick. pv_runs v = Some runs \<and> \<not> list_all finishedRun (ownedRuns E runs pol) \<and>
               dueTick E pol tick \<and> pst_LastScheduleTime (ep_Status p) = Some tick)))"

definition policyMon :: "env \<Rightarrow> policyView \<Rightarrow> event \<Rightarrow> policyView option" where
  "policyMon E v e =
     (case e of
        EPolicy k \<Rightarrow>
          (case k of
             KGet rd q r \<Rightarrow> Some (case r of Inl _ \<Rightarrow> v | Inr p \<Rightarrow> v\<lparr>pv_pol := Some p\<rparr>)
           | KWrite (StatusUpdate p) r \<Rightarrow> if policyStatusOK E v p then Some v else None
           | _ \<Rightarrow> None)
      | EDefrag k \<Rightarrow>
          (case k of
             KList rd ns sel r \<Rightarrow> Some (case r of Inl _ \<Rightarrow> v | Inr runs \<Rightarrow> v\<lparr>pv_runs := Some runs\<rparr>)
           | KWrite (Create d) r \<Rightarrow>
               if stampOK E v d
               then Some (v\<lparr>pv_created := True,
                 pv_made := (case r of Inr _ \<Rightarrow> Some d | Inl err \<Rightarrow> if IsAlreadyExists err then Some d else None)\<rparr>)
               else None
           | KWrite (Delete d) r \<Rightarrow> if trimOK E v d then Some v else None
           | _ \<Rightarrow> None)
      | ERecord a b c \<Rightarrow> Some v
      | _ \<Rightarrow> None)"

definition policyQuiet :: "event \<Rightarrow> bool" where
  "policyQuiet e = (case e of ERecord a b c \<Rightarrow> True | _ \<Rightarrow> False)"

interpretation policyM: monitor "policyMon E" policyQuiet for E
  by unfold_locales (auto simp: policyMon_def policyQuiet_def split: event.splits)

text \<open>What a pass knows of the policy it read while it works on its own copy of the status.\<close>

definition policyCopy :: "EtcdDefragPolicy \<Rightarrow> EtcdDefragPolicy \<Rightarrow> bool" where
  "policyCopy p pol \<longleftrightarrow> ep_Meta p = ep_Meta pol \<and> ep_Spec p = ep_Spec pol \<and>
     pst_LastScheduleTime (ep_Status p) = pst_LastScheduleTime (ep_Status pol)"

lemma policyCopy_status:
  "policyCopy p pol \<Longrightarrow> pv_pol v = Some pol \<Longrightarrow> pv_made v = None \<Longrightarrow> policyStatusOK E v p"
  by (simp add: policyCopy_def policyStatusOK_def)

lemma setDefragPolicyCondition_copy: "policyCopy p pol \<Longrightarrow> policyCopy (setDefragPolicyCondition p now s reason msg) pol"
  by (simp add: policyCopy_def setDefragPolicyCondition_def)

lemma observeRuns_copy: "policyCopy (observeRuns active finished pol) pol"
  by (simp add: policyCopy_def observeRuns_def Let_def split: option.split)

lemma policyCopy_fields:
  assumes "policyCopy p pol"
  shows "dueTick E p tick = dueTick E pol tick" "concurrencyPolicy p = concurrencyPolicy pol"
    "buildDefrag p tick = buildDefrag pol tick" "ep_Meta p = ep_Meta pol" "ep_Spec p = ep_Spec pol"
proof -
  have "scheduleAnchor p = scheduleAnchor pol"
    using assms by (simp add: policyCopy_def scheduleAnchor_def split: option.split)
  then show "dueTick E p tick = dueTick E pol tick" "concurrencyPolicy p = concurrencyPolicy pol"
    "buildDefrag p tick = buildDefrag pol tick" "ep_Meta p = ep_Meta pol" "ep_Spec p = ep_Spec pol"
    using assms by (simp_all add: policyCopy_def dueTick_def concurrencyPolicy_def buildDefrag_def)
qed

lemma policyEvent_quiet [emits_rules]: "emits policyQuiet (policyEvent r ty reason msg)"
  unfolding policyEvent_def by (intro emits_rules) (simp add: policyQuiet_def)

lemma updatePolicyStatus_mon:
  "policyStatusOK E v p \<Longrightarrow> safe (policyMon E) v (updatePolicyStatus E p res) (\<lambda>_ _. True)"
  unfolding updatePolicyStatus_def
  by (rule safe_bind_single [OF single_calls(22)]) (simp add: policyMon_def safe_return)

lemma policyCondition_copy:
  "policyCopy p pol \<Longrightarrow> (\<And>q. policyCopy q pol \<Longrightarrow> safe step v (k q) Q) \<Longrightarrow>
   safe step v (State_Monad.bind (policyCondition E p s reason msg) k) Q"
  unfolding policyCondition_def
  by (rule safe_bind [where R = "\<lambda>q w. policyCopy q pol \<and> w = v"])
    (auto intro!: safe_bind_timeNow safe_return setDefragPolicyCondition_copy)

lemma updateCopy_mon:
  "policyCopy p pol \<Longrightarrow> pv_pol v = Some pol \<Longrightarrow> pv_made v = None \<Longrightarrow>
   safe (policyMon E) v (State_Monad.bind (policyCondition E p s reason msg) (\<lambda>q. updatePolicyStatus E q res)) (\<lambda>_ _. True)"
  by (erule policyCondition_copy) (intro updatePolicyStatus_mon policyCopy_status)

lemma sortSlice_key_sorted: "sorted_wrt (\<lambda>a b. (f a :: 'k :: linorder) \<le> f b) (sortSlice (\<lambda>a b. f a < f b) xs)"
proof (induction xs)
  case (Cons x xs)
  have "sorted_wrt (\<lambda>a b. f a \<le> f b) ys \<Longrightarrow> sorted_wrt (\<lambda>a b. f a \<le> f b) (insertBy (\<lambda>a b. f a < f b) x ys)" for ys
    by (induction ys) (auto simp: not_less intro: order_trans)
  then show ?case using Cons by simp
qed simp

text \<open>In a slice sorted by a key, an element of the first \<open>m\<close> has all but fewer than \<open>m\<close> elements at or after it.\<close>

lemma sorted_take_count:
  assumes "sorted_wrt (\<lambda>a b. (f a :: 'k :: linorder) \<le> f b) xs" "d \<in> set (take m xs)"
  shows "length xs < length (filter (\<lambda>x. f d \<le> f x) xs) + m"
proof -
  from assms(2) obtain i where i: "i < m" "i < length xs" "d = xs ! i" by (auto simp: in_set_conv_nth)
  have "\<forall>x \<in> set (drop i xs). f d \<le> f x"
    using assms(1) i by (auto simp: in_set_conv_nth sorted_wrt_iff_nth_less) (metis add.commute le_add1 le_neq_implies_less less_diff_conv order_refl)
  then have "filter (\<lambda>x. f d \<le> f x) (drop i xs) = drop i xs" by (simp add: filter_id_conv)
  then have "length (drop i xs) \<le> length (filter (\<lambda>x. f d \<le> f x) xs)"
    by (metis append_take_drop_id filter_append length_append le_add2)
  then show ?thesis using i by simp
qed

lemma gcHistory_mon:
  assumes v: "pv_pol v = Some pol" "pv_runs v = Some runs" "ps_HistoryLimit (ep_Spec pol) = Some l"
  shows "safe (policyMon E) v (gcHistory E (filter finishedRun (ownedRuns E runs pol)) l) (\<lambda>_ w. w = v)"
proof -
  let ?fin = "filter finishedRun (ownedRuns E runs pol)"
  let ?sorted = "sortSlice (\<lambda>a b. defragFinishTime a < defragFinishTime b) ?fin"
  have loop: "safe (policyMon E) v (gcLoop E ds) (\<lambda>_ w. w = v)" if "list_all (trimOK E v) ds" for ds
    using that
  proof (induction ds)
    case (Cons d ds)
    then show ?case
      unfolding gcLoop.simps
      by (intro safe_bind_single [OF single_calls(20)]) (auto simp: policyMon_def intro!: io_rules)
  qed (simp add: safe_return)
  have ok: "trimOK E v d" if d: "d \<in> set (take (nat (int (length ?fin) - l)) ?sorted)" and over: "\<not> int (length ?fin) \<le> l" for d
  proof -
    from d have mem: "d \<in> set ?fin" by (metis in_set_takeD set_sortSlice)
    have "mset (filter P ?sorted) = mset (filter P ?fin)" for P
      by (simp only: mset_filter mset_sortSlice)
    then have len: "length (filter P ?sorted) = length (filter P ?fin)" for P
      by (metis size_mset)
    have "l < int (length (filter (\<lambda>x. defragFinishTime d \<le> defragFinishTime x) ?fin))"
      using sorted_take_count [OF sortSlice_key_sorted d] over unfolding len by simp
    then show ?thesis using v mem by (simp add: trimOK_def conj_commute)
  qed
  show ?thesis
    unfolding gcHistory_def
    by (intro safe_if safe_return refl safe_bindE [OF loop]) (auto simp: list_all_iff intro: ok safe_return)
qed

lemma dueTickI:
  assumes "nextLaw sched" "\<And>h. 0 \<le> e_now E h" "parseSchedule E (ps_Schedule (ep_Spec pol)) = Inr sched"
    "walkStart pol sched (e_now E h) = (a, e)" "nextSchedule sched e (e_now E h) 100 = Inr (Some tick, nxt)"
  shows "dueTick E pol tick"
proof -
  from nextSchedule_due [OF assms(1,2,5)] obtain t where
    t: "e \<le> t" "t < tick" "sched t = tick" "tick \<le> e_now E h" "e_now E h < sched tick" by blast
  have "scheduleAnchor pol \<le> e"
    using assms(4) by (auto simp: walkStart_def scheduleAnchor_def Let_def split: if_splits)
  moreover have "e_now E h + wrap64 (wrap64 (- d) * seconds 1) \<le> e" if "ps_StartingDeadlineSeconds (ep_Spec pol) = Some d" for d
    using assms(4) that by (auto simp: walkStart_def Let_def split: if_splits)
  ultimately show ?thesis
    unfolding dueTick_def using assms(3) t
    by (intro exI [of _ sched] exI [of _ h] exI [of _ t]) (fastforce split: option.split)
qed

text \<open>What holds of the monitor before the decision.\<close>

definition policyReady :: "env \<Rightarrow> policyView \<Rightarrow> EtcdDefragPolicy \<Rightarrow> EtcdDefrag list \<Rightarrow> bool" where
  "policyReady E v pol runs \<longleftrightarrow> v = \<lparr>pv_pol = Some pol, pv_runs = Some runs, pv_created = False, pv_made = None\<rparr> \<and>
     ps_Suspend (ep_Spec pol) \<noteq> Some True"

lemma stampRun_mon:
  assumes v: "policyReady E v pol runs" and p: "policyCopy p pol" and due: "dueTick E pol tick"
    and conc: "concurrencyPolicy pol = ForbidConcurrent \<Longrightarrow> list_all finishedRun (ownedRuns E runs pol)"
  shows "safe (policyMon E) v (stampRun E r p tick nxt now) (\<lambda>_ _. True)"
proof -
  note same = policyCopy_fields [OF p]
  define d where "d meta = (buildDefrag pol tick)\<lparr>ed_Meta := meta\<rparr>" for meta
  have stamp: "stampOK E v (d meta)"
    if "setControllerReference E ''EtcdDefragPolicy'' (ep_Meta pol) (ed_Meta (buildDefrag pol tick)) = Inr meta" for meta
    using v due conc that by (auto simp: stampOK_def policyReady_def d_def)
  have made: "policyStatusOK E (v\<lparr>pv_created := True, pv_made := Some (d meta)\<rparr>) (withLastSchedule tick q)"
    if "setControllerReference E ''EtcdDefragPolicy'' (ep_Meta pol) (ed_Meta (buildDefrag pol tick)) = Inr meta"
      "ep_Meta q = ep_Meta p" "ep_Spec q = ep_Spec p" for meta q
    using v due that same by (auto simp: policyStatusOK_def policyReady_def withLastSchedule_def d_def)
  have failed: "safe (policyMon E) (v\<lparr>pv_created := True, pv_made := None\<rparr>)
      (State_Monad.bind (policyCondition E p s reason msg) (\<lambda>q. updatePolicyStatus E q res)) (\<lambda>_ _. True)" for s reason msg res
    by (rule updateCopy_mon [OF p]) (use v in \<open>simp_all add: policyReady_def\<close>)
  have create: "safe (policyMon E) v (State_Monad.bind (writeDefrag E (Create (d meta))) (\<lambda>c. case c of
        Inl err \<Rightarrow> if \<not> IsAlreadyExists err then State_Monad.bind (policyCondition E p s1 r1 (m1 err)) (\<lambda>q. updatePolicyStatus E q (Inl err))
          else updatePolicyStatus E (withLastSchedule tick p) res
      | Inr created \<Rightarrow> State_Monad.bind (policyEvent r t1 r2 (m2 created)) (\<lambda>_. updatePolicyStatus E (withLastSchedule tick (p\<lparr>ep_Status := (ep_Status p)\<lparr>pst_Active := as created\<rparr>\<rparr>)) res)))
      (\<lambda>_ _. True)"
    if "setControllerReference E ''EtcdDefragPolicy'' (ep_Meta pol) (ed_Meta (buildDefrag pol tick)) = Inr meta" for meta s1 r1 m1 t1 r2 m2 as res
    apply (rule safe_bind_single [OF single_calls(20)])
    subgoal for c
      by (cases c) (auto simp: policyMon_def stamp [OF that] intro!: safe_if failed updatePolicyStatus_mon made [OF that]
        policyM.safe_bind_quiet [OF policyEvent_quiet])
    done
  show ?thesis
    unfolding stampRun_def Let_def same bindE_def liftE_def
    by (cases "setControllerReference E ''EtcdDefragPolicy'' (ep_Meta pol) (ed_Meta (buildDefrag pol tick))")
      (simp_all only: State_Monad.bind_left_identity sum.case d_def [symmetric] safe_return create)
qed

lemma scheduleRun_mon:
  assumes v: "policyReady E v pol runs" and p: "policyCopy p pol" and law: "nextLaw sched" and clock: "\<And>h. 0 \<le> e_now E h"
    and sched: "parseSchedule E (ps_Schedule (ep_Spec pol)) = Inr sched"
    and active: "active = filter (\<lambda>d. \<not> finishedRun d) (ownedRuns E runs pol)"
  shows "safe (policyMon E) v (scheduleRun E r p active sched) (\<lambda>_ _. True)"
proof -
  note same = policyCopy_fields [OF p]
  have all: "active = [] \<longleftrightarrow> list_all finishedRun (ownedRuns E runs pol)"
    by (auto simp: active filter_empty_conv list_all_iff)
  have dropped: "emits policyQuiet (reportDropped r p sched a e now)" for a e now
    unfolding reportDropped_def Let_def by (intro emits_rules)
  have plain: "policyStatusOK E v p"
    using v p by (intro policyCopy_status) (simp_all add: policyReady_def)
  have tooMany: "safe (policyMon E) v (State_Monad.bind (policyCondition E p s reason msg) (\<lambda>q. updatePolicyStatus E q res)) (\<lambda>_ _. True)"
    for s reason msg res
    by (rule updateCopy_mon [OF p]) (use v in \<open>simp_all add: policyReady_def\<close>)
  have skipped: "policyStatusOK E v (withLastSchedule tick p)"
    if "dueTick E pol tick" "concurrencyPolicy pol = ForbidConcurrent" "active \<noteq> []" for tick
    using v that same all by (auto simp: policyStatusOK_def policyReady_def withLastSchedule_def)
  have due: "dueTick E pol tick"
    if "walkStart p sched (e_now E h) = (a, e)" "nextSchedule sched e (e_now E h) 100 = Inr (Some tick, nxt)" for h a e tick nxt
    using dueTickI [OF law clock _ that] sched same by simp
  show ?thesis
    unfolding scheduleRun_def Let_def
    by (intro safe_bind_timeNow safe_case_prod policyM.safe_bind_quiet [OF dropped] safe_case_sum safe_case_option safe_if
        tooMany updatePolicyStatus_mon [OF plain] policyM.safe_bind_quiet [OF policyEvent_quiet]
        updatePolicyStatus_mon [OF skipped] stampRun_mon [OF v p])
      (auto intro: due simp: same all)
qed

lemma policyAfterList_mon:
  assumes v: "v = \<lparr>pv_pol = Some pol, pv_runs = Some runs, pv_created = False, pv_made = None\<rparr>"
    and law: "\<And>s sched. l_cronParse (e_lib E) s = Inr sched \<Longrightarrow> nextLaw sched" and clock: "\<And>h. 0 \<le> e_now E h"
    and p: "policyCopy p pol" and active: "active = filter (\<lambda>d. \<not> finishedRun d) (ownedRuns E runs pol)"
  shows "safe (policyMon E) v
     (if ps_Suspend (ep_Spec p) = Some True
      then State_Monad.bind (policyCondition E p s1 r1 m1) (\<lambda>q. updatePolicyStatus E q noRequeue)
      else case parseSchedule E (ps_Schedule (ep_Spec p)) of
          Inl err \<Rightarrow> State_Monad.bind (policyCondition E p s2 r2 (m2 err)) (\<lambda>q. updatePolicyStatus E q noRequeue)
        | Inr sched \<Rightarrow> State_Monad.bind (policyCondition E p s3 r3 m3) (\<lambda>q. scheduleRun E r q active sched)) (\<lambda>_ _. True)"
proof -
  note same = policyCopy_fields [OF p]
  have upd: "safe (policyMon E) v (State_Monad.bind (policyCondition E p s reason msg) (\<lambda>q. updatePolicyStatus E q res)) (\<lambda>_ _. True)"
    for s reason msg res
    by (rule updateCopy_mon [OF p]) (simp_all add: v)
  have "nextLaw sched" if "parseSchedule E sp = Inr sched" for sp sched
    using that law by (auto simp: parseSchedule_def Let_def split: option.splits)
  then show ?thesis
    by (intro safe_if safe_case_sum upd policyCondition_copy [OF p] scheduleRun_mon [where pol = pol and runs = runs])
      (auto simp: policyReady_def v same active clock)
qed

text \<open>
  C34. A pass of a policy, whatever schedule its expression parses to, one that never fires included, and on a clock
  past 1970: it submits at most one run, of a policy that is not
  suspended, for a tick that is later than the last one handled, has passed, is followed by none that has, and is
  within the starting deadline, and under \<^verbatim>\<open>Forbid\<close> only when every run the policy owns is finished.
  The run is the policy's for that tick. Once the run exists the tick is recorded as handled; otherwise it is
  recorded only when an active run forbade it. Only finished runs the policy owns are deleted, and only
  when more than the history limit are at least as recent. Nothing else is written.
\<close>

theorem policyReconcile_guarded:
  assumes law: "\<And>s sched. l_cronParse (e_lib E) s = Inr sched \<Longrightarrow> nextLaw sched" and clock: "\<And>h. 0 \<le> e_now E h"
  shows "accepted (policyMon E) noPolicy (trace_of (policyReconcile E r req))"
proof (rule safe_accepted)
  have part: "partitionDefragRuns xs = (filter (\<lambda>d. \<not> finishedRun d) xs, filter finishedRun xs)" for xs
    by (simp add: partitionDefragRuns_def finishedRun_def [abs_def])
  have get: "policyMon E noPolicy (EPolicy (KGet Cached req (Inr pol))) = Some (noPolicy\<lparr>pv_pol := Some pol\<rparr>)" for pol
    by (simp add: policyMon_def)
  have body: "safe (policyMon E) (noPolicy\<lparr>pv_pol := Some pol\<rparr>) (bindE (listDefrags E ns sel) k) (\<lambda>_ _. True)"
    if "\<And>runs. safe (policyMon E) \<lparr>pv_pol = Some pol, pv_runs = Some runs, pv_created = False, pv_made = None\<rparr> (k runs) (\<lambda>_ _. True)"
    for pol ns sel k
    by (rule safe_bindE_single [OF single_calls(19)]) (simp_all add: policyMon_def noPolicy_def that)
  have trim: "safe (policyMon E) v (case ps_HistoryLimit (ep_Spec (observeRuns a f pol)) of None \<Rightarrow> return (Inr ())
      | Some l \<Rightarrow> gcHistory E (filter finishedRun (ownedRuns E runs pol)) l) (\<lambda>_ w. w = v)"
    if "v = \<lparr>pv_pol = Some pol, pv_runs = Some runs, pv_created = False, pv_made = None\<rparr>" for v a f pol runs
    unfolding policyCopy_fields [OF observeRuns_copy]
    by (intro safe_case_option safe_return refl gcHistory_mon) (simp_all add: that)
  show "safe (policyMon E) noPolicy (policyReconcile E r req) (\<lambda>_ _. True)"
    unfolding policyReconcile_def
    apply (rule safe_bind_single [OF single_calls(21)])
    subgoal for g
    proof (cases g)
      case (Inr pol)
      show ?thesis
        unfolding Inr get andThen_simps sum.case part Let_def prod.case
        by (rule body, rule safe_bindE [OF trim [OF refl]], rule TrueI, hypsubst)
          (rule policyAfterList_mon [OF refl law clock observeRuns_copy refl])
    qed (simp add: policyMon_def safe_return)
    done
qed

definition samplePolicy :: EtcdDefragPolicy where
  "samplePolicy = \<lparr>ep_Meta = emptyMeta\<lparr>om_Name := ''nightly'', om_Namespace := ''prod'', om_UID := ''p1'', om_CreationTimestamp := 0\<rparr>,
     ep_Spec = \<lparr>ps_ClusterRef = ''etcd'', ps_Schedule = \<lparr>sch_Cron = ''0 * * * *'', sch_Timezone = ''''\<rparr>, ps_Suspend = None,
       ps_ConcurrencyPolicy = ConcurrencyUnset, ps_StartingDeadlineSeconds = Some 3600, ps_HistoryLimit = Some 3, ps_Rule = None,
       ps_TTLSecondsAfterFinished = None\<rparr>,
     ep_Status = \<lparr>pst_LastScheduleTime = None, pst_LastSuccessfulTime = None, pst_Active = [], pst_Conditions = []\<rparr>\<rparr>"

definition policyEnv :: env where
  "policyEnv = \<lparr>e_kube = emptyKube\<lparr>k_policies := emptyClient\<lparr>kc_get := (\<lambda>_ _ _. Inr samplePolicy)\<rparr>\<rparr>, e_etcd = silentEtcd,
     e_lib = sampleLib\<lparr>l_cronParse := (\<lambda>s. Inr (if s = ''CRON_TZ=UTC 0 0 30 2 *'' then (\<lambda>_. zeroTime) else hourly))\<rparr>, e_now = (\<lambda>_. minutes 150)\<rparr>"

lemma hourly_next: "nextLaw hourly"
proof -
  have "hourly t \<le> t + minutes 60" for t
    using pos_mod_sign [of "minutes 60" t] by (simp add: hourly_def algebra_simps minus_mod_eq_mult_div [symmetric])
  then have "hourly t \<le> t + sixYears" for t by (rule order_trans) (simp add: sixYears_def)
  then show ?thesis using hourly_lawful by (simp add: nextLaw_def cronLaw_def)
qed

definition isStamp :: "event \<Rightarrow> bool" where
  "isStamp e = (case e of EDefrag (KWrite (Create d) (Inr _)) \<Rightarrow> True | _ \<Rightarrow> False)"

theorem policyReconcile_guarded_witness:
  "accepted (policyMon policyEnv) noPolicy (trace_of (policyReconcile policyEnv \<lparr>pr_Recorder = False\<rparr>
     \<lparr>nn_namespace = ''prod'', nn_name = ''nightly''\<rparr>)) \<and>
   list_ex isStamp (trace_of (policyReconcile policyEnv \<lparr>pr_Recorder = False\<rparr>
     \<lparr>nn_namespace = ''prod'', nn_name = ''nightly''\<rparr>))"
proof
  show "accepted (policyMon policyEnv) noPolicy (trace_of (policyReconcile policyEnv \<lparr>pr_Recorder = False\<rparr>
     \<lparr>nn_namespace = ''prod'', nn_name = ''nightly''\<rparr>))"
  proof (rule policyReconcile_guarded)
    fix s sched
    assume "l_cronParse (e_lib policyEnv) s = Inr sched"
    then have "sched = (\<lambda>_. zeroTime) \<or> sched = hourly" by (simp add: policyEnv_def split: if_splits)
    then show "nextLaw sched" using hourly_next by (auto simp: nextLaw_def)
  qed (simp add: policyEnv_def)
  show "list_ex isStamp (trace_of (policyReconcile policyEnv \<lparr>pr_Recorder = False\<rparr>
     \<lparr>nn_namespace = ''prod'', nn_name = ''nightly''\<rparr>))"
    by code_simp
qed

end
