(* ===== verification/SnapshotController.thy ===== *)
theory SnapshotController
  imports MemberPod
begin

text \<open>
  The snapshot controller (\<^verbatim>\<open>src/controllers/etcdsnapshot_controller.go\<close>) and the Job it runs
  (\<^verbatim>\<open>src/controllers/snapshot_job.go\<close>): a snapshot goes from Pending over Started to Complete or Failed,
  and the artifact is read off the marker line the agent prints.
\<close>

section \<open>The Job\<close>

definition agentResources :: ResourceRequirements where
  "agentResources = (requests (milliCPU 50) (mebibytes 64))\<lparr>rr_Limits := fmupd ''memory'' (mebibytes 256) fmempty\<rparr>"

abbreviation (input) snapshotCAMountPath :: string where "snapshotCAMountPath \<equiv> ''/etc/etcd/pki/ca''"
abbreviation (input) snapshotClientMountPath :: string where "snapshotClientMountPath \<equiv> ''/etc/etcd/pki/client''"
abbreviation (input) snapshotPVCMountPath :: string where "snapshotPVCMountPath \<equiv> ''/snapshot/data''"

definition snapshotJobName :: "EtcdSnapshot \<Rightarrow> string" where
  "snapshotJobName snapshot = om_Name (es_Meta snapshot) @ ''-snapshot''"

definition clientServiceEndpoint :: "EtcdCluster \<Rightarrow> string" where
  "clientServiceEndpoint cluster =
     clusterClientScheme (Some cluster) @ ''://'' @ ecName cluster @ ''-client.'' @ ecNamespace cluster @ ''.svc:2379''"

text \<open>Environment, volumes and mounts of the TLS material, of the credentials and of the destination.\<close>

definition snapshotTLSParts :: "EtcdCluster \<Rightarrow> EnvVar list \<times> Volume list \<times> VolumeMount list" where
  "snapshotTLSParts cluster =
     (if clusterClientScheme (Some cluster) = ''https'' then
        (let server = serverSecretName (Some cluster); client = operatorClientSecretName (Some cluster);
             ca = (if server \<noteq> '''' then
                 ([envVar ''ETCD_TLS_CA_PATH'' (snapshotCAMountPath @ ''/ca.crt'')],
                  [(emptyVolume ''etcd-ca'')\<lparr>vo_Secret := Some server\<rparr>],
                  [mountAt ''etcd-ca'' snapshotCAMountPath True])
               else ([], [], []));
             cl = (if client \<noteq> '''' then
                 ([envVar ''ETCD_TLS_CERT_PATH'' (snapshotClientMountPath @ ''/tls.crt''),
                   envVar ''ETCD_TLS_KEY_PATH'' (snapshotClientMountPath @ ''/tls.key'')],
                  [(emptyVolume ''etcd-client'')\<lparr>vo_Secret := Some client\<rparr>],
                  [mountAt ''etcd-client'' snapshotClientMountPath True])
               else ([], [], []))
         in (fst ca @ fst cl, fst (snd ca) @ fst (snd cl), snd (snd ca) @ snd (snd cl)))
      else ([], [], []))"

definition snapshotAuthEnv :: "EtcdCluster \<Rightarrow> EnvVar list" where
  "snapshotAuthEnv cluster =
     (if est_AuthEnabled (ec_Status cluster) then
        (case cs_Auth (ec_Spec cluster) of
           None \<Rightarrow> []
         | Some a \<Rightarrow> (case auth_RootCredentialsSecretRef a of
             None \<Rightarrow> []
           | Some s \<Rightarrow> [envVar ''ETCD_USERNAME'' ''root'', secretEnv ''ETCD_PASSWORD'' s ''password'']))
      else [])"

definition snapshotDestParts :: "SnapshotLocation \<Rightarrow> EnvVar list \<times> Volume list \<times> VolumeMount list" where
  "snapshotDestParts dest =
     (case sl_S3 dest of
        Some s3 \<Rightarrow> (s3Env s3, [], [])
      | None \<Rightarrow> (case sl_PVC dest of
          Some pvc \<Rightarrow> ([envVar ''SNAPSHOT_DEST_KIND'' ''pvc'', envVar ''PVC_MOUNT_PATH'' snapshotPVCMountPath,
                      envVar ''PVC_SUBPATH'' (pl_SubPath pvc)],
                     [(emptyVolume ''snapshot-data'')\<lparr>vo_PVC := Some (pl_ClaimName pvc, False)\<rparr>],
                     [mountAt ''snapshot-data'' snapshotPVCMountPath False])
        | None \<Rightarrow> ([], [], [])))"

definition buildSnapshotJob :: "EtcdSnapshot \<Rightarrow> EtcdCluster \<Rightarrow> string \<Rightarrow> Job" where
  "buildSnapshotJob snapshot cluster operatorImage =
     (let (tlsEnv, tlsVols, tlsMounts) = snapshotTLSParts cluster;
          (dstEnv, dstVols, dstMounts) = snapshotDestParts (ss_Destination (es_Spec snapshot));
          env = [envVar ''ETCD_ENDPOINTS'' (clientServiceEndpoint cluster), envVar ''SNAPSHOT_NAME'' (om_Name (es_Meta snapshot)),
                 envVar ''SNAPSHOT_UID'' (om_UID (es_Meta snapshot))] @ tlsEnv @ snapshotAuthEnv cluster @ dstEnv
      in \<lparr>job_Meta = emptyMeta\<lparr>om_Name := snapshotJobName snapshot, om_Namespace := om_Namespace (es_Meta snapshot),
            om_Labels := fmupd LabelCluster (ecName cluster) fmempty\<rparr>,
          job_BackoffLimit = 3, job_TTLSecondsAfterFinished = 600, job_ActiveDeadlineSeconds = 1800,
          job_TemplateLabels = fmupd LabelCluster (ecName cluster) fmempty,
          job_PodSpec = \<lparr>pos_Hostname = '''', pos_Subdomain = '''', pos_Affinity = None, pos_TopologySpreadConstraints = [],
            pos_ImagePullSecrets = [], pos_RestartPolicyNever = True, pos_AutomountServiceAccountToken = Some False,
            pos_Security = Some podSecurity, pos_InitContainers = [],
            pos_Containers = [emptyContainer\<lparr>ctr_Name := ''snapshot-agent'', ctr_Image := operatorImage,
              ctr_Command := [''/manager'', ''snapshot-agent''], ctr_Env := env,
              ctr_AllowPrivilegeEscalation := Some False, ctr_DropCapabilities := [''ALL''],
              ctr_VolumeMounts := tlsMounts @ dstMounts, ctr_Resources := agentResources\<rparr>],
            pos_Volumes = tlsVols @ dstVols\<rparr>,
          job_Succeeded = 0, job_Conditions = []\<rparr>)"

section \<open>The marker\<close>

definition markerPrefix :: string where
  "markerPrefix = ''snapshot uploaded: uri='' @ [CHR 0x22]"

text \<open>What follows the URI: \<^verbatim>\<open>" size=(\d+) sha256=([a-f0-9]{64})\<close>, the digits and the digest.\<close>

definition isDecDigit :: "char \<Rightarrow> bool" where
  "isDecDigit c = (let n = of_char c :: nat in 48 \<le> n \<and> n \<le> 57)"

definition isHexLower :: "char \<Rightarrow> bool" where
  "isHexLower c = (let n = of_char c :: nat in 48 \<le> n \<and> n \<le> 57 \<or> 97 \<le> n \<and> n \<le> 102)"

definition markerTail :: "string \<Rightarrow> (string \<times> string) option" where
  "markerTail s =
     (let open' = [CHR 0x22] @ '' size='' in
      if prefix open' s then
        (let r = drop (length open') s; ds = takeWhile isDecDigit r; r' = dropWhile isDecDigit r in
         if ds \<noteq> [] \<and> prefix '' sha256='' r' then
           (let h = take 64 (drop 8 r') in
            if length h = 64 \<and> list_all isHexLower h then Some (ds, h) else None)
         else None)
      else None)"

text \<open>The lazy group \<^verbatim>\<open>(.+?)\<close>: the shortest non-empty text without a newline that the tail follows.\<close>

fun markerURI :: "string \<Rightarrow> string \<Rightarrow> (string \<times> string \<times> string) option" where
  "markerURI acc [] = None"
| "markerURI acc (c # cs) =
     (if c = CHR 0x0A then None
      else case markerTail cs of
          Some (ds, h) \<Rightarrow> Some (acc @ [c], ds, h)
        | None \<Rightarrow> markerURI (acc @ [c]) cs)"

text \<open>The leftmost match.\<close>

fun findMarker :: "string \<Rightarrow> (string \<times> string \<times> string) option" where
  "findMarker s =
     (case (if prefix markerPrefix s then markerURI [] (drop (length markerPrefix) s) else None) of
        Some m \<Rightarrow> Some m
      | None \<Rightarrow> (case s of [] \<Rightarrow> None | c # cs \<Rightarrow> findMarker cs))"

declare findMarker.simps [simp del]

definition parseSnapshotMarker :: "string \<Rightarrow> goerror + SnapshotArtifact" where
  "parseSnapshotMarker logText =
     (case findMarker logText of
        None \<Rightarrow> Inl (errorf ''snapshot marker not found in log'')
      | Some (uri, ds, h) \<Rightarrow>
          (case decValue 0 ds of
             Some n \<Rightarrow>
               if n < 2 ^ 63 then Inr \<lparr>sa_URI = uri, sa_SizeBytes = n, sa_Checksum = ''sha256:'' @ h\<rparr>
               else Inl (errorf (''parse snapshot size '' @ goQuote ds @ '': value out of range''))
           | None \<Rightarrow> Inl (errorf (''parse snapshot size '' @ goQuote ds @ '': invalid syntax''))))"

section \<open>The controller\<close>

record EtcdSnapshotReconciler =
  snr_OperatorImage :: string

abbreviation snapshotAuthLatchTimeout :: duration where "snapshotAuthLatchTimeout \<equiv> minutes 15"

definition setPhase ::
  "env \<Rightarrow> EtcdSnapshot \<Rightarrow> SnapshotPhase \<Rightarrow> ConditionStatus \<Rightarrow> string \<Rightarrow> string \<Rightarrow> outcome proc" where
  "setPhase E snapshot phase s reason msg = do {
     now \<leftarrow> timeNow E;
     u \<leftarrow> writeSnapshot E (StatusUpdate (snapshot\<lparr>es_Status := (es_Status snapshot)\<lparr>sst_Phase := phase,
            sst_Conditions := setCondition now (sst_Conditions (es_Status snapshot))
              (wantCondition ''Ready'' s reason msg (om_Generation (es_Meta snapshot)))\<rparr>\<rparr>));
     return (case u of Inl err \<Rightarrow> if IsConflict err then requeue else Inl err | Inr _ \<Rightarrow> noRequeue)
   }"

definition failSnapshot :: "env \<Rightarrow> EtcdSnapshot \<Rightarrow> string \<Rightarrow> string \<Rightarrow> outcome proc" where
  "failSnapshot E snapshot reason msg = do {
     p \<leftarrow> setPhase E snapshot SnapshotPhaseFailed ConditionFalse reason msg;
     return (case p of Inl err \<Rightarrow> Inl err | Inr _ \<Rightarrow> noRequeue)
   }"

definition jobFailed :: "Job \<Rightarrow> bool" where
  "jobFailed job = list_ex (\<lambda>c. jc_Type c = ''Failed'' \<and> jc_Status c = ConditionTrue) (job_Conditions job)"

definition extractSnapshot :: "env \<Rightarrow> EtcdSnapshot \<Rightarrow> Job \<Rightarrow> (goerror + SnapshotArtifact) proc" where
  "extractSnapshot E snapshot job =
     bindE (listPodsLive E (om_Namespace (es_Meta snapshot)) (fmupd ''batch.kubernetes.io/job-name'' (om_Name (job_Meta job)) fmempty)) (\<lambda>pods.
       (let podName = (case List.find (\<lambda>p. pods_Phase (pod_Status p) = PodSucceeded) pods of None \<Rightarrow> '''' | Some p \<Rightarrow> om_Name (pod_Meta p))
        in if podName = '''' then return (Inl (errorf (''no succeeded pod for job '' @ om_Name (job_Meta job) @ '' yet'')))
           else bindE (podLog E (om_Namespace (es_Meta snapshot)) podName ''snapshot-agent'') (\<lambda>logText.
             return (parseSnapshotMarker logText))))"

definition snapshotKey :: "EtcdSnapshot \<Rightarrow> nsname" where
  "snapshotKey s = \<lparr>nn_namespace = om_Namespace (es_Meta s), nn_name = snapshotJobName s\<rparr>"

text \<open>The Job is not in the cache.\<close>

definition launchJob :: "env \<Rightarrow> EtcdSnapshotReconciler \<Rightarrow> EtcdSnapshot \<Rightarrow> EtcdCluster \<Rightarrow> outcome proc" where
  "launchJob E r snapshot cluster =
     (if sst_Phase (es_Status snapshot) = SnapshotPhaseStarted then do {
        live \<leftarrow> getJob E Live (snapshotKey snapshot);
        (case live of
           Inr _ \<Rightarrow> return (requeueAfter (seconds 5))
         | Inl err \<Rightarrow>
             if \<not> IsNotFound err then return (Inl err)
             else failSnapshot E snapshot ''SnapshotJobLost''
               ''snapshot Job completed or was removed before its snapshot could be recorded; not re-running to avoid a duplicate snapshot'')
      }
      else
        (let job = buildSnapshotJob snapshot cluster (snr_OperatorImage r) in
         bindE (liftE (setControllerReference E ''EtcdSnapshot'' (es_Meta snapshot) (job_Meta job))) (\<lambda>meta.
         bindE (writeJob E (Create (job\<lparr>job_Meta := meta\<rparr>))) (\<lambda>_.
         setPhase E snapshot SnapshotPhaseStarted ConditionFalse ''JobCreated'' ''snapshot job created''))))"

text \<open>The Job exists.\<close>

definition inspectJob :: "env \<Rightarrow> EtcdSnapshot \<Rightarrow> Job \<Rightarrow> outcome proc" where
  "inspectJob E snapshot job =
     (if jobFailed job then failSnapshot E snapshot ''JobFailed'' ''snapshot job failed''
      else if job_Succeeded job < 1 then
        (if sst_Phase (es_Status snapshot) \<noteq> SnapshotPhaseStarted then
           bindE (setPhase E snapshot SnapshotPhaseStarted ConditionFalse ''JobRunning'' ''snapshot job running'')
             (\<lambda>_. return (requeueAfter (seconds 10)))
         else return (requeueAfter (seconds 10)))
      else do {
        a \<leftarrow> extractSnapshot E snapshot job;
        (case a of
           Inl _ \<Rightarrow> return (requeueAfter (seconds 5))
         | Inr snap \<Rightarrow> setPhase E (snapshot\<lparr>es_Status := (es_Status snapshot)\<lparr>sst_Artifact := Some snap\<rparr>\<rparr>)
             SnapshotPhaseComplete ConditionTrue ''SnapshotStored'' ''snapshot captured and stored'')
      })"

definition authLatched :: "EtcdCluster \<Rightarrow> bool" where
  "authLatched cluster =
     (case cs_Auth (ec_Spec cluster) of None \<Rightarrow> True | Some a \<Rightarrow> \<not> auth_Enabled a \<or> est_AuthEnabled (ec_Status cluster))"

definition snapshotOnCluster :: "env \<Rightarrow> EtcdSnapshotReconciler \<Rightarrow> EtcdSnapshot \<Rightarrow> EtcdCluster \<Rightarrow> outcome proc" where
  "snapshotOnCluster E r snapshot cluster =
     (if \<not> authLatched cluster then do {
        now \<leftarrow> timeNow E;
        (if now - om_CreationTimestamp (es_Meta snapshot) > snapshotAuthLatchTimeout then
           failSnapshot E snapshot ''AuthLatchTimeout'' (''cluster '' @ goQuote (ecName cluster) @
             '' auth did not latch (status.authEnabled) within 15m0s; the cluster may not be converging, or spec.auth.rootCredentialsSecretRef may be wrong'')
         else return (requeueAfter (seconds 10)))
      }
      else do {
        j \<leftarrow> getJob E Cached (snapshotKey snapshot);
        (case j of
           Inl err \<Rightarrow> if IsNotFound err then launchJob E r snapshot cluster else return (Inl err)
         | Inr job \<Rightarrow> inspectJob E snapshot job)
      })"

definition snapshotReconcile :: "env \<Rightarrow> EtcdSnapshotReconciler \<Rightarrow> nsname \<Rightarrow> outcome proc" where
  "snapshotReconcile E r req = do {
     g \<leftarrow> getSnapshot E req;
     (case g of
        Inl err \<Rightarrow> return (if IsNotFound err then noRequeue else Inl err)
      | Inr snapshot \<Rightarrow>
          (let phase = sst_Phase (es_Status snapshot) in
           if phase = SnapshotPhaseComplete \<or> phase = SnapshotPhaseFailed then return noRequeue
           else if phase = SnapshotPhaseNone then do {
             u \<leftarrow> writeSnapshot E (StatusUpdate (snapshot\<lparr>es_Status := (es_Status snapshot)\<lparr>sst_Phase := SnapshotPhasePending\<rparr>\<rparr>));
             return (case u of Inl err \<Rightarrow> if IsConflict err then requeue else Inl err | Inr _ \<Rightarrow> requeue)
           }
           else if snr_OperatorImage r = '''' then
             failSnapshot E snapshot ''OperatorImageNotConfigured''
               ''operator image is not configured; set --operator-image / OPERATOR_IMAGE on the manager''
           else do {
             c \<leftarrow> getCluster E \<lparr>nn_namespace = om_Namespace (es_Meta snapshot), nn_name = ss_ClusterRef (es_Spec snapshot)\<rparr>;
             (case c of
                Inl err \<Rightarrow>
                  if IsNotFound err then failSnapshot E snapshot ''ClusterNotFound''
                    (''EtcdCluster '' @ goQuote (ss_ClusterRef (es_Spec snapshot)) @ '' not found'')
                  else return (Inl err)
              | Inr cluster \<Rightarrow> snapshotOnCluster E r snapshot cluster)
           }))
   }"

end
