(* ===== verification/Agent.thy ===== *)
theory Agent
  imports Helpers
begin

text \<open>
  The backup and restore agents (\<^verbatim>\<open>src/internal/agent\<close>), which run in the snapshot Job and in the init
  containers of a restored seed. The process environment, the file system, the object store, etcd
  and the programs they execute are the parameter \<open>host\<close>; every call is an event of the trace. Contents of
  streams are strings of bytes. \<^verbatim>\<open>os.IsNotExist\<close> reads the kind of an error.
\<close>

section \<open>The host\<close>

record fileInfo =
  fi_IsDir :: bool
  fi_Size :: int
  fi_IsRegular :: bool
  fi_Executable :: bool \<comment> \<open>\<^verbatim>\<open>Perm()&0o111 != 0\<close>\<close>
  fi_TypeText :: string
  fi_PermText :: string

text \<open>An error of the object store: its dynamic types the agent tells apart, and its API code.\<close>

record s3error =
  se_NotFound :: bool
  se_NoSuchKey :: bool
  se_ErrorCode :: "string option"
  se_Error :: goerror

record s3head =
  sh_Metadata :: smap
  sh_ContentLength :: "int option"

text \<open>When the SDK adds a checksum to a request, and the two layers that carry the setting: the client and the
  transfer manager.\<close>

datatype checksumCalculation = WhenSupported | WhenRequired

record s3client =
  sc_Endpoint :: string
  sc_Region :: string
  sc_PathStyle :: bool
  sc_RequestChecksum :: checksumCalculation

record s3uploader =
  up_Client :: s3client
  up_RequestChecksum :: checksumCalculation

datatype aevent =
    AStat string "goerror + fileInfo"
  | AReadFile string "goerror + string"
  | AWriteFile string string "goerror option"
  | AMkdirAll string "goerror option"
  | ACreateTemp string string "goerror + string" \<comment> \<open>directory, pattern; the path\<close>
  | ACreate string "goerror option"
  | ACopySnapshot string "goerror + string" \<comment> \<open>the etcd stream into the file; all of its bytes\<close>
  | ASync string "goerror option"
  | ARename string string "goerror option"
  | ARemove string "goerror option"
  | ARemoveAll string "goerror option"
  | AGlob string "goerror + string list"
  | AStatfs string "goerror + u64 \<times> int"
  | ALookPath string "goerror + string"
  | AExec string "string list" "goerror option"
  | AExecutable "goerror + string"
  | AOpen string "goerror option"
  | AOpenTrunc string "goerror option"
  | ACopyFile string string "goerror option"
  | AClose string "goerror option"
  | ALoadAWS string "goerror option" \<comment> \<open>region\<close>
  | AHeadObject s3client string string "s3error + s3head"
  | AUpload s3uploader string string smap "goerror + string" \<comment> \<open>bucket, key, metadata; the bytes of the body it read\<close>
  | ADownload s3client string string string "goerror option" \<comment> \<open>bucket, key, file\<close>
  | ADialEtcd EtcdClient "goerror option"
  | AEtcdSnapshot EtcdClient "goerror option"
  | APrint string

type_synonym 'a aproc = "(aevent, 'a) io"
type_synonym 'r reply = "aevent list \<Rightarrow> 'r"

record host =
  h_getenv :: "string \<Rightarrow> string"
  h_stat :: "(string \<Rightarrow> goerror + fileInfo) reply"
  h_readFile :: "(string \<Rightarrow> goerror + string) reply"
  h_writeFile :: "(string \<times> string \<Rightarrow> goerror option) reply"
  h_mkdirAll :: "(string \<Rightarrow> goerror option) reply"
  h_createTemp :: "(string \<times> string \<Rightarrow> goerror + string) reply"
  h_create :: "(string \<Rightarrow> goerror option) reply"
  h_copySnapshot :: "(string \<Rightarrow> goerror + string) reply"
  h_sync :: "(string \<Rightarrow> goerror option) reply"
  h_rename :: "(string \<times> string \<Rightarrow> goerror option) reply"
  h_remove :: "(string \<Rightarrow> goerror option) reply"
  h_removeAll :: "(string \<Rightarrow> goerror option) reply"
  h_glob :: "(string \<Rightarrow> goerror + string list) reply"
  h_statfs :: "(string \<Rightarrow> goerror + u64 \<times> int) reply"
  h_lookPath :: "(string \<Rightarrow> goerror + string) reply"
  h_exec :: "(string \<times> string list \<Rightarrow> goerror option) reply"
  h_executable :: "(unit \<Rightarrow> goerror + string) reply"
  h_open :: "(string \<Rightarrow> goerror option) reply"
  h_openTrunc :: "(string \<Rightarrow> goerror option) reply"
  h_copyFile :: "(string \<times> string \<Rightarrow> goerror option) reply"
  h_close :: "(string \<Rightarrow> goerror option) reply"
  h_loadAWS :: "(string \<Rightarrow> goerror option) reply"
  h_headObject :: "(s3client \<times> string \<times> string \<Rightarrow> s3error + s3head) reply"
  h_upload :: "(s3uploader \<times> string \<times> string \<times> smap \<Rightarrow> goerror + string) reply"
  h_download :: "(s3client \<times> string \<times> string \<times> string \<Rightarrow> goerror option) reply"
  h_dialEtcd :: "(EtcdClient \<Rightarrow> goerror option) reply"
  h_etcdSnapshot :: "(EtcdClient \<Rightarrow> goerror option) reply"
  h_validPEM :: "string \<Rightarrow> bool"
  h_loadKeyPair :: "string \<Rightarrow> string \<Rightarrow> goerror + string \<times> string" \<comment> \<open>\<^verbatim>\<open>tls.LoadX509KeyPair\<close>\<close>
  h_sha256Hex :: "string \<Rightarrow> string"

definition osStat where "osStat H p = call (h_stat H) AStat p"
definition readFile where "readFile H p = call (h_readFile H) AReadFile p"
definition writeFile where "writeFile H p d = call (h_writeFile H) (\<lambda>(p, d). AWriteFile p d) (p, d)"
definition mkdirAll where "mkdirAll H p = call (h_mkdirAll H) AMkdirAll p"
definition createTemp where "createTemp H dir pat = call (h_createTemp H) (\<lambda>(d, p). ACreateTemp d p) (dir, pat)"
definition osCreate where "osCreate H p = call (h_create H) ACreate p"
definition copySnapshot where "copySnapshot H p = call (h_copySnapshot H) ACopySnapshot p"
definition fsync where "fsync H p = call (h_sync H) ASync p"
definition osRename where "osRename H a b = call (h_rename H) (\<lambda>(a, b). ARename a b) (a, b)"
definition osRemove where "osRemove H p = call (h_remove H) ARemove p"
definition removeAll where "removeAll H p = call (h_removeAll H) ARemoveAll p"
definition glob where "glob H p = call (h_glob H) AGlob p"
definition statfs where "statfs H p = call (h_statfs H) AStatfs p"
definition lookPath where "lookPath H n = call (h_lookPath H) ALookPath n"
definition execCmd where "execCmd H c args = call (h_exec H) (\<lambda>(c, a). AExec c a) (c, args)"
definition osExecutable where "osExecutable H = call (h_executable H) (\<lambda>_. AExecutable) ()"
definition openRead where "openRead H p = call (h_open H) AOpen p"
definition openTrunc where "openTrunc H p = call (h_openTrunc H) AOpenTrunc p"
definition copyFile where "copyFile H a b = call (h_copyFile H) (\<lambda>(a, b). ACopyFile a b) (a, b)"
definition closeFile where "closeFile H p = call (h_close H) AClose p"
definition loadAWS where "loadAWS H region = call (h_loadAWS H) ALoadAWS region"
definition headObject where "headObject H c b k = call (h_headObject H) (\<lambda>(c, b, k). AHeadObject c b k) (c, b, k)"
definition uploadObject where "uploadObject H c b k m = call (h_upload H) (\<lambda>(c, b, k, m). AUpload c b k m) (c, b, k, m)"
definition downloadObject where "downloadObject H c b k f = call (h_download H) (\<lambda>(c, b, k, f). ADownload c b k f) (c, b, k, f)"
definition dialEtcd where "dialEtcd H c = call (h_dialEtcd H) ADialEtcd c"
definition takeSnapshot where "takeSnapshot H c = call (h_etcdSnapshot H) AEtcdSnapshot c"
definition print where "print s = call (\<lambda>h q. ()) (\<lambda>q r. APrint q) s"

lemmas agent_call_defs = osStat_def readFile_def writeFile_def mkdirAll_def createTemp_def osCreate_def copySnapshot_def
  fsync_def osRename_def osRemove_def removeAll_def glob_def statfs_def lookPath_def execCmd_def osExecutable_def
  openRead_def openTrunc_def copyFile_def closeFile_def loadAWS_def headObject_def uploadObject_def downloadObject_def
  dialEtcd_def takeSnapshot_def print_def

lemma single_acalls:
  "single (osStat H p) (AStat p)" "single (readFile H p) (AReadFile p)" "single (writeFile H p d) (AWriteFile p d)"
  "single (mkdirAll H p) (AMkdirAll p)" "single (createTemp H p d) (ACreateTemp p d)" "single (osCreate H p) (ACreate p)"
  "single (copySnapshot H p) (ACopySnapshot p)" "single (fsync H p) (ASync p)" "single (osRename H p d) (ARename p d)"
  "single (osRemove H p) (ARemove p)" "single (removeAll H p) (ARemoveAll p)" "single (glob H p) (AGlob p)"
  "single (statfs H p) (AStatfs p)" "single (lookPath H p) (ALookPath p)" "single (execCmd H p args) (AExec p args)"
  "single (osExecutable H) AExecutable" "single (openRead H p) (AOpen p)" "single (openTrunc H p) (AOpenTrunc p)"
  "single (copyFile H p d) (ACopyFile p d)" "single (closeFile H p) (AClose p)" "single (loadAWS H p) (ALoadAWS p)"
  "single (headObject H sc p d) (AHeadObject sc p d)" "single (uploadObject H su p d m) (AUpload su p d m)"
  "single (downloadObject H sc p d f) (ADownload sc p d f)" "single (dialEtcd H cl) (ADialEtcd cl)"
  "single (takeSnapshot H cl) (AEtcdSnapshot cl)" "single (print p) (\<lambda>r. APrint p)"
  by (simp_all add: agent_call_defs single_def)

lemmas emits_acalls [emits_rules] = single_acalls [THEN emits_single]
lemmas safe_acalls = single_acalls [THEN safe_single]
lemmas safe_bind_acalls [io_rules] = single_acalls [THEN safe_bind_single]

text \<open>Go's check of an error that is the only result.\<close>

definition orFail :: "(goerror option) aproc \<Rightarrow> (goerror \<Rightarrow> goerror) \<Rightarrow> (goerror + 'a) aproc \<Rightarrow> (goerror + 'a) aproc" where
  "orFail m wrap k = State_Monad.bind m (\<lambda>e. case e of Some err \<Rightarrow> return (Inl (wrap err)) | None \<Rightarrow> k)"

definition wrapWith :: "(goerror \<Rightarrow> goerror) \<Rightarrow> (goerror + 'a) aproc \<Rightarrow> (goerror + 'a) aproc" where
  "wrapWith wrap m = State_Monad.bind m (\<lambda>r. return (case r of Inl err \<Rightarrow> Inl (wrap err) | Inr a \<Rightarrow> Inr a))"

section \<open>Destinations\<close>

record destination =
  d_kind :: string
  d_s3Endpoint :: string
  d_s3Bucket :: string
  d_s3Key :: string
  d_s3Region :: string
  d_s3PathStyle :: bool
  d_pvcMount :: string
  d_pvcSubPath :: string

definition loadDestination :: "(string \<Rightarrow> string) \<Rightarrow> goerror + destination" where
  "loadDestination getenv =
     (let d = \<lparr>d_kind = getenv ''SNAPSHOT_DEST_KIND'', d_s3Endpoint = getenv ''S3_ENDPOINT'', d_s3Bucket = getenv ''S3_BUCKET'',
            d_s3Key = getenv ''S3_KEY'', d_s3Region = getenv ''S3_REGION'', d_s3PathStyle = (getenv ''S3_FORCE_PATH_STYLE'' = ''true''),
            d_pvcMount = getenv ''PVC_MOUNT_PATH'', d_pvcSubPath = getenv ''PVC_SUBPATH''\<rparr> in
      if d_kind d = ''s3'' then
        (if d_s3Bucket d = '''' \<or> d_s3Endpoint d = ''''
         then Inl (errorf ''s3 destination requires S3_ENDPOINT and S3_BUCKET'') else Inr d)
      else if d_kind d = ''pvc'' then
        (if d_pvcMount d = '''' then Inl (errorf ''pvc destination requires PVC_MOUNT_PATH'') else Inr d)
      else Inl (errorf (''unknown SNAPSHOT_DEST_KIND='' @ goQuote (d_kind d) @ '' (want s3|pvc)'')))"

definition objectKey :: "destination \<Rightarrow> string \<Rightarrow> string" where
  "objectKey d name =
     (let file = name @ ''.db'' in
      if d_s3Key d = '''' then file
      else if suffix ''/'' (d_s3Key d) then d_s3Key d @ file
      else d_s3Key d @ ''/'' @ file)"

definition localPath :: "destination \<Rightarrow> string \<Rightarrow> string" where
  "localPath d name =
     (let base = (if d_pvcSubPath d \<noteq> '''' then d_pvcMount d @ ''/'' @ d_pvcSubPath d else d_pvcMount d)
      in base @ ''/'' @ name @ ''.db'')"

definition uri :: "destination \<Rightarrow> string \<Rightarrow> string" where
  "uri d name =
     (if d_kind d = ''s3'' then ''s3://'' @ d_s3Bucket d @ ''/'' @ objectKey d name else ''file://'' @ localPath d name)"

text \<open>One policy for both layers: Ceph RGW rejects the checksums the SDK adds by default.\<close>

definition s3RequestChecksumCalculation :: checksumCalculation where
  "s3RequestChecksumCalculation = WhenRequired"

definition s3Client :: "host \<Rightarrow> destination \<Rightarrow> (goerror + s3client) aproc" where
  "s3Client H d =
     (let region = (if d_s3Region d = '''' then ''us-east-1'' else d_s3Region d) in
      orFail (loadAWS H region) (wrapf ''load aws config'')
        (return (Inr \<lparr>sc_Endpoint = d_s3Endpoint d, sc_Region = region, sc_PathStyle = d_s3PathStyle d,
          sc_RequestChecksum = s3RequestChecksumCalculation\<rparr>)))"

section \<open>The etcd client\<close>

definition loadTLS :: "host \<Rightarrow> (goerror + TLSConfigData option) aproc" where
  "loadTLS H =
     (let caPath = h_getenv H ''ETCD_TLS_CA_PATH'' in
      if caPath = '''' then return (Inr None)
      else bindE (wrapWith (wrapf (''read CA '' @ caPath)) (readFile H caPath)) (\<lambda>caPEM.
        if \<not> h_validPEM H caPEM then return (Inl (errorf (''CA '' @ caPath @ '' is not valid PEM'')))
        else
          (let certPath = h_getenv H ''ETCD_TLS_CERT_PATH''; keyPath = h_getenv H ''ETCD_TLS_KEY_PATH'';
               cfg = \<lparr>tc_RootCAs = caPEM, tc_MinVersionTLS12 = True, tc_ClientCert = None\<rparr>
           in if certPath \<noteq> '''' \<and> keyPath \<noteq> '''' then
                (case h_loadKeyPair H certPath keyPath of
                   Inl err \<Rightarrow> return (Inl (wrapf ''load client cert'' err))
                 | Inr kp \<Rightarrow> return (Inr (Some (cfg\<lparr>tc_ClientCert := Some kp\<rparr>))))
              else return (Inr (Some cfg)))))"

definition etcdClient :: "host \<Rightarrow> (goerror + EtcdClient) aproc" where
  "etcdClient H =
     (let eps = splitOn (CHR '','') (h_getenv H ''ETCD_ENDPOINTS'') in
      if eps = [] \<or> hd eps = '''' then return (Inl (errorf ''ETCD_ENDPOINTS is empty''))
      else bindE (loadTLS H) (\<lambda>tlsCfg.
        (let c = \<lparr>cl_Endpoints = eps, cl_TLS = tlsCfg, cl_Username = h_getenv H ''ETCD_USERNAME'', cl_Password = h_getenv H ''ETCD_PASSWORD''\<rparr>
         in orFail (dialEtcd H c) id (return (Inr c)))))"

section \<open>Backup\<close>

abbreviation snapshotUIDMetaKey :: string where "snapshotUIDMetaKey \<equiv> ''etcd-snapshot-uid''"
abbreviation snapshotUIDSuffix :: string where "snapshotUIDSuffix \<equiv> ''.uid''"

definition ensureFileAbsent :: "host \<Rightarrow> string \<Rightarrow> string \<Rightarrow> (goerror + unit) aproc" where
  "ensureFileAbsent H finalPath uid = do {
     s \<leftarrow> osStat H finalPath;
     (case s of
        Inl err \<Rightarrow> return (if IsNotFound err then Inr () else Inl (wrapf (''check for existing snapshot file '' @ finalPath) err))
      | Inr _ \<Rightarrow>
          (let refuse = Inl (errorf (''snapshot file '' @ finalPath @
                 '' already exists and was not written by this snapshot; refusing to overwrite (use a unique snapshot name or destination subPath)''))
           in if uid \<noteq> '''' then do {
                owner \<leftarrow> readFile H (finalPath @ snapshotUIDSuffix);
                return (if owner = Inr uid then Inr () else refuse)
              }
              else return refuse))
   }"

definition isNotFoundS3 :: "s3error \<Rightarrow> bool" where
  "isNotFoundS3 e = (se_NotFound e \<or> se_NoSuchKey e \<or> se_ErrorCode e \<in> Some ` {''NotFound'', ''NoSuchKey'', ''404''})"

definition ensureObjectAbsent :: "host \<Rightarrow> s3client \<Rightarrow> string \<Rightarrow> string \<Rightarrow> string \<Rightarrow> (goerror + unit) aproc" where
  "ensureObjectAbsent H api bucket key uid = do {
     out \<leftarrow> headObject H api bucket key;
     return (case out of
        Inr hd' \<Rightarrow>
          if uid \<noteq> '''' \<and> mapGet (sh_Metadata hd') snapshotUIDMetaKey = uid then Inr ()
          else Inl (errorf (''snapshot object s3://'' @ bucket @ ''/'' @ key @
            '' already exists and was not written by this snapshot; refusing to overwrite (use a unique snapshot name or destination key)''))
      | Inl e \<Rightarrow> if isNotFoundS3 e then Inr () else Inl (wrapf ''check for existing snapshot object'' (se_Error e)))
   }"

definition writeSnapshotFile :: "host \<Rightarrow> string \<Rightarrow> (goerror + int \<times> string) aproc" where
  "writeSnapshotFile H path =
     orFail (osCreate H path) (wrapf (''create '' @ path))
      (bindE (wrapWith (wrapf ''write snapshot'') (copySnapshot H path)) (\<lambda>data.
       orFail (fsync H path) (wrapf ''sync snapshot'')
        (return (Inr (int (length data), h_sha256Hex H data)))))"

text \<open>\<^verbatim>\<open>filepath.Dir\<close>: what precedes the last slash, cleaned.\<close>

definition pathDir :: "string \<Rightarrow> string" where
  "pathDir p = pathClean (rev (dropWhile (\<lambda>c. c \<noteq> CHR ''/'') (rev p)))"

definition writeSnapshotAtomic :: "host \<Rightarrow> string \<Rightarrow> (goerror + int \<times> string) aproc" where
  "writeSnapshotAtomic H finalPath =
     (let dir = pathDir finalPath in
      orFail (mkdirAll H dir) (wrapf ''create destination dir'')
       (bindE (wrapWith (wrapf ''create temp file'') (createTemp H dir ''.etcd-snapshot-*.db.tmp'')) (\<lambda>tmpPath. do {
          w \<leftarrow> writeSnapshotFile H tmpPath;
          (case w of
             Inl err \<Rightarrow> do { _ \<leftarrow> osRemove H tmpPath; return (Inl err) }
           | Inr (n, digest) \<Rightarrow> do {
               e \<leftarrow> osRename H tmpPath finalPath;
               (case e of
                  Some err \<Rightarrow> do { _ \<leftarrow> osRemove H tmpPath; return (Inl (wrapf ''move snapshot into place'' err)) }
                | None \<Rightarrow> return (Inr (n, digest)))
             })
        })))"

text \<open>\<^verbatim>\<open>manager.NewUploader\<close> starts from \<^verbatim>\<open>WhenSupported\<close>, whatever the client says.\<close>

definition newSnapshotUploader :: "s3client \<Rightarrow> s3uploader" where
  "newSnapshotUploader client =
     \<lparr>up_Client = client, up_RequestChecksum = WhenSupported\<rparr>\<lparr>up_RequestChecksum := s3RequestChecksumCalculation\<rparr>"

text \<open>The body is teed through the hash and a counter: size and digest are those of the bytes the upload read.\<close>

definition uploadStreamHashed :: "host \<Rightarrow> s3uploader \<Rightarrow> string \<Rightarrow> string \<Rightarrow> smap \<Rightarrow> (goerror + int \<times> string) aproc" where
  "uploadStreamHashed H up bucket key metadata =
     bindE (uploadObject H up bucket key metadata) (\<lambda>data. return (Inr (int (length data), h_sha256Hex H data)))"

definition uploadS3Stream :: "host \<Rightarrow> destination \<Rightarrow> string \<Rightarrow> string \<Rightarrow> (goerror + int \<times> string) aproc" where
  "uploadS3Stream H dest key uid =
     bindE (s3Client H dest) (\<lambda>client.
     bindE (ensureObjectAbsent H client (d_s3Bucket dest) key uid) (\<lambda>_.
     uploadStreamHashed H (newSnapshotUploader client) (d_s3Bucket dest) key
       (if uid \<noteq> '''' then fmupd snapshotUIDMetaKey uid fmempty else fmempty)))"

definition markerLine :: "string \<Rightarrow> int \<Rightarrow> string \<Rightarrow> string" where
  "markerLine u n digest =
     ''snapshot uploaded: uri='' @ goQuote u @ '' size='' @ showInt n @ '' sha256='' @ digest @ [CHR 0x0A]"

definition storeSnapshot :: "host \<Rightarrow> destination \<Rightarrow> string \<Rightarrow> (goerror + int \<times> string) aproc" where
  "storeSnapshot H dest name =
     (let uid = h_getenv H ''SNAPSHOT_UID'' in
      if d_kind dest = ''pvc'' then
        (let finalPath = localPath dest name in
         bindE (ensureFileAbsent H finalPath uid) (\<lambda>_.
         bindE (writeSnapshotAtomic H finalPath) (\<lambda>(n, digest). do {
           _ \<leftarrow> (if uid \<noteq> '''' then State_Monad.bind (writeFile H (finalPath @ snapshotUIDSuffix) uid) (\<lambda>_. return ()) else return ());
           return (Inr (n, digest))
         })))
      else wrapWith (wrapf ''upload to s3'') (uploadS3Stream H dest (objectKey dest name) uid))"

definition RunSnapshot :: "host \<Rightarrow> (goerror + unit) aproc" where
  "RunSnapshot H =
     (let name = (if h_getenv H ''SNAPSHOT_NAME'' = '''' then ''snapshot'' else h_getenv H ''SNAPSHOT_NAME'') in
      bindE (return (loadDestination (h_getenv H))) (\<lambda>dest.
      bindE (wrapWith (wrapf ''connect to etcd'') (etcdClient H)) (\<lambda>cli.
      orFail (takeSnapshot H cli) (wrapf ''take etcd snapshot'')
       (bindE (storeSnapshot H dest name) (\<lambda>(n, digest). do {
          _ \<leftarrow> print (markerLine (uri dest name) n digest);
          return (Inr ())
        })))))"

section \<open>Restore\<close>

definition executableFile :: "host \<Rightarrow> string \<Rightarrow> (goerror option) aproc" where
  "executableFile H path = do {
     s \<leftarrow> osStat H path;
     return (case s of
        Inl err \<Rightarrow> Some err
      | Inr fi \<Rightarrow>
          if \<not> fi_IsRegular fi then Some (errorf (''not a regular file ('' @ fi_TypeText fi @ '')''))
          else if \<not> fi_Executable fi then Some (errorf (''not executable (mode '' @ fi_PermText fi @ '')''))
          else None)
   }"

abbreviation defaultEtcdutlPath :: string where "defaultEtcdutlPath \<equiv> ''/usr/local/bin/etcdutl''"

text \<open>The em dash of a message, in UTF-8.\<close>

abbreviation emDash :: string where "emDash \<equiv> [CHR 0xE2, CHR 0x80, CHR 0x94]"
abbreviation almostEqual :: string where "almostEqual \<equiv> [CHR 0xE2, CHR 0x89, CHR 0x88]"

definition resolveEtcdutl :: "host \<Rightarrow> (goerror + string) aproc" where
  "resolveEtcdutl H =
     (let p = h_getenv H ''ETCDUTL_PATH'' in
      if p \<noteq> '''' then
        orFail (executableFile H p) (wrapf (''etcdutl (ETCDUTL_PATH='' @ p @ '')'')) (return (Inr p))
      else do {
        e \<leftarrow> executableFile H defaultEtcdutlPath;
        (case e of
           None \<Rightarrow> return (Inr defaultEtcdutlPath)
         | Some _ \<Rightarrow> do {
             l \<leftarrow> lookPath H ''etcdutl'';
             return (case l of
                Inr q \<Rightarrow> Inr q
              | Inl _ \<Rightarrow> Inl (errorf (''etcdutl not found at '' @ defaultEtcdutlPath @
                  '' or on PATH; the target etcd image must ship etcdutl (etcd < 3.5 does not) '' @ emDash @ '' check spec.version'')))
           })
      })"

fun removeStale :: "host \<Rightarrow> string list \<Rightarrow> (goerror + unit) aproc" where
  "removeStale H [] = return (Inr ())"
| "removeStale H (m # ms) = do {
     e \<leftarrow> osRemove H m;
     (case e of
        Some err \<Rightarrow> if IsNotFound err then removeStale H ms else return (Inl (wrapf (''remove stale restore artifact '' @ m) err))
      | None \<Rightarrow> removeStale H ms)
   }"

definition cleanStaleRestoreArtifacts :: "host \<Rightarrow> string \<Rightarrow> (goerror + unit) aproc" where
  "cleanStaleRestoreArtifacts H dataDir =
     bindE (wrapWith (wrapf ''scan for stale restore artifacts'') (glob H (pathJoin [dataDir, ''etcd-restore-*.db'']))) (\<lambda>matches.
     bindE (removeStale H matches) (\<lambda>_.
     orFail (removeAll H (pathJoin [dataDir, ''.restore''])) (wrapf ''remove stale restore staging dir'') (return (Inr ()))))"

definition availableBytes :: "host \<Rightarrow> string \<Rightarrow> (goerror + u64) aproc" where
  "availableBytes H dir = bindE (statfs H dir) (\<lambda>(bavail, bsize). return (Inr (bavail * of_int bsize)))"

definition ensureRestoreSpace :: "host \<Rightarrow> string \<Rightarrow> int \<Rightarrow> (goerror + unit) aproc" where
  "ensureRestoreSpace H dataDir snapSize =
     (if snapSize < 0 then
        return (Inl (errorf (''snapshot reports a negative size ('' @ showInt snapSize @ '' bytes); refusing to restore'')))
      else bindE (wrapWith (wrapf (''check free space on '' @ dataDir)) (availableBytes H dataDir)) (\<lambda>avail.
        (let need = (of_int snapSize :: u64) * 2 in
         if avail < need then
           return (Inl (errorf (''data dir '' @ dataDir @ '' has '' @ showNat (unat avail) @ '' bytes free but restoring a '' @ showInt snapSize @
             ''-byte snapshot needs ~'' @ showNat (unat need) @ '' ('' @ almostEqual @ ''2x for staging); resize the data volume'')))
         else return (Inr ()))))"

definition headSnapshotSizeS3 :: "host \<Rightarrow> destination \<Rightarrow> (goerror + int) aproc" where
  "headSnapshotSizeS3 H src =
     bindE (s3Client H src) (\<lambda>client. do {
       out \<leftarrow> headObject H client (d_s3Bucket src) (d_s3Key src);
       return (case out of
          Inl e \<Rightarrow> Inl (se_Error e)
        | Inr hd' \<Rightarrow> (case sh_ContentLength hd' of
            None \<Rightarrow> Inl (errorf (''s3 HeadObject returned no ContentLength for '' @ d_s3Key src))
          | Some n \<Rightarrow> Inr n))
     })"

definition downloadS3 :: "host \<Rightarrow> destination \<Rightarrow> string \<Rightarrow> (goerror + string) aproc" where
  "downloadS3 H src stageDir =
     bindE (s3Client H src) (\<lambda>client.
     orFail (mkdirAll H stageDir) id
      (bindE (createTemp H stageDir ''etcd-restore-*.db'') (\<lambda>f. do {
         e \<leftarrow> downloadObject H client (d_s3Bucket src) (d_s3Key src) f;
         (case e of
            Some err \<Rightarrow> do { _ \<leftarrow> osRemove H f; return (Inl err) }
          | None \<Rightarrow> return (Inr f))
       })))"

definition fetchS3Snapshot :: "host \<Rightarrow> string \<Rightarrow> (goerror + int) aproc \<Rightarrow> (goerror + string) aproc \<Rightarrow> (goerror + string) aproc" where
  "fetchS3Snapshot H dataDir headSize download =
     bindE (wrapWith (wrapf ''head snapshot in s3'') headSize) (\<lambda>n.
     bindE (ensureRestoreSpace H dataDir n) (\<lambda>_.
     wrapWith (wrapf ''download snapshot from s3'') download))"

definition runEtcdutlRestore :: "host \<Rightarrow> string \<Rightarrow> string \<Rightarrow> string \<Rightarrow> (goerror + unit) aproc" where
  "runEtcdutlRestore H etcdutl snapPath outputDir =
     (let p = h_getenv H ''ETCD_PEER_URLS'';
          args = [''snapshot'', ''restore'', snapPath, ''--data-dir'', outputDir, ''--name'', h_getenv H ''ETCD_MEMBER_NAME'',
                  ''--initial-cluster'', h_getenv H ''ETCD_INITIAL_CLUSTER'', ''--initial-cluster-token'',
                  h_getenv H ''ETCD_INITIAL_CLUSTER_TOKEN'', ''--skip-hash-check''] @
                 (if p \<noteq> '''' then [''--initial-advertise-peer-urls'', p] else [])
      in orFail (execCmd H etcdutl args) (wrapf ''etcdutl snapshot restore'') (return (Inr ())))"

text \<open>The snapshot file, and the clean-up of a download that is deferred to the end of the run.\<close>

definition obtainSnapshot :: "host \<Rightarrow> destination \<Rightarrow> string \<Rightarrow> (goerror + string) aproc" where
  "obtainSnapshot H src dataDir =
     (if d_kind src = ''s3'' then fetchS3Snapshot H dataDir (headSnapshotSizeS3 H src) (downloadS3 H src dataDir)
      else
        (let snapPath = pathJoin [d_pvcMount src, d_pvcSubPath src] in
         bindE (wrapWith (wrapf (''snapshot file '' @ snapPath)) (osStat H snapPath)) (\<lambda>fi.
           if fi_IsDir fi then return (Inl (errorf (''snapshot source '' @ snapPath @ '' is a directory, not a snapshot file'')))
           else bindE (ensureRestoreSpace H dataDir (fi_Size fi)) (\<lambda>_. return (Inr snapPath)))))"

definition restoreInto :: "host \<Rightarrow> string \<Rightarrow> string \<Rightarrow> string \<Rightarrow> string \<Rightarrow> (goerror + unit) aproc" where
  "restoreInto H dataDir memberDir etcdutl snapPath =
     (let staging = pathJoin [dataDir, ''.restore''] in do {
        _ \<leftarrow> removeAll H staging;
        bindE (runEtcdutlRestore H etcdutl snapPath staging) (\<lambda>_.
          orFail (osRename H (pathJoin [staging, ''member'']) memberDir) (wrapf ''move restored data into place'') (do {
            _ \<leftarrow> removeAll H staging;
            _ \<leftarrow> print (''restore: completed into '' @ memberDir @ [CHR 0x0A]);
            return (Inr ())
          }))
      })"

definition restoreSource :: "host \<Rightarrow> goerror + destination" where
  "restoreSource H =
     (case loadDestination (h_getenv H) of
        Inl err \<Rightarrow> Inl err
      | Inr src \<Rightarrow>
          if d_kind src = ''s3'' \<and> d_s3Key src = '''' then
            Inl (errorf ''restore source requires an exact S3 object key (S3_KEY); got empty'')
          else if d_kind src = ''pvc'' \<and> d_pvcSubPath src = '''' then
            Inl (errorf ''restore source requires the exact snapshot file path within the volume (PVC_SUBPATH); got empty'')
          else Inr src)"

definition RunRestore :: "host \<Rightarrow> (goerror + unit) aproc" where
  "RunRestore H =
     (let dataDir = (if h_getenv H ''ETCD_DATA_DIR'' = '''' then ''/var/lib/etcd'' else h_getenv H ''ETCD_DATA_DIR'');
          memberDir = pathJoin [dataDir, ''member'']
      in do {
        s \<leftarrow> osStat H memberDir;
        (case s of
           Inr _ \<Rightarrow> do {
             _ \<leftarrow> print (''restore: '' @ memberDir @ '' already initialized, skipping'' @ [CHR 0x0A]);
             return (Inr ())
           }
         | Inl err \<Rightarrow>
             if \<not> IsNotFound err then return (Inl (wrapf (''stat '' @ memberDir) err))
             else
               bindE (return (restoreSource H)) (\<lambda>src.
               bindE (resolveEtcdutl H) (\<lambda>etcdutl.
               bindE (cleanStaleRestoreArtifacts H dataDir) (\<lambda>_.
               bindE (obtainSnapshot H src dataDir) (\<lambda>snapPath. do {
                 r \<leftarrow> restoreInto H dataDir memberDir etcdutl snapPath;
                 _ \<leftarrow> (if d_kind src = ''s3'' then State_Monad.bind (osRemove H snapPath) (\<lambda>_. return ()) else return ());
                 return r
               })))))
      })"

text \<open>How long a run of an agent may take.\<close>

definition SnapshotTimeout :: duration where
  "SnapshotTimeout = minutes 25"

definition RestoreTimeout :: duration where
  "RestoreTimeout = minutes 30"

section \<open>Installing the tools\<close>

definition copyExecutable :: "host \<Rightarrow> string \<Rightarrow> string \<Rightarrow> (goerror + unit) aproc" where
  "copyExecutable H src dst =
     orFail (openRead H src) (wrapf (''open '' @ src)) (do {
       o' \<leftarrow> openTrunc H dst;
       (case o' of
          Some err \<Rightarrow> do { _ \<leftarrow> closeFile H src; return (Inl (wrapf (''create '' @ dst) err)) }
        | None \<Rightarrow> do {
            c \<leftarrow> copyFile H src dst;
            (case c of
               Some err \<Rightarrow> do {
                 _ \<leftarrow> closeFile H dst;
                 _ \<leftarrow> closeFile H src;
                 return (Inl (wrapf (''copy '' @ src @ '' to '' @ dst) err))
               }
             | None \<Rightarrow> do {
                 f \<leftarrow> closeFile H dst;
                 _ \<leftarrow> closeFile H src;
                 return (case f of Some err \<Rightarrow> Inl (wrapf (''finalize '' @ dst) err) | None \<Rightarrow> Inr ())
               })
          })
     })"

definition RunInstallTools :: "host \<Rightarrow> (goerror + unit) aproc" where
  "RunInstallTools H =
     (let dest = h_getenv H ''TOOLS_DEST_DIR'' in
      if dest = '''' then return (Inl (errorf ''TOOLS_DEST_DIR is not set; nowhere to install the operator binary''))
      else
        bindE (wrapWith (wrapf ''locate running binary'') (osExecutable H)) (\<lambda>self.
        orFail (mkdirAll H dest) (wrapf (''create tools dir '' @ dest))
         (let out = pathJoin [dest, ''manager''] in
          bindE (copyExecutable H self out) (\<lambda>_. do {
            _ \<leftarrow> print (''install-tools: copied '' @ self @ '' to '' @ out @ [CHR 0x0A]);
            return (Inr ())
          }))))"

end
