(* ===== verification/AgentContract.thy ===== *)
theory AgentContract
  imports Agent
begin

text \<open>
  Correctness of the agents: a backup never overwrites what another snapshot wrote and reports success
  exactly for the bytes it stored; a restore replaces nothing, checks the room it needs first and puts
  only a completely rebuilt data directory into place.
\<close>

section \<open>Rules\<close>

lemma safe_orFail_single:
  assumes "single m ev" "\<And>err. andThen (step s (ev (Some err))) (Q (Inl (wrap err)))"
    "andThen (step s (ev None)) (\<lambda>s'. safe step s' k Q)"
  shows "safe step s (orFail m wrap k) Q"
  unfolding orFail_def
proof (rule safe_bind_single [OF assms(1)])
  fix r
  show "andThen (step s (ev r)) (\<lambda>s'. safe step s' (case r of None \<Rightarrow> k | Some err \<Rightarrow> return (Inl (wrap err))) Q)"
    using andThen_mono [OF assms(2)] assms(3) by (cases r) (simp_all add: safe_return)
qed

lemma safe_orFail:
  assumes "safe step s m R" "\<And>err s'. R (Some err) s' \<Longrightarrow> Q (Inl (wrap err)) s'" "\<And>s'. R None s' \<Longrightarrow> safe step s' k Q"
  shows "safe step s (orFail m wrap k) Q"
  unfolding orFail_def
  by (rule safe_bind [OF assms(1)]) (auto intro: assms safe_return split: option.split)

lemma safe_wrapWith:
  "safe step s m (\<lambda>r s'. Q (case r of Inl err \<Rightarrow> Inl (wrap err) | Inr a \<Rightarrow> Inr a) s') \<Longrightarrow> safe step s (wrapWith wrap m) Q"
  unfolding wrapWith_def by (erule safe_bind) (rule safe_return)

lemma emits_orFail [emits_rules]: "emits P m \<Longrightarrow> emits P k \<Longrightarrow> emits P (orFail m wrap k)"
  unfolding orFail_def by (intro emits_rules)

lemma emits_wrapWith [emits_rules]: "emits P m \<Longrightarrow> emits P (wrapWith wrap m)"
  unfolding wrapWith_def by (intro emits_rules)

lemma bindE_return: "bindE (return r) k = (case r of Inl e \<Rightarrow> return (Inl e) | Inr a \<Rightarrow> k a)"
  by (simp add: bindE_def)

section \<open>Backup\<close>

record backupView =
  bk_mine :: "string set" \<comment> \<open>paths found absent or written by this snapshot\<close>
  bk_objects :: "(string \<times> string) set" \<comment> \<open>the same for bucket and key\<close>
  bk_temp :: "string option" \<comment> \<open>the temporary file\<close>
  bk_written :: "string option" \<comment> \<open>its complete content\<close>
  bk_synced :: bool
  bk_stored :: "string option" \<comment> \<open>the bytes in place at the destination\<close>
  bk_printed :: bool

definition noBackup :: backupView where
  "noBackup = \<lparr>bk_mine = {}, bk_objects = {}, bk_temp = None, bk_written = None, bk_synced = False, bk_stored = None, bk_printed = False\<rparr>"

definition snapshotName :: "host \<Rightarrow> string" where
  "snapshotName H = (if h_getenv H ''SNAPSHOT_NAME'' = '''' then ''snapshot'' else h_getenv H ''SNAPSHOT_NAME'')"

abbreviation snapshotUID :: "host \<Rightarrow> string" where "snapshotUID H \<equiv> h_getenv H ''SNAPSHOT_UID''"

text \<open>The line the agent prints for stored bytes.\<close>

definition reportOf :: "host \<Rightarrow> string \<Rightarrow> string \<Rightarrow> bool" where
  "reportOf H data line \<longleftrightarrow>
     (\<exists>dest. loadDestination (h_getenv H) = Inr dest \<and>
        line = markerLine (uri dest (snapshotName H)) (int (length data)) (h_sha256Hex H data))"

definition backupMon :: "host \<Rightarrow> backupView \<Rightarrow> aevent \<Rightarrow> backupView option" where
  "backupMon H v e =
     (case e of
        AStat p r \<Rightarrow> Some (case r of Inl err \<Rightarrow> if IsNotFound err then v\<lparr>bk_mine := insert p (bk_mine v)\<rparr> else v | Inr _ \<Rightarrow> v)
      | AReadFile p r \<Rightarrow>
          Some (if snapshotUID H \<noteq> '''' \<and> r = Inr (snapshotUID H)
                then v\<lparr>bk_mine := bk_mine v \<union> {q. p = q @ snapshotUIDSuffix}\<rparr> else v)
      | AMkdirAll p r \<Rightarrow> Some v
      | ACreateTemp d pat r \<Rightarrow> Some (case r of Inl _ \<Rightarrow> v | Inr t \<Rightarrow> v\<lparr>bk_temp := Some t, bk_written := None, bk_synced := False\<rparr>)
      | ACreate p r \<Rightarrow> if bk_temp v = Some p then Some v else None
      | ACopySnapshot p r \<Rightarrow>
          if bk_temp v = Some p then Some (case r of Inl _ \<Rightarrow> v | Inr data \<Rightarrow> v\<lparr>bk_written := Some data\<rparr>) else None
      | ASync p r \<Rightarrow> Some (if bk_temp v = Some p \<and> r = None then v\<lparr>bk_synced := True\<rparr> else v)
      | ARename a b r \<Rightarrow>
          if bk_temp v = Some a \<and> bk_written v \<noteq> None \<and> bk_synced v \<and> b \<in> bk_mine v
          then Some (if r = None then v\<lparr>bk_stored := bk_written v\<rparr> else v) else None
      | ARemove p r \<Rightarrow> if bk_temp v = Some p then Some v else None
      | AWriteFile p d r \<Rightarrow>
          if bk_stored v \<noteq> None \<and> d = snapshotUID H \<and> (\<exists>q \<in> bk_mine v. p = q @ snapshotUIDSuffix) then Some v else None
      | ALoadAWS p r \<Rightarrow> Some v
      | AHeadObject c b k r \<Rightarrow>
          Some (if (case r of Inl err \<Rightarrow> isNotFoundS3 err
                    | Inr hd' \<Rightarrow> snapshotUID H \<noteq> '''' \<and> mapGet (sh_Metadata hd') snapshotUIDMetaKey = snapshotUID H)
                then v\<lparr>bk_objects := insert (b, k) (bk_objects v)\<rparr> else v)
      | AUpload c b k m r \<Rightarrow>
          if (b, k) \<in> bk_objects v \<and> up_RequestChecksum c = WhenRequired \<and> sc_RequestChecksum (up_Client c) = WhenRequired then Some (case r of Inl _ \<Rightarrow> v | Inr data \<Rightarrow> v\<lparr>bk_stored := Some data\<rparr>) else None
      | ADialEtcd c r \<Rightarrow> Some v
      | AEtcdSnapshot c r \<Rightarrow> Some v
      | APrint s \<Rightarrow>
          if \<not> bk_printed v \<and> (\<exists>data. bk_stored v = Some data \<and> reportOf H data s) then Some (v\<lparr>bk_printed := True\<rparr>) else None
      | _ \<Rightarrow> None)"

definition backupQuiet :: "aevent \<Rightarrow> bool" where
  "backupQuiet e = (case e of AMkdirAll p r \<Rightarrow> True | ALoadAWS p r \<Rightarrow> True | ADialEtcd c r \<Rightarrow> True | AEtcdSnapshot c r \<Rightarrow> True | _ \<Rightarrow> False)"

interpretation backupM: monitor "backupMon H" backupQuiet for H
  by unfold_locales (auto simp: backupMon_def backupQuiet_def split: aevent.splits)

text \<open>After storing: the monitor holds the bytes the size and the digest were computed of.\<close>

definition storedAs :: "host \<Rightarrow> goerror + int \<times> string \<Rightarrow> backupView \<Rightarrow> bool" where
  "storedAs H x v \<longleftrightarrow> \<not> bk_printed v \<and>
     (\<forall>n digest. x = Inr (n, digest) \<longrightarrow>
        (\<exists>data. bk_stored v = Some data \<and> n = int (length data) \<and> digest = h_sha256Hex H data))"

lemma ensureFileAbsent_mon:
  assumes "\<not> bk_printed v"
  shows "safe (backupMon H) v (ensureFileAbsent H p (snapshotUID H)) (\<lambda>x w. \<not> bk_printed w \<and> (x = Inr () \<longrightarrow> p \<in> bk_mine w))"
  unfolding ensureFileAbsent_def Let_def
  apply (rule safe_bind_single [OF single_acalls(1)])
  subgoal for s
  proof (cases s)
    case (Inr fi)
    then show ?thesis
      using assms by (auto simp: backupMon_def intro!: safe_if safe_bind_single [OF single_acalls(2)] safe_return)
  qed (use assms in \<open>simp add: backupMon_def safe_return\<close>)
  done

lemma writeSnapshotFile_mon:
  assumes "bk_temp v = Some t" "p \<in> bk_mine v" "\<not> bk_printed v"
  shows "safe (backupMon H) v (writeSnapshotFile H t) (\<lambda>x w. bk_temp w = Some t \<and> p \<in> bk_mine w \<and> \<not> bk_printed w \<and>
    (\<forall>n digest. x = Inr (n, digest) \<longrightarrow> bk_synced w \<and>
      (\<exists>data. bk_written w = Some data \<and> n = int (length data) \<and> digest = h_sha256Hex H data)))"
proof -
  have sync: "safe (backupMon H) w (orFail (fsync H t) f (return (Inr (int (length data), h_sha256Hex H data))))
      (\<lambda>x w. bk_temp w = Some t \<and> p \<in> bk_mine w \<and> \<not> bk_printed w \<and> (\<forall>n digest. x = Inr (n, digest) \<longrightarrow> bk_synced w \<and>
      (\<exists>data. bk_written w = Some data \<and> n = int (length data) \<and> digest = h_sha256Hex H data)))"
    if "w = v\<lparr>bk_written := Some data\<rparr>" for w data f
    using assms that by (intro safe_orFail_single [OF single_acalls(8)]) (auto simp: backupMon_def intro!: safe_return)
  have copy: "safe (backupMon H) v (wrapWith f (copySnapshot H t)) (\<lambda>x w. case x of Inl _ \<Rightarrow> w = v | Inr data \<Rightarrow> w = v\<lparr>bk_written := Some data\<rparr>)" for f
    using assms by (intro safe_wrapWith safe_single [OF single_acalls(7)]) (auto simp: backupMon_def split: sum.split)
  show ?thesis
    unfolding writeSnapshotFile_def
    using assms
    by (intro safe_orFail_single [OF single_acalls(6)])
      (auto simp: backupMon_def intro!: safe_bindE [OF copy] sync)
qed

lemma writeSnapshotAtomic_mon:
  assumes "p \<in> bk_mine v" "\<not> bk_printed v"
  shows "safe (backupMon H) v (writeSnapshotAtomic H p) (\<lambda>x w. storedAs H x w \<and> p \<in> bk_mine w)"
proof -
  have drop': "safe (backupMon H) w (State_Monad.bind (osRemove H t) (\<lambda>_. return (Inl err))) (\<lambda>x w. storedAs H x w \<and> p \<in> bk_mine w)"
    if "bk_temp w = Some t" "p \<in> bk_mine w" "\<not> bk_printed w" for w t err
    using that by (intro safe_bind_single [OF single_acalls(10)]) (simp add: backupMon_def safe_return storedAs_def)
  have move: "safe (backupMon H) w (State_Monad.bind (osRename H t p) (\<lambda>e. case e of
        Some err \<Rightarrow> State_Monad.bind (osRemove H t) (\<lambda>_. return (Inl (f err))) | None \<Rightarrow> return (Inr (n, digest))))
      (\<lambda>x w. storedAs H x w \<and> p \<in> bk_mine w)"
    if "bk_temp w = Some t" "p \<in> bk_mine w" "\<not> bk_printed w" "bk_synced w" "bk_written w = Some data"
      "n = int (length data)" "digest = h_sha256Hex H data" for w t f n digest data
    apply (rule safe_bind_single [OF single_acalls(9)])
    subgoal for e
      using that by (cases e; simp add: backupMon_def drop'; simp add: storedAs_def safe_return)
    done
  have temp: "safe (backupMon H) v (wrapWith f (createTemp H d pat)) (\<lambda>x w. p \<in> bk_mine w \<and> \<not> bk_printed w \<and>
      (\<forall>t. x = Inr t \<longrightarrow> bk_temp w = Some t))" for f d pat
    using assms by (intro safe_wrapWith safe_single [OF single_acalls(5)]) (auto simp: backupMon_def split: sum.split)
  show ?thesis
    unfolding writeSnapshotAtomic_def Let_def
    apply (rule safe_orFail_single [OF single_acalls(4)])
    subgoal using assms by (simp add: backupMon_def storedAs_def)
    apply (simp add: backupMon_def)
    apply (rule safe_bindE [OF temp])
    subgoal by (simp add: storedAs_def)
    subgoal for t w
      by (rule safe_bind [OF writeSnapshotFile_mon [of w t p]]) (auto intro!: drop' intro: move split: sum.split)
    done
qed

lemma uploadS3Stream_mon:
  assumes "\<not> bk_printed v"
  shows "safe (backupMon H) v (uploadS3Stream H d k (snapshotUID H)) (storedAs H)"
proof -
  have client: "safe (backupMon H) v (s3Client H d) (\<lambda>x w. w = v \<and> (\<forall>c. x = Inr c \<longrightarrow> sc_RequestChecksum c = WhenRequired))"
    unfolding s3Client_def Let_def s3RequestChecksumCalculation_def
    by (intro safe_orFail_single [OF single_acalls(21)]) (auto simp: backupMon_def intro!: safe_return)
  have absent: "safe (backupMon H) v (ensureObjectAbsent H c (d_s3Bucket d) k (snapshotUID H))
      (\<lambda>x w. \<not> bk_printed w \<and> (x = Inr () \<longrightarrow> (d_s3Bucket d, k) \<in> bk_objects w))" for c
    unfolding ensureObjectAbsent_def
    apply (rule safe_bind_single [OF single_acalls(22)])
    subgoal for r using assms by (cases r) (auto simp: backupMon_def intro!: safe_return)
    done
  have up: "safe (backupMon H) w (uploadStreamHashed H (newSnapshotUploader c) (d_s3Bucket d) k m) (storedAs H)"
    if "(d_s3Bucket d, k) \<in> bk_objects w" "\<not> bk_printed w" "sc_RequestChecksum c = WhenRequired" for w c m
    unfolding uploadStreamHashed_def newSnapshotUploader_def s3RequestChecksumCalculation_def
    using that by (intro safe_bindE_single [OF single_acalls(23)]) (auto simp: backupMon_def storedAs_def intro!: safe_return)
  show ?thesis
    unfolding uploadS3Stream_def
    apply (rule safe_bindE [OF client])
    subgoal using assms by (simp add: storedAs_def)
    subgoal by (elim conjE, hypsubst, intro safe_bindE [OF absent] up) (auto simp: storedAs_def)
    done
qed

lemma storeSnapshot_mon:
  assumes "\<not> bk_printed v"
  shows "safe (backupMon H) v (storeSnapshot H d name) (storedAs H)"
proof -
  let ?p = "localPath d name"
  have stamp: "safe (backupMon H) w (State_Monad.bind (if snapshotUID H \<noteq> '''' then State_Monad.bind (writeFile H (?p @ snapshotUIDSuffix) (snapshotUID H)) (\<lambda>_. return ())
      else return ()) (\<lambda>_. return (Inr (n, digest)))) (storedAs H)"
    if "storedAs H (Inr (n, digest)) w" "?p \<in> bk_mine w" for w n digest
  proof (rule safe_bind [where R = "\<lambda>_ u. u = w"])
    show "safe (backupMon H) w (if snapshotUID H \<noteq> '''' then State_Monad.bind (writeFile H (?p @ snapshotUIDSuffix) (snapshotUID H)) (\<lambda>_. return ())
      else return ()) (\<lambda>_ u. u = w)"
      using that by (intro safe_if safe_return refl safe_bind_single [OF single_acalls(3)]) (auto simp: backupMon_def storedAs_def intro!: safe_return)
  qed (use that in \<open>simp add: safe_return\<close>)
  have pvc: "safe (backupMon H) v (bindE (ensureFileAbsent H ?p (snapshotUID H)) (\<lambda>_. bindE (writeSnapshotAtomic H ?p) (\<lambda>(n, digest).
      State_Monad.bind (if snapshotUID H \<noteq> '''' then State_Monad.bind (writeFile H (?p @ snapshotUIDSuffix) (snapshotUID H)) (\<lambda>_. return ())
      else return ()) (\<lambda>_. return (Inr (n, digest)))))) (storedAs H)"
    by (intro safe_bindE [OF ensureFileAbsent_mon [OF assms]] safe_bindE [OF writeSnapshotAtomic_mon] safe_case_prod stamp)
      (auto simp: storedAs_def)
  have s3: "safe (backupMon H) v (wrapWith f (uploadS3Stream H d (objectKey d name) (snapshotUID H))) (storedAs H)" for f
    by (rule safe_wrapWith, rule safe_weaken [OF uploadS3Stream_mon [OF assms]]) (auto simp: storedAs_def split: sum.splits)
  show ?thesis
    unfolding storeSnapshot_def Let_def by (intro safe_if pvc s3)
qed

lemma RunSnapshot_mon: "safe (backupMon H) noBackup (RunSnapshot H) (\<lambda>x v. x = Inr () \<longleftrightarrow> bk_printed v)"
proof -
  let ?Q = "\<lambda>x v. x = Inr () \<longleftrightarrow> bk_printed v"
  have tls: "safe (backupMon H) v (loadTLS H) (\<lambda>_ w. bk_printed w = bk_printed v)" for v
    unfolding loadTLS_def Let_def
    by (intro safe_if safe_return refl safe_bindE [where R = "\<lambda>_ w. bk_printed w = bk_printed v"] safe_wrapWith
        safe_single [OF single_acalls(2)] safe_case_sum) (auto simp: backupMon_def)
  have client: "safe (backupMon H) noBackup (wrapWith f (etcdClient H)) (\<lambda>_ w. \<not> bk_printed w)" for f
    unfolding etcdClient_def Let_def
    by (intro safe_wrapWith safe_if safe_return safe_bindE [OF tls] safe_orFail_single [OF single_acalls(25)])
      (auto simp: backupMon_def noBackup_def intro!: safe_return)
  have report: "safe (backupMon H) v (State_Monad.bind (print (markerLine (uri d (snapshotName H)) n digest)) (\<lambda>_. return (Inr ()))) ?Q"
    if "storedAs H (Inr (n, digest)) v" "loadDestination (h_getenv H) = Inr d" for v d n digest
    using that by (intro safe_bind_single [OF single_acalls(27)])
      (auto simp: backupMon_def storedAs_def reportOf_def intro!: safe_return)
  have store: "safe (backupMon H) v (bindE (storeSnapshot H d (snapshotName H)) (\<lambda>(n, digest).
      State_Monad.bind (print (markerLine (uri d (snapshotName H)) n digest)) (\<lambda>_. return (Inr ())))) ?Q"
    if "\<not> bk_printed v" "loadDestination (h_getenv H) = Inr d" for v d
    by (intro safe_bindE [OF storeSnapshot_mon [OF that(1)]] safe_case_prod report that(2)) (auto simp: storedAs_def)
  show ?thesis
    unfolding RunSnapshot_def Let_def bindE_return snapshotName_def [symmetric]
    by (intro safe_case_sum safe_return safe_bindE [OF client] safe_orFail_single [OF single_acalls(26)])
      (auto simp: backupMon_def noBackup_def intro!: store)
qed

text \<open>
  C38. A backup never destroys what another snapshot wrote: the destination file is written only by moving a
  completely written and synced temporary file over a path that was found absent or marked with this snapshot's
  own UID, and an object is uploaded only under a key for which the same was found, with request checksums
  restricted to those the operation requires in both layers of the SDK; the ownership mark is
  written only next to a stored file of its own. The agent succeeds exactly when it has printed the one line
  that reports the destination, the size and the digest of the very bytes it stored.
\<close>

theorem RunSnapshot_guarded:
  "\<exists>v. runMonitor (backupMon H) noBackup (trace_of (RunSnapshot H)) = Some v \<and>
     (value_of (RunSnapshot H) = Inr () \<longleftrightarrow> bk_printed v)"
  by (rule safeD [OF RunSnapshot_mon])

section \<open>Restore\<close>

definition restoreDataDir :: "host \<Rightarrow> string" where
  "restoreDataDir H = (if h_getenv H ''ETCD_DATA_DIR'' = '''' then ''/var/lib/etcd'' else h_getenv H ''ETCD_DATA_DIR'')"

abbreviation memberDirOf :: "host \<Rightarrow> string" where "memberDirOf H \<equiv> pathJoin [restoreDataDir H, ''member'']"
abbreviation stagingOf :: "host \<Rightarrow> string" where "stagingOf H \<equiv> pathJoin [restoreDataDir H, ''.restore'']"

record restoreView =
  rv_exists :: bool \<comment> \<open>the member directory was found\<close>
  rv_fresh :: bool \<comment> \<open>it was found absent\<close>
  rv_size :: "int option" \<comment> \<open>the size last reported of a file or object\<close>
  rv_avail :: "u64 option" \<comment> \<open>free bytes of the data volume\<close>
  rv_restored :: bool \<comment> \<open>etcdutl has rebuilt the data in the staging directory\<close>
  rv_moved :: bool

definition noRestore :: restoreView where
  "noRestore = \<lparr>rv_exists = False, rv_fresh = False, rv_size = None, rv_avail = None, rv_restored = False, rv_moved = False\<rparr>"

text \<open>Twice the size of the snapshot is free; sizes are 64-bit integers.\<close>

definition hasRoom :: "restoreView \<Rightarrow> bool" where
  "hasRoom v \<longleftrightarrow> (\<exists>n a. rv_size v = Some n \<and> rv_avail v = Some a \<and> 0 \<le> n \<and> (n < 2 ^ 63 \<longrightarrow> 2 * n \<le> uint a))"

definition restoreArgs :: "host \<Rightarrow> string list \<Rightarrow> bool" where
  "restoreArgs H args \<longleftrightarrow> (\<exists>snap rest. args = [''snapshot'', ''restore'', snap, ''--data-dir'', stagingOf H] @ rest)"

definition restoreMon :: "host \<Rightarrow> restoreView \<Rightarrow> aevent \<Rightarrow> restoreView option" where
  "restoreMon H v e =
     (case e of
        AStat p r \<Rightarrow>
          Some (if rv_fresh v \<or> rv_exists v then (case r of Inl _ \<Rightarrow> v | Inr fi \<Rightarrow> v\<lparr>rv_size := Some (fi_Size fi)\<rparr>)
                else if p = memberDirOf H then
                  (case r of Inl err \<Rightarrow> if IsNotFound err then v\<lparr>rv_fresh := True\<rparr> else v | Inr _ \<Rightarrow> v\<lparr>rv_exists := True\<rparr>)
                else v)
      | AHeadObject c b k r \<Rightarrow> Some (case r of Inl _ \<Rightarrow> v | Inr hd' \<Rightarrow> v\<lparr>rv_size := sh_ContentLength hd'\<rparr>)
      | AStatfs p r \<Rightarrow>
          Some (if p = restoreDataDir H then (case r of Inl _ \<Rightarrow> v | Inr (ba, bs) \<Rightarrow> v\<lparr>rv_avail := Some (ba * of_int bs)\<rparr>) else v)
      | ALoadAWS p r \<Rightarrow> Some v
      | ALookPath p r \<Rightarrow> Some v
      | APrint s \<Rightarrow> Some v
      | AGlob p r \<Rightarrow> if rv_fresh v then Some v else None
      | AMkdirAll p r \<Rightarrow> if rv_fresh v \<and> hasRoom v then Some v else None
      | ACreateTemp d p r \<Rightarrow> if rv_fresh v \<and> hasRoom v then Some v else None
      | ADownload c b k f r \<Rightarrow> if rv_fresh v \<and> hasRoom v then Some v else None
      | ARemove p r \<Rightarrow> if rv_fresh v then Some v else None
      | ARemoveAll p r \<Rightarrow> if rv_fresh v \<and> p = stagingOf H then Some v else None
      | AExec c args r \<Rightarrow>
          if rv_fresh v \<and> hasRoom v \<and> restoreArgs H args \<and> \<not> rv_restored v
          then Some (v\<lparr>rv_restored := (r = None)\<rparr>) else None
      | ARename a b r \<Rightarrow>
          if rv_fresh v \<and> rv_restored v \<and> a = pathJoin [stagingOf H, ''member''] \<and> b = memberDirOf H
          then Some (v\<lparr>rv_moved := (r = None)\<rparr>) else None
      | _ \<Rightarrow> None)"

definition restoreQuiet :: "aevent \<Rightarrow> bool" where
  "restoreQuiet e = (case e of ALoadAWS p r \<Rightarrow> True | ALookPath p r \<Rightarrow> True | APrint s \<Rightarrow> True | _ \<Rightarrow> False)"

interpretation restoreM: monitor "restoreMon H" restoreQuiet for H
  by unfold_locales (auto simp: restoreMon_def restoreQuiet_def split: aevent.splits)

text \<open>The state while nothing has been rebuilt.\<close>

definition unrestored :: "restoreView \<Rightarrow> bool" where
  "unrestored v \<longleftrightarrow> rv_fresh v \<and> \<not> rv_exists v \<and> \<not> rv_restored v \<and> \<not> rv_moved v"

lemma ensureRestoreSpace_mon:
  assumes v: "unrestored v" "rv_size v = Some n"
  shows "safe (restoreMon H) v (ensureRestoreSpace H (restoreDataDir H) n) (\<lambda>x w. unrestored w \<and> (x = Inr () \<longrightarrow> hasRoom w))"
proof -
  have room: "hasRoom (v\<lparr>rv_avail := Some a\<rparr>)" if "\<not> n < 0" "\<not> a < of_int n * 2" for a :: u64
  proof -
    have "2 * n \<le> uint a" if "n < 2 ^ 63"
    proof -
      have "uint (of_int n * 2 :: u64) = 2 * n"
        using \<open>\<not> n < 0\<close> that by (simp add: uint_word_arith_bintrs take_bit_eq_mod uint_word_of_int)
      then show ?thesis using \<open>\<not> a < of_int n * 2\<close> by (simp add: word_less_alt)
    qed
    then show ?thesis using v that(1) by (auto simp: hasRoom_def)
  qed
  have avail: "safe (restoreMon H) v (wrapWith f (availableBytes H (restoreDataDir H)))
      (\<lambda>x w. case x of Inl _ \<Rightarrow> w = v | Inr a \<Rightarrow> w = v\<lparr>rv_avail := Some a\<rparr>)" for f
    unfolding availableBytes_def
    by (intro safe_wrapWith safe_bindE_single [OF single_acalls(13)]) (auto simp: restoreMon_def intro!: safe_return)
  have un: "unrestored (v\<lparr>rv_avail := a\<rparr>)" for a using v(1) by (simp add: unrestored_def)
  show ?thesis
    unfolding ensureRestoreSpace_def Let_def
    by (intro safe_if safe_return safe_bindE [OF avail]) (auto simp: v un room intro!: safe_if safe_return)
qed

lemma removeStale_mon:
  "unrestored v \<Longrightarrow> safe (restoreMon H) v (removeStale H ms) (\<lambda>_ w. w = v)"
proof (induction ms)
  case (Cons m ms)
  then show ?case
    unfolding removeStale.simps
    by (intro safe_bind_single [OF single_acalls(10)])
      (auto simp: restoreMon_def unrestored_def intro!: safe_return split: option.split)
qed (simp add: safe_return)

lemma cleanStale_mon:
  assumes "unrestored v"
  shows "safe (restoreMon H) v (cleanStaleRestoreArtifacts H (restoreDataDir H)) (\<lambda>_ w. w = v)"
proof -
  have glob: "safe (restoreMon H) v (wrapWith f (glob H p)) (\<lambda>_ w. w = v)" for f p
    using assms by (intro safe_wrapWith safe_single [OF single_acalls(12)]) (simp add: restoreMon_def unrestored_def)
  show ?thesis
    unfolding cleanStaleRestoreArtifacts_def
    apply (rule safe_bindE [OF glob], simp, hypsubst)
    apply (rule safe_bindE [OF removeStale_mon [OF assms]], simp, hypsubst)
    using assms by (intro safe_orFail_single [OF single_acalls(11)]) (auto simp: restoreMon_def unrestored_def intro!: safe_return)
qed

lemma resolveEtcdutl_mon:
  assumes "unrestored v"
  shows "safe (restoreMon H) v (resolveEtcdutl H) (\<lambda>_ w. unrestored w)"
proof -
  have ex: "safe (restoreMon H) v (executableFile H p) (\<lambda>_ w. unrestored w)" for p
    unfolding executableFile_def
    using assms by (intro safe_bind_single [OF single_acalls(1)])
      (auto simp: restoreMon_def unrestored_def intro!: safe_return split: sum.split)
  show ?thesis
    unfolding resolveEtcdutl_def Let_def
    by (intro safe_if safe_orFail [OF ex] safe_bind [OF ex] safe_case_option safe_return
        safe_bind_single [OF single_acalls(14)]) (auto simp: restoreMon_def intro!: safe_return)
qed

lemma obtainSnapshot_mon:
  assumes v: "unrestored v" and src: "d_kind src = ''s3'' \<or> d_kind src = ''pvc''"
  shows "safe (restoreMon H) v (obtainSnapshot H src (restoreDataDir H)) (\<lambda>x w. unrestored w \<and> (\<forall>p. x = Inr p \<longrightarrow> hasRoom w))"
proof -
  have client: "emits restoreQuiet (s3Client H src)"
    unfolding s3Client_def Let_def by (intro emits_rules) (simp_all add: restoreQuiet_def)
  have un: "unrestored (w\<lparr>rv_size := n\<rparr>) = unrestored w" for w n by (simp add: unrestored_def)
  have head: "safe (restoreMon H) v (wrapWith f (headSnapshotSizeS3 H src)) (\<lambda>x w. unrestored w \<and> (\<forall>n. x = Inr n \<longrightarrow> rv_size w = Some n))" for f
    unfolding headSnapshotSizeS3_def
    apply (intro safe_wrapWith restoreM.safe_bindE_quiet [OF client])
    subgoal using v by simp
    subgoal
      using v by (intro safe_bind_single [OF single_acalls(22)])
        (auto simp: restoreMon_def un intro!: safe_return split: sum.split option.split)
    done
  have fetch: "safe (restoreMon H) w (wrapWith f (downloadS3 H src (restoreDataDir H))) (\<lambda>x u. unrestored u \<and> (\<forall>p. x = Inr p \<longrightarrow> hasRoom u))"
    if w: "unrestored w" "hasRoom w" for w f
  proof -
    have fresh: "rv_fresh w" using w by (simp add: unrestored_def)
    have "emits (\<lambda>e. restoreMon H w e = Some w) (downloadS3 H src (restoreDataDir H))"
      unfolding downloadS3_def s3Client_def Let_def
      by (intro emits_rules) (simp_all add: restoreMon_def w fresh)
    then show ?thesis by (intro safe_wrapWith) (rule safe_weaken [OF emits_safe], use w in auto)
  qed
  have stat: "safe (restoreMon H) v (wrapWith f (osStat H p)) (\<lambda>x w. unrestored w \<and> (\<forall>fi. x = Inr fi \<longrightarrow> rv_size w = Some (fi_Size fi)))" for f p
    using v by (intro safe_wrapWith safe_single [OF single_acalls(1)]) (auto simp: restoreMon_def unrestored_def split: sum.split)
  show ?thesis
    unfolding obtainSnapshot_def fetchS3Snapshot_def Let_def
    by (intro safe_if safe_bindE [OF head] safe_bindE [OF ensureRestoreSpace_mon] fetch safe_bindE [OF stat] safe_return) auto
qed

lemma restoreInto_mon:
  assumes v: "unrestored v" "hasRoom v"
  shows "safe (restoreMon H) v (restoreInto H (restoreDataDir H) (memberDirOf H) etcdutl snap)
    (\<lambda>x w. (x = Inr () \<longleftrightarrow> rv_moved w) \<and> \<not> rv_exists w \<and> rv_fresh w)"
proof -
  have fresh: "rv_fresh v" "\<not> rv_restored v" "\<not> rv_exists v" "\<not> rv_moved v" using v by (simp_all add: unrestored_def)
  have room: "hasRoom (v\<lparr>rv_restored := b\<rparr>) = hasRoom v" for b by (simp add: hasRoom_def)
  have run: "safe (restoreMon H) v (runEtcdutlRestore H etcdutl snap (stagingOf H))
      (\<lambda>x w. case x of Inl _ \<Rightarrow> w = v\<lparr>rv_restored := False\<rparr> | Inr _ \<Rightarrow> w = v\<lparr>rv_restored := True\<rparr>)"
    unfolding runEtcdutlRestore_def Let_def
    by (intro safe_orFail_single [OF single_acalls(15)])
      (simp_all add: restoreMon_def restoreArgs_def v fresh safe_return)
  let ?w = "v\<lparr>rv_restored := True, rv_moved := True\<rparr>"
  have rest: "safe (restoreMon H) ?w (State_Monad.bind (removeAll H (stagingOf H)) (\<lambda>_. State_Monad.bind (print s) (\<lambda>_. return (Inr ()))))
      (\<lambda>x w. (x = Inr () \<longleftrightarrow> rv_moved w) \<and> \<not> rv_exists w \<and> rv_fresh w)" for s
    by (intro safe_bind_single [OF single_acalls(11)], simp add: restoreMon_def fresh)
      (intro safe_bind_single [OF single_acalls(27)], simp add: restoreMon_def fresh safe_return)
  show ?thesis
    unfolding restoreInto_def Let_def
    apply (rule safe_bind_single [OF single_acalls(11)], simp add: restoreMon_def fresh)
    apply (rule safe_bindE [OF run])
    subgoal by (simp add: fresh)
    subgoal by (rule safe_orFail_single [OF single_acalls(9)]) (simp_all add: restoreMon_def fresh rest)
    done
qed

text \<open>
  C39. A restore touches nothing when the member directory exists, and otherwise puts data into place only by
  renaming the directory that etcdutl has completely rebuilt in the staging directory. Nothing is downloaded or
  rebuilt before twice the size of the snapshot was found free on the data volume; leftovers are removed only
  while no data is in place. The agent succeeds exactly when the member directory was there already or has been
  moved into place.
\<close>

theorem RunRestore_guarded:
  "\<exists>v. runMonitor (restoreMon H) noRestore (trace_of (RunRestore H)) = Some v \<and>
     (value_of (RunRestore H) = Inr () \<longleftrightarrow> rv_exists v \<or> rv_moved v)"
proof -
  let ?Q = "\<lambda>x v. x = Inr () \<longleftrightarrow> rv_exists v \<or> rv_moved v"
  have un: "\<not> rv_exists v \<and> \<not> rv_moved v" if "unrestored v" for v using that by (simp add: unrestored_def)
  have kind: "d_kind d = ''s3'' \<or> d_kind d = ''pvc''" if "restoreSource H = Inr d" for d
    using that by (auto simp: restoreSource_def loadDestination_def Let_def split: sum.splits if_splits)
  have finish: "safe (restoreMon H) w (State_Monad.bind (restoreInto H (restoreDataDir H) (memberDirOf H) etcdutl snap) (\<lambda>r.
      State_Monad.bind (if b then State_Monad.bind (osRemove H snap) (\<lambda>_. return ()) else return ()) (\<lambda>_. return r))) ?Q"
    if "unrestored w" "hasRoom w" for w etcdutl snap b
  proof (rule safe_bind [OF restoreInto_mon [OF that]])
    fix r :: "goerror + unit" and w' :: restoreView
    assume w': "(r = Inr () \<longleftrightarrow> rv_moved w') \<and> \<not> rv_exists w' \<and> rv_fresh w'"
    then have "emits (\<lambda>e. restoreMon H w' e = Some w') (if b then State_Monad.bind (osRemove H snap) (\<lambda>_. return ()) else return ())"
      by (intro emits_rules) (simp add: restoreMon_def)
    then show "safe (restoreMon H) w' (State_Monad.bind (if b then State_Monad.bind (osRemove H snap) (\<lambda>_. return ()) else return ()) (\<lambda>_. return r)) ?Q"
      by (rule safe_bind [OF emits_safe]) (use w' in \<open>auto intro: safe_return\<close>)
  qed
  have body: "safe (restoreMon H) v (bindE (resolveEtcdutl H) (\<lambda>etcdutl. bindE (cleanStaleRestoreArtifacts H (restoreDataDir H)) (\<lambda>_.
      bindE (obtainSnapshot H src (restoreDataDir H)) (\<lambda>snap. State_Monad.bind (restoreInto H (restoreDataDir H) (memberDirOf H) etcdutl snap) (\<lambda>r.
      State_Monad.bind (if d_kind src = ''s3'' then State_Monad.bind (osRemove H snap) (\<lambda>_. return ()) else return ()) (\<lambda>_. return r)))))) ?Q"
    if "unrestored v" "restoreSource H = Inr src" for v src
    by (intro safe_bindE [OF resolveEtcdutl_mon [OF that(1)]] safe_bindE [OF cleanStale_mon] safe_bindE [OF obtainSnapshot_mon] finish)
      (auto simp: un kind [OF that(2)])
  have "safe (restoreMon H) noRestore (RunRestore H) ?Q"
    unfolding RunRestore_def Let_def bindE_return restoreDataDir_def [symmetric]
    apply (rule safe_bind_single [OF single_acalls(1)])
    subgoal for s
    proof (cases s)
      case (Inr fi)
      then show ?thesis
        by (simp add: restoreMon_def noRestore_def, intro safe_bind_single [OF single_acalls(27)]) (simp add: restoreMon_def safe_return)
    next
      case (Inl err)
      then show ?thesis
        by (cases "IsNotFound err")
          (auto simp: restoreMon_def noRestore_def unrestored_def intro!: safe_return safe_case_sum body)
    qed
    done
  then show ?thesis by (rule safeD)
qed

end
