(* ===== verification/SnapshotContract.thy ===== *)
theory SnapshotContract
  imports SnapshotController AgentContract
begin

text \<open>
  Correctness of snapshots: the line the agent prints is read back by the controller, the environment the
  Job and the init container carry is what the agents read, and the life of a snapshot.
\<close>

section \<open>The marker\<close>

lemma prefix_straddle:
  assumes "x \<notin> set p" "prefix (p @ [x]) (pre @ (p @ [x]) @ rest)" "pre \<noteq> []"
  shows "prefix (p @ [x]) pre"
proof (rule ccontr)
  assume no: "\<not> prefix (p @ [x]) pre"
  from assms(2) have "prefix pre (p @ [x])"
    by (metis no prefixI prefix_same_cases)
  then obtain b where b: "p @ [x] = pre @ b" by (auto elim: prefixE)
  with no have "b \<noteq> []" by auto
  then have last: "last b = x" using b by (metis last_appendR last_snoc)
  from assms(2) have "prefix b ((p @ [x]) @ rest)" by (simp only: b same_prefix_prefix append_assoc)
  moreover have "length b < length (p @ [x])" using b assms(3) by simp
  ultimately have "prefix b p"
    by (metis length_append_singleton less_Suc_eq_le prefix_append prefix_length_prefix prefix_order.dual_order.refl prefixI)
  then have "set b \<subseteq> set p" by (rule set_mono_prefix)
  then show False using last \<open>b \<noteq> []\<close> assms(1) by (metis last_in_set subsetD)
qed

lemma isDecDigit_digitChar: "d < 10 \<Longrightarrow> isDecDigit (digitChar d)"
  by (simp add: isDecDigit_def digitChar_def Let_def)

lemma showNat_digits: "list_all isDecDigit (showNat n)"
  by (induction n rule: showNat.induct) (simp add: showNat.simps isDecDigit_digitChar)

lemma showNat_nonempty [simp]: "showNat n \<noteq> []"
  by (subst showNat.simps) simp

definition markerEnd :: "string \<Rightarrow> string \<Rightarrow> string" where
  "markerEnd ds h = [CHR 0x22] @ '' size='' @ ds @ '' sha256='' @ h"

lemma markerTail_end:
  assumes "list_all isDecDigit ds" "ds \<noteq> []" "length h = 64" "list_all isHexLower h"
  shows "markerTail (markerEnd ds h @ rest) = Some (ds, h)"
proof -
  have sp: "\<not> isDecDigit (CHR '' '')" by (simp add: isDecDigit_def)
  have "takeWhile isDecDigit (ds @ '' sha256='' @ h @ rest) = ds" "dropWhile isDecDigit (ds @ '' sha256='' @ h @ rest) = '' sha256='' @ h @ rest"
    using assms(1) sp by (simp_all add: list_all_iff takeWhile_append2 dropWhile_append2)
  then show ?thesis using assms by (simp add: markerTail_def markerEnd_def)
qed

lemma markerTail_other: "c \<noteq> CHR 0x22 \<Longrightarrow> markerTail (c # cs) = None"
  by (simp add: markerTail_def)

lemma markerURI_found:
  assumes "markerTail t = Some (ds, h)" "u \<noteq> []" "CHR 0x22 \<notin> set u" "CHR 0x0A \<notin> set u"
  shows "markerURI acc (u @ t) = Some (acc @ u, ds, h)"
  using assms(2-)
proof (induction u arbitrary: acc)
  case (Cons c cs)
  have "markerTail (cs @ t) = None" if "cs \<noteq> []"
    using that Cons.prems by (cases cs) (auto intro!: markerTail_other)
  then show ?case using Cons.IH [of "acc @ [c]"] Cons.prems assms(1) by (cases "cs = []") auto
qed simp

lemma findMarker_step: "\<not> prefix markerPrefix (c # s) \<Longrightarrow> findMarker (c # s) = findMarker s"
  by (subst findMarker.simps) simp

lemma findMarker_here: "markerURI [] s = Some m \<Longrightarrow> findMarker (markerPrefix @ s) = Some m"
  by (subst findMarker.simps) simp

lemma findMarker_skip:
  assumes "\<not> sublist markerPrefix pre"
  shows "findMarker (pre @ markerPrefix @ rest) = findMarker (markerPrefix @ rest)"
  using assms
proof (induction pre)
  case (Cons c pre)
  have "CHR 0x22 \<notin> set ''snapshot uploaded: uri=''" by simp
  then have "\<not> prefix markerPrefix ((c # pre) @ markerPrefix @ rest)"
    using prefix_straddle [of "CHR 0x22" "''snapshot uploaded: uri=''" "c # pre" rest] Cons.prems prefix_imp_sublist
    unfolding markerPrefix_def by blast
  moreover have "\<not> sublist markerPrefix pre" using Cons.prems by (simp add: sublist_Cons_right)
  ultimately show ?case using Cons.IH findMarker_step [of c "pre @ markerPrefix @ rest"] by simp
qed simp

text \<open>
  The agent and the controller agree: from a log that holds the line the agent prints, after text without the
  beginning of such a line and before any text, the controller reads back the destination, the size and the digest,
  when every character of the destination is printable and neither a quote nor a backslash, the size is a 64-bit one and the digest is a
  lower-case hexadecimal SHA-256.
\<close>

lemma parseSnapshotMarker_markerLine:
  assumes "u \<noteq> []" "plainText u" "0 \<le> n" "n < 2 ^ 63"
    "length digest = 64" "list_all isHexLower digest" "\<not> sublist markerPrefix pre"
  shows "parseSnapshotMarker (pre @ markerLine u n digest @ post) =
    Inr \<lparr>sa_URI = u, sa_SizeBytes = n, sa_Checksum = ''sha256:'' @ digest\<rparr>"
proof -
  let ?t = "markerEnd (showNat (nat n)) digest @ [CHR 0x0A] @ post"
  have tail: "markerTail ?t = Some (showNat (nat n), digest)"
    using assms(5,6) by (simp add: markerTail_end showNat_digits)
  note u = plainText_not_in [OF assms(2)]
  have "pre @ markerLine u n digest @ post = pre @ markerPrefix @ u @ ?t"
    using assms(3) by (simp add: markerLine_def goQuote_def goEscape_plain [OF assms(2)] showInt_def markerEnd_def markerPrefix_def)
  moreover have "findMarker (markerPrefix @ u @ ?t) = Some (u, showNat (nat n), digest)"
    using markerURI_found [OF tail assms(1) u(1,3), of "[]"] by (intro findMarker_here) simp
  ultimately have "findMarker (pre @ markerLine u n digest @ post) = Some (u, showNat (nat n), digest)"
    using findMarker_skip [OF assms(7), of "u @ ?t"] by (simp only:)
  then show ?thesis using assms(3,4) by (simp add: parseSnapshotMarker_def decValue_showNat)
qed

text \<open>Where it is not, the controller records the escaped text: here a tab of the key as a backslash and a \<^verbatim>\<open>t\<close>.\<close>

lemma parseSnapshotMarker_escaped:
  "parseSnapshotMarker (markerLine (''file:///b/a'' @ [CHR 0x09] @ ''.db'') 3 (replicate 64 (CHR ''0''))) =
    Inr \<lparr>sa_URI = ''file:///b/a'' @ [CHR 0x5C] @ ''t.db'', sa_SizeBytes = 3, sa_Checksum = ''sha256:'' @ replicate 64 (CHR ''0'')\<rparr>"
  by code_simp

section \<open>The environment of the agents\<close>

text \<open>The environment of a container; \<open>sec\<close> is what the Secrets hold.\<close>

definition getenvOf :: "(string \<Rightarrow> string \<Rightarrow> string) \<Rightarrow> Container \<Rightarrow> string \<Rightarrow> string" where
  "getenvOf sec c name =
     (case List.find (\<lambda>e. ev_Name e = name) (ctr_Env c) of
        None \<Rightarrow> ''''
      | Some e \<Rightarrow> (case ev_Value e of EnvLiteral v \<Rightarrow> v | EnvSecretKey s k \<Rightarrow> sec s k))"

text \<open>The destination an agent is meant to use for a location; a claim is mounted at \<open>mount\<close>.\<close>

definition locationDest :: "string \<Rightarrow> SnapshotLocation \<Rightarrow> goerror + destination" where
  "locationDest mount loc =
     (case sl_S3 loc of
        Some s3 \<Rightarrow>
          if s3_Bucket s3 = '''' \<or> s3_Endpoint s3 = '''' then Inl (errorf ''s3 destination requires S3_ENDPOINT and S3_BUCKET'')
          else Inr \<lparr>d_kind = ''s3'', d_s3Endpoint = s3_Endpoint s3, d_s3Bucket = s3_Bucket s3, d_s3Key = s3_Key s3,
            d_s3Region = s3_Region s3, d_s3PathStyle = s3_ForcePathStyle s3, d_pvcMount = '''', d_pvcSubPath = ''''\<rparr>
      | None \<Rightarrow> (case sl_PVC loc of
          Some pvc \<Rightarrow> Inr \<lparr>d_kind = ''pvc'', d_s3Endpoint = '''', d_s3Bucket = '''', d_s3Key = '''', d_s3Region = '''',
            d_s3PathStyle = False, d_pvcMount = mount, d_pvcSubPath = pl_SubPath pvc\<rparr>
        | None \<Rightarrow> Inl (errorf (''unknown SNAPSHOT_DEST_KIND='' @ goQuote '''' @ '' (want s3|pvc)''))))"

lemma find_append_none: "List.find P xs = None \<Longrightarrow> List.find P (xs @ ys) = List.find P ys"
  by (induction xs) (auto split: if_splits)

lemma getenv_skip:
  assumes "ctr_Env c = pre @ env" "n \<notin> ev_Name ` set pre"
  shows "getenvOf sec c n = getenvOf sec (c\<lparr>ctr_Env := env\<rparr>) n"
proof -
  have "List.find (\<lambda>e. ev_Name e = n) pre = None" using assms(2) by (auto simp: find_None_iff)
  then show ?thesis by (simp add: getenvOf_def assms(1) find_append_none)
qed

lemma ev_Name_simps: "ev_Name (envVar n v) = n" "ev_Name (secretEnv n s k) = n"
  by (simp_all add: envVar_def secretEnv_def)

lemma snapshotAuthEnv_names: "ev_Name ` set (snapshotAuthEnv c) \<subseteq> {''ETCD_USERNAME'', ''ETCD_PASSWORD''}"
proof -
  have "snapshotAuthEnv c = [] \<or> (\<exists>s. snapshotAuthEnv c = [envVar ''ETCD_USERNAME'' ''root'', secretEnv ''ETCD_PASSWORD'' s ''password''])"
    unfolding snapshotAuthEnv_def by (simp split: option.split) blast
  then show ?thesis
    by (elim disjE exE) (simp_all only: list.set image_insert image_empty ev_Name_simps empty_subsetI subset_refl)
qed

definition destVars :: "string set" where
  "destVars = {''SNAPSHOT_DEST_KIND'', ''S3_ENDPOINT'', ''S3_BUCKET'', ''S3_KEY'', ''S3_REGION'', ''S3_FORCE_PATH_STYLE'',
     ''PVC_MOUNT_PATH'', ''PVC_SUBPATH''}"

lemma loadDestination_cong: "(\<And>n. n \<in> destVars \<Longrightarrow> f n = g n) \<Longrightarrow> loadDestination f = loadDestination g"
  by (simp add: loadDestination_def destVars_def)

lemma showBool_true: "(showBool b = ''true'') = b"
  by (simp add: showBool_def)

lemma loadDestination_dest:
  assumes "ctr_Env c = pre @ fst (snapshotDestParts loc)" "ev_Name ` set pre \<inter> destVars = {}"
  shows "loadDestination (getenvOf sec c) = locationDest snapshotPVCMountPath loc"
proof -
  have "loadDestination (getenvOf sec c) = loadDestination (getenvOf sec (c\<lparr>ctr_Env := fst (snapshotDestParts loc)\<rparr>))"
    by (rule loadDestination_cong, rule getenv_skip [OF assms(1)]) (use assms(2) in blast)
  also have "\<dots> = locationDest snapshotPVCMountPath loc"
    by (auto simp: getenvOf_def snapshotDestParts_def locationDest_def loadDestination_def s3Env_def envVar_def secretEnv_def
        showBool_true split: option.split)
  finally show ?thesis .
qed

lemma restoreContainer_source:
  "loadDestination (getenvOf sec (last (fst (restoreInitContainers m rs peerAddr opImg etcdImg)))) =
     locationDest ''/restore/src'' (rs_Source rs)"
proof -
  define env where "env = (case sl_S3 (rs_Source rs) of Some s3 \<Rightarrow> s3Env s3 | None \<Rightarrow> (case sl_PVC (rs_Source rs) of
      Some pvc \<Rightarrow> [envVar ''SNAPSHOT_DEST_KIND'' ''pvc'', envVar ''PVC_MOUNT_PATH'' ''/restore/src'', envVar ''PVC_SUBPATH'' (pl_SubPath pvc)]
    | None \<Rightarrow> []))"
  let ?c = "last (fst (restoreInitContainers m rs peerAddr opImg etcdImg))"
  let ?pre = "[envVar ''ETCD_DATA_DIR'' ''/var/lib/etcd'', envVar ''ETCD_MEMBER_NAME'' (emName m),
      envVar ''ETCD_INITIAL_CLUSTER'' (ms_InitialCluster (em_Spec m)), envVar ''ETCD_INITIAL_CLUSTER_TOKEN'' (ms_ClusterToken (em_Spec m)),
      envVar ''ETCD_PEER_URLS'' peerAddr]"
  have split: "ctr_Env ?c = ?pre @ env"
    unfolding env_def
    by (cases "sl_S3 (rs_Source rs)"; cases "sl_PVC (rs_Source rs)") (simp_all add: restoreInitContainers_def Let_def)
  have "n \<notin> ev_Name ` set ?pre" if "n \<in> destVars" for n
    using that by (auto simp: envVar_def destVars_def)
  then have "loadDestination (getenvOf sec ?c) = loadDestination (getenvOf sec (?c\<lparr>ctr_Env := env\<rparr>))"
    by (intro loadDestination_cong getenv_skip [OF split])
  also have "\<dots> = locationDest ''/restore/src'' (rs_Source rs)"
    by (cases "sl_S3 (rs_Source rs)"; cases "sl_PVC (rs_Source rs)")
      (simp_all add: env_def getenvOf_def locationDest_def loadDestination_def s3Env_def envVar_def secretEnv_def showBool_true)
  finally show ?thesis .
qed

abbreviation (input) jobContainer :: "EtcdSnapshot \<Rightarrow> EtcdCluster \<Rightarrow> string \<Rightarrow> Container" where
  "jobContainer snap c img \<equiv> hd (pos_Containers (job_PodSpec (buildSnapshotJob snap c img)))"

lemma snapshotJob_env:
  "loadDestination (getenvOf sec (jobContainer snap c img)) = locationDest ''/snapshot/data'' (ss_Destination (es_Spec snap)) \<and>
   getenvOf sec (jobContainer snap c img) ''SNAPSHOT_NAME'' = om_Name (es_Meta snap) \<and>
   getenvOf sec (jobContainer snap c img) ''SNAPSHOT_UID'' = om_UID (es_Meta snap)"
proof -
  let ?c = "hd (pos_Containers (job_PodSpec (buildSnapshotJob snap c img)))"
  let ?loc = "ss_Destination (es_Spec snap)"
  let ?pre = "[envVar ''ETCD_ENDPOINTS'' (clientServiceEndpoint c), envVar ''SNAPSHOT_NAME'' (om_Name (es_Meta snap)),
      envVar ''SNAPSHOT_UID'' (om_UID (es_Meta snap))] @ fst (snapshotTLSParts c) @ snapshotAuthEnv c"
  have env: "ctr_Env ?c = ?pre @ fst (snapshotDestParts ?loc)"
    by (simp add: buildSnapshotJob_def Let_def split: prod.split)
  have "ev_Name ` set (fst (snapshotTLSParts c)) \<inter> destVars = {}"
    by (simp add: snapshotTLSParts_def Let_def envVar_def destVars_def)
  moreover have "ev_Name ` set (snapshotAuthEnv c) \<inter> destVars = {}"
    using snapshotAuthEnv_names [of c] by (auto simp: destVars_def)
  ultimately have "ev_Name ` set ?pre \<inter> destVars = {}"
    by (simp add: image_Un Int_Un_distrib2) (simp add: envVar_def destVars_def)
  then show ?thesis
    using loadDestination_dest [OF env] env by (simp add: getenvOf_def envVar_def)
qed

text \<open>
  The agents work on the locations of the specs: read from the environment of the Job's container, the
  destination the backup agent loads is the one of the snapshot's spec, on every branch, and the name and the UID
  it marks its output with are the snapshot's; read from the environment of the restoring init container, the
  source the restore agent loads is the one of the restore spec.
\<close>

lemma snapshotJob_destination:
  "loadDestination (getenvOf sec (hd (pos_Containers (job_PodSpec (buildSnapshotJob snap c img))))) =
     locationDest ''/snapshot/data'' (ss_Destination (es_Spec snap)) \<and>
   getenvOf sec (hd (pos_Containers (job_PodSpec (buildSnapshotJob snap c img)))) ''SNAPSHOT_NAME'' = om_Name (es_Meta snap) \<and>
   getenvOf sec (hd (pos_Containers (job_PodSpec (buildSnapshotJob snap c img)))) ''SNAPSHOT_UID'' = om_UID (es_Meta snap) \<and>
   loadDestination (getenvOf sec (last (fst (restoreInitContainers m rs peerAddr opImg etcdImg)))) = locationDest ''/restore/src'' (rs_Source rs)"
  using snapshotJob_env restoreContainer_source by blast

section \<open>The life of a snapshot\<close>

record snapshotView =
  nv_snap :: "EtcdSnapshot option"
  nv_cluster :: "(goerror + EtcdCluster) option"
  nv_job :: "(goerror + Job) option" \<comment> \<open>the Job in the cache\<close>
  nv_live :: "(goerror + Job) option" \<comment> \<open>the Job at the API server\<close>
  nv_pods :: "Pod list"
  nv_log :: "(string \<times> string) option" \<comment> \<open>Pod and log\<close>
  nv_created :: bool

definition noSnapshot :: snapshotView where
  "noSnapshot = \<lparr>nv_snap = None, nv_cluster = None, nv_job = None, nv_live = None, nv_pods = [], nv_log = None, nv_created = False\<rparr>"

definition missing :: "(goerror + 'o) option \<Rightarrow> bool" where
  "missing r = (case r of Some (Inl err) \<Rightarrow> IsNotFound err | _ \<Rightarrow> False)"

abbreviation phaseOf :: "EtcdSnapshot \<Rightarrow> SnapshotPhase" where "phaseOf s \<equiv> sst_Phase (es_Status s)"

text \<open>A Job is created once, for a pending snapshot that has none, with the credentials in effect.\<close>

definition launchOK :: "env \<Rightarrow> string \<Rightarrow> snapshotView \<Rightarrow> Job \<Rightarrow> bool" where
  "launchOK E img v j \<longleftrightarrow> \<not> nv_created v \<and> img \<noteq> '''' \<and> missing (nv_job v) \<and>
     (\<exists>s c. nv_snap v = Some s \<and> nv_cluster v = Some (Inr c) \<and> phaseOf s = SnapshotPhasePending \<and> authLatched c \<and>
        setControllerReference E ''EtcdSnapshot'' (es_Meta s) (job_Meta (buildSnapshotJob s c img)) = Inr (job_Meta j) \<and>
        j = (buildSnapshotJob s c img)\<lparr>job_Meta := job_Meta j\<rparr>)"

text \<open>Complete: the Job has succeeded, and the artifact is what the log of a succeeded Pod reports.\<close>

definition completeOK :: "snapshotView \<Rightarrow> EtcdSnapshot \<Rightarrow> bool" where
  "completeOK v s' \<longleftrightarrow>
     (\<exists>job pod text a. nv_job v = Some (Inr job) \<and> \<not> jobFailed job \<and> job_Succeeded job \<ge> 1 \<and>
        pod \<in> set (nv_pods v) \<and> pods_Phase (pod_Status pod) = PodSucceeded \<and> nv_log v = Some (om_Name (pod_Meta pod), text) \<and>
        parseSnapshotMarker text = Inr a \<and> sst_Artifact (es_Status s') = Some a)"

text \<open>Failed: a cause that does not go away, and for a started snapshot never the mere absence from the cache.\<close>

definition failedOK :: "string \<Rightarrow> snapshotView \<Rightarrow> EtcdSnapshot \<Rightarrow> bool" where
  "failedOK img v s \<longleftrightarrow> img = '''' \<or> missing (nv_cluster v) \<or>
     (\<exists>c. nv_cluster v = Some (Inr c) \<and> \<not> authLatched c) \<or>
     (\<exists>job. nv_job v = Some (Inr job) \<and> jobFailed job) \<or>
     phaseOf s = SnapshotPhaseStarted \<and> missing (nv_job v) \<and> missing (nv_live v)"

definition snapshotStatusOK :: "string \<Rightarrow> snapshotView \<Rightarrow> EtcdSnapshot \<Rightarrow> bool" where
  "snapshotStatusOK img v s' \<longleftrightarrow>
     (\<exists>s. nv_snap v = Some s \<and> es_Meta s' = es_Meta s \<and> es_Spec s' = es_Spec s \<and>
       (case phaseOf s' of
          SnapshotPhaseNone \<Rightarrow> False
        | SnapshotPhasePending \<Rightarrow> phaseOf s = SnapshotPhaseNone
        | SnapshotPhaseStarted \<Rightarrow> phaseOf s = SnapshotPhasePending \<and> (nv_created v \<or> (\<exists>job. nv_job v = Some (Inr job)))
        | SnapshotPhaseComplete \<Rightarrow> phaseOf s \<in> {SnapshotPhasePending, SnapshotPhaseStarted} \<and> completeOK v s'
        | SnapshotPhaseFailed \<Rightarrow> phaseOf s \<in> {SnapshotPhasePending, SnapshotPhaseStarted} \<and> failedOK img v s))"

definition snapshotMon :: "env \<Rightarrow> string \<Rightarrow> snapshotView \<Rightarrow> event \<Rightarrow> snapshotView option" where
  "snapshotMon E img v e =
     (case e of
        ESnapshot (KGet rd q r) \<Rightarrow> Some (case r of Inl _ \<Rightarrow> v | Inr s \<Rightarrow> v\<lparr>nv_snap := Some s\<rparr>)
      | ESnapshot (KWrite (StatusUpdate s') r) \<Rightarrow> if snapshotStatusOK img v s' then Some v else None
      | ECluster (KGet rd q r) \<Rightarrow> Some (v\<lparr>nv_cluster := Some r\<rparr>)
      | EJob (KGet rd q r) \<Rightarrow> Some (if rd = Cached then v\<lparr>nv_job := Some r\<rparr> else v\<lparr>nv_live := Some r\<rparr>)
      | EJob (KWrite (Create j) r) \<Rightarrow> if launchOK E img v j then Some (v\<lparr>nv_created := True\<rparr>) else None
      | EPod (KList rd ns sel r) \<Rightarrow> Some (case r of Inl _ \<Rightarrow> v | Inr pods \<Rightarrow> v\<lparr>nv_pods := pods\<rparr>)
      | EPodLog ns p ctr r \<Rightarrow> Some (case r of Inl _ \<Rightarrow> v | Inr t \<Rightarrow> v\<lparr>nv_log := Some (p, t)\<rparr>)
      | _ \<Rightarrow> None)"

lemma setPhase_mon:
  assumes "\<And>s'. es_Meta s' = es_Meta s \<Longrightarrow> es_Spec s' = es_Spec s \<Longrightarrow> phaseOf s' = ph \<Longrightarrow>
     sst_Artifact (es_Status s') = sst_Artifact (es_Status s) \<Longrightarrow> snapshotStatusOK img v s'"
  shows "safe (snapshotMon E img) v (setPhase E s ph cs reason msg) (\<lambda>_ _. True)"
  unfolding setPhase_def
  by (intro safe_bind_timeNow safe_bind_single [OF single_calls(24)]) (simp add: snapshotMon_def assms safe_return)

lemma failSnapshot_mon:
  assumes "nv_snap v = Some s" "phaseOf s \<in> {SnapshotPhasePending, SnapshotPhaseStarted}" "failedOK img v s"
  shows "safe (snapshotMon E img) v (failSnapshot E s reason msg) (\<lambda>_ _. True)"
  unfolding failSnapshot_def
  by (rule safe_bind [OF setPhase_mon]) (use assms in \<open>auto simp: snapshotStatusOK_def intro: safe_return\<close>)

lemma launchJob_mon:
  assumes v: "nv_snap v = Some s" "nv_cluster v = Some (Inr c)" "missing (nv_job v)" "\<not> nv_created v" "authLatched c"
    and img: "snr_OperatorImage r \<noteq> ''''" and ph: "phaseOf s \<in> {SnapshotPhasePending, SnapshotPhaseStarted}"
  shows "safe (snapshotMon E (snr_OperatorImage r)) v (launchJob E r s c) (\<lambda>_ _. True)"
proof -
  let ?img = "snr_OperatorImage r"
  let ?job = "buildSnapshotJob s c ?img"
  have lost: "safe (snapshotMon E ?img) (v\<lparr>nv_live := Some (Inl err)\<rparr>) (failSnapshot E s reason msg) (\<lambda>_ _. True)"
    if "phaseOf s = SnapshotPhaseStarted" "IsNotFound err" for err reason msg
    by (rule failSnapshot_mon) (use v that in \<open>auto simp: failedOK_def missing_def\<close>)
  have create: "safe (snapshotMon E ?img) v (bindE (writeJob E (Create (?job\<lparr>job_Meta := meta\<rparr>))) (\<lambda>_.
      setPhase E s SnapshotPhaseStarted cs reason msg)) (\<lambda>_ _. True)"
    if "setControllerReference E ''EtcdSnapshot'' (es_Meta s) (job_Meta ?job) = Inr meta" "phaseOf s = SnapshotPhasePending" for meta cs reason msg
  proof -
    have "launchOK E ?img v (?job\<lparr>job_Meta := meta\<rparr>)" using v img that by (auto simp: launchOK_def)
    then show ?thesis
      by (intro safe_bindE_single [OF single_calls(26)])
        (use v that in \<open>auto simp: snapshotMon_def snapshotStatusOK_def intro!: setPhase_mon\<close>)
  qed
  have live: "safe (snapshotMon E ?img) v (State_Monad.bind (getJob E Live k) (\<lambda>live. case live of
       Inr _ \<Rightarrow> return (requeueAfter (seconds 5))
     | Inl err \<Rightarrow> if \<not> IsNotFound err then return (Inl err) else failSnapshot E s reason msg)) (\<lambda>_ _. True)"
    if "phaseOf s = SnapshotPhaseStarted" for k reason msg
    apply (rule safe_bind_single [OF single_calls(25)])
    subgoal for g by (cases g) (auto simp: snapshotMon_def intro!: safe_return lost that)
    done
  show ?thesis
    unfolding launchJob_def Let_def liftE_def bindE_return
    by (intro safe_if live safe_case_sum safe_return create) (use ph in auto)
qed

lemma extractSnapshot_mon:
  assumes "nv_job v = Some (Inr job)"
  shows "safe (snapshotMon E img) v (extractSnapshot E s job) (\<lambda>x w. (\<exists>pods l. w = v\<lparr>nv_pods := pods, nv_log := l\<rparr>) \<and>
    (\<forall>a. x = Inr a \<longrightarrow> (\<exists>pod text. pod \<in> set (nv_pods w) \<and> pods_Phase (pod_Status pod) = PodSucceeded \<and>
       nv_log w = Some (om_Name (pod_Meta pod), text) \<and> parseSnapshotMarker text = Inr a)))"
proof -
  have same: "\<exists>pods l. v = v\<lparr>nv_pods := pods, nv_log := l\<rparr>" by (intro exI [of _ "nv_pods v"] exI [of _ "nv_log v"]) simp
  have keep: "\<exists>ps l. v\<lparr>nv_pods := pods\<rparr> = v\<lparr>nv_pods := ps, nv_log := l\<rparr>" for pods
    by (intro exI [of _ pods] exI [of _ "nv_log v"]) simp
  have found: "\<exists>pod \<in> set pods. pods_Phase (pod_Status pod) = PodSucceeded \<and> om_Name (pod_Meta pod) = n"
    if "(case List.find (\<lambda>p. pods_Phase (pod_Status p) = PodSucceeded) pods of None \<Rightarrow> '''' | Some p \<Rightarrow> om_Name (pod_Meta p)) = n" "n \<noteq> ''''"
    for pods and n :: string
    using that by (auto simp: find_Some_iff split: option.splits)
  show ?thesis
    unfolding extractSnapshot_def Let_def
    apply (rule safe_bindE_single [OF single_calls(7)])
    subgoal using same by (simp add: snapshotMon_def)
    subgoal for ps
      apply (simp only: snapshotMon_def event.case kev.case sum.case andThen_simps)
      apply (rule safe_if)
      subgoal using keep by (auto intro!: safe_return)
      subgoal
        apply (rule safe_bindE_single [OF single_calls(42)])
        subgoal using keep by (simp add: snapshotMon_def)
        subgoal for logText using found [OF refl, of ps] by (fastforce simp: snapshotMon_def intro!: safe_return)
        done
      done
    done
qed

lemma inspectJob_mon:
  assumes v: "nv_snap v = Some s" "nv_job v = Some (Inr job)" and ph: "phaseOf s \<in> {SnapshotPhasePending, SnapshotPhaseStarted}"
  shows "safe (snapshotMon E img) v (inspectJob E s job) (\<lambda>_ _. True)"
proof -
  have failed: "safe (snapshotMon E img) v (failSnapshot E s reason msg) (\<lambda>_ _. True)" if "jobFailed job" for reason msg
    by (rule failSnapshot_mon [OF v(1) ph]) (use v that in \<open>auto simp: failedOK_def\<close>)
  have started: "safe (snapshotMon E img) v (bindE (setPhase E s SnapshotPhaseStarted cs reason msg) (\<lambda>_. return res)) (\<lambda>_ _. True)"
    if "phaseOf s \<noteq> SnapshotPhaseStarted" for cs reason msg res
    by (rule safe_bindE [OF setPhase_mon]) (use v ph that in \<open>auto simp: snapshotStatusOK_def intro: safe_return\<close>)
  have stored: "safe (snapshotMon E img) v (State_Monad.bind (extractSnapshot E s job) (\<lambda>a. case a of
       Inl _ \<Rightarrow> return res
     | Inr snap \<Rightarrow> setPhase E (s\<lparr>es_Status := (es_Status s)\<lparr>sst_Artifact := Some snap\<rparr>\<rparr>) SnapshotPhaseComplete cs reason msg)) (\<lambda>_ _. True)"
    if "\<not> jobFailed job" "\<not> job_Succeeded job < 1" for cs reason msg res
    apply (rule safe_bind [OF extractSnapshot_mon [OF v(2)]])
    subgoal for x w
      by (cases x) (use v ph that in \<open>auto simp: snapshotStatusOK_def completeOK_def intro!: safe_return setPhase_mon\<close>)
    done
  show ?thesis
    unfolding inspectJob_def by (intro safe_if failed started stored safe_return TrueI)
qed

lemma snapshotOnCluster_mon:
  assumes v: "nv_snap v = Some s" "nv_cluster v = Some (Inr c)" "\<not> nv_created v" and img: "snr_OperatorImage r \<noteq> ''''"
    and ph: "phaseOf s \<in> {SnapshotPhasePending, SnapshotPhaseStarted}"
  shows "safe (snapshotMon E (snr_OperatorImage r)) v (snapshotOnCluster E r s c) (\<lambda>_ _. True)"
proof -
  have late: "safe (snapshotMon E (snr_OperatorImage r)) v (failSnapshot E s reason msg) (\<lambda>_ _. True)" if "\<not> authLatched c" for reason msg
    by (rule failSnapshot_mon [OF v(1) ph]) (use v that in \<open>simp add: failedOK_def\<close>)
  have job: "safe (snapshotMon E (snr_OperatorImage r)) v (State_Monad.bind (getJob E Cached k) (\<lambda>j. case j of
       Inl err \<Rightarrow> if IsNotFound err then launchJob E r s c else return (Inl err) | Inr job \<Rightarrow> inspectJob E s job)) (\<lambda>_ _. True)"
    if "authLatched c" for k
    apply (rule safe_bind_single [OF single_calls(25)])
    subgoal for g
      by (cases g) (use v that img ph in \<open>auto simp: snapshotMon_def missing_def intro!: safe_return launchJob_mon inspectJob_mon\<close>)
    done
  show ?thesis
    unfolding snapshotOnCluster_def by (intro safe_if safe_bind_timeNow late safe_return job TrueI) simp_all
qed

text \<open>
  C35. The life of a snapshot: a pass moves it only from no phase to Pending, from Pending to Started, and from
  Pending or Started to Complete or Failed; a finished one is never written again. At most one Job is created,
  for a pending snapshot that has none, when the cluster's authentication is in effect; never for a started one. Complete
  records what the log of a succeeded Pod of the succeeded Job reports; a started snapshot whose Job is
  gone fails only when the API server itself does not have it.
\<close>

theorem snapshotReconcile_life:
  "accepted (snapshotMon E (snr_OperatorImage r)) noSnapshot (trace_of (snapshotReconcile E r req))"
proof (rule safe_accepted)
  let ?M = "snapshotMon E (snr_OperatorImage r)"
  have clus: "safe ?M (noSnapshot\<lparr>nv_snap := Some s\<rparr>) (State_Monad.bind (getCluster E k) (\<lambda>g. case g of
       Inl err \<Rightarrow> if IsNotFound err then failSnapshot E s reason msg else return (Inl err)
     | Inr c \<Rightarrow> snapshotOnCluster E r s c)) (\<lambda>_ _. True)"
    if "snr_OperatorImage r \<noteq> ''''" "phaseOf s \<in> {SnapshotPhasePending, SnapshotPhaseStarted}" for s k reason msg
    apply (rule safe_bind_single [OF single_calls(1)])
    subgoal for g
      by (cases g) (use that in \<open>auto simp: snapshotMon_def noSnapshot_def failedOK_def missing_def
        intro!: safe_return snapshotOnCluster_mon failSnapshot_mon\<close>)
    done
  have noImage: "safe ?M (noSnapshot\<lparr>nv_snap := Some s\<rparr>) (failSnapshot E s reason msg) (\<lambda>_ _. True)"
    if "snr_OperatorImage r = ''''" "phaseOf s \<in> {SnapshotPhasePending, SnapshotPhaseStarted}" for s reason msg
    by (rule failSnapshot_mon) (use that in \<open>auto simp: failedOK_def\<close>)
  have pending: "safe ?M (noSnapshot\<lparr>nv_snap := Some s\<rparr>)
      (State_Monad.bind (writeSnapshot E (StatusUpdate (s\<lparr>es_Status := (es_Status s)\<lparr>sst_Phase := SnapshotPhasePending\<rparr>\<rparr>))) (\<lambda>u. return (f u)))
      (\<lambda>_ _. True)" if "phaseOf s = SnapshotPhaseNone" for s f
    by (rule safe_bind_single [OF single_calls(24)]) (simp add: snapshotMon_def snapshotStatusOK_def that safe_return)
  show "safe ?M noSnapshot (snapshotReconcile E r req) (\<lambda>_ _. True)"
    unfolding snapshotReconcile_def Let_def
    apply (rule safe_bind_single [OF single_calls(23)])
    subgoal for g
    proof (cases g)
      case (Inr s)
      have get: "?M noSnapshot (ESnapshot (KGet Cached req (Inr s))) = Some (noSnapshot\<lparr>nv_snap := Some s\<rparr>)"
        by (simp add: snapshotMon_def)
      show ?thesis
        unfolding Inr get andThen_simps sum.case
        by (cases "phaseOf s") (intro safe_if safe_return TrueI pending noImage clus; simp)+
    qed (simp add: snapshotMon_def safe_return)
    done
qed

end
