(* ===== verification/RestoreContract.thy ===== *)
theory RestoreContract
  imports SnapshotContract
begin

text \<open>
  Backup and restore meet in the store: what a successful backup has put there, and what a restore from the
  recorded location fetches and hands to etcdutl.
\<close>

section \<open>What a backup stores\<close>

text \<open>The objects a run of the backup agent has uploaded, with the client that reaches them, and the files it has
  moved into place.\<close>

definition storedObjects :: "aevent list \<Rightarrow> (s3client \<times> string \<times> string) set" where
  "storedObjects es = {(up_Client u, b, k) | u b k. \<exists>m data. AUpload u b k m (Inr data) \<in> set es}"

definition storedFiles :: "aevent list \<Rightarrow> string set" where
  "storedFiles es = {p. \<exists>t. ARename t p None \<in> set es}"

text \<open>A monitor that waits for an event.\<close>

definition seenMon :: "('e \<Rightarrow> bool) \<Rightarrow> bool \<Rightarrow> 'e \<Rightarrow> bool option" where
  "seenMon P s e = Some (s \<or> P e)"

lemma seenMon_run: "runMonitor (seenMon P) s es = Some (s \<or> list_ex P es)"
  by (induction es arbitrary: s) (auto simp: seenMon_def)

text \<open>The monitor accepts every event, so only the last step that must have happened matters.\<close>

lemma seen_any:
  assumes "emits (\<lambda>_. True) m"
  shows "safe (seenMon P) s m (\<lambda>_ w. s \<longrightarrow> w)"
  using assms unfolding safe_def emits_def by (metis seenMon_run)

lemma seenD:
  assumes "safe (seenMon P) False m (\<lambda>x w. x = v \<longrightarrow> w)" "value_of m = v"
  shows "\<exists>e \<in> set (trace_of m). P e"
  using safeD [OF assms(1)] assms(2) by (auto simp: seenMon_run list_ex_iff)

definition clientFor :: "destination \<Rightarrow> s3client" where
  "clientFor d = \<lparr>sc_Endpoint = d_s3Endpoint d, sc_Region = (if d_s3Region d = '''' then ''us-east-1'' else d_s3Region d),
     sc_PathStyle = d_s3PathStyle d, sc_RequestChecksum = WhenRequired\<rparr>"

definition isStore :: "destination \<Rightarrow> string \<Rightarrow> aevent \<Rightarrow> bool" where
  "isStore d name e =
     (case e of
        AUpload u b k m (Inr data) \<Rightarrow> d_kind d = ''s3'' \<and> up_Client u = clientFor d \<and> b = d_s3Bucket d \<and> k = objectKey d name
      | ARename t p None \<Rightarrow> d_kind d = ''pvc'' \<and> p = localPath d name
      | _ \<Rightarrow> False)"

lemma isStore_stored:
  assumes "e \<in> set es" "isStore d name e"
  shows "d_kind d = ''s3'' \<Longrightarrow> (clientFor d, d_s3Bucket d, objectKey d name) \<in> storedObjects es"
    and "d_kind d = ''pvc'' \<Longrightarrow> localPath d name \<in> storedFiles es"
proof -
  from assms(2) consider u m data where "e = AUpload u (d_s3Bucket d) (objectKey d name) m (Inr data)" "up_Client u = clientFor d" "d_kind d = ''s3''"
    | t where "e = ARename t (localPath d name) None" "d_kind d = ''pvc''"
    by (auto simp: isStore_def split: aevent.splits sum.splits option.splits)
  then have "(d_kind d = ''s3'' \<longrightarrow> (clientFor d, d_s3Bucket d, objectKey d name) \<in> storedObjects es) \<and>
      (d_kind d = ''pvc'' \<longrightarrow> localPath d name \<in> storedFiles es)"
    using assms(1) by cases (force simp: storedObjects_def storedFiles_def)+
  then show "d_kind d = ''s3'' \<Longrightarrow> (clientFor d, d_s3Bucket d, objectKey d name) \<in> storedObjects es"
    "d_kind d = ''pvc'' \<Longrightarrow> localPath d name \<in> storedFiles es" by blast+
qed

lemma s3Client_client: "safe (seenMon P) s (s3Client H d) (\<lambda>x w. w = (w \<or> s) \<and> (\<forall>c. x = Inr c \<longrightarrow> c = clientFor d))"
  unfolding s3Client_def Let_def clientFor_def s3RequestChecksumCalculation_def
  by (intro safe_orFail_single [OF single_acalls(21)]) (auto simp: seenMon_def intro!: safe_return)

lemma writeSnapshotAtomic_stores:
  assumes "d_kind d = ''pvc''"
  shows "safe (seenMon (isStore d name)) s (writeSnapshotAtomic H (localPath d name)) (\<lambda>x w. isl x \<or> w)"
proof -
  have written: "emits (\<lambda>_. True) (writeSnapshotFile H t)" for t
    unfolding writeSnapshotFile_def by (intro emits_rules TrueI)
  have temp: "safe (seenMon P) u (wrapWith f (createTemp H dir pat)) (\<lambda>_ _. True)" for P u f dir pat
    by (rule safe_weaken [OF seen_any]) (intro emits_rules TrueI)+
  have move: "safe (seenMon (isStore d name)) u (State_Monad.bind (osRename H t (localPath d name)) (\<lambda>e. case e of
        Some err \<Rightarrow> State_Monad.bind (osRemove H t) (\<lambda>_. return (Inl (f err))) | None \<Rightarrow> return (Inr r)))
      (\<lambda>x w. isl x \<or> w)" for u t f and r :: "int \<times> string"
    apply (rule safe_bind_single [OF single_acalls(9)])
    subgoal for e
      using assms by (cases e) (auto simp: seenMon_def isStore_def intro!: safe_return safe_bind_single [OF single_acalls(10)])
    done
  show ?thesis
    unfolding writeSnapshotAtomic_def Let_def
    apply (intro safe_orFail_single [OF single_acalls(4)])
     apply (simp add: seenMon_def)
    apply (simp add: seenMon_def)
    apply (rule safe_bindE [OF temp], simp)
    apply (rule safe_bind [OF seen_any [OF written]])
    subgoal for t u w u'
      by (cases w) (auto simp: seenMon_def intro!: move safe_return safe_bind_single [OF single_acalls(10)])
    done
qed

lemma uploadS3Stream_stores:
  assumes "d_kind d = ''s3''"
  shows "safe (seenMon (isStore d name)) s (uploadS3Stream H d (objectKey d name) uid) (\<lambda>x w. isl x \<or> w)"
proof -
  have absent: "emits (\<lambda>_. True) (ensureObjectAbsent H c b k uid)" for c b k
    unfolding ensureObjectAbsent_def by (intro emits_rules TrueI)
  show ?thesis
    unfolding uploadS3Stream_def
    apply (rule safe_bindE [OF s3Client_client], simp)
    apply (rule safe_bindE [OF seen_any [OF absent]], simp)
    unfolding uploadStreamHashed_def newSnapshotUploader_def
    using assms by (intro safe_bindE_single [OF single_acalls(23)]) (auto simp: seenMon_def isStore_def intro!: safe_return)
qed

lemma storeSnapshot_stores:
  assumes "d_kind d = ''s3'' \<or> d_kind d = ''pvc''"
  shows "safe (seenMon (isStore d name)) s (storeSnapshot H d name) (\<lambda>x w. isl x \<or> w)"
proof -
  have absent: "emits (\<lambda>_. True) (ensureFileAbsent H p uid)" for p uid
    unfolding ensureFileAbsent_def Let_def by (intro emits_rules TrueI)
  have s3: "safe (seenMon (isStore d name)) s (wrapWith f (uploadS3Stream H d (objectKey d name) uid)) (\<lambda>x w. isl x \<or> w)"
    if "d_kind d = ''s3''" for f uid
    by (rule safe_wrapWith, rule safe_weaken [OF uploadS3Stream_stores [OF that]]) (auto split: sum.splits)
  have stamp: "safe (seenMon P) u (State_Monad.bind (if b then State_Monad.bind (writeFile H p c) (\<lambda>_. return ()) else return ()) (\<lambda>_. return x))
      (\<lambda>x w. isl x \<or> w)" if u for P u b p c and x :: "goerror + int \<times> string"
    by (rule safe_weaken [OF seen_any]) (intro emits_rules TrueI, simp add: that)
  show ?thesis
    unfolding storeSnapshot_def Let_def
    apply (intro safe_if)
    subgoal
      by (rule safe_bindE [OF seen_any [OF absent]], simp,
          intro safe_bindE [OF writeSnapshotAtomic_stores] safe_case_prod stamp) simp_all
    subgoal using assms by (intro s3) auto
    done
qed

lemma RunSnapshot_stores:
  assumes "value_of (RunSnapshot H) = Inr ()" "loadDestination (h_getenv H) = Inr d"
  shows "\<exists>e \<in> set (trace_of (RunSnapshot H)). isStore d (snapshotName H) e"
proof -
  have kind: "d_kind d = ''s3'' \<or> d_kind d = ''pvc''"
    using assms(2) by (auto simp: loadDestination_def Let_def split: if_splits)
  have client: "emits (\<lambda>_. True) (wrapWith f (etcdClient H))" for f
    unfolding etcdClient_def loadTLS_def Let_def by (intro emits_rules TrueI)
  have report: "safe (seenMon P) s (State_Monad.bind (print l) (\<lambda>_. return (Inr ()))) (\<lambda>x w. x = Inr () \<longrightarrow> w)" if "s" for P s l
    using that by (intro safe_bind_single [OF single_acalls(27)]) (simp add: seenMon_def safe_return)
  have "safe (seenMon (isStore d (snapshotName H))) False (RunSnapshot H) (\<lambda>x w. x = Inr () \<longrightarrow> w)"
    unfolding RunSnapshot_def Let_def bindE_return snapshotName_def [symmetric] assms(2) sum.case
    apply (rule safe_bindE [OF seen_any [OF client]], simp)
    apply (intro safe_orFail_single [OF single_acalls(26)])
     apply (simp add: seenMon_def)
    apply (simp add: seenMon_def)
    by (rule safe_bindE [OF storeSnapshot_stores [OF kind]]) (auto intro!: report split: prod.split)
  from seenD [OF this assms(1)] show ?thesis .
qed

section \<open>What a restore fetches\<close>

text \<open>
  The monitor of a restore: objects are looked up and downloaded only from \<open>objs\<close>, and etcdutl is run only on a
  file that was downloaded and is still there, or on one of \<open>files\<close>.
\<close>

definition fetchMon :: "(s3client \<times> string \<times> string) set \<Rightarrow> string set \<Rightarrow> string set \<Rightarrow> aevent \<Rightarrow> string set option" where
  "fetchMon objs files got e =
     (case e of
        AHeadObject c b k r \<Rightarrow> if (c, b, k) \<in> objs then Some got else None
      | ADownload c b k f r \<Rightarrow> if (c, b, k) \<in> objs then Some (if r = None then insert f got else got) else None
      | ARemove p r \<Rightarrow> Some (got - {p})
      | AExec c args r \<Rightarrow>
          if \<exists>snap rest. args = [''snapshot'', ''restore'', snap] @ rest \<and> snap \<in> got \<union> files then Some got else None
      | _ \<Rightarrow> Some got)"

lemma resolveEtcdutl_fetch: "emits (\<lambda>e. fetchMon objs files {} e = Some {}) (resolveEtcdutl H)"
  unfolding resolveEtcdutl_def executableFile_def Let_def by (intro emits_rules) (simp_all add: fetchMon_def)

lemma cleanStale_fetch: "emits (\<lambda>e. fetchMon objs files {} e = Some {}) (cleanStaleRestoreArtifacts H dir)"
proof -
  have "emits (\<lambda>e. fetchMon objs files {} e = Some {}) (removeStale H ms)" for ms
  proof (induction ms)
    case (Cons m ms)
    then show ?case unfolding removeStale.simps by (intro emits_rules) (simp_all add: fetchMon_def)
  qed (simp add: emits_return)
  then show ?thesis
    unfolding cleanStaleRestoreArtifacts_def by (intro emits_rules) (simp_all add: fetchMon_def)
qed

lemma s3Client_fetch:
  "safe (fetchMon objs files) got (s3Client H d) (\<lambda>x w. w = got \<and> (\<forall>c. x = Inr c \<longrightarrow> c = clientFor d))"
  unfolding s3Client_def Let_def clientFor_def s3RequestChecksumCalculation_def
  by (intro safe_orFail_single [OF single_acalls(21)]) (auto simp: fetchMon_def intro!: safe_return)

lemma ensureRestoreSpace_fetch: "emits (\<lambda>e. fetchMon objs files got e = Some got) (ensureRestoreSpace H dir n)"
  unfolding ensureRestoreSpace_def availableBytes_def Let_def by (intro emits_rules) (simp_all add: fetchMon_def)

lemma downloadS3_fetch:
  assumes "(clientFor src, d_s3Bucket src, d_s3Key src) \<in> objs"
  shows "safe (fetchMon objs files) {} (downloadS3 H src dir) (\<lambda>x w. \<forall>p. x = Inr p \<longrightarrow> p \<in> w)"
proof -
  have load: "safe (fetchMon objs files) {} (State_Monad.bind (downloadObject H (clientFor src) (d_s3Bucket src) (d_s3Key src) f) (\<lambda>e.
      case e of Some err \<Rightarrow> State_Monad.bind (osRemove H f) (\<lambda>_. return (Inl err)) | None \<Rightarrow> return (Inr f))) (\<lambda>x w. \<forall>p. x = Inr p \<longrightarrow> p \<in> w)" for f
    apply (rule safe_bind_single [OF single_acalls(24)])
    subgoal for e
      using assms by (cases e) (auto simp: fetchMon_def intro!: safe_return safe_bind_single [OF single_acalls(10)])
    done
  show ?thesis
    unfolding downloadS3_def
    apply (rule safe_bindE [OF s3Client_fetch], simp)
    apply (elim conjE, hypsubst, simp)
    apply (intro safe_orFail_single [OF single_acalls(4)])
     apply (simp add: fetchMon_def)
    apply (simp add: fetchMon_def)
    apply (intro safe_bindE_single [OF single_acalls(5)])
     apply (simp add: fetchMon_def)
    apply (simp add: fetchMon_def load)
    done
qed

lemma obtainSnapshot_fetch:
  assumes s3: "d_kind src = ''s3'' \<Longrightarrow> (clientFor src, d_s3Bucket src, d_s3Key src) \<in> objs"
    and pvc: "d_kind src \<noteq> ''s3'' \<Longrightarrow> pathJoin [d_pvcMount src, d_pvcSubPath src] \<in> files"
  shows "safe (fetchMon objs files) {} (obtainSnapshot H src dir) (\<lambda>x w. \<forall>p. x = Inr p \<longrightarrow> p \<in> w \<union> files)"
proof -
  have head: "safe (fetchMon objs files) {} (wrapWith f (headSnapshotSizeS3 H src)) (\<lambda>_ w. w = {})" if "d_kind src = ''s3''" for f
    unfolding headSnapshotSizeS3_def
    by (intro safe_wrapWith safe_bindE [OF s3Client_fetch] safe_bind_single [OF single_acalls(22)])
      (auto simp: fetchMon_def s3 [OF that] intro!: safe_return)
  have load: "safe (fetchMon objs files) {} (wrapWith f (downloadS3 H src dir)) (\<lambda>x w. \<forall>p. x = Inr p \<longrightarrow> p \<in> w \<union> files)"
    if "d_kind src = ''s3''" for f
    by (rule safe_wrapWith, rule safe_weaken [OF downloadS3_fetch [OF s3 [OF that]]]) (auto split: sum.splits)
  have stat: "emits (\<lambda>e. fetchMon objs files {} e = Some {}) (wrapWith f (osStat H p))" for f p
    by (intro emits_rules) (simp add: fetchMon_def)
  note space = emits_safe [OF ensureRestoreSpace_fetch [of objs files "{}"]]
  show ?thesis
    unfolding obtainSnapshot_def fetchS3Snapshot_def Let_def
    apply (intro safe_if)
    subgoal
      by (rule safe_bindE [OF head], assumption, simp, hypsubst, rule safe_bindE [OF space], assumption, simp, hypsubst, rule load)
    subgoal
      apply (rule safe_bindE [OF emits_safe [OF stat]], assumption, simp, hypsubst)
      apply (intro safe_if safe_return, simp)
      apply (rule safe_bindE [OF space], assumption, simp, hypsubst)
      using pvc by (simp add: safe_return)
    done
qed

lemma RunRestore_fetches:
  assumes src: "loadDestination (h_getenv H) = Inr src"
    and s3: "d_kind src = ''s3'' \<Longrightarrow> (clientFor src, d_s3Bucket src, d_s3Key src) \<in> objs"
    and pvc: "d_kind src \<noteq> ''s3'' \<Longrightarrow> pathJoin [d_pvcMount src, d_pvcSubPath src] \<in> files"
  shows "safe (fetchMon objs files) {} (RunRestore H) (\<lambda>_ _. True)"
proof -
  have into: "emits (\<lambda>e. fetchMon objs files got e = Some got) (restoreInto H dir mdir etcdutl snap)"
    if "snap \<in> got \<union> files" for got dir mdir etcdutl snap
    using that unfolding restoreInto_def runEtcdutlRestore_def Let_def by (intro emits_rules) (auto simp: fetchMon_def)
  have finish: "safe (fetchMon objs files) got (State_Monad.bind (restoreInto H dir mdir etcdutl snap) (\<lambda>r.
      State_Monad.bind (if b then State_Monad.bind (osRemove H snap) (\<lambda>_. return ()) else return ()) (\<lambda>_. return r))) (\<lambda>_ _. True)"
    if "snap \<in> got \<union> files" for got dir mdir etcdutl snap b
  proof (rule safe_bind [OF emits_safe [OF into [OF that]]], assumption)
    show "safe (fetchMon objs files) w (State_Monad.bind (if b then State_Monad.bind (osRemove H snap) (\<lambda>_. return ()) else return ()) (\<lambda>_. return r)) (\<lambda>_ _. True)" for w r
      by (cases b) (auto simp: fetchMon_def intro!: safe_return safe_bind_single [OF single_acalls(10)])
  qed
  have source: "restoreSource H = Inr d \<Longrightarrow> d = src" for d
    using src by (auto simp: restoreSource_def split: if_splits)
  have body: "safe (fetchMon objs files) {} (bindE (resolveEtcdutl H) (\<lambda>etcdutl. bindE (cleanStaleRestoreArtifacts H dir) (\<lambda>_.
      bindE (obtainSnapshot H src dir) (\<lambda>snap. State_Monad.bind (restoreInto H dir mdir etcdutl snap) (\<lambda>r.
      State_Monad.bind (if d_kind src = ''s3'' then State_Monad.bind (osRemove H snap) (\<lambda>_. return ()) else return ()) (\<lambda>_. return r)))))) (\<lambda>_ _. True)"
    for dir mdir
    apply (rule safe_bindE [OF emits_safe [OF resolveEtcdutl_fetch]], assumption, simp, hypsubst)
    apply (rule safe_bindE [OF emits_safe [OF cleanStale_fetch]], assumption, simp, hypsubst)
    by (rule safe_bindE [OF obtainSnapshot_fetch [OF s3 pvc]]) (assumption, assumption, rule TrueI, rule finish, blast)
  show ?thesis
    unfolding RunRestore_def Let_def bindE_return
    apply (rule safe_bind_single [OF single_acalls(1)])
    subgoal for s
    proof (cases s)
      case (Inl err)
      have pick: "safe (fetchMon objs files) {} (case restoreSource H of Inl e \<Rightarrow> return (Inl e) | Inr d \<Rightarrow> f d) (\<lambda>_ _. True)"
        if "safe (fetchMon objs files) {} (f src) (\<lambda>_ _. True)" for f :: "destination \<Rightarrow> (goerror + unit) aproc"
        using that source by (auto intro!: safe_return split: sum.split)
      show ?thesis
        unfolding Inl sum.case by (simp only: fetchMon_def aevent.case andThen_simps) (intro safe_if safe_return TrueI pick body)
    qed (auto simp: fetchMon_def intro!: safe_return safe_bind_single [OF single_acalls(27)])
    done
qed

section \<open>The location of a stored snapshot\<close>

text \<open>
  The source for a restore of a snapshot, as the documentation tells it: the destination with the exact key or path
  that the recorded URI gives, without the bucket or the directory the claim was mounted at.
\<close>

definition sourceOf :: "SnapshotLocation \<Rightarrow> string \<Rightarrow> SnapshotLocation" where
  "sourceOf loc u =
     (case sl_S3 loc of
        Some s3 \<Rightarrow> loc\<lparr>sl_S3 := Some (s3\<lparr>s3_Key := drop (length (''s3://'' @ s3_Bucket s3 @ ''/'')) u\<rparr>)\<rparr>
      | None \<Rightarrow> (case sl_PVC loc of
          Some pvc \<Rightarrow> loc\<lparr>sl_PVC := Some (pvc\<lparr>pl_SubPath := drop (length ''file:///snapshot/data/'') u\<rparr>)\<rparr>
        | None \<Rightarrow> loc))"

text \<open>The path under which the restore agent sees a file the backup agent has written.\<close>

definition inRestoreVolume :: "string \<Rightarrow> string" where
  "inRestoreVolume p = pathJoin [''/restore/src'', drop (length ''/snapshot/data/'') p]"

lemma sourceOf_location:
  assumes "locationDest ''/snapshot/data'' loc = Inr d"
  shows "\<exists>src. locationDest ''/restore/src'' (sourceOf loc (uri d name)) = Inr src \<and> d_kind src = d_kind d \<and>
    clientFor src = clientFor d \<and> d_s3Bucket src = d_s3Bucket d \<and>
    (d_kind d = ''s3'' \<and> d_s3Key src = objectKey d name \<or>
     d_kind d = ''pvc'' \<and> pathJoin [d_pvcMount src, d_pvcSubPath src] = inRestoreVolume (localPath d name))"
proof (cases "sl_S3 loc")
  case (Some s3)
  with assms have d: "d_kind d = ''s3''" "s3_Bucket s3 \<noteq> ''''" "s3_Endpoint s3 \<noteq> ''''" "d_s3Bucket d = s3_Bucket s3"
    "clientFor d = clientFor (d\<lparr>d_s3Key := k, d_pvcMount := x, d_pvcSubPath := y\<rparr>)"
    "d = \<lparr>d_kind = ''s3'', d_s3Endpoint = s3_Endpoint s3, d_s3Bucket = s3_Bucket s3, d_s3Key = s3_Key s3,
       d_s3Region = s3_Region s3, d_s3PathStyle = s3_ForcePathStyle s3, d_pvcMount = '''', d_pvcSubPath = ''''\<rparr>" for k x y
    by (auto simp: locationDest_def clientFor_def split: if_splits)
  have "drop (length (''s3://'' @ s3_Bucket s3 @ ''/'')) (uri d name) = objectKey d name"
    using d(1,4) by (simp add: uri_def)
  then have "locationDest ''/restore/src'' (sourceOf loc (uri d name)) = Inr (d\<lparr>d_s3Key := objectKey d name\<rparr>)"
    using d(2,3) by (simp only: locationDest_def sourceOf_def Some) (simp add: d(6))
  then show ?thesis using d(1) by (simp add: clientFor_def)
next
  case None
  with assms obtain pvc where pvc: "sl_PVC loc = Some pvc"
    and d: "d = \<lparr>d_kind = ''pvc'', d_s3Endpoint = '''', d_s3Bucket = '''', d_s3Key = '''', d_s3Region = '''',
      d_s3PathStyle = False, d_pvcMount = ''/snapshot/data'', d_pvcSubPath = pl_SubPath pvc\<rparr>"
    by (auto simp: locationDest_def split: option.splits)
  have "localPath d name = ''/snapshot/data/'' @ (if pl_SubPath pvc = '''' then '''' else pl_SubPath pvc @ ''/'') @ name @ ''.db''"
    by (simp add: localPath_def Let_def d)
  then obtain rel where rel: "localPath d name = ''/snapshot/data/'' @ rel" by blast
  then have "drop (length ''file:///snapshot/data/'') (uri d name) = rel" by (simp add: uri_def d)
  then have "locationDest ''/restore/src'' (sourceOf loc (uri d name)) =
      Inr (d\<lparr>d_pvcMount := ''/restore/src'', d_pvcSubPath := rel\<rparr>)"
    by (simp only: locationDest_def sourceOf_def None pvc option.case) (simp add: None d)
  moreover have "d_kind d = ''pvc''" by (simp add: d)
  ultimately show ?thesis using rel by (simp add: clientFor_def inRestoreVolume_def)
qed

text \<open>The claim a container sees at a path.\<close>

definition claimAt :: "string \<Rightarrow> VolumeMount list \<Rightarrow> Volume list \<Rightarrow> string option" where
  "claimAt path mounts vols =
     (case List.find (\<lambda>m. vm_MountPath m = path) mounts of
        None \<Rightarrow> None
      | Some m \<Rightarrow> (case List.find (\<lambda>v. vo_Name v = vm_Name m) vols of
          None \<Rightarrow> None | Some v \<Rightarrow> map_option fst (vo_PVC v)))"

definition locationClaim :: "SnapshotLocation \<Rightarrow> string option" where
  "locationClaim loc = (case sl_S3 loc of Some _ \<Rightarrow> None | None \<Rightarrow> map_option pl_ClaimName (sl_PVC loc))"

lemma sourceOf_claim: "locationClaim (sourceOf loc u) = locationClaim loc"
  by (simp add: locationClaim_def sourceOf_def split: option.split)

lemma job_claim:
  "claimAt ''/snapshot/data'' (ctr_VolumeMounts (jobContainer snap c img)) (pos_Volumes (job_PodSpec (buildSnapshotJob snap c img))) =
     locationClaim (ss_Destination (es_Spec snap))"
proof -
  let ?tls = "snapshotTLSParts c" and ?dst = "snapshotDestParts (ss_Destination (es_Spec snap))"
  have parts: "ctr_VolumeMounts (jobContainer snap c img) = snd (snd ?tls) @ snd (snd ?dst)"
    "pos_Volumes (job_PodSpec (buildSnapshotJob snap c img)) = fst (snd ?tls) @ fst (snd ?dst)"
    by (simp_all add: buildSnapshotJob_def case_prod_beta Let_def)
  have skip: "List.find (\<lambda>m. vm_MountPath m = ''/snapshot/data'') (snd (snd ?tls)) = None"
    "List.find (\<lambda>v. vo_Name v = ''snapshot-data'') (fst (snd ?tls)) = None"
    by (simp_all add: snapshotTLSParts_def Let_def mountAt_def emptyVolume_def)
  show ?thesis
    unfolding claimAt_def parts find_append_none [OF skip(1)]
    by (simp add: snapshotDestParts_def locationClaim_def mountAt_def find_append_none [OF skip(2)] emptyVolume_def split: option.split)
qed

lemma restore_claim:
  "claimAt ''/restore/src'' (ctr_VolumeMounts (last (fst (restoreInitContainers m rs peerAddr opImg etcdImg))))
     (snd (restoreInitContainers m rs peerAddr opImg etcdImg)) = locationClaim (rs_Source rs)"
  by (simp add: restoreInitContainers_def claimAt_def locationClaim_def mountAt_def emptyVolume_def Let_def split: option.split)

end
