(* ===== verification/Migrate.thy ===== *)
theory Migrate
  imports SnapshotController ClusterStatus
begin

text \<open>
  The translation of legacy resources (\<^verbatim>\<open>src/internal/migrate\<close>): the trimmed legacy types, the plan of one
  resource, the translation of clusters, backups and schedules, the adoption of a live cluster and the
  one-off snapshot Job. The code is pure but for the random password, whose bytes are a parameter; the
  YAML package is a parameter too. Fields of Pods and containers that are only tested for presence are
  \<open>opaque\<close>.
\<close>

section \<open>The legacy types\<close>

abbreviation (input) legacyGroup :: string where "legacyGroup \<equiv> ''etcd.aenix.io''"
abbreviation (input) legacyVersion :: string where "legacyVersion \<equiv> ''v1alpha1''"

definition DefaultEtcdImage :: string where
  "DefaultEtcdImage = ''quay.io/coreos/etcd:v3.5.12''"

record EmbeddedObjectMetadata =
  eom_Name :: string
  eom_Labels :: smap
  eom_Annotations :: smap

record LegacyContainer =
  lco_Name :: string
  lco_Image :: string
  lco_Resources :: ResourceRequirements
  lco_Command :: "string list"
  lco_Args :: "string list"
  lco_Env :: "opaque list"
  lco_EnvFrom :: "opaque list"
  lco_VolumeMounts :: "opaque list"
  lco_Ports :: "opaque list"
  lco_LivenessProbe :: "opaque option"
  lco_ReadinessProbe :: "opaque option"
  lco_StartupProbe :: "opaque option"
  lco_SecurityContext :: "opaque option"

record LegacyPodSpec =
  lps_Containers :: "LegacyContainer list"
  lps_Affinity :: "opaque option"
  lps_TopologySpreadConstraints :: "opaque list"
  lps_ImagePullSecrets :: "string list"
  lps_InitContainers :: "opaque list"
  lps_Volumes :: "opaque list"
  lps_NodeSelector :: "smap"
  lps_Tolerations :: "opaque list"
  lps_ServiceAccountName :: string
  lps_SecurityContext :: "opaque option"
  lps_PriorityClassName :: string
  lps_HostNetwork :: bool
  lps_HostAliases :: "opaque list"
  lps_DNSPolicy :: string
  lps_DNSConfig :: "opaque option"
  lps_RuntimeClassName :: "string option"
  lps_SchedulerName :: string
  lps_TerminationGracePeriodSeconds :: "int option"

text \<open>The encoding of the empty \<^verbatim>\<open>corev1.PodSecurityContext\<close>.\<close>

definition emptyPodSecurityContext :: opaque where
  "emptyPodSecurityContext = Opaque ''{}''"

record LegacyPodTemplate =
  lpt_Meta :: EmbeddedObjectMetadata
  lpt_Spec :: LegacyPodSpec

record LegacyVolumeClaim =
  lvc_Meta :: EmbeddedObjectMetadata
  lvc_StorageClassName :: "string option"
  lvc_AccessModes :: "string list"
  lvc_Requests :: "(string, quantity) fmap"

record LegacyStorageSpec =
  lst_EmptyDir :: "opaque option"
  lst_VolumeClaimTemplate :: LegacyVolumeClaim

record LegacyTLSSpec =
  lt_PeerTrustedCASecret :: string
  lt_PeerSecret :: string
  lt_ServerTrustedCASecret :: string
  lt_ServerSecret :: string
  lt_ClientTrustedCASecret :: string
  lt_ClientSecret :: string

record SecuritySpec =
  se_TLS :: LegacyTLSSpec
  se_EnableAuth :: bool

record S3BackupDestination =
  s3b_Endpoint :: string
  s3b_Bucket :: string
  s3b_Key :: string
  s3b_CredentialsSecretRef :: string
  s3b_Region :: string
  s3b_ForcePathStyle :: bool

record PVCBackupDestination =
  pvb_ClaimName :: string
  pvb_SubPath :: string

record BackupDestination =
  bd_S3 :: "S3BackupDestination option"
  bd_PVC :: "PVCBackupDestination option"

record LegacyBootstrapSpec =
  lbs_Restore :: "BackupDestination option" \<comment> \<open>the source of the restore\<close>

record LegacyClusterSpec =
  lg_Replicas :: "int option"
  lg_Options :: smap
  lg_PodTemplate :: LegacyPodTemplate
  lg_ServiceTemplate :: "EmbeddedObjectMetadata option" \<comment> \<open>the Service spec is not read\<close>
  lg_HeadlessServiceTemplate :: "EmbeddedObjectMetadata option"
  lg_PodDisruptionBudgetTemplate :: "EmbeddedObjectMetadata option" \<comment> \<open>only its presence is read\<close>
  lg_Storage :: LegacyStorageSpec
  lg_Security :: "SecuritySpec option"
  lg_Bootstrap :: "LegacyBootstrapSpec option"

record EtcdBackupSpec =
  bk_ClusterRef :: string
  bk_Destination :: BackupDestination

record EtcdBackupScheduleSpec =
  bsch_ClusterRef :: string
  bsch_Schedule :: string
  bsch_Destination :: BackupDestination
  bsch_SuccessfulJobsHistoryLimit :: "int option"
  bsch_FailedJobsHistoryLimit :: "int option"

section \<open>Plans\<close>

datatype Action = ActionAdopt | ActionCreate | ActionPrint | ActionSkip | ActionError

record GVR =
  gvr_Group :: string
  gvr_Version :: string
  gvr_Resource :: string

record ObjectRef =
  rf_GVR :: GVR
  rf_Namespace :: string
  rf_Name :: string

text \<open>The objects a plan creates or prints.\<close>

record BasicAuthSecret =
  bas_Meta :: ObjectMeta
  bas_Type :: string
  bas_StringData :: smap

record CronJob =
  cj_Meta :: ObjectMeta
  cj_Schedule :: string
  cj_SuccessfulJobsHistoryLimit :: "int option"
  cj_FailedJobsHistoryLimit :: "int option"
  cj_ServiceAccountName :: string
  cj_RestartPolicyNever :: bool
  cj_Containers :: "(string \<times> string \<times> string list) list" \<comment> \<open>name, image, command\<close>

record Role =
  ro_Meta :: ObjectMeta
  ro_Rules :: "(string list \<times> string list \<times> string list) list" \<comment> \<open>API groups, resources, verbs\<close>

record RoleBinding =
  rb_Meta :: ObjectMeta
  rb_RoleRef :: "string \<times> string \<times> string" \<comment> \<open>API group, kind, name\<close>
  rb_Subjects :: "(string \<times> string \<times> string) list" \<comment> \<open>kind, name, namespace\<close>

datatype object =
    OCluster EtcdCluster
  | OMember EtcdMember
  | OSnapshot EtcdSnapshot
  | OSecret BasicAuthSecret
  | OCronJob CronJob
  | OServiceAccount ObjectMeta
  | ORole Role
  | ORoleBinding RoleBinding

record MemberAdoption =
  ma_Member :: EtcdMember
  ma_Status :: EtcdMemberStatus
  ma_PVCName :: string

record AdoptionPlan =
  ad_ClusterStatus :: EtcdClusterStatus
  ad_Members :: "MemberAdoption list"
  ad_StatefulSetName :: string
  ad_ConfigMapName :: string
  ad_PDBName :: string
  ad_HeadlessServiceName :: string
  ad_ClientServiceName :: string

record ResourcePlan =
  rp_SourceKind :: string
  rp_SourceName :: string
  rp_Namespace :: string
  rp_Action :: Action
  rp_Target :: "object option"
  rp_Extras :: "object list"
  rp_DeleteRef :: "ObjectRef option"
  rp_Adoption :: "AdoptionPlan option"
  rp_Warnings :: "string list"
  rp_SecurityWarnings :: "string list"
  rp_Errors :: "string list"
  rp_Notes :: "string list"

definition emptyPlan :: "string \<Rightarrow> string \<Rightarrow> string \<Rightarrow> Action \<Rightarrow> ResourcePlan" where
  "emptyPlan kind name namespace action =
     \<lparr>rp_SourceKind = kind, rp_SourceName = name, rp_Namespace = namespace, rp_Action = action, rp_Target = None,
      rp_Extras = [], rp_DeleteRef = None, rp_Adoption = None, rp_Warnings = [], rp_SecurityWarnings = [],
      rp_Errors = [], rp_Notes = []\<rparr>"

definition addWarnings :: "string list \<Rightarrow> ResourcePlan \<Rightarrow> ResourcePlan" where
  "addWarnings ws p = p\<lparr>rp_Warnings := rp_Warnings p @ ws\<rparr>"
definition addErrors :: "string list \<Rightarrow> ResourcePlan \<Rightarrow> ResourcePlan" where
  "addErrors es p = p\<lparr>rp_Errors := rp_Errors p @ es\<rparr>"
definition addNotes :: "string list \<Rightarrow> ResourcePlan \<Rightarrow> ResourcePlan" where
  "addNotes ns p = p\<lparr>rp_Notes := rp_Notes p @ ns\<rparr>"

definition ClusterGVR :: GVR where
  "ClusterGVR = \<lparr>gvr_Group = legacyGroup, gvr_Version = legacyVersion, gvr_Resource = ''etcdclusters''\<rparr>"
definition BackupGVR :: GVR where
  "BackupGVR = \<lparr>gvr_Group = legacyGroup, gvr_Version = legacyVersion, gvr_Resource = ''etcdbackups''\<rparr>"
definition ScheduleGVR :: GVR where
  "ScheduleGVR = \<lparr>gvr_Group = legacyGroup, gvr_Version = legacyVersion, gvr_Resource = ''etcdbackupschedules''\<rparr>"

section \<open>Pieces of the translation\<close>

text \<open>The pattern \<^verbatim>\<open>^\d+\.\d+\.\d+$\<close>.\<close>

definition versionRe :: "string \<Rightarrow> bool" where
  "versionRe s = (let parts = splitOn (CHR ''.'') s in
     length parts = 3 \<and> list_all (\<lambda>p. p \<noteq> [] \<and> list_all isDecDigit p) parts)"

text \<open>\<^verbatim>\<open>strconv.ParseInt(s, 10, 64)\<close>: an optional sign, digits, and a value of 64 bits.\<close>

definition parseInt64 :: "string \<Rightarrow> int option" where
  "parseInt64 s =
     (let neg = prefix ''-'' s; ds = (if neg \<or> prefix ''+'' s then tl s else s) in
      if ds = [] then None
      else case decValue 0 ds of
          None \<Rightarrow> None
        | Some n \<Rightarrow> (let v = (if neg then - n else n) in if - (2 ^ 63) \<le> v \<and> v < 2 ^ 63 then Some v else None))"

record TranslateOptions =
  to_VersionOverride :: string
  to_AuthSecretName :: string

definition findContainer :: "LegacyContainer list \<Rightarrow> string \<Rightarrow> LegacyContainer option" where
  "findContainer cs name = List.find (\<lambda>c. lco_Name c = name) cs"

text \<open>The version, the warnings and the error.\<close>

definition extractVersion :: "LegacyPodSpec \<Rightarrow> string \<Rightarrow> string \<times> string list \<times> string option" where
  "extractVersion ps override =
     (if override \<noteq> '''' then
        (if \<not> versionRe override
         then ('''', [], Some (''--version '' @ goQuote override @ '' does not match required pattern X.Y.Z''))
         else (override, [], None))
      else
        (let c = findContainer (lps_Containers ps) ''etcd'';
             own = (case c of None \<Rightarrow> '''' | Some k \<Rightarrow> lco_Image k);
             img = (if own \<noteq> '''' then own else DefaultEtcdImage);
             warns = (if own \<noteq> '''' then [] else
               [''no etcd image override in podTemplate; assuming the legacy default '' @ DefaultEtcdImage])
         in case strLastIndex img '':'' of
              None \<Rightarrow> ('''', warns, Some (''cannot extract etcd version from image '' @ goQuote img @ '' (no tag); pass --version''))
            | Some idx \<Rightarrow>
                if idx = length img - 1 then
                  ('''', warns, Some (''cannot extract etcd version from image '' @ goQuote img @ '' (no tag); pass --version''))
                else
                  (let tag = TrimPrefix (drop (idx + 1) img) ''v'' in
                   if \<not> versionRe tag then
                     ('''', warns, Some (''cannot derive etcd version from image tag '' @ goQuote (drop (idx + 1) img) @
                        '' (want X.Y.Z); pass --version''))
                   else (tag, warns, None))))"

definition emptyStorage :: StorageSpec where
  "emptyStorage = \<lparr>st_Size = 0, st_Medium = StorageMediumDefault, st_StorageClassName = None\<rparr>"

definition translateStorage :: "LegacyStorageSpec \<Rightarrow> StorageSpec \<times> string list \<times> string option" where
  "translateStorage s =
     (if lst_EmptyDir s \<noteq> None then
        (emptyStorage, [], Some ''storage.emptyDir cannot be migrated in place: the data lives in pod-bound volumes with no PVC for the new operator to adopt; recreate this cluster manually'')
      else
        (let vct = lst_VolumeClaimTemplate s;
             sz = fmlookup (lvc_Requests vct) ''storage'';
             vctSet = (sz \<noteq> None \<or> lvc_StorageClassName vct \<noteq> None \<or> lvc_AccessModes vct \<noteq> [] \<or>
                       eom_Name (lvc_Meta vct) \<noteq> '''')
         in if \<not> vctSet then
              (emptyStorage, [], Some ''no storage configured: the legacy operator defaulted to a disk-backed emptyDir, which cannot be migrated in place (no PVC to adopt); recreate this cluster manually'')
            else
              (let out = emptyStorage\<lparr>st_StorageClassName := lvc_StorageClassName vct\<rparr> in
               case sz of
                 Some q \<Rightarrow> (out\<lparr>st_Size := q\<rparr>, [], None)
               | None \<Rightarrow> (out\<lparr>st_Size := mebibytes 1024\<rparr>,
                   [''volumeClaimTemplate has no requests.storage; defaulting spec.storage.size to 1Gi''], None))))"

text \<open>The loop over the sorted keys: the typed options, whether one was mapped, the errors and the unknown keys.\<close>

record optionState =
  os_Typed :: EtcdOptions
  os_Mapped :: bool
  os_Errs :: "string list"
  os_Unknown :: "string list"

definition emptyOptions :: EtcdOptions where
  "emptyOptions = \<lparr>eo_QuotaBackendBytes = None, eo_AutoCompactionMode = '''', eo_AutoCompactionRetention = '''',
     eo_SnapshotCount = None\<rparr>"

definition notInteger :: "string \<Rightarrow> string \<Rightarrow> string" where
  "notInteger k v = ''spec.options['' @ goQuote k @ '']='' @ goQuote v @ '' is not an integer''"

definition translateOption :: "string \<Rightarrow> string \<Rightarrow> optionState \<Rightarrow> optionState" where
  "translateOption k v st =
     (let typed = os_Typed st; fail = (\<lambda>e. st\<lparr>os_Errs := os_Errs st @ [e]\<rparr>);
          ok = (\<lambda>t. st\<lparr>os_Typed := t, os_Mapped := True\<rparr>)
      in if k = ''quota-backend-bytes'' then
           (case parseInt64 v of None \<Rightarrow> fail (notInteger k v) | Some n \<Rightarrow> ok (typed\<lparr>eo_QuotaBackendBytes := Some n\<rparr>))
         else if k = ''auto-compaction-mode'' then
           (if v \<noteq> ''periodic'' \<and> v \<noteq> ''revision'' then
              fail (''spec.options['' @ goQuote k @ '']='' @ goQuote v @ '' must be '' @ goQuote ''periodic'' @ '' or '' @
                goQuote ''revision'')
            else ok (typed\<lparr>eo_AutoCompactionMode := v\<rparr>))
         else if k = ''auto-compaction-retention'' then ok (typed\<lparr>eo_AutoCompactionRetention := v\<rparr>)
         else if k = ''snapshot-count'' then
           (case parseInt64 v of None \<Rightarrow> fail (notInteger k v) | Some n \<Rightarrow> ok (typed\<lparr>eo_SnapshotCount := Some n\<rparr>))
         else st\<lparr>os_Unknown := os_Unknown st @ [k @ ''='' @ goQuote v]\<rparr>)"

definition optionKeys :: "smap \<Rightarrow> string list" where
  "optionKeys options = sorted_list_of_fset (fmdom options)"

definition translateEtcdOptions :: "smap \<Rightarrow> EtcdOptions option \<times> string list \<times> string list" where
  "translateEtcdOptions options =
     (let st = fold (\<lambda>k. translateOption k (mapGet options k)) (optionKeys options)
                 \<lparr>os_Typed = emptyOptions, os_Mapped = False, os_Errs = [], os_Unknown = []\<rparr>
      in (if os_Mapped st then Some (os_Typed st) else None,
          if os_Unknown st \<noteq> [] then
            [''spec.options keys with no typed v1alpha2 equivalent; dropped etcd args: '' @ Join (os_Unknown st) '', '']
          else [],
          os_Errs st))"

text \<open>The settings of the Pod template that have no equivalent, in the order of their names.\<close>

definition droppedEtcd :: "LegacyContainer \<Rightarrow> string list" where
  "droppedEtcd c = map (\<lambda>(field, _). ''containers[etcd].'' @ field) (filter snd
     [(''command'', lco_Command c \<noteq> []), (''args'', lco_Args c \<noteq> []), (''env'', lco_Env c \<noteq> []),
      (''envFrom'', lco_EnvFrom c \<noteq> []), (''volumeMounts'', lco_VolumeMounts c \<noteq> []), (''ports'', lco_Ports c \<noteq> []),
      (''livenessProbe'', lco_LivenessProbe c \<noteq> None), (''readinessProbe'', lco_ReadinessProbe c \<noteq> None),
      (''startupProbe'', lco_StartupProbe c \<noteq> None), (''securityContext'', lco_SecurityContext c \<noteq> None)])"

definition droppedPod :: "LegacyPodSpec \<Rightarrow> string list" where
  "droppedPod ps = map fst (filter snd
     [(''initContainers'', lps_InitContainers ps \<noteq> []), (''volumes'', lps_Volumes ps \<noteq> []),
      (''nodeSelector'', lps_NodeSelector ps \<noteq> fmempty), (''tolerations'', lps_Tolerations ps \<noteq> []),
      (''serviceAccountName'', lps_ServiceAccountName ps \<noteq> ''''),
      (''securityContext'', lps_SecurityContext ps \<notin> {None, Some emptyPodSecurityContext}),
      (''priorityClassName'', lps_PriorityClassName ps \<noteq> ''''), (''hostNetwork'', lps_HostNetwork ps),
      (''hostAliases'', lps_HostAliases ps \<noteq> []), (''dnsPolicy'', lps_DNSPolicy ps \<noteq> ''''),
      (''dnsConfig'', lps_DNSConfig ps \<noteq> None), (''runtimeClassName'', lps_RuntimeClassName ps \<noteq> None),
      (''schedulerName'', lps_SchedulerName ps \<noteq> ''''),
      (''terminationGracePeriodSeconds'', lps_TerminationGracePeriodSeconds ps \<noteq> None)])"

definition droppedFields :: "LegacyPodSpec \<Rightarrow> string list" where
  "droppedFields ps =
     (case findContainer (lps_Containers ps) ''etcd'' of None \<Rightarrow> [] | Some c \<Rightarrow> droppedEtcd c) @
     map (\<lambda>c. ''containers['' @ lco_Name c @ ''] (sidecar)'') (filter (\<lambda>c. lco_Name c \<noteq> ''etcd'') (lps_Containers ps)) @
     droppedPod ps"

definition translatePodTemplate ::
  "LegacyPodTemplate \<Rightarrow> EtcdCluster \<times> ResourcePlan \<Rightarrow> EtcdCluster \<times> ResourcePlan" where
  "translatePodTemplate pt st =
     (let (out, plan) = st; m = lpt_Meta pt; ps = lpt_Spec pt; sp = ec_Spec out;
          sp1 = (if eom_Labels m \<noteq> fmempty \<or> eom_Annotations m \<noteq> fmempty
                 then sp\<lparr>cs_AdditionalMetadata := Some \<lparr>am_Labels = eom_Labels m, am_Annotations = eom_Annotations m\<rparr>\<rparr>
                 else sp);
          sp2 = sp1\<lparr>cs_Affinity := lps_Affinity ps, cs_TopologySpreadConstraints := lps_TopologySpreadConstraints ps\<rparr>;
          sp3 = (if lps_ImagePullSecrets ps \<noteq> [] then sp2\<lparr>cs_ImagePullSecrets := lps_ImagePullSecrets ps\<rparr> else sp2);
          sp4 = (case findContainer (lps_Containers ps) ''etcd'' of
                   None \<Rightarrow> sp3 | Some c \<Rightarrow> sp3\<lparr>cs_Resources := lco_Resources c\<rparr>);
          dropped = droppedFields ps
      in (out\<lparr>ec_Spec := sp4\<rparr>,
          if dropped \<noteq> [] then
            addWarnings [''spec.podTemplate fields with no v1alpha2 equivalent are dropped: '' @ Join (sort dropped) '', ''] plan
          else plan))"

text \<open>The six legacy Secrets and the two sections of the new API.\<close>

definition clientPlane :: "LegacyTLSSpec \<Rightarrow> ClientTLS option \<times> string list" where
  "clientPlane t =
     (if lt_ServerSecret t \<noteq> '''' then
        (Some \<lparr>ct_ServerSecretRef = Some (lt_ServerSecret t),
               ct_OperatorClientSecretRef = (if lt_ClientSecret t \<noteq> '''' then Some (lt_ClientSecret t) else None),
               ct_CertManager = None\<rparr>,
         (if lt_ServerTrustedCASecret t \<noteq> '''' \<and> lt_ServerTrustedCASecret t \<noteq> lt_ServerSecret t then
            [''merge ca.crt from secret '' @ goQuote (lt_ServerTrustedCASecret t) @ '' into secret '' @ goQuote (lt_ServerSecret t) @
             '' before starting the new operator: v1alpha2 reads the client-plane CA from the server secret's ca.crt'']
          else []) @
         (if lt_ClientTrustedCASecret t \<noteq> '''' \<and> lt_ClientTrustedCASecret t \<noteq> lt_ServerSecret t then
            [''secret '' @ goQuote (lt_ClientTrustedCASecret t) @
             '' (clientTrustedCASecret) is dropped: v1alpha2 uses the server secret's ca.crt as etcd's --trusted-ca-file; merge the CA into '' @
             goQuote (lt_ServerSecret t) @ '''s ca.crt if client certs are signed by it'']
          else []))
      else
        (None,
         if lt_ClientSecret t \<noteq> '''' \<or> lt_ServerTrustedCASecret t \<noteq> '''' \<or> lt_ClientTrustedCASecret t \<noteq> '''' then
           [''client-plane TLS secrets are dropped: legacy spec sets client-plane material without serverSecret, which enabled nothing in the legacy operator either'']
         else []))"

definition peerPlane :: "LegacyTLSSpec \<Rightarrow> PeerTLS option \<times> string list" where
  "peerPlane t =
     (if lt_PeerSecret t \<noteq> '''' then
        (Some \<lparr>pt_SecretRef = Some (lt_PeerSecret t), pt_CertManager = None\<rparr>,
         if lt_PeerTrustedCASecret t \<noteq> '''' \<and> lt_PeerTrustedCASecret t \<noteq> lt_PeerSecret t then
           [''merge ca.crt from secret '' @ goQuote (lt_PeerTrustedCASecret t) @ '' into secret '' @ goQuote (lt_PeerSecret t) @
            '' before starting the new operator: v1alpha2 reads the peer CA from the peer secret's ca.crt'']
         else [])
      else
        (None,
         if lt_PeerTrustedCASecret t \<noteq> '''' then
           [''peerTrustedCASecret without peerSecret is dropped: it enabled nothing in the legacy operator either'']
         else []))"

definition translateTLS :: "SecuritySpec option \<Rightarrow> EtcdClusterTLS option \<times> string list" where
  "translateTLS sec =
     (case sec of None \<Rightarrow> (None, []) | Some se \<Rightarrow>
        (let (client, cw) = clientPlane (se_TLS se); (peer, pw) = peerPlane (se_TLS se)
         in (if client = None \<and> peer = None then None else Some \<lparr>tls_Client = client, tls_Peer = peer\<rparr>, cw @ pw)))"

text \<open>The random password: sixteen bytes of the platform's entropy source in hexadecimal.\<close>

definition randomPassword :: "8 word list \<Rightarrow> string" where
  "randomPassword bytes = concat (map (\<lambda>b. hexDigits 2 (unat b)) bytes)"

definition authWithoutTLS :: string where
  "authWithoutTLS = ''security.enableAuth=true requires client TLS in v1alpha2 (spec.auth.enabled demands spec.tls.client '' @
     [CHR 0xE2, CHR 0x80, CHR 0x94] @
     '' credentials must not cross a plaintext wire), but the legacy cluster has no serverSecret''"

definition authNote :: string where
  "authNote = ''the tool disables auth on the legacy etcd (certificate-authenticated) at apply, because the legacy root user has NoPassword and could never match a credentials Secret; the new operator re-enables auth with the referenced Secret once it adopts the cluster''"

definition authWarning :: string where
  "authWarning = ''auth is OFF from the moment the tool runs `auth disable` on the legacy etcd until the new operator re-enables it '' @
     [CHR 0xE2, CHR 0x80, CHR 0x94] @ '' plan the cutover window accordingly''"

definition translateAuth ::
  "8 word list \<Rightarrow> SecuritySpec option \<Rightarrow> TranslateOptions \<Rightarrow> EtcdCluster \<times> ResourcePlan \<Rightarrow> EtcdCluster \<times> ResourcePlan" where
  "translateAuth rnd sec opts st =
     (let (out, plan) = st in
      case sec of None \<Rightarrow> st | Some se \<Rightarrow>
        if \<not> se_EnableAuth se then st
        else if \<not> hasClientTLS (Some out) then (out, addErrors [authWithoutTLS] plan)
        else
          (let own = (to_AuthSecretName opts = '''');
               secretName = (if own then ecName out @ ''-root-credentials'' else to_AuthSecretName opts);
               plan1 = (if own then
                   addNotes [''generated root-credentials Secret '' @ goQuote secretName @
                       '': point etcd consumers (e.g. a Kamaji DataStore basicAuth) at it'']
                     (plan\<lparr>rp_Extras := rp_Extras plan @ [OSecret \<lparr>
                        bas_Meta = emptyMeta\<lparr>om_Name := secretName, om_Namespace := ecNamespace out\<rparr>,
                        bas_Type = ''kubernetes.io/basic-auth'',
                        bas_StringData = fmap_of_list [(''username'', ''root''), (''password'', randomPassword rnd)]\<rparr>]\<rparr>)
                 else plan)
           in (out\<lparr>ec_Spec := (ec_Spec out)\<lparr>cs_Auth := Some \<lparr>auth_Enabled = True,
                 auth_RootCredentialsSecretRef = Some secretName\<rparr>\<rparr>\<rparr>,
               addWarnings [authWarning] (addNotes [authNote] plan1))))"

section \<open>Clusters\<close>

definition emptyClusterStatus :: EtcdClusterStatus where
  "emptyClusterStatus = \<lparr>est_ReadyMembers = 0, est_Selector = '''', est_BrokenMembers = 0, est_ClusterID = '''',
     est_ClusterToken = '''', est_AuthEnabled = False, est_Observed = None, est_ProgressDeadline = None, est_Conditions = []\<rparr>"

definition emptyClusterSpec :: EtcdClusterSpec where
  "emptyClusterSpec = \<lparr>cs_Replicas = None, cs_Version = '''', cs_Storage = emptyStorage, cs_ProgressDeadlineSeconds = None,
     cs_TLS = None, cs_Auth = None, cs_Bootstrap = None, cs_Resources = emptyResources, cs_AdditionalMetadata = None,
     cs_Affinity = None, cs_TopologySpreadConstraints = [], cs_Options = None, cs_ImagePullSecrets = []\<rparr>"

definition serviceTemplateWarning :: string where
  "serviceTemplateWarning = ''spec.serviceTemplate is dropped: the new operator owns the client Service (named '' @
     goQuote ''<cluster>-client'' @ '')''"
definition headlessTemplateWarning :: string where
  "headlessTemplateWarning = ''spec.headlessServiceTemplate is dropped: the new operator owns the headless Service (named '' @
     goQuote ''<cluster>'' @ '')''"
definition pdbTemplateWarning :: string where
  "pdbTemplateWarning = ''spec.podDisruptionBudgetTemplate is dropped: the new operator auto-emits a PDB with minAvailable = quorum (n/2+1) of the cluster's voter count''"
definition restoreWarning :: string where
  "restoreWarning = ''spec.bootstrap.restore is dropped: it was consumed at the legacy cluster's creation and an adopted cluster never bootstraps''"

definition errList :: "string option \<Rightarrow> string list" where
  "errList e = (case e of None \<Rightarrow> [] | Some m \<Rightarrow> [m])"

definition templateWarnings :: "LegacyClusterSpec \<Rightarrow> string list" where
  "templateWarnings spec =
     (if lg_ServiceTemplate spec \<noteq> None then [serviceTemplateWarning] else []) @
     (if lg_HeadlessServiceTemplate spec \<noteq> None then [headlessTemplateWarning] else []) @
     (if lg_PodDisruptionBudgetTemplate spec \<noteq> None then [pdbTemplateWarning] else [])"

text \<open>A plan that failed creates and deletes nothing.\<close>

definition failPlan :: "ResourcePlan \<Rightarrow> ResourcePlan" where
  "failPlan p = p\<lparr>rp_Action := ActionError, rp_Target := None, rp_Extras := [], rp_DeleteRef := None\<rparr>"

text \<open>The cluster and the plan after every step of the translation, and the decision at its end.\<close>

definition translatedCluster ::
  "8 word list \<Rightarrow> string \<Rightarrow> string \<Rightarrow> LegacyClusterSpec \<Rightarrow> TranslateOptions \<Rightarrow> EtcdCluster \<times> ResourcePlan" where
  "translatedCluster rnd name namespace spec opts =
     (let plan0 = (emptyPlan ''EtcdCluster'' name namespace ActionCreate)\<lparr>
            rp_DeleteRef := Some \<lparr>rf_GVR = ClusterGVR, rf_Namespace = namespace, rf_Name = name\<rparr>\<rparr>;
          (version, vWarns, vErr) = extractVersion (lpt_Spec (lg_PodTemplate spec)) (to_VersionOverride opts);
          (storage, sWarns, sErr) = translateStorage (lg_Storage spec);
          out0 = \<lparr>ec_Meta = emptyMeta\<lparr>om_Name := name, om_Namespace := namespace\<rparr>,
                  ec_Spec = emptyClusterSpec\<lparr>cs_Replicas := lg_Replicas spec, cs_Version := version, cs_Storage := storage\<rparr>,
                  ec_Status = emptyClusterStatus\<rparr>;
          plan1 = addErrors (errList sErr) (addWarnings sWarns (addErrors (errList vErr) (addWarnings vWarns plan0)));
          (out1, plan2) = translatePodTemplate (lg_PodTemplate spec) (out0, plan1);
          plan3 = addWarnings (templateWarnings spec) plan2;
          (out2, plan4) =
            (if lg_Options spec \<noteq> fmempty then
               (let (typed, oWarns, oErrs) = translateEtcdOptions (lg_Options spec)
                in (out1\<lparr>ec_Spec := (ec_Spec out1)\<lparr>cs_Options := typed\<rparr>\<rparr>, addErrors oErrs (addWarnings oWarns plan3)))
             else (out1, plan3));
          (tls, tWarns) = translateTLS (lg_Security spec);
          (out4, plan6) = translateAuth rnd (lg_Security spec) opts
            (out2\<lparr>ec_Spec := (ec_Spec out2)\<lparr>cs_TLS := tls\<rparr>\<rparr>, addWarnings tWarns plan4);
          plan7 = (case lg_Bootstrap spec of
                     Some b \<Rightarrow> if lbs_Restore b \<noteq> None then addWarnings [restoreWarning] plan6 else plan6
                   | None \<Rightarrow> plan6)
      in (out4, plan7))"

definition TranslateCluster ::
  "8 word list \<Rightarrow> string \<Rightarrow> string \<Rightarrow> LegacyClusterSpec \<Rightarrow> TranslateOptions \<Rightarrow> ResourcePlan" where
  "TranslateCluster rnd name namespace spec opts =
     (let (out, plan) = translatedCluster rnd name namespace spec opts
      in if rp_Errors plan \<noteq> [] then failPlan plan else plan\<lparr>rp_Target := Some (OCluster out)\<rparr>)"

section \<open>Backups and schedules\<close>

definition translateLocation :: "BackupDestination \<Rightarrow> goerror + SnapshotLocation" where
  "translateLocation d =
     (case (bd_S3 d, bd_PVC d) of
        (Some _, Some _) \<Rightarrow> Inl (errorf ''both s3 and pvc destinations set; exactly one is allowed'')
      | (Some s3, None) \<Rightarrow> Inr \<lparr>sl_S3 = Some \<lparr>s3_Endpoint = s3b_Endpoint s3, s3_Bucket = s3b_Bucket s3, s3_Key = s3b_Key s3,
          s3_CredentialsSecretRef = s3b_CredentialsSecretRef s3, s3_Region = s3b_Region s3,
          s3_ForcePathStyle = s3b_ForcePathStyle s3\<rparr>, sl_PVC = None\<rparr>
      | (None, Some pvc) \<Rightarrow> Inr \<lparr>sl_S3 = None,
          sl_PVC = Some \<lparr>pl_ClaimName = pvb_ClaimName pvc, pl_SubPath = pvb_SubPath pvc\<rparr>\<rparr>
      | (None, None) \<Rightarrow> Inl (errorf ''neither s3 nor pvc destination set; exactly one is required''))"

definition newSnapshot :: "ObjectMeta \<Rightarrow> string \<Rightarrow> SnapshotLocation \<Rightarrow> EtcdSnapshot" where
  "newSnapshot meta ref dest = \<lparr>es_Meta = meta, es_Spec = \<lparr>ss_ClusterRef = ref, ss_Destination = dest\<rparr>,
     es_Status = \<lparr>sst_Phase = SnapshotPhaseNone, sst_Artifact = None, sst_Conditions = []\<rparr>\<rparr>"

definition TranslateBackup :: "string \<Rightarrow> string \<Rightarrow> EtcdBackupSpec \<Rightarrow> ResourcePlan" where
  "TranslateBackup name namespace spec =
     (let plan = (emptyPlan ''EtcdBackup'' name namespace ActionCreate)\<lparr>
            rp_DeleteRef := Some \<lparr>rf_GVR = BackupGVR, rf_Namespace = namespace, rf_Name = name\<rparr>\<rparr>
      in case translateLocation (bk_Destination spec) of
           Inl err \<Rightarrow> addErrors [''spec.destination: '' @ err_msg err] (plan\<lparr>rp_Action := ActionError, rp_DeleteRef := None\<rparr>)
         | Inr dest \<Rightarrow>
             addNotes [''the EtcdSnapshot runs once the NEW operator is started and the referenced cluster exists under the new API'']
               (plan\<lparr>rp_Target := Some (OSnapshot (newSnapshot
                  (emptyMeta\<lparr>om_Name := name, om_Namespace := namespace\<rparr>) (bk_ClusterRef spec) dest))\<rparr>))"

abbreviation (input) kubectlImage :: string where "kubectlImage \<equiv> ''bitnami/kubectl:1.33''"
abbreviation (input) newGroup :: string where "newGroup \<equiv> ''etcd-operator.cozystack.io''"

definition scheduleRBAC :: "string \<Rightarrow> string \<Rightarrow> object list" where
  "scheduleRBAC saName namespace =
     (let meta = emptyMeta\<lparr>om_Name := saName, om_Namespace := namespace\<rparr> in
      [OServiceAccount meta,
       ORole \<lparr>ro_Meta = meta, ro_Rules = [([newGroup], [''etcdsnapshots''], [''create''])]\<rparr>,
       ORoleBinding \<lparr>rb_Meta = meta, rb_RoleRef = (''rbac.authorization.k8s.io'', ''Role'', saName),
         rb_Subjects = [(''ServiceAccount'', saName, namespace)]\<rparr>])"

definition scheduleWarnings :: "string list" where
  "scheduleWarnings =
     [''EtcdBackupSchedule has no v1alpha2 CRD: the CronJob manifest above is PRINTED ONLY '' @ [CHR 0xE2, CHR 0x80, CHR 0x94] @
        '' review it (image, schedule, RBAC) and apply it yourself'',
      ''the legacy EtcdBackupSchedule CR is left in place; delete it manually once the CronJob replacement is applied'']"

definition TranslateSchedule ::
  "(EtcdSnapshot \<Rightarrow> goerror + string) \<Rightarrow> string \<Rightarrow> string \<Rightarrow> EtcdBackupScheduleSpec \<Rightarrow> ResourcePlan" where
  "TranslateSchedule yaml name namespace spec =
     (let plan = emptyPlan ''EtcdBackupSchedule'' name namespace ActionPrint in
      case translateLocation (bsch_Destination spec) of
        Inl err \<Rightarrow> addErrors [''spec.destination: '' @ err_msg err] (plan\<lparr>rp_Action := ActionError\<rparr>)
      | Inr dest \<Rightarrow>
          (case yaml (newSnapshot (emptyMeta\<lparr>om_GenerateName := name @ ''-'', om_Namespace := namespace\<rparr>)
                   (bsch_ClusterRef spec) dest) of
             Inl yErr \<Rightarrow> addErrors [''render EtcdSnapshot template: '' @ err_msg yErr] (plan\<lparr>rp_Action := ActionError\<rparr>)
           | Inr doc \<Rightarrow>
               (let saName = name @ ''-snapshotter'';
                    script = ''kubectl create -f - <<'' @ [CHR 0x27] @ ''EOF'' @ [CHR 0x27, CHR 0x0A] @ doc @ ''EOF'' @ [CHR 0x0A]
                in addWarnings scheduleWarnings (plan\<lparr>
                     rp_Target := Some (OCronJob \<lparr>cj_Meta = emptyMeta\<lparr>om_Name := name, om_Namespace := namespace\<rparr>,
                       cj_Schedule = bsch_Schedule spec,
                       cj_SuccessfulJobsHistoryLimit = bsch_SuccessfulJobsHistoryLimit spec,
                       cj_FailedJobsHistoryLimit = bsch_FailedJobsHistoryLimit spec,
                       cj_ServiceAccountName = saName, cj_RestartPolicyNever = True,
                       cj_Containers = [(''create-snapshot'', kubectlImage, [''/bin/sh'', ''-ec'', script])]\<rparr>),
                     rp_Extras := scheduleRBAC saName namespace\<rparr>))))"

section \<open>The one-off snapshot Job\<close>

definition SnapshotName :: "string \<Rightarrow> string \<Rightarrow> string" where
  "SnapshotName namespace cluster = namespace @ ''-'' @ cluster @ ''-migration''"

definition SnapshotJobName :: "string \<Rightarrow> string" where
  "SnapshotJobName cluster = cluster @ ''-migration-snapshot''"

definition legacyServesTLS :: "LegacyClusterSpec \<Rightarrow> bool" where
  "legacyServesTLS spec = (case lg_Security spec of None \<Rightarrow> False | Some se \<Rightarrow> lt_ServerSecret (se_TLS se) \<noteq> '''')"

definition LegacyClientEndpoint :: "string \<Rightarrow> string \<Rightarrow> LegacyClusterSpec \<Rightarrow> string" where
  "LegacyClientEndpoint name namespace spec =
     (if legacyServesTLS spec then ''https'' else ''http'') @ ''://'' @ name @ ''.'' @ namespace @ ''.svc:2379''"

text \<open>The Secret with the CA of the client plane: the trusted-CA Secret or else the server's own.\<close>

definition legacyCASecret :: "LegacyTLSSpec \<Rightarrow> string" where
  "legacyCASecret t = (if lt_ServerTrustedCASecret t = '''' then lt_ServerSecret t else lt_ServerTrustedCASecret t)"

definition legacyTLSParts :: "LegacyClusterSpec \<Rightarrow> EnvVar list \<times> Volume list \<times> VolumeMount list" where
  "legacyTLSParts spec =
     (case lg_Security spec of None \<Rightarrow> ([], [], []) | Some se \<Rightarrow>
        (let t = se_TLS se in
         if lt_ServerSecret t = '''' then ([], [], [])
         else if lt_ClientSecret t = '''' then
           ([envVar ''ETCD_TLS_CA_PATH'' (snapshotCAMountPath @ ''/ca.crt'')],
            [(emptyVolume ''etcd-ca'')\<lparr>vo_Secret := Some (legacyCASecret t)\<rparr>],
            [mountAt ''etcd-ca'' snapshotCAMountPath True])
         else
           ([envVar ''ETCD_TLS_CA_PATH'' (snapshotCAMountPath @ ''/ca.crt''),
             envVar ''ETCD_TLS_CERT_PATH'' (snapshotClientMountPath @ ''/tls.crt''),
             envVar ''ETCD_TLS_KEY_PATH'' (snapshotClientMountPath @ ''/tls.key'')],
            [(emptyVolume ''etcd-ca'')\<lparr>vo_Secret := Some (legacyCASecret t)\<rparr>,
             (emptyVolume ''etcd-client'')\<lparr>vo_Secret := Some (lt_ClientSecret t)\<rparr>],
            [mountAt ''etcd-ca'' snapshotCAMountPath True, mountAt ''etcd-client'' snapshotClientMountPath True])))"

text \<open>The part for the destination is the same text as in the operator's own Job.\<close>

definition BuildSnapshotJob ::
  "string \<Rightarrow> string \<Rightarrow> string \<Rightarrow> LegacyClusterSpec \<Rightarrow> SnapshotLocation \<Rightarrow> string \<Rightarrow> Job" where
  "BuildSnapshotJob name namespace clusterUID spec dest agentImage =
     (let (tlsEnv, tlsVols, tlsMounts) = legacyTLSParts spec;
          (dstEnv, dstVols, dstMounts) = snapshotDestParts dest;
          env = [envVar ''ETCD_ENDPOINTS'' (LegacyClientEndpoint name namespace spec),
                 envVar ''SNAPSHOT_NAME'' (SnapshotName namespace name), envVar ''SNAPSHOT_UID'' clusterUID] @ tlsEnv @ dstEnv
      in \<lparr>job_Meta = emptyMeta\<lparr>om_Name := SnapshotJobName name, om_Namespace := namespace,
            om_Labels := fmupd ''app.kubernetes.io/created-by'' ''etcd-migrate'' fmempty\<rparr>,
          job_BackoffLimit = 3, job_TTLSecondsAfterFinished = 600, job_ActiveDeadlineSeconds = 1800,
          job_TemplateLabels = fmempty,
          job_PodSpec = \<lparr>pos_Hostname = '''', pos_Subdomain = '''', pos_Affinity = None, pos_TopologySpreadConstraints = [],
            pos_ImagePullSecrets = [], pos_RestartPolicyNever = True, pos_AutomountServiceAccountToken = Some False,
            pos_Security = Some podSecurity, pos_InitContainers = [],
            pos_Containers = [emptyContainer\<lparr>ctr_Name := ''snapshot-agent'', ctr_Image := agentImage,
              ctr_Command := [''/manager'', ''snapshot-agent''], ctr_Env := env,
              ctr_AllowPrivilegeEscalation := Some False, ctr_DropCapabilities := [''ALL''],
              ctr_VolumeMounts := tlsMounts @ dstMounts, ctr_Resources := agentResources\<rparr>],
            pos_Volumes = tlsVols @ dstVols\<rparr>,
          job_Succeeded = 0, job_Conditions = []\<rparr>)"

section \<open>Adoption\<close>

abbreviation (input) LegacyDataDirSubPath :: string where "LegacyDataDirSubPath \<equiv> ''default.etcd''"

definition LegacyHeadlessServiceName :: "string \<Rightarrow> LegacyClusterSpec \<Rightarrow> string" where
  "LegacyHeadlessServiceName name spec =
     (case lg_HeadlessServiceTemplate spec of
        Some t \<Rightarrow> if eom_Name t \<noteq> '''' then eom_Name t else name @ ''-headless''
      | None \<Rightarrow> name @ ''-headless'')"

definition LegacyClientServiceName :: "string \<Rightarrow> LegacyClusterSpec \<Rightarrow> string" where
  "LegacyClientServiceName name spec =
     (case lg_ServiceTemplate spec of
        Some t \<Rightarrow> if eom_Name t \<noteq> '''' then eom_Name t else name
      | None \<Rightarrow> name)"

definition LegacyClusterToken :: "string \<Rightarrow> string \<Rightarrow> string" where
  "LegacyClusterToken name namespace = name @ ''-'' @ namespace"

definition LegacyStateConfigMapName :: "string \<Rightarrow> string" where
  "LegacyStateConfigMapName name = name @ ''-cluster-state''"

record MemberFact =
  mf_Name :: string
  mf_IDHex :: string
  mf_PeerURL :: string
  mf_IsLearner :: bool
  mf_PodUID :: string

record ClusterFacts =
  cf_ClusterIDHex :: string
  cf_Members :: "MemberFact list"
  cf_AuthEnabled :: bool

definition memberFactErrors :: "MemberFact \<Rightarrow> string list" where
  "memberFactErrors m =
     (if mf_IsLearner m then [''etcd member '' @ goQuote (mf_Name m) @
        '' is a learner; the legacy operator never creates learners, refusing to adopt a cluster in an unrecognized state''] else []) @
     (if mf_PodUID m = '''' then [''etcd member '' @ goQuote (mf_Name m) @
        '' has no running Pod of the same name; every member must be backed by a Ready pod to adopt''] else [])"

definition peerAutoTLSWarning :: "MemberFact \<Rightarrow> string" where
  "peerAutoTLSWarning m =
     ''cluster runs etcd --peer-auto-tls (member '' @ goQuote (mf_Name m) @ '' advertises '' @ mf_PeerURL m @
     ''; no peerSecret in the legacy spec): carried forward via the reserved '' @ AnnPeerAutoTLS @
     '' annotation so members keep interoperating across replacement/scale. The peer plane is encrypted but NOT authenticated (no shared CA) '' @
     [CHR 0xE2, CHR 0x80, CHR 0x94] @
     '' any TLS-capable workload that reaches :2380 can peer. Move to real mTLS (spec.tls.peer.secretRef or certManager) when you can; that is a delete-and-recreate since spec.tls is immutable.''"

text \<open>The reserved annotation for a legacy cluster whose peers run \<^verbatim>\<open>--peer-auto-tls\<close>.\<close>

definition carryPeerAutoTLS :: "MemberFact list \<Rightarrow> EtcdCluster \<times> ResourcePlan \<Rightarrow> EtcdCluster \<times> ResourcePlan" where
  "carryPeerAutoTLS members st =
     (let (cluster, plan) = st in
      if hasPeerTLS (Some cluster) then st
      else case List.find (\<lambda>m. HasPrefix (mf_PeerURL m) ''https://'') members of
          None \<Rightarrow> st
        | Some m \<Rightarrow>
            (cluster\<lparr>ec_Meta := (ec_Meta cluster)\<lparr>om_Annotations :=
                fmupd AnnPeerAutoTLS ''true'' (om_Annotations (ec_Meta cluster))\<rparr>\<rparr>,
             plan\<lparr>rp_SecurityWarnings := rp_SecurityWarnings plan @ [peerAutoTLSWarning m]\<rparr>))"

definition deriveAdoptedMemberTLS :: "EtcdCluster \<Rightarrow> EtcdMemberTLS option" where
  "deriveAdoptedMemberTLS cluster =
     (let tls = cs_TLS (ec_Spec cluster);
          auto = (mapGet (om_Annotations (ec_Meta cluster)) AnnPeerAutoTLS = ''true'');
          client = Option.bind tls tls_Client; peer = Option.bind tls tls_Peer;
          srv = Option.bind client ct_ServerSecretRef;
          psec = Option.bind peer pt_SecretRef
      in if client = None \<and> peer = None \<and> \<not> auto then None
         else Some \<lparr>mt_ClientServerSecretRef = srv,
                mt_ClientMTLS = (srv \<noteq> None \<and> Option.bind client ct_OperatorClientSecretRef \<noteq> None),
                mt_PeerSecretRef = psec, mt_PeerAutoTLS = (psec = None \<and> auto)\<rparr>)"

definition adoptedMember ::
  "string \<Rightarrow> string \<Rightarrow> string \<Rightarrow> EtcdCluster \<Rightarrow> string \<Rightarrow> string \<Rightarrow> EtcdMemberTLS option \<Rightarrow> MemberFact \<Rightarrow> MemberAdoption" where
  "adoptedMember name namespace legacyHeadless cluster initialCluster token memberTLS m =
     (let sp = ec_Spec cluster in
      \<lparr>ma_Member = \<lparr>
         em_Meta = emptyMeta\<lparr>om_Name := mf_Name m, om_Namespace := namespace, om_Labels := memberLabels name (mf_Name m),
           om_Annotations := fmap_of_list
             [(AnnHeadlessServiceName, legacyHeadless), (AnnDataDirSubPath, LegacyDataDirSubPath)]\<rparr>,
         em_Spec = \<lparr>ms_ClusterName = name, ms_Version = cs_Version sp, ms_Storage = cs_Storage sp, ms_Resources = cs_Resources sp,
           ms_AdditionalMetadata = cs_AdditionalMetadata sp, ms_Affinity = cs_Affinity sp,
           ms_TopologySpreadConstraints = cs_TopologySpreadConstraints sp, ms_Options = cs_Options sp,
           ms_ImagePullSecrets = cs_ImagePullSecrets sp, ms_Bootstrap = False, ms_InitialCluster = initialCluster,
           ms_ClusterToken = token, ms_Replicas = 1, ms_Dormant = False, ms_TLS = memberTLS, ms_Restore = None\<rparr>,
         em_Status = emptyMemberStatus\<rparr>,
       ma_Status = emptyMemberStatus\<lparr>mst_MemberID := mf_IDHex m, mst_PodName := mf_Name m, mst_PodUID := mf_PodUID m,
         mst_PVCName := ''data-'' @ mf_Name m, mst_IsVoter := True\<rparr>,
       ma_PVCName = ''data-'' @ mf_Name m\<rparr>)"

definition adoptionNotes :: "string \<Rightarrow> string \<Rightarrow> string list" where
  "adoptionNotes legacyHeadless legacyClient =
     [''in-place adoption: the etcd pods and their PVCs stay exactly as they are; only ownership, labels and member annotations change'',
      ''adopted members carry annotation '' @ AnnHeadlessServiceName @ ''='' @ goQuote legacyHeadless @
        '' so the operator's URL convention matches the adopted pods' DNS; it self-wipes as members roll'',
      ''the legacy headless Service '' @ goQuote legacyHeadless @
        '' is owner-referenced to the adopted members and is garbage-collected automatically once the last adopted member is replaced'',
      ''the legacy client Service '' @ goQuote legacyClient @
        '' is replaced in place by the operator's native headless Service of the same name (consumers using its DNS name keep working; see docs/migration.md for the ClusterIP'' @
        [CHR 0xE2, CHR 0x86, CHR 0x92] @ ''headless caveats)'']"

definition replicasWarning :: "int \<Rightarrow> int \<Rightarrow> string" where
  "replicasWarning r live = ''legacy spec.replicas='' @ showInt r @ '' disagrees with the live member count '' @ showInt live @
     ''; adopting with replicas='' @ showInt live @ '' (the live state)''"

text \<open>What the plan carries besides the objects of the translation.\<close>

definition adoptionOf ::
  "string \<Rightarrow> string \<Rightarrow> LegacyClusterSpec \<Rightarrow> ClusterFacts \<Rightarrow> MemberFact list \<Rightarrow> EtcdCluster \<Rightarrow> AdoptionPlan" where
  "adoptionOf name namespace spec facts members cluster =
     (let sp = ec_Spec cluster; token = LegacyClusterToken name namespace;
          initialCluster = Join (map (\<lambda>m. mf_Name m @ ''='' @ mf_PeerURL m) members) '','';
          legacyHeadless = LegacyHeadlessServiceName name spec
      in \<lparr>ad_ClusterStatus = emptyClusterStatus\<lparr>est_ClusterID := cf_ClusterIDHex facts, est_ClusterToken := token,
            est_Observed := Some \<lparr>ob_Replicas = toInt32 (int (length members)), ob_Version = cs_Version sp,
              ob_Storage = cs_Storage sp, ob_Resources = cs_Resources sp, ob_Affinity = cs_Affinity sp,
              ob_TopologySpreadConstraints = cs_TopologySpreadConstraints sp, ob_AdditionalMetadata = cs_AdditionalMetadata sp,
              ob_Options = cs_Options sp, ob_ImagePullSecrets = cs_ImagePullSecrets sp\<rparr>\<rparr>,
          ad_Members = map (adoptedMember name namespace legacyHeadless cluster initialCluster token
            (deriveAdoptedMemberTLS cluster)) members,
          ad_StatefulSetName = name, ad_ConfigMapName = LegacyStateConfigMapName name, ad_PDBName = name,
          ad_HeadlessServiceName = legacyHeadless, ad_ClientServiceName = LegacyClientServiceName name spec\<rparr>)"

definition BuildAdoption ::
  "8 word list \<Rightarrow> string \<Rightarrow> string \<Rightarrow> LegacyClusterSpec \<Rightarrow> ClusterFacts \<Rightarrow> TranslateOptions \<Rightarrow> ResourcePlan" where
  "BuildAdoption rnd name namespace spec facts opts =
     (let plan0 = TranslateCluster rnd name namespace spec opts in
      if rp_Action plan0 = ActionError then plan0
      else case rp_Target plan0 of
        Some (OCluster cluster0) \<Rightarrow>
            (let members = sortSlice (\<lambda>a b. mf_Name a < mf_Name b) (cf_Members facts);
                 plan1 = addErrors (concat (map memberFactErrors members)) (plan0\<lparr>rp_Action := ActionAdopt\<rparr>);
                 (cluster1, plan2) = carryPeerAutoTLS members (cluster0, plan1);
                 replicas = toInt32 (int (length members));
                 plan3 = (case lg_Replicas spec of
                     Some r \<Rightarrow> if r \<noteq> replicas then addWarnings [replicasWarning r replicas] plan2 else plan2
                   | None \<Rightarrow> plan2);
                 cluster = cluster1\<lparr>ec_Spec := (ec_Spec cluster1)\<lparr>cs_Replicas := Some replicas\<rparr>\<rparr>
             in if rp_Errors plan3 \<noteq> [] then failPlan plan3
                else addNotes (adoptionNotes (LegacyHeadlessServiceName name spec) (LegacyClientServiceName name spec))
                  (plan3\<lparr>rp_Target := Some (OCluster cluster),
                    rp_Adoption := Some (adoptionOf name namespace spec facts members cluster)\<rparr>))
      | _ \<Rightarrow> plan0)"

end
