(* ===== verification/Cli.thy ===== *)
theory Cli
  imports EtcdDial Migrate
begin

text \<open>
  The machine the command line tools run on (\<^verbatim>\<open>src/cmd/etcd-migrate\<close>, \<^verbatim>\<open>src/cmd/kubectl-etcd\<close>) and the
  port forward they share (\<^verbatim>\<open>src/internal/portforward\<close>). The API server, etcd, client-go, the terminal and
  the local files are the parameter \<open>world\<close>; every call with an effect or a reply is an event. Closing
  clients and readers, whose errors the tools ignore, is not recorded.
\<close>

section \<open>Calls\<close>

record Deployment =
  dep_Replicas :: "int option"
  dep_Selector :: "goerror + string" \<comment> \<open>\<^verbatim>\<open>metav1.LabelSelectorAsSelector\<close>\<close>
  dep_Containers :: "(string \<times> string) list" \<comment> \<open>name, image\<close>

text \<open>A legacy object as the dynamic client returns it; the spec is absent, unreadable or opaque.\<close>

record Unstructured =
  un_Name :: string
  un_Namespace :: string
  un_UID :: string
  un_Spec :: "goerror + opaque option" \<comment> \<open>\<^verbatim>\<open>unstructured.NestedMap\<close>\<close>

record CliClient =
  cc_Endpoints :: "string list"
  cc_TLS :: "TLSConfigData option"
  cc_ServerName :: string
  cc_Username :: string
  cc_Password :: string

datatype propagation = Background | Orphan | Foreground | DefaultPropagation

text \<open>Which channel of a \<^verbatim>\<open>select\<close> was received from: the context, the deadline timer or the tick timer of a polling
  loop; and of a port forward the ready signal, the end of the forwarder or the timeout.\<close>

datatype wake = CtxDone goerror | DeadlineFired | Tick
datatype forwardEvent = ForwardReady | ForwardExited "goerror option" | ForwardTimeout

text \<open>What etcd reports of a member to the tools, besides the fields the operator reads.\<close>

record CliStatus =
  ks_MemberId :: u64
  ks_Leader :: u64
  ks_Revision :: int
  ks_DbSize :: int
  ks_DbSizeInUse :: int
  ks_RaftIndex :: u64
  ks_RaftAppliedIndex :: u64
  ks_IsLearner :: bool
  ks_Errors :: "string list"

record CliMember =
  km_ID :: u64
  km_Name :: string
  km_PeerURLs :: "string list"
  km_ClientURLs :: "string list"
  km_IsLearner :: bool

text \<open>Calls that only succeed or fail: constructors of clients, writes to the API server, requests to etcd and
  the local file.\<close>

datatype setupCall =
    BuildConfig | NewKube | NewDynamic | NewScheme | NewClient | RoundTripper | ParseHost
  | NewForwarder string string int

datatype cwrite =
    WCreate object
  | WCreateJob Job
  | WCreateService Service
  | WStatusCluster EtcdCluster
  | WStatusMember EtcdMember
  | WUpdateService Service
  | WPatchPod Pod Pod
  | WPatchPVC PVC PVC
  | WDeleteLegacy ObjectRef propagation
  | WDelete string nsname propagation \<comment> \<open>kind\<close>

datatype etcdOp =
    OpAuthDisable | OpDefragment string | OpCompact int | OpAlarmDisarm AlarmMember | OpMoveLeader u64
  | OpMemberRemove u64 | OpMemberAdd "string list" | OpSnapshot

datatype fileOp = CreateFile string | CopyStream string

datatype cevent =
    CSetup setupCall "goerror option"
  | CGetDeployment nsname "goerror + Deployment"
  | CListPods string string "goerror + Pod list" \<comment> \<open>namespace, selector\<close>
  | CGetPVC nsname "goerror + PVC"
  | CGetSecret nsname "goerror + Secret"
  | CListLegacy GVR string "goerror + Unstructured list"
  | CForwardPorts forwardEvent
  | CGetPorts "goerror + int list"
  | CStopForward
  | CDial CliClient "goerror option"
  | CMemberList CliClient "goerror + u64 \<times> CliMember list"
  | CAuthStatus CliClient "goerror + bool"
  | CStatus CliClient string "goerror + CliStatus"
  | CAlarmList CliClient "goerror + (string \<times> u64) list"
  | CEtcd CliClient etcdOp "goerror option"
  | CFile fileOp "goerror option"
  | CGetCluster nsname "goerror + EtcdCluster"
  | CGetMember nsname "goerror + EtcdMember"
  | CGetObject object "goerror option" \<comment> \<open>\<^verbatim>\<open>Get\<close> by the type and the key of the object\<close>
  | CGetService nsname "goerror + Service"
  | CGetPod nsname "goerror + Pod"
  | CGetJob nsname "goerror + Job"
  | CGetStatefulSet nsname "goerror option"
  | CWrite cwrite "goerror option"
  | CWait gotime duration wake \<comment> \<open>the deadline, the interval of the tick\<close>
  | CReadLine "goerror + string"
  | CPrint string

type_synonym 'a cproc = "(cevent, 'a) io"
type_synonym 'r creply = "cevent list \<Rightarrow> 'r"

text \<open>Libraries: TLS configurations, the entropy source, YAML, the decoder of unstructured objects, the
  kubeconfig.\<close>

record clilib =
  cl_env :: env
  cl_random :: "nat \<Rightarrow> 8 word list" \<comment> \<open>the n-th draw\<close>
  cl_yaml :: "EtcdSnapshot \<Rightarrow> goerror + string"
  cl_manifest :: "object option \<Rightarrow> goerror + string" \<comment> \<open>\<^verbatim>\<open>yaml.Marshal\<close> of an object or of nil\<close>
  cl_clusterSpec :: "opaque \<Rightarrow> goerror + LegacyClusterSpec" \<comment> \<open>\<^verbatim>\<open>FromUnstructured\<close>\<close>
  cl_backupSpec :: "opaque \<Rightarrow> goerror + EtcdBackupSpec"
  cl_scheduleSpec :: "opaque \<Rightarrow> goerror + EtcdBackupScheduleSpec"
  cl_isNoMatch :: "goerror \<Rightarrow> bool" \<comment> \<open>\<^verbatim>\<open>meta.IsNoMatchError\<close>\<close>
  cl_namespace :: "string \<Rightarrow> goerror + string" \<comment> \<open>the namespace of a kubeconfig's current context\<close>
  cl_showPointer :: "int option \<Rightarrow> string" \<comment> \<open>\<^verbatim>\<open>%v\<close> of a pointer to a number: an address\<close>
  cl_humanize :: "u64 \<Rightarrow> string" \<comment> \<open>\<^verbatim>\<open>humanize.Bytes\<close>\<close>
  cl_percent :: "int \<Rightarrow> int \<Rightarrow> string" \<comment> \<open>\<^verbatim>\<open>%.2f\<close> of a quotient in percent\<close>

record cliReads =
  r_deployment :: "(nsname \<Rightarrow> goerror + Deployment) creply"
  r_listPods :: "(string \<times> string \<Rightarrow> goerror + Pod list) creply"
  r_pvc :: "(nsname \<Rightarrow> goerror + PVC) creply"
  r_secret :: "(nsname \<Rightarrow> goerror + Secret) creply"
  r_listLegacy :: "(GVR \<times> string \<Rightarrow> goerror + Unstructured list) creply"
  r_cluster :: "(nsname \<Rightarrow> goerror + EtcdCluster) creply"
  r_member :: "(nsname \<Rightarrow> goerror + EtcdMember) creply"
  r_object :: "(object \<Rightarrow> goerror option) creply"
  r_service :: "(nsname \<Rightarrow> goerror + Service) creply"
  r_pod :: "(nsname \<Rightarrow> goerror + Pod) creply"
  r_job :: "(nsname \<Rightarrow> goerror + Job) creply"
  r_statefulSet :: "(nsname \<Rightarrow> goerror option) creply"

record world =
  w_lib :: clilib
  w_reads :: cliReads
  w_setup :: "(setupCall \<Rightarrow> goerror option) creply"
  w_forwardPorts :: "(unit \<Rightarrow> forwardEvent) creply"
  w_getPorts :: "(unit \<Rightarrow> goerror + int list) creply"
  w_dial :: "(CliClient \<Rightarrow> goerror option) creply"
  w_memberList :: "(CliClient \<Rightarrow> goerror + u64 \<times> CliMember list) creply"
  w_authStatus :: "(CliClient \<Rightarrow> goerror + bool) creply"
  w_status :: "(CliClient \<times> string \<Rightarrow> goerror + CliStatus) creply"
  w_alarmList :: "(CliClient \<Rightarrow> goerror + (string \<times> u64) list) creply"
  w_etcd :: "(CliClient \<times> etcdOp \<Rightarrow> goerror option) creply"
  w_file :: "(fileOp \<Rightarrow> goerror option) creply"
  w_write :: "(cwrite \<Rightarrow> goerror option) creply"
  w_now :: "gotime creply"
  w_wait :: "(gotime \<times> duration \<Rightarrow> wake) creply" \<comment> \<open>a \<^verbatim>\<open>select\<close> on the context, the timer of the deadline and \<^verbatim>\<open>time.After\<close> of an interval\<close>
  w_rounds :: nat \<comment> \<open>how many rounds of a polling loop the run is followed\<close>
  w_readLine :: "(unit \<Rightarrow> goerror + string) creply"

definition cliSetup where "cliSetup W q = call (w_setup W) CSetup q"
definition getDeployment where "getDeployment W k = call (r_deployment (w_reads W)) CGetDeployment k"
definition listPods where "listPods W ns sel = call (r_listPods (w_reads W)) (\<lambda>(n, l). CListPods n l) (ns, sel)"
definition cliPVC where "cliPVC W k = call (r_pvc (w_reads W)) CGetPVC k"
definition cliSecret where "cliSecret W k = call (r_secret (w_reads W)) CGetSecret k"
definition listGVR where "listGVR W g ns = call (r_listLegacy (w_reads W)) (\<lambda>(g, n). CListLegacy g n) (g, ns)"
definition cliCluster where "cliCluster W k = call (r_cluster (w_reads W)) CGetCluster k"
definition cliMember where "cliMember W k = call (r_member (w_reads W)) CGetMember k"
definition cliObject where "cliObject W x = call (r_object (w_reads W)) CGetObject x"
definition cliService where "cliService W k = call (r_service (w_reads W)) CGetService k"
definition cliPod where "cliPod W k = call (r_pod (w_reads W)) CGetPod k"
definition cliJob where "cliJob W k = call (r_job (w_reads W)) CGetJob k"
definition cliStatefulSet where "cliStatefulSet W k = call (r_statefulSet (w_reads W)) CGetStatefulSet k"
definition forwardPorts where "forwardPorts W = call (w_forwardPorts W) (\<lambda>_. CForwardPorts) ()"
definition getPorts where "getPorts W = call (w_getPorts W) (\<lambda>_. CGetPorts) ()"
definition stopForward :: "unit cproc" where "stopForward = call (\<lambda>h q. ()) (\<lambda>q r. CStopForward) ()"
definition cliDial where "cliDial W c = call (w_dial W) CDial c"
definition cliMemberList where "cliMemberList W c = call (w_memberList W) CMemberList c"
definition cliAuthStatus where "cliAuthStatus W c = call (w_authStatus W) CAuthStatus c"
definition cliStatus where "cliStatus W c ep = call (w_status W) (\<lambda>(c, e). CStatus c e) (c, ep)"
definition cliAlarmList where "cliAlarmList W c = call (w_alarmList W) CAlarmList c"
definition cliEtcd where "cliEtcd W c op = call (w_etcd W) (\<lambda>(c, q). CEtcd c q) (c, op)"
definition cliFile where "cliFile W q = call (w_file W) CFile q"
definition cliWrite where "cliWrite W q = call (w_write W) CWrite q"
definition cliWait where "cliWait W d i = call (w_wait W) (\<lambda>(d, i). CWait d i) (d, i)"
definition cliNow :: "world \<Rightarrow> gotime cproc" where "cliNow W = observe (w_now W)"
definition readLine where "readLine W = call (w_readLine W) (\<lambda>_. CReadLine) ()"
definition say :: "string \<Rightarrow> unit cproc" where "say t = call (\<lambda>h q. ()) (\<lambda>q r. CPrint q) t"

lemmas cli_call_defs = cliSetup_def getDeployment_def listPods_def cliPVC_def cliSecret_def listGVR_def cliCluster_def
  cliMember_def cliObject_def cliService_def cliPod_def cliJob_def cliStatefulSet_def forwardPorts_def getPorts_def
  stopForward_def cliDial_def cliMemberList_def cliAuthStatus_def cliStatus_def cliAlarmList_def cliEtcd_def cliFile_def
  cliWrite_def cliWait_def readLine_def say_def

lemma single_ccalls:
  "single (cliSetup W q0) (CSetup q0)" "single (getDeployment W k) (CGetDeployment k)" "single (listPods W ns sel) (CListPods ns sel)"
  "single (cliPVC W k) (CGetPVC k)" "single (cliSecret W k) (CGetSecret k)" "single (listGVR W g ns) (CListLegacy g ns)"
  "single (cliCluster W k) (CGetCluster k)" "single (cliMember W k) (CGetMember k)" "single (cliObject W x) (CGetObject x)"
  "single (cliService W k) (CGetService k)" "single (cliPod W k) (CGetPod k)" "single (cliJob W k) (CGetJob k)"
  "single (cliStatefulSet W k) (CGetStatefulSet k)" "single (forwardPorts W) CForwardPorts" "single (getPorts W) CGetPorts"
  "single stopForward (\<lambda>_. CStopForward)" "single (cliDial W c) (CDial c)" "single (cliMemberList W c) (CMemberList c)"
  "single (cliAuthStatus W c) (CAuthStatus c)" "single (cliStatus W c ep) (CStatus c ep)" "single (cliAlarmList W c) (CAlarmList c)"
  "single (cliEtcd W c op) (CEtcd c op)" "single (cliFile W q1) (CFile q1)" "single (cliWrite W q2) (CWrite q2)"
  "single (cliWait W dl iv) (CWait dl iv)" "single (readLine W) CReadLine" "single (say t) (\<lambda>_. CPrint t)"
  by (simp_all add: cli_call_defs single_def)

lemmas safe_ccalls [io_rules] = single_ccalls [THEN safe_single]
lemmas safe_bind_ccalls [io_rules] = single_ccalls [THEN safe_bind_single]
lemmas emits_ccalls [emits_rules] = single_ccalls [THEN emits_single]
lemmas safe_bindE_ccalls [io_rules] = single_ccalls(2-8,10-12,15,18-21,26) [THEN safe_bindE_single]

lemma safe_bind_cliNow [io_rules]: "(\<And>h. safe step s (k (w_now W h)) Q) \<Longrightarrow> safe step s (State_Monad.bind (cliNow W) k) Q"
  unfolding cliNow_def by (rule safe_bind_observe)

lemma emits_cliNow [emits_rules]: "emits P (cliNow W)"
  unfolding cliNow_def by (rule emits_observe)

text \<open>A call that only succeeds or fails as a step of Go's error-returning code.\<close>

definition failing :: "('e, goerror option) io \<Rightarrow> ('e, goerror + unit) io" where
  "failing m = State_Monad.bind m (\<lambda>r. return (case r of None \<Rightarrow> Inr () | Some err \<Rightarrow> Inl err))"

definition wrapE :: "string \<Rightarrow> ('e, goerror + 'a) io \<Rightarrow> ('e, goerror + 'a) io" where
  "wrapE msg m = State_Monad.bind m (\<lambda>r. return (case r of Inl err \<Rightarrow> Inl (wrapf msg err) | Inr x \<Rightarrow> Inr x))"

lemma safe_failing [io_rules]: "safe step s m (\<lambda>r s'. Q (case r of None \<Rightarrow> Inr () | Some err \<Rightarrow> Inl err) s') \<Longrightarrow> safe step s (failing m) Q"
  unfolding failing_def by (erule safe_bind) (rule safe_return)

lemma safe_wrapE [io_rules]: "safe step s m (\<lambda>r s'. Q (case r of Inl err \<Rightarrow> Inl (wrapf msg err) | Inr x \<Rightarrow> Inr x) s') \<Longrightarrow> safe step s (wrapE msg m) Q"
  unfolding wrapE_def by (erule safe_bind) (rule safe_return)

lemma emits_failing [emits_rules]: "emits P m \<Longrightarrow> emits P (failing m)"
  unfolding failing_def by (intro emits_rules)

lemma emits_wrapE [emits_rules]: "emits P m \<Longrightarrow> emits P (wrapE msg m)"
  unfolding wrapE_def by (intro emits_rules)

text \<open>Running a step for each element until one fails, and collecting the results.\<close>

fun forE :: "('a \<Rightarrow> ('e, goerror + unit) io) \<Rightarrow> 'a list \<Rightarrow> ('e, goerror + unit) io" where
  "forE f [] = return (Inr ())"
| "forE f (x # xs) = bindE (f x) (\<lambda>_. forE f xs)"

fun mapE :: "('a \<Rightarrow> ('e, goerror + 'b) io) \<Rightarrow> 'a list \<Rightarrow> ('e, goerror + 'b list) io" where
  "mapE f [] = return (Inr [])"
| "mapE f (x # xs) = bindE (f x) (\<lambda>y. bindE (mapE f xs) (\<lambda>ys. return (Inr (y # ys))))"

fun mapIO :: "('a \<Rightarrow> ('e, 'b) io) \<Rightarrow> 'a list \<Rightarrow> ('e, 'b list) io" where
  "mapIO f [] = return []"
| "mapIO f (x # xs) = do { y \<leftarrow> f x; ys \<leftarrow> mapIO f xs; return (y # ys) }"

lemma emits_forE [emits_rules]: "(\<And>x. x \<in> set xs \<Longrightarrow> emits P (f x)) \<Longrightarrow> emits P (forE f xs)"
  by (induction xs) (auto intro!: emits_rules)

lemma emits_mapE [emits_rules]: "(\<And>x. x \<in> set xs \<Longrightarrow> emits P (f x)) \<Longrightarrow> emits P (mapE f xs)"
  by (induction xs) (auto intro!: emits_rules)

lemma emits_mapIO [emits_rules]: "(\<And>x. x \<in> set xs \<Longrightarrow> emits P (f x)) \<Longrightarrow> emits P (mapIO f xs)"
  by (induction xs) (auto intro!: emits_rules)

section \<open>The port forward\<close>

definition awaitForward :: "forwardEvent \<Rightarrow> (goerror option) cproc" where
  "awaitForward e =
     (case e of
        ForwardReady \<Rightarrow> return None
      | ForwardExited err \<Rightarrow> return (Some (wrapf ''port forwarding failed''
          (case err of None \<Rightarrow> errorf ''exited before becoming ready'' | Some x \<Rightarrow> x)))
      | ForwardTimeout \<Rightarrow> do {
          _ \<leftarrow> stopForward;
          return (Some (errorf ''timed out after 10s waiting for port forwarding to become ready''))
        })"

definition ForwardToPod :: "world \<Rightarrow> string \<Rightarrow> string \<Rightarrow> int \<Rightarrow> (goerror + int) cproc" where
  "ForwardToPod W namespace podName targetPort =
     bindE (wrapE ''failed to create round tripper'' (failing (cliSetup W RoundTripper))) (\<lambda>_.
     bindE (wrapE ''failed to parse host URL'' (failing (cliSetup W ParseHost))) (\<lambda>_.
     bindE (wrapE ''failed to create port forwarder'' (failing (cliSetup W (NewForwarder namespace podName targetPort)))) (\<lambda>_.
     do {
       e \<leftarrow> forwardPorts W;
       r \<leftarrow> awaitForward e;
       (case r of
          Some err \<Rightarrow> return (Inl err)
        | None \<Rightarrow> do {
            p \<leftarrow> getPorts W;
            (case p of
               Inl err \<Rightarrow> do { _ \<leftarrow> stopForward; return (Inl (wrapf ''failed to get forwarded ports'' err)) }
             | Inr [] \<Rightarrow> return (Inl indexOutOfRange)
             | Inr (port # _) \<Rightarrow> return (Inr port))
          })
     })))"

section \<open>A concrete machine\<close>

text \<open>A machine to run the tools on: the API server holds nothing and stores what is written, etcd does not answer, and a
  forward fails.\<close>

definition sampleWorld :: world where
  "sampleWorld = \<lparr>
     w_lib = \<lparr>cl_env = sampleEnv, cl_random = (\<lambda>_. []), cl_yaml = (\<lambda>_. Inr []), cl_manifest = (\<lambda>_. Inr []),
       cl_clusterSpec = (\<lambda>_. Inl notFound), cl_backupSpec = (\<lambda>_. Inl notFound), cl_scheduleSpec = (\<lambda>_. Inl notFound),
       cl_isNoMatch = (\<lambda>_. False), cl_namespace = (\<lambda>_. Inr ''default''), cl_showPointer = (\<lambda>_. ''0xc000''),
       cl_humanize = (\<lambda>_. ''0 B''), cl_percent = (\<lambda>_ _. ''0.00'')\<rparr>,
     w_reads = \<lparr>r_deployment = (\<lambda>_ _. Inl notFound), r_listPods = (\<lambda>_ _. Inr []), r_pvc = (\<lambda>_ _. Inl notFound),
       r_secret = (\<lambda>_ _. Inl notFound), r_listLegacy = (\<lambda>_ _. Inr []), r_cluster = (\<lambda>_ _. Inl notFound),
       r_member = (\<lambda>_ _. Inl notFound), r_object = (\<lambda>_ _. Some notFound), r_service = (\<lambda>_ _. Inl notFound),
       r_pod = (\<lambda>_ _. Inl notFound), r_job = (\<lambda>_ _. Inl notFound), r_statefulSet = (\<lambda>_ _. Some notFound)\<rparr>,
     w_setup = (\<lambda>_ _. None), w_forwardPorts = (\<lambda>_ _. ForwardTimeout), w_getPorts = (\<lambda>_ _. Inr []), w_dial = (\<lambda>_ _. None),
     w_memberList = (\<lambda>_ _. Inl unreachable), w_authStatus = (\<lambda>_ _. Inl unreachable), w_status = (\<lambda>_ _. Inl unreachable),
     w_alarmList = (\<lambda>_ _. Inl unreachable), w_etcd = (\<lambda>_ _. Some unreachable), w_file = (\<lambda>_ _. None), w_write = (\<lambda>_ _. None),
     w_now = (\<lambda>_. 0), w_wait = (\<lambda>_ _. DeadlineFired), w_rounds = 1, w_readLine = (\<lambda>_ _. Inr ''no'')\<rparr>"

end
