(* ===== verification/MigrateRun.thy ===== *)
theory MigrateRun
  imports Cli ClusterChildren
begin

text \<open>
  The migration tool (\<^verbatim>\<open>src/cmd/etcd-migrate\<close>): flags, the check that both operators are down, discovery and
  inspection of the live clusters, the plans and how they are shown, the confirmation, the backups and the adoption
  itself. The progress messages of the phases that change something are not modelled.
\<close>

section \<open>Flags\<close>

record Config =
  cfg_Kubeconfig :: string
  cfg_Namespace :: string
  cfg_Apply :: bool
  cfg_Yes :: bool
  cfg_SkipControllerCheck :: bool
  cfg_LegacyController :: string
  cfg_NewController :: string
  cfg_Version :: string
  cfg_AuthSecret :: string
  cfg_SkipBackup :: bool
  cfg_AgentImage :: string
  cfg_BackupTimeout :: duration
  cfg_BackupS3Endpoint :: string
  cfg_BackupS3Bucket :: string
  cfg_BackupS3Key :: string
  cfg_BackupS3Region :: string
  cfg_BackupS3ForcePathStyle :: bool
  cfg_BackupS3CredentialsSecret :: string
  cfg_BackupPVCClaim :: string
  cfg_BackupPVCSubPath :: string

text \<open>The configuration with no flag given; \<open>kubeconfigEnv\<close> is \<^verbatim>\<open>$KUBECONFIG\<close>.\<close>

definition defaultLegacyControllerRef :: string where
  "defaultLegacyControllerRef = ''etcd-operator-system/etcd-operator-controller-manager''"

definition defaultNewControllerRef :: string where
  "defaultNewControllerRef = ''etcd-operator-system/etcd-operator''"

definition bindFlags :: "string \<Rightarrow> string \<Rightarrow> Config" where
  "bindFlags kubeconfigEnv home =
     \<lparr>cfg_Kubeconfig = (if kubeconfigEnv = '''' then pathJoin [home, ''.kube'', ''config''] else kubeconfigEnv), cfg_Namespace = '''',
      cfg_Apply = False, cfg_Yes = False, cfg_SkipControllerCheck = False, cfg_LegacyController = defaultLegacyControllerRef,
      cfg_NewController = defaultNewControllerRef, cfg_Version = '''', cfg_AuthSecret = '''', cfg_SkipBackup = False,
      cfg_AgentImage = '''', cfg_BackupTimeout = minutes 30, cfg_BackupS3Endpoint = '''', cfg_BackupS3Bucket = '''',
      cfg_BackupS3Key = '''', cfg_BackupS3Region = '''', cfg_BackupS3ForcePathStyle = False, cfg_BackupS3CredentialsSecret = '''',
      cfg_BackupPVCClaim = '''', cfg_BackupPVCSubPath = ''''\<rparr>"

definition splitRef :: "string \<Rightarrow> goerror + string \<times> string" where
  "splitRef ref =
     (case splitOn (CHR ''/'') ref of
        [a, b] \<Rightarrow> if a = '''' \<or> b = '''' then Inl (errorf (goQuote ref @ '' is not of the form namespace/name'')) else Inr (a, b)
      | _ \<Rightarrow> Inl (errorf (goQuote ref @ '' is not of the form namespace/name'')))"

definition s3Flags :: "Config \<Rightarrow> bool" where
  "s3Flags cfg = (cfg_BackupS3Endpoint cfg \<noteq> '''' \<or> cfg_BackupS3Bucket cfg \<noteq> '''' \<or> cfg_BackupS3CredentialsSecret cfg \<noteq> '''')"

definition validateBackup :: "Config \<Rightarrow> goerror option" where
  "validateBackup cfg =
     (let s3 = s3Flags cfg; pvc = (cfg_BackupPVCClaim cfg \<noteq> '''') in
      if cfg_SkipBackup cfg \<and> (s3 \<or> pvc) then
        Some (errorf ''--skip-backup contradicts the --backup-* destination flags; drop one side'')
      else if cfg_SkipBackup cfg then None
      else if s3 \<and> pvc then Some (errorf ''--backup-s3-* and --backup-pvc-* are mutually exclusive'')
      else if \<not> s3 \<and> \<not> pvc then
        (if cfg_Apply cfg then Some (errorf ''adoption rewires ownership of live etcd storage; provide a backup destination (--backup-s3-{endpoint,bucket,credentials-secret} or --backup-pvc-claim) or opt out explicitly with --skip-backup'')
         else None)
      else if s3 \<and> (cfg_BackupS3Endpoint cfg = '''' \<or> cfg_BackupS3Bucket cfg = '''' \<or> cfg_BackupS3CredentialsSecret cfg = '''') then
        Some (errorf ''S3 backup destination needs all of --backup-s3-endpoint, --backup-s3-bucket and --backup-s3-credentials-secret'')
      else None)"

definition validate :: "Config \<Rightarrow> goerror option" where
  "validate cfg =
     (case splitRef (cfg_LegacyController cfg) of
        Inl err \<Rightarrow> Some (wrapf ''--legacy-controller'' err)
      | Inr _ \<Rightarrow> (case splitRef (cfg_NewController cfg) of
          Inl err \<Rightarrow> Some (wrapf ''--new-controller'' err)
        | Inr _ \<Rightarrow> validateBackup cfg))"

definition backupConfigured :: "Config \<Rightarrow> bool" where
  "backupConfigured cfg = (\<not> cfg_SkipBackup cfg \<and> (cfg_BackupS3Endpoint cfg \<noteq> '''' \<or> cfg_BackupPVCClaim cfg \<noteq> ''''))"

definition backupDestination :: "Config \<Rightarrow> SnapshotLocation" where
  "backupDestination cfg =
     (if cfg_BackupPVCClaim cfg \<noteq> '''' then
        \<lparr>sl_S3 = None, sl_PVC = Some \<lparr>pl_ClaimName = cfg_BackupPVCClaim cfg, pl_SubPath = cfg_BackupPVCSubPath cfg\<rparr>\<rparr>
      else
        \<lparr>sl_S3 = Some \<lparr>s3_Endpoint = cfg_BackupS3Endpoint cfg, s3_Bucket = cfg_BackupS3Bucket cfg, s3_Key = cfg_BackupS3Key cfg,
           s3_CredentialsSecretRef = cfg_BackupS3CredentialsSecret cfg, s3_Region = cfg_BackupS3Region cfg,
           s3_ForcePathStyle = cfg_BackupS3ForcePathStyle cfg\<rparr>, sl_PVC = None\<rparr>)"

section \<open>The gate: both operators are down\<close>

definition podStillUp :: "Pod \<Rightarrow> bool" where
  "podStillUp p = (pods_Phase (pod_Status p) \<noteq> PodSucceeded \<and> pods_Phase (pod_Status p) \<noteq> PodFailed)"

definition phaseText :: "PodPhase \<Rightarrow> string" where
  "phaseText p = (case p of PodPending \<Rightarrow> ''Pending'' | PodRunning \<Rightarrow> ''Running'' | PodSucceeded \<Rightarrow> ''Succeeded''
     | PodFailed \<Rightarrow> ''Failed'' | PodUnknown \<Rightarrow> ''Unknown'' | PodNoPhase \<Rightarrow> '''')"

definition refText :: "nsname \<Rightarrow> string" where
  "refText r = nn_namespace r @ ''/'' @ nn_name r"

definition notScaledDown :: "world \<Rightarrow> nsname \<Rightarrow> int option \<Rightarrow> goerror" where
  "notScaledDown W ref n = errorf (''controller '' @ refText ref @ '' is not scaled down (spec.replicas='' @
     cl_showPointer (w_lib W) n @ ''); scale it to 0 first: kubectl -n '' @ nn_namespace ref @
     '' scale deploy '' @ nn_name ref @ '' --replicas=0 (or pass --skip-controller-check)'')"

definition stillHasPod :: "nsname \<Rightarrow> Pod \<Rightarrow> goerror" where
  "stillHasPod ref p = errorf (''controller '' @ refText ref @ '' still has pod '' @ om_Name (pod_Meta p) @ '' ('' @
     phaseText (pods_Phase (pod_Status p)) @ ''); wait for it to terminate (or pass --skip-controller-check)'')"

definition controllerPods :: "world \<Rightarrow> nsname \<Rightarrow> string \<Rightarrow> (goerror + unit) cproc" where
  "controllerPods W ref sel = do {
     l \<leftarrow> listPods W (nn_namespace ref) sel;
     return (case l of
       Inl err \<Rightarrow> Inl (wrapf (''check controller '' @ refText ref @ '' pods'') err)
     | Inr pods \<Rightarrow> (case List.find podStillUp pods of None \<Rightarrow> Inr () | Some p \<Rightarrow> Inl (stillHasPod ref p)))
   }"

definition checkControllerDown :: "world \<Rightarrow> nsname \<Rightarrow> (goerror + unit) cproc" where
  "checkControllerDown W ref = do {
     g \<leftarrow> getDeployment W ref;
     (case g of
        Inl err \<Rightarrow> return (if IsNotFound err then Inr () else Inl (wrapf (''check controller '' @ refText ref) err))
      | Inr dep \<Rightarrow>
          if dep_Replicas dep \<noteq> Some 0 then return (Inl (notScaledDown W ref (dep_Replicas dep)))
          else
            (case dep_Selector dep of
               Inl err \<Rightarrow> return (Inl (wrapf (''check controller '' @ refText ref @ '': bad selector'') err))
             | Inr sel \<Rightarrow> controllerPods W ref sel))
   }"

text \<open>Identical coordinates are checked once.\<close>

definition checkControllersDown :: "world \<Rightarrow> nsname list \<Rightarrow> (goerror + unit) cproc" where
  "checkControllersDown W refs = forE (checkControllerDown W) (rev (remdups (rev refs)))"

section \<open>Discovery\<close>

record legacyCluster =
  lk_Name :: string
  lk_Namespace :: string
  lk_UID :: string
  lk_Spec :: LegacyClusterSpec

record legacyBackup =
  lb_Name :: string
  lb_Namespace :: string
  lb_Spec :: EtcdBackupSpec

record legacySchedule =
  ls_Name :: string
  ls_Namespace :: string
  ls_Spec :: EtcdBackupScheduleSpec

record discovered =
  di_Clusters :: "legacyCluster list"
  di_Backups :: "legacyBackup list"
  di_Schedules :: "legacySchedule list"

definition decodeSpec :: "(opaque \<Rightarrow> goerror + 'a) \<Rightarrow> Unstructured \<Rightarrow> goerror + 'a" where
  "decodeSpec conv u =
     (case un_Spec u of
        Inl err \<Rightarrow> Inl err
      | Inr None \<Rightarrow> Inl (errorf ''object has no spec'')
      | Inr (Some sp) \<Rightarrow> conv sp)"

text \<open>The objects of one kind; none when the kind is not installed. The first that does not decode ends the run.\<close>

fun decodeAll :: "GVR \<Rightarrow> (Unstructured \<Rightarrow> goerror + 'a) \<Rightarrow> Unstructured list \<Rightarrow> goerror + 'a list" where
  "decodeAll gvr visit [] = Inr []"
| "decodeAll gvr visit (u # us) =
     (case visit u of
        Inl err \<Rightarrow> Inl (wrapf (''decode '' @ gvr_Resource gvr @ '' '' @ un_Namespace u @ ''/'' @ un_Name u) err)
      | Inr x \<Rightarrow> (case decodeAll gvr visit us of Inl err \<Rightarrow> Inl err | Inr xs \<Rightarrow> Inr (x # xs)))"

definition listLegacy :: "world \<Rightarrow> GVR \<Rightarrow> string \<Rightarrow> (Unstructured \<Rightarrow> goerror + 'a) \<Rightarrow> (goerror + 'a list) cproc" where
  "listLegacy W gvr namespace visit = do {
     l \<leftarrow> listGVR W gvr namespace;
     return (case l of
       Inl err \<Rightarrow> if IsNotFound err \<or> cl_isNoMatch (w_lib W) err then Inr []
                  else Inl (wrapf (''list '' @ gvr_Resource gvr) err)
     | Inr items \<Rightarrow> decodeAll gvr visit items)
   }"

definition discover :: "world \<Rightarrow> string \<Rightarrow> (goerror + discovered) cproc" where
  "discover W namespace =
     bindE (listLegacy W ClusterGVR namespace (\<lambda>u. map_sum id (\<lambda>sp. \<lparr>lk_Name = un_Name u, lk_Namespace = un_Namespace u,
         lk_UID = un_UID u, lk_Spec = sp\<rparr>) (decodeSpec (cl_clusterSpec (w_lib W)) u))) (\<lambda>cs.
     bindE (listLegacy W BackupGVR namespace (\<lambda>u. map_sum id (\<lambda>sp. \<lparr>lb_Name = un_Name u, lb_Namespace = un_Namespace u,
         lb_Spec = sp\<rparr>) (decodeSpec (cl_backupSpec (w_lib W)) u))) (\<lambda>bs.
     bindE (listLegacy W ScheduleGVR namespace (\<lambda>u. map_sum id (\<lambda>sp. \<lparr>ls_Name = un_Name u, ls_Namespace = un_Namespace u,
         ls_Spec = sp\<rparr>) (decodeSpec (cl_scheduleSpec (w_lib W)) u))) (\<lambda>ss.
     return (Inr \<lparr>di_Clusters = cs, di_Backups = bs, di_Schedules = ss\<rparr>))))"

section \<open>Inspection of a live cluster\<close>

definition lkKey :: "legacyCluster \<Rightarrow> string" where
  "lkKey lc = lk_Namespace lc @ ''/'' @ lk_Name lc"

definition etcdPods :: "world \<Rightarrow> legacyCluster \<Rightarrow> (goerror + Pod list) cproc" where
  "etcdPods W lc = wrapE ''list etcd pods'' (listPods W (lk_Namespace lc)
     (''app.kubernetes.io/name=etcd,app.kubernetes.io/instance='' @ lk_Name lc))"

definition podRunning :: "Pod \<Rightarrow> bool" where
  "podRunning p = (pods_Phase (pod_Status p) = PodRunning)"

definition noRunningPod :: "legacyCluster \<Rightarrow> goerror" where
  "noRunningPod lc = errorf (''no Running etcd pod found for legacy cluster '' @ lkKey lc)"

definition secretKey :: "world \<Rightarrow> string \<Rightarrow> string \<Rightarrow> string \<Rightarrow> (goerror + string) cproc" where
  "secretKey W namespace name key = do {
     g \<leftarrow> cliSecret W \<lparr>nn_namespace = namespace, nn_name = name\<rparr>;
     return (case g of
       Inl err \<Rightarrow> Inl (wrapf (''read secret '' @ namespace @ ''/'' @ name) err)
     | Inr sec \<Rightarrow> (let v = mapGet (secr_Data sec) key in
         if v = '''' then Inl (errorf (''secret '' @ namespace @ ''/'' @ name @ '' has no '' @ goQuote key @ '' key'')) else Inr v))
   }"

text \<open>The dial configuration of the legacy operator: none for a plaintext cluster, else the TLS configuration and
  the server name.\<close>

definition legacyOperatorTLSConfig :: "world \<Rightarrow> legacyCluster \<Rightarrow> (goerror + (TLSConfigData \<times> string) option) cproc" where
  "legacyOperatorTLSConfig W lc =
     (case lg_Security (lk_Spec lc) of
        None \<Rightarrow> return (Inr None)
      | Some se \<Rightarrow>
          (let t = se_TLS se; ns = lk_Namespace lc in
           if lt_ServerSecret t = '''' then return (Inr None)
           else
             bindE (secretKey W ns (legacyCASecret t) ''ca.crt'') (\<lambda>ca.
             bindE (if lt_ClientSecret t \<noteq> '''' then secretKey W ns (lt_ClientSecret t) ''tls.crt'' else return (Inr '''')) (\<lambda>cert.
             bindE (if lt_ClientSecret t \<noteq> '''' then secretKey W ns (lt_ClientSecret t) ''tls.key'' else return (Inr '''')) (\<lambda>key.
             return (case TLSConfig (cl_env (w_lib W)) ca cert key of
               Inl err \<Rightarrow> Inl (wrapf ''build TLS config from legacy secrets'' err)
             | Inr cfg \<Rightarrow> Inr (Some (cfg, lk_Name lc @ ''.'' @ ns @ ''.svc''))))))))"

text \<open>A client over a port forward, which is torn down when the work is done.\<close>

definition withLegacyEtcd :: "world \<Rightarrow> legacyCluster \<Rightarrow> string \<Rightarrow> (CliClient \<Rightarrow> (goerror + 'a) cproc) \<Rightarrow> (goerror + 'a) cproc" where
  "withLegacyEtcd W lc pod body =
     bindE (wrapE (''port-forward to '' @ pod) (ForwardToPod W (lk_Namespace lc) pod 2379)) (\<lambda>port.
     do {
       r \<leftarrow> bindE (legacyOperatorTLSConfig W lc) (\<lambda>tls.
            (let c = \<lparr>cc_Endpoints = [''localhost:'' @ showInt port], cc_TLS = map_option fst tls,
                      cc_ServerName = (case tls of None \<Rightarrow> '''' | Some (_, n) \<Rightarrow> n), cc_Username = '''', cc_Password = ''''\<rparr> in
             bindE (wrapE ''dial legacy etcd'' (failing (cliDial W c))) (\<lambda>_. body c)));
       _ \<leftarrow> stopForward;
       return r
     })"

definition memberFact :: "Pod list \<Rightarrow> CliMember \<Rightarrow> MemberFact" where
  "memberFact pods m = \<lparr>mf_Name = km_Name m, mf_IDHex = hex016 (km_ID m),
     mf_PeerURL = (case km_PeerURLs m of [] \<Rightarrow> '''' | u # _ \<Rightarrow> u), mf_IsLearner = km_IsLearner m,
     mf_PodUID = (case List.find (\<lambda>p. om_Name (pod_Meta p) = km_Name m) (rev pods) of
        Some p \<Rightarrow> if podRunning p then om_UID (pod_Meta p) else '''' | None \<Rightarrow> '''')\<rparr>"

definition inspectCluster :: "world \<Rightarrow> legacyCluster \<Rightarrow> (goerror + ClusterFacts) cproc" where
  "inspectCluster W lc =
     bindE (etcdPods W lc) (\<lambda>pods.
     case List.find (\<lambda>p. podRunning p \<and> om_Name (pod_Meta p) \<noteq> '''') pods of
       None \<Rightarrow> return (Inl (noRunningPod lc))
     | Some dial \<Rightarrow> withLegacyEtcd W lc (om_Name (pod_Meta dial)) (\<lambda>c.
         bindE (wrapE ''etcd MemberList'' (cliMemberList W c)) (\<lambda>(cid, members).
         if members = [] then return (Inl (errorf ''etcd reported an empty member list''))
         else bindE (wrapE ''etcd AuthStatus'' (cliAuthStatus W c)) (\<lambda>auth.
           return (Inr \<lparr>cf_ClusterIDHex = hex016 cid, cf_Members = map (memberFact pods) members, cf_AuthEnabled = auth\<rparr>)))))"

section \<open>Plans\<close>

text \<open>What the inspections found, by namespace and name; a missing entry reads as the zero facts.\<close>

type_synonym findings = "(string \<times> (goerror + ClusterFacts)) list"

definition factsOf :: "findings \<Rightarrow> string \<Rightarrow> ClusterFacts" where
  "factsOf fs key = (case List.find (\<lambda>(k, r). k = key \<and> \<not> isl r) (rev fs) of
     Some (_, Inr f) \<Rightarrow> f | _ \<Rightarrow> \<lparr>cf_ClusterIDHex = '''', cf_Members = [], cf_AuthEnabled = False\<rparr>)"

definition inspectErr :: "findings \<Rightarrow> string \<Rightarrow> goerror option" where
  "inspectErr fs key = (case List.find (\<lambda>(k, r). k = key \<and> isl r) (rev fs) of Some (_, Inl e) \<Rightarrow> Some e | _ \<Rightarrow> None)"

definition clusterPlan :: "world \<Rightarrow> findings \<Rightarrow> TranslateOptions \<Rightarrow> nat \<Rightarrow> legacyCluster \<Rightarrow> ResourcePlan" where
  "clusterPlan W fs opts i c =
     (case inspectErr fs (lkKey c) of
        Some err \<Rightarrow> addErrors [''inspecting the live cluster failed: '' @ err_msg err]
          (emptyPlan ''EtcdCluster'' (lk_Name c) (lk_Namespace c) ActionError)
      | None \<Rightarrow> BuildAdoption (cl_random (w_lib W) i) (lk_Name c) (lk_Namespace c) (lk_Spec c) (factsOf fs (lkKey c)) opts)"

definition buildPlans :: "world \<Rightarrow> discovered \<Rightarrow> findings \<Rightarrow> TranslateOptions \<Rightarrow> ResourcePlan list" where
  "buildPlans W d fs opts =
     map (\<lambda>(i, c). clusterPlan W fs opts i c) (enumerate 0 (di_Clusters d)) @
     map (\<lambda>b. TranslateBackup (lb_Name b) (lb_Namespace b) (lb_Spec b)) (di_Backups d) @
     map (\<lambda>s. TranslateSchedule (cl_yaml (w_lib W)) (ls_Name s) (ls_Namespace s) (ls_Spec s)) (di_Schedules d)"

text \<open>The claims of an adoption, before anything is changed.\<close>

definition foreignOwners :: "string \<Rightarrow> PVC \<Rightarrow> string list" where
  "foreignOwners name pvc = map (\<lambda>o'. ''PVC '' @ goQuote name @ '' is controller-owned by '' @ or_Kind o' @ '' '' @
       goQuote (or_Name o') @ ''; refusing to re-own it'')
     (filter (\<lambda>o'. or_Controller o' = Some True \<and> or_Kind o' \<noteq> ''EtcdMember'') (om_OwnerReferences (pvc_Meta pvc)))"

definition verifyAdoptionPVCs :: "world \<Rightarrow> ResourcePlan \<Rightarrow> ResourcePlan cproc" where
  "verifyAdoptionPVCs W plan =
     (case rp_Adoption plan of
        None \<Rightarrow> return plan
      | Some a \<Rightarrow> do {
          errs \<leftarrow> mapIO (\<lambda>ma. do {
                   g \<leftarrow> cliPVC W \<lparr>nn_namespace = rp_Namespace plan, nn_name = ma_PVCName ma\<rparr>;
                   return (case g of
                     Inl err \<Rightarrow> [''PVC '' @ goQuote (ma_PVCName ma) @ '' for member '' @ goQuote (emName (ma_Member ma)) @ '': '' @ err_msg err]
                   | Inr pvc \<Rightarrow> foreignOwners (ma_PVCName ma) pvc)
                 }) (ad_Members a);
          (let plan1 = addErrors (concat errs) plan in
           return (if rp_Errors plan1 \<noteq> [] then plan1\<lparr>rp_Action := ActionError, rp_DeleteRef := None\<rparr> else plan1))
        })"

definition objName :: "object \<Rightarrow> string" where
  "objName x = (case x of OCluster c \<Rightarrow> ecName c | OMember m \<Rightarrow> emName m | OSnapshot s \<Rightarrow> om_Name (es_Meta s)
     | OSecret s \<Rightarrow> om_Name (bas_Meta s) | OCronJob j \<Rightarrow> om_Name (cj_Meta j) | OServiceAccount m \<Rightarrow> om_Name m
     | ORole r \<Rightarrow> om_Name (ro_Meta r) | ORoleBinding r \<Rightarrow> om_Name (rb_Meta r))"

definition markOne :: "world \<Rightarrow> ResourcePlan \<Rightarrow> (goerror + ResourcePlan) cproc" where
  "markOne W p =
     (case rp_Target p of
        None \<Rightarrow> return (Inr p)
      | Some t \<Rightarrow>
          if rp_Action p = ActionAdopt \<or> rp_Action p = ActionCreate then do {
            r \<leftarrow> cliObject W t;
            return (case r of
              Some err \<Rightarrow> if IsNotFound err then Inr p
                 else Inl (wrapf (''check existing '' @ rp_SourceKind p @ '' '' @ rp_Namespace p @ ''/'' @ objName t) err)
            | None \<Rightarrow> Inr (if rp_Action p = ActionAdopt then
                 addNotes [''new-API EtcdCluster already exists (previous run); adoption steps re-run idempotently to complete any partial state''] p
               else
                 addNotes [''target already exists under the new API (created by a previous run); only the legacy CR cleanup remains'']
                   (p\<lparr>rp_Action := ActionSkip\<rparr>)))
          }
          else return (Inr p))"

definition markExisting :: "world \<Rightarrow> ResourcePlan list \<Rightarrow> (goerror + ResourcePlan list) cproc" where
  "markExisting W plans = mapE (markOne W) plans"

section \<open>Polling\<close>

text \<open>
  \<^verbatim>\<open>time.Duration.String\<close>: hours, minutes and seconds, or a smaller unit below one second, with the fraction
  without trailing zeros.
\<close>

fun decDigits :: "nat \<Rightarrow> int \<Rightarrow> string" where
  "decDigits 0 v = []"
| "decDigits (Suc k) v = decDigits k (v div 10) @ [digitChar (nat (v mod 10))]"

definition fracText :: "int \<Rightarrow> nat \<Rightarrow> string" where
  "fracText v prec =
     (let kept = rev (dropWhile (\<lambda>c. c = CHR ''0'') (rev (decDigits prec v))) in if kept = [] then '''' else ''.'' @ kept)"

definition showDuration :: "duration \<Rightarrow> string" where
  "showDuration d =
     (let u = \<bar>d\<bar>; sign = (if d < 0 then ''-'' else '''') in
      if u = 0 then ''0s''
      else if u < 1000000000 then
        (let (prec, unit) = (if u < 1000 then (0, ''ns'') else if u < 1000000 then (3, [CHR 0xC2, CHR 0xB5] @ ''s'') else (6, ''ms''))
         in sign @ showInt (u div 10 ^ prec) @ fracText u prec @ unit)
      else
        (let total = u div 1000000000; secs = showInt (total mod 60) @ fracText u 9 @ ''s''; mins = total div 60; hours = mins div 60
         in sign @ (if hours > 0 then showInt hours @ ''h'' else '''') @
            (if mins > 0 then showInt (mins mod 60) @ ''m'' else '''') @ secs))"

text \<open>
  A polling loop: read, and unless that decides, wait for the context, the timer of the deadline or the timer of the
  next tick; only a tick goes on. The loop has no counter: it may run as long as ticks arrive. The model
  follows it for \<open>n\<close> rounds, a number the world fixes and the code does not know, and then stops with
  \<open>unfinished\<close>. What is proved of a run for every world therefore holds of every finite part of a run of any length.
\<close>

definition unfinished :: goerror where
  "unfinished = errorf ''the loop is still running''"

fun poll :: "world \<Rightarrow> (goerror + unit) option cproc \<Rightarrow> goerror \<Rightarrow> gotime \<Rightarrow> duration \<Rightarrow> nat \<Rightarrow> (goerror + unit) cproc" where
  "poll W look expired deadline interval 0 = return (Inl unfinished)"
| "poll W look expired deadline interval (Suc n) = do {
     r \<leftarrow> look;
     (case r of
        Some out \<Rightarrow> return out
      | None \<Rightarrow> do {
          w \<leftarrow> cliWait W deadline interval;
          (case w of
             CtxDone err \<Rightarrow> return (Inl err)
           | DeadlineFired \<Rightarrow> return (Inl expired)
           | Tick \<Rightarrow> poll W look expired deadline interval n)
        })
   }"

text \<open>\<^verbatim>\<open>deadline := time.After(timeout)\<close>, then the loop.\<close>

definition pollFor :: "world \<Rightarrow> (goerror + unit) option cproc \<Rightarrow> goerror \<Rightarrow> duration \<Rightarrow> duration \<Rightarrow> (goerror + unit) cproc" where
  "pollFor W look expired timeout interval = do {
     t \<leftarrow> cliNow W;
     poll W look expired (t + timeout) interval (w_rounds W)
   }"

abbreviation (input) jobPollInterval :: duration where "jobPollInterval \<equiv> seconds 5"

definition waitJobGone :: "world \<Rightarrow> nsname \<Rightarrow> duration \<Rightarrow> (goerror + unit) cproc" where
  "waitJobGone W key timeout =
     pollFor W (do { g \<leftarrow> cliJob W key;
                  return (case g of
                    Inl err \<Rightarrow> Some (if IsNotFound err then Inr () else Inl (wrapf ''await snapshot Job deletion'' err))
                  | Inr _ \<Rightarrow> None) })
       (errorf (''stale snapshot Job '' @ refText key @ '' did not terminate within '' @ showDuration timeout)) timeout jobPollInterval"

text \<open>The first decisive condition of the Job.\<close>

fun jobDecided :: "JobCondition list \<Rightarrow> (goerror + unit) option" where
  "jobDecided [] = None"
| "jobDecided (c # cs) =
     (if jc_Status c \<noteq> ConditionTrue then jobDecided cs
      else if jc_Type c = ''Complete'' then Some (Inr ())
      else if jc_Type c = ''Failed'' then Some (Inl (errorf (''snapshot Job failed: '' @ jc_Reason c @ '': '' @ jc_Message c)))
      else jobDecided cs)"

definition waitForJob :: "world \<Rightarrow> nsname \<Rightarrow> duration \<Rightarrow> (goerror + unit) cproc" where
  "waitForJob W key timeout =
     pollFor W (do { g \<leftarrow> cliJob W key;
                  return (case g of Inl err \<Rightarrow> Some (Inl (wrapf ''read snapshot Job'' err)) | Inr job \<Rightarrow> jobDecided (job_Conditions job)) })
       (errorf (''snapshot Job did not finish within '' @ showDuration timeout)) timeout jobPollInterval"

definition waitStatefulSetGone :: "world \<Rightarrow> nsname \<Rightarrow> duration \<Rightarrow> (goerror + unit) cproc" where
  "waitStatefulSetGone W key timeout =
     pollFor W (do { g \<leftarrow> cliStatefulSet W key;
                  return (case g of Some err \<Rightarrow> Some (if IsNotFound err then Inr () else Inl err) | None \<Rightarrow> None) })
       (errorf (refText key @ '' still present after '' @ showDuration timeout)) timeout (seconds 2)"

definition waitServiceGone :: "world \<Rightarrow> nsname \<Rightarrow> duration \<Rightarrow> (goerror + unit) cproc" where
  "waitServiceGone W key timeout =
     pollFor W (do { g \<leftarrow> cliService W key;
                  return (case g of Inl err \<Rightarrow> Some (if IsNotFound err then Inr () else Inl err) | Inr _ \<Rightarrow> None) })
       (errorf (refText key @ '' still present after '' @ showDuration timeout)) timeout (seconds 2)"

section \<open>Authentication and backups\<close>

definition findRunningEtcdPod :: "world \<Rightarrow> legacyCluster \<Rightarrow> (goerror + string) cproc" where
  "findRunningEtcdPod W lc = bindE (etcdPods W lc) (\<lambda>pods.
     return (case List.find podRunning pods of None \<Rightarrow> Inl (noRunningPod lc) | Some p \<Rightarrow> Inr (om_Name (pod_Meta p))))"

definition disableLegacyAuth :: "world \<Rightarrow> legacyCluster \<Rightarrow> (goerror + unit) cproc" where
  "disableLegacyAuth W lc =
     bindE (findRunningEtcdPod W lc) (\<lambda>pod. withLegacyEtcd W lc pod (\<lambda>c.
       bindE (wrapE ''read auth status'' (cliAuthStatus W c)) (\<lambda>enabled.
       if \<not> enabled then return (Inr ())
       else wrapE ''auth disable'' (failing (cliEtcd W c OpAuthDisable)))))"

text \<open>The discovered cluster of a plan; the last of several with the same key.\<close>

definition clusterOf :: "discovered \<Rightarrow> ResourcePlan \<Rightarrow> legacyCluster option" where
  "clusterOf d p = List.find (\<lambda>lc. lkKey lc = rp_Namespace p @ ''/'' @ rp_SourceName p) (rev (di_Clusters d))"

definition zeroLegacyCluster :: legacyCluster where
  "zeroLegacyCluster =
     (let m = \<lparr>eom_Name = '''', eom_Labels = fmempty, eom_Annotations = fmempty\<rparr> in
      \<lparr>lk_Name = '''', lk_Namespace = '''', lk_UID = '''', lk_Spec = \<lparr>lg_Replicas = None, lg_Options = fmempty,
        lg_PodTemplate = \<lparr>lpt_Meta = m, lpt_Spec = \<lparr>lps_Containers = [], lps_Affinity = None,
          lps_TopologySpreadConstraints = [], lps_ImagePullSecrets = [], lps_InitContainers = [], lps_Volumes = [],
          lps_NodeSelector = fmempty, lps_Tolerations = [], lps_ServiceAccountName = '''', lps_SecurityContext = None,
          lps_PriorityClassName = '''', lps_HostNetwork = False, lps_HostAliases = [], lps_DNSPolicy = '''', lps_DNSConfig = None,
          lps_RuntimeClassName = None, lps_SchedulerName = '''', lps_TerminationGracePeriodSeconds = None\<rparr>\<rparr>,
        lg_ServiceTemplate = None, lg_HeadlessServiceTemplate = None, lg_PodDisruptionBudgetTemplate = None,
        lg_Storage = \<lparr>lst_EmptyDir = None, lst_VolumeClaimTemplate = \<lparr>lvc_Meta = m, lvc_StorageClassName = None,
          lvc_AccessModes = [], lvc_Requests = fmempty\<rparr>\<rparr>,
        lg_Security = None, lg_Bootstrap = None\<rparr>\<rparr>)"

definition isAdoption :: "ResourcePlan \<Rightarrow> bool" where
  "isAdoption p = (rp_SourceKind p = ''EtcdCluster'' \<and> rp_Action p = ActionAdopt)"

definition disableAuthForAdoptions :: "world \<Rightarrow> discovered \<Rightarrow> findings \<Rightarrow> ResourcePlan list \<Rightarrow> (ResourcePlan list) cproc" where
  "disableAuthForAdoptions W d fs plans = mapIO (\<lambda>p.
     if \<not> isAdoption p \<or> \<not> cf_AuthEnabled (factsOf fs (rp_Namespace p @ ''/'' @ rp_SourceName p)) then return p
     else do {
         r \<leftarrow> disableLegacyAuth W (case clusterOf d p of None \<Rightarrow> zeroLegacyCluster | Some lc \<Rightarrow> lc);
         return (case r of
           Inr _ \<Rightarrow> p
         | Inl err \<Rightarrow> addErrors [''auth disable failed: '' @ err_msg err] (p\<lparr>rp_Action := ActionError\<rparr>))
       }) plans"

definition resolveAgentImage :: "world \<Rightarrow> Config \<Rightarrow> (goerror + string) cproc" where
  "resolveAgentImage W cfg =
     (if cfg_AgentImage cfg \<noteq> '''' then return (Inr (cfg_AgentImage cfg))
      else
        (let (ns, name) = (case splitRef (cfg_NewController cfg) of Inr x \<Rightarrow> x | Inl _ \<Rightarrow> ('''', ''''));
             ref = ns @ ''/'' @ name
         in do {
           g \<leftarrow> getDeployment W \<lparr>nn_namespace = ns, nn_name = name\<rparr>;
           return (case g of
             Inl err \<Rightarrow> if IsNotFound err then
                 Inl (errorf (''the backup phase needs the agent image: the new controller Deployment '' @ ref @
                   '' does not exist, pass --agent-image explicitly''))
               else Inl (wrapf (''read new controller Deployment '' @ ref) err)
           | Inr dep \<Rightarrow>
               (case List.find (\<lambda>(n, _). n = ''manager'') (dep_Containers dep) of
                  Some (_, img) \<Rightarrow> Inr img
                | None \<Rightarrow> (case dep_Containers dep of
                    (_, img) # _ \<Rightarrow> Inr img
                  | [] \<Rightarrow> Inl (errorf (''new controller Deployment '' @ ref @ '' has no containers; pass --agent-image'')))))
         }))"

definition jobSucceeded :: "Job \<Rightarrow> bool" where
  "jobSucceeded job = list_ex (\<lambda>c. jc_Type c = ''Complete'' \<and> jc_Status c = ConditionTrue) (job_Conditions job)"

text \<open>Writes that tolerate one kind of error.\<close>

definition writeTolerant :: "world \<Rightarrow> (goerror \<Rightarrow> bool) \<Rightarrow> string \<Rightarrow> cwrite \<Rightarrow> (goerror + unit) cproc" where
  "writeTolerant W ok msg w = do {
     r \<leftarrow> cliWrite W w;
     return (case r of Some err \<Rightarrow> if ok err then Inr () else Inl (wrapf msg err) | None \<Rightarrow> Inr ())
   }"

definition backupOne :: "world \<Rightarrow> Config \<Rightarrow> legacyCluster \<Rightarrow> SnapshotLocation \<Rightarrow> string \<Rightarrow> (goerror + unit) cproc" where
  "backupOne W cfg lc dest agentImage =
     (let job = BuildSnapshotJob (lk_Name lc) (lk_Namespace lc) (lk_UID lc) (lk_Spec lc) dest agentImage;
          key = \<lparr>nn_namespace = lk_Namespace lc, nn_name = SnapshotJobName (lk_Name lc)\<rparr>;
          launch = bindE (wrapE ''create snapshot Job'' (failing (cliWrite W (WCreateJob job))))
                     (\<lambda>_. waitForJob W key (cfg_BackupTimeout cfg))
      in do {
        g \<leftarrow> cliJob W key;
        (case g of
           Inr existing \<Rightarrow>
             if jobSucceeded existing then return (Inr ())
             else
               bindE (writeTolerant W IsNotFound ''delete stale snapshot Job'' (WDelete ''Job'' key Foreground)) (\<lambda>_.
               bindE (waitJobGone W key (minutes 2)) (\<lambda>_. launch))
         | Inl err \<Rightarrow> if IsNotFound err then launch else return (Inl (wrapf ''read snapshot Job'' err)))
      })"

definition runBackups :: "world \<Rightarrow> Config \<Rightarrow> discovered \<Rightarrow> ResourcePlan list \<Rightarrow> (goerror + ResourcePlan list) cproc" where
  "runBackups W cfg d plans =
     bindE (resolveAgentImage W cfg) (\<lambda>agentImage. do {
       ps \<leftarrow> mapIO (\<lambda>p.
         if \<not> isAdoption p then return p
         else case clusterOf d p of
           None \<Rightarrow> return p
         | Some lc \<Rightarrow> do {
             r \<leftarrow> backupOne W cfg lc (backupDestination cfg) agentImage;
             return (case r of
               Inr _ \<Rightarrow> p
             | Inl err \<Rightarrow> addErrors [''backup failed: '' @ err_msg err] (p\<lparr>rp_Action := ActionError, rp_DeleteRef := None\<rparr>))
           }) plans;
       return (Inr ps)
     })"

section \<open>Adoption\<close>

abbreviation (input) newAPIVersion :: string where "newAPIVersion \<equiv> ''etcd-operator.cozystack.io/v1alpha2''"

definition pointServiceAtMembers :: "world \<Rightarrow> string \<Rightarrow> string \<Rightarrow> EtcdMember list \<Rightarrow> (goerror + unit) cproc" where
  "pointServiceAtMembers W ns name members = do {
     g \<leftarrow> cliService W \<lparr>nn_namespace = ns, nn_name = name\<rparr>;
     (case g of
        Inl err \<Rightarrow> return (if IsNotFound err then Inr () else Inl (wrapf (''read legacy headless Service '' @ goQuote name) err))
      | Inr svc \<Rightarrow>
          (let refs = map (\<lambda>m. \<lparr>or_APIVersion = newAPIVersion, or_Kind = ''EtcdMember'', or_Name = emName m,
                 or_UID = om_UID (em_Meta m), or_Controller = Some False, or_BlockOwnerDeletion = Some False\<rparr>) members
           in wrapE (''owner-reference legacy headless Service '' @ goQuote name @ '' to members'')
                (failing (cliWrite W (WUpdateService (svc\<lparr>svc_Meta := (svc_Meta svc)\<lparr>om_OwnerReferences := refs\<rparr>\<rparr>))))))
   }"

definition replaceControllerRef :: "OwnerReference \<Rightarrow> ObjectMeta \<Rightarrow> ObjectMeta" where
  "replaceControllerRef ref meta = meta\<lparr>om_OwnerReferences :=
     filter (\<lambda>o'. \<not> (or_UID o' = or_UID ref \<and> or_Kind o' = or_Kind ref) \<and> or_Controller o' \<noteq> Some True)
       (om_OwnerReferences meta) @ [ref]\<rparr>"

definition setControllerOwner :: "EtcdMember \<Rightarrow> ObjectMeta \<Rightarrow> ObjectMeta" where
  "setControllerOwner owner = replaceControllerRef \<lparr>or_APIVersion = newAPIVersion, or_Kind = ''EtcdMember'',
     or_Name = emName owner, or_UID = om_UID (em_Meta owner), or_Controller = Some True, or_BlockOwnerDeletion = Some True\<rparr>"

text \<open>The Pod and the claim as they are patched.\<close>

definition adoptedPod :: "string \<Rightarrow> string \<Rightarrow> EtcdMember \<Rightarrow> Pod \<Rightarrow> Pod" where
  "adoptedPod clusterName podName owner pod = pod\<lparr>pod_Meta := setControllerOwner owner ((pod_Meta pod)\<lparr>om_Labels :=
     fmupd LabelRole RoleVoter (om_Labels (pod_Meta pod) ++\<^sub>f memberLabels clusterName podName)\<rparr>)\<rparr>"

definition adoptPod :: "world \<Rightarrow> string \<Rightarrow> string \<Rightarrow> string \<Rightarrow> EtcdMember \<Rightarrow> (goerror + unit) cproc" where
  "adoptPod W ns podName clusterName owner =
     bindE (wrapE (''read pod '' @ goQuote podName) (cliPod W \<lparr>nn_namespace = ns, nn_name = podName\<rparr>)) (\<lambda>pod.
     wrapE (''re-own pod '' @ goQuote podName)
       (failing (cliWrite W (WPatchPod pod (adoptedPod clusterName podName owner pod)))))"

definition adoptedPVC :: "string \<Rightarrow> EtcdMember \<Rightarrow> PVC \<Rightarrow> PVC" where
  "adoptedPVC clusterName owner pvc = pvc\<lparr>pvc_Meta := setControllerOwner owner ((pvc_Meta pvc)\<lparr>om_Labels :=
     om_Labels (pvc_Meta pvc) ++\<^sub>f memberLabels clusterName (emName owner)\<rparr>)\<rparr>"

definition adoptPVC :: "world \<Rightarrow> string \<Rightarrow> string \<Rightarrow> string \<Rightarrow> EtcdMember \<Rightarrow> (goerror + unit) cproc" where
  "adoptPVC W ns pvcName clusterName owner =
     bindE (wrapE (''read PVC '' @ goQuote pvcName) (cliPVC W \<lparr>nn_namespace = ns, nn_name = pvcName\<rparr>)) (\<lambda>pvc.
     wrapE (''re-own PVC '' @ goQuote pvcName) (failing (cliWrite W (WPatchPVC pvc (adoptedPVC clusterName owner pvc)))))"

definition nativeHeadless :: "string \<Rightarrow> string \<Rightarrow> EtcdCluster \<Rightarrow> Service" where
  "nativeHeadless ns name owner =
     \<lparr>svc_Meta = emptyMeta\<lparr>om_Name := name, om_Namespace := ns, om_Labels := clusterLabels (ecName owner),
        om_OwnerReferences := [\<lparr>or_APIVersion = newAPIVersion, or_Kind = ''EtcdCluster'', or_Name = ecName owner,
          or_UID = om_UID (ec_Meta owner), or_Controller = Some True, or_BlockOwnerDeletion = Some True\<rparr>]\<rparr>,
      svc_Spec = \<lparr>svs_ClusterIP = ''None'', svs_PublishNotReadyAddresses = True,
        svs_Selector = fmupd LabelCluster (ecName owner) fmempty,
        svs_Ports = [plainPort ''client'' 2379, plainPort ''peer'' 2380], svs_TrafficDistribution = None\<rparr>,
      svc_ApplyManagers = []\<rparr>"

definition cutoverHeadlessService :: "world \<Rightarrow> string \<Rightarrow> string \<Rightarrow> EtcdCluster \<Rightarrow> (goerror + unit) cproc" where
  "cutoverHeadlessService W ns name owner =
     (let key = \<lparr>nn_namespace = ns, nn_name = name\<rparr>;
          create = writeTolerant W IsAlreadyExists (''create native headless Service '' @ goQuote name)
                     (WCreateService (nativeHeadless ns name owner))
      in do {
        g \<leftarrow> cliService W key;
        (case g of
           Inl err \<Rightarrow> if IsNotFound err then create else return (Inl (wrapf (''read Service '' @ goQuote name) err))
         | Inr svc \<Rightarrow>
             if svs_ClusterIP (svc_Spec svc) = ''None'' then return (Inr ())
             else
               bindE (writeTolerant W IsNotFound (''delete legacy client Service '' @ goQuote name)
                       (WDelete ''Service'' key DefaultPropagation)) (\<lambda>_.
               bindE (wrapE (''await legacy client Service '' @ goQuote name @ '' deletion'') (waitServiceGone W key (minutes 1))) (\<lambda>_.
               create)))
      })"

definition objKind :: "object \<Rightarrow> string" where
  "objKind x = (case x of OCluster _ \<Rightarrow> ''EtcdCluster'' | OMember _ \<Rightarrow> ''EtcdMember'' | OSnapshot _ \<Rightarrow> ''EtcdSnapshot''
     | OSecret _ \<Rightarrow> ''Secret'' | OCronJob _ \<Rightarrow> ''CronJob'' | OServiceAccount _ \<Rightarrow> ''ServiceAccount'' | ORole _ \<Rightarrow> ''Role''
     | ORoleBinding _ \<Rightarrow> ''RoleBinding'')"

text \<open>Step 1: the cluster with its Secret, and the status unless a previous run has written it.\<close>

definition createCluster :: "world \<Rightarrow> string \<Rightarrow> object list \<Rightarrow> EtcdCluster \<Rightarrow> EtcdClusterStatus \<Rightarrow> (goerror + EtcdCluster) cproc" where
  "createCluster W ns extras cluster st =
     bindE (forE (\<lambda>x. writeTolerant W IsAlreadyExists (''create '' @ objKind x @ '' '' @ ns @ ''/'' @ objName x) (WCreate x)) extras) (\<lambda>_.
     bindE (writeTolerant W IsAlreadyExists ''create EtcdCluster'' (WCreate (OCluster cluster))) (\<lambda>_.
     bindE (wrapE ''re-read EtcdCluster'' (cliCluster W \<lparr>nn_namespace = ns, nn_name = ecName cluster\<rparr>)) (\<lambda>live.
     if ecClusterID live = '''' then
       bindE (wrapE ''prefill EtcdCluster status'' (failing (cliWrite W (WStatusCluster (live\<lparr>ec_Status := st\<rparr>))))) (\<lambda>_.
       return (Inr (live\<lparr>ec_Status := st\<rparr>)))
     else return (Inr live))))"

text \<open>Step 2: a member, and its status likewise.\<close>

definition createMember :: "world \<Rightarrow> string \<Rightarrow> MemberAdoption \<Rightarrow> (goerror + EtcdMember) cproc" where
  "createMember W ns ma =
     (let m = ma_Member ma; q = goQuote (emName m) in
      bindE (writeTolerant W IsAlreadyExists (''create EtcdMember '' @ q) (WCreate (OMember m))) (\<lambda>_.
      bindE (wrapE (''re-read EtcdMember '' @ q) (cliMember W \<lparr>nn_namespace = ns, nn_name = emName m\<rparr>)) (\<lambda>live.
      if mst_MemberID (em_Status live) = '''' then
        bindE (wrapE (''prefill EtcdMember '' @ q @ '' status'') (failing (cliWrite W (WStatusMember (live\<lparr>em_Status := ma_Status ma\<rparr>))))) (\<lambda>_.
        return (Inr (live\<lparr>em_Status := ma_Status ma\<rparr>)))
      else return (Inr live))))"

text \<open>Step 4: the legacy control plane goes, its children stay.\<close>

definition dismantle :: "world \<Rightarrow> string \<Rightarrow> ObjectRef option \<Rightarrow> AdoptionPlan \<Rightarrow> (goerror + unit) cproc" where
  "dismantle W ns ref a =
     (let key = (\<lambda>n. \<lparr>nn_namespace = ns, nn_name = n\<rparr>) in
      bindE (case ref of
          None \<Rightarrow> return (Inr ())
        | Some rf \<Rightarrow> writeTolerant W IsNotFound ''orphan-delete legacy EtcdCluster'' (WDeleteLegacy (rf\<lparr>rf_Namespace := ns\<rparr>) Orphan)) (\<lambda>_.
      bindE (writeTolerant W IsNotFound ''orphan-delete legacy StatefulSet'' (WDelete ''StatefulSet'' (key (ad_StatefulSetName a)) Orphan)) (\<lambda>_.
      bindE (wrapE ''await StatefulSet deletion'' (waitStatefulSetGone W (key (ad_StatefulSetName a)) (minutes 2))) (\<lambda>_.
      bindE (writeTolerant W IsNotFound ''delete legacy cluster-state ConfigMap''
              (WDelete ''ConfigMap'' (key (ad_ConfigMapName a)) DefaultPropagation)) (\<lambda>_.
      writeTolerant W IsNotFound ''delete legacy PodDisruptionBudget'' (WDelete ''PodDisruptionBudget'' (key (ad_PDBName a)) DefaultPropagation))))))"

definition applyAdoption :: "world \<Rightarrow> ResourcePlan \<Rightarrow> (goerror + unit) cproc" where
  "applyAdoption W p =
     (case (rp_Adoption p, rp_Target p) of
        (Some a, Some (OCluster cluster)) \<Rightarrow>
          (let ns = rp_Namespace p in
           bindE (createCluster W ns (rp_Extras p) cluster (ad_ClusterStatus a)) (\<lambda>liveCluster.
           bindE (mapE (createMember W ns) (ad_Members a)) (\<lambda>liveMembers.
           bindE (if ad_HeadlessServiceName a \<noteq> '''' then pointServiceAtMembers W ns (ad_HeadlessServiceName a) liveMembers
                  else return (Inr ())) (\<lambda>_.
           bindE (dismantle W ns (rp_DeleteRef p) a) (\<lambda>_.
           bindE (forE (\<lambda>(ma, live).
                   bindE (adoptPod W ns (emName (ma_Member ma)) (ecName cluster) live) (\<lambda>_.
                   adoptPVC W ns (ma_PVCName ma) (ecName cluster) live)) (zip (ad_Members a) liveMembers)) (\<lambda>_.
           cutoverHeadlessService W ns (ecName cluster) liveCluster))))))
      | _ \<Rightarrow> return (Inl nilDeref))"

section \<open>The run\<close>

record applyStats =
  as_Adopted :: nat
  as_Created :: nat
  as_Deleted :: nat
  as_Skipped :: nat
  as_Printed :: nat
  as_Errored :: nat

definition zeroStats :: applyStats where
  "zeroStats = \<lparr>as_Adopted = 0, as_Created = 0, as_Deleted = 0, as_Skipped = 0, as_Printed = 0, as_Errored = 0\<rparr>"

definition createPlanned :: "world \<Rightarrow> ResourcePlan \<Rightarrow> (goerror + unit) cproc" where
  "createPlanned W p =
     bindE (forE (\<lambda>x. writeTolerant W IsAlreadyExists
         (''create '' @ objKind x @ '' '' @ rp_Namespace p @ ''/'' @ objName x) (WCreate x)) (rp_Extras p)) (\<lambda>_.
     case rp_Target p of
       None \<Rightarrow> return (Inl nilDeref)
     | Some t \<Rightarrow> writeTolerant W IsAlreadyExists
         (''create '' @ rp_SourceKind p @ '' '' @ rp_Namespace p @ ''/'' @ objName t) (WCreate t))"

definition deleteSource :: "world \<Rightarrow> ResourcePlan \<Rightarrow> applyStats \<Rightarrow> (goerror + applyStats) cproc" where
  "deleteSource W p stats =
     (case rp_DeleteRef p of
        None \<Rightarrow> return (Inr stats)
      | Some rf \<Rightarrow>
          bindE (writeTolerant W IsNotFound (''delete legacy '' @ gvr_Resource (rf_GVR rf) @ '' '' @ rf_Namespace rf @ ''/'' @ rf_Name rf)
              (WDeleteLegacy rf Background)) (\<lambda>_.
          return (Inr (stats\<lparr>as_Deleted := as_Deleted stats + 1\<rparr>))))"

definition applyOne :: "world \<Rightarrow> applyStats \<Rightarrow> ResourcePlan \<Rightarrow> (goerror + applyStats) cproc" where
  "applyOne W stats p =
     (case rp_Action p of
        ActionError \<Rightarrow> return (Inr (stats\<lparr>as_Errored := as_Errored stats + 1\<rparr>))
      | ActionPrint \<Rightarrow> return (Inr (stats\<lparr>as_Printed := as_Printed stats + 1\<rparr>))
      | ActionAdopt \<Rightarrow> bindE (wrapE (''adopt '' @ rp_Namespace p @ ''/'' @ rp_SourceName p) (applyAdoption W p)) (\<lambda>_.
          return (Inr (stats\<lparr>as_Adopted := as_Adopted stats + 1\<rparr>)))
      | ActionCreate \<Rightarrow> bindE (createPlanned W p) (\<lambda>_. deleteSource W p (stats\<lparr>as_Created := as_Created stats + 1\<rparr>))
      | ActionSkip \<Rightarrow> deleteSource W p (stats\<lparr>as_Skipped := as_Skipped stats + 1\<rparr>))"

fun applyPlans :: "world \<Rightarrow> applyStats \<Rightarrow> ResourcePlan list \<Rightarrow> (goerror + applyStats) cproc" where
  "applyPlans W stats [] = return (Inr stats)"
| "applyPlans W stats (p # ps) = bindE (applyOne W stats p) (\<lambda>stats'. applyPlans W stats' ps)"

text \<open>The confirmation: a line that reads \<^verbatim>\<open>y\<close> or \<^verbatim>\<open>yes\<close>, whatever its case and the blanks around it.\<close>

definition lowerChar :: "char \<Rightarrow> char" where
  "lowerChar c = (let n = of_char c :: nat in if 65 \<le> n \<and> n \<le> 90 then char_of (n + 32) else c)"

definition confirm :: "world \<Rightarrow> string \<Rightarrow> bool cproc" where
  "confirm W prompt = do {
     _ \<leftarrow> say (prompt @ '' [y/N]: '');
     l \<leftarrow> readLine W;
     return (case l of Inl _ \<Rightarrow> False | Inr line \<Rightarrow> map lowerChar (trimSpace line) \<in> {''y'', ''yes''})
   }"

definition adoptPrompt :: string where
  "adoptPrompt = [CHR 0x0A] @ ''This will ADOPT the clusters above in place (re-own pods/PVCs/Services, replace the legacy CRs; pods keep running). Proceed?''"

definition errorIfPlanFailed :: "ResourcePlan list \<Rightarrow> goerror + unit" where
  "errorIfPlanFailed plans =
     (let errored = length (filter (\<lambda>p. rp_Action p = ActionError) plans) in
      if errored > 0 then Inl (errorf (showNat errored @ '' resource(s) could not be migrated '' @
        [CHR 0xE2, CHR 0x80, CHR 0x94] @ '' see the errors above''))
      else Inr ())"

definition renderSecuritySummary :: "ResourcePlan list \<Rightarrow> unit cproc" where
  "renderSecuritySummary plans =
     (let ps = filter (\<lambda>p. rp_Action p = ActionAdopt \<and> rp_SecurityWarnings p \<noteq> []) plans in do {
        _ \<leftarrow> (if ps \<noteq> [] then say ([CHR 0x0A, CHR 0xE2, CHR 0x9A, CHR 0xA0, CHR 0xEF, CHR 0xB8, CHR 0x8F] @ ''  SECURITY '' @ [CHR 0xE2, CHR 0x80, CHR 0x94] @ '' review before relying on the adopted clusters:'')
             else return ());
        _ \<leftarrow> mapIO (\<lambda>(p, w). say (''  '' @ [CHR 0xE2, CHR 0x80, CHR 0xA2] @ '' '' @ rp_Namespace p @ ''/'' @ rp_SourceName p @ '': '' @ w))
               (concat (map (\<lambda>p. map (Pair p) (rp_SecurityWarnings p)) ps));
        return ()
      })"

text \<open>The plan as it is printed; a \<open>say\<close> is a line without its end. A file of bytes beyond ASCII is in UTF-8.\<close>

fun actionText :: "Action \<Rightarrow> string" where
  "actionText ActionAdopt = ''Adopt''"
| "actionText ActionCreate = ''Create''"
| "actionText ActionPrint = ''Print''"
| "actionText ActionSkip = ''Skip''"
| "actionText ActionError = ''Error''"

text \<open>\<^verbatim>\<open>%T\<close>\<close>

fun objType :: "object option \<Rightarrow> string" where
  "objType None = ''<nil>''"
| "objType (Some (OCluster _)) = ''*v1alpha2.EtcdCluster''"
| "objType (Some (OMember _)) = ''*v1alpha2.EtcdMember''"
| "objType (Some (OSnapshot _)) = ''*v1alpha2.EtcdSnapshot''"
| "objType (Some (OSecret _)) = ''*v1.Secret''"
| "objType (Some (OCronJob _)) = ''*v1.CronJob''"
| "objType (Some (OServiceAccount _)) = ''*v1.ServiceAccount''"
| "objType (Some (ORole _)) = ''*v1.Role''"
| "objType (Some (ORoleBinding _)) = ''*v1.RoleBinding''"

definition manifestText :: "world \<Rightarrow> object option \<Rightarrow> string" where
  "manifestText W obj =
     (case cl_manifest (w_lib W) obj of
        Inl err \<Rightarrow> ''  (failed to render '' @ objType obj @ '': '' @ err_msg err @ '')''
      | Inr data \<Rightarrow> data)"

definition renderManifest :: "world \<Rightarrow> object option \<Rightarrow> unit cproc" where
  "renderManifest W obj =
     (if isl (cl_manifest (w_lib W) obj) then say (manifestText W obj)
      else do { _ \<leftarrow> say ''---''; say (manifestText W obj) })"

definition renderSteps :: "ResourcePlan \<Rightarrow> AdoptionPlan \<Rightarrow> string list" where
  "renderSteps p a =
     [''  steps (pods are never restarted):'',
      ''    1. create EtcdCluster (status prefilled: clusterID='' @ est_ClusterID (ad_ClusterStatus a) @ '') and '' @
        showNat (length (ad_Members a)) @ '' EtcdMember CRs (with reserved annotations)'',
      ''    2. owner-reference legacy headless Service '' @ goQuote (ad_HeadlessServiceName a) @ '' to the adopted members (auto-GCs as they roll)'',
      ''    3. orphan-delete legacy EtcdCluster '' @ rp_Namespace p @ ''/'' @ rp_SourceName p @ '' and StatefulSet '' @
        goQuote (ad_StatefulSetName a) @ '' (children survive)'',
      ''    4. delete legacy ConfigMap '' @ goQuote (ad_ConfigMapName a) @ '' and PodDisruptionBudget '' @ goQuote (ad_PDBName a),
      ''    5. re-own + label each member's Pod and PVC'',
      ''    6. replace legacy client Service '' @ goQuote (ad_ClientServiceName a) @
        '' in place with the operator's native headless Service of the same name'']"

definition planHeading :: "ResourcePlan \<Rightarrow> string" where
  "planHeading p =
     (let bar = [CHR 0xE2, CHR 0x94, CHR 0x80, CHR 0xE2, CHR 0x94, CHR 0x80] in
      bar @ '' '' @ rp_SourceKind p @ '' '' @ rp_Namespace p @ ''/'' @ rp_SourceName p @ '' '' @ [CHR 0xE2, CHR 0x86, CHR 0x92] @ '' '' @
      actionText (rp_Action p) @ '' '' @ bar)"

definition planRemarks :: "ResourcePlan \<Rightarrow> string list" where
  "planRemarks p =
     map (\<lambda>e. ''  ERROR: '' @ e) (rp_Errors p) @
     map (\<lambda>w. ''  '' @ [CHR 0xE2, CHR 0x9A, CHR 0xA0, CHR 0xEF, CHR 0xB8, CHR 0x8F] @ ''  SECURITY: '' @ w) (rp_SecurityWarnings p) @
     map (\<lambda>w. ''  warning: '' @ w) (rp_Warnings p) @
     map (\<lambda>n. ''  note: '' @ n) (rp_Notes p)"

text \<open>The objects a plan shows.\<close>

definition renderedObjects :: "ResourcePlan \<Rightarrow> object option list" where
  "renderedObjects p =
     (case (rp_Action p, rp_Adoption p) of
        (ActionAdopt, Some a) \<Rightarrow> map Some (rp_Extras p) @ [rp_Target p] @ map (\<lambda>ma. Some (OMember (ma_Member ma))) (ad_Members a)
      | _ \<Rightarrow>
          if rp_Action p = ActionCreate \<or> rp_Action p = ActionPrint
          then map Some (rp_Extras p) @ (case rp_Target p of None \<Rightarrow> [] | Some t \<Rightarrow> [Some t]) else [])"

definition renderPlan :: "world \<Rightarrow> ResourcePlan \<Rightarrow> unit cproc" where
  "renderPlan W p = do {
     _ \<leftarrow> say (planHeading p);
     _ \<leftarrow> mapIO say (planRemarks p);
     _ \<leftarrow> mapIO say
       (case (rp_Action p, rp_Adoption p) of
          (ActionAdopt, Some a) \<Rightarrow> renderSteps p a
        | _ \<Rightarrow> (case rp_DeleteRef p of
            None \<Rightarrow> []
          | Some ref \<Rightarrow> [''  cleanup: delete legacy '' @ gvr_Resource (rf_GVR ref) @ '' '' @ rf_Namespace ref @ ''/'' @ rf_Name ref]));
     _ \<leftarrow> mapIO (renderManifest W) (renderedObjects p);
     say []
   }"

definition render :: "world \<Rightarrow> ResourcePlan list \<Rightarrow> unit cproc" where
  "render W plans = do { _ \<leftarrow> mapIO (renderPlan W) plans; return () }"

definition printCRDNotice :: "unit cproc" where
  "printCRDNotice = say ([CHR 0x0A] @
     ''NOTE: the legacy CRDs are not removed by this tool. Once no etcd.aenix.io'' @ [CHR 0x0A] @
     ''CRs remain (check EtcdBackupSchedules '' @ [CHR 0xE2, CHR 0x80, CHR 0x94] @ '' they are never auto-deleted), remove'' @ [CHR 0x0A] @
     ''the CRDs manually:'' @ [CHR 0x0A, CHR 0x0A] @
     ''  kubectl delete crd etcdclusters.etcd.aenix.io etcdbackups.etcd.aenix.io etcdbackupschedules.etcd.aenix.io'')"

definition noDestination :: string where
  "noDestination = ''no backup destination configured; --apply will require --backup-s3-*/--backup-pvc-* or an explicit --skip-backup''"

text \<open>The phases that change something, in their order: authentication off, backup, adoption.\<close>

definition runMutationPhases ::
  "(ResourcePlan list \<Rightarrow> (ResourcePlan list) cproc) \<Rightarrow> (ResourcePlan list \<Rightarrow> (goerror + ResourcePlan list) cproc) option \<Rightarrow>
   (ResourcePlan list \<Rightarrow> (goerror + applyStats) cproc) \<Rightarrow> ResourcePlan list \<Rightarrow> (goerror + applyStats \<times> ResourcePlan list) cproc" where
  "runMutationPhases authDisable backup apply' plans = do {
     ps1 \<leftarrow> authDisable plans;
     bindE (case backup of None \<Rightarrow> return (Inr ps1) | Some b \<Rightarrow> b ps1) (\<lambda>ps2.
     bindE (apply' ps2) (\<lambda>stats. return (Inr (stats, ps2))))
   }"

text \<open>Everything up to the plan, which reads only.\<close>

definition clients :: "world \<Rightarrow> (goerror + unit) cproc" where
  "clients W =
     bindE (wrapE ''error building kubeconfig'' (failing (cliSetup W BuildConfig))) (\<lambda>_.
     bindE (wrapE ''error creating Kubernetes client'' (failing (cliSetup W NewKube))) (\<lambda>_.
     bindE (wrapE ''error creating dynamic client'' (failing (cliSetup W NewDynamic))) (\<lambda>_.
     bindE (failing (cliSetup W NewScheme)) (\<lambda>_.
     wrapE ''error creating controller-runtime client'' (failing (cliSetup W NewClient))))))"

definition refOf :: "string \<Rightarrow> nsname" where
  "refOf r = (case splitRef r of Inr (ns, n) \<Rightarrow> \<lparr>nn_namespace = ns, nn_name = n\<rparr> | Inl _ \<Rightarrow> \<lparr>nn_namespace = '''', nn_name = ''''\<rparr>)"

definition gate :: "world \<Rightarrow> Config \<Rightarrow> (goerror + unit) cproc" where
  "gate W cfg =
     (if cfg_SkipControllerCheck cfg then return (Inr ())
      else checkControllersDown W [refOf (cfg_LegacyController cfg), refOf (cfg_NewController cfg)])"

definition planAll :: "world \<Rightarrow> Config \<Rightarrow> discovered \<Rightarrow> findings \<Rightarrow> (goerror + ResourcePlan list) cproc" where
  "planAll W cfg d fs = do {
     ps \<leftarrow> mapIO (\<lambda>p. if rp_Action p = ActionAdopt then verifyAdoptionPVCs W p else return p)
            (buildPlans W d fs \<lparr>to_VersionOverride = cfg_Version cfg, to_AuthSecretName = cfg_AuthSecret cfg\<rparr>);
     bindE (markExisting W ps) (\<lambda>ps'.
     return (Inr (if \<not> backupConfigured cfg \<and> \<not> cfg_SkipBackup cfg
       then map (\<lambda>p. if rp_Action p = ActionAdopt then addWarnings [noDestination] p else p) ps' else ps')))
   }"

definition skippedBackup :: string where
  "skippedBackup = ''! pre-adoption backup skipped (--skip-backup)''"

definition doneLines :: "Config \<Rightarrow> applyStats \<Rightarrow> string list" where
  "doneLines cfg st =
     [[CHR 0x0A] @ ''done: '' @ showNat (as_Adopted st) @ '' adopted, '' @ showNat (as_Created st) @ '' created, '' @
        showNat (as_Deleted st) @ '' legacy CRs deleted, '' @ showNat (as_Skipped st) @ '' skipped (already migrated), '' @
        showNat (as_Printed st) @ '' print-only, '' @ showNat (as_Errored st) @ '' errored''] @
     (if as_Adopted st > 0 then
        [[CHR 0x0A] @ ''NEXT: scale the new operator up '' @ [CHR 0xE2, CHR 0x80, CHR 0x94] @
          '' it will take over the adopted clusters without touching the pods:'' @ [CHR 0x0A] @ ''  kubectl -n '' @
          nn_namespace (refOf (cfg_NewController cfg)) @ '' scale deploy '' @ nn_name (refOf (cfg_NewController cfg)) @ '' --replicas=1'']
      else [])"

definition applyPlan :: "world \<Rightarrow> Config \<Rightarrow> discovered \<Rightarrow> findings \<Rightarrow> ResourcePlan list \<Rightarrow> (goerror + unit) cproc" where
  "applyPlan W cfg d fs plans = do {
     ok \<leftarrow> (if cfg_Yes cfg then return True else confirm W adoptPrompt);
     (if \<not> ok then return (Inl (errorf ''aborted''))
      else do {
        _ \<leftarrow> (if backupConfigured cfg then return () else say skippedBackup);
        bindE (runMutationPhases (disableAuthForAdoptions W d fs)
                 (if backupConfigured cfg then Some (runBackups W cfg d) else None)
                 (applyPlans W zeroStats) plans) (\<lambda>(stats, plans').
        do {
          _ \<leftarrow> mapIO say (doneLines cfg stats);
          _ \<leftarrow> renderSecuritySummary plans';
          _ \<leftarrow> printCRDNotice;
          return (errorIfPlanFailed plans')
        })
      })
   }"

definition gateLine :: "Config \<Rightarrow> string" where
  "gateLine cfg =
     (if cfg_SkipControllerCheck cfg then ''! controller check skipped (--skip-controller-check)''
      else [CHR 0xE2, CHR 0x9C, CHR 0x93] @ '' both operator Deployments are down'')"

definition inspectAll :: "world \<Rightarrow> legacyCluster list \<Rightarrow> findings cproc" where
  "inspectAll W lcs =
     mapIO (\<lambda>lc. do {
       r \<leftarrow> inspectCluster W lc;
       _ \<leftarrow> (case r of
         Inl _ \<Rightarrow> return ()
       | Inr f \<Rightarrow> say (''inspected '' @ lkKey lc @ '': clusterID='' @ cf_ClusterIDHex f @ '', '' @ showNat (length (cf_Members f)) @
           '' members, auth='' @ showBool (cf_AuthEnabled f)));
       return (lkKey lc, r)
     }) lcs"

text \<open>The plan is shown before it is confirmed or reported as a dry run.\<close>

definition presentPlan :: "world \<Rightarrow> Config \<Rightarrow> discovered \<Rightarrow> findings \<Rightarrow> ResourcePlan list \<Rightarrow> (goerror + unit) cproc" where
  "presentPlan W cfg d fs plans = do {
     _ \<leftarrow> render W plans;
     (if \<not> cfg_Apply cfg then do {
        _ \<leftarrow> say ([CHR 0x0A] @ ''Dry-run complete: nothing was changed. Re-run with --apply to execute the plan.'');
        _ \<leftarrow> printCRDNotice;
        return (errorIfPlanFailed plans)
      }
      else applyPlan W cfg d fs plans)
   }"

definition runMigration :: "world \<Rightarrow> Config \<Rightarrow> (goerror + unit) cproc" where
  "runMigration W cfg =
     bindE (clients W) (\<lambda>_.
     bindE (gate W cfg) (\<lambda>_. do {
     _ \<leftarrow> say (gateLine cfg);
     bindE (discover W (cfg_Namespace cfg)) (\<lambda>d.
     if di_Clusters d = [] \<and> di_Backups d = [] \<and> di_Schedules d = [] then do {
       _ \<leftarrow> say (''no legacy etcd.aenix.io resources found '' @ [CHR 0xE2, CHR 0x80, CHR 0x94] @ '' nothing to migrate'');
       _ \<leftarrow> printCRDNotice;
       return (Inr ())
     }
     else do {
       _ \<leftarrow> say (''discovered '' @ showNat (length (di_Clusters d)) @ '' EtcdCluster, '' @ showNat (length (di_Backups d)) @ '' EtcdBackup, '' @
         showNat (length (di_Schedules d)) @ '' EtcdBackupSchedule (legacy)'' @ [CHR 0x0A]);
       fs \<leftarrow> inspectAll W (di_Clusters d);
       _ \<leftarrow> say [];
       bindE (planAll W cfg d fs) (presentPlan W cfg d fs)
     })
     }))"

text \<open>The command: the flags are checked before anything else.\<close>

definition etcdMigrate :: "world \<Rightarrow> Config \<Rightarrow> (goerror + unit) cproc" where
  "etcdMigrate W cfg = (case validate cfg of Some err \<Rightarrow> return (Inl err) | None \<Rightarrow> runMigration W cfg)"

end
