(* ===== verification/MigrateContract.thy ===== *)
theory MigrateContract
  imports Migrate ClusterMembership
begin

text \<open>
  Correctness of the translation: a plan with an error creates and deletes nothing, options round trip,
  and the state an adoption writes is one the new operator's controllers take over without starting,
  replacing or re-registering anything.
\<close>

section \<open>Plans with errors\<close>

text \<open>A plan is coherent: it is an error plan exactly when it carries errors, and then it creates, prints
  and deletes nothing.\<close>

definition planOK :: "ResourcePlan \<Rightarrow> bool" where
  "planOK p \<longleftrightarrow>
     (rp_Action p = ActionError) = (rp_Errors p \<noteq> []) \<and>
     (if rp_Action p = ActionError then rp_Target p = None \<and> rp_Extras p = [] \<and> rp_DeleteRef p = None \<and> rp_Adoption p = None
      else rp_Target p \<noteq> None) \<and>
     (rp_Action p = ActionAdopt) = (rp_Adoption p \<noteq> None)"

lemmas plan_add_simps [simp] = addWarnings_def addErrors_def addNotes_def

lemma emptyPlan_simps [simp]:
  "rp_Action (emptyPlan k n ns a) = a" "rp_Errors (emptyPlan k n ns a) = []" "rp_Adoption (emptyPlan k n ns a) = None"
  "rp_DeleteRef (emptyPlan k n ns a) = None" "rp_Target (emptyPlan k n ns a) = None" "rp_Extras (emptyPlan k n ns a) = []"
  "rp_SourceKind (emptyPlan k n ns a) = k" "rp_SourceName (emptyPlan k n ns a) = n" "rp_Namespace (emptyPlan k n ns a) = ns"
  by (simp_all add: emptyPlan_def)

lemma TranslateBackup_OK: "planOK (TranslateBackup name ns spec)"
  by (simp add: TranslateBackup_def planOK_def Let_def split: sum.split)

lemma TranslateSchedule_OK: "planOK (TranslateSchedule yaml name ns spec)"
  by (simp add: TranslateSchedule_def planOK_def Let_def split: sum.split)

text \<open>The steps of the cluster translation keep the action, the adoption and the target of the plan.\<close>

lemma translatePodTemplate_plan:
  "rp_Action (snd (translatePodTemplate pt st)) = rp_Action (snd st)"
  "rp_Adoption (snd (translatePodTemplate pt st)) = rp_Adoption (snd st)"
  "rp_Errors (snd (translatePodTemplate pt st)) = rp_Errors (snd st)"
  by (simp_all add: translatePodTemplate_def Let_def split: prod.split)

lemma translateAuth_plan:
  "rp_Action (snd (translateAuth rnd sec opts st)) = rp_Action (snd st)"
  "rp_Adoption (snd (translateAuth rnd sec opts st)) = rp_Adoption (snd st)"
  by (simp_all add: translateAuth_def Let_def split: prod.split option.split)

lemma translatedCluster_plan:
  "rp_Action (snd (translatedCluster rnd name ns spec opts)) = ActionCreate"
  "rp_Adoption (snd (translatedCluster rnd name ns spec opts)) = None"
  by (simp_all add: translatedCluster_def Let_def case_prod_beta translateAuth_plan translatePodTemplate_plan
      split: option.split)

lemma TranslateCluster_cases:
  "TranslateCluster rnd name ns spec opts =
     (let st = translatedCluster rnd name ns spec opts in
      if rp_Errors (snd st) \<noteq> [] then failPlan (snd st) else (snd st)\<lparr>rp_Target := Some (OCluster (fst st))\<rparr>)"
  by (simp add: TranslateCluster_def case_prod_beta Let_def)

lemma TranslateCluster_OK: "planOK (TranslateCluster rnd name ns spec opts)"
  by (simp add: planOK_def TranslateCluster_cases Let_def failPlan_def translatedCluster_plan)

section \<open>The adopted state\<close>

lemma translatePodTemplate_TLS:
  "cs_TLS (ec_Spec (fst (translatePodTemplate pt st))) = cs_TLS (ec_Spec (fst st))"
  "ec_Meta (fst (translatePodTemplate pt st)) = ec_Meta (fst st)"
  by (simp_all add: translatePodTemplate_def Let_def split: prod.split option.split)

lemma translateAuth_TLS:
  "cs_TLS (ec_Spec (fst (translateAuth rnd sec opts st))) = cs_TLS (ec_Spec (fst st))"
  "ec_Meta (fst (translateAuth rnd sec opts st)) = ec_Meta (fst st)"
  by (simp_all add: translateAuth_def Let_def split: prod.split option.split)

lemma translatedCluster_TLS:
  "cs_TLS (ec_Spec (fst (translatedCluster rnd name ns spec opts))) = fst (translateTLS (lg_Security spec))"
  "ec_Meta (fst (translatedCluster rnd name ns spec opts)) = emptyMeta\<lparr>om_Name := name, om_Namespace := ns\<rparr>"
  by (simp_all add: translatedCluster_def Let_def case_prod_beta translateAuth_TLS translatePodTemplate_TLS)

text \<open>The plan of an adoption that did not fail.\<close>

definition peerAnnotated :: "MemberFact list \<Rightarrow> EtcdCluster \<Rightarrow> EtcdCluster" where
  "peerAnnotated ms c =
     (if hasPeerTLS (Some c) \<or> List.find (\<lambda>m. HasPrefix (mf_PeerURL m) ''https://'') ms = None then c
      else c\<lparr>ec_Meta := (ec_Meta c)\<lparr>om_Annotations := fmupd AnnPeerAutoTLS ''true'' (om_Annotations (ec_Meta c))\<rparr>\<rparr>)"

definition adoptedCluster ::
  "8 word list \<Rightarrow> string \<Rightarrow> string \<Rightarrow> LegacyClusterSpec \<Rightarrow> ClusterFacts \<Rightarrow> TranslateOptions \<Rightarrow> EtcdCluster" where
  "adoptedCluster rnd name ns spec facts opts =
     (let ms = sortSlice (\<lambda>a b. mf_Name a < mf_Name b) (cf_Members facts);
          c = peerAnnotated ms (fst (translatedCluster rnd name ns spec opts))
      in c\<lparr>ec_Spec := (ec_Spec c)\<lparr>cs_Replicas := Some (toInt32 (int (length ms)))\<rparr>\<rparr>)"

lemma carryPeerAutoTLS_cluster: "fst (carryPeerAutoTLS ms st) = peerAnnotated ms (fst st)"
  by (simp add: carryPeerAutoTLS_def peerAnnotated_def split: prod.split option.split)

lemma carryPeerAutoTLS_plan:
  "rp_Errors (snd (carryPeerAutoTLS ms st)) = rp_Errors (snd st)"
  "rp_Action (snd (carryPeerAutoTLS ms st)) = rp_Action (snd st)"
  "rp_Adoption (snd (carryPeerAutoTLS ms st)) = rp_Adoption (snd st)"
  by (simp_all add: carryPeerAutoTLS_def split: prod.split option.split)

lemma BuildAdoption_cases:
  fixes rnd name ns spec facts opts
  defines "p \<equiv> BuildAdoption rnd name ns spec facts opts"
    and "ms \<equiv> sortSlice (\<lambda>a b. mf_Name a < mf_Name b) (cf_Members facts)"
    and "c \<equiv> adoptedCluster rnd name ns spec facts opts"
  shows "(rp_Action p = ActionError \<and> rp_Errors p \<noteq> [] \<and> rp_Target p = None \<and> rp_Extras p = [] \<and> rp_DeleteRef p = None \<and>
            rp_Adoption p = None) \<or>
         (rp_Action p = ActionAdopt \<and> rp_Errors p = [] \<and> rp_Target p = Some (OCluster c) \<and>
            rp_Adoption p = Some (adoptionOf name ns spec facts ms c) \<and> concat (map memberFactErrors ms) = [])"
proof (cases "rp_Errors (snd (translatedCluster rnd name ns spec opts)) = []")
  case True
  then show ?thesis
    unfolding p_def c_def BuildAdoption_def adoptedCluster_def TranslateCluster_cases ms_def [symmetric]
    by (simp add: Let_def case_prod_beta failPlan_def carryPeerAutoTLS_plan translatedCluster_plan
        carryPeerAutoTLS_cluster del: concat_eq_Nil_conv split: option.split)
next
  case False
  then show ?thesis
    unfolding p_def BuildAdoption_def TranslateCluster_cases
    by (simp add: Let_def failPlan_def translatedCluster_plan)
qed

lemma BuildAdoption_OK: "planOK (BuildAdoption rnd name ns spec facts opts)"
  using BuildAdoption_cases [of rnd name ns spec facts opts] unfolding planOK_def by auto

lemma adoptedCluster_fields:
  "cs_TLS (ec_Spec (adoptedCluster rnd name ns spec facts opts)) = fst (translateTLS (lg_Security spec))"
  "cs_Replicas (ec_Spec (adoptedCluster rnd name ns spec facts opts)) = Some (toInt32 (int (length (cf_Members facts))))"
  "ecName (adoptedCluster rnd name ns spec facts opts) = name"
  "ecNamespace (adoptedCluster rnd name ns spec facts opts) = ns"
  by (simp_all add: adoptedCluster_def peerAnnotated_def translatedCluster_TLS Let_def)

text \<open>The Secrets a translation refers to have names.\<close>

definition tlsBYO :: "EtcdClusterTLS option \<Rightarrow> bool" where
  "tlsBYO tls = (case tls of None \<Rightarrow> True | Some t \<Rightarrow>
     (case tls_Client t of None \<Rightarrow> tls_Peer t \<noteq> None | Some c \<Rightarrow>
        ct_CertManager c = None \<and> ct_ServerSecretRef c \<notin> {None, Some ''''} \<and> ct_OperatorClientSecretRef c \<noteq> Some '''') \<and>
     (case tls_Peer t of None \<Rightarrow> True | Some p \<Rightarrow> pt_CertManager p = None \<and> pt_SecretRef p \<notin> {None, Some ''''}))"

lemma translateTLS_BYO: "tlsBYO (fst (translateTLS sec))"
  by (auto simp: translateTLS_def clientPlane_def peerPlane_def tlsBYO_def Let_def split: option.split)

lemma deriveAdopted_BYO:
  assumes "tlsBYO (cs_TLS (ec_Spec c))"
  shows "deriveAdoptedMemberTLS c = deriveMemberTLS (Some c)"
proof (cases "cs_TLS (ec_Spec c)")
  case None
  then show ?thesis by (simp add: deriveAdoptedMemberTLS_def deriveMemberTLS_def clusterPeerAutoTLS_def Let_def)
next
  case (Some t)
  with assms show ?thesis
    by (auto simp: deriveAdoptedMemberTLS_def deriveMemberTLS_def clusterPeerAutoTLS_def Let_def tlsBYO_def
        serverSecretName_def operatorClientSecretName_def peerSecretName_def split: option.splits)
qed

lemma Join_nonempty: "xs \<noteq> [] \<Longrightarrow> hd xs \<noteq> '''' \<Longrightarrow> Join xs sep \<noteq> ''''"
  by (induction xs sep rule: Join.induct) auto

text \<open>An adopted member as it lies in the API server: the created object with the status written after it.\<close>

definition liveMember :: "MemberAdoption \<Rightarrow> EtcdMember" where
  "liveMember x = (ma_Member x)\<lparr>em_Status := ma_Status x\<rparr>"

text \<open>What an adopted member is: it runs under the legacy Service's name and in the legacy data directory,
  with the projection of TLS the cluster controller uses, neither a seed nor pending nor paused, a voter whose
  member ID and Pod are known. It has no owner.\<close>

definition adoptedOK :: "EtcdCluster \<Rightarrow> string \<Rightarrow> EtcdMember \<Rightarrow> bool" where
  "adoptedOK c svc m \<longleftrightarrow>
     memberServiceName m = svc \<and> memberDataDir m = ''/var/lib/etcd/default.etcd'' \<and>
     ms_TLS (em_Spec m) = deriveMemberTLS (Some c) \<and>
     ms_ClusterName (em_Spec m) = ecName c \<and> emNamespace m = ecNamespace c \<and>
     \<not> ms_Bootstrap (em_Spec m) \<and> ms_InitialCluster (em_Spec m) \<noteq> '''' \<and> \<not> ms_Dormant (em_Spec m) \<and> \<not> emDeleting m \<and>
     mst_IsVoter (em_Status m) \<and> mst_PodName (em_Status m) = emName m \<and> mst_PodUID (em_Status m) \<noteq> '''' \<and>
     om_OwnerReferences (em_Meta m) = []"

lemma LegacyHeadless_nonempty: "LegacyHeadlessServiceName name spec \<noteq> ''''"
  by (simp add: LegacyHeadlessServiceName_def split: option.split)

lemma adoptedMember_OK:
  assumes "svc \<noteq> ''''" "ic \<noteq> ''''" "memberFactErrors m = []" "tls = deriveMemberTLS (Some c)" "ecName c = name" "ecNamespace c = ns"
  shows "adoptedOK c svc (liveMember (adoptedMember name ns svc c ic tok tls m))"
proof -
  let ?m = "liveMember (adoptedMember name ns svc c ic tok tls m)"
  have ann: "om_Annotations (em_Meta ?m) = fmap_of_list
      [(AnnHeadlessServiceName, svc), (AnnDataDirSubPath, LegacyDataDirSubPath)]"
    by (simp add: liveMember_def adoptedMember_def Let_def)
  have 1: "memberServiceName ?m = svc"
    using assms(1) by (simp add: memberServiceName_def ann mapGet_def)
  have "mapGet (om_Annotations (em_Meta ?m)) AnnDataDirSubPath = LegacyDataDirSubPath"
    by (simp add: ann mapGet_def)
  moreover have "validDataDirSubPath LegacyDataDirSubPath" by code_simp
  moreover have "pathJoin [etcdDataDirRoot, LegacyDataDirSubPath] = ''/var/lib/etcd/default.etcd''" by code_simp
  ultimately have 2: "memberDataDir ?m = ''/var/lib/etcd/default.etcd''" by (simp add: memberDataDir_def)
  from assms(3) have "mf_PodUID m \<noteq> ''''" by (auto simp: memberFactErrors_def split: if_splits)
  with 1 2 assms(2,4,5,6) show ?thesis
    unfolding adoptedOK_def by (simp add: liveMember_def adoptedMember_def Let_def emptyMeta_def emptyMemberStatus_def)
qed

lemma BuildAdoption_adopts:
  assumes "rp_Adoption (BuildAdoption rnd name ns spec facts opts) = Some a"
  shows "rp_Target (BuildAdoption rnd name ns spec facts opts) = Some (OCluster (adoptedCluster rnd name ns spec facts opts))"
    and "a = adoptionOf name ns spec facts (sortSlice (\<lambda>a b. mf_Name a < mf_Name b) (cf_Members facts))
           (adoptedCluster rnd name ns spec facts opts)"
    and "\<And>m. m \<in> set (cf_Members facts) \<Longrightarrow> memberFactErrors m = []"
  using BuildAdoption_cases [of rnd name ns spec facts opts] assms by auto

lemma adoptionOf_members:
  assumes "\<And>m. m \<in> set ms \<Longrightarrow> memberFactErrors m = []" and "tlsBYO (cs_TLS (ec_Spec c))" "ecName c = name" "ecNamespace c = ns"
  shows "list_all (adoptedOK c (LegacyHeadlessServiceName name spec)) (map liveMember (ad_Members (adoptionOf name ns spec facts ms c)))"
proof -
  have "Join (map (\<lambda>m. mf_Name m @ ''='' @ mf_PeerURL m) ms) '','' \<noteq> ''''" if "m \<in> set ms" for m
    using that by (intro Join_nonempty) (cases ms; simp)+
  with assms show ?thesis
    by (auto simp: adoptionOf_def Let_def list_all_iff deriveAdopted_BYO intro!: adoptedMember_OK [OF LegacyHeadless_nonempty])
qed

text \<open>
  What an adoption creates. A plan to adopt a live cluster has a member object for each etcd member and
  no other; each runs under the legacy headless Service, keeps the legacy data directory, has exactly the
  TLS projection the cluster controller computes for the adopted cluster, and is neither a seed nor waiting to
  be registered, a voter whose Pod is known. None of them has an owner reference. Without an adoption
  the plan is an error.
\<close>

theorem BuildAdoption_members:
  "case rp_Adoption (BuildAdoption rnd name ns spec facts opts) of
     None \<Rightarrow> rp_Action (BuildAdoption rnd name ns spec facts opts) = ActionError
   | Some a \<Rightarrow> \<exists>c. rp_Target (BuildAdoption rnd name ns spec facts opts) = Some (OCluster c) \<and>
       mset (map (\<lambda>x. emName (ma_Member x)) (ad_Members a)) = mset (map mf_Name (cf_Members facts)) \<and>
       list_all (adoptedOK c (LegacyHeadlessServiceName name spec)) (map liveMember (ad_Members a))"
proof (cases "rp_Adoption (BuildAdoption rnd name ns spec facts opts)")
  case None
  then show ?thesis using BuildAdoption_cases [of rnd name ns spec facts opts] by auto
next
  case (Some a)
  note a = BuildAdoption_adopts [OF Some]
  have "map (\<lambda>x. emName (ma_Member x)) (ad_Members a) =
      map mf_Name (sortSlice (\<lambda>a b. mf_Name a < mf_Name b) (cf_Members facts))"
    by (simp add: a(2) adoptionOf_def adoptedMember_def Let_def)
  moreover have "list_all (adoptedOK (adoptedCluster rnd name ns spec facts opts) (LegacyHeadlessServiceName name spec))
      (map liveMember (ad_Members a))"
    unfolding a(2) by (rule adoptionOf_members) (simp_all add: a(3) adoptedCluster_fields translateTLS_BYO)
  ultimately show ?thesis by (simp add: Some a(1))
qed

section \<open>The first pass over an adopted cluster\<close>

text \<open>Writing a member object other than its status, adding or removing an etcd member; and, beyond that, patching a
  member's status or promoting an etcd member.\<close>

definition changesMembers :: "event \<Rightarrow> bool" where
  "changesMembers e =
     (case e of
        EEtcd c (MemberAddAsLearner urls r) \<Rightarrow> True
      | EEtcd c (MemberRemove i r) \<Rightarrow> True
      | EMember (KWrite (StatusPatch m m') r) \<Rightarrow> False
      | EMember (KWrite w r) \<Rightarrow> True
      | _ \<Rightarrow> False)"

definition touchesMembers :: "event \<Rightarrow> bool" where
  "touchesMembers e =
     (changesMembers e \<or> (case e of
        EEtcd c (MemberPromote i r) \<Rightarrow> True
      | EMember (KWrite w r) \<Rightarrow> True
      | _ \<Rightarrow> False))"

lemma changesMembers_simps [simp]:
  "\<not> changesMembers (EMember (KWrite (StatusPatch m m') r1))" "\<not> changesMembers (ECluster k)"
  "\<not> changesMembers (ESecret k2)" "\<not> changesMembers (EDial cl d)" "\<not> changesMembers (EEtcd cl (MemberList r2))"
  "\<not> changesMembers (EEtcd cl (MemberPromote i r3))" "\<not> changesMembers (EEtcd cl (AuthStatus r4))"
  "\<not> changesMembers (EEtcd cl (AuthEnable r3))" "\<not> changesMembers (EEtcd cl (UserAdd u pw r3))"
  "\<not> changesMembers (EEtcd cl (UserGrantRole u pw r3))" "\<not> changesMembers (EMember (KList rd ns sel l))"
  by (simp_all add: changesMembers_def)

lemma child_keepsMembers: "isChildEvent e \<Longrightarrow> \<not> changesMembers e" "isChildEvent e \<Longrightarrow> \<not> touchesMembers e"
  by (cases e; simp add: isChildEvent_def changesMembers_def touchesMembers_def)+

interpretation sizeF: promotion_footprint "\<lambda>e. \<not> changesMembers e"
  by unfold_locales (simp_all add: child_keepsMembers)

interpretation stillF: report_footprint "\<lambda>e. \<not> touchesMembers e"
  by unfold_locales (simp_all add: child_keepsMembers touchesMembers_def)

text \<open>A formed cluster at its target with no pending and no terminating member is left at its size: what remains of the
  pass is the promotion of learners and what only reads and reports.\<close>

definition converged :: "EtcdCluster \<Rightarrow> EtcdMember list \<Rightarrow> bool" where
  "converged c items \<longleftrightarrow> est_ClusterToken (ec_Status c) \<noteq> '''' \<and> est_ProgressDeadline (ec_Status c) = None \<and>
     specEqualsObserved c \<and> ecClusterID c \<noteq> '''' \<and> \<not> list_ex emDeleting items \<and> \<not> hasPendingMember (filterRunningMembers items) \<and>
     (case ecObserved c of None \<Rightarrow> False | Some ob \<Rightarrow> int (length (filterRunningMembers items)) = ob_Replicas ob)"

context report_footprint
begin

lemma at_target:
  assumes "converged c items" "emits P (promoteAfterConverged E c (filterRunningMembers items))"
  shows "emits P (reconcileTarget E c items)"
proof -
  from assms(1) obtain ob where ob: "ecObserved c = Some ob" by (auto simp: converged_def split: option.splits)
  have "emits P (State_Monad.bind (promoteAfterConverged E c (filterRunningMembers items))
     (\<lambda>(pending, running'). case pending of Some p \<Rightarrow> updateStatus E c (filterActiveMembers items) (Some p)
        | None \<Rightarrow> State_Monad.bind (reconcileAuth E c running') (\<lambda>(c', res). case res of
            Inl err \<Rightarrow> return (Inl err) | Inr p' \<Rightarrow> updateStatus E c' (filterActiveMembers items) p')))"
    by (intro emits_rules assms(2) authentication status)
  with assms(1) ob have "emits P (reconcileScale E c items (ob_Replicas ob))"
    by (simp add: reconcileScale_def converged_def Let_def)
  then have "emits P (State_Monad.bind (timeNow E) (\<lambda>now. reconcileScale E c items (ob_Replicas ob)))"
    by (intro emits_rules)
  with assms(1) ob show ?thesis
    by (simp add: reconcileTarget_def reconcileMembership_def deadlineExpired_def converged_def Let_def)
qed

end

text \<open>Where etcd lists no learner and every member object already says so, there is nothing to promote or to stamp.\<close>

definition noLearner :: "env \<Rightarrow> bool" where
  "noLearner E \<longleftrightarrow> (\<forall>h cl l. t_memberList (e_etcd E) h cl = Inr l \<longrightarrow> list_all (\<lambda>m. \<not> pb_IsLearner m) (ml_Members l))"

lemma emits_bind_reply:
  assumes "\<And>h. \<exists>r. run_state m h = (r, h @ [ev r]) \<and> R r" and "\<And>r. R r \<Longrightarrow> P (ev r) \<and> emits P (k r)"
  shows "emits P (State_Monad.bind m k)"
  unfolding emits_def
proof
  fix h
  from assms(1) obtain r where r: "run_state m h = (r, h @ [ev r])" "R r" by blast
  from assms(2) [OF r(2)] obtain b es where "run_state (k r) (h @ [ev r]) = (b, (h @ [ev r]) @ es)" "list_all P es" "P (ev r)"
    unfolding emits_def by blast
  with r(1) show "\<exists>b es. run_state (State_Monad.bind m k) h = (b, h @ es) \<and> list_all P es"
    by (intro exI [of _ b] exI [of _ "ev r # es"]) simp
qed

lemma syncIsVoter_settled:
  assumes "list_all (\<lambda>m. \<not> pb_IsLearner m) (ml_Members l)" "list_all (\<lambda>m. mst_IsVoter (em_Status m)) ms"
  shows "syncIsVoter E c ms l = return (None, ms)"
proof -
  have "wantVoter l u \<noteq> Some False" for u
    using assms(1) by (auto simp: wantVoter_def list_all_iff list_ex_iff)
  with assms(2) show ?thesis
    by (induction ms) (auto simp: Let_def bind_left_identity split: option.split)
qed

lemma promoteAfterConverged_settled:
  assumes "noLearner E" "list_all (\<lambda>m. mst_IsVoter (em_Status m)) ms"
  shows "emits (\<lambda>e. \<not> touchesMembers e) (promoteAfterConverged E c ms)"
proof -
  have "emits (\<lambda>e. \<not> touchesMembers e) (promotePendingLearner E c ms cl)" for cl
    unfolding promotePendingLearner_def
  proof (rule emits_bind_reply [where ev = "\<lambda>r. EEtcd cl (MemberList r)" and
        R = "\<lambda>r. \<forall>l. r = Inr l \<longrightarrow> list_all (\<lambda>m. \<not> pb_IsLearner m) (ml_Members l)"])
    show "\<exists>r. run_state (memberList E cl) h = (r, h @ [EEtcd cl (MemberList r)]) \<and>
        (\<forall>l. r = Inr l \<longrightarrow> list_all (\<lambda>m. \<not> pb_IsLearner m) (ml_Members l))" for h
      using assms(1) by (auto simp: memberList_def noLearner_def)
  qed (auto simp: stillF.etcdList syncIsVoter_settled [OF _ assms(2)] tryPromoteLearner_def list_all_iff bind_left_identity
    find_None_iff [THEN iffD2] emits_return split: sum.split)
  then show ?thesis
    unfolding promoteAfterConverged_def Let_def by (intro emits_rules stillF.secret stillF.dial)
qed

section \<open>The API server after an adoption\<close>

text \<open>
  What the pass reads. The server returns the stored cluster; as long as the pass has written no member, a list returns
  the stored members of the namespace whose labels match the selector, in any order.
\<close>

definition selects :: "smap \<Rightarrow> smap \<Rightarrow> bool" where
  "selects sel labels = fmpred (\<lambda>k v. fmlookup labels k = Some v) sel"

definition isMemberWrite :: "event \<Rightarrow> bool" where
  "isMemberWrite e = (case e of EMember (KWrite w r) \<Rightarrow> True | _ \<Rightarrow> False)"

definition servesStored :: "env \<Rightarrow> nsname \<Rightarrow> EtcdCluster \<Rightarrow> EtcdMember list \<Rightarrow> bool" where
  "servesStored E key live stored \<longleftrightarrow> kc_get (k_clusters (e_kube E)) [] Cached key = Inr live \<and>
     (\<forall>h ns sel. \<not> list_ex isMemberWrite h \<longrightarrow> (\<exists>xs. kc_list (k_members (e_kube E)) h Cached ns sel = Inr xs \<and>
        mset xs = mset (filter (\<lambda>m. emNamespace m = ns \<and> selects sel (om_Labels (em_Meta m))) stored)))"

text \<open>A stored member is the planned one: the server may have added to its metadata and controllers to its status.\<close>

definition keptMember :: "MemberAdoption \<Rightarrow> EtcdMember \<Rightarrow> bool" where
  "keptMember x m \<longleftrightarrow> emName m = emName (ma_Member x) \<and> emNamespace m = emNamespace (ma_Member x) \<and>
     om_Labels (em_Meta m) = om_Labels (em_Meta (ma_Member x)) \<and> em_Spec m = em_Spec (ma_Member x) \<and>
     mst_IsVoter (em_Status m) = mst_IsVoter (ma_Status x) \<and> \<not> emDeleting m"

text \<open>A member of another cluster, of another namespace or of another label.\<close>

definition foreignMember :: "string \<Rightarrow> string \<Rightarrow> EtcdMember \<Rightarrow> bool" where
  "foreignMember ns name m \<longleftrightarrow> emNamespace m \<noteq> ns \<or> fmlookup (om_Labels (em_Meta m)) LabelCluster \<noteq> Some name"

lemma bindE_from:
  assumes "emits Q m" "\<And>e. Q e \<Longrightarrow> P e"
    and "\<And>a es. list_all Q es \<Longrightarrow> \<exists>b es'. run_state (f a) (h @ es) = (b, (h @ es) @ es') \<and> list_all P es'"
  shows "\<exists>b es. run_state (bindE m f) h = (b, h @ es) \<and> list_all P es"
proof -
  from assms(1) obtain r es where r: "run_state m h = (r, h @ es)" "list_all Q es" unfolding emits_def by blast
  then have p: "list_all P es" using assms(2) by (auto simp: list_all_iff)
  show ?thesis
  proof (cases r)
    case (Inl e)
    with r(1) p show ?thesis by (simp add: bindE_def)
  next
    case (Inr a)
    from assms(3) [OF r(2), of a] obtain b es' where "run_state (f a) (h @ es) = (b, (h @ es) @ es')" "list_all P es'" by blast
    with r(1) p Inr show ?thesis by (simp add: bindE_def)
  qed
qed

text \<open>The pass on such a server is the pass over the members of that cluster.\<close>

lemma Reconcile_serves:
  assumes serves: "servesStored E key live stored"
    and P: "\<And>e. isChildEvent e \<Longrightarrow> P e" "\<And>k. P (ECluster k)" "\<And>ns sel l. P (EMember (KList Cached ns sel l))"
    and target: "\<And>xs. mset xs = mset (filter (\<lambda>m. \<not> foreignMember (ecNamespace live) (ecName live) m) stored) \<Longrightarrow>
      emits P (reconcileTarget E live xs)"
  shows "list_all P (trace_of (Reconcile E r key))"
proof -
  let ?get = "ECluster (KGet Cached key (Inr live))" and ?sel = "fmupd LabelCluster (ecName live) fmempty"
  have child: "\<not> list_ex isMemberWrite (?get # es)" if "list_all isChildEvent es" for es
    using that by (auto simp: list_all_iff list_ex_iff isMemberWrite_def isChildEvent_def split: event.splits)
  have sel: "(emNamespace m = ecNamespace live \<and> selects ?sel (om_Labels (em_Meta m))) = (\<not> foreignMember (ecNamespace live) (ecName live) m)" for m
    by (auto simp: selects_def foreignMember_def fmpred.rep_eq map_pred_def split: if_splits option.splits)
  let ?read = "bindE (listMembers E (ecNamespace live) ?sel) (\<lambda>items. reconcileTarget E live items)"
  have list: "\<exists>b es'. run_state ?read (?get # es) = (b, (?get # es) @ es') \<and> list_all P es'" if "list_all isChildEvent es" for es
  proof -
    from serves child [OF that] obtain xs where xs: "kc_list (k_members (e_kube E)) (?get # es) Cached (ecNamespace live) ?sel = Inr xs"
      "mset xs = mset (filter (\<lambda>m. \<not> foreignMember (ecNamespace live) (ecName live) m) stored)"
      unfolding servesStored_def sel [symmetric] by blast
    let ?ev = "EMember (KList Cached (ecNamespace live) ?sel (Inr xs))"
    from target [OF xs(2)] obtain b es' where "run_state (reconcileTarget E live xs) ((?get # es) @ [?ev]) = (b, ((?get # es) @ [?ev]) @ es')" "list_all P es'"
      unfolding emits_def by blast
    with xs(1) P(3) show ?thesis by (simp add: bindE_def proc_defs)
  qed
  have rest: "\<exists>b es. run_state (bindE (ensureServices E r live) (\<lambda>_. bindE (reconcileTLSCertificates E r live) (\<lambda>_. ?read))) [?get] =
      (b, [?get] @ es) \<and> list_all P es"
  proof (rule bindE_from [OF childF.services P(1)])
    fix es assume es: "list_all isChildEvent es"
    show "\<exists>b es'. run_state (bindE (reconcileTLSCertificates E r live) (\<lambda>_. ?read)) ([?get] @ es) = (b, ([?get] @ es) @ es') \<and> list_all P es'"
      by (rule bindE_from [OF childF.certificates P(1)]) (use list es in \<open>simp_all flip: append_assoc\<close>)
  qed
  have warn: "\<exists>b es. run_state (State_Monad.bind (clusterCondition E live ty s re msg) (\<lambda>(changed, c1). updateTolerant E c1 changed noRequeue)) [?get] =
      (b, ?get # es) \<and> list_all P es" for ty s re msg
  proof -
    have "emits P (State_Monad.bind (clusterCondition E live ty s re msg) (\<lambda>(changed, c1). updateTolerant E c1 changed noRequeue))"
      by (intro emits_rules P(2))
    then show ?thesis unfolding emits_def by (metis append_Cons append_Nil)
  qed
  have "\<exists>b es. run_state (Reconcile E r key) [] = (b, ?get # es) \<and> list_all P es"
    using serves rest warn by (simp add: Reconcile_def proc_defs servesStored_def)
  with P(2) show ?thesis by (auto simp: trace_of_def)
qed

lemma running_all:
  assumes "list_all (\<lambda>m. \<not> emDeleting m \<and> \<not> ms_Dormant (em_Spec m)) items"
  shows "filterRunningMembers items = items" "\<not> list_ex emDeleting items"
  using assms by (simp_all add: filterRunningMembers_def list_all_iff list_ex_iff)

lemma adoptionOf_observed:
  assumes "cs_Replicas (ec_Spec c) = Some (toInt32 (int (length ms)))"
  shows "est_Observed (ad_ClusterStatus (adoptionOf name ns spec facts ms c)) = Some (observedOf c)"
  using assms by (simp add: adoptionOf_def observedOf_def specReplicas_def Let_def emptyClusterStatus_def)

text \<open>The members of an adoption are found by the cluster's selector, and complete what the cluster wants.\<close>

lemma adoption_selected:
  assumes "list_all2 keptMember (ad_Members (adoptionOf name ns spec facts ms c)) items"
  shows "list_all (\<lambda>m. \<not> foreignMember ns name m \<and> mst_IsVoter (em_Status m) \<and> \<not> emDeleting m) items" "length items = length ms"
proof -
  have "fmlookup (memberLabels name n) LabelCluster = Some name" for n by (simp add: memberLabels_def clusterLabels_def)
  with assms show "list_all (\<lambda>m. \<not> foreignMember ns name m \<and> mst_IsVoter (em_Status m) \<and> \<not> emDeleting m) items"
    by (auto simp: list_all2_conv_all_nth list_all_length foreignMember_def keptMember_def adoptionOf_def adoptedMember_def Let_def
      emptyMemberStatus_def emptyMeta_def)
  show "length items = length ms" using list_all2_lengthD [OF assms] by (simp add: adoptionOf_def Let_def)
qed

lemma BuildAdoption_converged:
  assumes plan: "rp_Adoption (BuildAdoption rnd name ns spec facts opts) = Some a"
      "rp_Target (BuildAdoption rnd name ns spec facts opts) = Some (OCluster c)"
    and facts: "cf_ClusterIDHex facts \<noteq> ''''" "length (cf_Members facts) < 2 ^ 31"
    and live: "ec_Spec live = ec_Spec c" "ec_Status live = ad_ClusterStatus a"
    and items: "list_all2 keptMember (ad_Members a) items" "mset xs = mset items"
  shows "converged live xs \<and> filterRunningMembers xs = xs"
proof -
  let ?ms = "sortSlice (\<lambda>a b. mf_Name a < mf_Name b) (cf_Members facts)"
  note a = BuildAdoption_adopts [OF plan(1)]
  from plan(2) a(1) have c: "c = adoptedCluster rnd name ns spec facts opts" by simp
  have reps: "cs_Replicas (ec_Spec c) = Some (toInt32 (int (length ?ms)))" by (simp add: c adoptedCluster_fields)
  then have ob: "ecObserved live = Some (observedOf c)" unfolding live(2) a(2) c by (rule adoptionOf_observed)
  have set: "set xs = set items" using items(2) by (rule mset_eq_setD)
  have "list_all (adoptedOK c (LegacyHeadlessServiceName name spec)) (map liveMember (ad_Members a))"
    unfolding a(2) c by (rule adoptionOf_members) (simp_all add: a(3) adoptedCluster_fields translateTLS_BYO)
  moreover have "\<exists>x \<in> set (ad_Members a). keptMember x m" if "m \<in> set xs" for m
    using that items(1) unfolding set by (metis in_set_conv_nth list_all2_conv_all_nth)
  ultimately have m: "\<not> ms_Bootstrap (em_Spec m) \<and> ms_InitialCluster (em_Spec m) \<noteq> '''' \<and> \<not> ms_Dormant (em_Spec m) \<and> \<not> emDeleting m"
    if "m \<in> set xs" for m
    using that by (fastforce simp: list_all_iff adoptedOK_def liveMember_def keptMember_def)
  then have run: "filterRunningMembers xs = xs" "\<not> list_ex emDeleting xs" by (auto intro!: running_all simp: list_all_iff)
  moreover have "int (length xs) = ob_Replicas (observedOf c)"
    using facts(2) reps adoption_selected(2) [OF items(1) [unfolded a(2)]] mset_eq_length [OF items(2)]
    by (simp add: observedOf_def specReplicas_def toInt32_id Let_def)
  moreover have "specEqualsObserved live"
    unfolding specEqualsObserved_def by (simp add: ob observedOf_def specReplicas_def live(1) Let_def)
  moreover have "\<not> hasPendingMember xs"
    unfolding hasPendingMember_def findPendingMember_def using m by (auto simp: find_None_iff)
  moreover have "est_ClusterToken (ec_Status live) \<noteq> ''''" "est_ProgressDeadline (ec_Status live) = None" "ecClusterID live \<noteq> ''''"
    using facts(1) by (simp_all add: live(2) a(2) adoptionOf_def LegacyClusterToken_def Let_def emptyClusterStatus_def)
  ultimately show ?thesis by (simp add: converged_def ob)
qed

text \<open>
  C24. Taking over. The API server holds what an adoption leaves there: the translated cluster under its name with the
  status the plan prefills, a member object for each planned one with its name, namespace, labels, spec and voter
  mark, none being deleted, and any number of members of other clusters; a list returns the objects of the namespace
  that carry the labels asked for. Then the cluster controller's whole pass for that cluster finds the adopted members and neither
  bootstraps nor scales: whatever else the services reply, it writes nothing of a member object but its status, and adds and removes
  no etcd member. As long as etcd lists no learner (an inspection that finds one gives no adoption), it writes to no member object
  at all and promotes none. The hypotheses are that the cluster has an ID, which the inspection reads from etcd, and fewer than
  two to the 31 members.
\<close>

theorem BuildAdoption_takeover:
  assumes plan: "rp_Adoption (BuildAdoption rnd name ns spec facts opts) = Some a"
      "rp_Target (BuildAdoption rnd name ns spec facts opts) = Some (OCluster c)"
    and facts: "cf_ClusterIDHex facts \<noteq> ''''" "length (cf_Members facts) < 2 ^ 31"
    and serves: "servesStored E \<lparr>nn_namespace = ns, nn_name = name\<rparr> live (items @ others)"
    and live: "ec_Spec live = ec_Spec c" "ec_Status live = ad_ClusterStatus a" "ecName live = ecName c" "ecNamespace live = ecNamespace c"
    and items: "list_all2 keptMember (ad_Members a) items" "list_all (foreignMember ns name) others"
  shows "list_all (\<lambda>e. \<not> changesMembers e) (trace_of (Reconcile E r \<lparr>nn_namespace = ns, nn_name = name\<rparr>)) \<and>
    (noLearner E \<longrightarrow> list_all (\<lambda>e. \<not> touchesMembers e) (trace_of (Reconcile E r \<lparr>nn_namespace = ns, nn_name = name\<rparr>)))"
proof -
  note a = BuildAdoption_adopts [OF plan(1)]
  have "c = adoptedCluster rnd name ns spec facts opts" using plan(2) a(1) by simp
  then have name: "ecName live = name" "ecNamespace live = ns" by (simp_all add: live adoptedCluster_fields)
  note sel = adoption_selected(1) [OF items(1) [unfolded a(2)]]
  from sel items(2) have own: "filter (\<lambda>m. \<not> foreignMember ns name m) (items @ others) = items"
    by (auto simp: list_all_iff filter_id_conv filter_empty_conv)
  have conv: "converged live xs \<and> filterRunningMembers xs = xs" if "mset xs = mset items" for xs
    by (rule BuildAdoption_converged [OF plan facts live(1,2) items(1) that])
  have "list_all (\<lambda>e. \<not> changesMembers e) (trace_of (Reconcile E r \<lparr>nn_namespace = ns, nn_name = name\<rparr>))"
  proof (rule Reconcile_serves [OF serves])
    fix xs assume "mset xs = mset (filter (\<lambda>m. \<not> foreignMember (ecNamespace live) (ecName live) m) (items @ others))"
    then have "mset xs = mset items" by (simp only: name own)
    with conv show "emits (\<lambda>e. \<not> changesMembers e) (reconcileTarget E live xs)" by (intro sizeF.at_target sizeF.converged) simp
  qed (simp_all add: child_keepsMembers)
  moreover have "list_all (\<lambda>e. \<not> touchesMembers e) (trace_of (Reconcile E r \<lparr>nn_namespace = ns, nn_name = name\<rparr>))" if E: "noLearner E"
  proof (rule Reconcile_serves [OF serves])
    fix xs assume "mset xs = mset (filter (\<lambda>m. \<not> foreignMember (ecNamespace live) (ecName live) m) (items @ others))"
    then have xs: "mset xs = mset items" by (simp only: name own)
    then have "list_all (\<lambda>m. mst_IsVoter (em_Status m)) xs" using sel mset_eq_setD [OF xs] by (simp add: list_all_iff)
    with conv [OF xs] promoteAfterConverged_settled [OF E] show "emits (\<lambda>e. \<not> touchesMembers e) (reconcileTarget E live xs)"
      by (intro stillF.at_target) simp_all
  qed (erule child_keepsMembers(2), simp_all add: touchesMembers_def)
  ultimately show ?thesis by blast
qed

definition noMetadata :: EmbeddedObjectMetadata where
  "noMetadata = \<lparr>eom_Name = '''', eom_Labels = fmempty, eom_Annotations = fmempty\<rparr>"

definition sampleLegacySpec :: LegacyClusterSpec where
  "sampleLegacySpec = \<lparr>lg_Replicas = Some 1, lg_Options = fmap_of_list [(''snapshot-count'', ''10000'')],
     lg_PodTemplate = \<lparr>lpt_Meta = noMetadata, lpt_Spec = \<lparr>lps_Containers = [], lps_Affinity = None,
       lps_TopologySpreadConstraints = [], lps_ImagePullSecrets = [], lps_InitContainers = [], lps_Volumes = [],
       lps_NodeSelector = fmempty, lps_Tolerations = [], lps_ServiceAccountName = '''', lps_SecurityContext = None,
       lps_PriorityClassName = '''', lps_HostNetwork = False, lps_HostAliases = [], lps_DNSPolicy = '''', lps_DNSConfig = None,
       lps_RuntimeClassName = None, lps_SchedulerName = '''', lps_TerminationGracePeriodSeconds = None\<rparr>\<rparr>,
     lg_ServiceTemplate = None, lg_HeadlessServiceTemplate = None, lg_PodDisruptionBudgetTemplate = None,
     lg_Storage = \<lparr>lst_EmptyDir = None, lst_VolumeClaimTemplate = \<lparr>lvc_Meta = noMetadata, lvc_StorageClassName = None,
       lvc_AccessModes = [], lvc_Requests = fmap_of_list [(''storage'', mebibytes 4096)]\<rparr>\<rparr>,
     lg_Security = None, lg_Bootstrap = None\<rparr>"

definition sampleFacts :: ClusterFacts where
  "sampleFacts = \<lparr>cf_ClusterIDHex = ''cdf818194e3a8c32'',
     cf_Members = [\<lparr>mf_Name = ''db-0'', mf_IDHex = ''8e9e05c52164694d'', mf_PeerURL = ''https://db-0.db-headless.prod.svc:2380'',
       mf_IsLearner = False, mf_PodUID = ''u0''\<rparr>], cf_AuthEnabled = False\<rparr>"

definition noOptions :: TranslateOptions where
  "noOptions = \<lparr>to_VersionOverride = '''', to_AuthSecretName = ''''\<rparr>"

lemma sampleAdoption: "rp_Action (BuildAdoption [] ''db'' ''prod'' sampleLegacySpec sampleFacts noOptions) = ActionAdopt"
  by code_simp

text \<open>An API server with the adopted objects and a member of another cluster, and an etcd that answers.\<close>

definition adoptionEnv :: "EtcdCluster \<Rightarrow> EtcdMember list \<Rightarrow> env" where
  "adoptionEnv live stored = sampleEnv\<lparr>
     e_kube := emptyKube\<lparr>k_clusters := emptyClient\<lparr>kc_get := (\<lambda>_ _ _. Inr live)\<rparr>,
       k_members := emptyClient\<lparr>kc_list := (\<lambda>_ _ ns sel.
         Inr (filter (\<lambda>m. emNamespace m = ns \<and> selects sel (om_Labels (em_Meta m))) stored))\<rparr>\<rparr>,
     e_etcd := silentEtcd\<lparr>t_memberList := (\<lambda>_ _. Inr \<lparr>ml_ClusterId = 1, ml_Members =
       [\<lparr>pb_ID = 2, pb_Name = ''db-0'', pb_PeerURLs = [''https://db-0.db-headless.prod.svc:2380''], pb_IsLearner = False\<rparr>]\<rparr>)\<rparr>\<rparr>"

definition adoptionPass :: "AdoptionPlan \<Rightarrow> EtcdCluster \<Rightarrow> event list" where
  "adoptionPass a c = trace_of (Reconcile
     (adoptionEnv (c\<lparr>ec_Status := ad_ClusterStatus a\<rparr>) (map liveMember (ad_Members a) @ [sampleMember]))
     \<lparr>CertManagerAvailable = True, ClusterDomain = ''cluster.local'', HasRecorder = False\<rparr>
     \<lparr>nn_namespace = ''prod'', nn_name = ''db''\<rparr>)"

lemma adoptionPass_asks:
  "case BuildAdoption [] ''db'' ''prod'' sampleLegacySpec sampleFacts noOptions of p \<Rightarrow>
     (case (rp_Adoption p, rp_Target p) of
        (Some a, Some (OCluster c)) \<Rightarrow> list_ex (\<lambda>e. case e of EEtcd _ (MemberList (Inr _)) \<Rightarrow> True | _ \<Rightarrow> False) (adoptionPass a c)
      | _ \<Rightarrow> False)"
  by code_simp

theorem BuildAdoption_takeover_witness:
  "\<exists>a c. rp_Adoption (BuildAdoption [] ''db'' ''prod'' sampleLegacySpec sampleFacts noOptions) = Some a \<and>
     rp_Target (BuildAdoption [] ''db'' ''prod'' sampleLegacySpec sampleFacts noOptions) = Some (OCluster c) \<and>
     list_all (\<lambda>e. \<not> changesMembers e) (adoptionPass a c) \<and> list_all (\<lambda>e. \<not> touchesMembers e) (adoptionPass a c) \<and>
     list_ex (\<lambda>e. case e of EEtcd _ (MemberList (Inr _)) \<Rightarrow> True | _ \<Rightarrow> False) (adoptionPass a c)"
proof -
  let ?p = "BuildAdoption [] ''db'' ''prod'' sampleLegacySpec sampleFacts noOptions"
  obtain a c where ac: "rp_Adoption ?p = Some a" "rp_Target ?p = Some (OCluster c)"
    using BuildAdoption_cases [of "[]" "''db''" "''prod''" sampleLegacySpec sampleFacts noOptions] sampleAdoption by auto
  let ?live = "c\<lparr>ec_Status := ad_ClusterStatus a\<rparr>" and ?items = "map liveMember (ad_Members a)"
  have "list_all2 keptMember (ad_Members a) ?items"
    by (simp add: BuildAdoption_adopts(2) [OF ac(1)] adoptionOf_def Let_def list_all2_map2 list_all2_map1 list_all2_same
      keptMember_def liveMember_def adoptedMember_def emptyMeta_def)
  moreover have "list_all (foreignMember ''prod'' ''db'') [sampleMember]"
    by code_simp
  moreover have "servesStored (adoptionEnv ?live (?items @ [sampleMember])) \<lparr>nn_namespace = ''prod'', nn_name = ''db''\<rparr> ?live (?items @ [sampleMember])"
    by (simp add: servesStored_def adoptionEnv_def)
  moreover have "noLearner (adoptionEnv ?live (?items @ [sampleMember]))"
    by (simp add: noLearner_def adoptionEnv_def)
  ultimately have "list_all (\<lambda>e. \<not> changesMembers e) (adoptionPass a c) \<and> list_all (\<lambda>e. \<not> touchesMembers e) (adoptionPass a c)"
    using BuildAdoption_takeover [OF ac, where live = ?live and items = ?items and others = "[sampleMember]"]
    unfolding adoptionPass_def by (simp add: sampleFacts_def)
  with ac adoptionPass_asks show ?thesis by auto
qed

end
