(* ===== verification/MigrateSafety.thy ===== *)
theory MigrateSafety
  imports MigrateRun MigrateContract
begin

text \<open>
  Safety of the migration tool: when it changes anything at all, that no cluster is adopted without a
  backup, the order of the steps of an adoption, and that its polling loops end.
\<close>

section \<open>Plans along the run\<close>

definition isClusterObj :: "object \<Rightarrow> bool" where
  "isClusterObj x = (case x of OCluster _ \<Rightarrow> True | _ \<Rightarrow> False)"

lemma isClusterObj_simps [simp]:
  "isClusterObj (OCluster c)" "\<not> isClusterObj (OSecret b)" "\<not> isClusterObj (OSnapshot s)" "\<not> isClusterObj (OMember m)"
  by (simp_all add: isClusterObj_def)

definition planKey :: "ResourcePlan \<Rightarrow> string" where
  "planKey p = rp_Namespace p @ ''/'' @ rp_SourceName p"

text \<open>An adoption is of a discovered cluster and its target carries that cluster's name; no other plan that
  creates something creates a cluster.\<close>

definition planWf :: "discovered \<Rightarrow> ResourcePlan \<Rightarrow> bool" where
  "planWf d p \<longleftrightarrow>
     (rp_Action p = ActionAdopt \<longrightarrow> rp_SourceKind p = ''EtcdCluster'' \<and> clusterOf d p \<noteq> None \<and> rp_Adoption p \<noteq> None \<and>
        (\<exists>c. rp_Target p = Some (OCluster c) \<and> ecName c = rp_SourceName p \<and> ecNamespace c = rp_Namespace p)) \<and>
     (rp_Action p = ActionCreate \<longrightarrow> (\<exists>t. rp_Target p = Some t \<and> \<not> isClusterObj t)) \<and>
     list_all (\<lambda>x. \<not> isClusterObj x) (rp_Extras p)"

text \<open>What the translation steps leave alone.\<close>

lemma translatePodTemplate_keeps:
  "rp_Extras (snd (translatePodTemplate pt st)) = rp_Extras (snd st)"
  "rp_SourceKind (snd (translatePodTemplate pt st)) = rp_SourceKind (snd st)"
  "rp_SourceName (snd (translatePodTemplate pt st)) = rp_SourceName (snd st)"
  "rp_Namespace (snd (translatePodTemplate pt st)) = rp_Namespace (snd st)"
  by (simp_all add: translatePodTemplate_def Let_def split: prod.split)

lemma translateAuth_keeps:
  "rp_SourceKind (snd (translateAuth rnd sec opts st)) = rp_SourceKind (snd st)"
  "rp_SourceName (snd (translateAuth rnd sec opts st)) = rp_SourceName (snd st)"
  "rp_Namespace (snd (translateAuth rnd sec opts st)) = rp_Namespace (snd st)"
  by (simp_all add: translateAuth_def Let_def split: prod.split option.split)

lemma translateAuth_extras:
  "list_all (\<lambda>x. \<not> isClusterObj x) (rp_Extras (snd st)) \<Longrightarrow>
   list_all (\<lambda>x. \<not> isClusterObj x) (rp_Extras (snd (translateAuth rnd sec opts st)))"
  by (auto simp: translateAuth_def Let_def split: prod.split option.split)

lemma translatedCluster_keeps:
  "list_all (\<lambda>x. \<not> isClusterObj x) (rp_Extras (snd (translatedCluster rnd name ns spec opts)))"
  "rp_SourceKind (snd (translatedCluster rnd name ns spec opts)) = ''EtcdCluster''"
  "rp_SourceName (snd (translatedCluster rnd name ns spec opts)) = name"
  "rp_Namespace (snd (translatedCluster rnd name ns spec opts)) = ns"
  by (simp_all add: translatedCluster_def Let_def case_prod_beta translatePodTemplate_keeps translateAuth_keeps translateAuth_extras
      split: option.split)

lemma carryPeerAutoTLS_keeps:
  "rp_Extras (snd (carryPeerAutoTLS ms st)) = rp_Extras (snd st)"
  "rp_SourceKind (snd (carryPeerAutoTLS ms st)) = rp_SourceKind (snd st)"
  "rp_SourceName (snd (carryPeerAutoTLS ms st)) = rp_SourceName (snd st)"
  "rp_Namespace (snd (carryPeerAutoTLS ms st)) = rp_Namespace (snd st)"
  by (simp_all add: carryPeerAutoTLS_def split: prod.split option.split)

lemma BuildAdoption_keeps:
  fixes rnd name ns spec facts opts
  defines "p \<equiv> BuildAdoption rnd name ns spec facts opts"
  shows "list_all (\<lambda>x. \<not> isClusterObj x) (rp_Extras p) \<and> rp_SourceKind p = ''EtcdCluster'' \<and> rp_SourceName p = name \<and> rp_Namespace p = ns"
  unfolding p_def BuildAdoption_def TranslateCluster_cases
  by (simp add: Let_def case_prod_beta failPlan_def carryPeerAutoTLS_keeps translatedCluster_keeps split: option.split object.split)

lemma BuildAdoption_wf:
  assumes "c \<in> set (di_Clusters d)"
  shows "planWf d (BuildAdoption rnd (lk_Name c) (lk_Namespace c) spec facts opts)"
proof -
  let ?p = "BuildAdoption rnd (lk_Name c) (lk_Namespace c) spec facts opts"
  note k = BuildAdoption_keeps [of rnd "lk_Name c" "lk_Namespace c" spec facts opts]
  have "clusterOf d ?p \<noteq> None"
    using assms k by (auto simp: clusterOf_def find_None_iff lkKey_def)
  with k BuildAdoption_cases [of rnd "lk_Name c" "lk_Namespace c" spec facts opts] show ?thesis
    unfolding planWf_def by (auto simp: adoptedCluster_fields)
qed

lemma buildPlans_wf: "list_all (planWf d) (buildPlans W d fs opts)"
proof -
  have "planWf d (clusterPlan W fs opts i c)" if "c \<in> set (di_Clusters d)" for i c
    using BuildAdoption_wf [OF that] by (auto simp: clusterPlan_def planWf_def split: option.split)
  moreover have "planWf d (TranslateBackup n ns b)" for n ns b
    by (auto simp: planWf_def TranslateBackup_def Let_def split: sum.split)
  moreover have "planWf d (TranslateSchedule y n ns b)" for y n ns b
    by (auto simp: planWf_def TranslateSchedule_def scheduleRBAC_def isClusterObj_def Let_def split: sum.split)
  ultimately show ?thesis
    by (auto simp: buildPlans_def list_all_iff enumerate_eq_zip dest: set_zip_rightD)
qed

section \<open>When the tool changes anything\<close>

text \<open>
  What the run has seen: the operator Deployments that are absent, or scaled to zero with no Pod left under
  their selector; the Deployment scaled to zero that was read last, with its selector; whether the
  confirmation was given; the snapshot Jobs seen complete.
\<close>

record migView =
  mv_down :: "nsname set"
  mv_dep :: "(nsname \<times> string) option"
  mv_ok :: bool
  mv_saved :: "string set"

definition confirms :: "string \<Rightarrow> bool" where
  "confirms line = (map lowerChar (trimSpace line) \<in> {''y'', ''yes''})"

definition allowed :: "Config \<Rightarrow> migView \<Rightarrow> bool" where
  "allowed cfg s \<longleftrightarrow> cfg_Apply cfg \<and> (cfg_Yes cfg \<or> mv_ok s) \<and>
     (cfg_SkipControllerCheck cfg \<or> {refOf (cfg_LegacyController cfg), refOf (cfg_NewController cfg)} \<subseteq> mv_down s)"

definition seeDeployment :: "nsname \<Rightarrow> goerror + Deployment \<Rightarrow> migView \<Rightarrow> migView" where
  "seeDeployment k r s =
     (case r of
        Inl err \<Rightarrow> s\<lparr>mv_dep := None, mv_down := (if IsNotFound err then insert k (mv_down s) else mv_down s)\<rparr>
      | Inr dep \<Rightarrow> s\<lparr>mv_dep := (if dep_Replicas dep = Some 0 then
          (case dep_Selector dep of Inl _ \<Rightarrow> None | Inr sel \<Rightarrow> Some (k, sel)) else None)\<rparr>)"

definition seePods :: "string \<Rightarrow> string \<Rightarrow> goerror + Pod list \<Rightarrow> migView \<Rightarrow> migView" where
  "seePods ns sel r s =
     (case (r, mv_dep s) of
        (Inr pods, Some (k, sel')) \<Rightarrow>
          if nn_namespace k = ns \<and> sel' = sel \<and> \<not> list_ex podStillUp pods then s\<lparr>mv_down := insert k (mv_down s)\<rparr> else s
      | _ \<Rightarrow> s)"

definition jobKeyOf :: "EtcdCluster \<Rightarrow> string" where
  "jobKeyOf c = ecNamespace c @ ''/'' @ SnapshotJobName (ecName c)"

definition writeMon :: "Config \<Rightarrow> migView \<Rightarrow> cwrite \<Rightarrow> migView option" where
  "writeMon cfg s w =
     (if \<not> allowed cfg s then None
      else case w of
          WCreate (OCluster c) \<Rightarrow> if cfg_SkipBackup cfg \<or> jobKeyOf c \<in> mv_saved s then Some s else None
        | _ \<Rightarrow> Some s)"

definition migMon :: "Config \<Rightarrow> migView \<Rightarrow> cevent \<Rightarrow> migView option" where
  "migMon cfg s e =
     (case e of
        CGetDeployment k r \<Rightarrow> Some (seeDeployment k r s)
      | CListPods ns sel r \<Rightarrow> Some (seePods ns sel r s)
      | CReadLine r \<Rightarrow> Some (s\<lparr>mv_ok := (case r of Inl _ \<Rightarrow> False | Inr line \<Rightarrow> confirms line)\<rparr>)
      | CGetJob k r \<Rightarrow> Some (case r of Inr job \<Rightarrow> if jobSucceeded job then s\<lparr>mv_saved := insert (refText k) (mv_saved s)\<rparr> else s | Inl _ \<Rightarrow> s)
      | CEtcd c op r \<Rightarrow> if allowed cfg s then Some s else None
      | CWrite w r \<Rightarrow> writeMon cfg s w
      | _ \<Rightarrow> Some s)"

definition migQuiet :: "cevent \<Rightarrow> bool" where
  "migQuiet e = (case e of CGetDeployment k r \<Rightarrow> False | CListPods ns sel r \<Rightarrow> False | CReadLine r \<Rightarrow> False | CGetJob k r \<Rightarrow> False
     | CEtcd c op r \<Rightarrow> False | CWrite w r \<Rightarrow> False | _ \<Rightarrow> True)"

interpretation migM: monitor "migMon cfg" migQuiet for cfg
  by unfold_locales (auto simp: migMon_def migQuiet_def split: cevent.splits)

text \<open>Events that change nothing, and events that keep the permission and the backups.\<close>

definition readsOnly :: "cevent \<Rightarrow> bool" where
  "readsOnly e = (case e of CEtcd c op r \<Rightarrow> False | CWrite w r \<Rightarrow> False | CReadLine r \<Rightarrow> False | _ \<Rightarrow> True)"

definition harmless :: "cevent \<Rightarrow> bool" where
  "harmless e = (case e of CReadLine r \<Rightarrow> False | CWrite (WCreate (OCluster c)) r \<Rightarrow> False | _ \<Rightarrow> True)"

text \<open>The view grows: nothing that was seen down or saved is forgotten.\<close>

definition grows :: "migView \<Rightarrow> migView \<Rightarrow> bool" where
  "grows s s' \<longleftrightarrow> mv_down s \<subseteq> mv_down s' \<and> mv_ok s' = mv_ok s \<and> mv_saved s \<subseteq> mv_saved s'"

lemma grows_refl [simp]: "grows s s"
  by (simp add: grows_def)

lemma grows_save [simp]: "grows s (s\<lparr>mv_saved := insert k (mv_saved s)\<rparr>)"
  by (auto simp: grows_def)

lemma grows_trans: "grows s t \<Longrightarrow> grows t u \<Longrightarrow> grows s u"
  by (auto simp: grows_def)

lemma allowed_grows: "allowed cfg s \<Longrightarrow> grows s s' \<Longrightarrow> allowed cfg s'"
  by (auto simp: allowed_def grows_def)

lemma grows_see: "grows s (seeDeployment k r s)" "grows s (seePods ns sel r2 s)"
  by (auto simp: grows_def seeDeployment_def seePods_def split: sum.split option.split)

lemma migMon_reads: "readsOnly e \<Longrightarrow> \<exists>s'. migMon cfg s e = Some s' \<and> grows s s'"
  by (cases e) (simp_all add: readsOnly_def migMon_def grows_see, auto simp: grows_def split: sum.split)

lemma migMon_harmless: "harmless e \<Longrightarrow> allowed cfg s \<Longrightarrow> \<exists>s'. migMon cfg s e = Some s' \<and> grows s s'"
proof (cases e)
  case (CWrite w r)
  then show "harmless e \<Longrightarrow> allowed cfg s \<Longrightarrow> ?thesis"
    by (auto simp: migMon_def writeMon_def harmless_def split: cwrite.split object.split)
qed (simp_all add: harmless_def migMon_def grows_see, auto simp: grows_def split: sum.split)

lemma emits_grows:
  assumes "\<And>s e. P e \<Longrightarrow> I s \<Longrightarrow> \<exists>s'. migMon cfg s e = Some s' \<and> grows s s'"
    and "\<And>s s'. I s \<Longrightarrow> grows s s' \<Longrightarrow> I s'" and "emits P m" "I s"
  shows "safe (migMon cfg) s m (\<lambda>_ s'. grows s s')"
  by (rule safe_weaken [OF emits_invariant [where I = "\<lambda>t. I t \<and> grows s t", OF assms(3)]])
    (use assms(1,2,4) in \<open>auto intro: grows_trans, blast intro: grows_trans\<close>)

lemma reads_safe: "emits readsOnly m \<Longrightarrow> safe (migMon cfg) s m (\<lambda>_ s'. grows s s')"
  by (rule emits_grows [where P = readsOnly and I = "\<lambda>_. True"]) (auto simp: migMon_reads)

lemma harmless_safe: "emits harmless m \<Longrightarrow> allowed cfg s \<Longrightarrow> safe (migMon cfg) s m (\<lambda>_ s'. grows s s')"
  by (rule emits_grows [where P = harmless and I = "allowed cfg"]) (auto simp: migMon_harmless allowed_grows)

lemma readsOnly_simps [simp]:
  "readsOnly (CSetup q0 r0)" "readsOnly (CGetDeployment k r1)" "readsOnly (CListPods ns sel r2)" "readsOnly (CGetPVC k r3)"
  "readsOnly (CGetSecret k r4)" "readsOnly (CListLegacy g ns r5)" "readsOnly (CForwardPorts f)" "readsOnly (CGetPorts r6)"
  "readsOnly CStopForward" "readsOnly (CDial c r0)" "readsOnly (CMemberList c r7)" "readsOnly (CAuthStatus c r8)"
  "readsOnly (CGetObject x r0)" "readsOnly (CGetCluster k r9)" "readsOnly (CGetMember k r10)" "readsOnly (CGetService k r11)"
  "readsOnly (CGetPod k r12)" "readsOnly (CGetJob k r13)" "readsOnly (CGetStatefulSet k r0)" "readsOnly (CWait dl iv w)" "readsOnly (CPrint t)"
  by (simp_all add: readsOnly_def)

lemma reads_harmless: "readsOnly e \<Longrightarrow> harmless e"
  by (cases e) (simp_all add: readsOnly_def harmless_def)

lemma harmless_writes [simp]:
  "harmless (CWrite (WPatchPod a b) r)" "harmless (CWrite (WPatchPVC c d) r)" "harmless (CWrite (WUpdateService s) r)"
  "harmless (CWrite (WStatusCluster cl) r)" "harmless (CWrite (WStatusMember m) r)" "harmless (CWrite (WCreateService s) r)"
  "harmless (CWrite (WCreateJob j) r)" "harmless (CWrite (WDeleteLegacy rf pr) r)" "harmless (CEtcd c2 op r)"
  "\<not> isClusterObj x \<Longrightarrow> harmless (CWrite (WCreate x) r)"
  "harmless (CWrite (WDelete kind key pr) r)"
  by (auto simp: harmless_def isClusterObj_def split: object.split)

lemma awaitForward_reads [emits_rules]: "emits readsOnly (awaitForward e)"
  unfolding awaitForward_def by (cases e) (auto intro!: emits_rules)

lemma ForwardToPod_reads [emits_rules]: "emits readsOnly (ForwardToPod W ns pod port)"
  unfolding ForwardToPod_def by (intro emits_rules) simp_all

lemma secretKey_reads [emits_rules]: "emits readsOnly (secretKey W ns name key)"
  unfolding secretKey_def by (intro emits_rules) simp_all

lemma legacyTLS_reads [emits_rules]: "emits readsOnly (legacyOperatorTLSConfig W lc)"
  unfolding legacyOperatorTLSConfig_def Let_def by (intro emits_rules)

lemma etcdPods_reads [emits_rules]: "emits readsOnly (etcdPods W lc)"
  unfolding etcdPods_def by (intro emits_rules) simp_all

lemma withLegacyEtcd_emits:
  assumes "\<And>e. readsOnly e \<Longrightarrow> P e" and "\<And>c. emits P (body c)"
  shows "emits P (withLegacyEtcd W lc pod body)"
proof -
  note P = emits_mono [OF _ assms(1)]
  show ?thesis
    unfolding withLegacyEtcd_def Let_def
    by (intro emits_rules assms(2) P [OF ForwardToPod_reads] P [OF legacyTLS_reads]) (simp_all add: assms(1))
qed

lemma inspectCluster_reads [emits_rules]: "emits readsOnly (inspectCluster W lc)"
  unfolding inspectCluster_def
  by (intro emits_rules withLegacyEtcd_emits) simp_all

lemma clients_reads: "emits readsOnly (clients W)"
  unfolding clients_def by (intro emits_rules) simp_all

lemma discover_reads: "emits readsOnly (discover W ns)"
  unfolding discover_def listLegacy_def by (intro emits_rules) simp_all

lemma verify_reads: "emits readsOnly (verifyAdoptionPVCs W p)"
  unfolding verifyAdoptionPVCs_def Let_def by (intro emits_rules) simp_all

lemma markOne_reads: "emits readsOnly (markOne W p)"
  unfolding markOne_def by (intro emits_rules) simp_all

lemma planAll_reads: "emits readsOnly (planAll W cfg d fs)"
  unfolding planAll_def markExisting_def by (intro emits_rules verify_reads markOne_reads)

lemma emits_case_wake [emits_rules]:
  "(\<And>e. w = CtxDone e \<Longrightarrow> emits P (f e)) \<Longrightarrow> (w = DeadlineFired \<Longrightarrow> emits P m) \<Longrightarrow> (w = Tick \<Longrightarrow> emits P n) \<Longrightarrow>
   emits P (case w of CtxDone e \<Rightarrow> f e | DeadlineFired \<Rightarrow> m | Tick \<Rightarrow> n)"
  by (cases w) auto

lemma poll_emits:
  assumes "emits P look" and "\<And>d i w. P (CWait d i w)"
  shows "emits P (pollFor W look err timeout interval)"
proof -
  have "emits P (poll W look err deadline interval n)" for deadline n
  proof (induction n)
    case (Suc n)
    then show ?case unfolding poll.simps by (intro emits_rules assms)
  qed (simp add: emits_return)
  then show ?thesis unfolding pollFor_def by (intro emits_rules)
qed

subsection \<open>The gate and the confirmation\<close>

lemma controllerPods_safe:
  assumes "mv_dep s = Some (ref, sel)"
  shows "safe (migMon cfg) s (controllerPods W ref sel) (\<lambda>r s'. grows s s' \<and> (\<not> isl r \<longrightarrow> ref \<in> mv_down s'))"
  unfolding controllerPods_def
  by (rule safe_bind_single [OF single_ccalls(3)], simp add: migMon_def, rule safe_return)
    (use assms in \<open>auto simp: seePods_def grows_def find_None_iff list_ex_iff split: sum.splits option.splits\<close>)

lemma checkControllerDown_safe:
  "safe (migMon cfg) s (checkControllerDown W ref) (\<lambda>r s'. grows s s' \<and> (\<not> isl r \<longrightarrow> ref \<in> mv_down s'))"
  unfolding checkControllerDown_def
  apply (rule safe_bind_single [OF single_ccalls(2)])
  subgoal for g
    by (auto simp: migMon_def seeDeployment_def grows_def split: sum.split intro!: safe_return safe_weaken [OF controllerPods_safe])
  done

lemma forE_gate:
  "safe (migMon cfg) s (forE (checkControllerDown W) refs) (\<lambda>r s'. grows s s' \<and> (\<not> isl r \<longrightarrow> set refs \<subseteq> mv_down s'))"
proof (induction refs arbitrary: s)
  case (Cons ref refs)
  show ?case unfolding forE.simps
    by (rule safe_bindE [OF checkControllerDown_safe], simp)
      (rule safe_weaken [OF Cons.IH], auto simp: grows_def)
qed (auto intro: safe_return)

lemma gate_safe:
  "safe (migMon cfg) s (gate W cfg) (\<lambda>r s'. grows s s' \<and> (\<not> isl r \<longrightarrow> cfg_SkipControllerCheck cfg \<or>
     {refOf (cfg_LegacyController cfg), refOf (cfg_NewController cfg)} \<subseteq> mv_down s'))"
  unfolding gate_def checkControllersDown_def
  by (intro safe_if safe_return safe_weaken [OF forE_gate]) auto

lemma confirm_safe:
  "safe (migMon cfg) s (confirm W prompt) (\<lambda>ok s'. s' = s\<lparr>mv_ok := ok\<rparr>)"
  unfolding confirm_def
  by (intro io_rules) (auto simp: migMon_def confirms_def intro!: io_rules split: sum.split)

subsection \<open>The phases\<close>

lemma mapIO_grows:
  assumes f: "\<And>x s. x \<in> set xs \<Longrightarrow> allowed cfg s \<Longrightarrow> safe (migMon cfg) s (f x) (\<lambda>y s'. grows s s' \<and> R y s')"
    and R: "\<And>y s s'. R y s \<Longrightarrow> grows s s' \<Longrightarrow> R y s'" and s: "allowed cfg s"
  shows "safe (migMon cfg) s (mapIO f xs) (\<lambda>ys s'. grows s s' \<and> list_all (\<lambda>y. R y s') ys)"
  using f s
proof (induction xs arbitrary: s)
  case Nil
  then show ?case by (simp add: safe_return)
next
  case (Cons x xs)
  have IH: "safe (migMon cfg) t (mapIO f xs) (\<lambda>ys s'. grows t s' \<and> list_all (\<lambda>y. R y s') ys)" if "allowed cfg t" for t
    using Cons.IH [OF Cons.prems(1) that] by simp
  show ?case unfolding mapIO.simps
    by (rule safe_bind [OF Cons.prems(1) [of x s]], simp, fact Cons.prems(2), rule safe_bind [OF IH])
      (use Cons.prems(2) R in \<open>auto intro!: safe_return intro: allowed_grows grows_trans\<close>)
qed

lemma planWf_fail [simp]:
  "planWf d p \<Longrightarrow> rp_Action p = ActionAdopt \<Longrightarrow> planWf d (addErrors es (p\<lparr>rp_Action := ActionError\<rparr>))"
  "planWf d p \<Longrightarrow> rp_Action p = ActionAdopt \<Longrightarrow> planWf d (addErrors es (p\<lparr>rp_Action := ActionError, rp_DeleteRef := None\<rparr>))"
  by (auto simp: planWf_def)

lemma disableLegacyAuth_harmless: "emits harmless (disableLegacyAuth W lc)"
  unfolding disableLegacyAuth_def findRunningEtcdPod_def
  by (intro emits_rules withLegacyEtcd_emits emits_mono [OF etcdPods_reads reads_harmless]) (simp_all add: reads_harmless)

lemma disableAuth_safe:
  assumes "allowed cfg s" and "list_all (planWf d) plans"
  shows "safe (migMon cfg) s (disableAuthForAdoptions W d fs plans) (\<lambda>ps s'. grows s s' \<and> list_all (planWf d) ps)"
  unfolding disableAuthForAdoptions_def
proof (rule mapIO_grows [where R = "\<lambda>p _. planWf d p"])
  fix p t
  assume p: "p \<in> set plans" and t: "allowed cfg t"
  with assms(2) have wf: "planWf d p" by (simp add: list_all_iff)
  show "safe (migMon cfg) t
     (if \<not> isAdoption p \<or> \<not> cf_AuthEnabled (factsOf fs (rp_Namespace p @ ''/'' @ rp_SourceName p)) then return p
      else do {
         r \<leftarrow> disableLegacyAuth W (case clusterOf d p of None \<Rightarrow> zeroLegacyCluster | Some lc \<Rightarrow> lc);
         return (case r of
           Inr _ \<Rightarrow> p
         | Inl err \<Rightarrow> addErrors [''auth disable failed: '' @ err_msg err] (p\<lparr>rp_Action := ActionError\<rparr>))
       }) (\<lambda>q s'. grows t s' \<and> planWf d q)"
    using wf by (intro safe_if safe_return safe_bind [OF harmless_safe [OF disableLegacyAuth_harmless t]])
      (auto simp: isAdoption_def simp del: plan_add_simps split: sum.split)
qed (use assms in auto)

abbreviation (input) saved :: "string \<Rightarrow> migView \<Rightarrow> bool" where
  "saved key s \<equiv> key @ ''-migration-snapshot'' \<in> mv_saved s"

text \<open>A monitor whose states only grow and that lets a wait pass: what a polling loop saw last, it keeps.\<close>

locale patient =
  fixes step :: "'s \<Rightarrow> cevent \<Rightarrow> 's option" and le :: "'s \<Rightarrow> 's \<Rightarrow> bool"
  assumes le_refl: "le s s" and le_trans: "le s t \<Longrightarrow> le t u \<Longrightarrow> le s u" and wait: "step s (CWait d i r) = Some s"
begin

lemma poll_safe:
  assumes look: "\<And>s. I s \<Longrightarrow> safe step s look (\<lambda>r s'. le s s' \<and> (\<forall>x. r = Some x \<longrightarrow> \<not> isl x \<longrightarrow> K s'))"
    and I: "\<And>s s'. I s \<Longrightarrow> le s s' \<Longrightarrow> I s'" and "I s"
  shows "safe step s (pollFor W look err timeout interval) (\<lambda>r s'. le s s' \<and> (\<not> isl r \<longrightarrow> K s'))"
proof -
  have "safe step s (poll W look err deadline interval n) (\<lambda>r s'. le s s' \<and> (\<not> isl r \<longrightarrow> K s'))" if "I s" for s deadline n
    using that
  proof (induction n arbitrary: s)
    case (Suc n)
    have more: "safe step t (case w of CtxDone e \<Rightarrow> return (Inl e) | DeadlineFired \<Rightarrow> return (Inl err)
          | Tick \<Rightarrow> poll W look err deadline interval n) (\<lambda>r s'. le s s' \<and> (\<not> isl r \<longrightarrow> K s'))" if "le s t" for w t
      using Suc.IH [OF I [OF Suc.prems that]] that
      by (auto intro!: safe_return elim: safe_weaken intro: le_trans split: wake.split)
    show ?case
      unfolding poll.simps
      by (rule safe_bind [OF look [OF Suc.prems]]) (auto intro!: io_rules more simp: wait split: option.split)
  qed (simp add: safe_return le_refl)
  with assms(3) show ?thesis unfolding pollFor_def by (intro safe_bind_cliNow)
qed

end

interpretation migP: patient "migMon cfg" grows for cfg
  by unfold_locales (auto simp: migMon_def intro: grows_trans)

lemma jobDecided_succeeded: "jobDecided cs = Some x \<Longrightarrow> \<not> isl x \<Longrightarrow> list_ex (\<lambda>c. jc_Type c = ''Complete'' \<and> jc_Status c = ConditionTrue) cs"
  by (induction cs) (auto split: if_splits)

lemma waitForJob_safe:
  "safe (migMon cfg) s (waitForJob W key timeout) (\<lambda>r s'. grows s s' \<and> (\<not> isl r \<longrightarrow> refText key \<in> mv_saved s'))"
  unfolding waitForJob_def
proof (rule migP.poll_safe [where I = "\<lambda>_. True"])
  fix t
  show "safe (migMon cfg) t (State_Monad.bind (cliJob W key) (\<lambda>g. return (case g of
      Inl err \<Rightarrow> Some (Inl (wrapf ''read snapshot Job'' err)) | Inr job \<Rightarrow> jobDecided (job_Conditions job))))
      (\<lambda>r s'. grows t s' \<and> (\<forall>x. r = Some x \<longrightarrow> \<not> isl x \<longrightarrow> refText key \<in> mv_saved s'))"
    by (rule safe_bind_single [OF single_ccalls(12)])
      (auto simp: migMon_def grows_def jobSucceeded_def dest: jobDecided_succeeded split: sum.split intro!: safe_return)
qed auto

lemma writeTolerant_emits [emits_rules]: "(\<And>r. P (CWrite w r)) \<Longrightarrow> emits P (writeTolerant W ok msg w)"
  unfolding writeTolerant_def by (intro emits_rules)

lemma waitJobGone_reads: "emits readsOnly (waitJobGone W key timeout)"
  unfolding waitJobGone_def by (intro poll_emits emits_rules) simp_all

lemma backupOne_safe:
  assumes "allowed cfg s"
  shows "safe (migMon cfg) s (backupOne W cfg lc dest img) (\<lambda>r s'. grows s s' \<and> (\<not> isl r \<longrightarrow> saved (lkKey lc) s'))"
proof -
  let ?key = "\<lparr>nn_namespace = lk_Namespace lc, nn_name = SnapshotJobName (lk_Name lc)\<rparr>"
  have key: "refText ?key = lkKey lc @ ''-migration-snapshot''"
    by (simp add: refText_def lkKey_def SnapshotJobName_def)
  have launch: "safe (migMon cfg) t (bindE (wrapE m (failing (cliWrite W (WCreateJob j)))) (\<lambda>_. waitForJob W ?key tmo))
      (\<lambda>r s'. grows s s' \<and> (\<not> isl r \<longrightarrow> saved (lkKey lc) s'))" if "grows s t" for t m j tmo
  proof (rule safe_bindE [OF harmless_safe])
    show "emits harmless (wrapE m (failing (cliWrite W (WCreateJob j))))" by (intro emits_rules) simp
    show "allowed cfg t" using assms that by (rule allowed_grows)
    show "safe (migMon cfg) u (waitForJob W ?key tmo) (\<lambda>r s'. grows s s' \<and> (\<not> isl r \<longrightarrow> saved (lkKey lc) s'))"
      if "grows t u" for u
      by (rule safe_weaken [OF waitForJob_safe]) (use that \<open>grows s t\<close> key in \<open>auto intro: grows_trans\<close>)
  qed (use that in \<open>auto intro: grows_trans\<close>)
  have again: "safe (migMon cfg) t (bindE (writeTolerant W IsNotFound m1 (WDelete ''Job'' ?key Foreground))
      (\<lambda>_. bindE (waitJobGone W ?key dl) (\<lambda>_. bindE (wrapE m (failing (cliWrite W (WCreateJob j)))) (\<lambda>_. waitForJob W ?key tmo))))
      (\<lambda>r s'. grows s s' \<and> (\<not> isl r \<longrightarrow> saved (lkKey lc) s'))" if "grows s t" for t m1 m j tmo dl
  proof (rule safe_bindE [OF harmless_safe])
    show "emits harmless (writeTolerant W IsNotFound m1 (WDelete ''Job'' ?key Foreground))" by (intro emits_rules) simp
    show "allowed cfg t" using assms that by (rule allowed_grows)
  qed (use that in \<open>auto intro!: safe_bindE [OF reads_safe [OF waitJobGone_reads]] launch intro: grows_trans\<close>)
  show ?thesis
    unfolding backupOne_def Let_def
    apply (rule safe_bind_single [OF single_ccalls(12)])
    subgoal for g
      by (cases g) (auto simp: migMon_def key intro!: safe_return launch again)
    done
qed

lemma resolveAgentImage_reads: "emits readsOnly (resolveAgentImage W cfg)"
  unfolding resolveAgentImage_def Let_def case_prod_beta by (intro emits_rules) simp_all

definition planSaved :: "discovered \<Rightarrow> ResourcePlan \<Rightarrow> migView \<Rightarrow> bool" where
  "planSaved d p s \<longleftrightarrow> planWf d p \<and> (rp_Action p = ActionAdopt \<longrightarrow> saved (planKey p) s)"

lemma clusterOf_key: "clusterOf d p = Some lc \<Longrightarrow> lkKey lc = planKey p"
  by (auto simp: clusterOf_def planKey_def find_Some_iff)

lemma runBackups_safe:
  assumes "allowed cfg s" and "list_all (planWf d) plans"
  shows "safe (migMon cfg) s (runBackups W cfg d plans)
     (\<lambda>r s'. grows s s' \<and> (\<forall>ps. r = Inr ps \<longrightarrow> list_all (\<lambda>p. planSaved d p s') ps))"
proof -
  have one: "safe (migMon cfg) t
     (if \<not> isAdoption p then return p
      else case clusterOf d p of None \<Rightarrow> return p
        | Some lc \<Rightarrow> do { r \<leftarrow> backupOne W cfg lc (backupDestination cfg) img;
             return (case r of Inr _ \<Rightarrow> p
               | Inl err \<Rightarrow> addErrors [''backup failed: '' @ err_msg err] (p\<lparr>rp_Action := ActionError, rp_DeleteRef := None\<rparr>)) })
     (\<lambda>q s'. grows t s' \<and> planSaved d q s')" if "p \<in> set plans" "allowed cfg t" for p t img
  proof -
    from that assms(2) have wf: "planWf d p" by (simp add: list_all_iff)
    then show ?thesis
      by (intro safe_if safe_case_option safe_return safe_bind [OF backupOne_safe [OF that(2)]])
        (auto simp: planSaved_def isAdoption_def planWf_def clusterOf_key split: sum.split)
  qed
  show ?thesis
    unfolding runBackups_def
  proof (rule safe_bindE [OF reads_safe [OF resolveAgentImage_reads]])
    fix img t
    assume t: "grows s t"
    show "safe (migMon cfg) t (State_Monad.bind (mapIO (\<lambda>p. if \<not> isAdoption p then return p
        else case clusterOf d p of None \<Rightarrow> return p
        | Some lc \<Rightarrow> do { r \<leftarrow> backupOne W cfg lc (backupDestination cfg) img;
             return (case r of Inr _ \<Rightarrow> p
               | Inl err \<Rightarrow> addErrors [''backup failed: '' @ err_msg err] (p\<lparr>rp_Action := ActionError, rp_DeleteRef := None\<rparr>)) }) plans)
        (\<lambda>ps. return (Inr ps)))
      (\<lambda>r s'. grows s s' \<and> (\<forall>ps. r = Inr ps \<longrightarrow> list_all (\<lambda>p. planSaved d p s') ps))"
      by (rule safe_bind [OF mapIO_grows [where R = "planSaved d", OF one]])
        (use t assms(1) in \<open>auto simp: planSaved_def grows_def intro!: safe_return intro: allowed_grows\<close>)
  qed auto
qed

text \<open>What a computation returns, whatever the replies.\<close>

definition yields :: "('e, 'a) io \<Rightarrow> ('a \<Rightarrow> bool) \<Rightarrow> bool" where
  "yields m V \<longleftrightarrow> (\<forall>h. V (fst (run_state m h)))"

lemma yields_return [simp]: "yields (return a) V = V a"
  by (simp add: yields_def)

lemma yields_bind: "(\<And>a. yields (f a) V) \<Longrightarrow> yields (State_Monad.bind m f) V"
  by (simp add: yields_def State_Monad.run_state_bind case_prod_beta)

lemma yields_bind2: "yields m R \<Longrightarrow> (\<And>a. R a \<Longrightarrow> yields (f a) V) \<Longrightarrow> yields (State_Monad.bind m f) V"
  by (simp add: yields_def State_Monad.run_state_bind case_prod_beta)

lemma yields_mapIO: "(\<And>x. x \<in> set xs \<Longrightarrow> yields (f x) R) \<Longrightarrow> yields (mapIO f xs) (list_all R)"
  by (induction xs) (auto intro!: yields_bind2 [where R = R] yields_bind2 [where R = "list_all R"])

lemma yields_bindE: "yields m (\<lambda>r. \<forall>a. r = Inr a \<longrightarrow> R a) \<Longrightarrow> (\<And>e. V (Inl e)) \<Longrightarrow> (\<And>a. R a \<Longrightarrow> yields (f a) V) \<Longrightarrow> yields (bindE m f) V"
  unfolding bindE_def by (erule yields_bind2) (auto split: sum.split)

lemma yields_mapE:
  "(\<And>x. x \<in> set xs \<Longrightarrow> yields (f x) (\<lambda>r. \<forall>y. r = Inr y \<longrightarrow> R y)) \<Longrightarrow> yields (mapE f xs) (\<lambda>r. \<forall>ys. r = Inr ys \<longrightarrow> list_all R ys)"
  by (induction xs) (auto intro!: yields_bindE [where R = R] yields_bindE [where R = "list_all R"])

lemma safe_yields: "safe step s m Q \<Longrightarrow> yields m V \<Longrightarrow> safe step s m (\<lambda>a s'. Q a s' \<and> V a)"
  unfolding safe_def yields_def by (metis fst_conv)

lemma verify_wf: "planWf d p \<Longrightarrow> yields (verifyAdoptionPVCs W p) (planWf d)"
  unfolding verifyAdoptionPVCs_def Let_def
  by (auto intro!: yields_bind simp: planWf_def clusterOf_def split: option.split)

lemma markOne_wf: "planWf d p \<Longrightarrow> yields (markOne W p) (\<lambda>r. \<forall>q. r = Inr q \<longrightarrow> planWf d q)"
  unfolding markOne_def
  by (auto intro!: yields_bind simp: planWf_def clusterOf_def split: option.split)

lemma planAll_wf: "yields (planAll W cfg d fs) (\<lambda>r. \<forall>ps. r = Inr ps \<longrightarrow> list_all (planWf d) ps)"
  unfolding planAll_def markExisting_def
proof (rule yields_bind2 [OF yields_mapIO [where R = "planWf d"]])
  fix p
  assume "p \<in> set (buildPlans W d fs \<lparr>to_VersionOverride = cfg_Version cfg, to_AuthSecretName = cfg_AuthSecret cfg\<rparr>)"
  with buildPlans_wf have "planWf d p" by (auto simp: list_all_iff)
  then show "yields (if rp_Action p = ActionAdopt then verifyAdoptionPVCs W p else return p) (planWf d)"
    by (auto intro: verify_wf)
next
  fix ps
  assume "list_all (planWf d) ps"
  then have "yields (mapE (markOne W) ps) (\<lambda>r. \<forall>qs. r = Inr qs \<longrightarrow> list_all (planWf d) qs)"
    by (intro yields_mapE markOne_wf) (simp add: list_all_iff)
  then show "yields (bindE (mapE (markOne W) ps) (\<lambda>ps'. return (Inr (if \<not> backupConfigured cfg \<and> \<not> cfg_SkipBackup cfg
       then map (\<lambda>p. if rp_Action p = ActionAdopt then addWarnings [noDestination] p else p) ps' else ps'))))
     (\<lambda>r. \<forall>ps. r = Inr ps \<longrightarrow> list_all (planWf d) ps)"
    by (rule yields_bindE) (auto simp: list_all_iff planWf_def clusterOf_def)
qed

subsection \<open>Applying the plans\<close>

lemma waits_reads:
  "emits readsOnly (waitStatefulSetGone W key t)" "emits readsOnly (waitServiceGone W key t)"
  unfolding waitStatefulSetGone_def waitServiceGone_def by (intro poll_emits emits_rules; simp)+

lemmas waits_harmless = waits_reads [THEN emits_mono, OF reads_harmless]

lemma adoption_steps_harmless:
  "emits harmless (pointServiceAtMembers W ns name ms)" "emits harmless (dismantle W ns ref a)"
  "emits harmless (adoptPod W ns pn cn own)" "emits harmless (adoptPVC W ns pv cn own)"
  "emits harmless (cutoverHeadlessService W ns name cl)" "emits harmless (createMember W ns ma)"
  unfolding pointServiceAtMembers_def dismantle_def adoptPod_def adoptPVC_def cutoverHeadlessService_def createMember_def Let_def
  by (intro emits_rules waits_harmless; simp add: reads_harmless)+

text \<open>A step that needs no more than the permission, and then the rest.\<close>

lemma harmless_bindE:
  assumes "allowed cfg s" "emits harmless m" "\<And>a t. grows s t \<Longrightarrow> safe (migMon cfg) t (k a) (\<lambda>_ s'. grows t s')"
  shows "safe (migMon cfg) s (bindE m k) (\<lambda>_ s'. grows s s')"
  by (rule safe_bindE [OF harmless_safe [OF assms(2,1)]]) (auto intro: safe_weaken [OF assms(3)] grows_trans)

lemma createCluster_safe:
  assumes s: "allowed cfg s" and ok: "cfg_SkipBackup cfg \<or> jobKeyOf cl \<in> mv_saved s" and ex: "list_all (\<lambda>x. \<not> isClusterObj x) extras"
  shows "safe (migMon cfg) s (createCluster W ns extras cl st) (\<lambda>_ s'. grows s s')"
  unfolding createCluster_def
proof (rule harmless_bindE [OF s])
  show "emits harmless (forE (\<lambda>x. writeTolerant W IsAlreadyExists (''create '' @ objKind x @ '' '' @ ns @ ''/'' @ objName x) (WCreate x)) extras)"
    using ex by (intro emits_rules) (simp add: list_all_iff)
  fix t
  assume t: "grows s t"
  then have a: "allowed cfg t" using s by (blast intro: allowed_grows)
  have w: "safe (migMon cfg) t (writeTolerant W IsAlreadyExists ''create EtcdCluster'' (WCreate (OCluster cl))) (\<lambda>_ s'. grows t s')"
    unfolding writeTolerant_def
    by (rule safe_bind_single [OF single_ccalls(24)])
      (use a ok t in \<open>auto simp: migMon_def writeMon_def grows_def intro!: safe_return\<close>)
  have rest: "emits harmless (bindE (wrapE ''re-read EtcdCluster'' (cliCluster W \<lparr>nn_namespace = ns, nn_name = ecName cl\<rparr>)) (\<lambda>live.
     if ecClusterID live = '''' then
       bindE (wrapE ''prefill EtcdCluster status'' (failing (cliWrite W (WStatusCluster (live\<lparr>ec_Status := st\<rparr>))))) (\<lambda>_.
       return (Inr (live\<lparr>ec_Status := st\<rparr>)))
     else return (Inr live)))"
    by (intro emits_rules) (simp_all add: reads_harmless)
  show "safe (migMon cfg) t (bindE (writeTolerant W IsAlreadyExists ''create EtcdCluster'' (WCreate (OCluster cl))) (\<lambda>_.
     bindE (wrapE ''re-read EtcdCluster'' (cliCluster W \<lparr>nn_namespace = ns, nn_name = ecName cl\<rparr>)) (\<lambda>live.
     if ecClusterID live = '''' then
       bindE (wrapE ''prefill EtcdCluster status'' (failing (cliWrite W (WStatusCluster (live\<lparr>ec_Status := st\<rparr>))))) (\<lambda>_.
       return (Inr (live\<lparr>ec_Status := st\<rparr>)))
     else return (Inr live)))) (\<lambda>_ s'. grows t s')"
    by (rule safe_bindE [OF w]) (auto intro: safe_weaken [OF harmless_safe [OF rest]] grows_trans allowed_grows [OF a])
qed

text \<open>A plan that may be applied: well formed, and an adoption only of a cluster that is backed up.\<close>

definition planReady :: "Config \<Rightarrow> discovered \<Rightarrow> migView \<Rightarrow> ResourcePlan \<Rightarrow> bool" where
  "planReady cfg d s p \<longleftrightarrow> planWf d p \<and> (cfg_SkipBackup cfg \<or> planSaved d p s)"

lemma planReady_grows: "planReady cfg d s p \<Longrightarrow> grows s s' \<Longrightarrow> planReady cfg d s' p"
  by (auto simp: planReady_def planSaved_def grows_def)

lemma applyAdoption_safe:
  assumes s: "allowed cfg s" and p: "planReady cfg d s p" "rp_Action p = ActionAdopt"
  shows "safe (migMon cfg) s (applyAdoption W p) (\<lambda>_ s'. grows s s')"
proof -
  from p obtain c a where c: "rp_Target p = Some (OCluster c)" "ecName c = rp_SourceName p" "ecNamespace c = rp_Namespace p"
    and a: "rp_Adoption p = Some a" and ex: "list_all (\<lambda>x. \<not> isClusterObj x) (rp_Extras p)"
    by (auto simp: planReady_def planWf_def)
  have ok: "cfg_SkipBackup cfg \<or> jobKeyOf c \<in> mv_saved s"
    using p c by (auto simp: planReady_def planSaved_def jobKeyOf_def planKey_def SnapshotJobName_def)
  have rest: "emits harmless (bindE (mapE (createMember W ns) (ad_Members a)) (\<lambda>liveMembers.
           bindE (if ad_HeadlessServiceName a \<noteq> '''' then pointServiceAtMembers W ns (ad_HeadlessServiceName a) liveMembers
                  else return (Inr ())) (\<lambda>_.
           bindE (dismantle W ns (rp_DeleteRef p) a) (\<lambda>_.
           bindE (forE (\<lambda>(ma, live).
                   bindE (adoptPod W ns (emName (ma_Member ma)) (ecName c) live) (\<lambda>_.
                   adoptPVC W ns (ma_PVCName ma) (ecName c) live)) (zip (ad_Members a) liveMembers)) (\<lambda>_.
           cutoverHeadlessService W ns (ecName c) cl)))))" for cl ns
    by (intro emits_rules adoption_steps_harmless)
  show ?thesis
    unfolding applyAdoption_def a c(1) Let_def
    by (simp, rule safe_bindE [OF createCluster_safe [OF s ok ex]])
      (auto intro: safe_weaken [OF harmless_safe [OF rest]] grows_trans allowed_grows [OF s])
qed

lemma applyOne_safe:
  assumes s: "allowed cfg s" and p: "planReady cfg d s p"
  shows "safe (migMon cfg) s (applyOne W stats p) (\<lambda>_ s'. grows s s')"
proof (cases "rp_Action p = ActionAdopt")
  case True
  then show ?thesis
    by (simp add: applyOne_def, intro safe_bindE [where R = "\<lambda>_ s'. grows s s'"] safe_wrapE)
      (auto intro: safe_weaken [OF applyAdoption_safe [OF s p True]] safe_return)
next
  case False
  have del: "emits harmless (deleteSource W p st)" for st
    unfolding deleteSource_def by (intro emits_rules) simp_all
  have "emits harmless (createPlanned W p)" if "rp_Action p = ActionCreate"
    unfolding createPlanned_def using p that
    by (intro emits_rules) (auto simp: planReady_def planWf_def list_all_iff)
  with del False have "emits harmless (applyOne W stats p)"
    by (cases "rp_Action p") (simp_all add: applyOne_def emits_return emits_bindE)
  then show ?thesis by (rule harmless_safe [OF _ s])
qed

lemma applyPlans_safe:
  assumes "allowed cfg s" "list_all (planReady cfg d s) ps"
  shows "safe (migMon cfg) s (applyPlans W stats ps) (\<lambda>_ s'. grows s s')"
  using assms
proof (induction ps arbitrary: s stats)
  case (Cons p ps)
  have p: "planReady cfg d s p" using Cons.prems(2) by simp
  have "safe (migMon cfg) t (applyPlans W st ps) (\<lambda>_ s'. grows s s')" if "grows s t" for t st
    by (rule safe_weaken [OF Cons.IH])
      (use that Cons.prems in \<open>auto simp: list_all_iff intro: allowed_grows planReady_grows grows_trans\<close>)
  then show ?case unfolding applyPlans.simps
    by (intro safe_bindE [OF applyOne_safe [OF Cons.prems(1) p]]) auto
qed (simp add: safe_return)

text \<open>After the flags are validated, a run that applies has a backup destination or the explicit opt-out.\<close>

lemma validate_backup: "validate cfg = None \<Longrightarrow> cfg_Apply cfg \<Longrightarrow> backupConfigured cfg \<or> cfg_SkipBackup cfg"
  by (auto simp: validate_def validateBackup_def s3Flags_def backupConfigured_def Let_def split: sum.splits prod.splits if_splits)

lemma runMutationPhases_safe:
  assumes s: "allowed cfg s" and v: "validate cfg = None" and wf: "list_all (planWf d) plans"
  shows "safe (migMon cfg) s (runMutationPhases (disableAuthForAdoptions W d fs)
      (if backupConfigured cfg then Some (runBackups W cfg d) else None) (applyPlans W zeroStats) plans) (\<lambda>_ s'. True)"
  unfolding runMutationPhases_def
proof (rule safe_bind [OF disableAuth_safe [OF s wf]])
  fix ps1 t
  assume t: "grows s t \<and> list_all (planWf d) ps1"
  then have at: "allowed cfg t" using s by (blast intro: allowed_grows)
  have skip: "\<not> backupConfigured cfg \<Longrightarrow> cfg_SkipBackup cfg"
    using validate_backup [OF v] s by (auto simp: allowed_def)
  have b: "safe (migMon cfg) t (case if backupConfigured cfg then Some (runBackups W cfg d) else None of None \<Rightarrow> return (Inr ps1) | Some b \<Rightarrow> b ps1)
      (\<lambda>r s'. grows t s' \<and> (\<forall>ps. r = Inr ps \<longrightarrow> list_all (planReady cfg d s') ps))"
  proof (cases "backupConfigured cfg")
    case True
    with t show ?thesis
      by (simp, intro safe_weaken [OF runBackups_safe [OF at]]) (auto simp: planReady_def planSaved_def list_all_iff)
  next
    case False
    with t skip show ?thesis by (auto simp: planReady_def list_all_iff intro!: safe_return)
  qed
  show "safe (migMon cfg) t (bindE (case if backupConfigured cfg then Some (runBackups W cfg d) else None of None \<Rightarrow> return (Inr ps1)
      | Some b \<Rightarrow> b ps1) (\<lambda>ps2. bindE (applyPlans W zeroStats ps2) (\<lambda>stats. return (Inr (stats, ps2))))) (\<lambda>_ s'. True)"
  proof (rule safe_bindE [OF b])
    fix ps2 u
    assume "grows t u \<and> (\<forall>ps. Inr ps2 = Inr ps \<longrightarrow> list_all (planReady cfg d u) ps)"
    then have "allowed cfg u" "list_all (planReady cfg d u) ps2" using at by (auto intro: allowed_grows)
    from applyPlans_safe [OF this]
    show "safe (migMon cfg) u (bindE (applyPlans W zeroStats ps2) (\<lambda>stats. return (Inr (stats, ps2)))) (\<lambda>_ s'. True)"
      by (rule safe_bindE) (auto intro: safe_return)
  qed simp
qed

lemma summary_quiet: "emits migQuiet (renderSecuritySummary plans)"
  unfolding renderSecuritySummary_def Let_def by (intro emits_rules) (auto simp: migQuiet_def intro!: emits_rules)

lemma notice_quiet: "emits migQuiet printCRDNotice" "emits migQuiet (mapIO say ls)" "emits migQuiet (say t)"
  unfolding printCRDNotice_def by (intro emits_rules, simp add: migQuiet_def)+

lemma applyPlan_safe:
  assumes v: "validate cfg = None" "cfg_Apply cfg" and wf: "list_all (planWf d) plans"
    and down: "cfg_SkipControllerCheck cfg \<or> {refOf (cfg_LegacyController cfg), refOf (cfg_NewController cfg)} \<subseteq> mv_down s"
  shows "safe (migMon cfg) s (applyPlan W cfg d fs plans) (\<lambda>_ s'. True)"
proof -
  have run: "safe (migMon cfg) t (bindE (runMutationPhases (disableAuthForAdoptions W d fs)
        (if backupConfigured cfg then Some (runBackups W cfg d) else None) (applyPlans W zeroStats) plans)
      (\<lambda>(stats, plans'). do { _ \<leftarrow> mapIO say (doneLines cfg stats); _ \<leftarrow> renderSecuritySummary plans'; _ \<leftarrow> printCRDNotice;
         return (errorIfPlanFailed plans') })) (\<lambda>_ s'. True)"
    if "allowed cfg t" for t
    by (rule safe_bindE [OF runMutationPhases_safe [OF that v(1) wf]])
      (auto intro!: summary_quiet [THEN migM.safe_bind_quiet] notice_quiet [THEN migM.safe_bind_quiet] safe_return)
  have skip: "emits migQuiet (if b then return () else say t)" for b t
    by (intro emits_rules) (simp add: migQuiet_def)
  have yes: "safe (migMon cfg) s (if cfg_Yes cfg then return True else confirm W adoptPrompt)
      (\<lambda>ok s'. ok \<longrightarrow> allowed cfg s')"
    using v(2) down by (intro safe_if safe_return safe_weaken [OF confirm_safe]) (auto simp: allowed_def)
  show ?thesis
    unfolding applyPlan_def by (rule safe_bind [OF yes], intro safe_if safe_return migM.safe_bind_quiet [OF skip] run) auto
qed

lemma renderManifest_quiet: "emits migQuiet (renderManifest W x)"
  unfolding renderManifest_def by (intro emits_rules notice_quiet)

lemma render_quiet: "emits migQuiet (render W plans)"
  unfolding render_def renderPlan_def by (intro emits_rules notice_quiet renderManifest_quiet)

lemma inspectAll_reads: "emits readsOnly (inspectAll W lcs)"
  unfolding inspectAll_def by (intro emits_rules) simp

lemma runMigration_safe:
  assumes v: "validate cfg = None"
  shows "safe (migMon cfg) s (runMigration W cfg) (\<lambda>_ s'. True)"
proof -
  let ?down = "\<lambda>t. cfg_SkipControllerCheck cfg \<or> {refOf (cfg_LegacyController cfg), refOf (cfg_NewController cfg)} \<subseteq> mv_down t"
  have down: "?down t \<Longrightarrow> grows t u \<Longrightarrow> ?down u" for t u by (auto simp: grows_def)
  have present: "safe (migMon cfg) t (presentPlan W cfg d fs plans) (\<lambda>_ s'. True)"
    if "?down t" "list_all (planWf d) plans" for t d fs plans
    unfolding presentPlan_def
    by (rule migM.safe_bind_quiet [OF render_quiet], intro safe_if applyPlan_safe v that notice_quiet [THEN migM.safe_bind_quiet] safe_return) auto
  have plan: "safe (migMon cfg) t (bindE (planAll W cfg d fs) (presentPlan W cfg d fs)) (\<lambda>_ s'. True)" if "?down t" for t d fs
    by (rule safe_bindE [OF safe_yields [OF reads_safe [OF planAll_reads] planAll_wf]]) (use down [OF that] in \<open>auto intro: present\<close>)
  have found: "safe (migMon cfg) t (if b then do { _ \<leftarrow> say l1; _ \<leftarrow> printCRDNotice; return (Inr ()) }
      else do { _ \<leftarrow> say l2; fs \<leftarrow> inspectAll W (di_Clusters d); _ \<leftarrow> say []; bindE (planAll W cfg d fs) (presentPlan W cfg d fs) }) (\<lambda>_ s'. True)"
    if "?down t" for t b d l1 l2
    by (intro safe_if notice_quiet [THEN migM.safe_bind_quiet] safe_return TrueI safe_bind [OF reads_safe [OF inspectAll_reads]] plan down [OF that])
  show ?thesis
    unfolding runMigration_def
    by (rule safe_bindE [OF reads_safe [OF clients_reads]], simp, rule safe_bindE [OF gate_safe], simp,
        rule migM.safe_bind_quiet [OF notice_quiet(3)],
        rule safe_bindE [OF reads_safe [OF discover_reads]], simp, rule found) (auto simp: grows_def)
qed

definition initView :: migView where
  "initView = \<lparr>mv_down = {}, mv_dep = None, mv_ok = False, mv_saved = {}\<rparr>"

text \<open>
  C21. When the migration changes something. Whatever the API server, etcd and the user reply, the tool writes to
  the cluster or to etcd only with --apply, after the confirmation (or --yes) and after both operator
  Deployments were seen down: absent, or scaled to zero with no live Pod under their selector (unless the
  check is skipped). And it creates the new EtcdCluster of a legacy cluster only after the snapshot Job of
  exactly that cluster was seen complete in this run, unless --skip-backup was given: a backup that fails
  excludes its cluster from the adoption.
\<close>

theorem etcdMigrate_guarded: "accepted (migMon cfg) initView (trace_of (etcdMigrate W cfg))"
  by (rule safe_accepted [where Q = "\<lambda>_ _. True"])
    (auto simp: etcdMigrate_def intro: safe_return runMigration_safe split: option.split)

text \<open>Without flags the tool validates and only reads: a dry run is the default.\<close>

lemma bindFlags_valid: "validate (bindFlags kubeconfigEnv home) = None"
  by (simp add: validate_def validateBackup_def s3Flags_def bindFlags_def splitRef_def defaultLegacyControllerRef_def
      defaultNewControllerRef_def Let_def)

lemma bindFlags_dry_run: "e \<in> set (trace_of (etcdMigrate W (bindFlags kubeconfigEnv home))) \<Longrightarrow> readsOnly e"
proof -
  let ?cfg = "bindFlags kubeconfigEnv home"
  have "emits readsOnly (presentPlan W ?cfg d fs plans)" for d fs plans
    unfolding presentPlan_def render_def renderPlan_def renderManifest_def printCRDNotice_def
    by (simp add: bindFlags_def, intro emits_rules) simp_all
  moreover have "emits readsOnly (gate W ?cfg)"
    unfolding gate_def checkControllersDown_def checkControllerDown_def controllerPods_def by (intro emits_rules) simp_all
  ultimately have "emits readsOnly (etcdMigrate W ?cfg)"
    unfolding etcdMigrate_def bindFlags_valid runMigration_def printCRDNotice_def
    by (simp, intro emits_rules clients_reads discover_reads inspectAll_reads planAll_reads) simp_all
  then show "e \<in> set (trace_of (etcdMigrate W ?cfg)) \<Longrightarrow> readsOnly e"
    using emits_trace by (fastforce simp: list_all_iff)
qed

end
