(* ===== verification/MigrateOrder.thy ===== *)
theory MigrateOrder
  imports MigrateSafety MemberController
begin

text \<open>
  The order of an adoption's steps, what it leaves alone, the ownership it writes and the polling loops it
  runs.
\<close>

section \<open>The order of the steps\<close>

text \<open>
  What an adoption has established: the new cluster has an ID (it was read with one, or the prefilled
  status was stored), the members known to have one, the legacy headless Service is owned by the members or
  gone, the legacy StatefulSet is gone. And the last objects read.
\<close>

record adoptView =
  av_cluster :: bool
  av_members :: "string set"
  av_pointed :: bool
  av_gone :: bool
  av_readCluster :: "EtcdCluster option"
  av_readMember :: "(string \<times> EtcdMember) option"
  av_readService :: "(nsname \<times> Service) option"

definition startView :: adoptView where
  "startView = \<lparr>av_cluster = False, av_members = {}, av_pointed = False, av_gone = False, av_readCluster = None,
     av_readMember = None, av_readService = None\<rparr>"

text \<open>The legacy control plane may go: the new objects stand with their IDs and the Service is held.\<close>

definition prepared :: "AdoptionPlan \<Rightarrow> adoptView \<Rightarrow> bool" where
  "prepared a s \<longleftrightarrow> av_cluster s \<and> (\<lambda>x. emName (ma_Member x)) ` set (ad_Members a) \<subseteq> av_members s \<and>
     (ad_HeadlessServiceName a = '''' \<or> av_pointed s)"

definition memberRefs :: "OwnerReference list \<Rightarrow> bool" where
  "memberRefs refs = list_all (\<lambda>o'. or_Kind o' = ''EtcdMember'' \<and> or_Controller o' = Some False) refs"

text \<open>When a write is in order, and what a stored write establishes.\<close>

definition writeOK :: "ResourcePlan \<Rightarrow> EtcdCluster \<Rightarrow> AdoptionPlan \<Rightarrow> adoptView \<Rightarrow> cwrite \<Rightarrow> bool" where
  "writeOK p c a s w =
     (case w of
        WCreate x \<Rightarrow> x \<in> set (rp_Extras p) \<or> x = OCluster c \<or> x \<in> (\<lambda>m. OMember (ma_Member m)) ` set (ad_Members a)
      | WStatusCluster x \<Rightarrow> (\<exists>r. av_readCluster s = Some r \<and> ecClusterID r = '''' \<and> x = r\<lparr>ec_Status := ad_ClusterStatus a\<rparr>)
      | WStatusMember x \<Rightarrow> (\<exists>n r. av_readMember s = Some (n, r) \<and> mst_MemberID (em_Status r) = '''' \<and> em_Spec x = em_Spec r \<and>
          em_Status x \<in> ma_Status ` set (ad_Members a))
      | WUpdateService x \<Rightarrow> (\<exists>k r. av_readService s = Some (k, r) \<and> nn_name k = ad_HeadlessServiceName a \<and> svc_Spec x = svc_Spec r \<and>
          memberRefs (om_OwnerReferences (svc_Meta x)))
      | WDeleteLegacy rf prop \<Rightarrow> prop = Orphan \<and> prepared a s
      | WDelete kind key prop \<Rightarrow>
          (if kind = ''StatefulSet'' then prop = Orphan \<and> prepared a s
           else if kind = ''Service'' then av_gone s \<and> prepared a s \<and> nn_name key = ecName c \<and>
             (\<exists>svc. av_readService s = Some (key, svc) \<and> svs_ClusterIP (svc_Spec svc) \<noteq> ''None'')
           else kind \<in> {''ConfigMap'', ''PodDisruptionBudget''} \<and> av_gone s)
      | WPatchPod old new \<Rightarrow> av_gone s \<and> new = old\<lparr>pod_Meta := pod_Meta new\<rparr>
      | WPatchPVC old new \<Rightarrow> av_gone s \<and> new = old\<lparr>pvc_Meta := pvc_Meta new\<rparr>
      | WCreateService svc \<Rightarrow> av_gone s \<and> om_Name (svc_Meta svc) = ecName c
      | WCreateJob j \<Rightarrow> False)"

definition stored :: "cwrite \<Rightarrow> adoptView \<Rightarrow> adoptView" where
  "stored w s =
     (case w of
        WStatusCluster x \<Rightarrow> s\<lparr>av_cluster := True\<rparr>
      | WStatusMember x \<Rightarrow> (case av_readMember s of Some (n, r) \<Rightarrow> s\<lparr>av_members := insert n (av_members s)\<rparr> | None \<Rightarrow> s)
      | WUpdateService x \<Rightarrow> s\<lparr>av_pointed := True\<rparr>
      | _ \<Rightarrow> s)"

definition adoptMon :: "ResourcePlan \<Rightarrow> EtcdCluster \<Rightarrow> AdoptionPlan \<Rightarrow> adoptView \<Rightarrow> cevent \<Rightarrow> adoptView option" where
  "adoptMon p c a s e =
     (case e of
        CGetCluster k r \<Rightarrow> Some (case r of Inr x \<Rightarrow> s\<lparr>av_readCluster := Some x, av_cluster := (av_cluster s \<or> ecClusterID x \<noteq> '''')\<rparr> | Inl _ \<Rightarrow> s)
      | CGetMember k r \<Rightarrow> Some (case r of Inr x \<Rightarrow> s\<lparr>av_readMember := Some (nn_name k, x),
          av_members := (if mst_MemberID (em_Status x) \<noteq> '''' then insert (nn_name k) (av_members s) else av_members s)\<rparr> | Inl _ \<Rightarrow> s)
      | CGetService k r \<Rightarrow> Some (case r of Inr x \<Rightarrow> s\<lparr>av_readService := Some (k, x)\<rparr>
          | Inl err \<Rightarrow> if IsNotFound err \<and> nn_name k = ad_HeadlessServiceName a then s\<lparr>av_pointed := True\<rparr> else s)
      | CGetStatefulSet k r \<Rightarrow> Some (if (\<exists>err. r = Some err \<and> IsNotFound err) \<and> nn_name k = ad_StatefulSetName a then s\<lparr>av_gone := True\<rparr> else s)
      | CEtcd cl op r \<Rightarrow> None
      | CWrite w r \<Rightarrow> if writeOK p c a s w then Some (if r = None then stored w s else s) else None
      | _ \<Rightarrow> Some s)"

text \<open>Nothing that is established is lost.\<close>

definition keeps :: "adoptView \<Rightarrow> adoptView \<Rightarrow> bool" where
  "keeps s s' \<longleftrightarrow> (av_cluster s \<longrightarrow> av_cluster s') \<and> av_members s \<subseteq> av_members s' \<and> (av_pointed s \<longrightarrow> av_pointed s') \<and>
     (av_gone s \<longrightarrow> av_gone s')"

lemma keeps_refl [simp]: "keeps s s"
  by (simp add: keeps_def)

lemma keeps_trans: "keeps s t \<Longrightarrow> keeps t u \<Longrightarrow> keeps s u"
  by (auto simp: keeps_def)

lemma prepared_keeps: "prepared a s \<Longrightarrow> keeps s t \<Longrightarrow> prepared a t"
  by (auto simp: prepared_def keeps_def)

lemma keeps_stored [simp]: "keeps s (stored w s)"
  by (auto simp: keeps_def stored_def split: cwrite.split option.split)

lemma adoptMon_keeps: "adoptMon p c a s e = Some s' \<Longrightarrow> keeps s s'"
  by (cases e) (auto simp: adoptMon_def keeps_def stored_def split: sum.splits if_splits cwrite.splits option.splits)

text \<open>A write that tolerates an error, in order whatever is known.\<close>

lemma tolerant_safe:
  assumes "writeOK p c a s w"
  shows "safe (adoptMon p c a) s (writeTolerant W ok msg w) (\<lambda>_ s'. keeps s s')"
  unfolding writeTolerant_def
  by (rule safe_bind_single [OF single_ccalls(24)])
    (use assms in \<open>auto simp: adoptMon_def intro!: safe_return\<close>)

lemma failing_write_safe:
  assumes "writeOK p c a s w" and "Q (stored w s)"
  shows "safe (adoptMon p c a) s (wrapE msg (failing (cliWrite W w))) (\<lambda>r s'. keeps s s' \<and> (\<not> isl r \<longrightarrow> Q s'))"
  using assms by (intro io_rules) (auto simp: adoptMon_def)

text \<open>Step 1: the cluster has its ID when it returns.\<close>

lemma createCluster_order:
  assumes "set extras \<subseteq> set (rp_Extras p)"
  shows "safe (adoptMon p c a) s (createCluster W ns extras c (ad_ClusterStatus a)) (\<lambda>r s'. keeps s s' \<and> (\<not> isl r \<longrightarrow> av_cluster s'))"
proof -
  have ex: "safe (adoptMon p c a) t (forE (\<lambda>x. writeTolerant W IsAlreadyExists (f x) (WCreate x)) xs) (\<lambda>_ s'. keeps t s')"
    if "set xs \<subseteq> set (rp_Extras p)" for t xs f
    using that
  proof (induction xs arbitrary: t)
    case (Cons x xs)
    then show ?case unfolding forE.simps
      by (intro safe_bindE [OF tolerant_safe]) (auto simp: writeOK_def intro: safe_weaken keeps_trans)
  qed (simp add: safe_return)
  have live: "safe (adoptMon p c a) t (if ecClusterID live = '''' then
       bindE (wrapE ''prefill EtcdCluster status'' (failing (cliWrite W (WStatusCluster (live\<lparr>ec_Status := ad_ClusterStatus a\<rparr>))))) (\<lambda>_.
       return (Inr (live\<lparr>ec_Status := ad_ClusterStatus a\<rparr>)))
     else return (Inr live)) (\<lambda>r s'. keeps t s' \<and> (\<not> isl r \<longrightarrow> av_cluster s'))"
    if "av_readCluster t = Some live" "ecClusterID live \<noteq> '''' \<Longrightarrow> av_cluster t" for t live
    using that by (intro safe_if safe_bindE [OF failing_write_safe [where Q = av_cluster]] safe_return)
      (auto simp: writeOK_def stored_def)
  have read: "safe (adoptMon p c a) t (bindE (wrapE m (cliCluster W k)) (\<lambda>live. if ecClusterID live = '''' then
       bindE (wrapE ''prefill EtcdCluster status'' (failing (cliWrite W (WStatusCluster (live\<lparr>ec_Status := ad_ClusterStatus a\<rparr>))))) (\<lambda>_.
       return (Inr (live\<lparr>ec_Status := ad_ClusterStatus a\<rparr>)))
     else return (Inr live))) (\<lambda>r s'. keeps t s' \<and> (\<not> isl r \<longrightarrow> av_cluster s'))" for t m k
    apply (rule safe_bindE [where R = "\<lambda>r s'. keeps t s' \<and> (\<forall>live. r = Inr live \<longrightarrow> av_readCluster s' = Some live \<and>
        (ecClusterID live \<noteq> '''' \<longrightarrow> av_cluster s'))"])
    subgoal by (intro io_rules) (auto simp: adoptMon_def keeps_def split: sum.split)
    subgoal by simp
    subgoal by (rule safe_weaken [OF live]) (auto intro: keeps_trans)
    done
  show ?thesis
    unfolding createCluster_def
    by (rule safe_bindE [OF ex [OF assms]], simp, rule safe_bindE [OF tolerant_safe])
      (auto simp: writeOK_def intro: safe_weaken [OF read] keeps_trans)
qed

text \<open>Step 2: every member has its ID when the loop returns.\<close>

lemma createMember_order:
  assumes "ma \<in> set (ad_Members a)"
  shows "safe (adoptMon p c a) s (createMember W ns ma) (\<lambda>r s'. keeps s s' \<and> (\<not> isl r \<longrightarrow> emName (ma_Member ma) \<in> av_members s'))"
proof -
  let ?n = "emName (ma_Member ma)"
  have live: "safe (adoptMon p c a) t (if mst_MemberID (em_Status live) = '''' then
       bindE (wrapE m (failing (cliWrite W (WStatusMember (live\<lparr>em_Status := ma_Status ma\<rparr>))))) (\<lambda>_.
       return (Inr (live\<lparr>em_Status := ma_Status ma\<rparr>)))
     else return (Inr live)) (\<lambda>r s'. keeps t s' \<and> (\<not> isl r \<longrightarrow> ?n \<in> av_members s'))"
    if "av_readMember t = Some (?n, live)" "mst_MemberID (em_Status live) \<noteq> '''' \<Longrightarrow> ?n \<in> av_members t" for t live m
    using that assms
    by (intro safe_if safe_bindE [OF failing_write_safe [where Q = "\<lambda>s. ?n \<in> av_members s"]] safe_return)
      (auto simp: writeOK_def stored_def)
  have read: "safe (adoptMon p c a) t (wrapE m (cliMember W \<lparr>nn_namespace = ns, nn_name = ?n\<rparr>))
      (\<lambda>r s'. keeps t s' \<and> (\<forall>live. r = Inr live \<longrightarrow> av_readMember s' = Some (?n, live) \<and>
        (mst_MemberID (em_Status live) \<noteq> '''' \<longrightarrow> ?n \<in> av_members s')))" for t m
    by (intro io_rules) (auto simp: adoptMon_def keeps_def split: sum.split)
  have rest: "safe (adoptMon p c a) t (bindE (wrapE m (cliMember W \<lparr>nn_namespace = ns, nn_name = ?n\<rparr>)) (\<lambda>live.
      if mst_MemberID (em_Status live) = '''' then
        bindE (wrapE m' (failing (cliWrite W (WStatusMember (live\<lparr>em_Status := ma_Status ma\<rparr>))))) (\<lambda>_.
        return (Inr (live\<lparr>em_Status := ma_Status ma\<rparr>)))
      else return (Inr live))) (\<lambda>r s'. keeps t s' \<and> (\<not> isl r \<longrightarrow> ?n \<in> av_members s'))" for t m m'
    by (rule safe_bindE [OF read], simp, rule safe_weaken [OF live]) (auto intro: keeps_trans)
  show ?thesis
    unfolding createMember_def Let_def
    by (rule safe_bindE [OF tolerant_safe])
      (use assms in \<open>auto simp: writeOK_def intro: safe_weaken [OF rest] keeps_trans\<close>)
qed

lemma createMembers_order:
  assumes "set xs \<subseteq> set (ad_Members a)"
  shows "safe (adoptMon p c a) s (mapE (createMember W ns) xs)
    (\<lambda>r s'. keeps s s' \<and> (\<not> isl r \<longrightarrow> (\<lambda>x. emName (ma_Member x)) ` set xs \<subseteq> av_members s'))"
  using assms
proof (induction xs arbitrary: s)
  case (Cons x xs)
  have "safe (adoptMon p c a) t (bindE (mapE (createMember W ns) xs) (\<lambda>ys. return (Inr (y # ys))))
      (\<lambda>r s'. keeps s s' \<and> (\<not> isl r \<longrightarrow> (\<lambda>x. emName (ma_Member x)) ` set (x # xs) \<subseteq> av_members s'))"
    if "keeps s t" "emName (ma_Member x) \<in> av_members t" for t y
    using Cons.prems that
    by (intro safe_bindE [OF Cons.IH] safe_return) (auto simp: keeps_def)
  then show ?case
    unfolding mapE.simps using Cons.prems by (intro safe_bindE [OF createMember_order]) auto
qed (simp add: safe_return)

text \<open>Step 3: the legacy headless Service.\<close>

lemma pointService_order:
  "safe (adoptMon p c a) s (pointServiceAtMembers W ns (ad_HeadlessServiceName a) ms)
     (\<lambda>r s'. keeps s s' \<and> (\<not> isl r \<longrightarrow> av_pointed s'))"
  unfolding pointServiceAtMembers_def
  apply (rule safe_bind_single [OF single_ccalls(10)])
  subgoal for g
    apply (cases g)
    subgoal by (auto simp: adoptMon_def keeps_def intro!: safe_return)
    subgoal for svc
      by (auto simp: adoptMon_def Let_def writeOK_def stored_def memberRefs_def list_all_iff keeps_def intro!: io_rules)
    done
  done

text \<open>Step 4: the legacy StatefulSet is gone when it returns.\<close>

interpretation adoptP: patient "adoptMon p c a" keeps for p c a
  by unfold_locales (auto simp: adoptMon_def intro: keeps_trans)

lemma waitStatefulSetGone_order:
  "safe (adoptMon p c a) s (waitStatefulSetGone W \<lparr>nn_namespace = ns, nn_name = ad_StatefulSetName a\<rparr> timeout)
     (\<lambda>r s'. keeps s s' \<and> (\<not> isl r \<longrightarrow> av_gone s'))"
  unfolding waitStatefulSetGone_def
  by (rule adoptP.poll_safe [where I = "\<lambda>_. True"], rule safe_bind_single [OF single_ccalls(13)])
    (auto simp: adoptMon_def keeps_def split: option.split intro!: safe_return)

lemma waitServiceGone_order:
  "safe (adoptMon p c a) s (waitServiceGone W key timeout) (\<lambda>r s'. keeps s s')"
proof -
  have "safe (adoptMon p c a) s (waitServiceGone W key timeout) (\<lambda>r s'. keeps s s' \<and> (\<not> isl r \<longrightarrow> True))"
    unfolding waitServiceGone_def
    by (rule adoptP.poll_safe [where I = "\<lambda>_. True"], rule safe_bind_single [OF single_ccalls(10)])
      (auto simp: adoptMon_def keeps_def split: sum.split option.split intro!: safe_return)
  then show ?thesis by (rule safe_weaken) simp
qed

lemma safe_wrapE_keep:
  assumes "safe step s m (\<lambda>r s'. P s' \<and> (\<not> isl r \<longrightarrow> Q s'))"
  shows "safe step s (wrapE msg m) (\<lambda>r s'. P s' \<and> (\<not> isl r \<longrightarrow> Q s'))"
  using assms by (intro safe_wrapE, elim safe_weaken) (auto split: sum.splits)

lemma dismantle_order:
  assumes "prepared a s"
  shows "safe (adoptMon p c a) s (dismantle W ns ref a) (\<lambda>r s'. keeps s s' \<and> (\<not> isl r \<longrightarrow> av_gone s'))"
proof -
  have last: "safe (adoptMon p c a) t (bindE (writeTolerant W ok m (WDelete ''ConfigMap'' k DefaultPropagation)) (\<lambda>_.
      writeTolerant W ok' m' (WDelete ''PodDisruptionBudget'' k' DefaultPropagation)))
      (\<lambda>r s'. keeps t s' \<and> (\<not> isl r \<longrightarrow> av_gone s'))" if "av_gone t" for t k k' m m' ok ok'
    using that by (intro safe_bindE [OF tolerant_safe] safe_weaken [OF tolerant_safe]) (auto simp: writeOK_def keeps_def)
  have sts: "safe (adoptMon p c a) t (bindE (writeTolerant W ok m (WDelete ''StatefulSet'' k Orphan)) (\<lambda>_.
      bindE (wrapE m1 (waitStatefulSetGone W \<lparr>nn_namespace = ns, nn_name = ad_StatefulSetName a\<rparr> timeout)) (\<lambda>_.
      bindE (writeTolerant W ok2 m2 (WDelete ''ConfigMap'' k2 DefaultPropagation)) (\<lambda>_.
      writeTolerant W ok3 m3 (WDelete ''PodDisruptionBudget'' k3 DefaultPropagation)))))
      (\<lambda>r s'. keeps t s' \<and> (\<not> isl r \<longrightarrow> av_gone s'))"
    if "prepared a t" for t k k2 k3 m m1 m2 m3 ok ok2 ok3 timeout
    using that
    by (intro safe_bindE [OF tolerant_safe] safe_bindE [OF safe_wrapE_keep [OF waitStatefulSetGone_order]] safe_weaken [OF last])
      (auto simp: writeOK_def intro: keeps_trans)
  have cr: "safe (adoptMon p c a) s (case ref of None \<Rightarrow> return (Inr ())
        | Some rf \<Rightarrow> writeTolerant W IsNotFound ''orphan-delete legacy EtcdCluster'' (WDeleteLegacy (rf\<lparr>rf_Namespace := ns\<rparr>) Orphan))
      (\<lambda>_ s'. keeps s s')"
    using assms by (intro safe_case_option safe_return tolerant_safe) (auto simp: writeOK_def)
  show ?thesis
    unfolding dismantle_def Let_def
    by (rule safe_bindE [OF cr])
      (use assms in \<open>auto intro: safe_weaken [OF sts] keeps_trans prepared_keeps\<close>)
qed

text \<open>Steps 5 and 6: only once the StatefulSet is gone.\<close>

lemma adoptMember_order:
  assumes "av_gone s"
  shows "safe (adoptMon p c a) s (bindE (adoptPod W ns n cn owner) (\<lambda>_. adoptPVC W ns pvc cn owner)) (\<lambda>_ s'. keeps s s')"
proof -
  have pod: "safe (adoptMon p c a) t (adoptPod W ns n cn owner) (\<lambda>_ s'. keeps t s')" if "av_gone t" for t
    unfolding adoptPod_def using that
    by (intro safe_bindE [where R = "\<lambda>_ s'. s' = t"] io_rules) (auto simp: adoptMon_def writeOK_def adoptedPod_def)
  have pvc: "safe (adoptMon p c a) t (adoptPVC W ns pvc cn owner) (\<lambda>_ s'. keeps t s')" if "av_gone t" for t
    unfolding adoptPVC_def using that
    by (intro safe_bindE [where R = "\<lambda>_ s'. s' = t"] io_rules) (auto simp: adoptMon_def writeOK_def adoptedPVC_def)
  show ?thesis
    using assms by (intro safe_bindE [OF pod] safe_weaken [OF pvc]) (auto simp: keeps_def)
qed

lemma adoptMembers_order:
  "av_gone s \<Longrightarrow> safe (adoptMon p c a) s (forE (\<lambda>(ma, live).
      bindE (adoptPod W ns (emName (ma_Member ma)) cn live) (\<lambda>_. adoptPVC W ns (ma_PVCName ma) cn live)) xs) (\<lambda>_ s'. keeps s s')"
proof (induction xs arbitrary: s)
  case (Cons x xs)
  then show ?case
    unfolding forE.simps case_prod_beta
    by (intro safe_bindE [OF adoptMember_order] safe_weaken [OF Cons.IH [unfolded case_prod_beta]]) (auto simp: keeps_def)
qed (simp add: safe_return)

lemma cutover_order:
  assumes "av_gone s" "prepared a s"
  shows "safe (adoptMon p c a) s (cutoverHeadlessService W ns (ecName c) owner) (\<lambda>_ s'. keeps s s')"
proof -
  let ?key = "\<lparr>nn_namespace = ns, nn_name = ecName c\<rparr>"
  have create: "safe (adoptMon p c a) t (writeTolerant W ok m (WCreateService (nativeHeadless ns nm owner))) (\<lambda>_ s'. keeps s s')"
    if "keeps s t" "nm = ecName c" for t ok m nm
    using that assms by (intro safe_weaken [OF tolerant_safe]) (auto simp: writeOK_def nativeHeadless_def keeps_def)
  have wait: "safe (adoptMon p c a) t (wrapE m (waitServiceGone W ?key timeout)) (\<lambda>_ s'. keeps s s')" if "keeps s t" for t m timeout
    using that by (intro safe_wrapE safe_weaken [OF waitServiceGone_order]) (auto intro: keeps_trans)
  have replace: "safe (adoptMon p c a) t (bindE (writeTolerant W ok m (WDelete ''Service'' ?key DefaultPropagation)) (\<lambda>_.
      bindE (wrapE m1 (waitServiceGone W ?key timeout)) (\<lambda>_.
      writeTolerant W ok2 m2 (WCreateService (nativeHeadless ns (ecName c) owner))))) (\<lambda>_ s'. keeps s s')"
    if "keeps s t" "av_readService t = Some (?key, svc)" "svs_ClusterIP (svc_Spec svc) \<noteq> ''None''" for t svc ok m m1 timeout ok2 m2
    using that assms
    by (intro safe_bindE [OF tolerant_safe] safe_bindE [OF wait] create)
      (auto simp: writeOK_def intro: keeps_trans prepared_keeps, auto simp: keeps_def)
  have read: "keeps s t" if "adoptMon p c a s (CGetService ?key g) = Some t" for g t
    using adoptMon_keeps [OF that] .
  show ?thesis
    unfolding cutoverHeadlessService_def Let_def
    apply (rule safe_bind_single [OF single_ccalls(10)])
    subgoal for g
      apply (cases g)
      subgoal for err
        using read [of "Inl err"] by (auto simp: adoptMon_def intro!: safe_if safe_return create)
      subgoal for svc
        using read [of "Inr svc"] by (auto simp: adoptMon_def intro!: safe_if safe_return replace)
      done
    done
qed

lemma adoptSteps_order:
  assumes "rp_Adoption p = Some a" "rp_Target p = Some (OCluster c)"
  shows "safe (adoptMon p c a) s (applyAdoption W p) (\<lambda>_ _. True)"
proof -
  define ns where "ns = rp_Namespace p"
  have point: "safe (adoptMon p c a) t (if ad_HeadlessServiceName a \<noteq> '''' then pointServiceAtMembers W ns (ad_HeadlessServiceName a) ms
      else return (Inr ())) (\<lambda>r s'. keeps t s' \<and> (\<not> isl r \<longrightarrow> ad_HeadlessServiceName a = '''' \<or> av_pointed s'))" for t ms
    by (intro safe_if safe_return safe_weaken [OF pointService_order]) auto
  have rest: "safe (adoptMon p c a) t (bindE (dismantle W ns (rp_DeleteRef p) a) (\<lambda>_.
      bindE (forE (\<lambda>(ma, live). bindE (adoptPod W ns (emName (ma_Member ma)) (ecName c) live) (\<lambda>_.
        adoptPVC W ns (ma_PVCName ma) (ecName c) live)) xs) (\<lambda>_.
      cutoverHeadlessService W ns (ecName c) lc))) (\<lambda>_ _. True)" if "prepared a t" for t xs lc
    using that
    by (intro safe_bindE [OF dismantle_order] safe_bindE [OF adoptMembers_order] safe_weaken [OF cutover_order])
      (auto intro: prepared_keeps keeps_trans, auto simp: keeps_def)
  show ?thesis
    unfolding applyAdoption_def assms prod.case option.case object.case Let_def ns_def [symmetric]
    by (intro safe_bindE [OF createCluster_order] safe_bindE [OF createMembers_order] safe_bindE [OF point] rest)
      (auto simp: prepared_def keeps_def)
qed

text \<open>
  C23. An adoption acts in order, whatever fails on the way. Nothing of the legacy control plane is deleted
  before the new cluster and every member carry their etcd IDs (read back with them or stored) and the
  legacy headless Service has been handed to the members or found absent; the legacy cluster and its
  StatefulSet are only orphan-deleted, so the Pods keep running. A Pod or a claim is re-owned, and the
  Service replaced, only after the StatefulSet has been seen gone; a Pod or a claim changes only in its
  metadata; the Service that is deleted is the cluster's own name and not already headless; an object that
  already carries its ID is not written again; and etcd itself is never called.
\<close>

theorem applyAdoption_order:
  "case (rp_Adoption p, rp_Target p) of
     (Some a, Some (OCluster c)) \<Rightarrow> accepted (adoptMon p c a) startView (trace_of (applyAdoption W p))
   | _ \<Rightarrow> trace_of (applyAdoption W p) = []"
proof (cases "\<exists>a c. rp_Adoption p = Some a \<and> rp_Target p = Some (OCluster c)")
  case True
  then obtain a c where pl: "rp_Adoption p = Some a" "rp_Target p = Some (OCluster c)" by blast
  have "safe (adoptMon p c a) startView (applyAdoption W p) (\<lambda>_ _. True)"
    by (rule adoptSteps_order [OF pl])
  with pl show ?thesis by (simp add: safe_accepted)
next
  case False
  then show ?thesis by (auto simp: applyAdoption_def trace_of_def split: option.split object.split)
qed

section \<open>The ownership an adoption writes\<close>

abbreviation (input) controllers :: "OwnerReference list \<Rightarrow> OwnerReference list" where
  "controllers refs \<equiv> filter (\<lambda>o'. or_Controller o' = Some True) refs"

abbreviation (input) podRefs :: "Pod \<Rightarrow> OwnerReference list" where "podRefs pod \<equiv> om_OwnerReferences (pod_Meta pod)"
abbreviation (input) pvcRefs :: "PVC \<Rightarrow> OwnerReference list" where "pvcRefs pvc \<equiv> om_OwnerReferences (pvc_Meta pvc)"

lemma replaceControllerRef_controllers:
  "or_Controller ref = Some True \<Longrightarrow> controllers (om_OwnerReferences (replaceControllerRef ref m)) = [ref]"
  by (simp add: replaceControllerRef_def filter_empty_conv)

lemma replaceControllerRef_idem: "replaceControllerRef ref (replaceControllerRef ref m) = replaceControllerRef ref m"
  by (simp add: replaceControllerRef_def conj_commute conj_left_commute)

lemma replaceControllerRef_labels:
  "om_Labels (replaceControllerRef ref m) = om_Labels m"
  "replaceControllerRef ref (m\<lparr>om_Labels := l\<rparr>) = (replaceControllerRef ref m)\<lparr>om_Labels := l\<rparr>"
  by (simp_all add: replaceControllerRef_def)

lemma fmadd_idem: "(l ++\<^sub>f x) ++\<^sub>f x = l ++\<^sub>f x" "fmupd k v (fmupd k v (l ++\<^sub>f x) ++\<^sub>f x) = fmupd k v (l ++\<^sub>f x)"
  by (rule fmap_ext, simp)+

text \<open>
  Whatever owned it before, an adopted Pod (and likewise an adopted claim) has exactly one controller,
  the member it was adopted for, which the member controller then recognises as the owner; references of
  other owners that do not control it are kept; and adopting it once more changes nothing, so a run that
  was cut off can be repeated.
\<close>

lemma adoption_ownership:
  "map or_UID (controllers (podRefs (adoptedPod cl n m pod))) = [om_UID (em_Meta m)] \<and> podOwnedBy (adoptedPod cl n m pod) m \<and>
   {x \<in> set (podRefs pod). or_Controller x \<noteq> Some True \<and> or_UID x \<noteq> om_UID (em_Meta m)} \<subseteq> set (podRefs (adoptedPod cl n m pod)) \<and>
   adoptedPod cl n m (adoptedPod cl n m pod) = adoptedPod cl n m pod \<and>
   map or_UID (controllers (pvcRefs (adoptedPVC cl m pvc))) = [om_UID (em_Meta m)] \<and> pvcOwnedBy (adoptedPVC cl m pvc) m \<and>
   adoptedPVC cl m (adoptedPVC cl m pvc) = adoptedPVC cl m pvc"
proof -
  have owner: "ownedByMember (om_OwnerReferences (setControllerOwner m x)) m"
      "map or_UID (controllers (om_OwnerReferences (setControllerOwner m x))) = [om_UID (em_Meta m)]"
      "{r \<in> set (om_OwnerReferences x). or_Controller r \<noteq> Some True \<and> or_UID r \<noteq> om_UID (em_Meta m)} \<subseteq>
         set (om_OwnerReferences (setControllerOwner m x))" for x
    by (auto simp: setControllerOwner_def replaceControllerRef_controllers)
      (auto simp: ownedByMember_def replaceControllerRef_def)
  have again: "setControllerOwner m ((setControllerOwner m (x\<lparr>om_Labels := l\<rparr>))\<lparr>om_Labels := l\<rparr>) = setControllerOwner m (x\<lparr>om_Labels := l\<rparr>)" for x l
    by (simp add: setControllerOwner_def replaceControllerRef_idem replaceControllerRef_labels)
  have lab: "om_Labels (setControllerOwner m x) = om_Labels x" for x
    by (simp add: setControllerOwner_def replaceControllerRef_labels)
  have "adoptedPod cl n m (adoptedPod cl n m pod) = adoptedPod cl n m pod"
    by (simp add: adoptedPod_def lab fmadd_idem again)
  moreover have "adoptedPVC cl m (adoptedPVC cl m pvc) = adoptedPVC cl m pvc"
    by (simp add: adoptedPVC_def lab fmadd_idem again)
  moreover have "{x \<in> set (podRefs pod). or_Controller x \<noteq> Some True \<and> or_UID x \<noteq> om_UID (em_Meta m)} \<subseteq> set (podRefs (adoptedPod cl n m pod))"
    using owner(3) [of "(pod_Meta pod)\<lparr>om_Labels := fmupd LabelRole RoleVoter (om_Labels (pod_Meta pod) ++\<^sub>f memberLabels cl n)\<rparr>"]
    by (simp add: adoptedPod_def)
  ultimately show ?thesis
    by (simp add: owner adoptedPod_def adoptedPVC_def podOwnedBy_def pvcOwnedBy_def)
qed

lemma adopted_meta:
  "om_Name (pod_Meta (adoptedPod cl n m pod)) = om_Name (pod_Meta pod)" "om_UID (pod_Meta (adoptedPod cl n m pod)) = om_UID (pod_Meta pod)"
  "mapGet (om_Labels (pod_Meta (adoptedPod cl n m pod))) LabelRole = RoleVoter"
  by (simp_all add: adoptedPod_def setControllerOwner_def replaceControllerRef_def mapGet_def)

lemma adopted_owned:
  "om_UID (em_Meta m') = om_UID (em_Meta m) \<Longrightarrow> podOwnedBy (adoptedPod cl n m pod) m'"
  "om_UID (em_Meta m') = om_UID (em_Meta m) \<Longrightarrow> pvcOwnedBy (adoptedPVC cl m pvc) m'"
  by (simp_all add: podOwnedBy_def pvcOwnedBy_def ownedByMember_def adoptedPod_def adoptedPVC_def setControllerOwner_def replaceControllerRef_def)

text \<open>
  C25. The member controller takes an adopted Pod and an adopted claim over as they are: for the member they
  were adopted for, a voter, it reads each once, records their names in the status, and neither creates,
  patches nor deletes anything.
\<close>

theorem adopted_objects_kept:
  assumes "kc_get (k_pods (e_kube E)) [] Cached (memberKey m) = Inr (adoptedPod cl n owner pod)"
    and "kc_get (k_pvcs (e_kube E)) [] Cached \<lparr>nn_namespace = emNamespace m, nn_name = ''data-'' @ emName m\<rparr> = Inr (adoptedPVC cl owner pvc)"
    and "om_UID (em_Meta m) = om_UID (em_Meta owner)" and "mst_IsVoter (em_Status m)"
    and "st_Medium (ms_Storage (em_Spec m)) \<noteq> StorageMediumMemory"
  shows "run_state (ensurePod E r m) [] =
      (Inr (withPod (om_Name (pod_Meta pod)) (om_UID (pod_Meta pod)) m), [EPod (KGet Cached (memberKey m) (Inr (adoptedPod cl n owner pod)))]) \<and>
    run_state (ensurePVC E m) [] =
      (Inr (withPVCName (''data-'' @ emName m) m),
       [EPVC (KGet Cached \<lparr>nn_namespace = emNamespace m, nn_name = ''data-'' @ emName m\<rparr> (Inr (adoptedPVC cl owner pvc)))])"
proof
  have "reconcileRoleLabel E (adoptedPod cl n owner pod) (withPod x y m) = return (Inr ())" for x y
    using assms(4) by (simp add: reconcileRoleLabel_def adopted_meta withPod_def)
  then show "run_state (ensurePod E r m) [] =
      (Inr (withPod (om_Name (pod_Meta pod)) (om_UID (pod_Meta pod)) m), [EPod (KGet Cached (memberKey m) (Inr (adoptedPod cl n owner pod)))])"
    using assms(1) adopted_owned(1) [OF assms(3)] by (simp add: ensurePod_def proc_defs adopted_meta bindE_def Let_def)
  show "run_state (ensurePVC E m) [] = (Inr (withPVCName (''data-'' @ emName m) m),
       [EPVC (KGet Cached \<lparr>nn_namespace = emNamespace m, nn_name = ''data-'' @ emName m\<rparr> (Inr (adoptedPVC cl owner pvc)))])"
    using assms(2,5) adopted_owned(2) [OF assms(3)] by (simp add: ensurePVC_def proc_defs Let_def)
qed

definition adoptedVoter :: EtcdMember where
  "adoptedVoter = sampleMember\<lparr>em_Status := (em_Status sampleMember)\<lparr>mst_IsVoter := True\<rparr>\<rparr>"

definition plainPod :: Pod where
  "plainPod = buildPod \<lparr>mr_OperatorImage = '''', mr_EtcdImageRepository = ''''\<rparr> sampleMember True"

definition barePVC :: PVC where
  "barePVC = \<lparr>pvc_Meta = emptyMeta, pvc_AccessModes = [], pvc_StorageClassName = None, pvc_RequestsStorage = 0\<rparr>"

definition adoptedEnv :: env where
  "adoptedEnv = sampleEnv\<lparr>e_kube := emptyKube\<lparr>
     k_pods := emptyClient\<lparr>kc_get := (\<lambda>_ _ _. Inr (adoptedPod ''db'' ''db-0'' adoptedVoter plainPod))\<rparr>,
     k_pvcs := emptyClient\<lparr>kc_get := (\<lambda>_ _ _. Inr (adoptedPVC ''db'' adoptedVoter barePVC))\<rparr>\<rparr>\<rparr>"

theorem adopted_objects_kept_witness:
  "run_state (ensurePod adoptedEnv \<lparr>mr_OperatorImage = '''', mr_EtcdImageRepository = ''''\<rparr> adoptedVoter) [] =
     (Inr (withPod (om_Name (pod_Meta plainPod)) (om_UID (pod_Meta plainPod)) adoptedVoter),
      [EPod (KGet Cached (memberKey adoptedVoter) (Inr (adoptedPod ''db'' ''db-0'' adoptedVoter plainPod)))])"
  by (rule adopted_objects_kept [where n = "''db-0''" and cl = "''db''" and owner = adoptedVoter and pvc = barePVC, THEN conjunct1])
    (simp_all add: adoptedEnv_def adoptedVoter_def sampleMember_def sampleSpec_def)

section \<open>How long it polls\<close>

definition isWait :: "cevent \<Rightarrow> bool" where
  "isWait e = (case e of CWait _ _ _ \<Rightarrow> True | _ \<Rightarrow> False)"

abbreviation (input) waits :: "cevent list \<Rightarrow> nat" where "waits es \<equiv> length (filter isWait es)"

text \<open>
  What the \<^verbatim>\<open>time\<close> package and \<^verbatim>\<open>select\<close> promise: the clock does not go back; \<^verbatim>\<open>time.After\<close> of an interval, which the loop starts
  with the \<^verbatim>\<open>select\<close>, is ready when the interval has passed; and the tick is received only if it is ready no later than the
  deadline, since otherwise the deadline is received first. Nothing is assumed of how often the deadline or the
  context is received.
\<close>

definition timersLaw :: "world \<Rightarrow> bool" where
  "timersLaw W \<longleftrightarrow> (\<forall>h e. w_now W h \<le> w_now W (h @ [e])) \<and>
     (\<forall>h d i. w_wait W h (d, i) = Tick \<longrightarrow> w_now W h + i \<le> d \<and> w_now W h + i \<le> w_now W (h @ [CWait d i Tick]))"

lemma timersLaw_mono: "timersLaw W \<Longrightarrow> w_now W h \<le> w_now W (h @ es)"
proof (induction es rule: rev_induct)
  case (snoc e es)
  then have "w_now W (h @ es) \<le> w_now W ((h @ es) @ [e])" unfolding timersLaw_def by blast
  with snoc show ?case by simp
qed simp

text \<open>The intervals that fit between now and the deadline.\<close>

definition ticksLeft :: "world \<Rightarrow> cevent list \<Rightarrow> gotime \<Rightarrow> duration \<Rightarrow> nat" where
  "ticksLeft W h d i = nat ((d - w_now W h) div i)"

lemma ticksLeft_tick:
  assumes "timersLaw W" "0 < i" "w_wait W (h @ es) (d, i) = Tick"
  shows "ticksLeft W (h @ es @ [CWait d i Tick]) d i < ticksLeft W h d i"
proof -
  let ?h' = "h @ es @ [CWait d i Tick]"
  from assms(1,3) have "w_now W (h @ es) + i \<le> d" "w_now W (h @ es) + i \<le> w_now W ((h @ es) @ [CWait d i Tick])"
    unfolding timersLaw_def by blast+
  with timersLaw_mono [OF assms(1), of h es] have "i \<le> d - w_now W h" "d - w_now W ?h' \<le> (d - w_now W h) - i" by simp_all
  with assms(2) have "1 \<le> (d - w_now W h) div i" "(d - w_now W ?h') div i \<le> ((d - w_now W h) - i) div i"
    by (simp_all add: pos_imp_zdiv_pos_iff zdiv_mono1 int_one_le_iff_zero_less)
  moreover have "((d - w_now W h) - i) div i = (d - w_now W h) div i - 1"
    using assms(2) div_add_self2 [of i "(d - w_now W h) - i"] by simp
  ultimately show ?thesis by (simp add: ticksLeft_def)
qed

lemma poll_settles:
  assumes "timersLaw W" "0 < i" and look: "emits (\<lambda>e. \<not> isWait e) look"
  shows "ticksLeft W h d i < n \<Longrightarrow>
    \<exists>r es. (\<forall>m. run_state (poll W look err d i (n + m)) h = (r, h @ es)) \<and> waits es \<le> Suc (ticksLeft W h d i)"
proof (induction n arbitrary: h)
  case (Suc n)
  from look obtain r es where l: "run_state look h = (r, h @ es)" "list_all (\<lambda>e. \<not> isWait e) es" unfolding emits_def by blast
  then have w0: "waits es = 0" by (simp add: list_all_iff filter_empty_conv)
  show ?case
  proof (cases "r = None \<and> w_wait W (h @ es) (d, i) = Tick")
    case True
    let ?e = "CWait d i Tick"
    from True have less: "ticksLeft W (h @ es @ [?e]) d i < ticksLeft W h d i" by (intro ticksLeft_tick assms) simp
    with Suc.prems Suc.IH [of "h @ es @ [?e]"] obtain r' es' where
      run: "\<And>m. run_state (poll W look err d i (n + m)) (h @ es @ [?e]) = (r', (h @ es @ [?e]) @ es')"
      and w1: "waits es' \<le> Suc (ticksLeft W (h @ es @ [?e]) d i)" by fastforce
    have "run_state (poll W look err d i (Suc n + m)) h = (r', h @ es @ [?e] @ es')" for m
      using True l run [of m] by (simp add: cliWait_def)
    moreover have "waits (es @ [?e] @ es') \<le> Suc (ticksLeft W h d i)" using w0 w1 less by (simp add: isWait_def)
    ultimately show ?thesis by blast
  next
    case False
    have "\<exists>r' es'. (\<forall>m. run_state (poll W look err d i (Suc n + m)) h = (r', h @ es @ es')) \<and> waits es' \<le> 1"
    proof (cases r)
      case None
      with False l show ?thesis by (cases "w_wait W (h @ es) (d, i)") (auto simp: cliWait_def isWait_def)
    qed (use l in auto)
    then obtain r' es' where "\<And>m. run_state (poll W look err d i (Suc n + m)) h = (r', h @ es @ es')" "waits es' \<le> 1" by blast
    with w0 show ?thesis by (intro exI [of _ r'] exI [of _ "es @ es'"]) simp
  qed
qed simp

text \<open>The loop has returned: following it for more rounds changes nothing.\<close>

definition returned :: "(world \<Rightarrow> (goerror + unit) cproc) \<Rightarrow> world \<Rightarrow> nat \<Rightarrow> bool" where
  "returned loop W k \<longleftrightarrow> waits (trace_of (loop W)) \<le> k \<and>
     (\<forall>m. run_state (loop (W\<lparr>w_rounds := w_rounds W + m\<rparr>)) [] = run_state (loop W) [])"

lemma pollFor_returned:
  assumes "timersLaw W" "0 < i" "nat (t div i) < w_rounds W" "emits (\<lambda>e. \<not> isWait e) (look W)"
    and "\<And>m. look (W\<lparr>w_rounds := m\<rparr>) = look W"
  shows "returned (\<lambda>W. pollFor W (look W) err t i) W (Suc (nat (t div i)))"
proof -
  have rounds: "poll (W\<lparr>w_rounds := m\<rparr>) lk err d i n = poll W lk err d i n" for m lk d n
    by (induction n) (simp_all add: cliWait_def)
  have left: "ticksLeft W [] (w_now W [] + t) i = nat (t div i)" by (simp add: ticksLeft_def)
  from poll_settles [OF assms(1,2,4), of "[]" "w_now W [] + t" "w_rounds W" err] assms(3) left obtain r es where
    "\<And>m. run_state (poll W (look W) err (w_now W [] + t) i (w_rounds W + m)) [] = (r, es)" "waits es \<le> Suc (nat (t div i))"
    by auto
  from this(1) [of 0] this show ?thesis
    by (simp add: returned_def pollFor_def cliNow_def assms(5) rounds trace_of_def)
qed

text \<open>
  C26. The loops of a migration end. However long the object they wait for stays, whatever the reads return and
  whenever the context is cancelled, waiting for the snapshot Job, for a stale Job, for the StatefulSet or for the
  Service waits at most once more than the timeout has intervals, and then has returned: followed for one round more
  than that, or for any larger number of rounds, the loop makes the same calls and gives the same result. The
  hypothesis is what the timers promise; that the loops end is due to the deadline, without which they would run
  as long as ticks arrive.
\<close>

theorem migration_waits:
  assumes "timersLaw W" "nat (t div seconds 2) < w_rounds W"
  shows "returned (\<lambda>W. waitForJob W key t) W (Suc (nat (t div seconds 5))) \<and>
         returned (\<lambda>W. waitJobGone W key t) W (Suc (nat (t div seconds 5))) \<and>
         returned (\<lambda>W. waitStatefulSetGone W key t) W (Suc (nat (t div seconds 2))) \<and>
         returned (\<lambda>W. waitServiceGone W key t) W (Suc (nat (t div seconds 2)))"
proof -
  have "nat (t div seconds 5) \<le> nat (t div seconds 2)"
  proof (cases "0 \<le> t")
    case False
    then have "t div seconds 5 < 0" by (simp add: pos_imp_zdiv_neg_iff)
    then show ?thesis by simp
  qed (intro nat_mono zdiv_mono2, simp_all)
  with assms(2) have "nat (t div seconds 5) < w_rounds W" by linarith
  then show ?thesis
    unfolding waitForJob_def waitJobGone_def waitStatefulSetGone_def waitServiceGone_def
    by (intro conjI pollFor_returned assms emits_rules) (simp_all add: isWait_def cli_call_defs)
qed

text \<open>A machine whose clock moves with the ticks, and a Job that never finishes.\<close>

definition elapsed :: "cevent \<Rightarrow> duration" where
  "elapsed e = (case e of CWait d i w \<Rightarrow> if w = Tick then max 0 i else 0 | _ \<Rightarrow> 0)"

definition tickingClock :: "cevent list \<Rightarrow> gotime" where
  "tickingClock h = sum_list (map elapsed h)"

definition patientWorld :: world where
  "patientWorld = sampleWorld\<lparr>w_now := tickingClock, w_rounds := 11,
     w_wait := (\<lambda>h (d, i). if 0 \<le> i \<and> tickingClock h + i \<le> d then Tick else DeadlineFired),
     w_reads := (w_reads sampleWorld)\<lparr>r_job := (\<lambda>_ _. Inr (BuildSnapshotJob ''db'' ''prod'' ''u1'' sampleLegacySpec
       \<lparr>sl_S3 = None, sl_PVC = None\<rparr> ''agent:v1''))\<rparr>\<rparr>"

lemma patientWorld_timers: "timersLaw patientWorld"
proof -
  have "0 \<le> elapsed e" for e by (cases e) (simp_all add: elapsed_def)
  moreover have "elapsed (CWait d i Tick) = max 0 i" for d i by (simp add: elapsed_def)
  ultimately show ?thesis by (simp add: timersLaw_def patientWorld_def tickingClock_def)
qed

theorem migration_waits_witness:
  "returned (\<lambda>W. waitForJob W \<lparr>nn_namespace = ''prod'', nn_name = ''job''\<rparr> (seconds 20)) patientWorld 5 \<and>
   waits (trace_of (waitForJob patientWorld \<lparr>nn_namespace = ''prod'', nn_name = ''job''\<rparr> (seconds 20))) = 5"
proof
  have "returned (\<lambda>W. waitForJob W \<lparr>nn_namespace = ''prod'', nn_name = ''job''\<rparr> (seconds 20)) patientWorld (Suc (nat (seconds 20 div seconds 5)))"
    by (rule migration_waits [OF patientWorld_timers, THEN conjunct1]) (simp add: patientWorld_def)
  then show "returned (\<lambda>W. waitForJob W \<lparr>nn_namespace = ''prod'', nn_name = ''job''\<rparr> (seconds 20)) patientWorld 5" by simp
  show "waits (trace_of (waitForJob patientWorld \<lparr>nn_namespace = ''prod'', nn_name = ''job''\<rparr> (seconds 20))) = 5" by code_simp
qed

end
