(* ===== verification/MigrateShown.thy ===== *)
theory MigrateShown
  imports MigrateSafety
begin

text \<open>
  What the user of the migration tool confirms: what a run creates was announced before the confirmation was read and
  before anything was changed, the objects of the plans as manifests, the snapshot Jobs and the native headless Services,
  which the tool does not print, by the printed adoption they belong to.
\<close>

section \<open>The monitor\<close>

text \<open>
  A plan whose heading, whose steps, if it is an adoption, and whose objects are among the lines \<open>S\<close>. An object that
  could not be rendered stands there as the line that says so.
\<close>

definition planPrinted :: "world \<Rightarrow> string set \<Rightarrow> ResourcePlan \<Rightarrow> bool" where
  "planPrinted W S p \<longleftrightarrow> planHeading p \<in> S \<and> manifestText W ` set (renderedObjects p) \<subseteq> S \<and>
     (case (rp_Action p, rp_Adoption p) of (ActionAdopt, Some a) \<Rightarrow> set (renderSteps p a) \<subseteq> S | _ \<Rightarrow> True)"

text \<open>
  What a creation needs to have been announced: an object of a plan, its manifest; a Job, to be the snapshot Job, with the
  configured destination, of a legacy cluster whose adoption was printed; a Service, to be the native headless Service
  of the cluster of an adoption that was printed, with the step that replaces the Service.
\<close>

definition announced :: "world \<Rightarrow> Config \<Rightarrow> string set \<Rightarrow> cwrite \<Rightarrow> bool" where
  "announced W cfg S w =
     (case w of
        WCreate x \<Rightarrow> manifestText W (Some x) \<in> S
      | WCreateJob j \<Rightarrow> (\<exists>p lc img. planPrinted W S p \<and> isAdoption p \<and> lkKey lc = rp_Namespace p @ ''/'' @ rp_SourceName p \<and>
          j = BuildSnapshotJob (lk_Name lc) (lk_Namespace lc) (lk_UID lc) (lk_Spec lc) (backupDestination cfg) img)
      | WCreateService sv \<Rightarrow> (\<exists>p a c owner. planPrinted W S p \<and> rp_Action p = ActionAdopt \<and> rp_Adoption p = Some a \<and>
          rp_Target p = Some (OCluster c) \<and> sv = nativeHeadless (rp_Namespace p) (ecName c) owner)
      | _ \<Rightarrow> True)"

text \<open>The lines printed so far, until the first line is read or the first change is made.\<close>

definition shownMon :: "world \<Rightarrow> Config \<Rightarrow> string set \<times> bool \<Rightarrow> cevent \<Rightarrow> (string set \<times> bool) option" where
  "shownMon W cfg s e =
     (case e of
        CPrint t \<Rightarrow> Some (if snd s then (insert t (fst s), True) else s)
      | CReadLine r \<Rightarrow> Some (fst s, False)
      | CEtcd c op r \<Rightarrow> Some (fst s, False)
      | CWrite w r \<Rightarrow> if announced W cfg (fst s) w then Some (fst s, False) else None
      | _ \<Rightarrow> Some s)"

definition createsShown :: "world \<Rightarrow> Config \<Rightarrow> string set \<Rightarrow> cevent \<Rightarrow> bool" where
  "createsShown W cfg S e = (case e of CWrite w r \<Rightarrow> announced W cfg S w | _ \<Rightarrow> True)"

lemma planPrinted_mono: "planPrinted W S p \<Longrightarrow> S \<subseteq> T \<Longrightarrow> planPrinted W T p"
  by (auto simp: planPrinted_def split: Action.splits option.splits)

lemma announced_mono: "announced W cfg S w \<Longrightarrow> S \<subseteq> T \<Longrightarrow> announced W cfg T w"
  by (cases w) (auto simp: announced_def intro: planPrinted_mono)

lemma reads_step: "readsOnly e \<Longrightarrow> snd s \<Longrightarrow> \<exists>s'. shownMon W cfg s e = Some s' \<and> snd s'"
  by (cases e) (simp_all add: shownMon_def readsOnly_def)

lemma reads_open: "emits readsOnly m \<Longrightarrow> snd s \<Longrightarrow> safe (shownMon W cfg) s m (\<lambda>_ s'. snd s')"
  by (rule emits_invariant [where P = readsOnly and I = snd]) (assumption, assumption, rule reads_step)

lemma shown_step:
  assumes "createsShown W cfg S e" "S \<subseteq> fst s"
  shows "\<exists>s'. shownMon W cfg s e = Some s' \<and> S \<subseteq> fst s'"
proof (cases e)
  case (CWrite w r)
  with assms show ?thesis by (auto simp: shownMon_def createsShown_def intro: announced_mono)
qed (use assms in \<open>auto simp: shownMon_def\<close>)

lemma shown_safe: "emits (createsShown W cfg S) m \<Longrightarrow> S \<subseteq> fst s \<Longrightarrow> safe (shownMon W cfg) s m (\<lambda>_ s'. S \<subseteq> fst s')"
  by (rule emits_invariant [where P = "createsShown W cfg S" and I = "\<lambda>t. S \<subseteq> fst t"]) (assumption, assumption, rule shown_step)

section \<open>Printing the plan\<close>

text \<open>From a state in which lines are collected, the computation changes nothing and prints at least the lines of \<open>T\<close>.\<close>

definition showing :: "world \<Rightarrow> Config \<Rightarrow> (cevent, 'a) io \<Rightarrow> string set \<Rightarrow> bool" where
  "showing W cfg m T \<longleftrightarrow> (\<forall>s. snd s \<longrightarrow> safe (shownMon W cfg) s m (\<lambda>_ s'. snd s' \<and> fst s \<union> T \<subseteq> fst s'))"

lemma showing_return: "showing W cfg (return a) {}"
  by (simp add: showing_def safe_return)

lemma showing_say: "showing W cfg (say t) {t}"
  unfolding showing_def by (intro allI impI safe_single [OF single_ccalls(27)]) (auto simp: shownMon_def)

lemma showing_bind:
  assumes "showing W cfg m T" "\<And>a. showing W cfg (f a) U"
  shows "showing W cfg (State_Monad.bind m f) (T \<union> U)"
  unfolding showing_def
proof (intro allI impI)
  fix s :: "string set \<times> bool"
  assume "snd s"
  with assms(1) have "safe (shownMon W cfg) s m (\<lambda>_ s'. snd s' \<and> fst s \<union> T \<subseteq> fst s')" unfolding showing_def by blast
  then show "safe (shownMon W cfg) s (State_Monad.bind m f) (\<lambda>_ s'. snd s' \<and> fst s \<union> (T \<union> U) \<subseteq> fst s')"
  proof (rule safe_bind)
    fix a t
    assume t: "snd t \<and> fst s \<union> T \<subseteq> fst t"
    with assms(2) have "safe (shownMon W cfg) t (f a) (\<lambda>_ s'. snd s' \<and> fst t \<union> U \<subseteq> fst s')" unfolding showing_def by blast
    then show "safe (shownMon W cfg) t (f a) (\<lambda>_ s'. snd s' \<and> fst s \<union> (T \<union> U) \<subseteq> fst s')"
      by (rule safe_weaken) (use t in blast)
  qed
qed

lemma showing_mapIO: "(\<And>x. showing W cfg (f x) (T x)) \<Longrightarrow> showing W cfg (mapIO f xs) (\<Union> (T ` set xs))"
proof (induction xs)
  case (Cons x xs)
  have "showing W cfg (mapIO f (x # xs)) (T x \<union> (\<Union> (T ` set xs) \<union> {}))"
    unfolding mapIO.simps by (intro showing_bind showing_return Cons.IH Cons.prems)
  then show ?case by simp
qed (simp add: showing_return)

lemma showing_weaken: "showing W cfg m T \<Longrightarrow> U \<subseteq> T \<Longrightarrow> showing W cfg m U"
  unfolding showing_def by (intro allI impI, drule spec, drule mp, assumption, erule safe_weaken) blast

lemma renderManifest_shows: "showing W cfg (renderManifest W x) {manifestText W x}"
proof -
  have "showing W cfg (State_Monad.bind (say ''---'') (\<lambda>_. say (manifestText W x))) ({''---''} \<union> {manifestText W x})"
    by (intro showing_bind showing_say)
  from showing_weaken [OF this] showing_say show ?thesis by (simp add: renderManifest_def)
qed

text \<open>The lines of a plan that the announcements rest on.\<close>

definition planLines :: "world \<Rightarrow> ResourcePlan \<Rightarrow> string set" where
  "planLines W p = {planHeading p} \<union>
     (case (rp_Action p, rp_Adoption p) of (ActionAdopt, Some a) \<Rightarrow> set (renderSteps p a) | _ \<Rightarrow> {}) \<union>
     manifestText W ` set (renderedObjects p)"

lemma planLines_printed: "planLines W p \<subseteq> S \<Longrightarrow> planPrinted W S p"
  by (auto simp: planLines_def planPrinted_def split: Action.splits option.splits)

lemma renderPlan_shows: "showing W cfg (renderPlan W p) (planLines W p)"
  unfolding renderPlan_def
  by (rule showing_weaken, (rule showing_bind | rule showing_mapIO | rule showing_say | rule renderManifest_shows)+)
    (auto simp: planLines_def split: Action.splits option.splits)

definition shownBy :: "world \<Rightarrow> ResourcePlan list \<Rightarrow> string set" where
  "shownBy W plans = \<Union> (planLines W ` set plans)"

lemma render_shows: "showing W cfg (render W plans) (shownBy W plans)"
proof -
  have "showing W cfg (render W plans) (shownBy W plans \<union> {})"
    unfolding render_def shownBy_def by (intro showing_bind showing_mapIO renderPlan_shows showing_return)
  then show ?thesis by simp
qed

section \<open>Applying the plan\<close>

text \<open>The plan was printed, unless an error has since taken it out of the run.\<close>

definition planShown :: "world \<Rightarrow> string set \<Rightarrow> ResourcePlan \<Rightarrow> bool" where
  "planShown W S p \<longleftrightarrow> rp_Action p = ActionError \<or> planPrinted W S p"

lemma planShown_error [simp]: "rp_Action p = ActionError \<Longrightarrow> planShown W S p"
  by (simp add: planShown_def)

lemma createsShown_simps [simp]:
  "createsShown W cfg S (CWrite (WCreate x) r) \<longleftrightarrow> manifestText W (Some x) \<in> S"
  "createsShown W cfg S (CWrite (WPatchPod a b) r)" "createsShown W cfg S (CWrite (WPatchPVC c d) r)" "createsShown W cfg S (CWrite (WUpdateService sv) r)"
  "createsShown W cfg S (CWrite (WStatusCluster cl) r)" "createsShown W cfg S (CWrite (WStatusMember m) r)"
  "createsShown W cfg S (CWrite (WDeleteLegacy rf pr) r)" "createsShown W cfg S (CEtcd c2 op r)"
  "createsShown W cfg S (CWrite (WDelete kind key pr) r)" "createsShown W cfg S (CReadLine ln)"
  by (simp_all add: createsShown_def announced_def)

lemma reads_shown: "readsOnly e \<Longrightarrow> createsShown W cfg S e"
  by (cases e) (simp_all add: readsOnly_def createsShown_def)

lemma steps_shown:
  "emits (createsShown W cfg S) (pointServiceAtMembers W ns name ms)" "emits (createsShown W cfg S) (dismantle W ns ref a)"
  "emits (createsShown W cfg S) (adoptPod W ns pn cn own)" "emits (createsShown W cfg S) (adoptPVC W ns pv cn own)"
  "emits (createsShown W cfg S) (deleteSource W p st)"
  unfolding pointServiceAtMembers_def dismantle_def adoptPod_def adoptPVC_def deleteSource_def Let_def
  by (intro emits_rules waits_reads [THEN emits_mono, OF reads_shown]; simp add: reads_shown)+

lemma cutover_shown:
  assumes "planPrinted W S p" "rp_Action p = ActionAdopt" "rp_Adoption p = Some a" "rp_Target p = Some (OCluster c)"
  shows "emits (createsShown W cfg S) (cutoverHeadlessService W (rp_Namespace p) (ecName c) owner)"
proof -
  have "createsShown W cfg S (CWrite (WCreateService (nativeHeadless (rp_Namespace p) (ecName c) owner)) r)" for r
    using assms by (auto simp: createsShown_def announced_def)
  then show ?thesis
    unfolding cutoverHeadlessService_def Let_def
    by (intro emits_rules waits_reads [THEN emits_mono, OF reads_shown]; simp add: reads_shown)
qed

lemma backupOne_shown:
  assumes "planPrinted W S p" "isAdoption p" "lkKey lc = rp_Namespace p @ ''/'' @ rp_SourceName p"
  shows "emits (createsShown W cfg S) (backupOne W cfg lc (backupDestination cfg) img)"
proof -
  have waits: "emits (createsShown W cfg S) (waitForJob W key t)" "emits (createsShown W cfg S) (waitJobGone W key t)" for key t
    unfolding waitForJob_def waitJobGone_def by (intro poll_emits emits_rules; simp add: reads_shown)+
  have "createsShown W cfg S (CWrite (WCreateJob (BuildSnapshotJob (lk_Name lc) (lk_Namespace lc) (lk_UID lc) (lk_Spec lc)
      (backupDestination cfg) img)) r)" for r
    using assms by (auto simp: createsShown_def announced_def)
  then show ?thesis
    unfolding backupOne_def Let_def by (intro emits_rules waits) (simp_all add: reads_shown)
qed

lemma createMember_shown:
  "manifestText W (Some (OMember (ma_Member ma))) \<in> S \<Longrightarrow> emits (createsShown W cfg S) (createMember W ns ma)"
  unfolding createMember_def Let_def by (intro emits_rules) (simp_all add: reads_shown)

lemma createCluster_shown:
  "manifestText W ` Some ` set extras \<subseteq> S \<Longrightarrow> manifestText W (Some (OCluster cl)) \<in> S \<Longrightarrow>
   emits (createsShown W cfg S) (createCluster W ns extras cl st)"
  unfolding createCluster_def by (intro emits_rules) (auto simp: reads_shown)

lemma applyOne_shown:
  assumes "planShown W S p"
  shows "emits (createsShown W cfg S) (applyOne W stats p)"
proof -
  have adopt: "emits (createsShown W cfg S) (applyAdoption W p)" if act: "rp_Action p = ActionAdopt"
  proof (cases "rp_Adoption p")
    case (Some a)
    have printed: "planPrinted W S p" using assms act by (simp add: planShown_def)
    then have shown: "manifestText W ` Some ` set (rp_Extras p) \<subseteq> S" "manifestText W (rp_Target p) \<in> S"
      "\<And>ma. ma \<in> set (ad_Members a) \<Longrightarrow> manifestText W (Some (OMember (ma_Member ma))) \<in> S"
      using Some act by (auto simp: planPrinted_def renderedObjects_def)
    show ?thesis
    proof (cases "\<exists>c. rp_Target p = Some (OCluster c)")
      case True
      then obtain c where c: "rp_Target p = Some (OCluster c)" by blast
      show ?thesis
        unfolding applyAdoption_def Some c using shown
        by (simp, intro emits_rules createCluster_shown createMember_shown steps_shown cutover_shown [OF printed act Some c]) (auto simp: c)
    qed (auto simp: applyAdoption_def Some intro!: emits_return split: option.split object.split)
  qed (simp add: applyAdoption_def emits_return)
  have create: "emits (createsShown W cfg S) (createPlanned W p)" if "rp_Action p = ActionCreate"
    using assms that unfolding createPlanned_def
    by (intro emits_rules) (auto simp: planShown_def planPrinted_def renderedObjects_def)
  show ?thesis
    using adopt create by (cases "rp_Action p") (auto simp: applyOne_def intro!: emits_rules steps_shown)
qed

lemma applyPlans_shown: "list_all (planShown W S) ps \<Longrightarrow> emits (createsShown W cfg S) (applyPlans W stats ps)"
  by (induction ps arbitrary: stats) (auto intro!: emits_rules applyOne_shown)

lemma emits_bind_yields: "emits P m \<Longrightarrow> yields m R \<Longrightarrow> (\<And>a. R a \<Longrightarrow> emits P (f a)) \<Longrightarrow> emits P (State_Monad.bind m f)"
  unfolding emits_def yields_def
  by (metis (no_types, lifting) State_Monad.run_state_bind append.assoc case_prod_conv fst_conv list_all_append)

lemma emits_bindE_yields:
  "emits P m \<Longrightarrow> yields m (\<lambda>r. \<forall>a. r = Inr a \<longrightarrow> R a) \<Longrightarrow> (\<And>a. R a \<Longrightarrow> emits P (f a)) \<Longrightarrow> emits P (bindE m f)"
  unfolding bindE_def by (erule emits_bind_yields, assumption) (auto intro: emits_return split: sum.split)

lemma disableAuth_shown:
  assumes "list_all (planShown W S) plans"
  shows "emits (createsShown W cfg T) (disableAuthForAdoptions W d fs plans)"
    "yields (disableAuthForAdoptions W d fs plans) (list_all (planShown W S))"
proof -
  show "emits (createsShown W cfg T) (disableAuthForAdoptions W d fs plans)"
    unfolding disableAuthForAdoptions_def disableLegacyAuth_def findRunningEtcdPod_def
    by (intro emits_rules withLegacyEtcd_emits emits_mono [OF etcdPods_reads reads_shown]) (simp_all add: reads_shown)
  show "yields (disableAuthForAdoptions W d fs plans) (list_all (planShown W S))"
    unfolding disableAuthForAdoptions_def
    by (rule yields_mapIO) (use assms in \<open>auto simp: list_all_iff intro!: yields_bind split: sum.split\<close>)
qed

lemma runBackups_shown:
  assumes "list_all (planShown W S) plans"
  shows "emits (createsShown W cfg S) (runBackups W cfg d plans)"
    "yields (runBackups W cfg d plans) (\<lambda>r. \<forall>ps. r = Inr ps \<longrightarrow> list_all (planShown W S) ps)"
proof -
  have one: "emits (createsShown W cfg S) (backupOne W cfg lc (backupDestination cfg) img)"
    if "p \<in> set plans" "\<not> \<not> isAdoption p" "clusterOf d p = Some lc" for p lc img
  proof (rule backupOne_shown)
    show "planPrinted W S p" using assms that(1,2) by (auto simp: list_all_iff planShown_def isAdoption_def)
    show "isAdoption p" using that(2) by simp
    show "lkKey lc = rp_Namespace p @ ''/'' @ rp_SourceName p" using that(3) by (auto simp: clusterOf_def find_Some_iff)
  qed
  then show "emits (createsShown W cfg S) (runBackups W cfg d plans)"
    unfolding runBackups_def by (intro emits_rules emits_mono [OF resolveAgentImage_reads reads_shown])
  have plan: "yields (if \<not> isAdoption p then return p
     else case clusterOf d p of None \<Rightarrow> return p
        | Some lc \<Rightarrow> do { r \<leftarrow> backupOne W cfg lc (backupDestination cfg) img;
             return (case r of Inr _ \<Rightarrow> p
               | Inl err \<Rightarrow> addErrors [''backup failed: '' @ err_msg err] (p\<lparr>rp_Action := ActionError, rp_DeleteRef := None\<rparr>)) }) (planShown W S)"
    if "p \<in> set plans" for p img
    using that assms by (auto simp: list_all_iff intro!: yields_bind split: sum.split option.split)
  show "yields (runBackups W cfg d plans) (\<lambda>r. \<forall>ps. r = Inr ps \<longrightarrow> list_all (planShown W S) ps)"
    unfolding runBackups_def
    by (rule yields_bindE [where R = "\<lambda>_. True"], simp add: yields_def, simp, rule yields_bind2 [OF yields_mapIO [OF plan]]) auto
qed

lemma applyPlan_shown:
  assumes "list_all (planShown W S) plans"
  shows "emits (createsShown W cfg S) (applyPlan W cfg d fs plans)"
proof -
  have lines: "emits (createsShown W cfg S) (say t)" "emits (createsShown W cfg S) (mapIO say ls)" "emits (createsShown W cfg S) printCRDNotice"
    "emits (createsShown W cfg S) (renderSecuritySummary ps)" for t ls ps
    unfolding printCRDNotice_def renderSecuritySummary_def Let_def case_prod_beta by (intro emits_rules; simp add: reads_shown)+
  have confirm: "emits (createsShown W cfg S) (confirm W q)" for q
    unfolding confirm_def by (intro emits_rules) (simp_all add: reads_shown)
  have backup: "emits (createsShown W cfg S) (case if b then Some (runBackups W cfg d) else None of None \<Rightarrow> return (Inr ps) | Some f \<Rightarrow> f ps) \<and>
      yields (case if b then Some (runBackups W cfg d) else None of None \<Rightarrow> return (Inr ps) | Some f \<Rightarrow> f ps)
        (\<lambda>r. \<forall>ps. r = Inr ps \<longrightarrow> list_all (planShown W S) ps)" if "list_all (planShown W S) ps" for b ps
    using runBackups_shown [OF that] that by (cases b) (auto simp: emits_return)
  have "emits (createsShown W cfg S) (runMutationPhases (disableAuthForAdoptions W d fs)
      (if b then Some (runBackups W cfg d) else None) (applyPlans W zeroStats) plans)" for b
    unfolding runMutationPhases_def
    by (rule emits_bind_yields [OF disableAuth_shown(1,2)], fact assms, fact assms,
        rule emits_bindE_yields, erule backup [THEN conjunct1], erule backup [THEN conjunct2], intro emits_rules applyPlans_shown)
  then show ?thesis
    unfolding applyPlan_def by (intro emits_rules lines confirm)
qed

section \<open>The run\<close>

lemma presentPlan_shown:
  assumes "snd s"
  shows "safe (shownMon W cfg) s (presentPlan W cfg d fs plans) (\<lambda>_ _. True)"
  unfolding presentPlan_def
proof (rule safe_bind)
  show "safe (shownMon W cfg) s (render W plans) (\<lambda>_ s'. shownBy W plans \<subseteq> fst s')"
    using render_shows [of W cfg plans] assms unfolding showing_def by (blast intro: safe_weaken)
  fix t :: "string set \<times> bool"
  assume t: "shownBy W plans \<subseteq> fst t"
  have "emits (createsShown W cfg (shownBy W plans)) (if \<not> cfg_Apply cfg then do {
        _ \<leftarrow> say ([CHR 0x0A] @ ''Dry-run complete: nothing was changed. Re-run with --apply to execute the plan.'');
        _ \<leftarrow> printCRDNotice;
        return (errorIfPlanFailed plans)
      }
      else applyPlan W cfg d fs plans)"
    unfolding printCRDNotice_def
    by (intro emits_rules applyPlan_shown) (auto simp: reads_shown shownBy_def planShown_def list_all_iff intro!: planLines_printed)
  then show "safe (shownMon W cfg) t (if \<not> cfg_Apply cfg then do {
        _ \<leftarrow> say ([CHR 0x0A] @ ''Dry-run complete: nothing was changed. Re-run with --apply to execute the plan.'');
        _ \<leftarrow> printCRDNotice;
        return (errorIfPlanFailed plans)
      }
      else applyPlan W cfg d fs plans) (\<lambda>_ _. True)"
    by (rule safe_weaken [OF shown_safe [OF _ t]]) simp
qed

lemma runMigration_shown: "safe (shownMon W cfg) ({}, True) (runMigration W cfg) (\<lambda>_ _. True)"
proof -
  have gate: "emits readsOnly (gate W cfg)"
    unfolding gate_def checkControllersDown_def checkControllerDown_def controllerPods_def by (intro emits_rules) simp_all
  have lines: "emits readsOnly (say t)" "emits readsOnly printCRDNotice" for t
    unfolding printCRDNotice_def by (intro emits_rules, simp)+
  have start: "snd ({} :: string set, True)" by simp
  show ?thesis
    unfolding runMigration_def
    apply (rule safe_bindE [OF reads_open [OF clients_reads start]], simp)
    apply (rule safe_bindE [OF reads_open [OF gate]], assumption, simp)
    apply (rule safe_bind [OF reads_open [OF lines(1)]], assumption)
    apply (rule safe_bindE [OF reads_open [OF discover_reads]], assumption, simp)
    apply (rule safe_if)
     apply (rule safe_weaken [OF reads_open], intro emits_rules lines, assumption, simp)
    apply (rule safe_bind [OF reads_open [OF lines(1)]], assumption)
    apply (rule safe_bind [OF reads_open [OF inspectAll_reads]], assumption)
    apply (rule safe_bind [OF reads_open [OF lines(1)]], assumption)
    apply (rule safe_bindE [OF reads_open [OF planAll_reads]], assumption, simp)
    by (rule presentPlan_shown)
qed

text \<open>
  C22. The user confirms what is created. Whatever the API server, etcd and the user reply, whatever a migration creates
  was announced by this run before the confirmation was read, before etcd was asked to change anything and before the
  first write: an EtcdCluster, a member, a Secret or a snapshot by its manifest, or by the line that says its
  rendering failed; a snapshot Job, which is not printed, by the printed adoption of the legacy cluster it
  backs up, to the configured destination; and a Service, which is not printed either, by the printed adoption whose
  cluster it serves and whose steps name the replacement. No other Job and no other Service is created.
\<close>

theorem etcdMigrate_creates_what_it_showed: "accepted (shownMon W cfg) ({}, True) (trace_of (etcdMigrate W cfg))"
  by (rule safe_accepted [where Q = "\<lambda>_ _. True"])
    (auto simp: etcdMigrate_def intro: safe_return runMigration_shown split: option.split)

end
