(* ===== verification/KubectlEtcd.thy ===== *)
theory KubectlEtcd
  imports Cli MemberPod
begin

text \<open>
  The kubectl plugin (\<^verbatim>\<open>src/cmd/kubectl-etcd/main.go\<close>): how it finds the TLS material and the credentials
  of a Pod, how it dials it through a port forward, and its commands.
\<close>

section \<open>TLS of a Pod\<close>

definition errNoCertFile :: goerror where
  "errNoCertFile = errorf ''certificate file path not specified in container args''"

text \<open>The arguments in order; a later \<^verbatim>\<open>--cert-file\<close> overrides an earlier one.\<close>

fun certArgs :: "string \<times> bool \<Rightarrow> string list \<Rightarrow> string \<times> bool" where
  "certArgs (cert, mTLS) [] = (cert, mTLS)"
| "certArgs (cert, mTLS) (arg # args) =
     certArgs (if HasPrefix arg ''--cert-file='' then (TrimPrefix arg ''--cert-file='', mTLS)
               else if arg = ''--client-cert-auth'' \<or> arg = ''--client-cert-auth=true'' \<or> HasPrefix arg ''--trusted-ca-file=''
               then (cert, True) else (cert, mTLS)) args"

definition volumeSecret :: "Pod \<Rightarrow> VolumeMount \<Rightarrow> string option" where
  "volumeSecret pod vm =
     (case List.find (\<lambda>v. vo_Name v = vm_Name vm \<and> vo_Secret v \<noteq> None) (pos_Volumes (pod_Spec pod)) of
        None \<Rightarrow> None | Some v \<Rightarrow> vo_Secret v)"

fun mountedSecret :: "Pod \<Rightarrow> string \<Rightarrow> VolumeMount list \<Rightarrow> string option" where
  "mountedSecret pod path [] = None"
| "mountedSecret pod path (vm # vms) =
     (case (if HasPrefix path (vm_MountPath vm) then volumeSecret pod vm else None) of
        Some s \<Rightarrow> Some s | None \<Rightarrow> mountedSecret pod path vms)"

definition findSecretNameForTLS :: "Pod \<Rightarrow> Container \<Rightarrow> goerror + string \<times> bool" where
  "findSecretNameForTLS pod container =
     (let (certFilePath, mTLS) = certArgs ('''', False) (ctr_Command container @ ctr_Args container) in
      if certFilePath = '''' then Inl errNoCertFile
      else case mountedSecret pod certFilePath (ctr_VolumeMounts container) of
             Some s \<Rightarrow> Inr (s, mTLS)
           | None \<Rightarrow> Inl (errorf ''secret for the TLS certificate file not found''))"

definition requiredKeys :: "bool \<Rightarrow> string list" where
  "requiredKeys mTLS = [''ca.crt''] @ (if mTLS then [''tls.crt'', ''tls.key''] else [])"

definition tlsFromSecret :: "world \<Rightarrow> string \<Rightarrow> string \<Rightarrow> bool \<Rightarrow> Secret \<Rightarrow> goerror + TLSConfigData" where
  "tlsFromSecret W namespace secretName mTLS secret =
     (let data = secr_Data secret; ref = ''secret '' @ namespace @ ''/'' @ secretName in
      case List.find (\<lambda>key. mapGet data key = '''') (requiredKeys mTLS) of
        Some key \<Rightarrow> Inl (errorf (ref @ '' is missing a non-empty '' @ goQuote key @ '' key''))
      | None \<Rightarrow>
          (case TLSConfig (cl_env (w_lib W)) (mapGet data ''ca.crt'')
                  (if mTLS then mapGet data ''tls.crt'' else '''') (if mTLS then mapGet data ''tls.key'' else '''') of
             Inl err \<Rightarrow> Inl (wrapf ref err) | Inr cfg \<Rightarrow> Inr cfg))"

definition getTLSConfig :: "world \<Rightarrow> Pod \<Rightarrow> string \<Rightarrow> (goerror + TLSConfigData option) cproc" where
  "getTLSConfig W pod namespace =
     (case List.find (\<lambda>c. ctr_Name c = ''etcd'') (pos_Containers (pod_Spec pod)) of
        None \<Rightarrow> return (Inl (errorf ''etcd container not found''))
      | Some container \<Rightarrow>
          (case findSecretNameForTLS pod container of
             Inl err \<Rightarrow> return (if err = errNoCertFile then Inr None else Inl err)
           | Inr (secretName, mTLS) \<Rightarrow>
               bindE (cliSecret W \<lparr>nn_namespace = namespace, nn_name = secretName\<rparr>) (\<lambda>secret.
               return (case tlsFromSecret W namespace secretName mTLS secret of Inl err \<Rightarrow> Inl err | Inr cfg \<Rightarrow> Inr (Some cfg)))))"

section \<open>The client\<close>

record PluginConfig =
  pc_Kubeconfig :: string
  pc_Namespace :: string
  pc_PodName :: string
  pc_CredentialsSecret :: string

text \<open>The configuration with no flag given; \<open>kubeconfigEnv\<close> is \<^verbatim>\<open>$KUBECONFIG\<close>.\<close>

definition initializeConfig :: "string \<Rightarrow> string \<Rightarrow> PluginConfig" where
  "initializeConfig kubeconfigEnv home =
     \<lparr>pc_Kubeconfig = (if kubeconfigEnv = '''' then pathJoin [home, ''.kube'', ''config''] else kubeconfigEnv),
      pc_Namespace = '''', pc_PodName = '''', pc_CredentialsSecret = ''''\<rparr>"

definition resolveNamespace :: "world \<Rightarrow> string \<Rightarrow> string" where
  "resolveNamespace W kubeconfig =
     (case cl_namespace (w_lib W) kubeconfig of Inl _ \<Rightarrow> ''default'' | Inr ns \<Rightarrow> if ns = '''' then ''default'' else ns)"

definition setupPortForwarding :: "world \<Rightarrow> PluginConfig \<Rightarrow> (goerror + TLSConfigData option \<times> int) cproc" where
  "setupPortForwarding W config =
     bindE (wrapE ''failed to get pod'' (cliPod W \<lparr>nn_namespace = pc_Namespace config, nn_name = pc_PodName config\<rparr>)) (\<lambda>pod.
     bindE (wrapE ''error building kubeconfig'' (failing (cliSetup W BuildConfig))) (\<lambda>_.
     bindE (ForwardToPod W (pc_Namespace config) (pc_PodName config) 2379) (\<lambda>localPort.
     bindE (wrapE ''failed to get TLS config'' (getTLSConfig W pod (pc_Namespace config))) (\<lambda>tlsConfig.
     return (Inr (tlsConfig, localPort))))))"

text \<open>\<^verbatim>\<open>strings.SplitN(ref, "/", 2)\<close>: at the first slash.\<close>

definition credentialsKey :: "string \<Rightarrow> string \<Rightarrow> nsname" where
  "credentialsKey defaultNamespace secretRef =
     (if CHR ''/'' \<in> set secretRef
      then \<lparr>nn_namespace = takeWhile (\<lambda>c. c \<noteq> CHR ''/'') secretRef, nn_name = tl (dropWhile (\<lambda>c. c \<noteq> CHR ''/'') secretRef)\<rparr>
      else \<lparr>nn_namespace = defaultNamespace, nn_name = secretRef\<rparr>)"

definition loadCredentials :: "world \<Rightarrow> string \<Rightarrow> string \<Rightarrow> (goerror + string \<times> string) cproc" where
  "loadCredentials W defaultNamespace secretRef =
     (let key = credentialsKey defaultNamespace secretRef in
      bindE (cliSecret W key) (\<lambda>secret.
      return (case BasicAuthCredentials (secr_Data secret) of
        Inl err \<Rightarrow> Inl (wrapf (''secret '' @ nn_namespace key @ ''/'' @ nn_name key) err)
      | Inr up \<Rightarrow> Inr up)))"

text \<open>An error formatted with \<^verbatim>\<open>%s\<close>: its text, not its kind.\<close>

definition flatE :: "string \<Rightarrow> (goerror + 'a) cproc \<Rightarrow> (goerror + 'a) cproc" where
  "flatE msg m = State_Monad.bind m (\<lambda>r. return (case r of Inl err \<Rightarrow> Inl (errorf (msg @ '': '' @ err_msg err)) | Inr x \<Rightarrow> Inr x))"

definition setupEtcdClient :: "world \<Rightarrow> PluginConfig \<Rightarrow> (goerror + CliClient) cproc" where
  "setupEtcdClient W config0 =
     (if pc_PodName config0 = '''' then return (Inl (errorf ''you must specify the pod name''))
      else
        bindE (flatE ''error building kubeconfig'' (failing (cliSetup W BuildConfig))) (\<lambda>_.
        let config = (if pc_Namespace config0 = '''' then config0\<lparr>pc_Namespace := resolveNamespace W (pc_Kubeconfig config0)\<rparr> else config0) in
        bindE (flatE ''error creating Kubernetes client'' (failing (cliSetup W NewKube))) (\<lambda>_.
        bindE (flatE ''failed to setup port forwarding'' (setupPortForwarding W config)) (\<lambda>(tlsConfig, localPort).
        bindE (if pc_CredentialsSecret config \<noteq> ''''
               then flatE ''failed to load credentials'' (loadCredentials W (pc_Namespace config) (pc_CredentialsSecret config))
               else return (Inr ('''', ''''))) (\<lambda>(user, pass).
        let c = \<lparr>cc_Endpoints = [''localhost:'' @ showInt localPort], cc_TLS = tlsConfig, cc_ServerName = '''',
                 cc_Username = user, cc_Password = pass\<rparr> in
        bindE (flatE ''failed to connect to etcd server'' (failing (cliDial W c))) (\<lambda>_.
        return (Inr c)))))))"

definition endpoint :: "CliClient \<Rightarrow> string" where
  "endpoint c = (case cc_Endpoints c of [] \<Rightarrow> '''' | e # _ \<Rightarrow> e)"

section \<open>Output\<close>

text \<open>The verb \<^verbatim>\<open>%x\<close> on a \<^verbatim>\<open>uint64\<close>, and a field padded on the right to a width in runes.\<close>

fun hexNat :: "nat \<Rightarrow> string" where
  "hexNat n = (if n < 16 then [digitChar n] else hexNat (n div 16) @ [digitChar (n mod 16)])"

declare hexNat.simps [simp del]

definition hexText :: "u64 \<Rightarrow> string" where
  "hexText w = hexNat (unat w)"

definition runes :: "string \<Rightarrow> nat" where
  "runes s = length (filter (\<lambda>c. \<not> (128 \<le> (of_char c :: nat) \<and> (of_char c :: nat) < 192)) s)"

definition padRight :: "nat \<Rightarrow> string \<Rightarrow> string" where
  "padRight n s = s @ replicate (n - runes s) (CHR '' '')"

definition inUsePercent :: "world \<Rightarrow> int \<Rightarrow> int \<Rightarrow> string" where
  "inUsePercent W dbSize dbSizeInUse = (if dbSize = 0 then ''0.00%'' else cl_percent (w_lib W) dbSizeInUse dbSize @ ''%'')"

definition statusHeader :: string where
  "statusHeader = padRight 17 ''MEMBER'' @ '' '' @ padRight 9 ''DB SIZE'' @ '' '' @ padRight 15 ''IN USE'' @ '' '' @
     padRight 18 ''LEADER'' @ '' '' @ padRight 11 ''RAFT INDEX'' @ '' '' @ padRight 20 ''RAFT APPLIED INDEX'' @ '' '' @
     padRight 8 ''LEARNER'' @ '' '' @ ''ERRORS''"

definition statusRow :: "world \<Rightarrow> CliStatus \<Rightarrow> string" where
  "statusRow W st =
     (let bytes = (\<lambda>n. cl_humanize (w_lib W) (word_of_int n));
          inUse = bytes (ks_DbSizeInUse st) @ '' ('' @ inUsePercent W (ks_DbSize st) (ks_DbSizeInUse st) @ '')''
      in padRight 17 (hexText (ks_MemberId st)) @ '' '' @ padRight 9 (bytes (ks_DbSize st)) @ '' '' @ padRight 15 inUse @ '' '' @
         padRight 18 (hexText (ks_Leader st)) @ '' '' @ padRight 11 (showNat (unat (ks_RaftIndex st))) @ '' '' @
         padRight 20 (showNat (unat (ks_RaftAppliedIndex st))) @ '' '' @ padRight 8 (showBool (ks_IsLearner st)) @ '' '' @
         Join (ks_Errors st) '', '')"

definition membersHeader :: string where
  "membersHeader = padRight 19 ''ID'' @ '' '' @ padRight 10 ''HOSTNAME'' @ '' '' @ padRight 30 ''PEER URLS'' @ '' '' @
     padRight 30 ''CLIENT URLS'' @ '' '' @ padRight 7 ''LEARNER''"

definition memberRow :: "CliMember \<Rightarrow> string" where
  "memberRow m = padRight 19 (hexText (km_ID m)) @ '' '' @ padRight 10 (km_Name m) @ '' '' @
     padRight 30 (Join (km_PeerURLs m) '','') @ '' '' @ padRight 30 (Join (km_ClientURLs m) '','') @ '' '' @
     padRight 7 (showBool (km_IsLearner m))"

fun sayAll :: "string list \<Rightarrow> (goerror + unit) cproc" where
  "sayAll [] = return (Inr ())"
| "sayAll (l # ls) = State_Monad.bind (say (l @ [CHR 0x0A])) (\<lambda>_. sayAll ls)"

section \<open>The commands\<close>

definition statusCmd :: "world \<Rightarrow> PluginConfig \<Rightarrow> (goerror + unit) cproc" where
  "statusCmd W config =
     bindE (setupEtcdClient W config) (\<lambda>c.
     bindE (wrapE ''failed to get etcd status'' (cliStatus W c (endpoint c))) (\<lambda>st.
     sayAll [statusHeader, statusRow W st]))"

definition defragCmd :: "world \<Rightarrow> PluginConfig \<Rightarrow> (goerror + unit) cproc" where
  "defragCmd W config =
     bindE (setupEtcdClient W config) (\<lambda>c.
     wrapE ''failed to defragment etcd database'' (failing (cliEtcd W c (OpDefragment (endpoint c)))))"

definition compactCmd :: "world \<Rightarrow> PluginConfig \<Rightarrow> (goerror + unit) cproc" where
  "compactCmd W config =
     bindE (setupEtcdClient W config) (\<lambda>c.
     bindE (wrapE ''failed to get etcd status'' (cliStatus W c (endpoint c))) (\<lambda>st.
     wrapE ''failed to compact etcd database'' (failing (cliEtcd W c (OpCompact (ks_Revision st))))))"

definition alarmListCmd :: "world \<Rightarrow> PluginConfig \<Rightarrow> (goerror + unit) cproc" where
  "alarmListCmd W config =
     bindE (setupEtcdClient W config) (\<lambda>c.
     bindE (wrapE ''failed to list etcd alarms'' (cliAlarmList W c)) (\<lambda>alarms.
     sayAll (map (\<lambda>(a, mid). ''Alarm: '' @ a @ '', MemberID: '' @ hexText mid) alarms)))"

definition alarmDisarmCmd :: "world \<Rightarrow> PluginConfig \<Rightarrow> (goerror + unit) cproc" where
  "alarmDisarmCmd W config =
     bindE (setupEtcdClient W config) (\<lambda>c.
     wrapE ''failed to disarm etcd alarms'' (failing (cliEtcd W c (OpAlarmDisarm \<lparr>al_MemberID = 0, al_Alarm = ALARM_NONE\<rparr>))))"

definition leadershipTarget :: "CliMember list \<Rightarrow> u64 \<Rightarrow> CliMember option" where
  "leadershipTarget members leaderID = List.find (\<lambda>m. km_ID m \<noteq> leaderID \<and> \<not> km_IsLearner m) members"

definition forfeitLeadershipCmd :: "world \<Rightarrow> PluginConfig \<Rightarrow> (goerror + unit) cproc" where
  "forfeitLeadershipCmd W config =
     bindE (setupEtcdClient W config) (\<lambda>c.
     bindE (wrapE ''failed to get current etcd status'' (cliStatus W c (endpoint c))) (\<lambda>st.
     bindE (wrapE ''failed to get etcd member list'' (cliMemberList W c)) (\<lambda>(_, members).
     case leadershipTarget members (ks_Leader st) of
       None \<Rightarrow> sayAll [''No eligible member found to transfer leadership to or already not the leader.'']
     | Some m \<Rightarrow> wrapE ''failed to forfeit leadership'' (failing (cliEtcd W c (OpMoveLeader (km_ID m)))))))"

definition leaveCmd :: "world \<Rightarrow> PluginConfig \<Rightarrow> (goerror + unit) cproc" where
  "leaveCmd W config =
     bindE (setupEtcdClient W config) (\<lambda>c.
     bindE (wrapE ''failed to retrieve member list'' (cliMemberList W c)) (\<lambda>(_, members).
     case List.find (\<lambda>m. km_Name m = pc_PodName config) members of
       None \<Rightarrow> sayAll [''Specified pod is not a member of the etcd cluster.'']
     | Some m \<Rightarrow> wrapE ''failed to remove member from cluster'' (failing (cliEtcd W c (OpMemberRemove (km_ID m))))))"

definition membersCmd :: "world \<Rightarrow> PluginConfig \<Rightarrow> (goerror + unit) cproc" where
  "membersCmd W config =
     bindE (setupEtcdClient W config) (\<lambda>c.
     bindE (wrapE ''failed to list etcd members'' (cliMemberList W c)) (\<lambda>(_, members).
     sayAll (membersHeader # map memberRow members)))"

definition removeMemberCmd :: "world \<Rightarrow> PluginConfig \<Rightarrow> string \<Rightarrow> (goerror + unit) cproc" where
  "removeMemberCmd W config arg =
     bindE (setupEtcdClient W config) (\<lambda>c.
     case parseUint16_64 arg of
       Inl err \<Rightarrow> return (Inl (wrapf ''invalid member ID format'' err))
     | Inr memberID \<Rightarrow> wrapE ''failed to remove member'' (failing (cliEtcd W c (OpMemberRemove memberID))))"

definition addMember :: "world \<Rightarrow> PluginConfig \<Rightarrow> string \<Rightarrow> (goerror + unit) cproc" where
  "addMember W config memberURL =
     bindE (wrapE ''failed to set up etcd client'' (setupEtcdClient W config)) (\<lambda>c.
     bindE (wrapE ''failed to add member'' (failing (cliEtcd W c (OpMemberAdd [memberURL])))) (\<lambda>_.
     sayAll [''Member successfully added'']))"

definition snapshotCmd :: "world \<Rightarrow> PluginConfig \<Rightarrow> string \<Rightarrow> (goerror + unit) cproc" where
  "snapshotCmd W config path =
     bindE (setupEtcdClient W config) (\<lambda>c.
     bindE (wrapE ''failed to create snapshot'' (failing (cliEtcd W c OpSnapshot))) (\<lambda>_.
     bindE (wrapE (''failed to open file '' @ path @ '' for writing'') (failing (cliFile W (CreateFile path)))) (\<lambda>_.
     wrapE ''failed to write snapshot to file'' (failing (cliFile W (CopyStream path))))))"

datatype pluginCommand =
    StatusCmd | DefragCmd | CompactCmd | AlarmListCmd | AlarmDisarmCmd | ForfeitLeadershipCmd | LeaveCmd
  | MembersCmd | RemoveMemberCmd string | AddMemberCmd string | SnapshotCmd string

definition kubectlEtcd :: "world \<Rightarrow> PluginConfig \<Rightarrow> pluginCommand \<Rightarrow> (goerror + unit) cproc" where
  "kubectlEtcd W config cmd =
     (case cmd of
        StatusCmd \<Rightarrow> statusCmd W config | DefragCmd \<Rightarrow> defragCmd W config | CompactCmd \<Rightarrow> compactCmd W config
      | AlarmListCmd \<Rightarrow> alarmListCmd W config | AlarmDisarmCmd \<Rightarrow> alarmDisarmCmd W config
      | ForfeitLeadershipCmd \<Rightarrow> forfeitLeadershipCmd W config | LeaveCmd \<Rightarrow> leaveCmd W config
      | MembersCmd \<Rightarrow> membersCmd W config | RemoveMemberCmd arg \<Rightarrow> removeMemberCmd W config arg
      | AddMemberCmd url \<Rightarrow> addMember W config url | SnapshotCmd path \<Rightarrow> snapshotCmd W config path)"

end
