(* ===== verification/KubectlContract.thy ===== *)
theory KubectlContract
  imports KubectlEtcd
begin

text \<open>
  What the kubectl plugin does to a cluster: the TLS material it picks for the Pods the operator builds, the
  one request each command sends, and the IDs it prints and reads.
\<close>

section \<open>TLS of the operator's Pods\<close>

definition unrelated :: "string \<Rightarrow> bool" where
  "unrelated a \<longleftrightarrow> \<not> HasPrefix a ''--cert-file='' \<and> a \<noteq> ''--client-cert-auth'' \<and> a \<noteq> ''--client-cert-auth=true'' \<and>
      \<not> HasPrefix a ''--trusted-ca-file=''"

lemma certArgs_append: "certArgs x (xs @ ys) = certArgs (certArgs x xs) ys"
  by (induction x xs rule: certArgs.induct) auto

lemma certArgs_skip: "list_all unrelated xs \<Longrightarrow> certArgs x xs = x"
  by (induction x xs rule: certArgs.induct) (auto simp: unrelated_def)

lemma unrelated_flags [simp]:
  "unrelated ''etcd''" "unrelated (''--name='' @ x)" "unrelated (''--data-dir='' @ x)" "unrelated (''--listen-peer-urls='' @ x)"
  "unrelated (''--listen-client-urls='' @ x)" "unrelated (''--advertise-client-urls='' @ x)"
  "unrelated (''--initial-advertise-peer-urls='' @ x)" "unrelated (''--initial-cluster='' @ x)"
  "unrelated (''--initial-cluster-token='' @ x)" "unrelated (''--initial-cluster-state='' @ x)"
  "unrelated ''--listen-metrics-urls=http://0.0.0.0:2381''" "unrelated (''--quota-backend-bytes='' @ x)"
  "unrelated (''--auto-compaction-mode='' @ x)" "unrelated (''--auto-compaction-retention='' @ x)"
  "unrelated (''--snapshot-count='' @ x)"
  by (simp_all add: unrelated_def HasPrefix_def)

lemma unrelated_peer: "list_all unrelated (fst (peerTLSParts m))"
  by (auto simp: peerTLSParts_def unrelated_def HasPrefix_def split: option.split)

lemma unrelated_options: "list_all unrelated (optionFlags os)"
  using unrelated_flags(12-15) by (auto simp: optionFlags_def list_all_iff split: option.split simp del: append_Cons)

lemma certArgs_etcd: "certArgs x (etcdCommand m f) = certArgs x (fst (clientTLSParts m))"
proof -
  obtain own where cmd: "etcdCommand m f = own @ optionFlags (ms_Options (em_Spec m)) @ fst (clientTLSParts m) @ fst (peerTLSParts m)"
    and own: "list_all unrelated own"
    unfolding etcdCommand_def Let_def by (metis (no_types) list.pred_inject unrelated_flags(1-11))
  show ?thesis
    by (simp add: cmd certArgs_append certArgs_skip [OF own] certArgs_skip [OF unrelated_options] certArgs_skip [OF unrelated_peer])
qed

lemma certArgs_client:
  "certArgs ('''', False) (fst (clientTLSParts m)) =
     (case ms_TLS (em_Spec m) of None \<Rightarrow> ('''', False)
      | Some t \<Rightarrow> (case mt_ClientServerSecretRef t of None \<Rightarrow> ('''', False)
          | Some _ \<Rightarrow> (''/etc/etcd/tls/client/tls.crt'', mt_ClientMTLS t)))"
  by (simp add: clientTLSParts_def HasPrefix_def TrimPrefix_def split: option.split)

abbreviation (input) etcdContainer :: "Pod \<Rightarrow> Container" where
  "etcdContainer pod \<equiv> hd (pos_Containers (pod_Spec pod))"

lemma buildPod_tls:
  "ctr_Command (etcdContainer (buildPod r m f)) = etcdCommand m f" "ctr_Args (etcdContainer (buildPod r m f)) = []"
  "ctr_VolumeMounts (etcdContainer (buildPod r m f)) =
     mountAt ''data'' ''/var/lib/etcd'' False # snd (snd (clientTLSParts m)) @ snd (snd (peerTLSParts m))"
  "pos_Volumes (pod_Spec (buildPod r m f)) =
     dataVolume m # fst (snd (clientTLSParts m)) @ fst (snd (peerTLSParts m)) @ snd (restoreParts r m)"
  by (simp_all add: buildPod_def emptyContainer_def case_prod_beta Let_def)

lemma mountedSecret_own:
  assumes "clientTLSParts m = (args, [(emptyVolume ''tls-client'')\<lparr>vo_Secret := Some s\<rparr>], [mountAt ''tls-client'' ''/etc/etcd/tls/client'' True])"
  shows "mountedSecret (buildPod r m f) ''/etc/etcd/tls/client/tls.crt'' (ctr_VolumeMounts (etcdContainer (buildPod r m f))) = Some s"
  unfolding buildPod_tls assms
  by (simp add: mountAt_def HasPrefix_def volumeSecret_def buildPod_tls assms dataVolume_def emptyVolume_def)

text \<open>
  C28. For every Pod the operator builds, the plugin reads the member's TLS mode off the Pod exactly: without
  client TLS it takes the Pod for plaintext, and with it the Secret it finds is the member's own server
  Secret, with a client certificate asked for exactly when the member demands one.
\<close>

theorem findSecretNameForTLS_buildPod:
  "findSecretNameForTLS (buildPod r m f) (etcdContainer (buildPod r m f)) =
     (case ms_TLS (em_Spec m) of None \<Rightarrow> Inl errNoCertFile
      | Some t \<Rightarrow> (case mt_ClientServerSecretRef t of None \<Rightarrow> Inl errNoCertFile | Some s \<Rightarrow> Inr (s, mt_ClientMTLS t)))"
  unfolding findSecretNameForTLS_def buildPod_tls(1,2) append_Nil2 certArgs_etcd certArgs_client
  by (auto simp: mountedSecret_own clientTLSParts_def split: option.split)

section \<open>What a command sends\<close>











lemma emits_flatE [emits_rules]: "emits P m \<Longrightarrow> emits P (flatE msg m)"
  unfolding flatE_def by (intro emits_rules)


















section \<open>Member IDs\<close>

lemma hexValue_hexNat: "hexValue 0 (hexNat n) = Some n"
proof (induction n rule: hexNat.induct)
  case (1 n)
  then show ?case
    by (cases "n < 16") (simp_all add: hexNat.simps [of n] hexValue_append hexVal_digitChar)
qed

lemma hexNat_nonempty: "hexNat n \<noteq> []"
  by (simp add: hexNat.simps [of n])

lemma parse_hexText: "parseUint16_64 (hexText w) = Inr w"
  using unsigned_less [of w] by (simp add: parseUint16_64_def hexText_def hexValue_hexNat hexNat_nonempty)

definition removesOnly :: "u64 \<Rightarrow> cevent \<Rightarrow> bool" where
  "removesOnly i e = (case e of CEtcd c op r \<Rightarrow> op = OpMemberRemove i | _ \<Rightarrow> True)"

lemma setupEtcdClient_removesOnly: "emits (removesOnly i) (setupEtcdClient W config)"
  unfolding setupEtcdClient_def setupPortForwarding_def getTLSConfig_def loadCredentials_def ForwardToPod_def awaitForward_def Let_def
  by (intro emits_rules) (auto simp: removesOnly_def split: forwardEvent.split intro!: emits_rules)

lemma hexNat_noSpace: "CHR '' '' \<notin> set (hexNat n)"
proof (induction n rule: hexNat.induct)
  case (1 n)
  have "digitChar d \<noteq> CHR '' ''" if "d < 16" for d
  proof
    assume "digitChar d = CHR '' ''"
    with hexVal_digitChar [OF that] have "hexVal (CHR '' '') = Some d" by simp
    then show False by (simp add: hexVal_def)
  qed
  from this [of n] this [of "n mod 16"] 1 show ?case by (cases "n < 16") (auto simp: hexNat.simps [of n])
qed

abbreviation (input) firstColumn :: "string \<Rightarrow> string" where
  "firstColumn row \<equiv> takeWhile (\<lambda>c. c \<noteq> CHR '' '') row"

lemma firstColumn_memberRow: "firstColumn (memberRow m) = hexText (km_ID m)"
proof -
  have "firstColumn (hexText i @ CHR '' '' # xs) = hexText i" for i xs
    using hexNat_noSpace [of "unat i"] by (subst takeWhile_append2) (auto simp: hexText_def)
  moreover have "\<exists>xs. padRight n t @ '' '' @ ys = t @ CHR '' '' # xs" for n t ys
    by (cases "n - runes t") (auto simp: padRight_def)
  ultimately show ?thesis unfolding memberRow_def by metis
qed

text \<open>
  The IDs round trip: what \<^verbatim>\<open>members\<close> prints in the ID column of a member, typed into \<^verbatim>\<open>remove-member\<close>, is
  accepted as an ID, and the only request that run can send is the removal of that member, for every 64-bit ID.
\<close>

lemma members_remove_roundtrip:
  "parseUint16_64 (firstColumn (memberRow m)) = Inr (km_ID m) \<and>
   list_all (removesOnly (km_ID m)) (trace_of (kubectlEtcd W config (RemoveMemberCmd (firstColumn (memberRow m)))))"
proof -
  have "emits (removesOnly (km_ID m)) (removeMemberCmd W config (hexText (km_ID m)))"
    unfolding removeMemberCmd_def parse_hexText
    by (intro emits_rules setupEtcdClient_removesOnly) (auto simp: removesOnly_def intro!: emits_rules)
  then show ?thesis
    unfolding firstColumn_memberRow by (simp add: kubectlEtcd_def parse_hexText emits_trace)
qed

end
