(* ===== verification/Startup.thy ===== *)
theory Startup
  imports Agent ClusterChildren PolicyController SnapshotController
begin

text \<open>
  The entry point of the operator image (\<^verbatim>\<open>src/main.go\<close>): the dispatch to the agents, the checks and the
  discovery at startup, and the wiring of the controllers. The manager, the API server and the file system
  are the parameter \<open>boot\<close>; logging is not modelled.
\<close>

section \<open>The operator image\<close>

abbreviation (input) defaultClusterDomain :: string where "defaultClusterDomain \<equiv> ''cluster.local''"
abbreviation (input) placeholderOperatorImage :: string where "placeholderOperatorImage \<equiv> ''controller:latest''"

definition operatorImageError :: "string \<Rightarrow> goerror option" where
  "operatorImageError img =
     (if img = placeholderOperatorImage then
        Some (errorf (''operator image is the un-substituted placeholder '' @ goQuote img @ ''; set OPERATOR_IMAGE / --operator-image to the real '' @
          ''operator image (deploy with `make deploy IMG=...`, or `helm install --set image.repository=<repo> --set image.tag=<tag>`), '' @
          ''otherwise snapshot/restore Pods will ImagePullBackOff''))
      else None)"

section \<open>The cluster domain\<close>

text \<open>\<^verbatim>\<open>strings.Fields\<close> on ASCII blanks.\<close>

definition fieldsOf :: "string \<Rightarrow> string list" where
  "fieldsOf s = filter (\<lambda>f. f \<noteq> []) (splitOn (CHR '' '') (map (\<lambda>c. if isBlank c then CHR '' '' else c) s))"

definition searchEntry :: "string list \<Rightarrow> string option" where
  "searchEntry entries =
     map_option (\<lambda>e. TrimPrefix e ''svc.'') (List.find (\<lambda>e. HasPrefix e ''svc.'' \<and> length e > length ''svc.'') entries)"

text \<open>A line without its comment: the suffix that its entries give, if it is a search line.\<close>

definition lineDomain :: "string \<Rightarrow> string option" where
  "lineDomain line =
     (case fieldsOf (takeWhile (\<lambda>c. c \<noteq> CHR ''#'') line) of
        kw # e # es \<Rightarrow> if kw \<noteq> ''search'' then None else searchEntry (e # es)
      | _ \<Rightarrow> None)"

fun firstDomain :: "string list \<Rightarrow> string" where
  "firstDomain [] = ''''"
| "firstDomain (l # ls) = (case lineDomain l of Some d \<Rightarrow> d | None \<Rightarrow> firstDomain ls)"

definition discoverClusterDomain :: "goerror + string \<Rightarrow> string" where
  "discoverClusterDomain file' = (case file' of Inl _ \<Rightarrow> '''' | Inr data \<Rightarrow> firstDomain (splitOn (CHR 0x0A) data))"

section \<open>The watched namespaces\<close>

text \<open>The keys of \<^verbatim>\<open>DefaultNamespaces\<close>; none for every namespace.\<close>

definition watchNamespaceCacheOptions :: "string \<Rightarrow> string list" where
  "watchNamespaceCacheOptions watchNamespace =
     remdups (filter (\<lambda>ns. ns \<noteq> '''') (map trimSpace (splitOn (CHR '','') watchNamespace)))"

section \<open>Starting\<close>

record ManagerOptions =
  mo_Namespaces :: "string list"
  mo_MetricsAddr :: string
  mo_ProbeAddr :: string
  mo_LeaderElection :: bool

datatype bootCall =
    GetConfig | NewManager ManagerOptions | NewDiscovery | NewClientset
  | SetupCluster EtcdClusterReconciler | SetupMember EtcdMemberReconciler | SetupSnapshot EtcdSnapshotReconciler
  | SetupDefrag EtcdDefragReconciler | SetupPolicy EtcdDefragPolicyReconciler
  | AddHealthz | AddReadyz | StartManager

datatype bootEvent =
    BCall bootCall "goerror option"
  | BResolvConf "goerror + string"
  | BResources "goerror + string list" \<comment> \<open>the kinds of \<^verbatim>\<open>cert-manager.io/v1\<close>\<close>

record boot =
  b_call :: "bootEvent list \<Rightarrow> bootCall \<Rightarrow> goerror option"
  b_resolvConf :: "bootEvent list \<Rightarrow> unit \<Rightarrow> goerror + string"
  b_resources :: "bootEvent list \<Rightarrow> unit \<Rightarrow> goerror + string list"
  b_isGroupDiscoveryFailed :: "goerror \<Rightarrow> bool"

type_synonym 'a bproc = "(bootEvent, goerror + 'a) io"

text \<open>A call whose failure ends the process.\<close>

definition bootCalls :: "boot \<Rightarrow> bootCall \<Rightarrow> unit bproc" where
  "bootCalls B q = State_Monad.bind (call (b_call B) BCall q) (\<lambda>r. return (case r of None \<Rightarrow> Inr () | Some err \<Rightarrow> Inl err))"

definition readResolvConf :: "boot \<Rightarrow> string bproc" where
  "readResolvConf B = call (b_resolvConf B) (\<lambda>_. BResolvConf) ()"

definition serverResources :: "boot \<Rightarrow> string list bproc" where
  "serverResources B = call (b_resources B) (\<lambda>_. BResources) ()"

definition detectCertManager :: "boot \<Rightarrow> bool bproc" where
  "detectCertManager B =
     bindE (bootCalls B NewDiscovery) (\<lambda>_. do {
       r \<leftarrow> serverResources B;
       return (case r of
         Inl err \<Rightarrow> if IsNotFound err \<or> b_isGroupDiscoveryFailed B err then Inr False else Inl err
       | Inr kinds \<Rightarrow> Inr (''Certificate'' \<in> set kinds))
     })"

record bootFlags =
  bf_MetricsAddr :: string
  bf_ProbeAddr :: string
  bf_LeaderElect :: bool
  bf_ClusterDomain :: string
  bf_OperatorImage :: string
  bf_EtcdImageRepository :: string
  bf_WatchNamespace :: string

text \<open>The flag, else what \<^verbatim>\<open>/etc/resolv.conf\<close> gives, else the default.\<close>

definition clusterDomainOf :: "boot \<Rightarrow> string \<Rightarrow> (bootEvent, string) io" where
  "clusterDomainOf B flagged = do {
     d \<leftarrow> (if flagged = '''' then State_Monad.bind (readResolvConf B) (\<lambda>f. return (discoverClusterDomain f)) else return flagged);
     return (if d = '''' then defaultClusterDomain else d)
   }"

definition setupControllers :: "boot \<Rightarrow> bootFlags \<Rightarrow> string \<Rightarrow> bool \<Rightarrow> unit bproc" where
  "setupControllers B fl clusterDomain certManagerAvailable =
     bindE (bootCalls B (SetupCluster \<lparr>CertManagerAvailable = certManagerAvailable, ClusterDomain = clusterDomain, HasRecorder = True\<rparr>)) (\<lambda>_.
     bindE (bootCalls B (SetupMember \<lparr>mr_OperatorImage = bf_OperatorImage fl, mr_EtcdImageRepository = bf_EtcdImageRepository fl\<rparr>)) (\<lambda>_.
     bindE (bootCalls B NewClientset) (\<lambda>_.
     bindE (bootCalls B (SetupSnapshot \<lparr>snr_OperatorImage = bf_OperatorImage fl\<rparr>)) (\<lambda>_.
     bindE (bootCalls B (SetupDefrag \<lparr>dfr_Recorder = True\<rparr>)) (\<lambda>_.
     bootCalls B (SetupPolicy \<lparr>pr_Recorder = True\<rparr>))))))"

definition startOperator :: "boot \<Rightarrow> bootFlags \<Rightarrow> unit bproc" where
  "startOperator B fl =
     (case operatorImageError (bf_OperatorImage fl) of
        Some err \<Rightarrow> return (Inl err)
      | None \<Rightarrow>
          bindE (bootCalls B GetConfig) (\<lambda>_.
          bindE (bootCalls B (NewManager \<lparr>mo_Namespaces = watchNamespaceCacheOptions (bf_WatchNamespace fl),
              mo_MetricsAddr = bf_MetricsAddr fl, mo_ProbeAddr = bf_ProbeAddr fl, mo_LeaderElection = bf_LeaderElect fl\<rparr>)) (\<lambda>_.
          do {
            clusterDomain \<leftarrow> clusterDomainOf B (bf_ClusterDomain fl);
            bindE (detectCertManager B) (\<lambda>certManagerAvailable.
            bindE (setupControllers B fl clusterDomain certManagerAvailable) (\<lambda>_.
            bindE (bootCalls B AddHealthz) (\<lambda>_.
            bindE (bootCalls B AddReadyz) (\<lambda>_.
            bootCalls B StartManager))))
          })))"

section \<open>The dispatch\<close>

text \<open>An agent runs with the deadline of its context, if it has one.\<close>

datatype program = RunAgent "duration option" "(goerror + unit) aproc" | RunOperator "unit bproc"

definition mainProgram :: "host \<Rightarrow> boot \<Rightarrow> string list \<Rightarrow> bootFlags \<Rightarrow> program" where
  "mainProgram H B args fl =
     (case args of
        _ # sub # _ \<Rightarrow>
          if sub = ''snapshot-agent'' then RunAgent (Some SnapshotTimeout) (RunSnapshot H)
          else if sub = ''restore-agent'' then RunAgent (Some RestoreTimeout) (RunRestore H)
          else if sub = ''install-tools'' then RunAgent None (RunInstallTools H)
          else RunOperator (startOperator B fl)
      | _ \<Rightarrow> RunOperator (startOperator B fl))"

end
