(* ===== verification/StartupContract.thy ===== *)
theory StartupContract
  imports Startup MemberController Migrate
begin

text \<open>
  What the entry point guarantees of a running operator: the domain it derives, the configuration its
  controllers get, the order in which it starts, and that the command lines the operator writes into Pods
  and Jobs reach the agents they are meant for.
\<close>

section \<open>The cluster domain\<close>

definition isWord :: "string \<Rightarrow> bool" where
  "isWord w \<longleftrightarrow> w \<noteq> [] \<and> \<not> list_ex isBlank w"

lemma word_chars:
  assumes "isWord w"
  shows "map (\<lambda>c. if isBlank c then CHR '' '' else c) w = w \<and> CHR '' '' \<notin> set w \<and> CHR 0x0A \<notin> set w"
proof -
  from assms have no: "\<not> isBlank c" if "c \<in> set w" for c using that by (auto simp: isWord_def list_ex_iff)
  have b: "isBlank (CHR '' '')" "isBlank (CHR 0x0A)" by (simp_all add: isBlank_def)
  have "map (\<lambda>c. if isBlank c then CHR '' '' else c) w = w" by (rule map_idI) (simp add: no)
  with no [of "CHR '' ''"] no [of "CHR 0x0A"] b show ?thesis by blast
qed

lemma fields_words:
  assumes "list_all isWord ws"
  shows "fieldsOf (Join ws '' '') = ws"
proof -
  have "filter (\<lambda>f. f \<noteq> []) (splitOn (CHR '' '') (map (\<lambda>c. if isBlank c then CHR '' '' else c) (Join ws sep))) = ws" if "sep = '' ''" for sep
    using assms that
  proof (induction ws sep rule: Join.induct)
    case (3 x y xs sep)
    then show ?case using word_chars [of x] by (simp add: isBlank_def splitOn_append_sep) (simp add: isWord_def)
  qed (auto simp: word_chars splitOn_no_sep isWord_def)
  then show ?thesis by (simp add: fieldsOf_def)
qed

lemma svc_prefix:
  assumes "CHR ''.'' \<notin> set ns" and "prefix ''svc.'' (ns @ ''.svc.'' @ d)"
  shows "ns = ''svc''"
proof -
  from assms(2) obtain r where "ns @ ''.svc.'' @ d = ''svc.'' @ r" by (auto simp: prefix_def)
  then have "takeWhile (\<lambda>c. c \<noteq> CHR ''.'') (ns @ ''.svc.'' @ d) = takeWhile (\<lambda>c. c \<noteq> CHR ''.'') (''svc.'' @ r)" by simp
  moreover have "takeWhile (\<lambda>c. c \<noteq> CHR ''.'') (ns @ ''.svc.'' @ d) = ns"
    using assms(1) by (subst takeWhile_append2) auto
  ultimately show ?thesis by simp
qed

definition kubeletSearch :: "string \<Rightarrow> string \<Rightarrow> string" where
  "kubeletSearch ns d = Join [''search'', ns @ ''.svc.'' @ d, ''svc.'' @ d, d] '' ''"

lemma takeWhile_all: "x \<notin> set xs \<Longrightarrow> takeWhile (\<lambda>c. c \<noteq> x) xs = xs"
  by (induction xs) auto

lemma kubelet_line:
  assumes "isWord ns" "isWord d" "CHR ''#'' \<notin> set ns" "CHR ''#'' \<notin> set d"
  shows "lineDomain (kubeletSearch ns d) = searchEntry [ns @ ''.svc.'' @ d, ''svc.'' @ d, d]"
proof -
  have "list_all isWord [''search'', ns @ ''.svc.'' @ d, ''svc.'' @ d, d]"
    using assms(1,2) by (auto simp: isWord_def list_ex_iff isBlank_def)
  from fields_words [OF this] have "fieldsOf (kubeletSearch ns d) = [''search'', ns @ ''.svc.'' @ d, ''svc.'' @ d, d]"
    by (simp only: kubeletSearch_def)
  moreover have "CHR ''#'' \<notin> set (kubeletSearch ns d)" using assms(3,4) by (auto simp: kubeletSearch_def)
  ultimately show ?thesis by (simp add: lineDomain_def takeWhile_all)
qed

lemma kubelet_oneline:
  assumes "isWord ns" "isWord d"
  shows "splitOn (CHR 0x0A) (kubeletSearch ns d @ CHR 0x0A # rest) = kubeletSearch ns d # splitOn (CHR 0x0A) rest"
  using word_chars [OF assms(1)] word_chars [OF assms(2)] by (intro splitOn_append_sep) (auto simp: kubeletSearch_def)

text \<open>
  In a Pod of any namespace but \<^verbatim>\<open>svc\<close>, the search line that the kubelet writes gives the operator exactly
  the cluster's domain, whatever follows it in the file.
\<close>

theorem discoverClusterDomain_kubelet:
  assumes "isWord ns" "CHR ''.'' \<notin> set ns" "CHR ''#'' \<notin> set ns" "ns \<noteq> ''svc''" and "isWord d" "CHR ''#'' \<notin> set d"
  shows "discoverClusterDomain (Inr (kubeletSearch ns d @ CHR 0x0A # rest)) = d"
proof -
  have "\<not> HasPrefix (ns @ ''.svc.'' @ d) ''svc.''"
    using svc_prefix [OF assms(2)] assms(4) by (auto simp: HasPrefix_def)
  moreover have "HasPrefix (''svc.'' @ d) ''svc.''" "length (''svc.'' @ d) > length ''svc.''" "TrimPrefix (''svc.'' @ d) ''svc.'' = d"
    using assms(5) by (auto simp: HasPrefix_def isWord_def TrimPrefix_def)
  ultimately have "searchEntry [ns @ ''.svc.'' @ d, ''svc.'' @ d, d] = Some d"
    by (simp add: searchEntry_def del: append_Cons)
  then show ?thesis
    using assms by (simp add: discoverClusterDomain_def kubelet_oneline kubelet_line)
qed

theorem discoverClusterDomain_kubelet_witness:
  "discoverClusterDomain (Inr (kubeletSearch ''etcd-system'' ''cozy.local'' @ CHR 0x0A # ''nameserver 10.0.0.10'')) = ''cozy.local''"
  by (rule discoverClusterDomain_kubelet) (simp_all add: isWord_def isBlank_def)

text \<open>In a namespace called \<^verbatim>\<open>svc\<close> the first entry is taken for the service suffix.\<close>

lemma discoverClusterDomain_svc:
  "discoverClusterDomain (Inr (kubeletSearch ''svc'' ''cozy.local'' @ CHR 0x0A # rest)) = ''svc.cozy.local''"
proof -
  have w: "isWord ''svc''" "isWord ''cozy.local''" by (simp_all add: isWord_def isBlank_def)
  show ?thesis
    using kubelet_line [OF w] by (simp add: discoverClusterDomain_def kubelet_oneline [OF w] searchEntry_def HasPrefix_def TrimPrefix_def)
qed

section \<open>Starting\<close>

text \<open>What a start has done: the calls that succeeded, whether cert-manager was seen, and whether it has failed.\<close>

record bootView =
  bv_calls :: "bootCall list"
  bv_certs :: bool
  bv_failed :: bool

definition bootStart :: bootView where
  "bootStart = \<lparr>bv_calls = [], bv_certs = False, bv_failed = False\<rparr>"

text \<open>The controllers, with what each is configured with.\<close>

definition controllerOK :: "bootFlags \<Rightarrow> bootView \<Rightarrow> bootCall \<Rightarrow> bool" where
  "controllerOK fl s q =
     (case q of
        SetupCluster r \<Rightarrow> ClusterDomain r \<noteq> '''' \<and> (bf_ClusterDomain fl \<noteq> '''' \<longrightarrow> ClusterDomain r = bf_ClusterDomain fl) \<and>
          CertManagerAvailable r = bv_certs s
      | SetupMember r \<Rightarrow> mr_OperatorImage r = bf_OperatorImage fl \<and> mr_EtcdImageRepository r = bf_EtcdImageRepository fl
      | SetupSnapshot r \<Rightarrow> snr_OperatorImage r = bf_OperatorImage fl
      | StartManager \<Rightarrow>
          (\<exists>r. SetupCluster r \<in> set (bv_calls s)) \<and> (\<exists>r. SetupMember r \<in> set (bv_calls s)) \<and> (\<exists>r. SetupSnapshot r \<in> set (bv_calls s)) \<and>
          (\<exists>r. SetupDefrag r \<in> set (bv_calls s)) \<and> (\<exists>r. SetupPolicy r \<in> set (bv_calls s)) \<and>
          AddHealthz \<in> set (bv_calls s) \<and> AddReadyz \<in> set (bv_calls s)
      | _ \<Rightarrow> True)"

definition bootMon :: "bootFlags \<Rightarrow> bootView \<Rightarrow> bootEvent \<Rightarrow> bootView option" where
  "bootMon fl s e =
     (if bv_failed s \<or> bf_OperatorImage fl = placeholderOperatorImage then None
      else case e of
        BCall q r \<Rightarrow> if controllerOK fl s q then Some (if r = None then s\<lparr>bv_calls := q # bv_calls s\<rparr> else s\<lparr>bv_failed := True\<rparr>) else None
      | BResolvConf r \<Rightarrow> if bf_ClusterDomain fl = '''' then Some s else None
      | BResources r \<Rightarrow> Some (case r of Inr kinds \<Rightarrow> s\<lparr>bv_certs := (''Certificate'' \<in> set kinds)\<rparr> | Inl _ \<Rightarrow> s))"

text \<open>One call: it is recorded when it succeeds.\<close>

lemma bootCalls_safe:
  assumes "\<not> bv_failed s" "bf_OperatorImage fl \<noteq> placeholderOperatorImage" "controllerOK fl s q"
  shows "safe (bootMon fl) s (bootCalls B q) (\<lambda>r s'. \<not> isl r \<longrightarrow> s' = s\<lparr>bv_calls := q # bv_calls s\<rparr>)"
  unfolding bootCalls_def using assms
  by (intro safe_bind [where R = "\<lambda>r s'. r = None \<longrightarrow> s' = s\<lparr>bv_calls := q # bv_calls s\<rparr>"] safe_call safe_return)
    (auto simp: bootMon_def split: option.split)

lemma clusterDomainOf_safe:
  assumes "\<not> bv_failed s" "bf_OperatorImage fl \<noteq> placeholderOperatorImage"
  shows "safe (bootMon fl) s (clusterDomainOf B (bf_ClusterDomain fl))
    (\<lambda>d s'. s' = s \<and> d \<noteq> '''' \<and> (bf_ClusterDomain fl \<noteq> '''' \<longrightarrow> d = bf_ClusterDomain fl))"
proof -
  have "safe (bootMon fl) s (if bf_ClusterDomain fl = '''' then State_Monad.bind (readResolvConf B) (\<lambda>f. return (discoverClusterDomain f))
      else return (bf_ClusterDomain fl)) (\<lambda>d s'. s' = s \<and> (bf_ClusterDomain fl \<noteq> '''' \<longrightarrow> d = bf_ClusterDomain fl))"
    unfolding readResolvConf_def using assms
    by (intro safe_if safe_bind [where R = "\<lambda>_ s'. s' = s"] safe_call safe_return) (auto simp: bootMon_def)
  then show ?thesis
    unfolding clusterDomainOf_def by (rule safe_bind) (auto intro!: safe_return)
qed

lemma detectCertManager_safe:
  assumes "\<not> bv_failed s" "\<not> bv_certs s" "bf_OperatorImage fl \<noteq> placeholderOperatorImage"
  shows "safe (bootMon fl) s (detectCertManager B)
    (\<lambda>r s'. \<forall>b. r = Inr b \<longrightarrow> s' = s\<lparr>bv_calls := NewDiscovery # bv_calls s, bv_certs := b\<rparr>)"
proof -
  let ?s = "s\<lparr>bv_calls := NewDiscovery # bv_calls s\<rparr>"
  have "safe (bootMon fl) ?s (State_Monad.bind (serverResources B) (\<lambda>r. return (case r of
         Inl err \<Rightarrow> if IsNotFound err \<or> b_isGroupDiscoveryFailed B err then Inr False else Inl err
       | Inr kinds \<Rightarrow> Inr (''Certificate'' \<in> set kinds)))) (\<lambda>r s'. \<forall>b. r = Inr b \<longrightarrow> s' = ?s\<lparr>bv_certs := b\<rparr>)"
    unfolding serverResources_def using assms
    by (intro safe_bind [where R = "\<lambda>r s'. s' = (case r of Inr kinds \<Rightarrow> ?s\<lparr>bv_certs := (''Certificate'' \<in> set kinds)\<rparr> | Inl _ \<Rightarrow> ?s)"]
        safe_call safe_return) (auto simp: bootMon_def split: sum.splits)
  then show ?thesis
    unfolding detectCertManager_def
    by (intro safe_bindE [OF bootCalls_safe]) (use assms in \<open>auto simp: controllerOK_def\<close>)
qed

lemma setupControllers_safe:
  assumes "\<not> bv_failed s" "bf_OperatorImage fl \<noteq> placeholderOperatorImage"
    and "d \<noteq> ''''" "bf_ClusterDomain fl \<noteq> '''' \<longrightarrow> d = bf_ClusterDomain fl" "bv_certs s = b"
  shows "safe (bootMon fl) s (setupControllers B fl d b) (\<lambda>r s'. \<not> isl r \<longrightarrow> \<not> bv_failed s' \<and>
    (\<exists>r. SetupCluster r \<in> set (bv_calls s')) \<and> (\<exists>r. SetupMember r \<in> set (bv_calls s')) \<and> (\<exists>r. SetupSnapshot r \<in> set (bv_calls s')) \<and>
    (\<exists>r. SetupDefrag r \<in> set (bv_calls s')) \<and> (\<exists>r. SetupPolicy r \<in> set (bv_calls s')))"
  unfolding setupControllers_def
  by (intro safe_bindE [OF bootCalls_safe] safe_weaken [OF bootCalls_safe])
    (use assms in \<open>auto simp: controllerOK_def\<close>)

text \<open>
  C29. A start of the operator is guarded and in order. With the placeholder image it calls nothing. The
  cluster controller gets a domain that is never empty, the flag's when one is given, and cert-manager
  support exactly when the API server was seen to serve its Certificates; the other controllers get the
  image and the repository of the flags. The manager starts only after all five controllers and both probes
  have been set up, and after a call that failed nothing more is called.
\<close>

theorem startOperator_guarded: "accepted (bootMon fl) bootStart (trace_of (startOperator B fl))"
proof (cases "bf_OperatorImage fl = placeholderOperatorImage")
  case True
  then show ?thesis by (simp add: startOperator_def operatorImageError_def trace_of_def accepted_def)
next
  case False
  have ready: "safe (bootMon fl) s (bindE (bootCalls B AddHealthz) (\<lambda>_. bindE (bootCalls B AddReadyz) (\<lambda>_. bootCalls B StartManager))) (\<lambda>_ _. True)"
    if "\<not> bv_failed s" "\<exists>r. SetupCluster r \<in> set (bv_calls s)" "\<exists>r. SetupMember r \<in> set (bv_calls s)"
      "\<exists>r. SetupSnapshot r \<in> set (bv_calls s)" "\<exists>r. SetupDefrag r \<in> set (bv_calls s)" "\<exists>r. SetupPolicy r \<in> set (bv_calls s)" for s
    by (intro safe_bindE [OF bootCalls_safe] safe_weaken [OF bootCalls_safe])
      (use that False in \<open>auto simp: controllerOK_def\<close>)
  have controllers: "safe (bootMon fl) s (bindE (setupControllers B fl d b) (\<lambda>_. bindE (bootCalls B AddHealthz) (\<lambda>_. bindE (bootCalls B AddReadyz) (\<lambda>_.
      bootCalls B StartManager)))) (\<lambda>_ _. True)"
    if "\<not> bv_failed s" "d \<noteq> ''''" "bf_ClusterDomain fl \<noteq> '''' \<longrightarrow> d = bf_ClusterDomain fl" "bv_certs s = b" for s d b
    by (rule safe_bindE [OF setupControllers_safe [OF that(1) False that(2-4)]]) (auto intro!: ready)
  have detect: "safe (bootMon fl) s (bindE (detectCertManager B) (\<lambda>b. bindE (setupControllers B fl d b) (\<lambda>_.
      bindE (bootCalls B AddHealthz) (\<lambda>_. bindE (bootCalls B AddReadyz) (\<lambda>_. bootCalls B StartManager))))) (\<lambda>_ _. True)"
    if "\<not> bv_failed s" "\<not> bv_certs s" "d \<noteq> ''''" "bf_ClusterDomain fl \<noteq> '''' \<longrightarrow> d = bf_ClusterDomain fl" for s d
    by (rule safe_bindE [OF detectCertManager_safe [OF that(1,2) False]], simp, rule controllers) (use that in auto)
  have img: "operatorImageError (bf_OperatorImage fl) = None" using False by (simp add: operatorImageError_def)
  have "safe (bootMon fl) bootStart (startOperator B fl) (\<lambda>_ _. True)"
    unfolding startOperator_def img option.case
    by (rule safe_bindE [OF bootCalls_safe [OF _ False]], simp add: bootStart_def, simp add: controllerOK_def, simp,
        rule safe_bindE [OF bootCalls_safe [OF _ False]], simp add: bootStart_def, simp add: controllerOK_def, simp,
        rule safe_bind [OF clusterDomainOf_safe [OF _ False]], simp add: bootStart_def, rule detect)
      (auto simp: bootStart_def)
  then show ?thesis by (rule safe_accepted)
qed

section \<open>The agents\<close>

text \<open>
  C30. The command lines that the operator and the migration write are the ones its image understands: a
  snapshot Job runs the snapshot agent, and the init containers of a restore install the tools and then run
  the restore agent, from the path at which the first one has put the binary. The snapshot agent's own deadline
  comes before the one at which its Job is killed.
\<close>

theorem agents_dispatched:
  "map (\<lambda>c. mainProgram H B (ctr_Command c) fl) (pos_Containers (job_PodSpec (buildSnapshotJob s cl img))) = [RunAgent (Some SnapshotTimeout) (RunSnapshot H)] \<and>
   map (\<lambda>c. mainProgram H B (ctr_Command c) fl) (pos_Containers (job_PodSpec (BuildSnapshotJob n ns uid spec dest img))) = [RunAgent (Some SnapshotTimeout) (RunSnapshot H)] \<and>
   map (\<lambda>c. mainProgram H B (ctr_Command c) fl) (fst (restoreInitContainers m rs peer img etcd)) =
     [RunAgent None (RunInstallTools H), RunAgent (Some RestoreTimeout) (RunRestore H)] \<and>
   map (\<lambda>v. (ev_Name v, ev_Value v)) (ctr_Env (fst (restoreInitContainers m rs peer img etcd) ! 0)) = [(''TOOLS_DEST_DIR'', EnvLiteral ''/tools'')] \<and>
   hd (ctr_Command (fst (restoreInitContainers m rs peer img etcd) ! 1)) = pathJoin [''/tools'', ''manager''] \<and>
   SnapshotTimeout < seconds (job_ActiveDeadlineSeconds (buildSnapshotJob s cl img)) \<and>
   SnapshotTimeout < seconds (job_ActiveDeadlineSeconds (BuildSnapshotJob n ns uid spec dest img))"
proof -
  have "pathJoin [''/tools'', ''manager''] = ''/tools/manager''" by code_simp
  then show ?thesis
    by (simp add: buildSnapshotJob_def BuildSnapshotJob_def restoreInitContainers_def mainProgram_def case_prod_beta Let_def envVar_def
        SnapshotTimeout_def)
qed

end
