(* ===== verification/Footprint.thy ===== *)
theory Footprint
  imports ClusterFootprint MemberController DefragContract PolicyController SnapshotController
begin

text \<open>
  The calls that a pass of the other controllers can make: one locale for each of the member, the
  defragmentation, the policy and the snapshot controller, in the manner of the cluster controller's. Every
  assumption is one shape of call that the code has, so an interpretation shows a predicate for these shapes and
  obtains it for every event of every pass.
\<close>

section \<open>The member controller\<close>

lemma memberCondition_emits [emits_rules]: "emits P (memberCondition E st ty s reason msg)"
  unfolding memberCondition_def by (intro emits_rules)

locale member_footprint =
  fixes P :: "event \<Rightarrow> bool"
  assumes member: "P (EMember (KGet Cached q mg))" "P (EMember (KList Cached ns sel ml))"
      "P (EMember (KWrite (Update m) mr))" "P (EMember (KWrite (StatusUpdate m) mr))" "P (EMember (KWrite (Delete m) mr))"
    and cluster: "P (ECluster (KGet Cached q cg))"
    and pod: "P (EPod (KGet Cached q pg))" "P (EPod (KWrite (Create p) pr))" "P (EPod (KWrite (Patch p p') pr))"
      "P (EPod (KWrite (Delete p) pr))"
    and claim: "P (EPVC (KGet Cached q vg))" "P (EPVC (KWrite (Create v) vr))"
    and secret: "P (ESecret (KGet rd q sec))"
    and dial: "P (EDial cl d)"
    and etcd: "P (EEtcd cl (MemberList l))" "P (EEtcd cl (MemberRemove i oe))" "P (EEtcd cl (EtcdStatus ep st))"
begin

lemma owner: "emits P (clusterFor E x)"
  unfolding clusterFor_def by (intro emits_rules cluster)

lemma dialConfig: "emits P (etcdDialConfig E x)"
  unfolding etcdDialConfig_def by (intro emits_rules owner secret)

lemma deletion: "emits P (handleDeletion E x)"
  unfolding handleDeletion_def dropFinalizer_def removeMemberFromEtcd_def resolveMemberID_def Let_def
  by (intro emits_rules member cluster secret dial etcd dialConfig)

lemma volume: "emits P (ensurePVC E x)"
  unfolding ensurePVC_def Let_def by (intro emits_rules claim)

lemma running: "emits P (ensurePod E r x)"
  unfolding ensurePod_def createPod_def checkTLSSecretsAvailable_def checkSecret_def reconcileRoleLabel_def Let_def
  by (intro emits_rules pod secret owner cluster)

lemma version: "emits P (versionStep E st)"
  unfolding versionStep_def observeVersion_def Let_def by (intro emits_rules dialConfig dial etcd member)

lemma identity: "emits P (discoverMemberID E x)"
  unfolding discoverMemberID_def by (intro emits_rules dialConfig dial etcd member)

lemma status: "emits P (memberUpdateStatus E x)"
  unfolding memberUpdateStatus_def memberReadyStep_def finishStatus_def clusterHasQuorumWithout_def Let_def
  by (intro emits_rules member pod version identity owner)

lemma live: "emits P (reconcileLiveMember E r x)"
  unfolding reconcileLiveMember_def memoryMemberPodLost_def pauseMember_def ensurePodAbsent_def runMember_def
    terminalPod_def replaceTerminalPod_def Let_def
  by (intro emits_rules member pod volume running status)

lemma whole: "emits P (memberReconcile E r x)"
  unfolding memberReconcile_def by (intro emits_rules member deletion live)

end

section \<open>The defragmentation controller\<close>

locale defrag_footprint =
  fixes P :: "event \<Rightarrow> bool"
  assumes run: "P (EDefrag (KGet Cached q dg))" "P (EDefrag (KList Cached ns sel dl))"
      "P (EDefrag (KWrite (StatusUpdate df) dr))" "P (EDefrag (KWrite (Delete df) dr))"
    and cluster: "P (ECluster (KGet Cached q cg))"
    and members: "P (EMember (KList Cached ns sel ml))"
    and secret: "P (ESecret (KGet rd q sec))"
    and dial: "P (EDial cl d)"
    and etcd: "P (EEtcd cl (EtcdStatus ep st))" "P (EEtcd cl (Defragment ep oe))" "P (EEtcd cl (MoveLeader i oe))"
      "P (EEtcd cl (AlarmList al))" "P (EEtcd cl (AlarmDisarm a oe))"
    and recorded: "P (ERecord ty reason msg)"
begin

lemma persisting: "emits P (persistAndRequeue E x)"
proof -
  have "emits P (persistLoop E key d n l)" for key d n l
  proof (induction n arbitrary: l)
    case (Suc n)
    then show ?case unfolding persistLoop.simps by (intro emits_rules run)
  qed (simp add: emits_return)
  then show ?thesis unfolding persistAndRequeue_def by (intro emits_rules)
qed

lemma disarming: "emits P (maybeDisarm E r x c)"
proof -
  have "emits P (disarmLoop E c as acc)" for as acc
  proof (induction as arbitrary: acc)
    case (Cons a as)
    then show ?case unfolding disarmLoop.simps by (intro emits_rules etcd)
  qed (simp add: emits_return)
  then show ?thesis unfolding maybeDisarm_def disarmNoSpaceAlarms_def by (intro emits_rules etcd recorded)
qed

lemma dialling: "emits P (dialEndpoints E c eps)"
  unfolding dialEndpoints_def by (intro emits_rules secret dial)

lemma probing: "emits P (dialAndProbe E c ms)"
proof -
  have "emits P (probeAll E cl xs)" for cl xs
  proof (induction xs)
    case (Cons x xs)
    then show ?case by (cases x) (simp, intro emits_rules etcd)
  qed (simp add: emits_return)
  then show ?thesis unfolding dialAndProbe_def Let_def by (intro emits_rules dialling)
qed

lemma sweep: "emits P (defragSweep E r x c ms cl bs)"
  unfolding defragSweep_def deferUnhealthy_def finalizeDefrag_def startRunning_def defragNext_def defragmentMember_def
    moveLeadershipAway_def afterDefragment_def Let_def
  by (intro emits_rules disarming persisting dialling etcd recorded run)

lemma whole: "emits P (defragReconcile E r x)"
  unfolding defragReconcile_def defragCluster_def queueDefrag_def oldestActive_def failRun_def Let_def
  by (intro emits_rules probing sweep disarming run cluster members recorded)

end

section \<open>The policy controller\<close>

locale policy_footprint =
  fixes P :: "event \<Rightarrow> bool"
  assumes policy: "P (EPolicy (KGet Cached q pg))" "P (EPolicy (KWrite (StatusUpdate po) pr))"
    and runs: "P (EDefrag (KList Cached ns sel dl))" "P (EDefrag (KWrite (Create df) dr))"
      "P (EDefrag (KWrite (Delete df) dr))"
    and recorded: "P (ERecord ty reason msg)"
begin

lemma history: "emits P (gcLoop E ds)"
proof (induction ds)
  case (Cons d ds)
  then show ?case unfolding gcLoop.simps by (intro emits_rules runs)
qed (simp add: emits_return)

lemma whole: "emits P (policyReconcile E r x)"
  unfolding policyReconcile_def scheduleRun_def stampRun_def reportDropped_def gcHistory_def updatePolicyStatus_def
    policyCondition_def policyEvent_def Let_def
  by (intro emits_rules history policy runs recorded)

end

section \<open>The snapshot controller\<close>

locale snapshot_footprint =
  fixes P :: "event \<Rightarrow> bool"
  assumes snapshot: "P (ESnapshot (KGet Cached q sg))" "P (ESnapshot (KWrite (StatusUpdate sn) sr))"
    and cluster: "P (ECluster (KGet Cached q cg))"
    and job: "P (EJob (KGet rd q jg))" "P (EJob (KWrite (Create j) jr))"
    and outputs: "P (EPod (KList Live ns sel pl))" "P (EPodLog ns pn ct lg)"
begin

lemma whole: "emits P (snapshotReconcile E r x)"
  unfolding snapshotReconcile_def snapshotOnCluster_def launchJob_def inspectJob_def extractSnapshot_def failSnapshot_def
    setPhase_def Let_def
  by (intro emits_rules snapshot cluster job outputs)

end

end
