(* ===== verification/SystemContract.thy ===== *)
theory SystemContract
  imports ClusterMembership Footprint MemberContract PolicyContract SnapshotContract
begin

text \<open>
  The controllers together. Their passes run concurrently and only meet in the API server and in etcd, so a
  run of the operator is an interleaving of the traces of passes, cut off anywhere. A check that only gets
  easier with a longer history survives interleaving (locale \<open>cumulative\<close>); with the one law that a
  value read from the API server was written before, the checks of the cluster and of the member controller
  combine to a property of the running system.
\<close>

section \<open>Interleavings\<close>

text \<open>
  \<open>interleaving ts log\<close>: the log takes, one event after the other, the next event of any of the
  traces; what is left of them has not happened yet.
\<close>

inductive interleaving :: "'e list list \<Rightarrow> 'e list \<Rightarrow> bool" where
  stopped: "interleaving ts []"
| advance: "i < length ts \<Longrightarrow> ts ! i = e # t \<Longrightarrow> interleaving (ts[i := t]) es \<Longrightarrow> interleaving ts (e # es)"

text \<open>Every event of a trace is in order, given the events before it.\<close>

fun everyStep :: "('e set \<Rightarrow> 'e \<Rightarrow> bool) \<Rightarrow> 'e set \<Rightarrow> 'e list \<Rightarrow> bool" where
  "everyStep P H [] = True"
| "everyStep P H (e # es) = (P H e \<and> everyStep P (insert e H) es)"

lemma everyStep_append: "everyStep P H (xs @ ys) \<longleftrightarrow> everyStep P H xs \<and> everyStep P (H \<union> set xs) ys"
  by (induction xs arbitrary: H) (simp_all add: insert_commute Un_commute)

locale cumulative =
  fixes P :: "'e set \<Rightarrow> 'e \<Rightarrow> bool"
  assumes mono: "H \<subseteq> K \<Longrightarrow> P H e \<Longrightarrow> P K e"
begin

lemma everyStep_mono: "H \<subseteq> K \<Longrightarrow> everyStep P H es \<Longrightarrow> everyStep P K es"
proof (induction es arbitrary: H K)
  case (Cons e es)
  then show ?case using Cons.IH [of "insert e H" "insert e K"] mono [of H K e] by auto
qed simp

lemma everyStep_interleaving:
  assumes "interleaving ts log" "list_all (everyStep P H) ts"
  shows "everyStep P H log"
  using assms
proof (induction arbitrary: H rule: interleaving.induct)
  case (advance i ts e t es)
  then have head: "P H e" "everyStep P (insert e H) t" by (fastforce simp: list_all_length)+
  have "list_all (everyStep P (insert e H)) (ts[i := t])"
    using advance.prems head(2) everyStep_mono [of H "insert e H"] set_update_subset_insert [of ts i t]
    by (auto simp: list_all_iff dest!: subsetD)
  with advance.IH head(1) show ?case by simp
qed simp

end

section \<open>What a log says about members\<close>

text \<open>The members an event delivers to the operator, and the member whose initial-cluster value an event may
  change: a created or updated object, or a patch that carries the field.\<close>

definition delivered :: "event \<Rightarrow> EtcdMember list" where
  "delivered e =
     (case e of
        EMember (KGet rd q (Inr m)) \<Rightarrow> [m]
      | EMember (KList rd ns sel (Inr ms)) \<Rightarrow> ms
      | EMember (KWrite w (Inr m)) \<Rightarrow> [m]
      | _ \<Rightarrow> [])"

definition setsInitialCluster :: "event \<Rightarrow> EtcdMember list" where
  "setsInitialCluster e =
     (case e of
        EMember (KWrite (Create m) r) \<Rightarrow> [m]
      | EMember (KWrite (Update m) r) \<Rightarrow> [m]
      | EMember (KWrite (Patch m m') r) \<Rightarrow>
          if ms_InitialCluster (em_Spec m') = ms_InitialCluster (em_Spec m) then [] else [m']
      | _ \<Rightarrow> [])"

text \<open>The peer URLs etcd has confirmed to know.\<close>

definition acknowledged :: "event \<Rightarrow> string set" where
  "acknowledged e =
     (case e of
        EEtcd cl (MemberList (Inr resp)) \<Rightarrow> \<Union> (set ` pb_PeerURLs ` set (ml_Members resp))
      | EEtcd cl (MemberAddAsLearner us (Inr ms)) \<Rightarrow> set us
      | _ \<Rightarrow> {})"

definition sameJoin :: "EtcdMember \<Rightarrow> EtcdMember \<Rightarrow> bool" where
  "sameJoin x m \<longleftrightarrow> emName x = emName m \<and> emNamespace x = emNamespace m \<and>
     ms_InitialCluster (em_Spec x) = ms_InitialCluster (em_Spec m) \<and> ms_Bootstrap (em_Spec x) = ms_Bootstrap (em_Spec m)"

text \<open>A member that may start: it is the seed, or etcd knows a peer URL of its name in the namespace.\<close>

definition mayJoin :: "string \<Rightarrow> string set \<Rightarrow> EtcdMember \<Rightarrow> bool" where
  "mayJoin ns urls m \<longleftrightarrow> ms_InitialCluster (em_Spec m) = '''' \<or> ms_Bootstrap (em_Spec m) \<or>
     (\<exists>scheme svc. peerURL scheme (emName m) svc ns \<in> urls)"

lemma mayJoin_mono: "urls \<subseteq> urls' \<Longrightarrow> mayJoin ns urls m \<Longrightarrow> mayJoin ns urls' m"
  by (auto simp: mayJoin_def)

text \<open>
  What a pass guarantees of an event, given the history \<open>H\<close>: it only sets an initial-cluster value that it has
  read or that is due, and it only starts the Pod of a member it has read with such a value.
\<close>

definition joinStep :: "string \<Rightarrow> event set \<Rightarrow> event \<Rightarrow> bool" where
  "joinStep ns H e \<longleftrightarrow>
     list_all (\<lambda>m. mayJoin ns (\<Union> (acknowledged ` H)) m \<or> (\<exists>h\<in>H. list_ex (\<lambda>x. sameJoin x m) (delivered h)))
       (setsInitialCluster e) \<and>
     (case e of
        EPod (KWrite (Create pod) r) \<Rightarrow>
          \<exists>h\<in>H. list_ex (\<lambda>m. ms_InitialCluster (em_Spec m) \<noteq> '''' \<and>
             (\<exists>mr formed. pod_Spec pod = pod_Spec (buildPod mr m formed))) (delivered h)
      | _ \<Rightarrow> True)"

interpretation joinC: cumulative "joinStep ns" for ns
proof
  fix H K :: "event set" and e
  assume sub: "H \<subseteq> K" and ok: "joinStep ns H e"
  have "\<Union> (acknowledged ` H) \<subseteq> \<Union> (acknowledged ` K)" using sub by blast
  note up = mayJoin_mono [OF this]
  from ok sub show "joinStep ns K e"
    unfolding joinStep_def by (auto simp: list_all_iff split: event.splits kev.splits kwrite.splits dest: up)
qed

section \<open>The cluster controller's guarantee\<close>

text \<open>
  What is assumed of the replies of the API server and of \<^verbatim>\<open>controllerutil\<close>: an object read by key has the
  namespace of the key, the reply to a write carries the flag that was written, finalizers are no part of
  the name.
\<close>

definition faithful :: "env \<Rightarrow> bool" where
  "faithful E \<longleftrightarrow>
     (\<forall>h rd q c. kc_get (k_clusters (e_kube E)) h rd q = Inr c \<longrightarrow> ecNamespace c = nn_namespace q) \<and>
     (\<forall>h w m. kc_write (k_members (e_kube E)) h w = Inr m \<longrightarrow> ms_Bootstrap (em_Spec m) = ms_Bootstrap (em_Spec (written w))) \<and>
     (\<forall>meta f. om_Name (l_addFinalizer (e_lib E) meta f) = om_Name meta \<and>
        om_Namespace (l_addFinalizer (e_lib E) meta f) = om_Namespace meta \<and>
        om_Name (l_removeFinalizer (e_lib E) meta f) = om_Name meta \<and>
        om_Namespace (l_removeFinalizer (e_lib E) meta f) = om_Namespace meta)"

text \<open>The monitor of a cluster pass: the URLs acknowledged so far.\<close>

definition joinMon :: "string \<Rightarrow> string set \<Rightarrow> event \<Rightarrow> string set option" where
  "joinMon ns urls e =
     (if list_all (mayJoin ns urls) (setsInitialCluster e) \<and> (case e of EPod (KWrite (Create p) r) \<Rightarrow> False | _ \<Rightarrow> True)
      then Some (urls \<union> acknowledged e) else None)"

definition joinFree :: "event \<Rightarrow> bool" where
  "joinFree e \<longleftrightarrow> list_all (mayJoin '''' {}) (setsInitialCluster e) \<and> (case e of EPod (KWrite (Create p) r) \<Rightarrow> False | _ \<Rightarrow> True)"

lemma joinMon_free: "joinFree e \<Longrightarrow> joinMon ns urls e = Some (urls \<union> acknowledged e)"
  by (auto simp: joinFree_def joinMon_def mayJoin_def list_all_iff)

lemma joinMon_everyStep:
  "runMonitor (joinMon ns) urls es = Some v \<Longrightarrow> urls \<subseteq> \<Union> (acknowledged ` H) \<Longrightarrow> everyStep (joinStep ns) H es"
proof (induction es arbitrary: urls H)
  case (Cons e es)
  then obtain u where u: "joinMon ns urls e = Some u" "runMonitor (joinMon ns) u es = Some v"
    by (auto split: option.splits)
  then have "joinStep ns H e" "u \<subseteq> \<Union> (acknowledged ` insert e H)"
    using mayJoin_mono [OF Cons.prems(2)] Cons.prems(2)
    by (auto simp: joinMon_def joinStep_def list_all_iff split: if_splits event.splits kev.splits kwrite.splits)
  with Cons.IH [OF u(2)] show ?case by simp
qed simp

lemma joinFree_simps [simp]:
  "joinFree (ECluster k0)" "joinFree (ESecret k1)" "joinFree (EDial cl d)" "joinFree (EEtcd cl t)"
  "joinFree (EMember (KGet rd q g))" "joinFree (EMember (KList rd ns sel l))"
  "joinFree (EMember (KWrite (StatusPatch m m') r))" "joinFree (EMember (KWrite (StatusUpdate m) r))"
  "joinFree (EMember (KWrite (Delete m) r))"
  "joinFree (EMember (KWrite (Patch m (wakeDormant m)) r))" "joinFree (EMember (KWrite (Patch m (makeDormant m)) r))"
  "joinFree (EService k3)" "joinFree (EPDB k4)" "joinFree (ECertificate k5)" "joinFree (ETrafficApply q v u)" "joinFree (ERecord a b c)"
  "joinFree (EDefrag k6)" "joinFree (EPolicy k7)" "joinFree (ESnapshot k8)" "joinFree (EJob k9)" "joinFree (EPodLog n p x g')"
  "joinFree (EPod (KGet rd q g2))" "joinFree (EPod (KList rd ns sel l2))" "joinFree (EPVC k10)"
  by (simp_all add: joinFree_def setsInitialCluster_def wakeDormant_def makeDormant_def)

lemma joinFree_create [simp]: "joinFree (EMember (KWrite (Create m) r)) \<longleftrightarrow> mayJoin '''' {} m"
  by (simp add: joinFree_def setsInitialCluster_def)

lemma child_joinFree: "isChildEvent e \<Longrightarrow> joinFree e"
  by (cases e) (simp_all add: isChildEvent_def)

lemma free_grows: "emits joinFree m \<Longrightarrow> safe (joinMon ns) s m (\<lambda>_ s'. s \<subseteq> s')"
  by (rule emits_invariant [where P = joinFree]) (auto simp: joinMon_free)

lemma free_safe: "emits joinFree m \<Longrightarrow> safe (joinMon ns) s m (\<lambda>_ _. True)"
  by (rule safe_weaken [OF free_grows]) simp_all

lemma free_bind:
  "emits joinFree m \<Longrightarrow> (\<And>a s'. s \<subseteq> s' \<Longrightarrow> safe (joinMon ns) s' (f a) (\<lambda>_ _. True)) \<Longrightarrow>
   safe (joinMon ns) s (State_Monad.bind m f) (\<lambda>_ _. True)"
  by (rule safe_bind [OF free_grows])

lemma free_bindE:
  "emits joinFree m \<Longrightarrow> (\<And>a s'. s \<subseteq> s' \<Longrightarrow> safe (joinMon ns) s' (f a) (\<lambda>_ _. True)) \<Longrightarrow>
   safe (joinMon ns) s (bindE m f) (\<lambda>_ _. True)"
  by (rule safe_bindE [OF free_grows]) simp_all

subsection \<open>Functions that set no value\<close>

lemma memberFromObserved_InitialCluster [simp]: "ms_InitialCluster (em_Spec (memberFromObserved c ob b rs)) = ''''"
  by (simp add: memberFromObserved_def case_prod_beta Let_def)

lemma createMember_free: "emits joinFree (writeMember E (Create ((memberFromObserved c ob b rs)\<lparr>em_Meta := meta\<rparr>)))"
  by (intro emits_rules) (simp add: mayJoin_def)

interpretation joinF: membership_footprint joinFree
  by unfold_locales (simp_all add: child_joinFree)

subsection \<open>Filling in the value\<close>

lemma completePendingMember_join:
  assumes "\<Union> (set ` pb_PeerURLs ` set (ml_Members l)) \<subseteq> urls"
  shows "safe (joinMon (ecNamespace c)) urls (completePendingMember E c cl l m) (\<lambda>_ _. True)"
proof -
  let ?url = "peerURL (clusterPeerScheme (Some c)) (emName m) (memberServiceName m) (ecNamespace c)"
  have patch: "safe (joinMon (ecNamespace c)) u
      (State_Monad.bind (writeMember E (Patch m (withInitialCluster c ic m))) (\<lambda>r. return (f r))) (\<lambda>_ _. True)"
    if "?url \<in> u" for u ic and f :: "goerror + EtcdMember \<Rightarrow> outcome"
    using that by (intro io_rules)
      (auto simp: joinMon_def setsInitialCluster_def mayJoin_def withInitialCluster_def safe_return)
  have known: "?url \<in> urls" if "registeredURL (ml_Members l) ?url"
    using that assms by (force simp: registeredURL_def list_ex_iff)
  have added: "andThen (joinMon (ecNamespace c) urls (EEtcd cl (MemberAddAsLearner [?url] (Inr ms)))) Q \<longleftrightarrow> Q (urls \<union> {?url})" for ms Q
    by (simp add: joinMon_def setsInitialCluster_def acknowledged_def)
  show ?thesis
    unfolding completePendingMember_def Let_def
    by (intro safe_if patch known, assumption, rule safe_bind_calls)
      (auto simp: added joinMon_free acknowledged_def intro!: safe_case_sum patch safe_return split: sum.splits)
qed

lemma scaleUp_join: "safe (joinMon (ecNamespace c)) urls (scaleUp E c ms) (\<lambda>_ _. True)"
proof -
  have wake: "emits joinFree (State_Monad.bind (writeMember E (Patch d (wakeDormant d))) (\<lambda>r. return (f r)))"
    for d and f :: "goerror + EtcdMember \<Rightarrow> outcome"
    by (intro emits_rules) simp
  have list: "safe (joinMon ns) u (State_Monad.bind (memberList E cl) k) (\<lambda>_ _. True)"
    if "\<And>e u. safe (joinMon ns) u (k (Inl e)) (\<lambda>_ _. True)"
      "\<And>l u. \<Union> (set ` pb_PeerURLs ` set (ml_Members l)) \<subseteq> u \<Longrightarrow> safe (joinMon ns) u (k (Inr l)) (\<lambda>_ _. True)"
    for ns u cl and k :: "goerror + MemberListResponse \<Rightarrow> outcome proc"
  proof (rule safe_bind_calls)
    show "andThen (joinMon ns u (EEtcd cl (MemberList r))) (\<lambda>s'. safe (joinMon ns) s' (k r) (\<lambda>_ _. True))" for r
      using that by (cases r) (simp_all add: joinMon_free acknowledged_def)
  qed
  show ?thesis
    unfolding scaleUp_def Let_def
    by (intro safe_case_option safe_case_sum safe_case_prod safe_if safe_return TrueI free_safe [OF wake]
        joinF.dialling(2-4) [THEN free_bind] list free_bind [OF joinF.promotion] free_bindE [OF createMember_free]
        completePendingMember_join) blast+
qed

subsection \<open>The seed\<close>

lemma fillSeed_free: "ms_Bootstrap (em_Spec m) \<Longrightarrow> emits joinFree (fillSeed E c m)"
  unfolding fillSeed_def
  by (intro emits_rules) (simp_all add: joinFree_def setsInitialCluster_def mayJoin_def withInitialCluster_def)

lemma writeMember_flag:
  assumes E: "faithful E" and free: "\<And>r. joinFree (EMember (KWrite w r))"
    and "\<And>m s'. ms_Bootstrap (em_Spec m) = ms_Bootstrap (em_Spec (written w)) \<Longrightarrow> safe (joinMon ns) s' (k m) (\<lambda>_ _. True)"
  shows "safe (joinMon ns) s (bindE (writeMember E w) k) (\<lambda>_ _. True)"
  unfolding bindE_def
proof (rule safe_bind_reply [where ev = "\<lambda>r. EMember (KWrite w r)"])
  show "\<exists>r. run_state (writeMember E w) h = (r, h @ [EMember (KWrite w r)]) \<and>
      (\<forall>m. r = Inr m \<longrightarrow> ms_Bootstrap (em_Spec m) = ms_Bootstrap (em_Spec (written w)))" for h
    using E by (auto simp: proc_defs faithful_def)
next
  fix r :: "goerror + EtcdMember"
  assume "\<forall>m. r = Inr m \<longrightarrow> ms_Bootstrap (em_Spec m) = ms_Bootstrap (em_Spec (written w))"
  then show "andThen (joinMon ns s (EMember (KWrite w r)))
      (\<lambda>s'. safe (joinMon ns) s' (case r of Inl e \<Rightarrow> return (Inl e) | Inr a \<Rightarrow> k a) (\<lambda>_ _. True))"
    using assms(3) by (cases r) (simp_all add: joinMon_free [OF free] safe_return)
qed

lemma bootstrap_join:
  assumes "faithful E"
  shows "safe (joinMon ns) s (bootstrap E c ms) (\<lambda>_ _. True)"
proof -
  have seed: "ms_Bootstrap (em_Spec m)" if "findSeed ms = Some m" for m
    using that by (auto simp: findSeed_def find_Some_iff)
  show ?thesis
    unfolding bootstrap_def Let_def
    by (intro safe_case_option safe_case_sum safe_if safe_return TrueI writeMember_flag [OF assms] free_safe fillSeed_free)
      (simp_all add: seed written_def mayJoin_def)
qed

subsection \<open>The pass\<close>

lemma reconcileScale_join: "safe (joinMon (ecNamespace c)) s (reconcileScale E c items d) (\<lambda>_ _. True)"
  unfolding reconcileScale_def Let_def
  by (intro safe_if safe_return safe_case_prod safe_case_option safe_case_sum TrueI scaleUp_join free_safe [OF joinF.shrinking]
      free_bind [OF joinF.converged] free_bind [OF joinF.authentication] free_safe [OF joinF.status])

lemma reconcileTarget_join:
  assumes "faithful E"
  shows "safe (joinMon (ecNamespace c)) s (reconcileTarget E c items) (\<lambda>_ _. True)"
  unfolding reconcileTarget_def reconcileMembership_def Let_def
  by (intro safe_if safe_return safe_case_prod safe_case_option TrueI safe_bind_timeNow bootstrap_join [OF assms]
      reconcileScale_join free_safe [OF joinF.discovery] free_safe [OF joinF.status]
      free_safe [OF joinF.deadline] free_bind [OF clusterCondition_emits] free_safe [OF joinF.updates(2)])

lemma Reconcile_join:
  assumes "faithful E"
  shows "safe (joinMon (nn_namespace req)) {} (Reconcile E r req) (\<lambda>_ _. True)"
  unfolding Reconcile_def
proof (rule safe_bind_reply [where ev = "\<lambda>g. ECluster (KGet Cached req g)" and
      R = "\<lambda>g. \<forall>c. g = Inr c \<longrightarrow> ecNamespace c = nn_namespace req"], goal_cases)
  case (1 h)
  then show ?case using assms by (auto simp: proc_defs faithful_def)
next
  case (2 g)
  have list: "emits joinFree (listMembers E n sel)" for n sel by (intro emits_rules) simp
  show ?case
  proof (cases g)
    case (Inr c)
    with 2 have "nn_namespace req = ecNamespace c" by simp
    note target = reconcileTarget_join [OF assms, of c, folded this]
    show ?thesis
      unfolding Inr sum.case joinMon_free [OF joinFree_simps(1)] andThen_simps
      by (intro safe_if safe_return safe_case_prod TrueI free_bind [OF clusterCondition_emits] free_safe [OF joinF.updates(1)]
          free_bindE [OF joinF.services] free_bindE [OF list] target
          free_bindE [OF joinF.certificates])
  qed (simp add: joinMon_free safe_return)
qed

lemma Reconcile_everyStep: "faithful E \<Longrightarrow> everyStep (joinStep (nn_namespace req)) {} (trace_of (Reconcile E r req))"
  using safeD [OF Reconcile_join] joinMon_everyStep by blast

section \<open>The member controller's guarantee\<close>

text \<open>A pass of the member controller neither creates nor patches members.\<close>

definition noMemberPatch :: "event \<Rightarrow> bool" where
  "noMemberPatch e =
     (case e of EMember (KWrite (Create m) r) \<Rightarrow> False | EMember (KWrite (Patch m m') r) \<Rightarrow> False | _ \<Rightarrow> True)"

lemma noMemberPatch_simps [simp]:
  "noMemberPatch (ECluster k0)" "noMemberPatch (ESecret k1)" "noMemberPatch (EDial cl d)" "noMemberPatch (EEtcd cl t)"
  "noMemberPatch (EMember (KGet rd q g))" "noMemberPatch (EMember (KList rd ns sel l))"
  "noMemberPatch (EMember (KWrite (StatusUpdate m) r))" "noMemberPatch (EMember (KWrite (Update m) r))"
  "noMemberPatch (EMember (KWrite (Delete m) r))" "noMemberPatch (EPod k2)" "noMemberPatch (EPVC k3)"
  by (simp_all add: noMemberPatch_def)

interpretation patchF: member_footprint noMemberPatch
  by unfold_locales simp_all

text \<open>The member in the view is one that was delivered.\<close>

lemma viewStep_member:
  "v_member (viewStep E v e) = Some m \<Longrightarrow> v_member v = Some m \<or> m \<in> set (delivered e)"
  by (auto simp: viewStep_def delivered_def split: event.splits kev.splits sum.splits kwrite.splits etcd_call.splits option.splits)

lemma memberOK_joinStep:
  assumes E: "faithful E" and ok: "memberOK E r v e" "noMemberPatch e"
    and read: "\<And>m. v_member v = Some m \<Longrightarrow> \<exists>h\<in>H. m \<in> set (delivered h)"
  shows "joinStep ns H e"
proof -
  have "\<exists>h\<in>H. list_ex (\<lambda>x. sameJoin x y) (delivered h)" if "y \<in> set (setsInitialCluster e)" for y
  proof -
    from that ok obtain m meta where m: "v_member v = Some m" "y = m\<lparr>em_Meta := meta\<rparr>" "om_Name meta = emName m" "om_Namespace meta = emNamespace m"
      using E by (auto simp: setsInitialCluster_def noMemberPatch_def memberOK_def finalizerOK_def faithful_def
          split: event.splits kev.splits kwrite.splits option.splits if_splits)
    then have "sameJoin m y" by (simp add: sameJoin_def)
    with read [OF m(1)] show ?thesis by (auto simp: list_ex_iff)
  qed
  moreover have "\<exists>h\<in>H. list_ex (\<lambda>m. ms_InitialCluster (em_Spec m) \<noteq> '''' \<and>
      (\<exists>mr formed. pod_Spec pod = pod_Spec (buildPod mr m formed))) (delivered h)"
    if "e = EPod (KWrite (Create pod) rep)" for pod rep
  proof -
    from that ok(1) obtain m where "v_member v = Some m" "ms_InitialCluster (em_Spec m) \<noteq> ''''"
      "pod_Spec pod = pod_Spec (buildPod r m (formedIn v))"
      by (auto simp: memberOK_def podStartOK_def split: option.splits)
    with read [of m] show ?thesis by (fastforce simp: list_ex_iff)
  qed
  ultimately show ?thesis
    by (auto simp: joinStep_def list_all_iff split: event.splits kev.splits kwrite.splits)
qed

lemma view_everyStep:
  assumes "faithful E" "runMonitor (memberMon E r) v es = Some w" "list_all noMemberPatch es"
    and "\<And>m. v_member v = Some m \<Longrightarrow> \<exists>h\<in>H. m \<in> set (delivered h)"
  shows "everyStep (joinStep ns) H es"
  using assms(2-)
proof (induction es arbitrary: v H)
  case (Cons e es)
  then obtain v' where v': "memberMon E r v e = Some v'" "runMonitor (memberMon E r) v' es = Some w"
    by (auto split: option.splits)
  then have e: "memberOK E r v e" "runMonitor (memberMon E r) (viewStep E v e) es = Some w"
    by (auto simp: viewMon_def fun_eq_iff split: if_splits)
  have "everyStep (joinStep ns) (insert e H) es"
  proof (rule Cons.IH [OF e(2)])
    show "\<exists>h\<in>insert e H. m \<in> set (delivered h)" if "v_member (viewStep E v e) = Some m" for m
      using viewStep_member [OF that] Cons.prems(3) by auto
  qed (use Cons.prems(2) in simp)
  with memberOK_joinStep [OF assms(1) e(1)] Cons.prems(2,3) show ?case by simp
qed simp

lemma memberReconcile_everyStep:
  assumes "faithful E"
  shows "everyStep (joinStep ns) {} (trace_of (memberReconcile E r q))"
proof -
  from safeD [OF memberReconcile_view] obtain w where "runMonitor (memberMon E r) noView (trace_of (memberReconcile E r q)) = Some w"
    by blast
  from view_everyStep [OF assms this emits_trace [OF patchF.whole]] show ?thesis by (simp add: noView_def)
qed

section \<open>The other controllers\<close>

interpretation joinDF: defrag_footprint joinFree
  by unfold_locales simp_all

interpretation joinPF: policy_footprint joinFree
  by unfold_locales simp_all

interpretation joinSF: snapshot_footprint joinFree
  by unfold_locales simp_all

lemma free_everyStep: "emits joinFree m \<Longrightarrow> everyStep (joinStep ns) {} (trace_of m)"
  using safeD [OF free_safe] joinMon_everyStep by blast

section \<open>The running operator\<close>

text \<open>
  A pass of one of the controllers. The cluster passes are those of one cluster; passes of the other
  controllers are for any object.
\<close>

inductive pass :: "nsname \<Rightarrow> event list \<Rightarrow> bool" for req where
  "faithful E \<Longrightarrow> pass req (trace_of (Reconcile E r req))"
| "faithful E \<Longrightarrow> pass req (trace_of (memberReconcile E mr q))"
| "pass req (trace_of (defragReconcile E dr q))"
| "pass req (trace_of (policyReconcile E pr q))"
| "pass req (trace_of (snapshotReconcile E sr q))"

lemma pass_everyStep: "pass req t \<Longrightarrow> everyStep (joinStep (nn_namespace req)) {} t"
  by (erule pass.cases)
    (auto intro: Reconcile_everyStep memberReconcile_everyStep free_everyStep joinDF.whole joinPF.whole joinSF.whole)

text \<open>
  The law of the API server: a member with an initial-cluster value that it delivers is one of those present at
  the start, or the value was sent to it before (whether or not the write was acknowledged).
\<close>

fun storeLaw :: "EtcdMember list \<Rightarrow> event list \<Rightarrow> bool" where
  "storeLaw known [] = True"
| "storeLaw known (e # es) =
     (let known' = setsInitialCluster e @ known in
      list_all (\<lambda>m. ms_InitialCluster (em_Spec m) = '''' \<or> list_ex (\<lambda>x. sameJoin x m) known') (delivered e) \<and>
      storeLaw known' es)"

text \<open>A member of the log may join: as \<open>mayJoin\<close>, or it was present at the start.\<close>

definition entitled :: "string \<Rightarrow> EtcdMember list \<Rightarrow> event set \<Rightarrow> EtcdMember \<Rightarrow> bool" where
  "entitled ns start H m \<longleftrightarrow> mayJoin ns (\<Union> (acknowledged ` H)) m \<or> list_ex (\<lambda>x. sameJoin x m) start"

lemma entitled_sameJoin: "sameJoin x m \<Longrightarrow> entitled ns start H x \<Longrightarrow> entitled ns start H m"
  by (auto simp: entitled_def mayJoin_def list_ex_iff sameJoin_def)

lemma entitled_mono: "H \<subseteq> K \<Longrightarrow> entitled ns start H m \<Longrightarrow> entitled ns start K m"
  by (auto simp: entitled_def mayJoin_def)

text \<open>Every member delivered by a lawful log of checked steps is entitled.\<close>

lemma log_entitled:
  assumes "everyStep (joinStep ns) H es" "storeLaw known es"
    and "list_all (entitled ns start H) known" and "\<And>h. h \<in> H \<Longrightarrow> list_all (entitled ns start H) (delivered h)"
    and "es = pre @ e # post" "h \<in> H \<union> set pre" "m \<in> set (delivered h)"
  shows "entitled ns start (H \<union> set pre) m"
  using assms
proof (induction pre arbitrary: H es known)
  case Nil
  then show ?case by (auto simp: list_all_iff)
next
  case (Cons a pre)
  let ?K = "insert a H" and ?known = "setsInitialCluster a @ known"
  from Cons.prems have step: "joinStep ns H a" "everyStep (joinStep ns) ?K (pre @ e # post)"
    and law: "list_all (\<lambda>m. ms_InitialCluster (em_Spec m) = '''' \<or> list_ex (\<lambda>x. sameJoin x m) ?known) (delivered a)"
      "storeLaw ?known (pre @ e # post)" by (simp_all add: Let_def)
  have up: "entitled ns start ?K x" if "entitled ns start H x" for x
    using that by (rule entitled_mono [rotated]) auto
  have set: "entitled ns start ?K x" if "x \<in> set (setsInitialCluster a)" for x
  proof -
    from step(1) that consider "mayJoin ns (\<Union> (acknowledged ` H)) x"
      | g y where "g \<in> H" "y \<in> set (delivered g)" "sameJoin y x"
      by (auto simp: joinStep_def list_all_iff list_ex_iff)
    then show ?thesis
    proof cases
      case 1
      then show ?thesis by (intro up) (simp add: entitled_def)
    next
      case 2
      with Cons.prems(4) show ?thesis by (intro up) (auto simp: list_all_iff intro: entitled_sameJoin)
    qed
  qed
  then have known: "list_all (entitled ns start ?K) ?known"
    using Cons.prems(3) up by (auto simp: list_all_iff)
  have here: "entitled ns start ?K x" if "x \<in> set (delivered a)" for x
  proof -
    from law(1) that consider "ms_InitialCluster (em_Spec x) = ''''" | y where "y \<in> set ?known" "sameJoin y x"
      unfolding list_all_iff list_ex_iff by blast
    then show ?thesis
    proof cases
      case 2
      with known show ?thesis unfolding list_all_iff by (blast intro: entitled_sameJoin)
    qed (simp add: entitled_def mayJoin_def)
  qed
  have "list_all (entitled ns start ?K) (delivered g)" if "g \<in> ?K" for g
    using that Cons.prems(4) [of g] here up unfolding list_all_iff by blast
  from Cons.IH [OF step(2) law(2) known this refl] Cons.prems(6,7) show ?case by auto
qed

text \<open>
  C6. A joining member is registered before it starts, in the running system. Take any number of passes
  of the five controllers, interleaved in any way and stopped anywhere, with an API server that only
  delivers initial-cluster values it was sent. Every Pod the operator creates is the Pod of a member with such a
  value, and that member is the seed, or was present at the start, or etcd had by then confirmed to
  know a peer URL of its name, in its member list or by accepting it as a learner.
\<close>

theorem joining_registered_before_start:
  assumes "interleaving passes log" "list_all (pass req) passes" "storeLaw start log"
    and "log = pre @ EPod (KWrite (Create pod) reply) # post"
  shows "\<exists>m mr formed. pod_Spec pod = pod_Spec (buildPod mr m formed) \<and> ms_InitialCluster (em_Spec m) \<noteq> '''' \<and>
    (ms_Bootstrap (em_Spec m) \<or> list_ex (\<lambda>x. sameJoin x m) start \<or>
     (\<exists>scheme svc. peerURL scheme (emName m) svc (nn_namespace req) \<in> \<Union> (acknowledged ` set pre)))"
proof -
  have steps: "everyStep (joinStep (nn_namespace req)) {} log"
    using assms(1,2) by (intro joinC.everyStep_interleaving) (auto simp: list_all_iff intro: pass_everyStep)
  then have "joinStep (nn_namespace req) (set pre) (EPod (KWrite (Create pod) reply))"
    by (simp add: assms(4) everyStep_append)
  then obtain h m mr formed where m: "h \<in> set pre" "m \<in> set (delivered h)" "ms_InitialCluster (em_Spec m) \<noteq> ''''"
    "pod_Spec pod = pod_Spec (buildPod mr m formed)"
    by (auto simp: joinStep_def list_ex_iff)
  have "entitled (nn_namespace req) start ({} \<union> set pre) m"
    by (rule log_entitled [OF steps assms(3) _ _ assms(4)])
      (use m in \<open>auto simp: entitled_def list_all_iff list_ex_iff sameJoin_def\<close>)
  with m(3,4) show ?thesis by (auto simp: entitled_def mayJoin_def)
qed

definition joiningCluster :: EtcdCluster where
  "joiningCluster =
     (let c = setProgressDeadline (snapshotSpecIntoObserved sampleCluster) 0 in
      c\<lparr>ec_Status := (ec_Status c)\<lparr>est_ClusterID := ''1'', est_ClusterToken := ''t''\<rparr>\<rparr>)"

definition joiningMember :: EtcdMember where
  "joiningMember = sampleMember\<lparr>em_Meta := (em_Meta sampleMember)\<lparr>om_Finalizers := [MemberFinalizer], om_OwnerReferences :=
       [\<lparr>or_APIVersion = '''', or_Kind = ''EtcdCluster'', or_Name = ''etcd'', or_UID = ''u1'', or_Controller = Some True,
         or_BlockOwnerDeletion = None\<rparr>]\<rparr>,
     em_Spec := (em_Spec sampleMember)\<lparr>ms_Bootstrap := False, ms_Storage := \<lparr>st_Size = 1, st_Medium = StorageMediumMemory, st_StorageClassName = None\<rparr>\<rparr>\<rparr>"

text \<open>What the cluster pass and then the member pass find.\<close>

definition registeringEnv :: env where
  "registeringEnv = sampleEnv\<lparr>
     e_kube := emptyKube\<lparr>
       k_clusters := emptyClient\<lparr>kc_get := (\<lambda>_ _ q. if nn_namespace q = ''prod'' then Inr joiningCluster else Inl notFound)\<rparr>,
       k_members := emptyClient\<lparr>kc_list := (\<lambda>_ _ _ _. Inr [joiningMember])\<rparr>\<rparr>,
     e_etcd := silentEtcd\<lparr>t_memberList := (\<lambda>_ _. Inr \<lparr>ml_ClusterId = 1, ml_Members = []\<rparr>),
       t_memberAddAsLearner := (\<lambda>_ _ urls. Inr [\<lparr>pb_ID = 2, pb_Name = '''', pb_PeerURLs = urls, pb_IsLearner = True\<rparr>])\<rparr>\<rparr>"

definition registeredMember :: EtcdMember where
  "registeredMember = withInitialCluster joiningCluster ''etcd-0=http://etcd-0.etcd.prod.svc:2380'' joiningMember"

definition startingEnv :: env where
  "startingEnv = sampleEnv\<lparr>e_kube := emptyKube\<lparr>k_members := emptyClient\<lparr>kc_get := (\<lambda>_ _ _. Inr registeredMember)\<rparr>\<rparr>\<rparr>"

definition clusterPass :: "event list" where
  "clusterPass = trace_of (Reconcile registeringEnv \<lparr>CertManagerAvailable = True, ClusterDomain = ''cluster.local'', HasRecorder = False\<rparr>
     \<lparr>nn_namespace = ''prod'', nn_name = ''etcd''\<rparr>)"

definition memberPass :: "event list" where
  "memberPass = trace_of (memberReconcile startingEnv \<lparr>mr_OperatorImage = ''operator:v1'', mr_EtcdImageRepository = ''''\<rparr>
     \<lparr>nn_namespace = ''prod'', nn_name = ''etcd-0''\<rparr>)"

lemma storeLaw_passes: "storeLaw [] (clusterPass @ memberPass)"
  by code_simp

lemma memberPass_starts: "list_ex (\<lambda>e. case e of EPod (KWrite (Create p) r) \<Rightarrow> True | _ \<Rightarrow> False) memberPass"
  by code_simp

lemma interleaving_concat: "interleaving [xs, ys] (xs @ ys)"
proof (induction xs)
  case Nil
  show ?case
  proof (induction ys)
    case (Cons y ys)
    then show ?case by (auto intro: interleaving.advance [where i = 1])
  qed (simp add: interleaving.stopped)
next
  case (Cons x xs)
  then show ?case by (auto intro: interleaving.advance [where i = 0])
qed

lemma faithful_envs: "faithful registeringEnv" "faithful startingEnv"
  by (auto simp: faithful_def registeringEnv_def startingEnv_def sampleEnv_defs joiningCluster_def sampleCluster_def
      setProgressDeadline_def snapshotSpecIntoObserved_def Let_def split: if_splits)

theorem joining_registered_before_start_witness:
  "\<exists>pre pod reply post m mr formed. clusterPass @ memberPass = pre @ EPod (KWrite (Create pod) reply) # post \<and>
     pod_Spec pod = pod_Spec (buildPod mr m formed) \<and> ms_InitialCluster (em_Spec m) \<noteq> '''' \<and>
     (ms_Bootstrap (em_Spec m) \<or> (\<exists>scheme svc. peerURL scheme (emName m) svc ''prod'' \<in> \<Union> (acknowledged ` set pre)))"
proof -
  from memberPass_starts obtain e where "e \<in> set (clusterPass @ memberPass)" "case e of EPod (KWrite (Create p) r) \<Rightarrow> True | _ \<Rightarrow> False"
    by (auto simp: list_ex_iff)
  then obtain pod reply where "EPod (KWrite (Create pod) reply) \<in> set (clusterPass @ memberPass)"
    by (auto split: event.splits kev.splits kwrite.splits)
  then obtain pre post where split: "clusterPass @ memberPass = pre @ EPod (KWrite (Create pod) reply) # post"
    by (meson split_list)
  have "list_all (pass \<lparr>nn_namespace = ''prod'', nn_name = ''etcd''\<rparr>) [clusterPass, memberPass]"
    using faithful_envs by (simp add: clusterPass_def memberPass_def pass.intros)
  from joining_registered_before_start [OF interleaving_concat this storeLaw_passes split] split show ?thesis by fastforce
qed

end
