(* ===== verification/Wiring.thy ===== *)
theory Wiring
  imports Footprint Startup
begin

text \<open>
  How the controllers are wired to the API server: the kinds each of them is registered for
  (\<^verbatim>\<open>SetupWithManager\<close>) and the permissions its markers ask for (\<^verbatim>\<open>+kubebuilder:rbac\<close>), from which the manager's role is
  generated. With the footprints of the passes: the role permits every call a pass makes, and what a pass creates
  is watched.
\<close>

section \<open>Kinds\<close>

datatype apiKind =
    KindCluster | KindMember | KindDefrag | KindPolicy | KindSnapshot
  | KindPod | KindPVC | KindService | KindSecret | KindPDB | KindCertificate | KindJob

text \<open>The API group and the resource of a kind.\<close>

fun groupResource :: "apiKind \<Rightarrow> string \<times> string" where
  "groupResource KindCluster = (''etcd-operator.cozystack.io'', ''etcdclusters'')"
| "groupResource KindMember = (''etcd-operator.cozystack.io'', ''etcdmembers'')"
| "groupResource KindDefrag = (''etcd-operator.cozystack.io'', ''etcddefrags'')"
| "groupResource KindPolicy = (''etcd-operator.cozystack.io'', ''etcddefragpolicies'')"
| "groupResource KindSnapshot = (''etcd-operator.cozystack.io'', ''etcdsnapshots'')"
| "groupResource KindPod = ('''', ''pods'')"
| "groupResource KindPVC = ('''', ''persistentvolumeclaims'')"
| "groupResource KindService = ('''', ''services'')"
| "groupResource KindSecret = ('''', ''secrets'')"
| "groupResource KindPDB = (''policy'', ''poddisruptionbudgets'')"
| "groupResource KindCertificate = (''cert-manager.io'', ''certificates'')"
| "groupResource KindJob = (''batch'', ''jobs'')"

section \<open>Registration\<close>

text \<open>
  The builder calls of \<^verbatim>\<open>SetupWithManager\<close>: the kind the controller is for, the kinds it owns, whose changes enqueue
  the owner, and the number of concurrent passes when it is set.
\<close>

record controllerSetup =
  su_For :: apiKind
  su_Owns :: "apiKind list"
  su_MaxConcurrentReconciles :: "nat option"

definition defragMaxConcurrentReconciles :: nat where "defragMaxConcurrentReconciles = 4"

definition clusterSetup :: controllerSetup where
  "clusterSetup = \<lparr>su_For = KindCluster, su_Owns = [KindMember, KindService, KindPDB], su_MaxConcurrentReconciles = None\<rparr>"

definition memberSetup :: controllerSetup where
  "memberSetup = \<lparr>su_For = KindMember, su_Owns = [KindPod, KindPVC], su_MaxConcurrentReconciles = None\<rparr>"

definition snapshotSetup :: controllerSetup where
  "snapshotSetup = \<lparr>su_For = KindSnapshot, su_Owns = [KindJob], su_MaxConcurrentReconciles = None\<rparr>"

definition defragSetup :: controllerSetup where
  "defragSetup = \<lparr>su_For = KindDefrag, su_Owns = [], su_MaxConcurrentReconciles = Some defragMaxConcurrentReconciles\<rparr>"

definition policySetup :: controllerSetup where
  "policySetup = \<lparr>su_For = KindPolicy, su_Owns = [KindDefrag], su_MaxConcurrentReconciles = None\<rparr>"

section \<open>Permissions\<close>

text \<open>A marker: its API group, its resource, which may name a subresource, and its verbs.\<close>

record rbacRule =
  ru_group :: string
  ru_resource :: string
  ru_verbs :: "string list"

definition rbac :: "string \<Rightarrow> string \<Rightarrow> string list \<Rightarrow> rbacRule" where
  "rbac g res vs = \<lparr>ru_group = g, ru_resource = res, ru_verbs = vs\<rparr>"

definition clusterRules :: "rbacRule list" where
  "clusterRules = [
     rbac ''etcd-operator.cozystack.io'' ''etcdclusters'' [''get'', ''list'', ''watch''],
     rbac ''etcd-operator.cozystack.io'' ''etcdclusters/status'' [''get'', ''update'', ''patch''],
     rbac ''etcd-operator.cozystack.io'' ''etcdclusters/finalizers'' [''update''],
     rbac ''etcd-operator.cozystack.io'' ''etcdmembers'' [''get'', ''list'', ''watch'', ''create'', ''delete''],
     rbac ''etcd-operator.cozystack.io'' ''etcdmembers/status'' [''get'', ''update'', ''patch''],
     rbac '''' ''services'' [''get'', ''list'', ''watch'', ''create'', ''update'', ''patch''],
     rbac ''policy'' ''poddisruptionbudgets'' [''get'', ''list'', ''watch'', ''create'', ''update'', ''patch'', ''delete''],
     rbac '''' ''secrets'' [''get'', ''list'', ''watch''],
     rbac '''' ''events'' [''create'', ''patch''],
     rbac ''cert-manager.io'' ''certificates'' [''get'', ''list'', ''watch'', ''create'', ''update'', ''patch'']]"

definition memberRules :: "rbacRule list" where
  "memberRules = [
     rbac ''etcd-operator.cozystack.io'' ''etcdmembers'' [''get'', ''list'', ''watch'', ''update'', ''patch''],
     rbac ''etcd-operator.cozystack.io'' ''etcdmembers/status'' [''get'', ''update'', ''patch''],
     rbac ''etcd-operator.cozystack.io'' ''etcdmembers/finalizers'' [''update''],
     rbac ''etcd-operator.cozystack.io'' ''etcdclusters'' [''get''],
     rbac '''' ''pods'' [''get'', ''list'', ''watch'', ''create'', ''patch'', ''delete''],
     rbac '''' ''persistentvolumeclaims'' [''get'', ''list'', ''watch'', ''create'', ''update'', ''patch'', ''delete''],
     rbac '''' ''secrets'' [''get'', ''list'', ''watch'']]"

definition snapshotRules :: "rbacRule list" where
  "snapshotRules = [
     rbac ''etcd-operator.cozystack.io'' ''etcdsnapshots'' [''get'', ''list'', ''watch'', ''create'', ''update'', ''patch'', ''delete''],
     rbac ''etcd-operator.cozystack.io'' ''etcdsnapshots/status'' [''get'', ''update'', ''patch''],
     rbac ''etcd-operator.cozystack.io'' ''etcdsnapshots/finalizers'' [''update''],
     rbac ''batch'' ''jobs'' [''get'', ''list'', ''watch'', ''create'', ''delete''],
     rbac '''' ''pods'' [''get'', ''list'', ''watch''],
     rbac '''' ''pods/log'' [''get'']]"

definition defragRules :: "rbacRule list" where
  "defragRules = [
     rbac ''etcd-operator.cozystack.io'' ''etcddefrags'' [''get'', ''list'', ''watch'', ''update'', ''patch'', ''delete''],
     rbac ''etcd-operator.cozystack.io'' ''etcddefrags/status'' [''get'', ''update'', ''patch''],
     rbac ''etcd-operator.cozystack.io'' ''etcdclusters'' [''get'', ''list'', ''watch''],
     rbac ''etcd-operator.cozystack.io'' ''etcdmembers'' [''get'', ''list'', ''watch''],
     rbac '''' ''events'' [''create'', ''patch'']]"

definition policyRules :: "rbacRule list" where
  "policyRules = [
     rbac ''etcd-operator.cozystack.io'' ''etcddefragpolicies'' [''get'', ''list'', ''watch'', ''update'', ''patch''],
     rbac ''etcd-operator.cozystack.io'' ''etcddefragpolicies/status'' [''get'', ''update'', ''patch''],
     rbac ''etcd-operator.cozystack.io'' ''etcddefrags'' [''get'', ''list'', ''watch'', ''create'', ''delete'']]"

text \<open>All markers make one role, which the manager's service account has.\<close>

definition managerRules :: "rbacRule list" where
  "managerRules = clusterRules @ memberRules @ snapshotRules @ defragRules @ policyRules"

text \<open>A request to the API server: group, resource, verb.\<close>

type_synonym access = "string \<times> string \<times> string"

definition permits :: "rbacRule list \<Rightarrow> access \<Rightarrow> bool" where
  "permits rules a =
     (case a of (g, res, v) \<Rightarrow> list_ex (\<lambda>ru. ru_group ru = g \<and> ru_resource ru = res \<and> v \<in> set (ru_verbs ru)) rules)"

definition onKind :: "apiKind \<Rightarrow> string \<Rightarrow> string \<Rightarrow> access" where
  "onKind k sub v = (fst (groupResource k), snd (groupResource k) @ sub, v)"

text \<open>
  What a call needs: a read through the cache needs the cache of that kind to be filled, which lists and
  watches it; status writes go to the status subresource.
\<close>

fun readAccess :: "apiKind \<Rightarrow> reader \<Rightarrow> string \<Rightarrow> access list" where
  "readAccess k Cached v = [onKind k '''' ''list'', onKind k '''' ''watch'']"
| "readAccess k Live v = [onKind k '''' v]"

fun writeAccess :: "apiKind \<Rightarrow> 'o kwrite \<Rightarrow> access" where
  "writeAccess k (Create x) = onKind k '''' ''create''"
| "writeAccess k (Update x) = onKind k '''' ''update''"
| "writeAccess k (StatusUpdate x) = onKind k ''/status'' ''update''"
| "writeAccess k (Patch x y) = onKind k '''' ''patch''"
| "writeAccess k (StatusPatch x y) = onKind k ''/status'' ''patch''"
| "writeAccess k (Delete x) = onKind k '''' ''delete''"

fun kindAccess :: "apiKind \<Rightarrow> 'o kev \<Rightarrow> access list" where
  "kindAccess k (KGet rd q r) = readAccess k rd ''get''"
| "kindAccess k (KList rd ns sel r) = readAccess k rd ''list''"
| "kindAccess k (KWrite w r) = [writeAccess k w]"

text \<open>Server-side apply is a patch; dialling and calling etcd does not go to the API server.\<close>

fun requiredAccess :: "event \<Rightarrow> access list" where
  "requiredAccess (ECluster k) = kindAccess KindCluster k"
| "requiredAccess (EMember k) = kindAccess KindMember k"
| "requiredAccess (EPod k) = kindAccess KindPod k"
| "requiredAccess (EPVC k) = kindAccess KindPVC k"
| "requiredAccess (EService k) = kindAccess KindService k"
| "requiredAccess (EPDB k) = kindAccess KindPDB k"
| "requiredAccess (ECertificate k) = kindAccess KindCertificate k"
| "requiredAccess (ESecret k) = kindAccess KindSecret k"
| "requiredAccess (EDefrag k) = kindAccess KindDefrag k"
| "requiredAccess (EPolicy k) = kindAccess KindPolicy k"
| "requiredAccess (ESnapshot k) = kindAccess KindSnapshot k"
| "requiredAccess (EJob k) = kindAccess KindJob k"
| "requiredAccess (ETrafficApply q v r) = [onKind KindService '''' ''patch'']"
| "requiredAccess (EPodLog ns p c r) = [onKind KindPod ''/log'' ''get'']"
| "requiredAccess (ERecord ty reason msg) = [('''', ''events'', ''create'')]"
| "requiredAccess (EDial c d) = []"
| "requiredAccess (EEtcd c x) = []"

definition authorized :: "rbacRule list \<Rightarrow> event \<Rightarrow> bool" where
  "authorized rules e = list_all (permits rules) (requiredAccess e)"

section \<open>Every call is permitted\<close>

lemmas role_defs = managerRules_def clusterRules_def memberRules_def snapshotRules_def defragRules_def policyRules_def
  rbac_def permits_def onKind_def

lemma secret_authorized: "authorized managerRules (ESecret (KGet rd q r))"
  by (cases rd) (simp_all add: authorized_def role_defs)

lemma job_authorized: "authorized managerRules (EJob (KGet rd q r))"
  by (cases rd) (simp_all add: authorized_def role_defs)

interpretation roleCF: pass_footprint "authorized managerRules"
  by unfold_locales (simp_all add: secret_authorized, simp_all add: authorized_def role_defs)

interpretation roleMF: member_footprint "authorized managerRules"
  by unfold_locales (simp_all add: secret_authorized, simp_all add: authorized_def role_defs)

interpretation roleDF: defrag_footprint "authorized managerRules"
  by unfold_locales (simp_all add: secret_authorized, simp_all add: authorized_def role_defs)

interpretation rolePF: policy_footprint "authorized managerRules"
  by unfold_locales (simp_all add: authorized_def role_defs)

interpretation roleSF: snapshot_footprint "authorized managerRules"
  by unfold_locales (simp_all add: job_authorized, simp_all add: authorized_def role_defs)

text \<open>
  C7. No pass is refused for want of permission. Whatever the API server and etcd reply, every request that a pass of
  the five controllers makes of the API server (reads, writes, status writes, server-side apply, Pod logs and
  Kubernetes events) is permitted by the role generated from the markers, reads through the cache counting as listing
  and watching the kind.
\<close>

theorem calls_authorized:
  "list_all (authorized managerRules) (trace_of (Reconcile E r req)) \<and>
   list_all (authorized managerRules) (trace_of (memberReconcile E mr req)) \<and>
   list_all (authorized managerRules) (trace_of (defragReconcile E dr req)) \<and>
   list_all (authorized managerRules) (trace_of (policyReconcile E pr req)) \<and>
   list_all (authorized managerRules) (trace_of (snapshotReconcile E sr req))"
  by (intro conjI emits_trace roleCF.whole roleMF.whole roleDF.whole rolePF.whole roleSF.whole)

section \<open>What is created is watched\<close>

fun isCreation :: "'o kev \<Rightarrow> bool" where
  "isCreation (KWrite (Create x) r) = True"
| "isCreation _ = False"

text \<open>The kind of the object an event creates.\<close>

definition created :: "apiKind \<Rightarrow> 'o kev \<Rightarrow> apiKind list" where
  "created k ev = (if isCreation ev then [k] else [])"

fun createdKinds :: "event \<Rightarrow> apiKind list" where
  "createdKinds (ECluster k) = created KindCluster k"
| "createdKinds (EMember k) = created KindMember k"
| "createdKinds (EPod k) = created KindPod k"
| "createdKinds (EPVC k) = created KindPVC k"
| "createdKinds (EService k) = created KindService k"
| "createdKinds (EPDB k) = created KindPDB k"
| "createdKinds (ECertificate k) = created KindCertificate k"
| "createdKinds (ESecret k) = created KindSecret k"
| "createdKinds (EDefrag k) = created KindDefrag k"
| "createdKinds (EPolicy k) = created KindPolicy k"
| "createdKinds (ESnapshot k) = created KindSnapshot k"
| "createdKinds (EJob k) = created KindJob k"
| "createdKinds _ = []"

definition createsOnly :: "apiKind list \<Rightarrow> event \<Rightarrow> bool" where
  "createsOnly ks e = list_all (\<lambda>k. k \<in> set ks) (createdKinds e)"

lemmas creation_defs = createsOnly_def created_def clusterSetup_def memberSetup_def defragSetup_def policySetup_def snapshotSetup_def

interpretation madeCF: pass_footprint "createsOnly (KindCertificate # su_Owns clusterSetup)"
  by unfold_locales (simp_all add: creation_defs)

interpretation madeMF: member_footprint "createsOnly (su_Owns memberSetup)"
  by unfold_locales (simp_all add: creation_defs)

interpretation madeDF: defrag_footprint "createsOnly (su_Owns defragSetup)"
  by unfold_locales (simp_all add: creation_defs)

interpretation madePF: policy_footprint "createsOnly (su_Owns policySetup)"
  by unfold_locales (simp_all add: creation_defs)

interpretation madeSF: snapshot_footprint "createsOnly (su_Owns snapshotSetup)"
  by unfold_locales (simp_all add: creation_defs)

text \<open>The manager can only start a controller whose watched kinds it may list and watch.\<close>

definition watchable :: "controllerSetup \<Rightarrow> bool" where
  "watchable su = list_all (\<lambda>k. list_all (permits managerRules) (readAccess k Cached ''list'')) (su_For su # su_Owns su)"

text \<open>
  An owner reference that blocks the deletion of the owner, as \<^verbatim>\<open>SetControllerReference\<close> sets it, needs, where the API
  server enforces it, the update of the owner's finalizers.
\<close>

definition mayOwn :: "controllerSetup \<Rightarrow> bool" where
  "mayOwn su = permits managerRules (onKind (su_For su) ''/finalizers'' ''update'')"

text \<open>
  C8. What a controller creates brings it back. Every kind of object that a pass creates is one the controller is
  registered to own, so that a change or the loss of the object starts a pass for the owner, except for the cluster's
  Certificates, which are not watched; every registered kind may be listed and watched under the role. The role lets the
  cluster, member and snapshot controllers block the deletion of an owner, and not the policy controller.
\<close>

theorem creations_watched:
  "list_all (createsOnly (KindCertificate # su_Owns clusterSetup)) (trace_of (Reconcile E r req)) \<and>
   list_all (createsOnly (su_Owns memberSetup)) (trace_of (memberReconcile E mr req)) \<and>
   list_all (createsOnly (su_Owns defragSetup)) (trace_of (defragReconcile E dr req)) \<and>
   list_all (createsOnly (su_Owns policySetup)) (trace_of (policyReconcile E pr req)) \<and>
   list_all (createsOnly (su_Owns snapshotSetup)) (trace_of (snapshotReconcile E sr req)) \<and>
   list_all watchable [clusterSetup, memberSetup, snapshotSetup, defragSetup, policySetup] \<and>
   KindCertificate \<notin> set (su_Owns clusterSetup) \<and>
   list_all mayOwn [clusterSetup, memberSetup, snapshotSetup] \<and> \<not> mayOwn policySetup"
proof -
  have "list_all watchable [clusterSetup, memberSetup, snapshotSetup, defragSetup, policySetup]"
    by (simp add: watchable_def creation_defs role_defs)
  moreover have "list_all mayOwn [clusterSetup, memberSetup, snapshotSetup]" "\<not> mayOwn policySetup"
    by (simp_all add: mayOwn_def creation_defs role_defs)
  moreover have "KindCertificate \<notin> set (su_Owns clusterSetup)" by (simp add: clusterSetup_def)
  ultimately show ?thesis
    by (intro conjI emits_trace madeCF.whole madeMF.whole madeDF.whole madePF.whole madeSF.whole)
qed

end
