(* ===== verification/Spec2Isabelle.thy ===== *)
theory Spec2Isabelle
  imports ClusterContract ClusterHealth MemberContract DefragContract PolicyContract RestoreContract MigrateOrder MigrateShown
    KubectlContract StartupContract SystemContract Wiring
begin

text \<open>
  \<^bold>\<open>The etcd operator, verified.\<close> This library models the Go code of the etcd operator (\<^verbatim>\<open>src/\<close>) and
  proves what its parts guarantee.

  \<^bold>\<open>The program.\<close> The operator runs etcd clusters on Kubernetes. A user writes an EtcdCluster; the \<^emph>\<open>cluster
  controller\<close> locks its spec as the current target and creates one EtcdMember per member, bootstraps the seed,
  discovers the cluster ID, adds further members as learners and promotes them, removes the newest ones on
  scale-down, keeps Services, certificates and the disruption budget, turns authentication on and reports status.
  The \<^emph>\<open>member controller\<close> gives each EtcdMember its volume claim and its Pod, replaces what is broken beyond
  repair, and removes the member from etcd before its object may go. \<^emph>\<open>Defragmentation\<close> runs take the members
  of a healthy cluster one by one; a \<^emph>\<open>policy\<close> stamps such runs on a cron schedule. A \<^emph>\<open>snapshot\<close> runs a Job whose
  agent streams a backup to a volume or to S3; the \<^emph>\<open>restore\<close> agent rebuilds a data directory before the seed
  starts. Beside the operator there are a tool that \<^emph>\<open>migrates\<close> clusters of the legacy operator in place, and a
  \<^emph>\<open>kubectl plugin\<close>. The controllers share no memory: they meet in the API server and in etcd.

  \<^bold>\<open>How code is modelled.\<close> A Go struct is a record with the struct's fields, a pointer an option, a slice a list, a
  map a finite map, an enumeration a datatype, an etcd ID a 64-bit word; other integers are unbounded where the
  API bounds them and wrap explicitly where the code can overflow (nanosecond durations). An error is a value with
  a kind and a message, and every early return is a branch. Code that calls the outside is written in an
  interaction monad: a run is a value and the list of calls with their replies (its trace). The replies are those of
  a parameter, a function of the history of calls: the API server and etcd (\<open>env\<close>), the host of an agent
  (\<open>host\<close>), the machine of a command line tool (\<open>world\<close>), the manager (\<open>boot\<close>). Third-party functions (owner
  references, finalizers, cron, PEM, SHA-256, YAML, cobra, client-go, clientv3, the AWS SDK) are fields of these
  parameters. A theorem without further hypotheses holds for every behaviour of them, failures included.

  \<^bold>\<open>Theories, in the order of use.\<close>
  \<^item> \<open>GoText\<close>: UTF-8 decoding, the printable characters of Unicode and the quoting verb \<^verbatim>\<open>%q\<close>. \<open>Prelude\<close>: strings, decimal and
    hexadecimal text, sorting, errors; the interaction monad; monitors (an automaton
    that reads the trace), the logic \<open>safe\<close> and \<open>emits\<close> over them and the locale \<open>monitor\<close>.
  \<^item> \<open>ApiTypes\<close> (\<^verbatim>\<open>src/api/v1alpha2\<close>), \<open>Conditions\<close> (condition setters; locale \<open>condition_setter\<close>), \<open>Env\<close> (events and
    calls), \<open>Helpers\<close> (\<^verbatim>\<open>helpers.go\<close>), \<open>EtcdDial\<close> (\<^verbatim>\<open>etcd_client.go\<close>, \<^verbatim>\<open>internal/etcdclient\<close>).
  \<^item> \<open>ClusterStatus\<close>, \<open>ClusterChildren\<close>, \<open>ClusterScale\<close>, \<open>ClusterReconcile\<close>: \<^verbatim>\<open>etcdcluster_controller.go\<close> and
    \<^verbatim>\<open>client_service.go\<close> (locale \<open>keyed_upsert\<close> for the port lists). The long \<^verbatim>\<open>Reconcile\<close> is split, in the order of the code, into \<open>Reconcile\<close>,
    \<open>reconcileTarget\<close>, \<open>reconcileMembership\<close> and \<open>reconcileScale\<close>.
  \<^item> \<open>ClusterFootprint\<close>, \<open>Footprint\<close>: the calls a pass can make, as locales from single functions up to the whole pass
    (\<open>children_footprint\<close>, \<open>report_footprint\<close>, \<open>cluster_footprint\<close>, \<open>promotion_footprint\<close>, \<open>membership_footprint\<close>, \<open>pass_footprint\<close>, and one for each
    other controller), interpreted wherever a property is about the kind of the calls.
  \<^item> \<open>ClusterContract\<close> (what status writes keep; locale \<open>status_contract\<close>), \<open>ClusterMembership\<close> (membership changes),
    \<open>ClusterHealth\<close> (reported conditions, deadline, authentication, requeue).
  \<^item> \<open>MemberPod\<close>, \<open>MemberController\<close>: \<^verbatim>\<open>etcdmember_controller.go\<close>; \<open>MemberContract\<close>: its guarantees.
  \<^item> \<open>DefragRules\<close> (health gate, order, triggers with binary64 arithmetic), \<open>DefragController\<close>:
    \<^verbatim>\<open>etcddefrag_controller.go\<close>; \<open>DefragContract\<close>. \<open>PolicyController\<close>: \<^verbatim>\<open>etcddefragpolicy_controller.go\<close>;
    \<open>PolicyContract\<close>.
  \<^item> \<open>SnapshotController\<close>: \<^verbatim>\<open>etcdsnapshot_controller.go\<close>, \<^verbatim>\<open>snapshot_job.go\<close>; \<open>Agent\<close>: \<^verbatim>\<open>src/internal/agent\<close>;
    \<open>AgentContract\<close>, \<open>SnapshotContract\<close>, \<open>RestoreContract\<close> (what a backup stores and a restore fetches).
  \<^item> \<open>Migrate\<close>: \<^verbatim>\<open>src/internal/migrate\<close>; \<open>Cli\<close>: the calls of the tools and \<^verbatim>\<open>src/internal/portforward\<close>; \<open>MigrateRun\<close>:
    \<^verbatim>\<open>src/cmd/etcd-migrate\<close>; \<open>MigrateContract\<close>, \<open>MigrateSafety\<close> (locale \<open>patient\<close> for polling), \<open>MigrateOrder\<close>,
    \<open>MigrateShown\<close>.
  \<^item> \<open>KubectlEtcd\<close>: \<^verbatim>\<open>src/cmd/kubectl-etcd\<close>; \<open>KubectlContract\<close>. \<open>Startup\<close>: \<^verbatim>\<open>src/main.go\<close>; \<open>StartupContract\<close>.
  \<^item> \<open>SystemContract\<close>: interleavings of the passes of all five controllers (locale \<open>cumulative\<close>). \<open>Wiring\<close>: the
    registrations (\<^verbatim>\<open>SetupWithManager\<close>) and the permissions (the \<^verbatim>\<open>+kubebuilder:rbac\<close> markers) of the controllers. This theory: the
    path of a snapshot through the controller, the entry point and the agent, and back through a restore.

  \<^bold>\<open>What is proved.\<close>
  \<^item> \<^emph>\<open>Cluster controller.\<close> At most one membership change per pass and none while a member is going; the cluster ID, the
    token and the authentication latch are never lost, in one pass and along every life of the object; the target
    stays locked until it is reached or its deadline has passed; the guards of every creation; the initial-cluster
    value of a joining member; the choice of the victim; the conditions and counters of a status report; the order of the
    authentication calls; terminal deadline states; every successful pass comes back; quorum under the budget.
  \<^item> \<^emph>\<open>Member controller.\<close> When a Pod is started and which; what is deleted and when; the finalizer is kept until etcd
    is without the member or every other member object is terminating; readiness; \<^verbatim>\<open>--initial-cluster-state=new\<close> exactly for the seed of an unformed cluster;
    well-formed Pods; and that a removal whose reply was lost blocks the deletion for ever.
  \<^item> \<^emph>\<open>Defragmentation.\<close> The guards of every Defragment, MoveLeader and AlarmDisarm; a run ends; the walk over missed
    ticks refines its specification by sets of ticks; what a policy pass stamps, skips and trims, for
    every schedule the parser returns.
  \<^item> \<^emph>\<open>Backup and restore.\<close> The life of a snapshot and its one Job; a backup overwrites only its own output and reports
    what it stored; a restore touches no existing data; environments round trip; the end-to-end
    theorems below: the artifact recorded is the one stored, and a restore from it reads exactly that.
  \<^item> \<^emph>\<open>Migration.\<close> Nothing is written without \<^verbatim>\<open>--apply\<close>, confirmation and both operators down; every manifest that is
    created was shown before the confirmation, and a Job or Service created beside them belongs to an adoption that was; no cluster is adopted
    without its backup; the order of an adoption's steps; adopted Pods and claims have one controller and are taken
    over without a write, and the cluster controller's pass finds the adopted members and changes none; polling ends by its deadline.
  \<^item> \<^emph>\<open>Plugin and entry point.\<close> The one request of each command; TLS discovery agrees with the Pods the operator
    builds; printed IDs are the ones read back; startup order and configuration; agent command lines are dispatched.
  \<^item> \<^emph>\<open>System.\<close> However the passes of the controllers interleave, the Pod of a joining member is created only after etcd
    knows the member. The role generated from the markers permits every call of every pass; what a pass creates is
    watched, certificates excepted.

  \<^bold>\<open>Bounds and fuel.\<close> Loops over lists are structural. \<^verbatim>\<open>RetryOnConflict\<close> makes \<open>l_retrySteps\<close> attempts; the catch-up walk of
    a policy is bounded by \<^verbatim>\<open>defragPolicyMaxCatchup\<close> as in the code; the schedule's look-back samples four gaps, as in the
    code. The polling loops of the migration have no counter of their own: \<open>w_rounds\<close> is the fuel of the model, and running out
    of it is the value \<open>unfinished\<close>, which the code does not have. C26 proves from the laws of the timers that a fuel larger
    than the number of intervals in the timeout is enough, so that every loop returns; the other theorems hold for any fuel.

  \<^bold>\<open>Not modelled.\<close> \<^verbatim>\<open>zz_generated.deepcopy.go\<close> (values are immutable here); the scheme
  registration (calls into controller-runtime only); cobra's flag parsing and help texts; logging and the progress lines of
  the migration's mutating phases; YAML (a parameter); list types of the API; the transport below the
  etcd client. Time is what the clock parameter returns; how long a call takes is not modelled, so client timeouts
  appear as error replies.
\<close>

section \<open>From the Job to the recorded artifact\<close>

definition printedBy :: "aevent \<Rightarrow> string" where
  "printedBy e = (case e of APrint t \<Rightarrow> t | _ \<Rightarrow> '''')"

text \<open>
  What an agent writes to its standard output, and the bytes it took from etcd: into a file, or through the
  upload to the object store.
\<close>

definition stdout :: "aevent list \<Rightarrow> string" where
  "stdout es = concat (map printedBy es)"

definition received :: "aevent \<Rightarrow> string option" where
  "received e = (case e of ACopySnapshot p (Inr data) \<Rightarrow> Some data | AUpload c b k m (Inr data) \<Rightarrow> Some data | _ \<Rightarrow> None)"

lemma stdout_simps [simp]: "stdout [] = ''''" "stdout (e # es) = printedBy e @ stdout es"
  by (simp_all add: stdout_def)

lemma backupMon_step:
  assumes "backupMon H v e = Some w"
  shows "bk_printed v \<Longrightarrow> bk_printed w \<and> printedBy e = ''''"
    and "\<not> bk_printed v \<Longrightarrow> \<not> bk_printed w \<Longrightarrow> printedBy e = ''''"
    and "\<not> bk_printed v \<Longrightarrow> bk_printed w \<Longrightarrow> \<exists>data. bk_stored v = Some data \<and> reportOf H data (printedBy e)"
    and "Some data \<in> {bk_written w, bk_stored w} \<Longrightarrow> Some data \<in> {bk_written v, bk_stored v, received e}"
  using assms by (cases e; auto simp: backupMon_def printedBy_def received_def split: if_splits sum.splits)+

lemma backupMon_printed: "runMonitor (backupMon H) v es = Some w \<Longrightarrow> bk_printed v \<Longrightarrow> stdout es = '''' \<and> bk_printed w"
proof (induction es arbitrary: v)
  case (Cons e es)
  then show ?case using backupMon_step(1) by (fastforce split: option.splits)
qed simp

lemma backupMon_stdout:
  assumes "runMonitor (backupMon H) v es = Some w" "\<not> bk_printed v" "bk_printed w"
  shows "\<exists>data. reportOf H data (stdout es) \<and> Some data \<in> {bk_written v, bk_stored v} \<union> received ` set es"
  using assms
proof (induction es arbitrary: v)
  case (Cons e es)
  then obtain u where u: "backupMon H v e = Some u" "runMonitor (backupMon H) u es = Some w" by (auto split: option.splits)
  show ?case
  proof (cases "bk_printed u")
    case True
    with backupMon_step(3) [OF u(1) Cons.prems(2)] backupMon_printed [OF u(2)] show ?thesis by auto
  next
    case False
    with Cons.IH [OF u(2)] Cons.prems(3) obtain data where d: "reportOf H data (stdout es)"
      "Some data \<in> {bk_written u, bk_stored u} \<union> received ` set es" by blast
    with backupMon_step(2) [OF u(1) Cons.prems(2) False] backupMon_step(4) [OF u(1), of data] show ?thesis
      by (intro exI [of _ data]) auto
  qed
qed simp

lemma RunSnapshot_stdout:
  assumes "value_of (RunSnapshot H) = Inr ()"
  shows "\<exists>data. reportOf H data (stdout (trace_of (RunSnapshot H))) \<and> Some data \<in> received ` set (trace_of (RunSnapshot H))"
proof -
  from safeD [OF RunSnapshot_mon [of H]] assms obtain v where
    "runMonitor (backupMon H) noBackup (trace_of (RunSnapshot H)) = Some v" "bk_printed v" by blast
  from backupMon_stdout [OF this(1) _ this(2)] show ?thesis by (auto simp: noBackup_def)
qed

text \<open>A destination whose URI \<^verbatim>\<open>%q\<close> prints as it is: every character is printable and neither a quote nor a backslash.\<close>

definition plainURI :: "SnapshotLocation \<Rightarrow> string \<Rightarrow> bool" where
  "plainURI loc name =
     (case locationDest ''/snapshot/data'' loc of
        Inl _ \<Rightarrow> True | Inr d \<Rightarrow> plainText (uri d name))"

text \<open>
  C37. A snapshot from end to end. The Job that the snapshot controller builds, with its environment resolved
  from its Secrets, starts the backup agent; and when the agent succeeds on any host, the controller
  reads from what the agent printed the destination of the snapshot's spec, the size and the SHA-256 digest of
  bytes that the agent received from etcd. Assumed: the snapshot has a name, every character of the destination is
  printable and neither a quote nor a backslash (others \<^verbatim>\<open>%q\<close> escapes, and the controller does not undo that), digests are 64 lower-case hexadecimal digits, and the snapshot is smaller than
  \<open>2 ^ 63\<close> bytes.
\<close>

theorem snapshot_end_to_end:
  assumes env: "h_getenv H = getenvOf sec (jobContainer snap c img)"
    and name: "om_Name (es_Meta snap) \<noteq> ''''" and plain: "plainURI (ss_Destination (es_Spec snap)) (om_Name (es_Meta snap))"
    and sha: "\<And>data. length (h_sha256Hex H data) = 64 \<and> list_all isHexLower (h_sha256Hex H data)"
    and size: "\<And>data. Some data \<in> received ` set (trace_of (RunSnapshot H)) \<Longrightarrow> int (length data) < 2 ^ 63"
    and ok: "value_of (RunSnapshot H) = Inr ()"
  shows "mainProgram H B (ctr_Command (jobContainer snap c img)) fl = RunAgent (Some SnapshotTimeout) (RunSnapshot H) \<and>
    (\<exists>d data. locationDest ''/snapshot/data'' (ss_Destination (es_Spec snap)) = Inr d \<and>
       Some data \<in> received ` set (trace_of (RunSnapshot H)) \<and>
       parseSnapshotMarker (stdout (trace_of (RunSnapshot H))) =
         Inr \<lparr>sa_URI = uri d (om_Name (es_Meta snap)), sa_SizeBytes = int (length data), sa_Checksum = ''sha256:'' @ h_sha256Hex H data\<rparr>)"
proof -
  from RunSnapshot_stdout [OF ok] obtain data d where d: "Some data \<in> received ` set (trace_of (RunSnapshot H))"
    "loadDestination (h_getenv H) = Inr d"
    "stdout (trace_of (RunSnapshot H)) = markerLine (uri d (snapshotName H)) (int (length data)) (h_sha256Hex H data)"
    by (auto simp: reportOf_def)
  have n: "snapshotName H = om_Name (es_Meta snap)" using snapshotJob_env name by (simp add: snapshotName_def env)
  have l: "locationDest ''/snapshot/data'' (ss_Destination (es_Spec snap)) = Inr d" using d(2) snapshotJob_env by (simp add: env)
  have u: "uri d (om_Name (es_Meta snap)) \<noteq> []" by (simp add: uri_def)
  have "parseSnapshotMarker ([] @ markerLine (uri d (om_Name (es_Meta snap))) (int (length data)) (h_sha256Hex H data) @ []) =
      Inr \<lparr>sa_URI = uri d (om_Name (es_Meta snap)), sa_SizeBytes = int (length data), sa_Checksum = ''sha256:'' @ h_sha256Hex H data\<rparr>"
    using plain l size [OF d(1)] sha [of data] u
    by (intro parseSnapshotMarker_markerLine) (auto simp: plainURI_def markerPrefix_def)
  moreover have "mainProgram H B (ctr_Command (jobContainer snap c img)) fl = RunAgent (Some SnapshotTimeout) (RunSnapshot H)"
    by (simp add: buildSnapshotJob_def mainProgram_def case_prod_beta Let_def)
  ultimately show ?thesis using d(1) l by (auto simp: d(3) n)
qed

definition claimSnapshot :: EtcdSnapshot where
  "claimSnapshot = \<lparr>es_Meta = emptyMeta\<lparr>om_Name := ''nightly'', om_Namespace := ''prod'', om_UID := ''s1''\<rparr>,
     es_Spec = \<lparr>ss_ClusterRef = ''etcd'', ss_Destination = \<lparr>sl_S3 = None, sl_PVC = Some \<lparr>pl_ClaimName = ''backups'', pl_SubPath = ''etcd''\<rparr>\<rparr>\<rparr>,
     es_Status = \<lparr>sst_Phase = SnapshotPhasePending, sst_Artifact = None, sst_Conditions = []\<rparr>\<rparr>"

text \<open>A host on which every call succeeds and nothing is in place yet.\<close>

definition willingHost :: "(string \<Rightarrow> string) \<Rightarrow> host" where
  "willingHost env = \<lparr>h_getenv = env, h_stat = (\<lambda>_ _. Inl (GoError NotFound ''absent'')), h_readFile = (\<lambda>_ _. Inr ''''),
     h_writeFile = (\<lambda>_ _. None), h_mkdirAll = (\<lambda>_ _. None), h_createTemp = (\<lambda>_ _. Inr ''/snapshot/data/etcd/tmp''), h_create = (\<lambda>_ _. None),
     h_copySnapshot = (\<lambda>_ _. Inr ''bytes''), h_sync = (\<lambda>_ _. None), h_rename = (\<lambda>_ _. None), h_remove = (\<lambda>_ _. None),
     h_removeAll = (\<lambda>_ _. None), h_glob = (\<lambda>_ _. Inr []), h_statfs = (\<lambda>_ _. Inr (0, 0)), h_lookPath = (\<lambda>_ _. Inr ''''),
     h_exec = (\<lambda>_ _. None), h_executable = (\<lambda>_ _. Inr ''''), h_open = (\<lambda>_ _. None), h_openTrunc = (\<lambda>_ _. None),
     h_copyFile = (\<lambda>_ _. None), h_close = (\<lambda>_ _. None), h_loadAWS = (\<lambda>_ _. None), h_headObject = (\<lambda>_ _. Inr \<lparr>sh_Metadata = fmempty, sh_ContentLength = None\<rparr>),
     h_upload = (\<lambda>_ _. Inr ''bytes''), h_download = (\<lambda>_ _. None), h_dialEtcd = (\<lambda>_ _. None), h_etcdSnapshot = (\<lambda>_ _. None),
     h_validPEM = (\<lambda>_. True), h_loadKeyPair = (\<lambda>_ _. Inr ('''', '''')), h_sha256Hex = (\<lambda>_. replicate 64 (CHR ''a''))\<rparr>"

definition jobHost :: host where
  "jobHost = willingHost (getenvOf (\<lambda>_ _. '''') (jobContainer claimSnapshot sampleCluster ''operator:v1''))"

lemma jobHost_runs: "value_of (RunSnapshot jobHost) = Inr ()" "list_all (\<lambda>e. received e \<in> {None, Some ''bytes''}) (trace_of (RunSnapshot jobHost))"
  by code_simp+

lemma jobHost_plain: "plainURI (ss_Destination (es_Spec claimSnapshot)) (om_Name (es_Meta claimSnapshot))"
  by code_simp

theorem snapshot_end_to_end_witness:
  "\<exists>d data. locationDest ''/snapshot/data'' (ss_Destination (es_Spec claimSnapshot)) = Inr d \<and>
     Some data \<in> received ` set (trace_of (RunSnapshot jobHost)) \<and>
     parseSnapshotMarker (stdout (trace_of (RunSnapshot jobHost))) =
       Inr \<lparr>sa_URI = uri d (om_Name (es_Meta claimSnapshot)), sa_SizeBytes = int (length data), sa_Checksum = ''sha256:'' @ h_sha256Hex jobHost data\<rparr>"
proof (rule snapshot_end_to_end [where H = jobHost and snap = claimSnapshot, THEN conjunct2])
  show "int (length data) < 2 ^ 63" if "Some data \<in> received ` set (trace_of (RunSnapshot jobHost))" for data
    using that jobHost_runs(2) by (auto simp: list_all_iff)
qed (simp_all add: jobHost_runs jobHost_plain, simp_all add: jobHost_def willingHost_def claimSnapshot_def isHexLower_def list_all_iff)

section \<open>From the recorded artifact back to a cluster\<close>

text \<open>
  C36. A restore reads the backup. Take a snapshot whose backup agent has succeeded in the Job's container, and a
  restore whose source is the snapshot's destination with the key or the path of the URI recorded for it. Then, on any
  host, the restore agent in the seed's init container looks up and downloads only the object the backup has
  uploaded, through a client of the same endpoint, region and addressing, and runs etcdutl only on a file it has
  downloaded and not removed, or on the file the backup has moved into place, seen from where the restore mounts
  the volume; and the claim mounted there is the claim the backup wrote to.
\<close>

theorem restore_reads_backup:
  assumes backup: "h_getenv H = getenvOf sec (jobContainer snap c img)" "om_Name (es_Meta snap) \<noteq> []"
    and ok: "value_of (RunSnapshot H) = Inr ()"
    and dest: "locationDest ''/snapshot/data'' (ss_Destination (es_Spec snap)) = Inr d"
    and source: "rs_Source rs = sourceOf (ss_Destination (es_Spec snap)) (uri d (om_Name (es_Meta snap)))"
    and restore: "h_getenv R = getenvOf sec' (last (fst (restoreInitContainers m rs peerAddr opImg etcdImg)))"
  shows "accepted (fetchMon (storedObjects (trace_of (RunSnapshot H))) (inRestoreVolume ` storedFiles (trace_of (RunSnapshot H)))) {}
      (trace_of (RunRestore R)) \<and>
    claimAt ''/restore/src'' (ctr_VolumeMounts (last (fst (restoreInitContainers m rs peerAddr opImg etcdImg))))
      (snd (restoreInitContainers m rs peerAddr opImg etcdImg)) =
    claimAt ''/snapshot/data'' (ctr_VolumeMounts (jobContainer snap c img)) (pos_Volumes (job_PodSpec (buildSnapshotJob snap c img)))"
proof -
  let ?es = "trace_of (RunSnapshot H)" and ?name = "om_Name (es_Meta snap)"
  have "snapshotName H = ?name" "loadDestination (h_getenv H) = Inr d"
    using snapshotJob_env backup dest by (simp_all add: snapshotName_def)
  with RunSnapshot_stores [OF ok] obtain e where e: "e \<in> set ?es" "isStore d ?name e" by metis
  obtain src where src: "locationDest ''/restore/src'' (rs_Source rs) = Inr src" "d_kind src = d_kind d"
    "clientFor src = clientFor d" "d_s3Bucket src = d_s3Bucket d"
    "d_kind d = ''s3'' \<and> d_s3Key src = objectKey d ?name \<or>
     d_kind d = ''pvc'' \<and> pathJoin [d_pvcMount src, d_pvcSubPath src] = inRestoreVolume (localPath d ?name)"
    using sourceOf_location [OF dest, of ?name] by (auto simp: source)
  have s3: "(clientFor src, d_s3Bucket src, d_s3Key src) \<in> storedObjects ?es" if "d_kind src = ''s3''"
    using that src isStore_stored(1) [OF e] by auto
  have pvc: "pathJoin [d_pvcMount src, d_pvcSubPath src] \<in> inRestoreVolume ` storedFiles ?es" if "d_kind src \<noteq> ''s3''"
    using that src isStore_stored(2) [OF e] by auto
  have "loadDestination (h_getenv R) = Inr src" using restoreContainer_source src(1) by (simp add: restore)
  from safe_accepted [OF RunRestore_fetches [OF this s3 pvc]] show ?thesis
    by (simp add: restore_claim job_claim source sourceOf_claim)
qed

text \<open>A new cluster from the snapshot, on a host where the volume holds the file and there is room.\<close>

definition claimRestore :: RestoreSpec where
  "claimRestore = \<lparr>rs_Source = sourceOf (ss_Destination (es_Spec claimSnapshot)) ''file:///snapshot/data/etcd/nightly.db''\<rparr>"

definition restoreContainers :: "Container list \<times> Volume list" where
  "restoreContainers = restoreInitContainers sampleMember claimRestore ''http://etcd-0.etcd.prod.svc:2380'' ''operator:v1'' ''etcd:v3''"

definition restoreHost :: host where
  "restoreHost = (willingHost (getenvOf (\<lambda>_ _. []) (last (fst restoreContainers))))
     \<lparr>h_stat := (\<lambda>_ p. if p = ''/var/lib/etcd/member'' then Inl (GoError NotFound ''absent'')
        else Inr \<lparr>fi_IsDir = False, fi_Size = 5, fi_IsRegular = True, fi_Executable = True, fi_TypeText = [], fi_PermText = []\<rparr>),
      h_statfs := (\<lambda>_ _. Inr (1000, 1))\<rparr>"

lemma restoreHost_execs:
  "list_ex (\<lambda>e. case e of AExec c args r \<Rightarrow> args ! 2 = ''/restore/src/etcd/nightly.db'' | _ \<Rightarrow> False) (trace_of (RunRestore restoreHost))"
  by code_simp

theorem restore_reads_backup_witness:
  "accepted (fetchMon (storedObjects (trace_of (RunSnapshot jobHost))) (inRestoreVolume ` storedFiles (trace_of (RunSnapshot jobHost)))) {}
     (trace_of (RunRestore restoreHost)) \<and>
   list_ex (\<lambda>e. case e of AExec c args r \<Rightarrow> args ! 2 = ''/restore/src/etcd/nightly.db'' | _ \<Rightarrow> False) (trace_of (RunRestore restoreHost))"
proof
  show "accepted (fetchMon (storedObjects (trace_of (RunSnapshot jobHost))) (inRestoreVolume ` storedFiles (trace_of (RunSnapshot jobHost)))) {}
     (trace_of (RunRestore restoreHost))"
    by (rule restore_reads_backup [where snap = claimSnapshot and rs = claimRestore and R = restoreHost, THEN conjunct1, OF _ _ jobHost_runs(1)])
      (simp add: jobHost_def willingHost_def, simp add: claimSnapshot_def, simp add: claimSnapshot_def locationDest_def,
       simp add: claimRestore_def claimSnapshot_def uri_def localPath_def, simp add: restoreHost_def willingHost_def restoreContainers_def)
qed (rule restoreHost_execs)

end
